(* ===== verification/Prelude.thy ===== *)
theory Prelude
  imports Main "HOL-Library.List_Lexorder" "HOL-Library.Char_ord" "HOL-Library.Multiset"
begin

text \<open>
  What every theory of the development shares: how Go values are represented, the errors of the
  program, the parts of Go's \<open>strings\<close> package the sources use, and generic lemmas on lists and maps.

  Go strings are byte strings: \<^typ>\<open>string\<close> is a list of 8-bit characters. A nil-able pointer or
  interface is an \<open>option\<close>. A Go function that returns \<open>(T, error)\<close> is a value of the sum type
  \<open>error + 'a\<close>. A function that may also panic returns a \<open>go\<close> value. A Go map is a partial function
  when only lookups matter and an association list when the code ranges over it: Go leaves the order
  of a \<open>range\<close> unspecified, so the list stands for the order of that run and theorems hold for every
  order. Times are nanoseconds since Go's zero time, durations are nanoseconds.
\<close>

section \<open>Rule collections\<close>

named_theorems store_invariant \<open>preservation of the store holder's invariant\<close>
named_theorems builder_invariant \<open>preservation of the engine builder's invariant\<close>
named_theorems traverse_invariant \<open>preservation of the traverser's invariants\<close>
named_theorems go_results \<open>equations of the result combinators\<close>

section \<open>Errors, panics and results\<close>

text \<open>
  The errors of the program. \<open>ErrorString\<close> is \<open>errors.New\<close> or \<open>fmt.Errorf\<close> without a wrapped error,
  \<open>ErrorWrap\<close> is \<open>fmt.Errorf\<close> with \<open>%w\<close> at the end of its message, \<open>JoinedErrors\<close> is \<open>errors.Join\<close>
  and \<open>ExecError\<close> is the execution error of \<open>text/template\<close> with the error it unwraps to, if any.
\<close>

datatype error =
    ErrorString string
  | ErrorWrap string error string
  | ClassNotFoundError string string
  | DomainNotFoundError string
  | AuthError error
  | ExecError string "error option"
  | JoinedErrors "error list"

datatype 'a go = Returns 'a | Panics string

type_synonym 'a result = "error + 'a"

type_synonym time = int
type_synonym duration = int

abbreviation zero_time :: time where "zero_time \<equiv> 0"

definition second :: duration where "second = 1000000000"
definition minute :: duration where "minute = 60 * second"
definition hour :: duration where "hour = 60 * minute"

text \<open>The first error of a sequence of fallible steps, or the list of their values.\<close>

fun collect_results :: "('a \<Rightarrow> 'b result) \<Rightarrow> 'a list \<Rightarrow> 'b list result" where
  "collect_results f [] = Inr []"
| "collect_results f (x # xs) =
     (case f x of
        Inl e \<Rightarrow> Inl e
      | Inr y \<Rightarrow> (case collect_results f xs of Inl e \<Rightarrow> Inl e | Inr ys \<Rightarrow> Inr (y # ys)))"

lemma collect_results_Inr_iff [go_results]:
  "collect_results f xs = Inr ys \<longleftrightarrow> list_all2 (\<lambda>x y. f x = Inr y) xs ys"
proof (induction xs arbitrary: ys)
  case Nil
  show ?case by (cases ys) simp_all
next
  case (Cons x xs)
  show ?case
  proof (cases "collect_results f xs")
    case (Inl e)
    then have "\<not> list_all2 (\<lambda>x y. f x = Inr y) xs zs" for zs using Cons by (metis Inl_Inr_False)
    with Inl show ?thesis by (cases ys) (auto split: sum.splits)
  next
    case (Inr zs)
    then have "list_all2 (\<lambda>x y. f x = Inr y) xs us \<longleftrightarrow> us = zs" for us
      using Cons [of us] by auto
    with Inr show ?thesis by (cases ys) (auto split: sum.splits)
  qed
qed

lemma collect_results_Inl:
  "collect_results f xs = Inl e \<Longrightarrow> \<exists>x \<in> set xs. f x = Inl e"
  by (induction xs) (auto split: sum.splits)

lemma collect_results_all_Inr:
  "(\<exists>ys. collect_results f xs = Inr ys) \<longleftrightarrow> (\<forall>x \<in> set xs. \<exists>y. f x = Inr y)"
  by (induction xs) (auto split: sum.splits)

lemma collect_results_length: "collect_results f xs = Inr ys \<Longrightarrow> length ys = length xs"
  by (simp add: collect_results_Inr_iff list_all2_lengthD)

section \<open>Strings\<close>

text \<open>\<open>strings.Cut\<close> at a single character: the part before the first \<open>c\<close>, the part after it, and
  whether \<open>c\<close> was found.\<close>

definition strings_Cut :: "string \<Rightarrow> char \<Rightarrow> string \<times> string \<times> bool" where
  "strings_Cut s c =
     (case dropWhile (\<lambda>x. x \<noteq> c) s of
        [] \<Rightarrow> (s, [], False)
      | _ # rest \<Rightarrow> (takeWhile (\<lambda>x. x \<noteq> c) s, rest, True))"

text \<open>\<open>strings.Split\<close> and \<open>strings.SplitSeq\<close> at a single character: the fields between separators,
  always at least one.\<close>

fun strings_Split :: "char \<Rightarrow> string \<Rightarrow> string list" where
  "strings_Split c [] = [[]]"
| "strings_Split c (x # xs) =
     (if x = c then [] # strings_Split c xs
      else (case strings_Split c xs of
              [] \<Rightarrow> [[x]]
            | f # fs \<Rightarrow> (x # f) # fs))"

text \<open>White space of \<open>strings.TrimSpace\<close>, for the bytes of an ASCII string, and of \<open>\s\<close> in a
  regular expression (which leaves out the vertical tab).\<close>

definition unicode_space :: "char \<Rightarrow> bool" where
  "unicode_space c \<longleftrightarrow> c \<in> set [CHR 0x09, CHR 0x0A, CHR 0x0B, CHR 0x0C, CHR 0x0D, CHR 0x20]"

definition regexp_space :: "char \<Rightarrow> bool" where
  "regexp_space c \<longleftrightarrow> c \<in> set [CHR 0x09, CHR 0x0A, CHR 0x0C, CHR 0x0D, CHR 0x20]"

definition strings_TrimSpace :: "string \<Rightarrow> string" where
  "strings_TrimSpace s = rev (dropWhile unicode_space (rev (dropWhile unicode_space s)))"

fun strings_HasPrefix :: "string \<Rightarrow> string \<Rightarrow> bool" where
  "strings_HasPrefix s [] = True"
| "strings_HasPrefix [] (p # ps) = False"
| "strings_HasPrefix (c # cs) (p # ps) = (c = p \<and> strings_HasPrefix cs ps)"

definition strings_CutPrefix :: "string \<Rightarrow> string \<Rightarrow> string \<times> bool" where
  "strings_CutPrefix s p =
     (if strings_HasPrefix s p then (drop (length p) s, True) else (s, False))"

text \<open>\<open>strings.Index\<close>: the first position of a substring, \<open>None\<close> for Go's \<open>-1\<close>.\<close>

fun strings_Index :: "string \<Rightarrow> string \<Rightarrow> nat option" where
  "strings_Index [] p = (if p = [] then Some 0 else None)"
| "strings_Index (c # cs) p =
     (if strings_HasPrefix (c # cs) p then Some 0 else map_option Suc (strings_Index cs p))"

text \<open>\<open>strings.Join\<close>.\<close>

fun strings_Join :: "string \<Rightarrow> string list \<Rightarrow> string" where
  "strings_Join sep [] = []"
| "strings_Join sep [s] = s"
| "strings_Join sep (s # t # ts) = s @ sep @ strings_Join sep (t # ts)"

lemma strings_HasPrefix_iff: "strings_HasPrefix s p \<longleftrightarrow> (\<exists>t. s = p @ t)"
  by (induction s p rule: strings_HasPrefix.induct) auto

lemma strings_Index_Some:
  "strings_Index s p = Some i \<Longrightarrow> i \<le> length s \<and> (\<exists>t. drop i s = p @ t)"
  by (induction s arbitrary: i) (auto split: if_splits simp: strings_HasPrefix_iff)

lemma occurs_Cons:
  "(\<exists>u v. c # cs = u @ p @ v) \<longleftrightarrow> (\<exists>v. c # cs = p @ v) \<or> (\<exists>u v. cs = u @ p @ v)"
  (is "?l \<longleftrightarrow> ?r")
proof
  assume ?l
  then obtain u v where "c # cs = u @ p @ v" by blast
  then show ?r by (cases u) auto
next
  assume ?r
  then show ?l by (metis append_Cons append_Nil)
qed

lemma strings_Index_None: "strings_Index s p = None \<longleftrightarrow> (\<nexists>u v. s = u @ p @ v)"
proof (induction s)
  case Nil
  then show ?case by simp
next
  case (Cons c cs)
  show ?case
    by (cases "strings_HasPrefix (c # cs) p")
       (simp_all only: strings_Index.simps if_True if_False occurs_Cons strings_HasPrefix_iff
         option.distinct option.map_disc_iff Cons simp_thms)
qed

lemma strings_Index_first:
  "strings_Index s p = Some i \<Longrightarrow> s = u @ p @ v \<Longrightarrow> i \<le> length u"
proof (induction s arbitrary: i u)
  case Nil
  then show ?case by (auto split: if_splits)
next
  case (Cons c cs)
  show ?case
  proof (cases "strings_HasPrefix (c # cs) p")
    case True
    then have "strings_Index (c # cs) p = Some 0" by simp
    with Cons.prems(1) show ?thesis by (metis le0 option.inject)
  next
    case False
    then obtain j where j: "strings_Index cs p = Some j" "i = Suc j"
      using Cons.prems(1) by auto
    have "u \<noteq> []" using False Cons.prems(2) by (auto simp: strings_HasPrefix_iff)
    then obtain d u' where u: "u = d # u'" by (cases u) auto
    with Cons.prems(2) have "cs = u' @ p @ v" by simp
    from Cons.IH [OF j(1) this] j u show ?thesis by simp
  qed
qed

lemma strings_Split_not_Nil [simp]: "strings_Split c s \<noteq> []"
  by (induction s) (auto split: list.splits)

lemma strings_Split_fields: "f \<in> set (strings_Split c s) \<Longrightarrow> c \<notin> set f"
proof (induction s arbitrary: f)
  case Nil
  then show ?case by simp
next
  case (Cons x xs)
  obtain g gs where s: "strings_Split c xs = g # gs"
    by (cases "strings_Split c xs") auto
  show ?case
  proof (cases "x = c")
    case True
    with Cons show ?thesis by auto
  next
    case False
    from Cons.prems False s have "f = x # g \<or> f \<in> set gs" by auto
    moreover have "c \<notin> set g" using Cons.IH s by auto
    ultimately show ?thesis using False Cons.IH s by auto
  qed
qed

lemma strings_Split_no_sep: "c \<notin> set s \<Longrightarrow> strings_Split c s = [s]"
  by (induction s) auto

lemma strings_Split_append: "strings_Split c (s @ c # t) = strings_Split c s @ strings_Split c t"
proof (induction s)
  case (Cons x s)
  then show ?case by (cases "strings_Split c s") auto
qed simp

lemma strings_Split_chars: "x \<in> set (strings_Split c s) \<Longrightarrow> set x \<subseteq> set s"
proof (induction s arbitrary: x)
  case (Cons a s)
  show ?case
  proof (cases "strings_Split c s")
    case (Cons f fs)
    with Cons.prems Cons.IH [of f] Cons.IH [of x] show ?thesis by (auto split: if_splits)
  qed (use Cons.prems in auto)
qed simp

lemma strings_Join_Split: "strings_Join [c] (strings_Split c s) = s"
proof (induction s)
  case Nil
  then show ?case by simp
next
  case (Cons x xs)
  obtain g gs where s: "strings_Split c xs = g # gs"
    by (cases "strings_Split c xs") auto
  with Cons show ?case by (cases gs) auto
qed

lemma dropWhile_hd: "s \<noteq> [] \<Longrightarrow> \<not> P (hd s) \<Longrightarrow> dropWhile P s = s"
  by (cases s) auto

lemma strings_TrimSpace_id:
  "s = [] \<or> (\<not> unicode_space (hd s) \<and> \<not> unicode_space (last s)) \<Longrightarrow> strings_TrimSpace s = s"
  by (cases "s = []") (simp_all add: strings_TrimSpace_def dropWhile_hd hd_rev)

lemma strings_TrimSpace_Nil_iff: "strings_TrimSpace s = [] \<longleftrightarrow> (\<forall>c \<in> set s. unicode_space c)"
proof
  assume "strings_TrimSpace s = []"
  then have "\<forall>c \<in> set (dropWhile unicode_space s). unicode_space c"
    by (simp add: strings_TrimSpace_def)
  moreover have "\<forall>c \<in> set (takeWhile unicode_space s). unicode_space c"
    by (auto dest: set_takeWhileD)
  moreover have "set s = set (takeWhile unicode_space s) \<union> set (dropWhile unicode_space s)"
    by (metis set_append takeWhile_dropWhile_id)
  ultimately show "\<forall>c \<in> set s. unicode_space c" by blast
next
  assume "\<forall>c \<in> set s. unicode_space c"
  then have "dropWhile unicode_space s = []" by (simp only: dropWhile_eq_Nil_conv)
  then show "strings_TrimSpace s = []"
    unfolding strings_TrimSpace_def by (simp only: rev.simps dropWhile.simps)
qed

lemma strings_TrimSpace_set: "set (strings_TrimSpace s) \<subseteq> set s"
  by (auto simp: strings_TrimSpace_def dest!: set_dropWhileD)

lemma strings_Cut_found:
  assumes "c \<notin> set s"
  shows "strings_Cut (s @ c # t) c = (s, t, True)"
proof -
  from assms have "\<forall>x \<in> set s. x \<noteq> c" by auto
  then show ?thesis by (simp add: strings_Cut_def)
qed

lemma strings_Cut_absent:
  assumes "c \<notin> set s"
  shows "strings_Cut s c = (s, [], False)"
proof -
  from assms have "dropWhile (\<lambda>x. x \<noteq> c) s = []" unfolding dropWhile_eq_Nil_conv by auto
  then show ?thesis unfolding strings_Cut_def by (simp only: list.case)
qed

text \<open>Decimal rendering of a natural number and an integer (\<open>strconv.Itoa\<close>, \<open>%v\<close> of an int).\<close>

definition digit_char :: "nat \<Rightarrow> char" where
  "digit_char d = char_of (48 + d)"

fun show_nat :: "nat \<Rightarrow> string" where
  "show_nat n = (if n < 10 then [digit_char n] else show_nat (n div 10) @ [digit_char (n mod 10)])"

declare show_nat.simps [simp del]

definition show_int :: "int \<Rightarrow> string" where
  "show_int i = (if i < 0 then CHR ''-'' # show_nat (nat (- i)) else show_nat (nat i))"

text \<open>\<open>Error()\<close>: the message of an error.\<close>

fun Error :: "error \<Rightarrow> string" where
  "Error (ErrorString s) = s"
| "Error (ErrorWrap s e t) = s @ Error e @ t"
| "Error (ClassNotFoundError d n) = ''class not found: '' @ d @ '': '' @ n"
| "Error (DomainNotFoundError d) = ''domain not found: '' @ d"
| "Error (AuthError e) = Error e"
| "Error (ExecError s e) = s"
| "Error (JoinedErrors es) = strings_Join [CHR 0x0A] (map Error es)"

section \<open>Lists and maps\<close>

text \<open>A left fold whose state only grows by appending keeps its prefix.\<close>

lemma fold_append_prefix:
  assumes "\<And>x s. \<exists>ys. f (g x s) = f s @ ys"
  shows "\<exists>ys. f (fold g xs s) = f s @ ys"
proof (induction xs arbitrary: s)
  case Nil
  then show ?case by simp
next
  case (Cons x xs)
  obtain ys where "f (g x s) = f s @ ys" using assms by blast
  moreover obtain zs where "f (fold g xs (g x s)) = f (g x s) @ zs" using Cons by blast
  ultimately show ?case by simp
qed

text \<open>An invariant of one step is an invariant of a fold.\<close>

lemma fold_invariant_step:
  assumes "P s" and "\<And>x s. x \<in> set xs \<Longrightarrow> P s \<Longrightarrow> P (f x s)"
  shows "P (fold f xs s)"
  using assms by (induction xs arbitrary: s) auto

text \<open>A value that one step does not change is not changed by a fold.\<close>

lemma fold_unchanged:
  assumes "\<And>x s. g (f x s) = g s"
  shows "g (fold f xs s) = g s"
  using assms by (induction xs arbitrary: s) auto

text \<open>Updating one element of a list changes a sum by that element's share.\<close>

lemma sum_list_map_update:
  fixes f :: "'a \<Rightarrow> nat"
  assumes "i < length xs"
  shows "sum_list (map f (xs[i := y])) + f (xs ! i) = sum_list (map f xs) + f y"
  using assms
proof (induction xs arbitrary: i)
  case (Cons x xs)
  then show ?case by (cases i) (auto simp: add_ac)
qed simp

lemma sum_list_map_member:
  fixes f :: "'a \<Rightarrow> nat"
  shows "x \<in> set xs \<Longrightarrow> f x \<le> sum_list (map f xs)"
  by (simp add: member_le_sum_list)

text \<open>Writing a key of an association list (a Go map assignment): the first entry is replaced, a new
  key goes to the end.\<close>

fun al_set :: "'k \<Rightarrow> 'v \<Rightarrow> ('k \<times> 'v) list \<Rightarrow> ('k \<times> 'v) list" where
  "al_set k v [] = [(k, v)]"
| "al_set k v (p # ps) = (if fst p = k then (k, v) # ps else p # al_set k v ps)"

definition al_delete :: "'k \<Rightarrow> ('k \<times> 'v) list \<Rightarrow> ('k \<times> 'v) list" where
  "al_delete k m = filter (\<lambda>p. fst p \<noteq> k) m"

lemma map_of_al_set [simp]: "map_of (al_set k v m) = (map_of m)(k \<mapsto> v)"
  by (induction m) (auto simp: fun_eq_iff)

lemma keys_al_set: "fst ` set (al_set k v m) = insert k (fst ` set m)"
  by (induction m) auto

lemma map_fst_al_set:
  "map fst (al_set k v m) = (if k \<in> fst ` set m then map fst m else map fst m @ [k])"
  by (induction m) auto

lemma distinct_al_set: "distinct (map fst m) \<Longrightarrow> distinct (map fst (al_set k v m))"
  by (auto simp: map_fst_al_set)

lemma al_set_not_Nil [simp]: "al_set k v m \<noteq> []"
  by (cases m) auto

lemma length_al_set: "length (al_set k v m) = (if k \<in> fst ` set m then length m else Suc (length m))"
  by (metis length_append_singleton length_map map_fst_al_set)

lemma map_of_al_delete [simp]: "map_of (al_delete k m) = (map_of m)(k := None)"
  by (induction m) (auto simp: al_delete_def fun_eq_iff)

lemma distinct_al_delete: "distinct (map fst m) \<Longrightarrow> distinct (map fst (al_delete k m))"
  by (induction m) (auto simp: al_delete_def)

text \<open>\<open>reflect.DeepEqual\<close> of two Go maps, as association lists: the same keys with the same values.\<close>

definition same_map :: "('k \<times> 'v) list \<Rightarrow> ('k \<times> 'v) list \<Rightarrow> bool" where
  "same_map a b \<longleftrightarrow> (\<forall>k \<in> set (map fst a @ map fst b). map_of a k = map_of b k)"

lemma same_map_iff: "same_map a b \<longleftrightarrow> map_of a = map_of b"
proof
  assume same: "same_map a b"
  show "map_of a = map_of b"
  proof
    fix k
    show "map_of a k = map_of b k"
    proof (cases "k \<in> set (map fst a @ map fst b)")
      case True
      with same show ?thesis by (auto simp: same_map_def)
    next
      case False
      then have "map_of a k = None" "map_of b k = None"
        by (auto simp: map_of_eq_None_iff)
      then show ?thesis by simp
    qed
  qed
qed (simp add: same_map_def)

text \<open>Reading a Go map of strings: the zero value for an absent key.\<close>

definition str_get :: "(string \<times> string) list \<Rightarrow> string \<Rightarrow> string" where
  "str_get m k = (case map_of m k of None \<Rightarrow> [] | Some v \<Rightarrow> v)"

section \<open>Quoting\<close>

definition quote_char :: char where "quote_char = CHR 0x22"

definition quoted :: "string \<Rightarrow> string" where
  "quoted s = quote_char # s @ [quote_char]"

text \<open>\<open>strconv.Quote\<close>, the verb \<open>%q\<close>; bytes above 127 belong to printable characters.\<close>

definition hex_char :: "nat \<Rightarrow> char" where
  "hex_char n = (if n < 10 then digit_char n else char_of (87 + n))"

definition quote_escape :: "char \<Rightarrow> string" where
  "quote_escape c =
     (let n = of_char c :: nat; bs = CHR 0x5C
      in if n = 34 \<or> n = 92 then [bs, c]
         else if n = 7 then [bs, CHR ''a''] else if n = 8 then [bs, CHR ''b'']
         else if n = 12 then [bs, CHR ''f''] else if n = 10 then [bs, CHR ''n'']
         else if n = 13 then [bs, CHR ''r''] else if n = 9 then [bs, CHR ''t'']
         else if n = 11 then [bs, CHR ''v'']
         else if n < 32 \<or> n = 127 then [bs, CHR ''x'', hex_char (n div 16), hex_char (n mod 16)]
         else [c])"

definition strconv_Quote :: "string \<Rightarrow> string" where
  "strconv_Quote s = quoted (concat (map quote_escape s))"

end
