(* ===== verification/Containers.thy ===== *)
theory Containers
  imports Prelude
begin

text \<open>
  The container packages: \<open>pkg/unique\<close> (\<open>Set\<close>, \<open>List\<close>, \<open>Deduplicator\<close>, \<open>DedupList\<close>),
  \<open>internal/pkg/cache\<close> (\<open>Func\<close>, \<open>FuncWeakValue\<close>, \<open>FuncWeakKey\<close>, \<open>TTL\<close>, \<open>Set\<close>), \<open>pkg/ptr\<close> and
  \<open>pkg/slices\<close>. The contract of a cache with expiry is the locale \<open>expiring_cache\<close>; it is interpreted
  here for \<open>cache.TTL\<close> and in theory \<open>Sessions\<close> for the token cache.
\<close>

section \<open>pkg/ptr and pkg/slices\<close>

definition ptr_ToSlice :: "'a list \<Rightarrow> 'a list option" where
  "ptr_ToSlice v = (if length v = 0 then None else Some v)"

definition ptr_ToBool :: "bool \<Rightarrow> bool option" where
  "ptr_ToBool v = (if v then Some v else None)"

text \<open>\<open>Deref\<close> of a possibly nil pointer, with the zero value of its type.\<close>

definition ptr_Deref :: "'a \<Rightarrow> 'a option \<Rightarrow> 'a" where
  "ptr_Deref zero p = (case p of None \<Rightarrow> zero | Some v \<Rightarrow> v)"

text \<open>\<open>Transform\<close>: makes a slice of the same length and fills it by index.\<close>

fun slices_Transform_loop :: "'a list \<Rightarrow> ('a \<Rightarrow> 'b) \<Rightarrow> nat \<Rightarrow> 'b list \<Rightarrow> 'b list" where
  "slices_Transform_loop [] f i u = u"
| "slices_Transform_loop (x # xs) f i u = slices_Transform_loop xs f (Suc i) (u[i := f x])"

definition slices_Transform :: "'b \<Rightarrow> 'a list \<Rightarrow> ('a \<Rightarrow> 'b) \<Rightarrow> 'b list" where
  "slices_Transform zero t f = slices_Transform_loop t f 0 (replicate (length t) zero)"

lemma slices_Transform_loop_map:
  "length ws = length xs \<Longrightarrow>
     slices_Transform_loop xs f (length us) (us @ ws) = us @ map f xs"
proof (induction xs arbitrary: us ws)
  case Nil
  then show ?case by simp
next
  case (Cons x xs)
  then obtain w ws' where ws: "ws = w # ws'" "length ws' = length xs" by (cases ws) auto
  have "slices_Transform_loop (x # xs) f (length us) (us @ ws)
      = slices_Transform_loop xs f (length (us @ [f x])) ((us @ [f x]) @ ws')"
    using ws by simp
  also have "\<dots> = (us @ [f x]) @ map f xs" by (rule Cons.IH) (rule ws(2))
  finally show ?case by simp
qed

lemma slices_Transform_map: "slices_Transform zero t f = map f t"
  using slices_Transform_loop_map [of "replicate (length t) zero" t f "[]"]
  by (simp add: slices_Transform_def)

section \<open>unique.Set\<close>

text \<open>\<open>Set[T]\<close> is a \<open>map[T]struct{}\<close>: the set of its keys.\<close>

definition Set_Has :: "'a set \<Rightarrow> 'a \<Rightarrow> bool" where
  "Set_Has s v \<longleftrightarrow> v \<in> s"

definition Set_Add :: "'a \<Rightarrow> 'a set \<Rightarrow> 'a set" where
  "Set_Add v s = insert v s"

definition Set_Remove :: "'a \<Rightarrow> 'a set \<Rightarrow> 'a set" where
  "Set_Remove v s = s - {v}"

definition NewSet :: "'a list \<Rightarrow> 'a set" where
  "NewSet vs = fold Set_Add vs {}"

text \<open>\<open>Set.List\<close> collects the keys in map order: any enumeration without repetition.\<close>

definition is_Set_List :: "'a set \<Rightarrow> 'a list \<Rightarrow> bool" where
  "is_Set_List s xs \<longleftrightarrow> set xs = s \<and> distinct xs"

lemma set_fold_Set_Add: "fold Set_Add vs s = s \<union> set vs"
  by (induction vs arbitrary: s) (auto simp: Set_Add_def)

lemma NewSet_set [simp]: "NewSet vs = set vs"
  by (simp add: NewSet_def set_fold_Set_Add)

section \<open>unique.List\<close>

record 'a uList =
  ul_List :: "'a list"
  ul_Set :: "'a set"

definition uList_Add :: "'a \<Rightarrow> 'a uList \<Rightarrow> 'a uList" where
  "uList_Add v l =
     (if \<not> Set_Has (ul_Set l) v
      then l\<lparr>ul_Set := Set_Add v (ul_Set l), ul_List := ul_List l @ [v]\<rparr>
      else l)"

definition uList_Append :: "'a list \<Rightarrow> 'a uList \<Rightarrow> 'a uList" where
  "uList_Append values l = fold uList_Add values l"

definition NewList :: "'a list \<Rightarrow> 'a uList" where
  "NewList values = uList_Append values \<lparr>ul_List = [], ul_Set = {}\<rparr>"

definition uList_Has :: "'a uList \<Rightarrow> 'a \<Rightarrow> bool" where
  "uList_Has l v = Set_Has (ul_Set l) v"

text \<open>The reference: the first value of each key, in order, leaving out the keys already seen.\<close>

fun firsts_by :: "('v \<Rightarrow> 'k) \<Rightarrow> 'k set \<Rightarrow> 'v list \<Rightarrow> 'v list" where
  "firsts_by key seen [] = []"
| "firsts_by key seen (x # xs) =
     (if key x \<in> seen then firsts_by key seen xs
      else x # firsts_by key (insert (key x) seen) xs)"

lemma firsts_by_set: "key ` set (firsts_by key seen xs) = key ` set xs - seen"
  by (induction xs arbitrary: seen) auto

lemma firsts_by_subset: "set (firsts_by key seen xs) \<subseteq> set xs"
  by (induction xs arbitrary: seen) auto

lemma firsts_by_distinct: "distinct (map key (firsts_by key seen xs))"
  using firsts_by_set [of key] by (induction xs arbitrary: seen) fastforce+

lemma firsts_by_append:
  "firsts_by key seen (xs @ ys) =
     firsts_by key seen xs @ firsts_by key (seen \<union> key ` set xs) ys"
  by (induction xs arbitrary: seen) (auto simp: insert_absorb Un_commute)

lemma firsts_by_all_seen: "key ` set xs \<subseteq> seen \<Longrightarrow> firsts_by key seen xs = []"
  by (induction xs) auto

lemma firsts_by_id: "distinct (map key xs) \<Longrightarrow> key ` set xs \<inter> seen = {} \<Longrightarrow> firsts_by key seen xs = xs"
proof (induction xs arbitrary: seen)
  case (Cons x xs)
  then have "key ` set xs \<inter> insert (key x) seen = {}" by auto
  with Cons show ?case by auto
qed simp

definition uList_ok :: "'a uList \<Rightarrow> bool" where
  "uList_ok l \<longleftrightarrow> ul_Set l = set (ul_List l) \<and> distinct (ul_List l)"

lemma uList_Add_ok: "uList_ok l \<Longrightarrow> uList_ok (uList_Add v l)"
  by (auto simp: uList_ok_def uList_Add_def Set_Has_def Set_Add_def)

lemma uList_Append_ok: "uList_ok l \<Longrightarrow> uList_ok (uList_Append vs l)"
  unfolding uList_Append_def by (rule fold_invariant_step) (auto intro: uList_Add_ok)

lemma NewList_ok: "uList_ok (NewList vs)"
  unfolding NewList_def by (rule uList_Append_ok) (simp add: uList_ok_def)

lemma uList_Append_firsts:
  "ul_List (uList_Append vs l) = ul_List l @ firsts_by id (ul_Set l) vs \<and>
   ul_Set (uList_Append vs l) = ul_Set l \<union> set vs"
  unfolding uList_Append_def
  by (induction vs arbitrary: l) (auto simp: uList_Add_def Set_Has_def Set_Add_def)

lemma NewList_firsts: "ul_List (NewList vs) = firsts_by id {} vs"
  by (simp add: NewList_def uList_Append_firsts)

lemma NewList_set: "set (ul_List (NewList vs)) = set vs"
  using firsts_by_set [of id "{}" vs] by (simp add: NewList_firsts)

section \<open>unique.Deduplicator and unique.DedupList\<close>

record ('k, 'v) Deduplicator =
  dd_key :: "'v \<Rightarrow> 'k"
  dd_seen :: "'k set"

definition NewDeduplicator :: "('v \<Rightarrow> 'k) \<Rightarrow> ('k, 'v) Deduplicator" where
  "NewDeduplicator key = \<lparr>dd_key = key, dd_seen = {}\<rparr>"

definition Deduplicator_Unique ::
  "'v \<Rightarrow> ('k, 'v) Deduplicator \<Rightarrow> bool \<times> ('k, 'v) Deduplicator" where
  "Deduplicator_Unique v d =
     (let k = dd_key d v
      in if Set_Has (dd_seen d) k then (False, d)
         else (True, d\<lparr>dd_seen := Set_Add k (dd_seen d)\<rparr>))"

record ('k, 'v) DedupList =
  dl_dedup :: "('k, 'v) Deduplicator"
  dl_List :: "'v list"

definition DedupList_Add :: "'v \<Rightarrow> ('k, 'v) DedupList \<Rightarrow> bool \<times> ('k, 'v) DedupList" where
  "DedupList_Add v l =
     (let (ok, d) = Deduplicator_Unique v (dl_dedup l)
      in if ok then (True, l\<lparr>dl_dedup := d, dl_List := dl_List l @ [v]\<rparr>)
         else (False, l\<lparr>dl_dedup := d\<rparr>))"

definition DedupList_Append :: "'v list \<Rightarrow> ('k, 'v) DedupList \<Rightarrow> ('k, 'v) DedupList" where
  "DedupList_Append values l = fold (\<lambda>v l. snd (DedupList_Add v l)) values l"

definition DedupList_Clear :: "('k, 'v) DedupList \<Rightarrow> ('k, 'v) DedupList" where
  "DedupList_Clear l = l\<lparr>dl_List := []\<rparr>"

definition Deduplicator_List :: "'v list \<Rightarrow> ('k, 'v) Deduplicator \<Rightarrow> ('k, 'v) DedupList" where
  "Deduplicator_List values d = DedupList_Append values \<lparr>dl_dedup = d, dl_List = []\<rparr>"

lemma DedupList_Append_firsts:
  "dl_List (DedupList_Append vs l) =
     dl_List l @ firsts_by (dd_key (dl_dedup l)) (dd_seen (dl_dedup l)) vs"
  "dd_seen (dl_dedup (DedupList_Append vs l)) =
     dd_seen (dl_dedup l) \<union> dd_key (dl_dedup l) ` set vs"
  "dd_key (dl_dedup (DedupList_Append vs l)) = dd_key (dl_dedup l)"
  unfolding DedupList_Append_def
  by (induction vs arbitrary: l)
     (auto simp: DedupList_Add_def Deduplicator_Unique_def Set_Has_def Set_Add_def Let_def)

text \<open>\<open>Clear\<close> empties the list and keeps the keys: what was seen before is not listed again.\<close>

lemma DedupList_Clear_remembers:
  "dl_List (DedupList_Append ws (DedupList_Clear (DedupList_Append vs l))) =
     firsts_by (dd_key (dl_dedup l)) (dd_seen (dl_dedup l) \<union> dd_key (dl_dedup l) ` set vs) ws"
  by (simp add: DedupList_Append_firsts DedupList_Clear_def)

section \<open>cache.Set\<close>

text \<open>\<open>Add\<close> swaps the key in atomically and reports whether it was absent.\<close>

definition cacheSet_Has :: "'a set \<Rightarrow> 'a \<Rightarrow> bool" where
  "cacheSet_Has s v \<longleftrightarrow> v \<in> s"

definition cacheSet_Add :: "'a \<Rightarrow> 'a set \<Rightarrow> bool \<times> 'a set" where
  "cacheSet_Add v s = (let loaded = (v \<in> s) in (\<not> loaded, insert v s))"

section \<open>cache.Func\<close>

text \<open>The wrapped function: a lookup in the map, else a call of \<open>f\<close> whose result is stored. The map is
  the state of the closure. The last component tells whether \<open>f\<close> was called.\<close>

definition cache_Func :: "('k \<Rightarrow> 'v) \<Rightarrow> 'k \<Rightarrow> ('k \<rightharpoonup> 'v) \<Rightarrow> 'v \<times> ('k \<rightharpoonup> 'v) \<times> bool" where
  "cache_Func f k m =
     (case m k of
        Some v \<Rightarrow> (v, m, False)
      | None \<Rightarrow> (let v = f k in (v, m(k \<mapsto> v), True)))"

text \<open>\<open>FuncWeakKey\<close> keys the map by a weak pointer to the argument: two weak pointers are equal when
  they were made from the same pointer, so the map is keyed by the pointer itself.\<close>

definition cache_FuncWeakKey :: "('p \<Rightarrow> 'v) \<Rightarrow> 'p \<Rightarrow> ('p \<rightharpoonup> 'v) \<Rightarrow> 'v \<times> ('p \<rightharpoonup> 'v) \<times> bool" where
  "cache_FuncWeakKey f p m =
     (case m p of
        Some v \<Rightarrow> (v, m, False)
      | None \<Rightarrow> (let v = f p in (v, m(p \<mapsto> v), True)))"

text \<open>
  \<open>FuncWeakValue\<close> stores \<open>weak.Make(f(k))\<close>, a \<open>weak.Pointer[V]\<close>, in the map and then asserts that the
  map's value is a \<open>*V\<close>. The dynamic types of the values of the map:
\<close>

datatype 'p dyn_value = StrongPointer 'p | WeakPointer 'p

definition assert_pointer :: "'p dyn_value \<Rightarrow> 'p go" where
  "assert_pointer v =
     (case v of
        StrongPointer p \<Rightarrow> Returns p
      | WeakPointer p \<Rightarrow> Panics ''interface conversion: interface {} is weak.Pointer'')"

definition cache_FuncWeakValue ::
  "('k \<Rightarrow> 'p) \<Rightarrow> 'k \<Rightarrow> ('k \<rightharpoonup> 'p dyn_value) \<Rightarrow> 'p go \<times> ('k \<rightharpoonup> 'p dyn_value)" where
  "cache_FuncWeakValue f k m =
     (case m k of
        Some v \<Rightarrow> (assert_pointer v, m)
      | None \<Rightarrow> (let v = WeakPointer (f k) in (assert_pointer v, m(k \<mapsto> v))))"

definition caches :: "('k \<Rightarrow> 'v) \<Rightarrow> ('k \<rightharpoonup> 'v) \<Rightarrow> bool" where
  "caches f m \<longleftrightarrow> (\<forall>k v. m k = Some v \<longrightarrow> v = f k)"

lemma cache_Func_transparent:
  assumes "caches f m"
  shows "fst (cache_Func f k m) = f k" and "caches f (fst (snd (cache_Func f k m)))"
  using assms by (auto simp: caches_def cache_Func_def Let_def split: option.splits if_splits)

lemma cache_Func_once:
  "cache_Func f k (fst (snd (cache_Func f k m))) =
     (fst (cache_Func f k m), fst (snd (cache_Func f k m)), False)"
  by (auto simp: cache_Func_def Let_def split: option.splits)

section \<open>A cache with expiry\<close>

text \<open>
  The contract of a cache whose entries live for a given duration: what a lookup at time \<open>t\<close> returns
  after a put at \<open>t0\<close>, that lookups do not disturb one another and that an entry that is gone stays
  gone. The client is a call that is answered from the cache when it can be.
\<close>

locale expiring_cache =
  fixes get :: "time \<Rightarrow> 'k \<Rightarrow> 'c \<Rightarrow> 'v option \<times> 'c"
    and put :: "time \<Rightarrow> 'k \<Rightarrow> 'v \<Rightarrow> 'c \<Rightarrow> 'c"
    and lifetime :: "'c \<Rightarrow> duration"
  assumes get_put: "t0 \<le> t \<Longrightarrow> t < t0 + lifetime c \<Longrightarrow> fst (get t k (put t0 k v c)) = Some v"
    and get_put_other: "t0 \<le> t \<Longrightarrow> k' \<noteq> k \<Longrightarrow> fst (get t k' (put t0 k v c)) = fst (get t k' c)"
    and get_put_expired: "t0 + lifetime c < t \<Longrightarrow> fst (get t k (put t0 k v c)) = None"
    and get_get: "t0 \<le> t \<Longrightarrow> fst (get t k' (snd (get t0 k c))) = fst (get t k' c)"
    and get_gone: "t0 \<le> t \<Longrightarrow> fst (get t0 k c) = None \<Longrightarrow> fst (get t k c) = None"
    and lifetime_get: "lifetime (snd (get t k c)) = lifetime c"
    and lifetime_put: "lifetime (put t k v c) = lifetime c"
begin

definition cached_call :: "('k \<Rightarrow> 'e + 'v) \<Rightarrow> time \<Rightarrow> 'k \<Rightarrow> 'c \<Rightarrow> ('e + 'v) \<times> 'c" where
  "cached_call f t k c =
     (case get t k c of
        (Some v, c') \<Rightarrow> (Inr v, c')
      | (None, c') \<Rightarrow>
          (case f k of Inl e \<Rightarrow> (Inl e, c') | Inr v \<Rightarrow> (Inr v, put t k v c')))"

lemma cached_call_hit: "fst (get t k c) = Some v \<Longrightarrow> fst (cached_call f t k c) = Inr v"
  by (auto simp: cached_call_def split: prod.splits)

lemma cached_call_error:
  assumes "fst (cached_call f t k c) = Inl e"
  shows "f k = Inl e \<and> snd (cached_call f t k c) = snd (get t k c)"
  using assms by (auto simp: cached_call_def split: prod.splits option.splits sum.splits)

text \<open>After a call that stored its answer, every call of the same key before the entry expires gives
  that answer, whatever the backend says then.\<close>

lemma cached_call_stable:
  assumes miss: "fst (get t0 k c) = None" and ok: "f k = Inr v"
    and t: "t0 \<le> t" "t < t0 + lifetime c"
  shows "fst (cached_call g t k (snd (cached_call f t0 k c))) = Inr v"
proof -
  obtain c' where g: "get t0 k c = (None, c')" using miss by (metis prod.collapse)
  then have "snd (cached_call f t0 k c) = put t0 k v c'"
    using ok by (simp add: cached_call_def)
  moreover have "lifetime c' = lifetime c" using lifetime_get [of t0 k c] g by simp
  ultimately show ?thesis using t by (intro cached_call_hit) (simp add: get_put)
qed

text \<open>A call of one key never changes the answer for another.\<close>

lemma cached_call_other:
  assumes "t0 \<le> t" "k' \<noteq> k"
  shows "fst (get t k' (snd (cached_call f t0 k c))) = fst (get t k' c)"
proof -
  obtain r c' where g: "get t0 k c = (r, c')" by (cases "get t0 k c")
  then have "fst (get t k' c') = fst (get t k' c)" using get_get [of t0 t k' k c] assms by simp
  then show ?thesis
    using g assms by (auto simp: cached_call_def get_put_other split: option.splits sum.splits)
qed

end

section \<open>cache.TTL\<close>

record 'v ttl_entry =
  te_value :: 'v
  te_expiresAt :: time

record ('k, 'v) TTL =
  ttl_ttl :: duration
  ttl_entries :: "'k \<rightharpoonup> 'v ttl_entry"

definition NewTTL :: "duration \<Rightarrow> ('k, 'v) TTL" where
  "NewTTL ttl = \<lparr>ttl_ttl = ttl, ttl_entries = Map.empty\<rparr>"

text \<open>\<open>evictExpired\<close>: deletes every entry whose expiry is before now.\<close>

definition TTL_evictExpired :: "time \<Rightarrow> ('k, 'v) TTL \<Rightarrow> ('k, 'v) TTL" where
  "TTL_evictExpired now c =
     c\<lparr>ttl_entries := (\<lambda>k. case ttl_entries c k of
          None \<Rightarrow> None
        | Some e \<Rightarrow> if now > te_expiresAt e then None else Some e)\<rparr>"

definition TTL_Get :: "time \<Rightarrow> 'k \<Rightarrow> ('k, 'v) TTL \<Rightarrow> 'v option \<times> ('k, 'v) TTL" where
  "TTL_Get now key c =
     (let c = TTL_evictExpired now c
      in case ttl_entries c key of
           Some e \<Rightarrow> (Some (te_value e), c)
         | None \<Rightarrow> (None, c))"

definition TTL_Put :: "time \<Rightarrow> 'k \<Rightarrow> 'v \<Rightarrow> ('k, 'v) TTL \<Rightarrow> ('k, 'v) TTL" where
  "TTL_Put now key v c =
     (let c = TTL_evictExpired now c
      in c\<lparr>ttl_entries := (ttl_entries c)
             (key \<mapsto> \<lparr>te_value = v, te_expiresAt = now + ttl_ttl c\<rparr>)\<rparr>)"

definition TTL_Clear :: "('k, 'v) TTL \<Rightarrow> ('k, 'v) TTL" where
  "TTL_Clear c = c\<lparr>ttl_entries := Map.empty\<rparr>"

lemmas TTL_defs = TTL_Get_def TTL_Put_def TTL_evictExpired_def Let_def

interpretation ttl: expiring_cache TTL_Get TTL_Put ttl_ttl
  by unfold_locales (auto simp: TTL_defs split: option.splits if_splits)

lemma TTL_Get_sound:
  "fst (TTL_Get t k c) = Some v \<longleftrightarrow>
     (\<exists>e. ttl_entries c k = Some e \<and> te_value e = v \<and> t \<le> te_expiresAt e)"
  by (auto simp: TTL_defs split: option.splits if_splits)

lemma TTL_Clear_empty: "fst (TTL_Get t k (TTL_Clear c)) = None"
  by (simp add: TTL_Clear_def TTL_defs)

end
