(* ===== verification/Results.thy ===== *)
theory Results
  imports Containers
begin

text \<open>
  \<open>pkg/result\<close>: the appenders that collect query results. \<open>List\<close> keeps every object, \<open>Set\<close> keeps the
  first object of each ID, \<open>New\<close> chooses between them by whether the class has IDs, and \<open>SyncResult\<close>
  is a result shared between goroutines with a blocking \<open>Wait\<close>. The contract of the \<open>Result\<close>
  interface is the locale \<open>result_store\<close>, extended by \<open>dedup_store\<close> for the results that drop
  repeated IDs.
\<close>

section \<open>The Result interface\<close>

locale result_store =
  fixes add :: "'o \<Rightarrow> 'r \<Rightarrow> bool \<times> 'r"
    and append :: "'o list \<Rightarrow> 'r \<Rightarrow> 'r"
    and contents :: "'r \<Rightarrow> 'o list"
  assumes add_contents:
      "contents (snd (add x r)) = (if fst (add x r) then contents r @ [x] else contents r)"
    and append_adds: "contents (append xs r) = contents (fold (\<lambda>x r. snd (add x r)) xs r)"
begin

lemma adds_prefix:
  "\<exists>ys. contents (fold (\<lambda>x r. snd (add x r)) xs r) = contents r @ ys \<and> set ys \<subseteq> set xs"
proof (induction xs arbitrary: r)
  case Nil
  then show ?case by simp
next
  case (Cons x xs)
  obtain ys where ys: "contents (fold (\<lambda>x r. snd (add x r)) xs (snd (add x r)))
      = contents (snd (add x r)) @ ys" "set ys \<subseteq> set xs"
    using Cons [of "snd (add x r)"] by blast
  show ?case
  proof (cases "fst (add x r)")
    case True
    with ys have "contents (fold (\<lambda>x r. snd (add x r)) (x # xs) r) = contents r @ (x # ys)"
      by (simp add: add_contents)
    with ys(2) show ?thesis by (metis insert_mono list.simps(15))
  next
    case False
    with ys have "contents (fold (\<lambda>x r. snd (add x r)) (x # xs) r) = contents r @ ys"
      by (simp add: add_contents)
    with ys(2) show ?thesis by (metis list.set_intros(2) subset_code(1))
  qed
qed

lemma append_prefix: "\<exists>ys. contents (append xs r) = contents r @ ys \<and> set ys \<subseteq> set xs"
  using adds_prefix by (simp add: append_adds)

lemma append_take: "take (length (contents r)) (contents (append xs r)) = contents r"
  using append_prefix [of xs r] by auto

lemma add_length:
  "length (contents (snd (add x r))) = length (contents r) + (if fst (add x r) then 1 else 0)"
  by (simp add: add_contents)

end

locale dedup_store = result_store add append contents
  for add :: "'o \<Rightarrow> 'r \<Rightarrow> bool \<times> 'r" and append and contents :: "'r \<Rightarrow> 'o list" +
  fixes id_of :: "'r \<Rightarrow> 'o \<Rightarrow> 'i"
    and wf :: "'r \<Rightarrow> bool"
  assumes add_new: "wf r \<Longrightarrow> fst (add x r) \<longleftrightarrow> id_of r x \<notin> id_of r ` set (contents r)"
    and add_wf: "wf r \<Longrightarrow> wf (snd (add x r))"
    and add_id: "id_of (snd (add x r)) = id_of r"
begin

lemma adds_wf: "wf r \<Longrightarrow> wf (fold (\<lambda>x r. snd (add x r)) xs r)"
  by (rule fold_invariant_step) (auto intro: add_wf)

lemma adds_firsts:
  "wf r \<Longrightarrow> contents (fold (\<lambda>x r. snd (add x r)) xs r)
     = contents r @ firsts_by (id_of r) (id_of r ` set (contents r)) xs"
proof (induction xs arbitrary: r)
  case Nil
  then show ?case by simp
next
  case (Cons x xs)
  from Cons.IH [OF add_wf [OF Cons.prems], of x] show ?case
    using Cons.prems by (auto simp: add_contents add_new add_id insert_absorb)
qed

lemma append_firsts:
  "wf r \<Longrightarrow> contents (append xs r)
     = contents r @ firsts_by (id_of r) (id_of r ` set (contents r)) xs"
  by (simp add: append_adds adds_firsts)

lemma append_distinct:
  assumes "wf r" and "distinct (map (id_of r) (contents r))"
  shows "distinct (map (id_of r) (contents (append xs r)))"
proof -
  have "id_of r ` set (firsts_by (id_of r) (id_of r ` set (contents r)) xs) \<inter>
      id_of r ` set (contents r) = {}"
    by (auto simp: firsts_by_set)
  with assms show ?thesis by (auto simp: append_firsts firsts_by_distinct)
qed

lemma append_ids:
  "wf r \<Longrightarrow> id_of r ` set (contents (append xs r)) = id_of r ` set (contents r) \<union> id_of r ` set xs"
  by (auto simp: append_firsts firsts_by_set image_Un)

end

section \<open>List and Set\<close>

definition rList_Append :: "'o list \<Rightarrow> 'o list \<Rightarrow> 'o list" where
  "rList_Append objects r = r @ objects"

definition rList_List :: "'o list \<Rightarrow> 'o list" where
  "rList_List r = r"

definition rList_Add :: "'o \<Rightarrow> 'o list \<Rightarrow> bool \<times> 'o list" where
  "rList_Add x r = (True, rList_Append [x] r)"

record ('i, 'o) rSet =
  rs_dedup :: "('i, 'o) Deduplicator"
  rs_list :: "'o list"

definition NewSet_result :: "('o \<Rightarrow> 'i) \<Rightarrow> ('i, 'o) rSet" where
  "NewSet_result ider = \<lparr>rs_dedup = NewDeduplicator ider, rs_list = []\<rparr>"

definition rSet_List :: "('i, 'o) rSet \<Rightarrow> 'o list" where
  "rSet_List r = rs_list r"

definition rSet_Add :: "'o \<Rightarrow> ('i, 'o) rSet \<Rightarrow> bool \<times> ('i, 'o) rSet" where
  "rSet_Add x r =
     (let (ok, d) = Deduplicator_Unique x (rs_dedup r);
          r = r\<lparr>rs_dedup := d\<rparr>
      in (ok, if ok then r\<lparr>rs_list := rs_list r @ [x]\<rparr> else r))"

definition rSet_Append :: "'o list \<Rightarrow> ('i, 'o) rSet \<Rightarrow> ('i, 'o) rSet" where
  "rSet_Append objects r = fold (\<lambda>x r. snd (rSet_Add x r)) objects r"

definition rSet_wf :: "('i, 'o) rSet \<Rightarrow> bool" where
  "rSet_wf r \<longleftrightarrow> dd_seen (rs_dedup r) = dd_key (rs_dedup r) ` set (rs_list r)"

lemma fold_snoc: "fold (\<lambda>x r. r @ [x]) xs r = r @ xs"
  by (induction xs arbitrary: r) auto

lemma fold_rList_Add: "fold (\<lambda>x r. snd (rList_Add x r)) xs r = r @ xs"
  by (simp add: rList_Add_def rList_Append_def fold_snoc)

interpretation rlist: result_store rList_Add rList_Append rList_List
  by unfold_locales (auto simp: rList_Add_def rList_Append_def rList_List_def fold_snoc)

lemmas rSet_defs = rSet_Add_def rSet_List_def rSet_wf_def Deduplicator_Unique_def
  Set_Has_def Set_Add_def Let_def

interpretation rset: dedup_store rSet_Add rSet_Append rSet_List "\<lambda>r. dd_key (rs_dedup r)" rSet_wf
  by unfold_locales (auto simp: rSet_defs rSet_Append_def)

lemma NewSet_result_wf: "rSet_wf (NewSet_result ider)"
  by (simp add: rSet_wf_def NewSet_result_def NewDeduplicator_def)

section \<open>Result\<close>

text \<open>A \<open>Result\<close> is one of the two; \<open>New\<close> takes the class's \<open>IDer\<close>, if it has one.\<close>

datatype ('i, 'o) Result = ResultList "'o list" | ResultSet "('i, 'o) rSet"

definition Result_New :: "('o \<Rightarrow> 'i) option \<Rightarrow> ('i, 'o) Result" where
  "Result_New ider =
     (case ider of Some f \<Rightarrow> ResultSet (NewSet_result f) | None \<Rightarrow> ResultList [])"

fun Result_Add :: "'o \<Rightarrow> ('i, 'o) Result \<Rightarrow> bool \<times> ('i, 'o) Result" where
  "Result_Add x (ResultList r) = (let (ok, r) = rList_Add x r in (ok, ResultList r))"
| "Result_Add x (ResultSet r) = (let (ok, r) = rSet_Add x r in (ok, ResultSet r))"

fun Result_Append :: "'o list \<Rightarrow> ('i, 'o) Result \<Rightarrow> ('i, 'o) Result" where
  "Result_Append xs (ResultList r) = ResultList (rList_Append xs r)"
| "Result_Append xs (ResultSet r) = ResultSet (rSet_Append xs r)"

fun Result_List :: "('i, 'o) Result \<Rightarrow> 'o list" where
  "Result_List (ResultList r) = rList_List r"
| "Result_List (ResultSet r) = rSet_List r"

lemma Result_adds_cases:
  "fold (\<lambda>x r. snd (Result_Add x r)) xs (ResultList l)
     = ResultList (fold (\<lambda>x r. snd (rList_Add x r)) xs l)"
  "fold (\<lambda>x r. snd (Result_Add x r)) xs (ResultSet s)
     = ResultSet (fold (\<lambda>x r. snd (rSet_Add x r)) xs s)"
  by (induction xs arbitrary: l s) (auto split: prod.splits)

interpretation res: result_store Result_Add Result_Append Result_List
proof (unfold_locales, goal_cases)
  case (1 x r)
  show ?case
  proof (cases r)
    case (ResultList l)
    then show ?thesis using rlist.add_contents [of x l] by (cases "rList_Add x l") auto
  next
    case (ResultSet s)
    then show ?thesis using rset.add_contents [of x s] by (cases "rSet_Add x s") auto
  qed
next
  case (2 xs r)
  show ?case
    using rlist.append_adds rset.append_adds by (cases r) (auto simp: Result_adds_cases)
qed

lemma Result_New_empty [simp]: "Result_List (Result_New ider) = []"
  by (auto simp: Result_New_def NewSet_result_def rSet_List_def rList_List_def split: option.splits)

text \<open>What a fresh result holds after objects were added one by one: all of them without an \<open>IDer\<close>,
  the first of each ID with one.\<close>

lemma Result_New_adds:
  "Result_List (fold (\<lambda>x r. snd (Result_Add x r)) xs (Result_New ider))
     = (case ider of None \<Rightarrow> xs | Some f \<Rightarrow> firsts_by f {} xs)"
proof (cases ider)
  case None
  then show ?thesis
    by (simp add: Result_New_def Result_adds_cases fold_rList_Add rList_List_def)
next
  case (Some f)
  have "rSet_List (fold (\<lambda>x r. snd (rSet_Add x r)) xs (NewSet_result f)) = firsts_by f {} xs"
    using rset.adds_firsts [OF NewSet_result_wf [of f], of xs]
    by (simp add: NewSet_result_def NewDeduplicator_def rSet_List_def)
  with Some show ?thesis by (simp add: Result_New_def Result_adds_cases)
qed

lemma Result_New_Append:
  "Result_List (Result_Append xs (Result_New ider))
     = (case ider of None \<Rightarrow> xs | Some f \<Rightarrow> firsts_by f {} xs)"
  by (simp add: res.append_adds Result_New_adds)

section \<open>SyncResult\<close>

text \<open>
  A result shared by goroutines: every method runs under the mutex, so it is one atomic step. \<open>Wait n\<close>
  blocks on the condition variable while nothing beyond index \<open>n\<close> is there and the result is open;
  \<open>None\<close> is "blocked". A nil slice is the empty list.
\<close>

record ('i, 'o) SyncResult =
  sr_inner :: "('i, 'o) Result"
  sr_closed :: bool

definition NewSyncResult :: "('o \<Rightarrow> 'i) option \<Rightarrow> ('i, 'o) SyncResult" where
  "NewSyncResult ider = \<lparr>sr_inner = Result_New ider, sr_closed = False\<rparr>"

definition SyncResult_Add :: "'o \<Rightarrow> ('i, 'o) SyncResult \<Rightarrow> bool \<times> ('i, 'o) SyncResult" where
  "SyncResult_Add x r = (let (ok, i) = Result_Add x (sr_inner r) in (ok, r\<lparr>sr_inner := i\<rparr>))"

definition SyncResult_Append :: "'o list \<Rightarrow> ('i, 'o) SyncResult \<Rightarrow> ('i, 'o) SyncResult" where
  "SyncResult_Append xs r = r\<lparr>sr_inner := Result_Append xs (sr_inner r)\<rparr>"

definition SyncResult_List :: "('i, 'o) SyncResult \<Rightarrow> 'o list" where
  "SyncResult_List r = Result_List (sr_inner r)"

definition SyncResult_Wait :: "nat \<Rightarrow> ('i, 'o) SyncResult \<Rightarrow> 'o list option" where
  "SyncResult_Wait n r =
     (if length (Result_List (sr_inner r)) \<le> n \<and> \<not> sr_closed r then None
      else (let l = Result_List (sr_inner r)
            in if length l \<le> n then Some [] else Some (drop n l)))"

definition SyncResult_Close :: "('i, 'o) SyncResult \<Rightarrow> ('i, 'o) SyncResult" where
  "SyncResult_Close r = r\<lparr>sr_closed := True\<rparr>"

lemma SyncResult_adds_inner:
  "sr_inner (fold (\<lambda>x r. snd (SyncResult_Add x r)) xs r)
     = fold (\<lambda>x r. snd (Result_Add x r)) xs (sr_inner r)"
  by (induction xs arbitrary: r) (auto simp: SyncResult_Add_def split: prod.splits)

interpretation sync: result_store SyncResult_Add SyncResult_Append SyncResult_List
proof (unfold_locales, goal_cases)
  case (1 x r)
  show ?case
    using res.add_contents [of x "sr_inner r"]
    by (auto simp: SyncResult_Add_def SyncResult_List_def split: prod.splits)
next
  case (2 xs r)
  show ?case
    by (simp add: SyncResult_List_def SyncResult_Append_def SyncResult_adds_inner res.append_adds)
qed

text \<open>The steps of the goroutines that share one result.\<close>

inductive sync_step :: "('i, 'o) SyncResult \<Rightarrow> ('i, 'o) SyncResult \<Rightarrow> bool" where
  sync_add: "sync_step r (snd (SyncResult_Add x r))"
| sync_append: "sync_step r (SyncResult_Append xs r)"
| sync_close: "sync_step r (SyncResult_Close r)"

inductive_cases sync_stepE: "sync_step r r'"

lemma sync_step_prefix: "sync_step r r' \<Longrightarrow> \<exists>ys. SyncResult_List r' = SyncResult_List r @ ys"
proof (induction rule: sync_step.induct)
  case (sync_add r x)
  then show ?case by (simp add: sync.add_contents)
next
  case (sync_append r xs)
  then show ?case using sync.append_prefix [of xs r] by auto
next
  case (sync_close r)
  then show ?case by (simp add: SyncResult_Close_def SyncResult_List_def)
qed

lemma sync_step_closed: "sync_step r r' \<Longrightarrow> sr_closed r \<Longrightarrow> sr_closed r'"
  by (erule sync_stepE)
     (auto simp: SyncResult_Add_def SyncResult_Append_def SyncResult_Close_def split: prod.splits)

lemma sync_steps_prefix:
  "sync_step\<^sup>*\<^sup>* r r' \<Longrightarrow> \<exists>ys. SyncResult_List r' = SyncResult_List r @ ys"
proof (induction rule: rtranclp_induct)
  case base
  then show ?case by simp
next
  case (step s t)
  then show ?case using sync_step_prefix [OF step.hyps(2)] by auto
qed

lemma sync_steps_closed: "sync_step\<^sup>*\<^sup>* r r' \<Longrightarrow> sr_closed r \<Longrightarrow> sr_closed r'"
  by (induction rule: rtranclp_induct) (auto intro: sync_step_closed)

lemma SyncResult_Wait_drop:
  "SyncResult_Wait n r = Some got \<Longrightarrow> got = drop n (SyncResult_List r)"
  by (auto simp: SyncResult_Wait_def SyncResult_List_def Let_def split: if_splits)

text \<open>C29: A consumer that waits at the position it has read up to sees every object exactly once and in
  order, whatever other goroutines do between its waits: the objects read before, the ones the first
  wait returns and the ones the second returns are together the whole list.\<close>

lemma SyncResult_Wait_no_gap:
  assumes "n \<le> length (SyncResult_List r)"
    and "SyncResult_Wait n r = Some got" and "sync_step\<^sup>*\<^sup>* r r'"
    and "SyncResult_Wait (n + length got) r' = Some later"
  shows "take n (SyncResult_List r) @ got @ later = SyncResult_List r'"
proof -
  obtain ys where ys: "SyncResult_List r' = SyncResult_List r @ ys"
    using sync_steps_prefix [OF assms(3)] by blast
  have got: "got = drop n (SyncResult_List r)" by (rule SyncResult_Wait_drop [OF assms(2)])
  have "later = drop (n + length got) (SyncResult_List r')" by (rule SyncResult_Wait_drop [OF assms(4)])
  then have "later = ys" using assms(1) got ys by simp
  with got ys show ?thesis by simp
qed

lemma SyncResult_Wait_no_gap_witness:
  "take 0 (SyncResult_List (\<lparr>sr_inner = ResultList [1], sr_closed = False\<rparr> :: (nat, nat) SyncResult))
     @ [1] @ [2] =
   SyncResult_List (\<lparr>sr_inner = ResultList [1, 2], sr_closed = False\<rparr> :: (nat, nat) SyncResult)"
proof -
  let ?r = "\<lparr>sr_inner = ResultList [1], sr_closed = False\<rparr> :: (nat, nat) SyncResult"
  let ?r' = "\<lparr>sr_inner = ResultList [1, 2], sr_closed = False\<rparr> :: (nat, nat) SyncResult"
  have step: "sync_step ?r (SyncResult_Append [2] ?r)" by (rule sync_append)
  have eq: "SyncResult_Append [2] ?r = ?r'" by (simp add: SyncResult_Append_def rList_Append_def)
  with step have steps: "sync_step\<^sup>*\<^sup>* ?r ?r'" by auto
  have got: "SyncResult_Wait 0 ?r = Some [1]"
    by (simp add: SyncResult_Wait_def rList_List_def)
  have later: "SyncResult_Wait (0 + length [1]) ?r' = Some [2]"
    by (simp add: SyncResult_Wait_def rList_List_def)
  show ?thesis by (rule SyncResult_Wait_no_gap [OF _ got steps later]) simp
qed

text \<open>A wait that could return stays able to return, so a woken waiter is never lost; after \<open>Close\<close>
  every wait returns.\<close>

lemma SyncResult_Wait_stays_ready:
  assumes "SyncResult_Wait n r \<noteq> None" and "sync_step\<^sup>*\<^sup>* r r'"
  shows "SyncResult_Wait n r' \<noteq> None"
proof -
  obtain ys where "SyncResult_List r' = SyncResult_List r @ ys"
    using sync_steps_prefix [OF assms(2)] by blast
  moreover have "sr_closed r \<Longrightarrow> sr_closed r'" by (rule sync_steps_closed [OF assms(2)])
  ultimately show ?thesis
    using assms(1) by (auto simp: SyncResult_Wait_def SyncResult_List_def Let_def split: if_splits)
qed

lemma SyncResult_Close_unblocks: "SyncResult_Wait n (SyncResult_Close r) \<noteq> None"
  by (simp add: SyncResult_Close_def SyncResult_Wait_def Let_def)

end
