(* ===== verification/Names.thy ===== *)
theory Names
  imports Results
begin

text \<open>
  \<open>pkg/korrel8r/names.go\<close>: full class names \<open>DOMAIN:CLASS\<close> and query strings \<open>DOMAIN:CLASS:DATA\<close>.
  The regular expressions are translated to the cuts at \<open>:\<close> they describe: a label is a non-empty run
  of \<open>[^:\s<>#%{}|\^\[\]]\<close>, which leaves out the colon, so the two labels are the parts before the
  first and second colon. The data part of a query is \<open>.*\<close>, which does not match a newline.
\<close>

definition label_char :: "char \<Rightarrow> bool" where
  "label_char c \<longleftrightarrow> \<not> regexp_space c \<and> c \<notin> set '':<>#%{}|^[]''"

definition labelRE :: "string \<Rightarrow> bool" where
  "labelRE s \<longleftrightarrow> s \<noteq> [] \<and> list_all label_char s"

definition classRE :: "string \<Rightarrow> (string \<times> string) option" where
  "classRE s =
     (let (d, c, ok) = strings_Cut s (CHR '':'')
      in if ok \<and> labelRE d \<and> labelRE c then Some (d, c) else None)"

definition queryRE :: "string \<Rightarrow> (string \<times> string \<times> string) option" where
  "queryRE s =
     (let (d, rest, ok) = strings_Cut s (CHR '':'');
          (c, data, ok') = strings_Cut rest (CHR '':'')
      in if ok \<and> ok' \<and> labelRE d \<and> labelRE c \<and> CHR 0x0A \<notin> set data
         then Some (d, c, data) else None)"

definition ClassSplit :: "string \<Rightarrow> (string \<times> string) result" where
  "ClassSplit fullname =
     (case classRE fullname of
        None \<Rightarrow> Inl (ErrorString (''invalid class name: '' @ fullname))
      | Some (d, c) \<Rightarrow> Inr (d, c))"

definition QuerySplit :: "string \<Rightarrow> (string \<times> string \<times> string) result" where
  "QuerySplit query =
     (case queryRE query of
        None \<Rightarrow> Inl (ErrorString (''invalid query: '' @ query))
      | Some (d, c, data) \<Rightarrow> Inr (d, c, data))"

definition ClassJoin :: "string \<Rightarrow> string \<Rightarrow> string" where
  "ClassJoin domain name = domain @ '':'' @ name"

definition QueryJoin :: "string \<Rightarrow> string \<Rightarrow> string \<Rightarrow> string" where
  "QueryJoin domain cls selector = domain @ '':'' @ cls @ '':'' @ selector"

section \<open>Labels\<close>

lemma labelRE_no_colon: "labelRE s \<Longrightarrow> CHR '':'' \<notin> set s"
  by (auto simp: labelRE_def label_char_def list_all_iff)

lemma labelRE_no_newline: "labelRE s \<Longrightarrow> CHR 0x0A \<notin> set s"
  by (auto simp: labelRE_def label_char_def list_all_iff regexp_space_def)

lemma labelRE_not_Nil: "labelRE s \<Longrightarrow> s \<noteq> []"
  by (simp add: labelRE_def)

section \<open>Exact descriptions of the two regular expressions\<close>

lemma strings_Cut_True:
  "strings_Cut s c = (a, b, True) \<longleftrightarrow> s = a @ c # b \<and> c \<notin> set a"
proof
  assume h: "strings_Cut s c = (a, b, True)"
  then obtain x where dw: "dropWhile (\<lambda>x. x \<noteq> c) s = x # b" and a: "takeWhile (\<lambda>x. x \<noteq> c) s = a"
    by (auto simp: strings_Cut_def split: list.splits)
  have "x = c" using dw by (metis (mono_tags, lifting) dropWhile_eq_Cons_conv)
  then have "s = a @ c # b" using takeWhile_dropWhile_id [of "\<lambda>x. x \<noteq> c" s] dw a by simp
  moreover have "c \<notin> set a" using a by (auto dest: set_takeWhileD)
  ultimately show "s = a @ c # b \<and> c \<notin> set a" ..
next
  assume "s = a @ c # b \<and> c \<notin> set a"
  then show "strings_Cut s c = (a, b, True)" by (simp add: strings_Cut_found)
qed

lemma classRE_iff:
  "classRE s = Some (d, c) \<longleftrightarrow> s = d @ '':'' @ c \<and> labelRE d \<and> labelRE c"
  (is "?l \<longleftrightarrow> ?r")
proof
  assume ?l
  then show ?r by (auto simp: classRE_def strings_Cut_True split: prod.splits if_splits)
next
  assume r: ?r
  then have "strings_Cut s (CHR '':'') = (d, c, True)"
    by (simp add: strings_Cut_True labelRE_no_colon)
  then show ?l using r by (simp add: classRE_def)
qed

lemma queryRE_iff:
  "queryRE s = Some (d, c, data) \<longleftrightarrow>
     s = d @ '':'' @ c @ '':'' @ data \<and> labelRE d \<and> labelRE c \<and> CHR 0x0A \<notin> set data"
  (is "?l \<longleftrightarrow> ?r")
proof
  assume ?l
  then have "strings_Cut s (CHR '':'') = (d, c @ CHR '':'' # data, True)"
    and r: "labelRE d" "labelRE c" "CHR 0x0A \<notin> set data"
    by (auto simp: queryRE_def strings_Cut_True split: prod.splits if_splits)
  then show ?r by (simp add: strings_Cut_True)
next
  assume r: ?r
  then have "strings_Cut s (CHR '':'') = (d, c @ CHR '':'' # data, True)"
    by (simp add: strings_Cut_True labelRE_no_colon)
  moreover have "strings_Cut (c @ CHR '':'' # data) (CHR '':'') = (c, data, True)"
    using r by (simp add: strings_Cut_True labelRE_no_colon)
  ultimately show ?l using r by (simp add: queryRE_def)
qed

text \<open>A full class name is accepted exactly when it is two labels joined by a colon, and then
  these two labels are the result.\<close>

lemma ClassSplit_iff:
  "ClassSplit s = Inr (d, c) \<longleftrightarrow> labelRE d \<and> labelRE c \<and> s = ClassJoin d c"
  using classRE_iff [of s d c] by (auto simp: ClassSplit_def ClassJoin_def split: option.splits)

lemma QuerySplit_accepts:
  "QuerySplit s = Inr (d, c, data) \<longleftrightarrow>
     labelRE d \<and> labelRE c \<and> CHR 0x0A \<notin> set data \<and> s = QueryJoin d c data"
  using queryRE_iff [of s d c data]
  by (auto simp: QuerySplit_def QueryJoin_def split: option.splits)

text \<open>C30: A query string is accepted exactly when it is a domain label, a class label and data
  without a newline joined by colons; the data may hold any other character, colons included.\<close>

theorem QuerySplit_iff:
  "QuerySplit s = Inr (d, c, data) \<longleftrightarrow>
     labelRE d \<and> labelRE c \<and> CHR 0x0A \<notin> set data \<and> s = QueryJoin d c data"
  by (rule QuerySplit_accepts)

lemma ClassSplit_error:
  "ClassSplit s = Inl e \<Longrightarrow> e = ErrorString (''invalid class name: '' @ s)"
  by (auto simp: ClassSplit_def split: option.splits)

lemma QuerySplit_error: "QuerySplit s = Inl e \<Longrightarrow> e = ErrorString (''invalid query: '' @ s)"
  by (auto simp: QuerySplit_def split: option.splits)

lemma QueryJoin_inj:
  assumes "labelRE d" "labelRE c" "labelRE d'" "labelRE c'"
    and "QueryJoin d c data = QueryJoin d' c' data'"
  shows "d = d' \<and> c = c' \<and> data = data'"
proof -
  let ?s = "d @ CHR '':'' # c @ CHR '':'' # data"
  have "strings_Cut ?s (CHR '':'') = (d, c @ CHR '':'' # data, True)"
    using assms(1) by (simp add: strings_Cut_found labelRE_no_colon)
  moreover have "strings_Cut ?s (CHR '':'') = (d', c' @ CHR '':'' # data', True)"
    using assms(3,5) by (simp add: QueryJoin_def strings_Cut_found labelRE_no_colon)
  ultimately have d: "d = d'" and r: "c @ CHR '':'' # data = c' @ CHR '':'' # data'" by auto
  have "strings_Cut (c @ CHR '':'' # data) (CHR '':'') = (c, data, True)"
    using assms(2) by (simp add: strings_Cut_found labelRE_no_colon)
  moreover have "strings_Cut (c @ CHR '':'' # data) (CHR '':'') = (c', data', True)"
    using assms(4) r by (simp add: strings_Cut_found labelRE_no_colon)
  ultimately show ?thesis using d by auto
qed

text \<open>The data of a query never holds a newline, although the comment of \<open>Query.Data\<close> says it may
  contain any characters: a query string with a newline in its data does not parse.\<close>

lemma QuerySplit_newline:
  assumes "CHR 0x0A \<in> set data"
  shows "QuerySplit (QueryJoin d c data) = Inl (ErrorString (''invalid query: '' @ QueryJoin d c data))"
proof (cases "QuerySplit (QueryJoin d c data)")
  case (Inl e)
  then show ?thesis using QuerySplit_error by blast
next
  case (Inr r)
  obtain d' c' data' where r: "r = (d', c', data')" by (metis prod_cases3)
  with Inr have "labelRE d'" "labelRE c'" "CHR 0x0A \<notin> set data'"
    "QueryJoin d c data = QueryJoin d' c' data'" by (auto simp: QuerySplit_accepts)
  moreover from this have "CHR 0x0A \<notin> set (QueryJoin d' c' data')"
    by (auto simp: QueryJoin_def dest: labelRE_no_newline)
  moreover have "CHR 0x0A \<in> set (QueryJoin d c data)" using assms by (simp add: QueryJoin_def)
  ultimately show ?thesis by metis
qed

lemma QuerySplit_newline_witness:
  "QuerySplit (QueryJoin ''log'' ''infra'' [CHR 0x0A]) =
     Inl (ErrorString (''invalid query: '' @ QueryJoin ''log'' ''infra'' [CHR 0x0A]))"
  by (rule QuerySplit_newline) simp

end
