(* ===== verification/Constraints.thy ===== *)
theory Constraints
  imports Names
begin

text \<open>
  \<open>pkg/korrel8r/constraint.go\<close>: the limits and the time interval of a search. The struct's pointer
  fields are options and a nil \<open>*Constraint\<close> is \<open>None\<close>. \<open>Default\<close> fills the caller's struct in place
  and returns it, so its value is also the caller's constraint afterwards; \<open>time.Now()\<close> is an argument.
\<close>

record Constraint =
  c_Limit :: "int option"
  c_QueryLimit :: "int option"
  c_Start :: "time option"
  c_End :: "time option"

definition empty_Constraint :: Constraint where
  "empty_Constraint = \<lparr>c_Limit = None, c_QueryLimit = None, c_Start = None, c_End = None\<rparr>"

definition Constraint_CompareTime :: "Constraint option \<Rightarrow> time \<Rightarrow> int" where
  "Constraint_CompareTime c when =
     (case c of
        None \<Rightarrow> 0
      | Some c \<Rightarrow>
          if (case c_Start c of None \<Rightarrow> False | Some s \<Rightarrow> when \<noteq> zero_time \<and> when < s) then -1
          else if (case c_End c of None \<Rightarrow> False | Some e \<Rightarrow> when \<noteq> zero_time \<and> e < when) then 1
          else 0)"

definition fill_limits :: "Constraint \<Rightarrow> Constraint" where
  "fill_limits c =
     (let c = (if c_Limit c = None then c\<lparr>c_Limit := Some 100\<rparr> else c)
      in if c_QueryLimit c = None then c\<lparr>c_QueryLimit := Some 10\<rparr> else c)"

definition fill_times :: "time \<Rightarrow> Constraint \<Rightarrow> Constraint" where
  "fill_times now c =
     (let c = (if c_End c = None then c\<lparr>c_End := Some now\<rparr> else c)
      in if c_Start c = None then c\<lparr>c_Start := Some (ptr_Deref zero_time (c_End c) - hour)\<rparr> else c)"

definition Constraint_Default :: "time \<Rightarrow> Constraint option \<Rightarrow> Constraint" where
  "Constraint_Default now c =
     (case c of
        None \<Rightarrow> fill_times now (fill_limits empty_Constraint)
      | Some c \<Rightarrow> fill_times now (fill_limits c))"

definition Constraint_GetLimit :: "Constraint option \<Rightarrow> int" where
  "Constraint_GetLimit c =
     (case c of None \<Rightarrow> 0 | Some c \<Rightarrow> (case c_Limit c of None \<Rightarrow> 0 | Some n \<Rightarrow> n))"

definition Constraint_GetQueryLimit :: "Constraint option \<Rightarrow> int" where
  "Constraint_GetQueryLimit c =
     (case c of None \<Rightarrow> 0 | Some c \<Rightarrow> (case c_QueryLimit c of None \<Rightarrow> 0 | Some n \<Rightarrow> n))"

definition Constraint_GetStart :: "Constraint option \<Rightarrow> time" where
  "Constraint_GetStart c =
     (case c of None \<Rightarrow> zero_time | Some c \<Rightarrow> (case c_Start c of None \<Rightarrow> zero_time | Some t \<Rightarrow> t))"

definition Constraint_GetEnd :: "Constraint option \<Rightarrow> time" where
  "Constraint_GetEnd c =
     (case c of None \<Rightarrow> zero_time | Some c \<Rightarrow> (case c_End c of None \<Rightarrow> zero_time | Some t \<Rightarrow> t))"

section \<open>CompareTime\<close>

definition in_interval :: "Constraint \<Rightarrow> time \<Rightarrow> bool" where
  "in_interval c t \<longleftrightarrow>
     (case c_Start c of None \<Rightarrow> True | Some s \<Rightarrow> s \<le> t) \<and>
     (case c_End c of None \<Rightarrow> True | Some e \<Rightarrow> t \<le> e)"

lemma CompareTime_zero_iff:
  "Constraint_CompareTime c t = 0 \<longleftrightarrow>
     (case c of None \<Rightarrow> True | Some k \<Rightarrow> t = zero_time \<or> in_interval k t)"
  by (auto simp: Constraint_CompareTime_def in_interval_def split: option.splits)

lemma CompareTime_range: "Constraint_CompareTime c t \<in> {-1, 0, 1}"
  by (auto simp: Constraint_CompareTime_def split: option.splits)

lemma CompareTime_negative_iff:
  "Constraint_CompareTime (Some c) t = -1 \<longleftrightarrow> t \<noteq> zero_time \<and> (\<exists>s. c_Start c = Some s \<and> t < s)"
  by (auto simp: Constraint_CompareTime_def split: option.splits)

text \<open>\<open>CompareTime\<close> is a monotone three-way comparison: of two times that are not the zero time, the
  later one never compares lower, even when the interval's start is after its end.\<close>

lemma CompareTime_mono:
  assumes "t \<le> u" and "t \<noteq> zero_time" and "u \<noteq> zero_time"
  shows "Constraint_CompareTime c t \<le> Constraint_CompareTime c u"
  using assms by (auto simp: Constraint_CompareTime_def split: option.splits)

lemma CompareTime_mono_witness:
  "Constraint_CompareTime (Some (empty_Constraint\<lparr>c_Start := Some 5, c_End := Some 9\<rparr>)) 3 \<le>
   Constraint_CompareTime (Some (empty_Constraint\<lparr>c_Start := Some 5, c_End := Some 9\<rparr>)) 7"
  by (rule CompareTime_mono) simp_all

section \<open>Default\<close>

lemmas Default_defs = Constraint_Default_def fill_limits_def fill_times_def empty_Constraint_def
  Let_def ptr_Deref_def

text \<open>\<open>Default\<close> leaves every field the caller set, fills the limits with 100 and 10, the end with
  now and the start with one hour before the end.\<close>

lemma Default_fields:
  "Constraint_Default now (Some c) =
     \<lparr>c_Limit = Some (case c_Limit c of None \<Rightarrow> 100 | Some n \<Rightarrow> n),
      c_QueryLimit = Some (case c_QueryLimit c of None \<Rightarrow> 10 | Some n \<Rightarrow> n),
      c_Start = Some (case c_Start c of
                        Some t \<Rightarrow> t
                      | None \<Rightarrow> (case c_End c of None \<Rightarrow> now | Some e \<Rightarrow> e) - hour),
      c_End = Some (case c_End c of None \<Rightarrow> now | Some e \<Rightarrow> e)\<rparr>"
  by (cases c) (auto simp: Default_defs split: option.splits)

lemma Default_nil: "Constraint_Default now None = Constraint_Default now (Some empty_Constraint)"
  by (simp add: Constraint_Default_def)

lemma Default_idem:
  "Constraint_Default now' (Some (Constraint_Default now c)) = Constraint_Default now c"
  by (cases c) (auto simp: Default_nil Default_fields)

lemma Default_limits:
  "Constraint_GetLimit (Some (Constraint_Default now c)) =
     (case c of None \<Rightarrow> 100 | Some k \<Rightarrow> (case c_Limit k of None \<Rightarrow> 100 | Some n \<Rightarrow> n))"
  "Constraint_GetQueryLimit (Some (Constraint_Default now c)) =
     (case c of None \<Rightarrow> 10 | Some k \<Rightarrow> (case c_QueryLimit k of None \<Rightarrow> 10 | Some n \<Rightarrow> n))"
  by (auto simp: Default_nil Default_fields Constraint_GetLimit_def Constraint_GetQueryLimit_def
      empty_Constraint_def split: option.splits)

end
