(* ===== verification/Domains.thy ===== *)
theory Domains
  imports Constraints
begin

text \<open>
  The interfaces of \<open>pkg/korrel8r/korrel8r.go\<close> and the registry of domains.

  A class is identified by its domain and name: the \<open>Class\<close> values of every domain compare equal when
  these do. A query is its class, its data and the address it was allocated at, as most domains return
  a pointer. A domain is the record of its methods; \<open>dom_Query\<close> takes the address the new query would
  get. A store's \<open>Get\<close> gives the objects it appended and the error it returned, if any.

  \<open>pkg/korrel8r/domains.go\<close> (\<open>Domains_*\<close>), \<open>pkg/korrel8r/impl\<close> (\<open>NewDomain\<close>, \<open>ParseQuery\<close>,
  \<open>UnmarshalQueryString\<close>, \<open>TryStores\<close>). The laws a domain's parser keeps are the locale \<open>domain_laws\<close>.
\<close>

datatype klass = Klass (k_domain: string) (k_name: string)

definition Class_String :: "klass \<Rightarrow> string" where
  "Class_String c = ClassJoin (k_domain c) (k_name c)"

record query =
  q_class :: klass
  q_data :: string
  q_ptr :: nat

definition Query_String :: "query \<Rightarrow> string" where
  "Query_String q = Class_String (q_class q) @ '':'' @ q_data q"

record domain =
  dom_Name :: string
  dom_Class :: "string \<Rightarrow> klass option"
  dom_Classes :: "klass list"
  dom_Query :: "nat \<Rightarrow> string \<Rightarrow> query result"

type_synonym 'o store_Get = "query \<Rightarrow> Constraint option \<Rightarrow> 'o list \<times> error option"

text \<open>\<open>ClassString\<close> and \<open>QueryString\<close> are cached by \<open>cache.Func\<close>, see \<open>cache_Func_transparent\<close>.\<close>

lemma Query_String_Join: "Query_String q = QueryJoin (k_domain (q_class q)) (k_name (q_class q)) (q_data q)"
  by (simp add: Query_String_def Class_String_def ClassJoin_def QueryJoin_def)

section \<open>impl: NewDomain, ParseQuery, TryStores\<close>

definition classMap :: "klass list \<Rightarrow> string \<Rightarrow> klass option" where
  "classMap classes = fold (\<lambda>c m. m(k_name c \<mapsto> c)) classes Map.empty"

text \<open>\<open>NewDomain\<close>; the embedding domain supplies the query parser.\<close>

definition NewDomain :: "string \<Rightarrow> klass list \<Rightarrow> (nat \<Rightarrow> string \<Rightarrow> query result) \<Rightarrow> domain" where
  "NewDomain name classes query =
     \<lparr>dom_Name = name, dom_Class = classMap classes, dom_Classes = classes, dom_Query = query\<rparr>"

definition impl_ParseQuery ::
  "string \<Rightarrow> (string \<Rightarrow> klass option) \<Rightarrow> string \<Rightarrow> (klass \<times> string) result" where
  "impl_ParseQuery domain_Name domain_Class query =
     (case QuerySplit query of
        Inl e \<Rightarrow> Inl e
      | Inr (d, c, q) \<Rightarrow>
          if d \<noteq> domain_Name
          then Inl (ErrorString (''wrong domain, want '' @ domain_Name @ '': '' @ query))
          else (case domain_Class c of
                  None \<Rightarrow> Inl (ClassNotFoundError d c)
                | Some cls \<Rightarrow> Inr (cls, q)))"

text \<open>\<open>UnmarshalQueryString\<close>; the YAML and JSON decoder is a parameter.\<close>

definition impl_UnmarshalQueryString ::
  "(string \<Rightarrow> 'a result) \<Rightarrow> string \<Rightarrow> (string \<Rightarrow> klass option) \<Rightarrow> string \<Rightarrow> (klass \<times> 'a) result" where
  "impl_UnmarshalQueryString unmarshal domain_Name domain_Class query =
     (case impl_ParseQuery domain_Name domain_Class query of
        Inl e \<Rightarrow> Inl e
      | Inr (c, qs) \<Rightarrow>
          (case unmarshal qs of
             Inl e \<Rightarrow> Inl (ErrorWrap ''invalid query: '' e ('': '' @ qs))
           | Inr data \<Rightarrow> Inr (c, data)))"

text \<open>\<open>errors.Join(errs, err)\<close> with a possibly nil first argument.\<close>

definition errors_Join :: "error option \<Rightarrow> error option \<Rightarrow> error option" where
  "errors_Join a b =
     (case (a, b) of
        (None, None) \<Rightarrow> None
      | (None, Some e) \<Rightarrow> Some (JoinedErrors [e])
      | (Some e, None) \<Rightarrow> Some (JoinedErrors [e])
      | (Some e, Some f) \<Rightarrow> Some (JoinedErrors [e, f]))"

fun TryStores_loop ::
  "'o store_Get list \<Rightarrow> query \<Rightarrow> Constraint option \<Rightarrow> 'o list \<Rightarrow> error option \<Rightarrow> 'o list \<times> error option" where
  "TryStores_loop [] q c out errs = (out, errs)"
| "TryStores_loop (s # ss) q c out errs =
     (let (objects, err) = s q c
      in case err of
           None \<Rightarrow> (out @ objects, None)
         | Some e \<Rightarrow> TryStores_loop ss q c (out @ objects) (errors_Join errs (Some e)))"

definition TryStores_Get :: "'o store_Get list \<Rightarrow> 'o store_Get" where
  "TryStores_Get ts q c = TryStores_loop ts q c [] None"

lemma classMap_spec:
  "classMap cs n = find (\<lambda>c. k_name c = n) (rev cs)"
proof -
  have "fold (\<lambda>c m. m(k_name c \<mapsto> c)) cs m n
      = (case find (\<lambda>c. k_name c = n) (rev cs) of None \<Rightarrow> m n | Some c \<Rightarrow> Some c)" for m
  proof (induction cs rule: rev_induct)
    case (snoc x xs)
    then show ?case by (auto split: option.splits)
  qed simp
  then show ?thesis by (simp add: classMap_def split: option.splits)
qed

lemma classMap_name: "classMap cs n = Some c \<Longrightarrow> k_name c = n \<and> c \<in> set cs"
  unfolding classMap_spec by (metis (mono_tags, lifting) find_Some_iff nth_mem set_rev)

lemma classMap_member:
  assumes "distinct (map k_name cs)" and "c \<in> set cs"
  shows "classMap cs (k_name c) = Some c"
proof (cases "classMap cs (k_name c)")
  case None
  then show ?thesis using assms(2) by (auto simp: classMap_spec find_None_iff)
next
  case (Some d)
  from classMap_name [OF Some] have "k_name d = k_name c" "d \<in> set cs" by auto
  with assms show ?thesis using Some by (auto simp: distinct_map inj_on_def)
qed

lemma impl_ParseQuery_iff:
  "impl_ParseQuery n cl s = Inr (cls, data) \<longleftrightarrow>
     (\<exists>c. cl c = Some cls \<and> labelRE n \<and> labelRE c \<and> CHR 0x0A \<notin> set data \<and> s = QueryJoin n c data)"
proof -
  have "impl_ParseQuery n cl s = Inr (cls, data) \<longleftrightarrow>
      (\<exists>c. QuerySplit s = Inr (n, c, data) \<and> cl c = Some cls)"
    by (auto simp: impl_ParseQuery_def split: sum.splits option.splits prod.splits if_splits)
  then show ?thesis by (auto simp: QuerySplit_accepts)
qed

text \<open>\<open>TryStores\<close> stops at the first store that succeeds; the objects of the stores tried before it
  stay in the result.\<close>

lemma TryStores_loop_error:
  "snd (TryStores_loop ts q c out errs) = None \<longleftrightarrow>
     (\<exists>s \<in> set ts. snd (s q c) = None) \<or> (ts = [] \<and> errs = None)"
proof (induction ts arbitrary: out errs)
  case (Cons s ss)
  then show ?case
    by (cases "s q c") (auto simp: errors_Join_def split: option.splits)
qed simp

text \<open>\<open>TryStores.Get\<close> fails exactly when it has a store and every store it has fails.\<close>

lemma TryStores_Get_fails_iff:
  "snd (TryStores_Get ts q c) \<noteq> None \<longleftrightarrow> ts \<noteq> [] \<and> list_all (\<lambda>s. snd (s q c) \<noteq> None) ts"
  by (auto simp: TryStores_Get_def TryStores_loop_error list_all_iff)

lemma TryStores_loop_objects:
  "fst (TryStores_loop ts q c out errs) =
     out @ concat (map (\<lambda>s. fst (s q c)) (takeWhile (\<lambda>s. snd (s q c) \<noteq> None) ts))
         @ (case dropWhile (\<lambda>s. snd (s q c) \<noteq> None) ts of [] \<Rightarrow> [] | s # _ \<Rightarrow> fst (s q c))"
proof (induction ts arbitrary: out errs)
  case (Cons s ss)
  then show ?case by (cases "s q c") (auto split: option.splits)
qed simp

end
