(* ===== verification/Registry.thy ===== *)
theory Registry
  imports Domains
begin

text \<open>
  \<open>pkg/korrel8r/domains.go\<close>: the registry of domains, which also interns queries. Methods under the
  lock are atomic functions; \<open>Query\<close> takes the lock twice (\<open>rQuery\<close>, then the rest) and is modelled as
  two steps of a goroutine that others interleave with. \<open>ds_next\<close> is the next free address.
\<close>

record Domains =
  ds_domains :: "(string \<times> domain) list"
  ds_queries :: "string \<rightharpoonup> query"
  ds_next :: nat

definition NewDomains :: Domains where
  "NewDomains = \<lparr>ds_domains = [], ds_queries = Map.empty, ds_next = 0\<rparr>"

definition Domains_Add :: "domain \<Rightarrow> Domains \<Rightarrow> Domains" where
  "Domains_Add d ds = ds\<lparr>ds_domains := al_set (dom_Name d) d (ds_domains ds)\<rparr>"

definition Domains_Get :: "Domains \<Rightarrow> string \<Rightarrow> domain option" where
  "Domains_Get ds name = map_of (ds_domains ds) name"

definition Domains_domain :: "Domains \<Rightarrow> string \<Rightarrow> domain result" where
  "Domains_domain ds name =
     (case map_of (ds_domains ds) name of
        Some d \<Rightarrow> Inr d
      | None \<Rightarrow> Inl (DomainNotFoundError name))"

definition Domains_List :: "Domains \<Rightarrow> domain list" where
  "Domains_List ds = sort_key dom_Name (map snd (ds_domains ds))"

definition Domains_Empty :: "Domains \<Rightarrow> bool" where
  "Domains_Empty ds \<longleftrightarrow> length (ds_domains ds) = 0"

definition Domains_domainClass :: "Domains \<Rightarrow> string \<Rightarrow> string \<Rightarrow> klass result" where
  "Domains_domainClass ds domain cls =
     (case Domains_domain ds domain of
        Inl e \<Rightarrow> Inl e
      | Inr d \<Rightarrow>
          (case dom_Class d cls of
             None \<Rightarrow> Inl (ClassNotFoundError domain cls)
           | Some c \<Rightarrow> Inr c))"

definition Domains_Class :: "Domains \<Rightarrow> string \<Rightarrow> klass result" where
  "Domains_Class ds fullname =
     (case ClassSplit fullname of
        Inl e \<Rightarrow> Inl e
      | Inr (d, c) \<Rightarrow> Domains_domainClass ds d c)"

text \<open>\<open>Query\<close>: the fast path under the read lock, the slow path under the write lock, and the two in
  sequence.\<close>

definition Domains_rQuery :: "Domains \<Rightarrow> string \<Rightarrow> query option" where
  "Domains_rQuery ds query = ds_queries ds query"

definition Domains_lockedQuery :: "string \<Rightarrow> Domains \<Rightarrow> query result \<times> Domains" where
  "Domains_lockedQuery query ds =
     (case ds_queries ds query of
        Some q \<Rightarrow> (Inr q, ds)
      | None \<Rightarrow>
          (case QuerySplit query of
             Inl e \<Rightarrow> (Inl e, ds)
           | Inr (domain, _, _) \<Rightarrow>
               (case Domains_domain ds domain of
                  Inl e \<Rightarrow> (Inl e, ds)
                | Inr d \<Rightarrow>
                    (case dom_Query d (ds_next ds) query of
                       Inl e \<Rightarrow> (Inl e, ds)
                     | Inr q \<Rightarrow>
                         (Inr q, ds\<lparr>ds_queries := (ds_queries ds)(query \<mapsto> q),
                                    ds_next := Suc (ds_next ds)\<rparr>)))))"

definition Domains_Query :: "string \<Rightarrow> Domains \<Rightarrow> query result \<times> Domains" where
  "Domains_Query query ds =
     (case Domains_rQuery ds query of
        Some q \<Rightarrow> (Inr q, ds)
      | None \<Rightarrow> Domains_lockedQuery query ds)"

section \<open>The registry's invariant\<close>

definition Domains_ok :: "Domains \<Rightarrow> bool" where
  "Domains_ok ds \<longleftrightarrow>
     distinct (map fst (ds_domains ds)) \<and> (\<forall>(n, d) \<in> set (ds_domains ds). dom_Name d = n)"

lemma al_set_values: "(a, b) \<in> set (al_set k v m) \<Longrightarrow> (a, b) = (k, v) \<or> (a, b) \<in> set m"
  by (induction m) (auto split: if_splits)

lemma NewDomains_ok: "Domains_ok NewDomains"
  by (simp add: Domains_ok_def NewDomains_def)

lemma Domains_Add_ok: "Domains_ok ds \<Longrightarrow> Domains_ok (Domains_Add d ds)"
  by (auto simp: Domains_ok_def Domains_Add_def distinct_al_set dest!: al_set_values)

lemma Domains_lockedQuery_ok: "Domains_ok ds \<Longrightarrow> Domains_ok (snd (Domains_lockedQuery s ds))"
  by (auto simp: Domains_ok_def Domains_lockedQuery_def split: option.splits sum.splits)

lemma Domains_domain_name:
  "Domains_ok ds \<Longrightarrow> Domains_domain ds n = Inr d \<Longrightarrow> dom_Name d = n"
  by (auto simp: Domains_ok_def Domains_domain_def split: option.splits dest!: map_of_SomeD)

lemma Domains_Get_Add:
  "Domains_Get (Domains_Add d ds) n = (if n = dom_Name d then Some d else Domains_Get ds n)"
  by (simp add: Domains_Get_def Domains_Add_def)

lemma Domains_List_names:
  assumes "Domains_ok ds"
  shows "map dom_Name (map snd (ds_domains ds)) = map fst (ds_domains ds)"
  using assms by (auto simp: Domains_ok_def)

text \<open>\<open>List\<close> gives the registered domains by increasing name, each name once, and does not depend
  on the order Go ranges over the map in.\<close>

theorem Domains_List_sorted:
  assumes ok: "Domains_ok ds" "Domains_ok ds'" and same: "set (ds_domains ds) = set (ds_domains ds')"
  shows "sorted_wrt (<) (map dom_Name (Domains_List ds)) \<and>
    set (Domains_List ds) = snd ` set (ds_domains ds) \<and> Domains_List ds = Domains_List ds'"
proof -
  have dist: "distinct (map dom_Name (map snd (ds_domains s)))" if "Domains_ok s" for s
    using that unfolding Domains_List_names [OF that] by (simp add: Domains_ok_def)
  have strict: "sorted_wrt (<) (map dom_Name (Domains_List s))" if "Domains_ok s" for s
  proof -
    have "sorted (map dom_Name (Domains_List s))" by (simp add: Domains_List_def)
    moreover have "distinct (map dom_Name (Domains_List s))"
    proof (rule distinct_map [THEN iffD2])
      from dist [OF that, THEN distinct_map [THEN iffD1]]
      show "distinct (Domains_List s) \<and> inj_on dom_Name (set (Domains_List s))"
        by (simp add: Domains_List_def)
    qed
    ultimately show ?thesis by (simp add: strict_sorted_iff)
  qed
  have sets: "set (Domains_List s) = snd ` set (ds_domains s)" for s
    by (simp add: Domains_List_def)
  have "Domains_List ds = Domains_List ds'"
  proof (rule map_sorted_distinct_set_unique [of dom_Name])
    show "inj_on dom_Name (set (Domains_List ds) \<union> set (Domains_List ds'))"
      using dist [OF ok(1), THEN distinct_map [THEN iffD1]] same sets by simp
  qed (use strict [OF ok(1)] strict [OF ok(2)] same sets in \<open>auto simp: strict_sorted_iff\<close>)
  with strict [OF ok(1)] sets [of ds] show ?thesis by blast
qed

lemma Domains_List_sorted_witness:
  "sorted_wrt (<) (map dom_Name (Domains_List
     (Domains_Add (NewDomain ''k8s'' [] (\<lambda>_ _. Inl (ErrorString []))) NewDomains)))"
proof -
  let ?ds = "Domains_Add (NewDomain ''k8s'' [] (\<lambda>_ _. Inl (ErrorString []))) NewDomains"
  have "Domains_ok ?ds" by (intro Domains_Add_ok NewDomains_ok)
  from Domains_List_sorted [OF this this refl] show ?thesis by blast
qed

section \<open>Domains and the classes and queries they give\<close>

text \<open>The laws of a domain's \<open>Class\<close>, \<open>Classes\<close> and \<open>Query\<close>; the domains of the later theories are
  interpretations.\<close>

locale domain_laws =
  fixes D :: domain
  assumes class_domain: "dom_Class D n = Some c \<Longrightarrow> k_domain c = dom_Name D"
    and class_canonical: "dom_Class D n = Some c \<Longrightarrow> dom_Class D (k_name c) = Some c"
    and classes_found: "c \<in> set (dom_Classes D) \<Longrightarrow> dom_Class D (k_name c) = Some c"
    and query_class: "dom_Query D p s = Inr q \<Longrightarrow> dom_Class D (k_name (q_class q)) = Some (q_class q)"
begin

lemma query_domain: "dom_Query D p s = Inr q \<Longrightarrow> k_domain (q_class q) = dom_Name D"
  using query_class class_domain by blast

lemma classes_domain: "c \<in> set (dom_Classes D) \<Longrightarrow> k_domain c = dom_Name D"
  using classes_found class_domain by blast

text \<open>A registry with this domain finds a class by its full name, and the class it finds is known under
  its own full name.\<close>

lemma registry_class_canonical:
  assumes "map_of (ds_domains ds) (dom_Name D) = Some D"
    and "Domains_domainClass ds (dom_Name D) n = Inr c"
  shows "Domains_domainClass ds (k_domain c) (k_name c) = Inr c"
proof -
  from assms have "dom_Class D n = Some c"
    by (auto simp: Domains_domainClass_def Domains_domain_def split: option.splits)
  then have "k_domain c = dom_Name D" "dom_Class D (k_name c) = Some c"
    using class_domain class_canonical by blast+
  with assms(1) show ?thesis by (simp add: Domains_domainClass_def Domains_domain_def)
qed

lemma registry_query_class:
  assumes "map_of (ds_domains ds) (dom_Name D) = Some D" and "ds_queries ds s = None"
    and "QuerySplit s = Inr (dom_Name D, c, x)" and "Domains_Query s ds = (Inr q, ds')"
  shows "k_domain (q_class q) = dom_Name D \<and> ds_next ds' = Suc (ds_next ds)"
proof -
  from assms have "dom_Query D (ds_next ds) s = Inr q" and "ds_next ds' = Suc (ds_next ds)"
    by (auto simp: Domains_Query_def Domains_rQuery_def Domains_lockedQuery_def Domains_domain_def
        split: sum.splits)
  then show ?thesis using query_domain by blast
qed

end

section \<open>Interning\<close>

text \<open>Goroutines that parse queries while others add domains.\<close>

datatype query_pc =
    QueryStart string
  | QueryMissed string
  | QueryDone string "query result"

type_synonym registry_state = "Domains \<times> query_pc list"

inductive registry_step :: "registry_state \<Rightarrow> registry_state \<Rightarrow> bool" where
  add_domain: "registry_step (ds, pcs) (Domains_Add d ds, pcs)"
| spawn_query: "registry_step (ds, pcs) (ds, pcs @ [QueryStart s])"
| fast_hit: "i < length pcs \<Longrightarrow> pcs ! i = QueryStart s \<Longrightarrow> Domains_rQuery ds s = Some q \<Longrightarrow>
    registry_step (ds, pcs) (ds, pcs[i := QueryDone s (Inr q)])"
| fast_miss: "i < length pcs \<Longrightarrow> pcs ! i = QueryStart s \<Longrightarrow> Domains_rQuery ds s = None \<Longrightarrow>
    registry_step (ds, pcs) (ds, pcs[i := QueryMissed s])"
| slow_path: "i < length pcs \<Longrightarrow> pcs ! i = QueryMissed s \<Longrightarrow> Domains_lockedQuery s ds = (r, ds') \<Longrightarrow>
    registry_step (ds, pcs) (ds', pcs[i := QueryDone s r])"

definition interned :: "registry_state \<Rightarrow> bool" where
  "interned st \<longleftrightarrow>
     (\<forall>s q. QueryDone s (Inr q) \<in> set (snd st) \<longrightarrow> ds_queries (fst st) s = Some q)"

lemma lockedQuery_keeps:
  "Domains_lockedQuery s ds = (r, ds') \<Longrightarrow> ds_queries ds t = Some q \<Longrightarrow> ds_queries ds' t = Some q"
  by (auto simp: Domains_lockedQuery_def split: option.splits sum.splits)

lemma lockedQuery_stores:
  "Domains_lockedQuery s ds = (Inr q, ds') \<Longrightarrow> ds_queries ds' s = Some q"
  by (auto simp: Domains_lockedQuery_def split: option.splits sum.splits)

lemma set_update_cases: "x \<in> set (xs[i := y]) \<Longrightarrow> x = y \<or> x \<in> set xs"
  using set_update_subset_insert by fastforce

lemma registry_step_interned: "registry_step st st' \<Longrightarrow> interned st \<Longrightarrow> interned st'"
proof (induction rule: registry_step.induct)
  case (slow_path i pcs s ds r ds')
  show ?case
    unfolding interned_def
  proof (intro allI impI)
    fix t q assume "QueryDone t (Inr q) \<in> set (snd (ds', pcs[i := QueryDone s r]))"
    then have "QueryDone t (Inr q) = QueryDone s r \<or> QueryDone t (Inr q) \<in> set pcs"
      using set_update_cases by fastforce
    then show "ds_queries (fst (ds', pcs[i := QueryDone s r])) t = Some q"
      using slow_path lockedQuery_stores lockedQuery_keeps by (fastforce simp: interned_def)
  qed
qed (auto simp: interned_def Domains_Add_def Domains_rQuery_def dest!: set_update_cases)

lemma registry_steps_interned: "registry_step\<^sup>*\<^sup>* st st' \<Longrightarrow> interned st \<Longrightarrow> interned st'"
  by (induction rule: rtranclp_induct) (auto intro: registry_step_interned)

text \<open>C31: Queries are interned: however the goroutines interleave, two calls of \<open>Domains.Query\<close> with
  equal strings that succeed return the identical query.\<close>

theorem Domains_Query_interned:
  assumes "registry_step\<^sup>*\<^sup>* (NewDomains, []) (ds, pcs)"
    and "QueryDone s (Inr q) \<in> set pcs" and "QueryDone s (Inr q') \<in> set pcs"
  shows "q = q'"
proof -
  have "interned (ds, pcs)" by (rule registry_steps_interned [OF assms(1)]) (simp add: interned_def)
  then have "ds_queries ds s = Some r" if "QueryDone s (Inr r) \<in> set pcs" for r
    using that by (simp add: interned_def)
  from this [OF assms(2)] this [OF assms(3)] have "ds_queries ds s = Some q" "ds_queries ds s = Some q'" .
  then show ?thesis by simp
qed

lemma Domains_Query_interned_witness:
  "\<exists>q. fst (Domains_lockedQuery ''mock:a:x'' (Domains_Add (NewDomain ''mock'' [Klass ''mock'' ''a'']
     (\<lambda>p s. Inr \<lparr>q_class = Klass ''mock'' ''a'', q_data = ''x'', q_ptr = p\<rparr>)) NewDomains)) = Inr q \<and> q = q"
proof -
  let ?s = "''mock:a:x''"
  let ?d = "NewDomain ''mock'' [Klass ''mock'' ''a'']
     (\<lambda>p s. Inr \<lparr>q_class = Klass ''mock'' ''a'', q_data = ''x'', q_ptr = p\<rparr>)"
  let ?ds = "Domains_Add ?d NewDomains"
  let ?q = "\<lparr>q_class = Klass ''mock'' ''a'', q_data = ''x'', q_ptr = 0\<rparr>"
  let ?ds' = "snd (Domains_lockedQuery ?s ?ds)"
  have split: "QuerySplit ?s = Inr (''mock'', ''a'', ''x'')" by code_simp
  have ds: "ds_queries ?ds ?s = None" "ds_next ?ds = 0" "Domains_domain ?ds ''mock'' = Inr ?d"
    by (simp_all add: Domains_Add_def NewDomains_def NewDomain_def Domains_domain_def)
  have locked: "Domains_lockedQuery ?s ?ds = (Inr ?q, ?ds')"
    using ds split by (simp add: Domains_lockedQuery_def NewDomain_def)
  then have again: "Domains_lockedQuery ?s ?ds' = (Inr ?q, ?ds')"
    using lockedQuery_stores [OF locked] by (simp add: Domains_lockedQuery_def)
  note miss = fast_miss [of _ _ ?s ?ds, unfolded Domains_rQuery_def, OF _ _ ds(1)]
  have "registry_step\<^sup>*\<^sup>* (NewDomains, []) (?ds, [])" by (blast intro: add_domain)
  also have "registry_step (?ds, []) (?ds, [QueryStart ?s])" using spawn_query [of _ "[]"] by simp
  also have "registry_step (?ds, [QueryStart ?s]) (?ds, [QueryStart ?s, QueryStart ?s])"
    using spawn_query [of _ "[QueryStart ?s]"] by simp
  also have "registry_step (?ds, [QueryStart ?s, QueryStart ?s]) (?ds, [QueryMissed ?s, QueryStart ?s])"
    using miss [of 0 "[QueryStart ?s, QueryStart ?s]"] by simp
  also have "registry_step (?ds, [QueryMissed ?s, QueryStart ?s]) (?ds, [QueryMissed ?s, QueryMissed ?s])"
    using miss [of 1 "[QueryMissed ?s, QueryStart ?s]"] by simp
  also have "registry_step (?ds, [QueryMissed ?s, QueryMissed ?s])
      (?ds', [QueryDone ?s (Inr ?q), QueryMissed ?s])"
    using slow_path [of 0 "[QueryMissed ?s, QueryMissed ?s]", OF _ _ locked] by simp
  also have "registry_step (?ds', [QueryDone ?s (Inr ?q), QueryMissed ?s])
      (?ds', [QueryDone ?s (Inr ?q), QueryDone ?s (Inr ?q)])"
    using slow_path [of 1 "[QueryDone ?s (Inr ?q), QueryMissed ?s]", OF _ _ again] by simp
  finally have "?q = ?q" by (rule Domains_Query_interned) simp_all
  moreover from locked have "fst (Domains_lockedQuery ?s ?ds) = Inr ?q" by (metis fst_conv)
  ultimately show ?thesis by blast
qed

end
