(* ===== verification/Rules.thy ===== *)
theory Rules
  imports Registry
begin

text \<open>
  \<open>pkg/rules\<close> and \<open>pkg/status\<close>: rules turn a start object into goal queries. A rule's template writes a
  text, one query per line, that \<open>parseQueries\<close> reads with the registry. The execution of a compiled
  template (\<open>text/template\<close> or \<open>quicktemplate\<close>) on an object is a parameter: it writes a text, returns
  an error or panics, and both kinds of rule turn a panic into an error. A status rule writes one status
  per line.
\<close>

section \<open>Helper functions\<close>

text \<open>The dynamic values \<open>reflect\<close> distinguishes here; a nil slice or map has no elements. \<open>VMaps\<close> is a
  slice of maps, a Go type of its own.\<close>

datatype go_value =
    VNil
  | VBool bool
  | VInt int
  | VString string
  | VSlice "go_value list option"
  | VMap "(string \<times> go_value) list option"
  | VMaps "(string \<times> go_value) list option list option"
  | VStruct "go_value list"
  | VPointer "go_value option"

fun reflect_IsZero :: "go_value \<Rightarrow> bool" where
  "reflect_IsZero VNil = True"
| "reflect_IsZero (VBool b) = (\<not> b)"
| "reflect_IsZero (VInt n) = (n = 0)"
| "reflect_IsZero (VString s) = (s = [])"
| "reflect_IsZero (VSlice s) = (s = None)"
| "reflect_IsZero (VMap m) = (m = None)"
| "reflect_IsZero (VMaps ms) = (ms = None)"
| "reflect_IsZero (VStruct fs) = list_all reflect_IsZero fs"
| "reflect_IsZero (VPointer p) = (p = None)"

definition Empty :: "go_value \<Rightarrow> bool" where
  "Empty v =
     (case v of
        VNil \<Rightarrow> True
      | VSlice s \<Rightarrow> (case s of None \<Rightarrow> True | Some xs \<Rightarrow> length xs = 0)
      | VMap m \<Rightarrow> (case m of None \<Rightarrow> True | Some xs \<Rightarrow> length xs = 0)
      | VMaps ms \<Rightarrow> (case ms of None \<Rightarrow> True | Some xs \<Rightarrow> length xs = 0)
      | _ \<Rightarrow> reflect_IsZero v)"

definition Fail :: "string \<Rightarrow> 'a go" where
  "Fail msg = Panics msg"

definition FailErr :: "error option \<Rightarrow> unit go" where
  "FailErr err = (case err of None \<Rightarrow> Returns () | Some e \<Rightarrow> Panics (Error e))"

definition Require :: "go_value \<Rightarrow> go_value go" where
  "Require v = (if Empty v then Fail ''missing required value'' else Returns v)"

fun RequireAll :: "go_value list \<Rightarrow> unit go" where
  "RequireAll [] = Returns ()"
| "RequireAll (v # vs) = (if Empty v then Fail ''missing required values'' else RequireAll vs)"

definition Default_value :: "go_value \<Rightarrow> go_value \<Rightarrow> go_value" where
  "Default_value dflt v = (if Empty v then dflt else v)"

text \<open>\<open>ToJSON\<close>; \<open>json.Marshal\<close> is a parameter.\<close>

definition ToJSON :: "(go_value \<Rightarrow> string result) \<Rightarrow> go_value \<Rightarrow> string go" where
  "ToJSON marshal v = (case marshal v of Inl e \<Rightarrow> Panics (Error e) | Inr s \<Rightarrow> Returns s)"

lemma zero_is_Empty: "reflect_IsZero v \<Longrightarrow> Empty v"
  by (cases v) (auto simp: Empty_def)

lemma Empty_not_zero: "Empty v \<and> \<not> reflect_IsZero v \<longleftrightarrow> v = VSlice (Some []) \<or> v = VMap (Some []) \<or> v = VMaps (Some [])"
  by (cases v) (auto simp: Empty_def split: option.splits)

lemma RequireAll_ok: "RequireAll vs = Returns () \<longleftrightarrow> list_all (\<lambda>v. \<not> Empty v) vs"
  by (induction vs) (auto simp: Fail_def)

section \<open>parseQueries\<close>

fun parseQueries_loop :: "string list \<Rightarrow> query list \<Rightarrow> Domains \<Rightarrow> query list result \<times> Domains" where
  "parseQueries_loop [] queries ds = (Inr queries, ds)"
| "parseQueries_loop (q # qs) queries ds =
     (let q = strings_TrimSpace q
      in if q = [] then parseQueries_loop qs queries ds
         else (case Domains_Query q ds of
                 (Inl e, ds) \<Rightarrow> (Inl e, ds)
               | (Inr query, ds) \<Rightarrow> parseQueries_loop qs (queries @ [query]) ds))"

definition parseQueries :: "string \<Rightarrow> Domains \<Rightarrow> query list result \<times> Domains" where
  "parseQueries result ds = parseQueries_loop (strings_Split (CHR 0x0A) result) [] ds"

text \<open>The lines of a text that are not blank, trimmed.\<close>

definition text_lines :: "string \<Rightarrow> string list" where
  "text_lines s =
     filter (\<lambda>l. l \<noteq> []) (map strings_TrimSpace (strings_Split (CHR 0x0A) s))"

lemma Domains_Query_stores:
  assumes "Domains_Query s ds = (Inr q, ds')"
  shows "ds_queries ds' s = Some q"
  using assms lockedQuery_stores
  by (auto simp: Domains_Query_def Domains_rQuery_def split: option.splits)

lemma Domains_Query_keeps:
  assumes "Domains_Query s ds = (r, ds')" and "ds_queries ds t = Some q"
  shows "ds_queries ds' t = Some q"
  using assms lockedQuery_keeps
  by (fastforce simp: Domains_Query_def Domains_rQuery_def split: option.splits)

lemma parseQueries_loop_keeps:
  "parseQueries_loop ls acc ds = (r, ds') \<Longrightarrow> ds_queries ds t = Some q \<Longrightarrow> ds_queries ds' t = Some q"
  by (induction ls acc ds rule: parseQueries_loop.induct)
     (auto simp: Let_def split: if_splits prod.splits sum.splits dest: Domains_Query_keeps)

lemma parseQueries_loop_ok:
  "parseQueries_loop ls acc ds = (Inr qs, ds') \<Longrightarrow>
     \<exists>new. qs = acc @ new \<and>
       list_all2 (\<lambda>l q. ds_queries ds' l = Some q)
         (filter (\<lambda>l. l \<noteq> []) (map strings_TrimSpace ls)) new"
proof (induction ls acc ds rule: parseQueries_loop.induct)
  case (1 acc ds)
  then show ?case by simp
next
  case (2 l ls acc ds)
  show ?case
  proof (cases "strings_TrimSpace l = []")
    case True
    with 2 show ?thesis by (simp add: Let_def)
  next
    case False
    then obtain q ds1 where dq: "Domains_Query (strings_TrimSpace l) ds = (Inr q, ds1)"
      and rest: "parseQueries_loop ls (acc @ [q]) ds1 = (Inr qs, ds')"
      using 2(3) by (auto simp: Let_def split: prod.splits sum.splits)
    obtain new where "qs = (acc @ [q]) @ new"
      "list_all2 (\<lambda>l q. ds_queries ds' l = Some q) (filter (\<lambda>l. l \<noteq> []) (map strings_TrimSpace ls)) new"
      using 2(2) [OF refl False dq [symmetric] refl rest] by blast
    moreover have "ds_queries ds' (strings_TrimSpace l) = Some q"
      by (rule parseQueries_loop_keeps [OF rest Domains_Query_stores [OF dq]])
    ultimately show ?thesis using False by (intro exI [of _ "q # new"]) simp
  qed
qed

text \<open>When \<open>parseQueries\<close> succeeds, its queries are one for every line that is not blank, in order,
  each the interned query of its trimmed line.\<close>

theorem parseQueries_lines:
  assumes "parseQueries text ds = (Inr qs, ds')"
  shows "list_all2 (\<lambda>l q. ds_queries ds' l = Some q) (text_lines text) qs"
  using parseQueries_loop_ok [OF assms [unfolded parseQueries_def]] by (simp add: text_lines_def)

lemma text_lines_blank: "text_lines s = [] \<longleftrightarrow> list_all unicode_space s"
proof -
  have "text_lines s = [] \<longleftrightarrow> (\<forall>l \<in> set (strings_Split (CHR 0x0A) s). \<forall>c \<in> set l. unicode_space c)"
    by (auto simp: text_lines_def filter_empty_conv strings_TrimSpace_Nil_iff)
  also have "\<dots> \<longleftrightarrow> (\<forall>c \<in> set s. unicode_space c)"
  proof (induction s)
    case (Cons x xs)
    have nl: "unicode_space (CHR 0x0A)" by (simp add: unicode_space_def)
    obtain g gs where "strings_Split (CHR 0x0A) xs = g # gs"
      by (cases "strings_Split (CHR 0x0A) xs") auto
    with Cons nl show ?case by auto
  qed simp
  finally show ?thesis by (simp add: list_all_iff)
qed

text \<open>A result gives no queries and no error exactly when it is blank, as the comments of the two
  \<open>Apply\<close> methods say.\<close>

theorem parseQueries_blank:
  "fst (parseQueries text ds) = Inr [] \<longleftrightarrow> list_all unicode_space text"
proof
  assume "fst (parseQueries text ds) = Inr []"
  then obtain ds' where "parseQueries text ds = (Inr [], ds')" by (metis prod.collapse)
  from parseQueries_lines [OF this] show "list_all unicode_space text" by (simp add: text_lines_blank)
next
  have skip: "list_all (\<lambda>l. strings_TrimSpace l = []) ls \<Longrightarrow> parseQueries_loop ls acc ds = (Inr acc, ds)"
    for ls acc by (induction ls) auto
  assume "list_all unicode_space text"
  then have "text_lines text = []" by (simp add: text_lines_blank)
  then have "list_all (\<lambda>l. strings_TrimSpace l = []) (strings_Split (CHR 0x0A) text)"
    by (auto simp: text_lines_def filter_empty_conv list_all_iff)
  then show "fst (parseQueries text ds) = Inr []" by (simp add: parseQueries_def skip)
qed

lemma parseQueries_lines_witness:
  "list_all2 (\<lambda>l q. ds_queries NewDomains l = Some q) (text_lines '' '') []"
proof -
  have "strings_Split (CHR 0x0A) '' '' = ['' '']" "strings_TrimSpace '' '' = []" by code_simp+
  then have "parseQueries '' '' NewDomains = (Inr [], NewDomains)" by (simp add: parseQueries_def)
  then show ?thesis by (rule parseQueries_lines)
qed

section \<open>Rules\<close>

text \<open>
  \<open>korrel8r.Rule\<close> as the packages above use it: a pointer with a name, start and goal classes and
  \<open>Apply\<close>. What a template does with an object: write a text, return an error, or panic.
\<close>

record 'o rule =
  r_ptr :: nat
  r_Name :: string
  r_Start :: "klass list"
  r_Goal :: "klass list"
  r_Apply :: "'o \<Rightarrow> query list result"

type_synonym 'o template = "'o \<Rightarrow> string result go"

record 'o templateRule =
  tr_query :: "string \<times> 'o template"
  tr_start :: "klass list"
  tr_goal :: "klass list"

text \<open>\<open>NewTemplateRule\<close>: parsing the text of the query into the named template is a parameter.\<close>

definition NewTemplateRule ::
  "klass list \<Rightarrow> klass list \<Rightarrow> string \<Rightarrow> (string \<Rightarrow> 'o template result) \<Rightarrow> string \<Rightarrow> 'o templateRule result"
where
  "NewTemplateRule start goal name parse query =
     (case parse query of
        Inl err \<Rightarrow> Inl err
      | Inr t \<Rightarrow> Inr \<lparr>tr_query = (name, t), tr_start = start, tr_goal = goal\<rparr>)"

definition templateRule_Name :: "'o templateRule \<Rightarrow> string" where
  "templateRule_Name r = fst (tr_query r)"

definition templateRule_Apply :: "'o templateRule \<Rightarrow> 'o \<Rightarrow> Domains \<Rightarrow> query list result \<times> Domains" where
  "templateRule_Apply r start ds =
     (case snd (tr_query r) start of
        Panics p \<Rightarrow> (Inl (ErrorString p), ds)
      | Returns (Inl err) \<Rightarrow> (Inl err, ds)
      | Returns (Inr text) \<Rightarrow> parseQueries text ds)"

text \<open>A quick rule's function writes to a buffer and may panic.\<close>

record 'o quickRule =
  qr_name :: string
  qr_start :: "klass list"
  qr_goal :: "klass list"
  qr_apply :: "'o \<Rightarrow> string go"

definition NewQuickRule ::
  "string \<Rightarrow> klass list \<Rightarrow> klass list \<Rightarrow> ('o \<Rightarrow> string go) \<Rightarrow> 'o quickRule" where
  "NewQuickRule name start goal apply_fun =
     \<lparr>qr_name = name, qr_start = start, qr_goal = goal, qr_apply = apply_fun\<rparr>"

definition quickRule_Apply :: "'o quickRule \<Rightarrow> 'o \<Rightarrow> Domains \<Rightarrow> query list result \<times> Domains" where
  "quickRule_Apply r start ds =
     (case qr_apply r start of
        Panics p \<Rightarrow> (Inl (ErrorString p), ds)
      | Returns text \<Rightarrow> parseQueries text ds)"

text \<open>The two implementations of a rule agree: a compiled rule and a template rule that write the same
  text, or fail in the same way, for a start object give the same queries or error for it and leave the
  registry in the same state.\<close>

theorem quickRule_templateRule:
  assumes "snd (tr_query t) start = (case qr_apply r start of Panics p \<Rightarrow> Panics p | Returns s \<Rightarrow> Returns (Inr s))"
  shows "quickRule_Apply r start ds = templateRule_Apply t start ds"
  by (simp add: quickRule_Apply_def templateRule_Apply_def assms split: go.splits)

lemma quickRule_templateRule_witness:
  "quickRule_Apply (NewQuickRule ''r'' [] [] (\<lambda>s. if s = [] then Panics ''empty'' else Returns s)) '' '' NewDomains =
   templateRule_Apply \<lparr>tr_query = (''r'', \<lambda>s. if s = [] then Panics ''empty'' else Returns (Inr s)),
     tr_start = [], tr_goal = []\<rparr> '' '' NewDomains"
  by (rule quickRule_templateRule) (simp add: NewQuickRule_def)

lemma strings_Split_unlines:
  assumes "list_all (\<lambda>l. c \<notin> set l) ls" and "ls \<noteq> []"
  shows "strings_Split c (strings_Join [c] ls) = ls"
  using assms
proof (induction "[c]" ls rule: strings_Join.induct)
  case (3 s t ts)
  have "strings_Split c (s @ c # r) = s # strings_Split c r" if "c \<notin> set s" for s r
    using that by (induction s) auto
  with 3 show ?case by auto
qed (auto simp: strings_Split_no_sep)

lemma text_lines_Join:
  assumes "list_all (\<lambda>l. l \<noteq> [] \<and> CHR 0x0A \<notin> set l \<and> strings_TrimSpace l = l) ls"
  shows "text_lines (strings_Join [CHR 0x0A] ls) = ls"
proof (cases "ls = []")
  case True
  then show ?thesis by (simp add: text_lines_def strings_TrimSpace_def)
next
  case False
  have "list_all (\<lambda>l. CHR 0x0A \<notin> set l) ls" using assms by (auto simp: list_all_iff)
  with False have "strings_Split (CHR 0x0A) (strings_Join [CHR 0x0A] ls) = ls"
    by (simp add: strings_Split_unlines)
  moreover have "map strings_TrimSpace ls = ls" using assms by (simp add: list_all_iff map_idI)
  moreover have "filter (\<lambda>l. l \<noteq> []) ls = ls" using assms by (simp add: list_all_iff)
  ultimately show ?thesis by (simp add: text_lines_def)
qed

text \<open>A rule that writes the strings of some queries, one per line, gives exactly the queries those
  strings parse to: query strings without white space at their ends survive the trip through the
  template's text.\<close>

theorem quickRule_Apply_lines:
  assumes "list_all (\<lambda>l. l \<noteq> [] \<and> CHR 0x0A \<notin> set l \<and> strings_TrimSpace l = l) ls"
    and "qr_apply r start = Returns (strings_Join [CHR 0x0A] ls)"
    and "quickRule_Apply r start ds = (Inr qs, ds')"
  shows "list_all2 (\<lambda>l q. ds_queries ds' l = Some q) ls qs"
proof -
  have "parseQueries (strings_Join [CHR 0x0A] ls) ds = (Inr qs, ds')"
    using assms(2,3) by (simp add: quickRule_Apply_def)
  from parseQueries_loop_ok [OF this [unfolded parseQueries_def]] show ?thesis
    using text_lines_Join [OF assms(1)] by (simp add: text_lines_def)
qed

section \<open>Status rules\<close>

fun status_loop :: "string list \<Rightarrow> string list \<Rightarrow> string list" where
  "status_loop [] statuses = statuses"
| "status_loop (s # ss) statuses =
     (let s = strings_TrimSpace s
      in if s = [] then status_loop ss statuses else status_loop ss (statuses @ [s]))"

definition templateStatus_Apply :: "'o template \<Rightarrow> 'o \<Rightarrow> string list result go" where
  "templateStatus_Apply tmpl start =
     (case tmpl start of
        Panics p \<Rightarrow> Panics p
      | Returns (Inl err) \<Rightarrow> Returns (Inl err)
      | Returns (Inr text) \<Rightarrow> Returns (Inr (status_loop (strings_Split (CHR 0x0A) text) [])))"

lemma status_loop_lines:
  "status_loop ls acc = acc @ filter (\<lambda>l. l \<noteq> []) (map strings_TrimSpace ls)"
  by (induction ls arbitrary: acc) (auto simp: Let_def)

lemma templateStatus_Apply_lines:
  "tmpl start = Returns (Inr text) \<Longrightarrow> templateStatus_Apply tmpl start = Returns (Inr (text_lines text))"
  by (simp add: templateStatus_Apply_def status_loop_lines text_lines_def)

lemma quickRule_Apply_lines_witness:
  "list_all2 (\<lambda>l q. ds_queries
     (NewDomains\<lparr>ds_queries := [''a:b:c'' \<mapsto> \<lparr>q_class = Klass ''a'' ''b'', q_data = ''c'', q_ptr = 0\<rparr>]\<rparr>) l
     = Some q) [''a:b:c''] [\<lparr>q_class = Klass ''a'' ''b'', q_data = ''c'', q_ptr = 0\<rparr>]"
proof -
  let ?q = "\<lparr>q_class = Klass ''a'' ''b'', q_data = ''c'', q_ptr = 0\<rparr>"
  let ?ds = "NewDomains\<lparr>ds_queries := [''a:b:c'' \<mapsto> ?q]\<rparr>"
  let ?r = "NewQuickRule ''r'' [] [] (\<lambda>_ :: unit. Returns ''a:b:c'')"
  have ls: "list_all (\<lambda>l. l \<noteq> [] \<and> CHR 0x0A \<notin> set l \<and> strings_TrimSpace l = l) [''a:b:c'']"
    by code_simp
  have "strings_Split (CHR 0x0A) ''a:b:c'' = [''a:b:c'']" "strings_TrimSpace ''a:b:c'' = ''a:b:c''"
    by code_simp+
  then have "quickRule_Apply ?r () ?ds = (Inr [?q], ?ds)"
    by (simp add: quickRule_Apply_def NewQuickRule_def parseQueries_def Domains_Query_def
        Domains_rQuery_def)
  moreover have "qr_apply ?r () = Returns (strings_Join [CHR 0x0A] [''a:b:c''])"
    by (simp add: NewQuickRule_def)
  ultimately show ?thesis by (intro quickRule_Apply_lines [OF ls])
qed

end
