(* ===== verification/Stores.thy ===== *)
theory Stores
  imports Rules
begin

text \<open>
  \<open>pkg/engine/stores.go\<close>: a \<open>storeHolder\<close> (re-)creates its store on demand from a configuration, and
  \<open>storeHolders\<close> queries all the stores of a domain. Store clients are identified by a number, the
  identity of the Go value. What the outside does in one call is the record \<open>store_env\<close>: the clock at
  the times the call reads it, template expansion, store creation and the store's own \<open>Get\<close>.
  \<open>storeHolder.Get\<close> releases the lock around the store's \<open>Get\<close>, so it is two atomic sections:
  \<open>ensureLH\<close> and \<open>Get_finish\<close>. Closing a failed store is not modelled.
\<close>

type_synonym config_Store = "(string \<times> string) list"

record storeHolder =
  sh_Original :: "config_Store option"
  sh_Expanded :: "config_Store option"
  sh_Store :: "nat option"
  sh_LastErr :: "error option"
  sh_ErrCount :: nat
  sh_retryAfter :: time
  sh_domain :: string

record 'o store_env =
  se_now :: time
  se_later :: time
  se_interval :: duration
  se_expand :: "string \<Rightarrow> string \<Rightarrow> string result"
  se_create :: "config_Store \<Rightarrow> nat result"
  se_mock :: "config_Store \<Rightarrow> nat result"
  se_get :: "nat \<Rightarrow> 'o store_Get"

text \<open>\<open>errors.As(err, &execErr)\<close> with a \<open>template.ExecError\<close>, and what its error unwraps to.\<close>

fun as_ExecError :: "error \<Rightarrow> error option option" where
  "as_ExecError (ExecError s inner) = Some inner"
| "as_ExecError (ErrorWrap s e t) = as_ExecError e"
| "as_ExecError (AuthError e) = as_ExecError e"
| "as_ExecError (JoinedErrors es) =
     foldr (\<lambda>e r. case as_ExecError e of Some i \<Rightarrow> Some i | None \<Rightarrow> r) es None"
| "as_ExecError e = None"

definition unwrap_exec :: "error \<Rightarrow> error" where
  "unwrap_exec err =
     (case as_ExecError err of
        None \<Rightarrow> err
      | Some execErr \<Rightarrow> (case execErr of Some err2 \<Rightarrow> err2 | None \<Rightarrow> err))"

text \<open>\<open>wrap\<close>: exactly one of the configuration and the store is given. The store comes with its
  domain's name.\<close>

definition wrap ::
  "(string \<Rightarrow> domain result) \<Rightarrow> config_Store option \<Rightarrow> (nat \<times> string) option \<Rightarrow> storeHolder result" where
  "wrap engine_Domain sc s =
     (case (case s of
              Some (_, d) \<Rightarrow> Inr d
            | None \<Rightarrow>
                (case engine_Domain (str_get (ptr_Deref [] sc) ''domain'') of
                   Inl err \<Rightarrow> Inl err
                 | Inr d \<Rightarrow> Inr (dom_Name d))) of
        Inl err \<Rightarrow> Inl err
      | Inr d \<Rightarrow> Inr \<lparr>sh_Original = sc, sh_Expanded = None, sh_Store = map_option fst s,
                      sh_LastErr = None, sh_ErrCount = 0, sh_retryAfter = zero_time,
                      sh_domain = d\<rparr>)"

definition recordErrorLH :: "error option \<Rightarrow> storeHolder \<Rightarrow> storeHolder" where
  "recordErrorLH err s =
     (case err of
        None \<Rightarrow> s
      | Some e \<Rightarrow> s\<lparr>sh_LastErr := Some e, sh_ErrCount := sh_ErrCount s + 1\<rparr>)"

text \<open>Expanding the entries of the configuration, up to the first error.\<close>

fun expand_store ::
  "(string \<Rightarrow> string result) \<Rightarrow> config_Store \<Rightarrow> config_Store \<Rightarrow> config_Store \<times> error option" where
  "expand_store execTemplate [] expanded = (expanded, None)"
| "expand_store execTemplate ((k, original) # kvs) expanded =
     (case execTemplate original of
        Inl err \<Rightarrow> (expanded, Some (unwrap_exec err))
      | Inr v \<Rightarrow> expand_store execTemplate kvs (al_set k v expanded))"

text \<open>The body of \<open>ensureLH\<close> after its guards, and the deferred function that records its error.\<close>

definition createLH :: "'o store_env \<Rightarrow> config_Store \<Rightarrow> storeHolder \<Rightarrow> (nat option \<times> error option) \<times> storeHolder" where
  "createLH env original s =
     (let (expanded, err) = expand_store (se_expand env (sh_domain s @ ''-store'')) original [];
          s = s\<lparr>sh_Expanded := Some expanded\<rparr>
      in case err of
           Some e \<Rightarrow> ((None, Some e), s)
         | None \<Rightarrow>
             (case (if map_of expanded ''mockData'' \<noteq> None then se_mock env expanded
                    else se_create env expanded) of
                Inl e \<Rightarrow> ((None, Some e), s\<lparr>sh_Store := None\<rparr>)
              | Inr k \<Rightarrow> ((Some k, None), s\<lparr>sh_Store := Some k\<rparr>)))"

definition ensureLH :: "'o store_env \<Rightarrow> storeHolder \<Rightarrow> (nat option \<times> error option) \<times> storeHolder" where
  "ensureLH env s =
     (case sh_Store s of
        Some k \<Rightarrow> ((Some k, None), s)
      | None \<Rightarrow>
          (case sh_Original s of
             None \<Rightarrow> ((None, Some (ErrorString (''no store configuration for domain '' @ sh_domain s))), s)
           | Some original \<Rightarrow>
               if se_now env < sh_retryAfter s then ((None, sh_LastErr s), s)
               else (let ((ks, err), s) = createLH env original s
                     in ((ks, err),
                         if err \<noteq> None
                         then (recordErrorLH err s)\<lparr>sh_retryAfter := se_later env + se_interval env\<rparr>
                         else s))))"

definition storeHolder_Ensure :: "'o store_env \<Rightarrow> storeHolder \<Rightarrow> (nat option \<times> error option) \<times> storeHolder" where
  "storeHolder_Ensure env s = ensureLH env s"

text \<open>The second atomic section of \<open>Get\<close>, after the store's \<open>Get\<close> returned.\<close>

definition Get_finish :: "'o store_env \<Rightarrow> nat \<Rightarrow> error option \<Rightarrow> storeHolder \<Rightarrow> storeHolder" where
  "Get_finish env store err s =
     (if err \<noteq> None \<and> sh_Store s = Some store \<and> sh_Original s \<noteq> None
      then (recordErrorLH err s)\<lparr>sh_Store := None, sh_retryAfter := se_later env + se_interval env\<rparr>
      else s)"

text \<open>\<open>Get\<close> when no other goroutine comes between. A nil store without an error would be a nil pointer
  dereference.\<close>

definition storeHolder_Get ::
  "'o store_env \<Rightarrow> query \<Rightarrow> Constraint option \<Rightarrow> storeHolder \<Rightarrow> (('o list \<times> error option) \<times> storeHolder) go" where
  "storeHolder_Get env q c s =
     (case ensureLH env s of
        ((_, Some err), s) \<Rightarrow> Returns (([], Some err), s)
      | ((None, None), s) \<Rightarrow> Panics ''nil pointer dereference''
      | ((Some store, None), s) \<Rightarrow>
          (let (objects, err) = se_get env store q c
           in Returns ((objects, err), Get_finish env store err s)))"

section \<open>The holder's invariant\<close>

definition holder_ok :: "storeHolder \<Rightarrow> bool" where
  "holder_ok s \<longleftrightarrow>
     (sh_Original s = None \<longrightarrow> sh_Store s \<noteq> None \<and> sh_LastErr s = None) \<and>
     (sh_Original s \<noteq> None \<and> sh_Store s \<noteq> None \<longrightarrow> sh_Expanded s \<noteq> None) \<and>
     (sh_LastErr s \<noteq> None \<longrightarrow> sh_Expanded s \<noteq> None) \<and>
     (sh_ErrCount s > 0 \<longleftrightarrow> sh_LastErr s \<noteq> None) \<and>
     (sh_LastErr s = None \<longrightarrow> sh_retryAfter s = zero_time)"

lemma wrap_ok [store_invariant]:
  assumes "wrap f sc s = Inr h" and "(sc = None) \<noteq> (s = None)"
  shows "holder_ok h"
  using assms by (auto simp: wrap_def holder_ok_def split: sum.splits option.splits prod.splits)

lemma createLH_fields:
  assumes "createLH env original s = ((ks, err), s')"
  shows "sh_Original s' = sh_Original s" "sh_Expanded s' \<noteq> None" "sh_LastErr s' = sh_LastErr s"
    "sh_ErrCount s' = sh_ErrCount s" "sh_retryAfter s' = sh_retryAfter s" "sh_domain s' = sh_domain s"
    "(ks = None) \<longleftrightarrow> (err \<noteq> None)" "err = None \<Longrightarrow> sh_Store s' = ks"
    "sh_Store s = None \<Longrightarrow> sh_Store s' = ks"
  using assms by (auto simp: createLH_def Let_def split: prod.splits option.splits sum.splits if_splits)

text \<open>The five ways through \<open>ensureLH\<close>.\<close>

lemma ensureLH_cases:
  obtains
    (has) k where "sh_Store s = Some k" "ensureLH env s = ((Some k, None), s)"
  | (unconfigured) e where "sh_Store s = None" "sh_Original s = None"
      "ensureLH env s = ((None, Some e), s)"
  | (waiting) original where "sh_Store s = None" "sh_Original s = Some original"
      "se_now env < sh_retryAfter s" "ensureLH env s = ((None, sh_LastErr s), s)"
  | (failed) original e s1 where "sh_Store s = None" "sh_Original s = Some original"
      "\<not> se_now env < sh_retryAfter s" "createLH env original s = ((None, Some e), s1)"
      "ensureLH env s = ((None, Some e),
         (recordErrorLH (Some e) s1)\<lparr>sh_retryAfter := se_later env + se_interval env\<rparr>)"
  | (created) original k s1 where "sh_Store s = None" "sh_Original s = Some original"
      "\<not> se_now env < sh_retryAfter s" "createLH env original s = ((Some k, None), s1)"
      "ensureLH env s = ((Some k, None), s1)"
proof (cases "sh_Store s")
  case (Some k)
  then show ?thesis using has by (simp add: ensureLH_def)
next
  case None
  show ?thesis
  proof (cases "sh_Original s")
    case None
    with \<open>sh_Store s = None\<close> show ?thesis using unconfigured by (simp add: ensureLH_def)
  next
    case (Some original)
    show ?thesis
    proof (cases "se_now env < sh_retryAfter s")
      case True
      with \<open>sh_Store s = None\<close> Some show ?thesis
        by (intro waiting [of original]) (simp_all add: ensureLH_def)
    next
      case late: False
      obtain ks err s1 where c: "createLH env original s = ((ks, err), s1)" by (metis prod.collapse)
      show ?thesis
      proof (cases err)
        case (Some e)
        with createLH_fields(7) [OF c] have "ks = None" by simp
        with \<open>sh_Store s = None\<close> \<open>sh_Original s = Some original\<close> late c Some show ?thesis
          by (intro failed [of original e s1]) (simp_all add: ensureLH_def)
      next
        case None
        with createLH_fields(7) [OF c] obtain k where "ks = Some k" by auto
        with \<open>sh_Store s = None\<close> \<open>sh_Original s = Some original\<close> late c None show ?thesis
          by (intro created [of original k s1]) (simp_all add: ensureLH_def)
      qed
    qed
  qed
qed

lemma ensureLH_ok [store_invariant]:
  assumes "holder_ok s"
  shows "holder_ok (snd (ensureLH env s))"
proof (cases rule: ensureLH_cases [where s = s and env = env])
  case (failed original e s1)
  with createLH_fields [OF failed(4)] assms show ?thesis
    by (simp add: holder_ok_def recordErrorLH_def)
next
  case (created original k s1)
  with createLH_fields [OF created(4)] assms show ?thesis by (simp add: holder_ok_def)
qed (use assms in simp_all)

lemma Get_finish_ok [store_invariant]: "holder_ok s \<Longrightarrow> holder_ok (Get_finish env store err s)"
  by (auto simp: Get_finish_def holder_ok_def recordErrorLH_def split: option.splits)

text \<open>The clock does not read before Go's zero time, so a holder that waits has an error to report.\<close>

lemma ensureLH_store_or_error:
  assumes "holder_ok s" and "zero_time \<le> se_now env" and "ensureLH env s = ((ks, err), s')"
  shows "(ks = None) \<longleftrightarrow> (err \<noteq> None)"
proof (cases rule: ensureLH_cases [where s = s and env = env])
  case (waiting original)
  then have "sh_LastErr s \<noteq> None" using assms(1,2) by (auto simp: holder_ok_def)
  with waiting assms(3) show ?thesis by simp
qed (use assms(3) in simp_all)

lemma storeHolder_Get_ok:
  assumes "holder_ok s" and "zero_time \<le> se_now env"
  shows "\<exists>r s'. storeHolder_Get env q c s = Returns (r, s') \<and> holder_ok s'"
proof -
  obtain ks err s1 where e: "ensureLH env s = ((ks, err), s1)" by (metis prod.collapse)
  have ok: "holder_ok s1" using ensureLH_ok [OF assms(1), of env] e by simp
  have "(ks = None) \<longleftrightarrow> (err \<noteq> None)" by (rule ensureLH_store_or_error [OF assms e])
  then show ?thesis
    using e ok by (cases ks; cases err) (auto simp: storeHolder_Get_def Get_finish_ok split: prod.splits)
qed

text \<open>\<open>storeHolder.Get\<close> never dereferences a nil store: every call returns, and the holder stays
  well formed.\<close>

theorem storeHolder_Get_returns:
  assumes "holder_ok s" and "zero_time \<le> se_now env"
  shows "\<exists>r s'. storeHolder_Get env q c s = Returns (r, s') \<and> holder_ok s'"
  by (rule storeHolder_Get_ok [OF assms])

definition example_env :: "nat result \<Rightarrow> error option \<Rightarrow> time \<Rightarrow> nat store_env" where
  "example_env created get_error now =
     \<lparr>se_now = now, se_later = now, se_interval = second, se_expand = (\<lambda>_ s. Inr s),
      se_create = (\<lambda>_. created), se_mock = (\<lambda>_. created),
      se_get = (\<lambda>k q c. ([k], get_error))\<rparr>"

definition example_holder :: storeHolder where
  "example_holder = \<lparr>sh_Original = Some [(''domain'', ''log'')], sh_Expanded = None, sh_Store = None,
     sh_LastErr = None, sh_ErrCount = 0, sh_retryAfter = zero_time, sh_domain = ''log''\<rparr>"

lemma storeHolder_Get_returns_witness:
  "\<exists>r s'. storeHolder_Get (example_env (Inr 7) None second)
     \<lparr>q_class = Klass ''log'' ''infra'', q_data = [], q_ptr = 0\<rparr> None example_holder
     = Returns (r, s') \<and> holder_ok s'"
  by (rule storeHolder_Get_returns)
     (simp_all add: example_holder_def holder_ok_def example_env_def second_def)

text \<open>C32: After a call that failed by connecting or by querying the store, every call within the retry
  interval reports the same error at once: it neither creates a store nor queries one, and it leaves
  the holder as it is.\<close>

theorem storeHolder_Get_backoff:
  assumes "holder_ok s" and "sh_Original s \<noteq> None"
    and "sh_Store s \<noteq> None \<or> sh_retryAfter s \<le> se_now env"
    and "storeHolder_Get env q c s = Returns ((objects, Some e), s')"
    and "se_now env' < se_later env + se_interval env"
  shows "storeHolder_Get env' q' c' s' = Returns (([], Some e), s')"
proof -
  have post: "sh_Store s' = None \<and> sh_Original s' \<noteq> None \<and> sh_LastErr s' = Some e \<and>
      sh_retryAfter s' = se_later env + se_interval env"
  proof (cases rule: ensureLH_cases [where s = s and env = env])
    case (has k)
    with assms(2,4) show ?thesis
      by (auto simp: storeHolder_Get_def Get_finish_def recordErrorLH_def split: prod.splits)
  next
    case (failed original e1 s1)
    with assms(4) createLH_fields [OF failed(4)] show ?thesis
      by (auto simp: storeHolder_Get_def recordErrorLH_def)
  next
    case (created original k s1)
    with assms(4) createLH_fields [OF created(4)] show ?thesis
      by (auto simp: storeHolder_Get_def Get_finish_def recordErrorLH_def split: prod.splits)
  qed (use assms(2,3) in auto)
  with assms(5) have "ensureLH env' s' = ((None, Some e), s')" by (auto simp: ensureLH_def)
  then show ?thesis by (simp add: storeHolder_Get_def)
qed

lemma storeHolder_Get_backoff_witness:
  "\<exists>s'. storeHolder_Get (example_env (Inr 7) None (second + 1))
     \<lparr>q_class = Klass ''log'' ''infra'', q_data = [], q_ptr = 0\<rparr> None s'
     = Returns (([], Some (ErrorString ''refused'')), s')"
proof -
  let ?env = "example_env (Inl (ErrorString ''refused'')) None second"
  let ?s = "example_holder\<lparr>sh_Expanded := Some [(''domain'', ''log'')],
     sh_LastErr := Some (ErrorString ''refused''), sh_ErrCount := 1, sh_retryAfter := second + second\<rparr>"
  have "storeHolder_Get ?env \<lparr>q_class = Klass ''log'' ''infra'', q_data = [], q_ptr = 0\<rparr> None
      example_holder = Returns (([], Some (ErrorString ''refused'')), ?s)"
    by (simp add: storeHolder_Get_def ensureLH_def createLH_def example_env_def example_holder_def
        second_def recordErrorLH_def)
  from storeHolder_Get_backoff [OF _ _ _ this, of "example_env (Inr 7) None (second + 1)"]
  show ?thesis by (auto simp: example_env_def example_holder_def holder_ok_def second_def)
qed

section \<open>Concurrent calls\<close>

text \<open>Goroutines that share one holder. A goroutine in \<open>Get\<close> is between its two atomic sections while it
  calls the store. The counters \<open>cs_connects\<close> and \<open>cs_failures\<close> record the creations that succeeded and
  that failed. The objects a store gives do not matter here.\<close>

datatype get_pc = GetCalling nat | GetDone "error option"

record holder_state =
  cs_holder :: storeHolder
  cs_connects :: nat
  cs_failures :: nat
  cs_pcs :: "get_pc list"

definition attempts :: "'o store_env \<Rightarrow> storeHolder \<Rightarrow> bool" where
  "attempts env s \<longleftrightarrow>
     sh_Store s = None \<and> sh_Original s \<noteq> None \<and> \<not> se_now env < sh_retryAfter s"

definition ensure_step :: "'o store_env \<Rightarrow> holder_state \<Rightarrow> (nat option \<times> error option) \<times> holder_state" where
  "ensure_step env st =
     (let s = cs_holder st; ((ks, err), s') = ensureLH env s
      in ((ks, err),
          st\<lparr>cs_holder := s',
             cs_connects := cs_connects st + (if attempts env s \<and> err = None then 1 else 0),
             cs_failures := cs_failures st + (if attempts env s \<and> err \<noteq> None then 1 else 0)\<rparr>))"

inductive holder_step :: "holder_state \<Rightarrow> holder_state \<Rightarrow> bool" where
  get_begin: "ensure_step (env :: unit store_env) st = ((Some k, None), st') \<Longrightarrow>
    holder_step st (st'\<lparr>cs_pcs := cs_pcs st' @ [GetCalling k]\<rparr>)"
| get_refused: "ensure_step (env :: unit store_env) st = ((ks, Some e), st') \<Longrightarrow>
    holder_step st (st'\<lparr>cs_pcs := cs_pcs st' @ [GetDone (Some e)]\<rparr>)"
| ensure: "ensure_step (env :: unit store_env) st = (r, st') \<Longrightarrow> holder_step st st'"
| get_end: "i < length (cs_pcs st) \<Longrightarrow> cs_pcs st ! i = GetCalling k \<Longrightarrow>
    holder_step st (st\<lparr>cs_holder := Get_finish (env :: unit store_env) k err (cs_holder st),
                       cs_pcs := (cs_pcs st)[i := GetDone err]\<rparr>)"

definition errors_counted :: "holder_state \<Rightarrow> bool" where
  "errors_counted st \<longleftrightarrow>
     holder_ok (cs_holder st) \<and>
     (sh_Original (cs_holder st) \<noteq> None \<longrightarrow>
        sh_ErrCount (cs_holder st) + (if sh_Store (cs_holder st) \<noteq> None then 1 else 0)
          = cs_connects st + cs_failures st)"

lemma ensure_step_counted:
  assumes "ensure_step env st = (r, st')" and "errors_counted st"
  shows "errors_counted st'"
proof -
  let ?s = "cs_holder st"
  have ok: "holder_ok (snd (ensureLH env ?s))"
    using assms(2) by (simp add: errors_counted_def ensureLH_ok)
  show ?thesis
  proof (cases rule: ensureLH_cases [where s = ?s and env = env])
    case (has k)
    then show ?thesis using assms ok by (auto simp: errors_counted_def ensure_step_def attempts_def)
  next
    case (unconfigured e)
    then show ?thesis using assms ok by (auto simp: errors_counted_def ensure_step_def attempts_def)
  next
    case (waiting original)
    then show ?thesis using assms ok by (auto simp: errors_counted_def ensure_step_def attempts_def)
  next
    case (failed original e s1)
    with createLH_fields [OF failed(4)] assms ok show ?thesis
      by (auto simp: errors_counted_def ensure_step_def attempts_def recordErrorLH_def)
  next
    case (created original k s1)
    with createLH_fields [OF created(4)] assms ok show ?thesis
      by (auto simp: errors_counted_def ensure_step_def attempts_def)
  qed
qed

lemma ensure_step_Original:
  assumes "ensure_step env st = (r, st')"
  shows "sh_Original (cs_holder st') = sh_Original (cs_holder st)"
proof -
  have "sh_Original (snd (ensureLH env s)) = sh_Original s" for s
    by (cases rule: ensureLH_cases [where s = s and env = env])
       (auto simp: recordErrorLH_def dest: createLH_fields(1))
  moreover have "cs_holder st' = snd (ensureLH env (cs_holder st))"
    using assms by (auto simp: ensure_step_def Let_def split: prod.splits)
  ultimately show ?thesis by simp
qed

lemma errors_counted_pcs: "errors_counted (st\<lparr>cs_pcs := p\<rparr>) = errors_counted st"
  by (simp add: errors_counted_def)

lemma holder_step_counted: "holder_step st st' \<Longrightarrow> errors_counted st \<Longrightarrow> errors_counted st'"
proof (induction rule: holder_step.induct)
  case (get_end i st k err env)
  have "holder_ok (Get_finish env k err (cs_holder st))"
    using get_end by (simp add: errors_counted_def Get_finish_ok)
  with get_end show ?case by (auto simp: errors_counted_def Get_finish_def recordErrorLH_def)
qed (simp_all add: errors_counted_pcs ensure_step_counted)

lemma holder_steps_counted:
  "holder_step\<^sup>*\<^sup>* st st' \<Longrightarrow> errors_counted st \<Longrightarrow>
     errors_counted st' \<and> sh_Original (cs_holder st') = sh_Original (cs_holder st)"
proof (induction rule: rtranclp_induct)
  case (step st1 st2)
  have "sh_Original (cs_holder st2) = sh_Original (cs_holder st1)"
    using step.hyps(2)
  proof (cases rule: holder_step.cases)
    case (get_end i k err env)
    then show ?thesis by (simp add: Get_finish_def recordErrorLH_def split: option.splits)
  qed (use ensure_step_Original in auto)
  moreover have "errors_counted st2" using step holder_step_counted by blast
  ultimately show ?case using step by simp
qed simp

text \<open>C33: However the calls of \<open>Get\<close> and \<open>Ensure\<close> interleave, each failure is counted once: the error
  count, plus one while a store is connected, is the number of times a store was connected or could not
  be. So goroutines that fail on the same connection count one error, and a late failure never resets
  a store that was replaced.\<close>

theorem storeHolder_errors_counted:
  assumes "holder_step\<^sup>*\<^sup>* \<lparr>cs_holder = h, cs_connects = 0, cs_failures = 0, cs_pcs = []\<rparr> st"
    and "wrap domains (Some sc) None = Inr h"
  shows "sh_ErrCount (cs_holder st) + (if sh_Store (cs_holder st) \<noteq> None then 1 else 0)
    = cs_connects st + cs_failures st"
proof -
  let ?st0 = "\<lparr>cs_holder = h, cs_connects = 0, cs_failures = 0, cs_pcs = []\<rparr>"
  have "holder_ok h" using assms(2) by (rule wrap_ok) simp
  moreover have "sh_Store h = None" "sh_ErrCount h = 0" "sh_Original h \<noteq> None"
    using assms(2) by (auto simp: wrap_def split: sum.splits)
  ultimately have "errors_counted ?st0" "sh_Original (cs_holder ?st0) \<noteq> None"
    by (simp_all add: errors_counted_def)
  with holder_steps_counted [OF assms(1)] have "errors_counted st" "sh_Original (cs_holder st) \<noteq> None"
    by simp_all
  then show ?thesis by (simp add: errors_counted_def)
qed

lemma storeHolder_errors_counted_witness:
  "\<exists>st :: holder_state. sh_ErrCount (cs_holder st) = 1 \<and> cs_connects st = 0 \<and>
     sh_ErrCount (cs_holder st) + (if sh_Store (cs_holder st) \<noteq> None then 1 else 0)
       = cs_connects st + cs_failures st"
proof -
  let ?d = "NewDomain ''log'' [] (\<lambda>_ _. Inl (ErrorString []))"
  let ?st = "\<lparr>cs_holder = example_holder, cs_connects = 0, cs_failures = 0, cs_pcs = []\<rparr>"
  let ?env' = "\<lparr>se_now = second, se_later = second, se_interval = second, se_expand = (\<lambda>_ s. Inr s),
    se_create = (\<lambda>_. Inl (ErrorString ''refused'')), se_mock = (\<lambda>_. Inl (ErrorString ''refused'')),
    se_get = (\<lambda>_ _ _. ([], None))\<rparr> :: unit store_env"
  let ?st' = "snd (ensure_step ?env' ?st)"
  have w: "wrap (\<lambda>_. Inr ?d) (Some [(''domain'', ''log'')]) None = Inr example_holder"
    by (simp add: wrap_def example_holder_def NewDomain_def)
  have "ensure_step ?env' ?st = (fst (ensure_step ?env' ?st), ?st')" by simp
  then have "holder_step ?st ?st'" by (rule ensure)
  then have steps: "holder_step\<^sup>*\<^sup>* ?st ?st'" by blast
  have counts: "sh_ErrCount (cs_holder ?st') = 1 \<and> cs_connects ?st' = 0"
    by (simp_all add: ensure_step_def ensureLH_def createLH_def example_holder_def second_def
        recordErrorLH_def Let_def)
  show ?thesis using counts storeHolder_errors_counted [OF steps w] by blast
qed

section \<open>storeHolders\<close>

record storeHolders =
  ss_domain :: string
  ss_stores :: "storeHolder list"

definition newStoreHolders :: "string \<Rightarrow> storeHolders" where
  "newStoreHolders d = \<lparr>ss_domain = d, ss_stores = []\<rparr>"

definition storeHolders_Add :: "storeHolder \<Rightarrow> storeHolders \<Rightarrow> storeHolders" where
  "storeHolders_Add newStore ss =
     (case sh_Original newStore of
        Some new \<Rightarrow>
          if list_ex (\<lambda>s. case sh_Original s of None \<Rightarrow> False | Some old \<Rightarrow> same_map old new) (ss_stores ss)
          then ss
          else ss\<lparr>ss_stores := ss_stores ss @ [newStore]\<rparr>
      | None \<Rightarrow> ss\<lparr>ss_stores := ss_stores ss @ [newStore]\<rparr>)"

text \<open>\<open>%v\<close> of a slice of strings.\<close>

definition show_strings :: "string list \<Rightarrow> string" where
  "show_strings xs = ''['' @ strings_Join '' '' xs @ '']''"

text \<open>The loop of \<open>Get\<close>: the objects appended, the distinct error texts and whether a call succeeded, with
  the holders afterwards. \<open>envs\<close> gives what the outside does in each holder's call.\<close>

fun storeHolders_loop ::
  "'o store_env list \<Rightarrow> query \<Rightarrow> Constraint option \<Rightarrow> storeHolder list \<Rightarrow> 'o list \<Rightarrow> string uList \<Rightarrow> bool \<Rightarrow>
     (('o list \<times> string uList \<times> bool) \<times> storeHolder list) go" where
  "storeHolders_loop (env # envs) q c (s # stores) out errs ok =
     (case storeHolder_Get env q c s of
        Panics p \<Rightarrow> Panics p
      | Returns ((objects, err), s) \<Rightarrow>
          (case storeHolders_loop envs q c stores (out @ objects)
                  (case err of None \<Rightarrow> errs | Some e \<Rightarrow> uList_Add (Error e) errs)
                  (err = None \<or> ok) of
             Panics p \<Rightarrow> Panics p
           | Returns (r, stores) \<Rightarrow> Returns (r, s # stores)))"
| "storeHolders_loop envs q c stores out errs ok = Returns ((out, errs, ok), stores)"

definition storeHolders_Get ::
  "'o store_env list \<Rightarrow> query \<Rightarrow> Constraint option \<Rightarrow> storeHolders \<Rightarrow> (('o list \<times> error option) \<times> storeHolders) go"
where
  "storeHolders_Get envs q c ss =
     (case storeHolders_loop envs q c (ss_stores ss) [] (NewList []) False of
        Panics p \<Rightarrow> Panics p
      | Returns ((out, errs, ok), stores) \<Rightarrow>
          Returns ((out, if ok then None else Some (ErrorString (''Get failed: '' @ show_strings (ul_List errs)))),
                   ss\<lparr>ss_stores := stores\<rparr>))"

text \<open>\<open>Configs\<close>: writing into the clone of a nil map panics.\<close>

definition storeHolder_Config :: "storeHolder \<Rightarrow> config_Store option go" where
  "storeHolder_Config s =
     (let put = (\<lambda>k v sc. case sc of None \<Rightarrow> Panics ''assignment to entry in nil map''
                                   | Some m \<Rightarrow> Returns (Some (al_set k v m)))
      in case (case sh_LastErr s of
                 None \<Rightarrow> Returns (sh_Expanded s)
               | Some e \<Rightarrow> put ''error'' (Error e) (sh_Expanded s)) of
           Panics p \<Rightarrow> Panics p
         | Returns sc \<Rightarrow>
             if sh_ErrCount s > 0 then put ''errorCount'' (show_nat (sh_ErrCount s)) sc else Returns sc)"

fun storeHolders_Configs :: "storeHolder list \<Rightarrow> config_Store option list go" where
  "storeHolders_Configs [] = Returns []"
| "storeHolders_Configs (s # ss) =
     (case storeHolder_Config s of
        Panics p \<Rightarrow> Panics p
      | Returns c \<Rightarrow> (case storeHolders_Configs ss of Panics p \<Rightarrow> Panics p | Returns cs \<Rightarrow> Returns (c # cs)))"

fun storeHolders_Ensure :: "'o store_env list \<Rightarrow> storeHolder list \<Rightarrow> nat list \<times> storeHolder list" where
  "storeHolders_Ensure (env # envs) (s # stores) =
     (let ((k, err), s) = storeHolder_Ensure env s;
          (ks, stores) = storeHolders_Ensure envs stores
      in ((if err = None \<and> k \<noteq> None then the k # ks else ks), s # stores))"
| "storeHolders_Ensure envs stores = ([], stores)"

definition holders_ok :: "storeHolders \<Rightarrow> bool" where
  "holders_ok ss \<longleftrightarrow> list_all holder_ok (ss_stores ss)"

definition distinct_configs :: "storeHolders \<Rightarrow> bool" where
  "distinct_configs ss \<longleftrightarrow>
     distinct (map map_of (map the (filter (\<lambda>c. c \<noteq> None) (map sh_Original (ss_stores ss)))))"

text \<open>No two configured stores of a domain have the same configuration, and a store that is given
  directly is always added.\<close>

lemma storeHolders_Add_ok [store_invariant]:
  "holders_ok ss \<Longrightarrow> holder_ok s \<Longrightarrow> holders_ok (storeHolders_Add s ss)"
  by (auto simp: holders_ok_def storeHolders_Add_def split: option.splits)

lemma storeHolders_Add_distinct:
  "distinct_configs ss \<Longrightarrow> distinct_configs (storeHolders_Add s ss)"
  by (auto simp: distinct_configs_def storeHolders_Add_def list_ex_iff same_map_iff
      split: option.splits)

text \<open>Reporting the configurations never writes to a nil map: a holder with an error has been
  expanded before.\<close>

theorem storeHolders_Configs_returns:
  assumes "list_all holder_ok ss"
  shows "\<exists>cs. storeHolders_Configs ss = Returns cs \<and> length cs = length ss"
  using assms
proof (induction ss)
  case (Cons s ss)
  then have "holder_ok s" by simp
  then have "\<exists>c. storeHolder_Config s = Returns c"
    by (auto simp: storeHolder_Config_def holder_ok_def Let_def split: option.splits)
  with Cons show ?case by auto
qed simp

lemma storeHolders_Configs_returns_witness:
  "\<exists>cs. storeHolders_Configs [example_holder] = Returns cs \<and> length cs = length [example_holder]"
  by (rule storeHolders_Configs_returns) (simp add: example_holder_def holder_ok_def)

text \<open>What each holder's call in a \<open>Get\<close> gives: every holder is asked, whatever the others do.\<close>

fun holder_results ::
  "'o store_env list \<Rightarrow> query \<Rightarrow> Constraint option \<Rightarrow> storeHolder list \<Rightarrow> ('o list \<times> error option) list" where
  "holder_results (env # envs) q c (s # stores) =
     (case storeHolder_Get env q c s of
        Panics p \<Rightarrow> []
      | Returns (r, s) \<Rightarrow> r # holder_results envs q c stores)"
| "holder_results envs q c stores = []"

lemma storeHolders_loop_results:
  assumes "list_all holder_ok ss" and "list_all (\<lambda>env. zero_time \<le> se_now env) envs"
  shows "\<exists>stores. storeHolders_loop envs q c ss out errs ok =
     Returns ((out @ concat (map fst (holder_results envs q c ss)),
               uList_Append (map Error (map the (filter (\<lambda>e. e \<noteq> None) (map snd (holder_results envs q c ss))))) errs,
               ok \<or> (\<exists>r \<in> set (holder_results envs q c ss). snd r = None)), stores)
     \<and> list_all holder_ok stores"
  using assms
proof (induction envs q c ss out errs ok rule: storeHolders_loop.induct)
  case (1 env envs q c s stores out errs ok)
  from 1(2,3) obtain objects err s' where g: "storeHolder_Get env q c s = Returns ((objects, err), s')"
    and ok': "holder_ok s'"
    using storeHolder_Get_ok [of s env q c] by (auto simp: split_paired_all)
  have "list_all holder_ok stores" "list_all (\<lambda>env. zero_time \<le> se_now env) envs" using 1(2,3) by auto
  from 1(1) [OF g refl refl this] obtain stores' where
    "storeHolders_loop envs q c stores (out @ objects)
       (case err of None \<Rightarrow> errs | Some e \<Rightarrow> uList_Add (Error e) errs) (err = None \<or> ok) =
     Returns (((out @ objects) @ concat (map fst (holder_results envs q c stores)),
        uList_Append (map Error (map the (filter (\<lambda>e. e \<noteq> None) (map snd (holder_results envs q c stores)))))
          (case err of None \<Rightarrow> errs | Some e \<Rightarrow> uList_Add (Error e) errs),
        (err = None \<or> ok) \<or> (\<exists>r \<in> set (holder_results envs q c stores). snd r = None)), stores')
     \<and> list_all holder_ok stores'" by blast
  with g ok' show ?case by (cases err) (auto simp: uList_Append_def)
qed (auto simp: uList_Append_def)

text \<open>\<open>storeHolders.Get\<close> collects the objects of all the stores of the domain and succeeds exactly
  when one of them does; otherwise the error lists the distinct errors of the stores.\<close>

theorem storeHolders_Get_spec:
  assumes "holders_ok ss" and "list_all (\<lambda>env. zero_time \<le> se_now env) envs"
  shows "\<exists>ss'. storeHolders_Get envs q c ss =
     Returns ((concat (map fst (holder_results envs q c (ss_stores ss))),
               (if \<exists>r \<in> set (holder_results envs q c (ss_stores ss)). snd r = None then None
                else Some (ErrorString (''Get failed: '' @ show_strings (firsts_by id {}
                  (map Error (map the (map snd (holder_results envs q c (ss_stores ss)))))))))), ss')
     \<and> holders_ok ss'"
proof -
  let ?rs = "holder_results envs q c (ss_stores ss)"
  obtain stores where l: "storeHolders_loop envs q c (ss_stores ss) [] (NewList []) False =
     Returns (([] @ concat (map fst ?rs),
       uList_Append (map Error (map the (filter (\<lambda>e. e \<noteq> None) (map snd ?rs)))) (NewList []),
       False \<or> (\<exists>r \<in> set ?rs. snd r = None)), stores)" "list_all holder_ok stores"
    using storeHolders_loop_results [OF assms(1) [unfolded holders_ok_def] assms(2)] by blast
  have "filter (\<lambda>e. e \<noteq> None) (map snd ?rs) = map snd ?rs" if "\<not> (\<exists>r \<in> set ?rs. snd r = None)"
    using that by (auto simp: filter_id_conv)
  moreover have "ul_List (uList_Append xs (NewList [])) = firsts_by id {} xs" for xs :: "string list"
    by (simp add: uList_Append_firsts NewList_def)
  ultimately show ?thesis
    using l by (intro exI [of _ "ss\<lparr>ss_stores := stores\<rparr>"]) (auto simp: storeHolders_Get_def holders_ok_def o_assoc)
qed

lemma storeHolders_Get_spec_witness:
  "\<exists>ss'. storeHolders_Get [example_env (Inr 7) None second]
     \<lparr>q_class = Klass ''log'' ''infra'', q_data = [], q_ptr = 0\<rparr> None
     \<lparr>ss_domain = ''log'', ss_stores = [example_holder]\<rparr> = Returns (([7], None), ss') \<and> holders_ok ss'"
proof -
  let ?q = "\<lparr>q_class = Klass ''log'' ''infra'', q_data = [], q_ptr = 0\<rparr>"
  let ?envs = "[example_env (Inr 7) None second]"
  let ?ss = "\<lparr>ss_domain = ''log'', ss_stores = [example_holder]\<rparr>"
  have r: "holder_results ?envs ?q None (ss_stores ?ss) = [([7], None)]"
    by (simp add: storeHolder_Get_def ensureLH_def createLH_def example_env_def example_holder_def
        second_def Get_finish_def)
  have "holders_ok ?ss" "list_all (\<lambda>env. zero_time \<le> se_now env) ?envs"
    by (simp_all add: holders_ok_def example_holder_def holder_ok_def example_env_def second_def)
  from storeHolders_Get_spec [OF this, of ?q None] show ?thesis unfolding r by simp
qed

end
