(* ===== verification/Config.thy ===== *)
theory Config
  imports Stores
begin

text \<open>
  \<open>pkg/config\<close>: the configuration types, the expansion of class aliases (\<open>aliasMap\<close>, \<open>expand\<close>) and the
  loader that follows includes. Reading a source and decoding it, and the path and URL functions that
  \<open>resolve\<close> uses, are parameters. A nil slice of class names is the empty list: \<open>expand\<close> rejects
  aliases without classes, so the nil checks of \<open>aliasMap\<close> are checks for an absent key.
\<close>

record ClassSpec =
  cs_Domain :: string
  cs_Classes :: "string list"

record config_Rule =
  cr_Name :: string
  cr_Start :: ClassSpec
  cr_Goal :: ClassSpec
  cr_Query :: string

record config_Class =
  ca_Name :: string
  ca_Domain :: string
  ca_Classes :: "string list"

record config_StatusRule =
  csr_Name :: string
  csr_Start :: ClassSpec
  csr_Status :: string

record Tuning =
  tn_RequestTimeout :: duration
  tn_SessionTimeout :: duration
  tn_UnsafeSharedSession :: bool
  tn_StoreRetryInterval :: duration

record Config =
  cf_Rules :: "config_Rule list"
  cf_Aliases :: "config_Class list"
  cf_Stores :: "config_Store list"
  cf_Include :: "string list"
  cf_Templates :: "(string \<times> string) list"
  cf_StatusRules :: "config_StatusRule list"
  cf_Tuning :: "Tuning option"
  cf_Source :: string

definition GetStoreRetryInterval :: "Tuning \<Rightarrow> duration" where
  "GetStoreRetryInterval t =
     (let d = tn_StoreRetryInterval t in if d > 0 then d else second * 10)"

lemma GetStoreRetryInterval_pos: "0 < GetStoreRetryInterval t"
  by (simp add: GetStoreRetryInterval_def Let_def second_def)

text \<open>\<open>Duration.UnmarshalJSON\<close>: a number is seconds, a string is parsed by \<open>time.ParseDuration\<close> (a
  parameter). Numbers are taken as whole seconds.\<close>

datatype json_value = JNumber int | JString string | JOther

definition Duration_UnmarshalJSON ::
  "(string \<Rightarrow> json_value result) \<Rightarrow> (string \<Rightarrow> duration result) \<Rightarrow> string \<Rightarrow> duration result" where
  "Duration_UnmarshalJSON decode ParseDuration b =
     (case decode b of
        Inl err \<Rightarrow> Inl err
      | Inr (JNumber v) \<Rightarrow> Inr (v * second)
      | Inr (JString v) \<Rightarrow> (case ParseDuration v of Inl err \<Rightarrow> Inl err | Inr td \<Rightarrow> Inr td)
      | Inr JOther \<Rightarrow> Inl (ErrorString ''invalid duration''))"

section \<open>Aliases\<close>

type_synonym aliasMap = "(string \<times> (string \<times> string list) list) list"

definition alias_get :: "aliasMap \<Rightarrow> string \<Rightarrow> string \<Rightarrow> string list option" where
  "alias_get am domain name =
     (case map_of am domain of None \<Rightarrow> None | Some aliases \<Rightarrow> map_of aliases name)"

definition aliasMap_Add :: "config_Class \<Rightarrow> aliasMap \<Rightarrow> bool \<times> aliasMap" where
  "aliasMap_Add c am =
     (if alias_get am (ca_Domain c) (ca_Name c) \<noteq> None then (False, am)
      else (let aliases = (case map_of am (ca_Domain c) of None \<Rightarrow> [] | Some m \<Rightarrow> m)
            in (True, al_set (ca_Domain c) (al_set (ca_Name c) (ca_Classes c) aliases) am)))"

fun expand_names :: "(string \<times> string list) list \<Rightarrow> string list \<Rightarrow> string list \<Rightarrow> string list" where
  "expand_names aliases [] result = result"
| "expand_names aliases (name # names) result =
     (case map_of aliases name of
        Some classes \<Rightarrow> expand_names aliases names (result @ classes)
      | None \<Rightarrow> expand_names aliases names (result @ [name]))"

definition aliasMap_Expand :: "aliasMap \<Rightarrow> string \<Rightarrow> string list \<Rightarrow> string list" where
  "aliasMap_Expand am domain names =
     (case map_of am domain of
        None \<Rightarrow> names
      | Some aliases \<Rightarrow> expand_names aliases names [])"

text \<open>Gathering the aliases of all configurations.\<close>

fun gather_aliases :: "string \<Rightarrow> config_Class list \<Rightarrow> aliasMap \<Rightarrow> aliasMap result" where
  "gather_aliases source [] am = Inr am"
| "gather_aliases source (a # as) am =
     (if length (ca_Domain a) = 0
      then Inl (ErrorString (source @ '': alias '' @ ca_Name a @ '': no domain''))
      else if length (ca_Classes a) = 0
      then Inl (ErrorString (source @ '': alias '' @ ca_Name a @ '': no classes''))
      else (let (ok, am) = aliasMap_Add a am
            in if \<not> ok then Inl (ErrorString (source @ '': alias '' @ ca_Name a @ '': duplicate alias name''))
               else gather_aliases source as am))"

fun gather :: "Config list \<Rightarrow> aliasMap \<Rightarrow> (Config list \<times> aliasMap) result" where
  "gather [] am = Inr ([], am)"
| "gather (c # cs) am =
     (case gather_aliases (cf_Source c) (cf_Aliases c) am of
        Inl e \<Rightarrow> Inl e
      | Inr am \<Rightarrow>
          (case gather cs am of
             Inl e \<Rightarrow> Inl e
           | Inr (cs, am) \<Rightarrow> Inr (c\<lparr>cf_Aliases := []\<rparr> # cs, am)))"

text \<open>Expanding aliases within aliases. The loop \<open>for more := true; more; more = false\<close> runs its body
  once, since its post statement clears \<open>more\<close>. The body replaces each entry in the order of the range.\<close>

definition expand_entry :: "string \<Rightarrow> string \<Rightarrow> aliasMap \<Rightarrow> aliasMap" where
  "expand_entry domain alias am =
     (case alias_get am domain alias of
        None \<Rightarrow> am
      | Some classes \<Rightarrow>
          al_set domain (al_set alias (aliasMap_Expand am domain classes) (ptr_Deref [] (map_of am domain))) am)"

definition expand_round :: "aliasMap \<Rightarrow> aliasMap" where
  "expand_round am =
     fold (\<lambda>(domain, aliases) am. fold (\<lambda>(alias, _) am. expand_entry domain alias am) aliases am) am am"

definition expand_spec :: "aliasMap \<Rightarrow> ClassSpec \<Rightarrow> ClassSpec" where
  "expand_spec am s = s\<lparr>cs_Classes := aliasMap_Expand am (cs_Domain s) (cs_Classes s)\<rparr>"

definition expand_rule :: "aliasMap \<Rightarrow> config_Rule \<Rightarrow> config_Rule result" where
  "expand_rule am r =
     (if cr_Name r = [] then Inl (ErrorString ''rule has no name'')
      else Inr (r\<lparr>cr_Start := expand_spec am (cr_Start r), cr_Goal := expand_spec am (cr_Goal r)\<rparr>))"

definition expand_rules :: "aliasMap \<Rightarrow> Config \<Rightarrow> Config result" where
  "expand_rules am c =
     (case collect_results (expand_rule am) (cf_Rules c) of
        Inl e \<Rightarrow> Inl e
      | Inr rs \<Rightarrow> Inr (c\<lparr>cf_Rules := rs\<rparr>))"

definition expand :: "Config list \<Rightarrow> Config list result" where
  "expand configs =
     (case gather configs [] of
        Inl e \<Rightarrow> Inl e
      | Inr (configs, am) \<Rightarrow> collect_results (expand_rules (expand_round am)) configs)"

lemma expand_names_concat:
  "expand_names aliases names acc =
     acc @ concat (map (\<lambda>n. case map_of aliases n of Some cs \<Rightarrow> cs | None \<Rightarrow> [n]) names)"
  by (induction names arbitrary: acc) (auto split: option.splits)

lemma aliasMap_Expand_concat:
  "aliasMap_Expand am d names =
     concat (map (\<lambda>n. case alias_get am d n of Some cs \<Rightarrow> cs | None \<Rightarrow> [n]) names)"
  by (auto simp: aliasMap_Expand_def alias_get_def expand_names_concat split: option.splits)

lemma aliasMap_Add_get:
  "aliasMap_Add c am = (True, am') \<Longrightarrow>
     alias_get am' d n = (if d = ca_Domain c \<and> n = ca_Name c then Some (ca_Classes c) else alias_get am d n)"
  by (auto simp: aliasMap_Add_def alias_get_def Let_def split: if_splits option.splits)

lemma expand_entry_get:
  "alias_get (expand_entry d a am) d' a' =
     (if d' = d \<and> a' = a then map_option (aliasMap_Expand am d) (alias_get am d a)
      else alias_get am d' a')"
  by (auto simp: expand_entry_def alias_get_def ptr_Deref_def split: option.splits)

definition nested_aliases :: "Config list" where
  "nested_aliases =
     (let alias = (\<lambda>n cs. \<lparr>ca_Name = n, ca_Domain = ''k8s'', ca_Classes = cs\<rparr>);
          spec = \<lparr>cs_Domain = ''k8s'', cs_Classes = [''all'']\<rparr>
      in [\<lparr>cf_Rules = [\<lparr>cr_Name = ''r'', cr_Start = spec, cr_Goal = spec, cr_Query = []\<rparr>],
           cf_Aliases = [alias ''all'' [''workloads''], alias ''workloads'' [''controllers''],
                         alias ''controllers'' [''Deployment'', ''Job'']],
           cf_Stores = [], cf_Include = [], cf_Templates = [], cf_StatusRules = [],
           cf_Tuning = None, cf_Source = ''f.yaml''\<rparr>])"

text \<open>The expansion of aliases is not transitive: the loop that expands aliases within aliases runs
  only once, so for a chain of three nested aliases a rule that names the first can end up with the
  name of the third in place of a class.\<close>

theorem expand_not_transitive:
  "map_sum (\<lambda>e. e) (map (\<lambda>c. map (\<lambda>r. cs_Classes (cr_Start r)) (cf_Rules c))) (expand nested_aliases)
     = Inr [[[''controllers'']]]"
  by code_simp

text \<open>A map is nested at most twice when the classes of an alias are no aliases or aliases of classes.\<close>

definition plain_names :: "aliasMap \<Rightarrow> string \<Rightarrow> string list \<Rightarrow> bool" where
  "plain_names am d names \<longleftrightarrow> list_all (\<lambda>n. alias_get am d n = None) names"

definition nested_twice :: "aliasMap \<Rightarrow> bool" where
  "nested_twice am \<longleftrightarrow>
     (\<forall>d a cs. alias_get am d a = Some cs \<longrightarrow>
        list_all (\<lambda>c. case alias_get am d c of None \<Rightarrow> True | Some cs' \<Rightarrow> plain_names am d cs') cs)"

definition half_expanded :: "aliasMap \<Rightarrow> aliasMap \<Rightarrow> bool" where
  "half_expanded am am' \<longleftrightarrow>
     (\<forall>d a. (alias_get am' d a = None) = (alias_get am d a = None) \<and>
        (\<forall>cs. alias_get am' d a = Some cs \<longrightarrow> alias_get am d a = Some cs \<or> plain_names am d cs))"

definition alias_keys :: "aliasMap \<Rightarrow> (string \<times> string) list" where
  "alias_keys am = concat (map (\<lambda>(d, as). map (\<lambda>(a, _). (d, a)) as) am)"

lemma half_expandedD:
  assumes "half_expanded am am'"
  shows "(alias_get am' d a = None) = (alias_get am d a = None)"
    and "alias_get am' d a = Some cs \<Longrightarrow> alias_get am d a = Some cs \<or> plain_names am d cs"
  using assms unfolding half_expanded_def by blast+

lemma alias_keys_get: "alias_get am d a = Some cs \<Longrightarrow> (d, a) \<in> set (alias_keys am)"
  by (fastforce simp: alias_get_def alias_keys_def split: option.splits dest!: map_of_SomeD)

lemma plain_names_Expand:
  assumes "half_expanded am am'"
    and "list_all (\<lambda>c. case alias_get am d c of None \<Rightarrow> True | Some cs' \<Rightarrow> plain_names am d cs') cs"
  shows "plain_names am d (aliasMap_Expand am' d cs)"
  unfolding plain_names_def list_all_iff
proof
  fix n assume "n \<in> set (aliasMap_Expand am' d cs)"
  then obtain c where c: "c \<in> set cs"
    and n: "n \<in> set (case alias_get am' d c of Some cs \<Rightarrow> cs | None \<Rightarrow> [c])"
    by (auto simp: aliasMap_Expand_concat)
  show "alias_get am d n = None"
  proof (cases "alias_get am' d c")
    case None
    then show ?thesis using n assms(1) by (auto simp: half_expanded_def)
  next
    case (Some cs1)
    then have "alias_get am d c \<noteq> None"
      using half_expandedD(1) [OF assms(1), of d c] by auto
    then obtain cs0 where "alias_get am d c = Some cs0" by blast
    with assms(2) c have "plain_names am d cs0" by (auto simp: list_all_iff)
    then have "plain_names am d cs1"
      using half_expandedD(2) [OF assms(1) Some] \<open>alias_get am d c = Some cs0\<close> by auto
    then show ?thesis using n Some by (simp add: plain_names_def list_all_iff)
  qed
qed

lemma plain_names_Expand_id:
  assumes "half_expanded am am'" and "plain_names am d cs"
  shows "aliasMap_Expand am' d cs = cs"
proof -
  have "\<forall>c \<in> set cs. alias_get am' d c = None"
    using assms by (auto simp: half_expanded_def plain_names_def list_all_iff)
  then show ?thesis unfolding aliasMap_Expand_concat by (induction cs) auto
qed

lemma expand_entry_plain:
  assumes "nested_twice am" and "half_expanded am am'" and "alias_get (expand_entry d a am') d a = Some cs"
  shows "plain_names am d cs"
proof -
  obtain cs1 where cs1: "alias_get am' d a = Some cs1" "cs = aliasMap_Expand am' d cs1"
    using assms(3) by (auto simp: expand_entry_get)
  then consider "alias_get am d a = Some cs1" | "plain_names am d cs1"
    using assms(2) by (auto simp: half_expanded_def)
  then show ?thesis
  proof cases
    case 1
    then show ?thesis using assms(1,2) cs1 plain_names_Expand by (auto simp: nested_twice_def)
  next
    case 2
    then show ?thesis using plain_names_Expand_id [OF assms(2)] cs1 by simp
  qed
qed

lemma expand_entry_half:
  assumes "nested_twice am" and "half_expanded am am'"
  shows "half_expanded am (expand_entry d a am')"
  unfolding half_expanded_def
proof (intro allI conjI impI)
  fix d' a' cs
  show "(alias_get (expand_entry d a am') d' a' = None) = (alias_get am d' a' = None)"
    using assms(2) by (auto simp: expand_entry_get half_expanded_def)
  assume c: "alias_get (expand_entry d a am') d' a' = Some cs"
  show "alias_get am d' a' = Some cs \<or> plain_names am d' cs"
  proof (cases "d' = d \<and> a' = a")
    case True
    then show ?thesis using expand_entry_plain [OF assms] c by auto
  next
    case False
    with c have "alias_get am' d' a' = Some cs" by (simp add: expand_entry_get)
    then show ?thesis using assms(2) by (auto simp: half_expanded_def)
  qed
qed

lemma expand_entries_plain:
  assumes "nested_twice am" and "half_expanded am am'"
    and "(d, a) \<in> set keys \<or> (\<forall>cs. alias_get am' d a = Some cs \<longrightarrow> plain_names am d cs)"
    and "alias_get (fold (\<lambda>(d, a). expand_entry d a) keys am') d a = Some cs"
  shows "plain_names am d cs"
  using assms(2-4)
proof (induction keys arbitrary: am')
  case (Cons k keys)
  obtain d' a' where k: "k = (d', a')" by (cases k)
  let ?m = "expand_entry d' a' am'"
  have half: "half_expanded am ?m" by (rule expand_entry_half [OF assms(1) Cons.prems(1)])
  have "(d, a) \<in> set keys \<or> (\<forall>cs. alias_get ?m d a = Some cs \<longrightarrow> plain_names am d cs)"
  proof (cases "(d', a') = (d, a)")
    case True
    then show ?thesis using expand_entry_plain [OF assms(1) Cons.prems(1)] by auto
  next
    case False
    then show ?thesis using Cons.prems(2) k by (auto simp: expand_entry_get)
  qed
  then show ?case using Cons.IH [OF half] Cons.prems(3) k by simp
qed simp

lemma expand_round_keys: "expand_round am = fold (\<lambda>(d, a). expand_entry d a) (alias_keys am) am"
proof -
  have inner: "fold (\<lambda>(alias, _) am. expand_entry d alias am) as m
      = fold (\<lambda>(d, a). expand_entry d a) (map (\<lambda>(a, _). (d, a)) as) m"
    for d m and as :: "(string \<times> string list) list"
    by (induction as arbitrary: m) auto
  have "fold (\<lambda>(domain, aliases) am. fold (\<lambda>(alias, _) am. expand_entry domain alias am) aliases am) xs m
      = fold (\<lambda>(d, a). expand_entry d a) (alias_keys xs) m" for xs m
    by (induction xs arbitrary: m) (auto simp: inner alias_keys_def)
  then show ?thesis by (simp add: expand_round_def)
qed

text \<open>When aliases are nested at most twice, expansion is complete whatever the order of the map: a
  name that is left after expanding the classes of a rule is never an alias.\<close>

theorem expand_round_complete:
  assumes "nested_twice am"
  shows "plain_names am d (aliasMap_Expand (expand_round am) d names)"
  unfolding plain_names_def list_all_iff
proof
  fix n assume "n \<in> set (aliasMap_Expand (expand_round am) d names)"
  then obtain c where n: "n \<in> set (case alias_get (expand_round am) d c of Some cs \<Rightarrow> cs | None \<Rightarrow> [c])"
    by (auto simp: aliasMap_Expand_concat)
  have half0: "half_expanded am am" by (simp add: half_expanded_def)
  have half: "half_expanded am (expand_round am)"
    unfolding expand_round_keys
    by (rule fold_invariant_step [where P = "half_expanded am"])
       (auto intro: expand_entry_half [OF assms] half0)
  show "alias_get am d n = None"
  proof (cases "alias_get (expand_round am) d c")
    case None
    with half_expandedD(1) [OF half, of d c] n show ?thesis by simp
  next
    case (Some cs)
    then have "alias_get am d c \<noteq> None" using half_expandedD(1) [OF half, of d c] by auto
    then have "(d, c) \<in> set (alias_keys am)" using alias_keys_get by blast
    from expand_entries_plain [OF assms half0 disjI1 [OF this]] Some have "plain_names am d cs"
      unfolding expand_round_keys by blast
    with n Some show ?thesis by (simp add: plain_names_def list_all_iff)
  qed
qed

lemma expand_round_complete_witness:
  "plain_names [(''k8s'', [(''all'', [''workloads'']), (''workloads'', [''Pod''])])] ''k8s''
     (aliasMap_Expand (expand_round [(''k8s'', [(''all'', [''workloads'']), (''workloads'', [''Pod''])])])
        ''k8s'' [''all''])"
  by (rule expand_round_complete)
     (auto simp: nested_twice_def alias_get_def plain_names_def list_all_iff split: option.splits if_splits)

section \<open>Loading\<close>

text \<open>
  \<open>resolve\<close>: a relative path is relative to the base file, a URL reference to the base URL. A parsed
  URL tells whether it is absolute and how a reference resolves against it.
\<close>

record url =
  u_IsAbs :: bool
  u_ResolveReference :: "string \<Rightarrow> string"

record path_ops =
  po_IsAbs :: "string \<Rightarrow> bool"
  po_Dir :: "string \<Rightarrow> string"
  po_Join :: "string \<Rightarrow> string \<Rightarrow> string"
  po_Parse :: "string \<Rightarrow> url result"

definition resolve :: "path_ops \<Rightarrow> string \<Rightarrow> string \<Rightarrow> string" where
  "resolve ops base ref =
     (if po_IsAbs ops ref then ref
      else (case po_Parse ops ref of
              Inr r \<Rightarrow>
                if u_IsAbs r then ref
                else (case po_Parse ops base of
                        Inr b \<Rightarrow> if u_IsAbs b then u_ResolveReference b ref
                                 else po_Join ops (po_Dir ops base) ref
                      | Inl _ \<Rightarrow> po_Join ops (po_Dir ops base) ref)
            | Inl _ \<Rightarrow> po_Join ops (po_Dir ops base) ref))"

text \<open>\<open>readFileOrURL\<close>: a source is parsed as a URL (\<open>so_Parse\<close>); if it has a scheme it is fetched, otherwise the path of
  the URL is read as a file.\<close>

record source_url =
  so_IsAbs :: bool
  so_String :: string
  so_Path :: string

record source_env =
  so_Parse :: "string \<Rightarrow> source_url result"
  so_Get :: "string \<Rightarrow> (nat \<times> string result) result"
  so_StatusText :: "nat \<Rightarrow> string"
  so_ReadFile :: "string \<Rightarrow> string result"

definition readFileOrURL :: "source_env \<Rightarrow> string \<Rightarrow> string result" where
  "readFileOrURL env source =
     (case so_Parse env source of
        Inl err \<Rightarrow> Inl err
      | Inr u \<Rightarrow>
          if so_IsAbs u
          then (case so_Get env (so_String u) of
                  Inl err \<Rightarrow> Inl err
                | Inr (status, body) \<Rightarrow>
                    (case body of
                       Inl err \<Rightarrow> Inl err
                     | Inr b \<Rightarrow> if status \<noteq> 200 then Inl (ErrorString (so_StatusText env status)) else Inr b))
          else so_ReadFile env (so_Path u))"

text \<open>A page that is not there is not taken for a configuration. The name of a file is read as a URL: a file whose name
  is not the path of that URL is not found under it.\<close>

lemma readFileOrURL_status:
  assumes "so_Parse env source = Inr u" and "so_IsAbs u" and "so_Get env (so_String u) = Inr (status, body)" and "status \<noteq> 200"
  shows "\<exists>err. readFileOrURL env source = Inl err"
  using assms by (cases body) (simp_all add: readFileOrURL_def)

lemma readFileOrURL_file:
  assumes "so_Parse env source = Inr u" and "\<not> so_IsAbs u" and "so_ReadFile env (so_Path u) = Inl err"
  shows "readFileOrURL env source = Inl err"
  using assms by (simp add: readFileOrURL_def)

text \<open>The outside of the loader: reading and decoding a source gives a configuration or an error.\<close>

record loader_env =
  le_read :: "string \<Rightarrow> string result"
  le_unmarshal :: "string \<Rightarrow> Config result"
  le_paths :: path_ops

record loader =
  ld_loaded :: "string set"
  ld_configs :: "Config list"

definition load_one :: "loader_env \<Rightarrow> string \<Rightarrow> Config result" where
  "load_one env source =
     (case le_read env source of
        Inl err \<Rightarrow> Inl (ErrorWrap (source @ '': '') err [])
      | Inr b \<Rightarrow>
          (case le_unmarshal env b of
             Inl err \<Rightarrow> Inl (ErrorWrap (source @ '': '') err [])
           | Inr c \<Rightarrow> Inr (c\<lparr>cf_Source := source\<rparr>)))"

text \<open>\<open>load\<close> and its loop over the includes. Includes may go on forever (a server can invent new ones),
  so the depth of the recursion is bounded by fuel; \<open>loader_load_terminates\<close> gives the fuel that is
  enough when finitely many sources can be reached.\<close>

fun loader_load :: "loader_env \<Rightarrow> nat \<Rightarrow> string \<Rightarrow> loader \<Rightarrow> (error option \<times> loader) option"
  and loader_includes ::
    "loader_env \<Rightarrow> nat \<Rightarrow> string \<Rightarrow> string list \<Rightarrow> loader \<Rightarrow> (error option \<times> loader) option"
where
  "loader_load env 0 source l = None"
| "loader_load env (Suc fuel) source l =
     (if Set_Has (ld_loaded l) source then Some (None, l)
      else (let l = l\<lparr>ld_loaded := Set_Add source (ld_loaded l)\<rparr>
            in case load_one env source of
                 Inl err \<Rightarrow> Some (Some err, l)
               | Inr c \<Rightarrow>
                   if length (ld_configs l) > 0 \<and> cf_Tuning c \<noteq> None
                   then Some (Some (ErrorString
                     (''unexpected tuning section in included configuration: '' @ source)), l)
                   else loader_includes env fuel source (cf_Include c)
                          (l\<lparr>ld_configs := ld_configs l @ [c]\<rparr>)))"
| "loader_includes env fuel source [] l = Some (None, l)"
| "loader_includes env fuel source (s # ss) l =
     (case loader_load env fuel (resolve (le_paths env) source s) l of
        None \<Rightarrow> None
      | Some (Some err, l) \<Rightarrow> Some (Some err, l)
      | Some (None, l) \<Rightarrow> loader_includes env fuel source ss l)"

definition config_Load :: "loader_env \<Rightarrow> nat \<Rightarrow> string \<Rightarrow> Config list result option" where
  "config_Load env fuel fileOrURL =
     (case loader_load env fuel fileOrURL \<lparr>ld_loaded = {}, ld_configs = []\<rparr> of
        None \<Rightarrow> None
      | Some (Some err, _) \<Rightarrow> Some (Inl err)
      | Some (None, l) \<Rightarrow> Some (expand (ld_configs l)))"

text \<open>Termination: the sources that include each other are finitely many.\<close>

definition closed_sources :: "loader_env \<Rightarrow> string set \<Rightarrow> bool" where
  "closed_sources env S \<longleftrightarrow>
     (\<forall>source c. source \<in> S \<longrightarrow> load_one env source = Inr c \<longrightarrow>
        (\<forall>s \<in> set (cf_Include c). resolve (le_paths env) source s \<in> S))"

lemma loader_terminates_aux:
  assumes "finite S" and "closed_sources env S"
  shows "source \<in> S \<Longrightarrow> card (S - ld_loaded l) < fuel \<Longrightarrow>
      \<exists>r l'. loader_load env fuel source l = Some (r, l') \<and> ld_loaded l \<subseteq> ld_loaded l'"
    and "(\<forall>s \<in> set refs. resolve (le_paths env) source s \<in> S) \<Longrightarrow> card (S - ld_loaded l) < fuel \<Longrightarrow>
      \<exists>r l'. loader_includes env fuel source refs l = Some (r, l') \<and> ld_loaded l \<subseteq> ld_loaded l'"
proof (induction env\<equiv>env fuel source l and env\<equiv>env fuel source refs l
    rule: loader_load_loader_includes.induct)
  case (2 fuel source l)
  show ?case
  proof (cases "source \<in> ld_loaded l")
    case True
    then show ?thesis by (simp add: Set_Has_def)
  next
    case False
    let ?l = "l\<lparr>ld_loaded := Set_Add source (ld_loaded l)\<rparr>"
    have "S - ld_loaded l = insert source (S - ld_loaded ?l)"
      using False 2(2) by (auto simp: Set_Add_def)
    moreover have "source \<notin> S - ld_loaded ?l" by (simp add: Set_Add_def)
    ultimately have "card (S - ld_loaded l) = Suc (card (S - ld_loaded ?l))"
      using assms(1) by simp
    then have card: "card (S - ld_loaded ?l) < fuel" using 2(3) by simp
    have sub: "ld_loaded l \<subseteq> ld_loaded ?l" by (auto simp: Set_Add_def)
    show ?thesis
    proof (cases "load_one env source")
      case (Inl e)
      then show ?thesis using False sub by (auto simp: Set_Has_def)
    next
      case (Inr c)
      show ?thesis
      proof (cases "length (ld_configs l) > 0 \<and> cf_Tuning c \<noteq> None")
        case True
        then show ?thesis using False sub Inr by (auto simp: Set_Has_def)
      next
        case ok: False
        let ?l2 = "?l\<lparr>ld_configs := ld_configs ?l @ [c]\<rparr>"
        have refs: "\<forall>s \<in> set (cf_Include c). resolve (le_paths env) source s \<in> S"
          using assms(2) 2(2) Inr by (auto simp: closed_sources_def)
        have "\<exists>r l'. loader_includes env fuel source (cf_Include c) ?l2 = Some (r, l') \<and>
            ld_loaded ?l2 \<subseteq> ld_loaded l'"
          using 2(1) [OF _ refl Inr _ refs] False ok card by (simp add: Set_Has_def)
        then show ?thesis using False Inr ok sub by (auto simp: Set_Has_def Let_def)
      qed
    qed
  qed
next
  case (4 fuel source s ss l)
  from 4(1) 4(3,4) obtain r l1 where l1: "loader_load env fuel (resolve (le_paths env) source s) l = Some (r, l1)"
    "ld_loaded l \<subseteq> ld_loaded l1" by auto
  show ?case
  proof (cases r)
    case (Some e)
    with l1 show ?thesis by auto
  next
    case None
    have "card (S - ld_loaded l1) \<le> card (S - ld_loaded l)"
      using assms(1) l1(2) by (intro card_mono) auto
    then have "\<exists>r l'. loader_includes env fuel source ss l1 = Some (r, l') \<and> ld_loaded l1 \<subseteq> ld_loaded l'"
      using 4(2) l1 None 4(3,4) by simp
    with l1 None show ?thesis by auto
  qed
qed auto

text \<open>C34: \<open>Load\<close> returns when finitely many sources include each other: one level of fuel for each of
  them and one more is enough, however the includes refer back to each other.\<close>

theorem config_Load_terminates:
  assumes "finite S" and "closed_sources env S" and "source \<in> S" and "card S < fuel"
  shows "config_Load env fuel source \<noteq> None"
proof -
  have "card (S - ld_loaded \<lparr>ld_loaded = {}, ld_configs = []\<rparr>) < fuel" using assms(4) by simp
  from loader_terminates_aux(1) [OF assms(1,2,3) this] show ?thesis
    by (auto simp: config_Load_def split: option.splits)
qed

text \<open>Two files that include each other.\<close>

definition example_config :: "string list \<Rightarrow> Config" where
  "example_config includes = \<lparr>cf_Rules = [], cf_Aliases = [], cf_Stores = [], cf_Include = includes,
     cf_Templates = [], cf_StatusRules = [], cf_Tuning = None, cf_Source = []\<rparr>"

definition example_loader :: loader_env where
  "example_loader = \<lparr>le_read = (\<lambda>s. Inr s),
     le_unmarshal = (\<lambda>s. if s = ''/a'' then Inr (example_config [''/b''])
                         else if s = ''/b'' then Inr (example_config [''/a''])
                         else Inl (ErrorString ''not found'')),
     le_paths = \<lparr>po_IsAbs = (\<lambda>s. True), po_Dir = (\<lambda>s. s), po_Join = (\<lambda>a b. b),
       po_Parse = (\<lambda>s. Inl (ErrorString []))\<rparr>\<rparr>"

lemma example_load_one:
  "load_one example_loader ''/a'' = Inr ((example_config [''/b''])\<lparr>cf_Source := ''/a''\<rparr>)"
  "load_one example_loader ''/b'' = Inr ((example_config [''/a''])\<lparr>cf_Source := ''/b''\<rparr>)"
  by (simp_all add: load_one_def example_loader_def)

lemma example_resolve: "resolve (le_paths example_loader) base ref = ref"
  by (simp add: resolve_def example_loader_def)

lemma config_Load_terminates_witness: "config_Load example_loader 3 ''/a'' \<noteq> None"
  by (rule config_Load_terminates [of "{''/a'', ''/b''}"])
     (auto simp: closed_sources_def example_load_one example_resolve example_config_def)

text \<open>What a load adds: new configurations with distinct sources, all marked as loaded, with no tuning
  section except in the first of all; after a load without error every include of a new configuration
  is loaded.\<close>

definition loader_ok :: "loader \<Rightarrow> bool" where
  "loader_ok l \<longleftrightarrow>
     distinct (map cf_Source (ld_configs l)) \<and> cf_Source ` set (ld_configs l) \<subseteq> ld_loaded l \<and>
     (\<forall>c \<in> set (tl (ld_configs l)). cf_Tuning c = None)"

lemma load_one_Source: "load_one env source = Inr c \<Longrightarrow> cf_Source c = source"
  by (auto simp: load_one_def split: sum.splits)

definition loads :: "loader_env \<Rightarrow> loader \<Rightarrow> loader \<Rightarrow> bool" where
  "loads env l l' \<longleftrightarrow>
     (\<exists>new. ld_configs l' = ld_configs l @ new \<and>
        ld_loaded l' = ld_loaded l \<union> cf_Source ` set new \<and>
        (\<forall>c \<in> set new. \<forall>s \<in> set (cf_Include c). resolve (le_paths env) (cf_Source c) s \<in> ld_loaded l'))"

lemma loads_refl: "loads env l l"
  by (auto simp: loads_def)

lemma loads_trans:
  assumes "loads env l l1" and "loads env l1 l2"
  shows "loads env l l2"
proof -
  obtain n1 where n1: "ld_configs l1 = ld_configs l @ n1" "ld_loaded l1 = ld_loaded l \<union> cf_Source ` set n1"
    "\<forall>c \<in> set n1. \<forall>s \<in> set (cf_Include c). resolve (le_paths env) (cf_Source c) s \<in> ld_loaded l1"
    using assms(1) by (auto simp: loads_def)
  obtain n2 where n2: "ld_configs l2 = ld_configs l1 @ n2" "ld_loaded l2 = ld_loaded l1 \<union> cf_Source ` set n2"
    "\<forall>c \<in> set n2. \<forall>s \<in> set (cf_Include c). resolve (le_paths env) (cf_Source c) s \<in> ld_loaded l2"
    using assms(2) by (auto simp: loads_def)
  show ?thesis
    unfolding loads_def using n1 n2 by (intro exI [of _ "n1 @ n2"]) auto
qed

lemma loader_loads:
  shows "loader_load env fuel source l = Some (None, l') \<Longrightarrow> loader_ok l \<Longrightarrow>
      loads env l l' \<and> loader_ok l' \<and> source \<in> ld_loaded l'"
    and "loader_includes env fuel source refs l = Some (None, l') \<Longrightarrow> loader_ok l \<Longrightarrow>
      loads env l l' \<and> loader_ok l' \<and> (\<forall>s \<in> set refs. resolve (le_paths env) source s \<in> ld_loaded l')"
proof (induction env fuel source l and env fuel source refs l arbitrary: l' and l'
    rule: loader_load_loader_includes.induct)
  case (2 env fuel source l)
  show ?case
  proof (cases "source \<in> ld_loaded l")
    case True
    with 2(2,3) show ?thesis by (auto simp: Set_Has_def loads_refl)
  next
    case False
    let ?l = "l\<lparr>ld_loaded := Set_Add source (ld_loaded l)\<rparr>"
    from 2(2) False obtain c where c: "load_one env source = Inr c"
      and t: "\<not> (length (ld_configs l) > 0 \<and> cf_Tuning c \<noteq> None)"
      and i: "loader_includes env fuel source (cf_Include c) (?l\<lparr>ld_configs := ld_configs l @ [c]\<rparr>)
        = Some (None, l')"
      by (auto simp: Set_Has_def Let_def split: sum.splits if_splits)
    let ?l2 = "?l\<lparr>ld_configs := ld_configs l @ [c]\<rparr>"
    have src: "cf_Source c = source" by (rule load_one_Source [OF c])
    have ok2: "loader_ok ?l2"
      using 2(3) False t src
      by (cases "ld_configs l") (auto simp: loader_ok_def Set_Add_def)
    have i': "loads env ?l2 l'" "loader_ok l'"
      "\<forall>s \<in> set (cf_Include c). resolve (le_paths env) source s \<in> ld_loaded l'"
      using 2(1) [OF _ refl c] i False t ok2 by (auto simp: Set_Has_def)
    then obtain new where new: "ld_configs l' = ld_configs ?l2 @ new"
      "ld_loaded l' = ld_loaded ?l2 \<union> cf_Source ` set new"
      "\<forall>c \<in> set new. \<forall>s \<in> set (cf_Include c). resolve (le_paths env) (cf_Source c) s \<in> ld_loaded l'"
      by (auto simp: loads_def)
    have "loads env l l'"
      unfolding loads_def using new i'(3) src
      by (intro exI [of _ "c # new"]) (auto simp: Set_Add_def)
    with i'(2) new(2) show ?thesis by (simp add: Set_Add_def)
  qed
next
  case (4 env fuel source s ss l)
  from 4(3) obtain l1 where l1: "loader_load env fuel (resolve (le_paths env) source s) l = Some (None, l1)"
    and rest: "loader_includes env fuel source ss l1 = Some (None, l')"
    by (auto split: option.splits)
  have a: "loads env l l1" "loader_ok l1" "resolve (le_paths env) source s \<in> ld_loaded l1"
    using 4(1) [OF l1 4(4)] by auto
  have b: "loads env l1 l'" "loader_ok l'" "\<forall>s \<in> set ss. resolve (le_paths env) source s \<in> ld_loaded l'"
    using 4(2) [OF l1 _ refl rest a(2)] by auto
  from b(1) a(3) have "resolve (le_paths env) source s \<in> ld_loaded l'" by (auto simp: loads_def)
  with loads_trans [OF a(1) b(1)] b show ?case by simp
qed (auto simp: loads_refl)



end
