(* ===== verification/Graph.thy ===== *)
theory Graph
  imports Config
begin

text \<open>
  \<open>pkg/graph\<close>: the immutable \<open>Data\<close> built from the rules (\<open>data.go\<close>), the query counts of nodes and
  lines, and the rule graphs selected from the data (\<open>graph.go\<close>). Nodes and lines are pointers in Go; a
  node is identified by its ID, which is its index in \<open>Data\<close>, and a line by its UID. The directed
  multigraph of the gonum package, which is not part of this program, is the record \<open>multigraph\<close> of the
  operations used, a parameter; \<open>multigraph_laws\<close> states their documented behaviour.
\<close>

section \<open>Query counts\<close>

record QueryCount =
  qc_Count :: int
  qc_StatusCounts :: "(string \<times> int) list option"

type_synonym Queries = "(query \<times> QueryCount) list"

definition Queries_Has :: "Queries \<Rightarrow> query \<Rightarrow> bool" where
  "Queries_Has qs q \<longleftrightarrow> map_of qs q \<noteq> None"

definition Queries_Set :: "query \<Rightarrow> int \<Rightarrow> Queries \<Rightarrow> Queries" where
  "Queries_Set q n qs = al_set q \<lparr>qc_Count = n, qc_StatusCounts = None\<rparr> qs"

definition Queries_Get :: "Queries \<Rightarrow> query \<Rightarrow> int" where
  "Queries_Get qs q = (case map_of qs q of Some qc \<Rightarrow> qc_Count qc | None \<Rightarrow> -1)"

definition count_get :: "(string \<times> int) list \<Rightarrow> string \<Rightarrow> int" where
  "count_get m k = (case map_of m k of None \<Rightarrow> 0 | Some n \<Rightarrow> n)"

text \<open>A missing entry is Go's zero \<open>QueryCount\<close>.\<close>

definition Queries_AddStatuses :: "query \<Rightarrow> (string \<times> int) list \<Rightarrow> Queries \<Rightarrow> Queries" where
  "Queries_AddStatuses q statuses qs =
     (let qc = (case map_of qs q of Some qc \<Rightarrow> qc | None \<Rightarrow> \<lparr>qc_Count = 0, qc_StatusCounts = None\<rparr>);
          counts = (case qc_StatusCounts qc of None \<Rightarrow> [] | Some m \<Rightarrow> m)
      in al_set q (qc\<lparr>qc_StatusCounts :=
           Some (fold (\<lambda>(k, v) m. al_set k (count_get m k + v) m) statuses counts)\<rparr>) qs)"

fun Queries_Total_loop :: "Queries \<Rightarrow> int \<Rightarrow> int" where
  "Queries_Total_loop [] n = n"
| "Queries_Total_loop ((q, qc) # qs) n =
     Queries_Total_loop qs (if qc_Count qc > 0 then n + qc_Count qc else n)"

definition Queries_Total :: "Queries \<Rightarrow> int" where
  "Queries_Total qs = Queries_Total_loop qs 0"

lemma Queries_Total_sum: "Queries_Total qs = (\<Sum>(q, qc) \<leftarrow> qs. max 0 (qc_Count qc))"
proof -
  have "Queries_Total_loop qs t = t + (\<Sum>(q, qc) \<leftarrow> qs. max 0 (qc_Count qc))" for t
    by (induction qs t rule: Queries_Total_loop.induct) auto
  then show ?thesis by (simp add: Queries_Total_def)
qed

lemma Queries_Total_pos: "0 \<le> Queries_Total qs"
  unfolding Queries_Total_sum by (rule sum_list_nonneg) auto

lemma Queries_Total_zero_iff: "Queries_Total qs = 0 \<longleftrightarrow> (\<forall>(q, qc) \<in> set qs. qc_Count qc \<le> 0)"
  unfolding Queries_Total_sum
  by (subst sum_list_nonneg_eq_0_iff) (auto simp: max_def split: if_splits)

lemma Queries_Get_Set: "Queries_Get (Queries_Set q n qs) q' = (if q' = q then n else Queries_Get qs q')"
  by (auto simp: Queries_Get_def Queries_Set_def)

lemma Queries_Get_AddStatuses:
  "Queries_Has qs q \<Longrightarrow> Queries_Get (Queries_AddStatuses q st qs) q' = Queries_Get qs q'"
  by (auto simp: Queries_Get_def Queries_AddStatuses_def Queries_Has_def Let_def split: option.splits)

lemma Queries_Set_keys: "fst ` set (Queries_Set q n qs) = insert q (fst ` set qs)"
  by (simp add: Queries_Set_def keys_al_set)

lemma Queries_AddStatuses_keys: "fst ` set (Queries_AddStatuses q st qs) = insert q (fst ` set qs)"
  by (simp add: Queries_AddStatuses_def keys_al_set Let_def)

text \<open>The status counts of a query after merging: the sum of what was there and of every occurrence in
  what is added.\<close>

definition status_count :: "Queries \<Rightarrow> query \<Rightarrow> string \<Rightarrow> int" where
  "status_count qs q s =
     (case map_of qs q of
        None \<Rightarrow> 0
      | Some qc \<Rightarrow> (case qc_StatusCounts qc of None \<Rightarrow> 0 | Some m \<Rightarrow> count_get m s))"

lemma count_get_fold:
  "count_get (fold (\<lambda>(k, v) m. al_set k (count_get m k + v) m) st m) s
     = count_get m s + (\<Sum>(k, v) \<leftarrow> st. if k = s then v else 0)"
  by (induction st arbitrary: m) (auto simp: count_get_def)

lemma Queries_AddStatuses_count:
  "status_count (Queries_AddStatuses q st qs) q' s =
     status_count qs q' s + (if q' = q then \<Sum>(k, v) \<leftarrow> st. if k = s then v else 0 else 0)"
proof (cases "q' = q")
  case True
  have zero: "count_get [] s = 0" by (simp add: count_get_def)
  show ?thesis
  proof (cases "map_of qs q")
    case None
    then show ?thesis using True zero
      by (simp add: status_count_def Queries_AddStatuses_def Let_def count_get_fold)
  next
    case (Some qc)
    then show ?thesis using True zero
      by (cases "qc_StatusCounts qc")
         (simp_all add: status_count_def Queries_AddStatuses_def Let_def count_get_fold)
  qed
next
  case False
  then show ?thesis by (simp add: status_count_def Queries_AddStatuses_def Let_def)
qed

section \<open>Data\<close>

record Node =
  n_ID :: nat
  n_Class :: klass

record 'o Line =
  l_UID :: nat
  l_F :: nat
  l_T :: nat
  l_Rule :: "'o rule"

record 'o Data =
  d_Nodes :: "Node list"
  d_Lines :: "'o Line list"
  d_nodeID :: "string \<rightharpoonup> nat"

definition Data_NodeFor :: "'o Data \<Rightarrow> klass \<Rightarrow> Node option" where
  "Data_NodeFor d c =
     (case d_nodeID d (Class_String c) of
        Some i \<Rightarrow> Some (d_Nodes d ! i)
      | None \<Rightarrow> None)"

definition Data_addClass :: "klass \<Rightarrow> 'o Data \<Rightarrow> Node \<times> 'o Data" where
  "Data_addClass c d =
     (case Data_NodeFor d c of
        Some n \<Rightarrow> (n, d)
      | None \<Rightarrow>
          (let i = length (d_Nodes d); n = \<lparr>n_ID = i, n_Class = c\<rparr>
           in (n, d\<lparr>d_Nodes := d_Nodes d @ [n], d_nodeID := (d_nodeID d)(Class_String c \<mapsto> i)\<rparr>)))"

text \<open>One line of \<open>addRule\<close>; the UID is taken before the classes are added.\<close>

definition Data_addLine :: "'o rule \<Rightarrow> klass \<times> klass \<Rightarrow> 'o Data \<Rightarrow> 'o Data" where
  "Data_addLine r sg d =
     (let uid = length (d_Lines d);
          (f, d) = Data_addClass (fst sg) d;
          (t, d) = Data_addClass (snd sg) d
      in d\<lparr>d_Lines := d_Lines d @ [\<lparr>l_UID = uid, l_F = n_ID f, l_T = n_ID t, l_Rule = r\<rparr>]\<rparr>)"

definition Data_addRule :: "'o rule \<Rightarrow> 'o Data \<Rightarrow> 'o Data" where
  "Data_addRule r d = fold (Data_addLine r) (List.product (r_Start r) (r_Goal r)) d"

definition NewData :: "'o rule list \<Rightarrow> 'o Data" where
  "NewData rules = fold Data_addRule rules \<lparr>d_Nodes = [], d_Lines = [], d_nodeID = Map.empty\<rparr>"

definition Data_Rules :: "'o Data \<Rightarrow> 'o rule list" where
  "Data_Rules d = map l_Rule (d_Lines d)"

definition Data_Classes :: "'o Data \<Rightarrow> klass list" where
  "Data_Classes d = map n_Class (d_Nodes d)"

section \<open>The data's invariant\<close>

definition class_of :: "'o Data \<Rightarrow> nat \<Rightarrow> klass" where
  "class_of d i = n_Class (d_Nodes d ! i)"

definition label_class :: "klass \<Rightarrow> bool" where
  "label_class c \<longleftrightarrow> labelRE (k_domain c) \<and> labelRE (k_name c)"

definition data_ok :: "'o Data \<Rightarrow> bool" where
  "data_ok d \<longleftrightarrow>
     map n_ID (d_Nodes d) = [0..<length (d_Nodes d)] \<and>
     map l_UID (d_Lines d) = [0..<length (d_Lines d)] \<and>
     (\<forall>s i. d_nodeID d s = Some i \<longleftrightarrow> i < length (d_Nodes d) \<and> Class_String (class_of d i) = s) \<and>
     (\<forall>l \<in> set (d_Lines d). l_F l < length (d_Nodes d) \<and> l_T l < length (d_Nodes d)) \<and>
     (\<forall>n \<in> set (d_Nodes d). label_class (n_Class n))"

lemma Class_String_inj:
  assumes "label_class c" and "label_class c'" and "Class_String c = Class_String c'"
  shows "c = c'"
proof -
  have "ClassSplit (Class_String c) = Inr (k_domain c, k_name c)" if "label_class c" for c
    using that by (simp add: ClassSplit_iff Class_String_def label_class_def)
  with assms show ?thesis by (metis klass.expand prod.inject sum.inject(2))
qed

lemma data_ok_ID: "data_ok d \<Longrightarrow> i < length (d_Nodes d) \<Longrightarrow> n_ID (d_Nodes d ! i) = i"
  unfolding data_ok_def by (metis add.left_neutral diff_zero length_map nth_map nth_upt)

lemma NodeFor_Some:
  assumes "data_ok d" and "label_class c" and "Data_NodeFor d c = Some n"
  shows "n_ID n < length (d_Nodes d) \<and> class_of d (n_ID n) = c \<and> n = d_Nodes d ! n_ID n \<and> n_Class n = c"
proof -
  obtain i where i: "d_nodeID d (Class_String c) = Some i" "n = d_Nodes d ! i"
    using assms(3) by (auto simp: Data_NodeFor_def split: option.splits)
  then have "i < length (d_Nodes d)" "Class_String (class_of d i) = Class_String c"
    using assms(1) by (auto simp: data_ok_def)
  moreover from this have "label_class (class_of d i)"
    using assms(1) by (auto simp: data_ok_def class_of_def)
  ultimately have "class_of d i = c" using Class_String_inj assms(2) by blast
  with i \<open>i < length (d_Nodes d)\<close> data_ok_ID [OF assms(1)] show ?thesis by (simp add: class_of_def)
qed

lemma addClass_ok:
  assumes ok: "data_ok d" and c: "label_class c" and a: "Data_addClass c d = (n, d')"
  shows "data_ok d' \<and> n_ID n < length (d_Nodes d') \<and> class_of d' (n_ID n) = c \<and>
    (\<exists>new. d_Nodes d' = d_Nodes d @ new) \<and> d_Lines d' = d_Lines d"
proof (cases "Data_NodeFor d c")
  case (Some m)
  with NodeFor_Some [OF ok c Some] a ok show ?thesis by (auto simp: Data_addClass_def)
next
  case None
  let ?i = "length (d_Nodes d)"
  have d': "d' = d\<lparr>d_Nodes := d_Nodes d @ [\<lparr>n_ID = ?i, n_Class = c\<rparr>],
      d_nodeID := (d_nodeID d)(Class_String c \<mapsto> ?i)\<rparr>" and n: "n = \<lparr>n_ID = ?i, n_Class = c\<rparr>"
    using a None by (auto simp: Data_addClass_def Let_def)
  have old: "class_of d' i = class_of d i" if "i < ?i" for i
    using that by (simp add: d' class_of_def nth_append)
  have new: "class_of d' ?i = c" by (simp add: d' class_of_def)
  have free: "d_nodeID d (Class_String c) = None"
    using None by (auto simp: Data_NodeFor_def split: option.splits)
  have keys: "d_nodeID d' s = Some i \<longleftrightarrow> i < length (d_Nodes d') \<and> Class_String (class_of d' i) = s" for s i
  proof -
    have was: "d_nodeID d s = Some i \<longleftrightarrow> i < ?i \<and> Class_String (class_of d i) = s"
      using ok unfolding data_ok_def by blast
    have len: "length (d_Nodes d') = Suc ?i" and id': "d_nodeID d' = (d_nodeID d)(Class_String c \<mapsto> ?i)"
      by (simp_all add: d')
    show ?thesis
    proof (cases "i = ?i")
      case True
      with was have "d_nodeID d s \<noteq> Some i" by simp
      with True show ?thesis using new len id' by auto
    next
      case False
      have "Class_String c \<noteq> s" if "i < ?i" "Class_String (class_of d i) = s"
        using that free was by auto
      with False was old len id' show ?thesis by (cases "i < ?i") auto
    qed
  qed
  have "data_ok d'"
    using ok c keys unfolding data_ok_def d' by auto
  moreover have "n_ID n < length (d_Nodes d')" by (simp add: n d')
  ultimately show ?thesis using new by (auto simp: n d')
qed

text \<open>The rule and the two classes of a line.\<close>

definition line_view :: "'o Data \<Rightarrow> 'o Line \<Rightarrow> 'o rule \<times> klass \<times> klass" where
  "line_view d l = (l_Rule l, class_of d (l_F l), class_of d (l_T l))"

lemma line_view_prefix:
  assumes "data_ok d" and "d_Nodes d' = d_Nodes d @ new" and "l \<in> set (d_Lines d)"
  shows "line_view d' l = line_view d l"
  using assms by (auto simp: line_view_def class_of_def nth_append data_ok_def)

lemma addLine_ok:
  assumes ok: "data_ok d" and s: "label_class s" and g: "label_class g"
  shows "data_ok (Data_addLine r (s, g) d) \<and>
    map (line_view (Data_addLine r (s, g) d)) (d_Lines (Data_addLine r (s, g) d))
      = map (line_view d) (d_Lines d) @ [(r, s, g)]"
proof -
  obtain f d1 where f: "Data_addClass s d = (f, d1)" by (metis prod.collapse)
  obtain t d2 where t: "Data_addClass g d1 = (t, d2)" by (metis prod.collapse)
  from addClass_ok [OF ok s f] obtain n1 where 1: "data_ok d1" "n_ID f < length (d_Nodes d1)"
    "class_of d1 (n_ID f) = s" "d_Nodes d1 = d_Nodes d @ n1" "d_Lines d1 = d_Lines d" by blast
  from addClass_ok [OF 1(1) g t] obtain n2 where 2: "data_ok d2" "n_ID t < length (d_Nodes d2)"
    "class_of d2 (n_ID t) = g" "d_Nodes d2 = d_Nodes d1 @ n2" "d_Lines d2 = d_Lines d1" by blast
  let ?l = "\<lparr>l_UID = length (d_Lines d), l_F = n_ID f, l_T = n_ID t, l_Rule = r\<rparr>"
  let ?d = "d2\<lparr>d_Lines := d_Lines d2 @ [?l]\<rparr>"
  have r: "Data_addLine r (s, g) d = ?d" using f t by (simp add: Data_addLine_def Let_def)
  have F: "n_ID f < length (d_Nodes d2)" and cF: "class_of d2 (n_ID f) = s"
    using 1(2,3) 2(4) by (simp_all add: class_of_def nth_append)
  have "data_ok ?d"
    using 2(1,2) F 1(5) 2(5) unfolding data_ok_def by (auto simp: class_of_def)
  moreover have "line_view ?d l = line_view d l" if "l \<in> set (d_Lines d)" for l
    using that line_view_prefix [OF ok, of ?d "n1 @ n2"] 1(4) 2(4) by simp
  moreover have "line_view ?d ?l = (r, s, g)"
    using cF 2(3) by (simp add: line_view_def class_of_def)
  ultimately show ?thesis unfolding r using 1(5) 2(5) by simp
qed

definition rule_lines :: "'o rule \<Rightarrow> ('o rule \<times> klass \<times> klass) list" where
  "rule_lines r = map (Pair r) (List.product (r_Start r) (r_Goal r))"

definition label_rule :: "'o rule \<Rightarrow> bool" where
  "label_rule r \<longleftrightarrow> list_all label_class (r_Start r) \<and> list_all label_class (r_Goal r)"

lemma addRule_ok:
  assumes "data_ok d" and "label_rule r"
  shows "data_ok (Data_addRule r d) \<and>
    map (line_view (Data_addRule r d)) (d_Lines (Data_addRule r d))
      = map (line_view d) (d_Lines d) @ rule_lines r"
proof -
  have "data_ok (fold (Data_addLine r) sgs d) \<and>
      map (line_view (fold (Data_addLine r) sgs d)) (d_Lines (fold (Data_addLine r) sgs d))
        = map (line_view d) (d_Lines d) @ map (Pair r) sgs"
    if "data_ok d" "\<forall>(s, g) \<in> set sgs. label_class s \<and> label_class g" for sgs d
    using that
  proof (induction sgs arbitrary: d)
    case (Cons sg sgs)
    obtain s g where sg: "sg = (s, g)" by (cases sg)
    from Cons.prems sg have "label_class s" "label_class g" by auto
    from addLine_ok [OF Cons.prems(1) this, of r] Cons.IH [of "Data_addLine r sg d"] Cons.prems(2) sg
    show ?case by simp
  qed simp
  moreover have "\<forall>(s, g) \<in> set (List.product (r_Start r) (r_Goal r)). label_class s \<and> label_class g"
    using assms(2) by (auto simp: label_rule_def list_all_iff)
  ultimately show ?thesis using assms(1) by (simp add: Data_addRule_def rule_lines_def)
qed

lemma NewData_ok_lines:
  assumes "list_all label_rule rules"
  shows "data_ok (NewData rules) \<and>
    map (line_view (NewData rules)) (d_Lines (NewData rules)) = concat (map rule_lines rules)"
proof -
  have "data_ok (fold Data_addRule rs d) \<and>
      map (line_view (fold Data_addRule rs d)) (d_Lines (fold Data_addRule rs d))
        = map (line_view d) (d_Lines d) @ concat (map rule_lines rs)"
    if "data_ok d" "list_all label_rule rs" for rs d
    using that
  proof (induction rs arbitrary: d)
    case (Cons r rs)
    then have "label_rule r" by simp
    from addRule_ok [OF Cons.prems(1) this] Cons.IH [of "Data_addRule r d"] Cons.prems(2)
    show ?case by simp
  qed simp
  note step = this
  define d0 :: "'a Data" where "d0 = \<lparr>d_Nodes = [], d_Lines = [], d_nodeID = Map.empty\<rparr>"
  have "data_ok d0" "d_Lines d0 = []" by (simp_all add: data_ok_def d0_def)
  with step [of d0 rules] assms show ?thesis by (simp add: NewData_def d0_def)
qed

lemma data_ok_nodeID:
  assumes "data_ok d" and "i < length (d_Nodes d)"
  shows "d_nodeID d (Class_String (class_of d i)) = Some i"
  using assms unfolding data_ok_def by (elim conjE) simp

lemma Data_Classes_upt: "Data_Classes d = map (class_of d) [0..<length (d_Nodes d)]"
  unfolding Data_Classes_def class_of_def by (rule nth_equalityI) simp_all

lemma data_ok_distinct:
  assumes "data_ok d"
  shows "distinct (Data_Classes d)"
  unfolding Data_Classes_upt distinct_map
proof (intro conjI inj_onI)
  fix i j
  assume "i \<in> set [0..<length (d_Nodes d)]" "j \<in> set [0..<length (d_Nodes d)]"
    and eq: "class_of d i = class_of d j"
  then have "i < length (d_Nodes d)" "j < length (d_Nodes d)" by simp_all
  from data_ok_nodeID [OF assms this(1)] data_ok_nodeID [OF assms this(2)] show "i = j"
    unfolding eq by simp
qed simp

lemma NodeFor_iff:
  assumes "data_ok d" and "label_class c"
  shows "Data_NodeFor d c \<noteq> None \<longleftrightarrow> c \<in> set (Data_Classes d)"
proof
  assume "Data_NodeFor d c \<noteq> None"
  then obtain n where "Data_NodeFor d c = Some n" by blast
  with NodeFor_Some [OF assms this] have "n \<in> set (d_Nodes d)" "n_Class n = c"
    by (metis nth_mem)+
  then show "c \<in> set (Data_Classes d)" by (auto simp: Data_Classes_def)
next
  assume "c \<in> set (Data_Classes d)"
  then obtain i where "i < length (d_Nodes d)" "class_of d i = c"
    by (auto simp: Data_Classes_def class_of_def in_set_conv_nth)
  with data_ok_nodeID [OF assms(1)] have "d_nodeID d (Class_String c) = Some i" by blast
  then show "Data_NodeFor d c \<noteq> None" by (simp add: Data_NodeFor_def)
qed

text \<open>C36: The data of a rule set has one line for every rule, start class and goal class, in order, with
  the index of the line as UID; IDs of nodes are their indices, no class has two nodes, and looking up a
  class that has a node finds that node.\<close>

theorem NewData_spec:
  assumes "list_all label_rule rules"
  shows "map (line_view (NewData rules)) (d_Lines (NewData rules)) = concat (map rule_lines rules) \<and>
    map l_UID (d_Lines (NewData rules)) = [0..<length (d_Lines (NewData rules))] \<and>
    map n_ID (d_Nodes (NewData rules)) = [0..<length (d_Nodes (NewData rules))] \<and>
    distinct (Data_Classes (NewData rules)) \<and>
    (\<forall>i < length (d_Nodes (NewData rules)).
       Data_NodeFor (NewData rules) (class_of (NewData rules) i) = Some (d_Nodes (NewData rules) ! i))"
proof -
  let ?d = "NewData rules"
  have ok: "data_ok ?d" and lines: "map (line_view ?d) (d_Lines ?d) = concat (map rule_lines rules)"
    using NewData_ok_lines [OF assms] by auto
  have "Data_NodeFor ?d (class_of ?d i) = Some (d_Nodes ?d ! i)" if "i < length (d_Nodes ?d)" for i
    using data_ok_nodeID [OF ok that] by (simp add: Data_NodeFor_def)
  with ok lines data_ok_distinct [OF ok] show ?thesis unfolding data_ok_def by blast
qed

lemma NewData_spec_witness:
  "map l_UID (d_Lines (NewData [\<lparr>r_ptr = 0, r_Name = ''r'', r_Start = [Klass ''k8s'' ''Pod''],
     r_Goal = [Klass ''log'' ''infra'', Klass ''log'' ''audit''], r_Apply = (\<lambda>_ :: unit. Inr [])\<rparr>])) = [0, 1]"
proof -
  let ?r = "\<lparr>r_ptr = 0, r_Name = ''r'', r_Start = [Klass ''k8s'' ''Pod''],
     r_Goal = [Klass ''log'' ''infra'', Klass ''log'' ''audit''], r_Apply = (\<lambda>_ :: unit. Inr [])\<rparr>"
  have "list_all label_rule [?r]"
    by (simp add: label_rule_def label_class_def labelRE_def label_char_def regexp_space_def)
  from NewData_spec [OF this] have
    "map (line_view (NewData [?r])) (d_Lines (NewData [?r])) = concat (map rule_lines [?r])"
    and uid: "map l_UID (d_Lines (NewData [?r])) = [0..<length (d_Lines (NewData [?r]))]" by blast+
  from arg_cong [OF this(1), of length] have "length (d_Lines (NewData [?r])) = 2"
    by (simp add: rule_lines_def)
  with uid show ?thesis by (simp add: upt_rec)
qed

section \<open>Graphs\<close>

text \<open>The multigraph of the gonum package on node IDs and lines (from, to, UID).\<close>

type_synonym mline = "nat \<times> nat \<times> nat"

record 'g multigraph =
  mg_New :: 'g
  mg_AddNode :: "nat \<Rightarrow> 'g \<Rightarrow> 'g"
  mg_SetLine :: "mline \<Rightarrow> 'g \<Rightarrow> 'g"
  mg_RemoveNode :: "nat \<Rightarrow> 'g \<Rightarrow> 'g"
  mg_RemoveLine :: "mline \<Rightarrow> 'g \<Rightarrow> 'g"
  mg_Nodes :: "'g \<Rightarrow> nat list"
  mg_Lines :: "'g \<Rightarrow> nat \<Rightarrow> nat \<Rightarrow> nat list"
  mg_From :: "'g \<Rightarrow> nat \<Rightarrow> nat list"
  mg_To :: "'g \<Rightarrow> nat \<Rightarrow> nat list"

definition mg_has_line :: "'g multigraph \<Rightarrow> 'g \<Rightarrow> mline \<Rightarrow> bool" where
  "mg_has_line mg g l = (case l of (u, v, uid) \<Rightarrow> uid \<in> set (mg_Lines mg g u v))"

text \<open>What the documentation of gonum says of the operations: adding a line adds its ends, removing a
  node removes its lines.\<close>

definition multigraph_laws :: "'g multigraph \<Rightarrow> bool" where
  "multigraph_laws mg \<longleftrightarrow>
     mg_Nodes mg (mg_New mg) = [] \<and>
     (\<forall>l. \<not> mg_has_line mg (mg_New mg) l) \<and>
     (\<forall>g n. set (mg_Nodes mg (mg_AddNode mg n g)) = insert n (set (mg_Nodes mg g))) \<and>
     (\<forall>g n l. mg_has_line mg (mg_AddNode mg n g) l = mg_has_line mg g l) \<and>
     (\<forall>g u v i. set (mg_Nodes mg (mg_SetLine mg (u, v, i) g)) = insert u (insert v (set (mg_Nodes mg g)))) \<and>
     (\<forall>g k l. mg_has_line mg (mg_SetLine mg k g) l = (l = k \<or> mg_has_line mg g l)) \<and>
     (\<forall>g n. set (mg_Nodes mg (mg_RemoveNode mg n g)) = set (mg_Nodes mg g) - {n}) \<and>
     (\<forall>g n u v i. mg_has_line mg (mg_RemoveNode mg n g) (u, v, i) =
        (mg_has_line mg g (u, v, i) \<and> u \<noteq> n \<and> v \<noteq> n)) \<and>
     (\<forall>g l. mg_Nodes mg (mg_RemoveLine mg l g) = mg_Nodes mg g) \<and>
     (\<forall>g k l. mg_has_line mg (mg_RemoveLine mg k g) l = (l \<noteq> k \<and> mg_has_line mg g l)) \<and>
     (\<forall>g u. set (mg_From mg g u) = {v. \<exists>i. mg_has_line mg g (u, v, i)}) \<and>
     (\<forall>g v. set (mg_To mg g v) = {u. \<exists>i. mg_has_line mg g (u, v, i)})"

text \<open>The mutable part of a node and of a line in one graph; a nil \<open>Result\<close> is \<open>None\<close>.\<close>

record ('i, 'o) node_state =
  ns_Result :: "('i, 'o) Result option"
  ns_Queries :: Queries

record ('i, 'o, 'g) Graph =
  g_multi :: 'g
  g_Data :: "'o Data"
  g_allLines :: "'o Line list"
  g_node :: "nat \<Rightarrow> ('i, 'o) node_state"
  g_line :: "nat \<Rightarrow> Queries"
  g_attrs :: "(string \<times> string) list"

definition l_line :: "'o Line \<Rightarrow> mline" where
  "l_line l = (l_F l, l_T l, l_UID l)"

definition graph_New :: "'g multigraph \<Rightarrow> 'o Data \<Rightarrow> ('i, 'o, 'g) Graph" where
  "graph_New mg data =
     \<lparr>g_multi = mg_New mg, g_Data = data, g_allLines = [],
      g_node = (\<lambda>_. \<lparr>ns_Result = None, ns_Queries = []\<rparr>), g_line = (\<lambda>_. []),
      g_attrs = [(''fontname'', ''Helvetica''), (''fontsize'', ''12''), (''splines'', ''true''),
        (''overlap'', ''prism''), (''overlap_scaling'', ''-2''), (''layout'', ''dot'')]\<rparr>"

text \<open>\<open>copyNode\<close>: \<open>Copy\<close> makes a fresh state; an existing node is kept. \<open>ider\<close> gives the \<open>IDer\<close> of a class.\<close>

definition fresh_node :: "(klass \<Rightarrow> ('o \<Rightarrow> 'i) option) \<Rightarrow> klass \<Rightarrow> ('i, 'o) node_state" where
  "fresh_node ider c = \<lparr>ns_Result = Some (Result_New (ider c)), ns_Queries = []\<rparr>"

definition copyNode ::
  "'g multigraph \<Rightarrow> (klass \<Rightarrow> ('o \<Rightarrow> 'i) option) \<Rightarrow> nat \<Rightarrow> ('i, 'o, 'g) Graph \<Rightarrow> ('i, 'o, 'g) Graph" where
  "copyNode mg ider n g =
     (if n \<in> set (mg_Nodes mg (g_multi g)) then g
      else g\<lparr>g_multi := mg_AddNode mg n (g_multi g),
             g_node := (g_node g)(n := fresh_node ider (class_of (g_Data g) n))\<rparr>)"

definition copyLine ::
  "'g multigraph \<Rightarrow> (klass \<Rightarrow> ('o \<Rightarrow> 'i) option) \<Rightarrow> 'o Line \<Rightarrow> ('i, 'o, 'g) Graph \<Rightarrow> ('i, 'o, 'g) Graph" where
  "copyLine mg ider l g =
     (let g = copyNode mg ider (l_T l) (copyNode mg ider (l_F l) g)
      in g\<lparr>g_multi := mg_SetLine mg (l_line l) (g_multi g),
           g_line := (g_line g)(l_UID l := []),
           g_allLines := g_allLines g @ [l]\<rparr>)"

definition FullGraph :: "'g multigraph \<Rightarrow> (klass \<Rightarrow> ('o \<Rightarrow> 'i) option) \<Rightarrow> 'o Data \<Rightarrow> ('i, 'o, 'g) Graph" where
  "FullGraph mg ider d =
     fold (\<lambda>n g. copyNode mg ider (n_ID n) g) (d_Nodes d)
       (fold (copyLine mg ider) (d_Lines d) (graph_New mg d))"

text \<open>\<open>SharedGraph\<close> holds the data's own nodes, whose \<open>Result\<close> is nil.\<close>

definition SharedGraph :: "'g multigraph \<Rightarrow> 'o Data \<Rightarrow> ('i, 'o, 'g) Graph" where
  "SharedGraph mg d =
     (let g = graph_New mg d;
          m = fold (\<lambda>n m. mg_AddNode mg (n_ID n) m) (d_Nodes d) (g_multi g);
          m = fold (\<lambda>l m. mg_SetLine mg (l_line l) m) (d_Lines d) m
      in g\<lparr>g_allLines := d_Lines d, g_multi := m\<rparr>)"

definition graph_Select ::
  "'g multigraph \<Rightarrow> (klass \<Rightarrow> ('o \<Rightarrow> 'i) option) \<Rightarrow> ('o Line \<Rightarrow> bool) \<Rightarrow> ('i, 'o, 'g) Graph \<Rightarrow> ('i, 'o, 'g) Graph"
where
  "graph_Select mg ider keep g =
     fold (\<lambda>l sub. if keep l then copyLine mg ider l sub else sub) (g_allLines g) (graph_New mg (g_Data g))"

text \<open>\<open>Weight\<close>: \<open>None\<close> is \<open>+Inf\<close>.\<close>

definition graph_Weight :: "'g multigraph \<Rightarrow> ('i, 'o, 'g) Graph \<Rightarrow> nat \<Rightarrow> nat \<Rightarrow> nat option \<times> bool" where
  "graph_Weight mg g u v =
     (if u = v then (Some 0, True)
      else fold (\<lambda>uid (w, ok).
              let n = length (r_Goal (l_Rule (d_Lines (g_Data g) ! uid)))
              in (Some (case w of None \<Rightarrow> n | Some m \<Rightarrow> min m n), True))
            (mg_Lines mg (g_multi g) u v) (None, False))"

definition graph_NodeFor :: "'g multigraph \<Rightarrow> ('i, 'o, 'g) Graph \<Rightarrow> klass \<Rightarrow> nat option" where
  "graph_NodeFor mg g c =
     (case Data_NodeFor (g_Data g) c of
        None \<Rightarrow> None
      | Some n \<Rightarrow> if n_ID n \<in> set (mg_Nodes mg (g_multi g)) then Some (n_ID n) else None)"

definition graph_NodeForErr :: "'g multigraph \<Rightarrow> ('i, 'o, 'g) Graph \<Rightarrow> klass \<Rightarrow> nat result" where
  "graph_NodeForErr mg g c =
     (case graph_NodeFor mg g c of
        None \<Rightarrow> Inl (ErrorString (''class not found in graph: '' @ Class_String c))
      | Some n \<Rightarrow> Inr n)"

text \<open>The lines that \<open>EachLineBetween\<close>, \<open>EachLineFrom\<close> and \<open>EachLineTo\<close> visit.\<close>

definition EachLineBetween :: "'g multigraph \<Rightarrow> ('i, 'o, 'g) Graph \<Rightarrow> nat \<Rightarrow> nat \<Rightarrow> 'o Line list" where
  "EachLineBetween mg g start goal =
     map (\<lambda>uid. d_Lines (g_Data g) ! uid) (mg_Lines mg (g_multi g) start goal)"

definition EachLineFrom :: "'g multigraph \<Rightarrow> ('i, 'o, 'g) Graph \<Rightarrow> nat \<Rightarrow> 'o Line list" where
  "EachLineFrom mg g start = concat (map (EachLineBetween mg g start) (mg_From mg (g_multi g) start))"

definition EachLineTo :: "'g multigraph \<Rightarrow> ('i, 'o, 'g) Graph \<Rightarrow> nat \<Rightarrow> 'o Line list" where
  "EachLineTo mg g goal = concat (map (\<lambda>s. EachLineBetween mg g s goal) (mg_To mg (g_multi g) goal))"

definition FindLine :: "'g multigraph \<Rightarrow> ('i, 'o, 'g) Graph \<Rightarrow> klass \<Rightarrow> klass \<Rightarrow> 'o rule \<Rightarrow> 'o Line option" where
  "FindLine mg g start goal rule =
     (case (graph_NodeFor mg g start, graph_NodeFor mg g goal) of
        (Some u, Some v) \<Rightarrow> find (\<lambda>l. r_ptr (l_Rule l) = r_ptr rule) (EachLineBetween mg g u v)
      | _ \<Rightarrow> None)"

definition graph_AddLine :: "'g multigraph \<Rightarrow> 'o Line \<Rightarrow> Queries \<Rightarrow> ('i, 'o, 'g) Graph \<Rightarrow> ('i, 'o, 'g) Graph" where
  "graph_AddLine mg l qs g =
     g\<lparr>g_multi := mg_SetLine mg (l_line l) (g_multi g), g_line := (g_line g)(l_UID l := qs),
       g_allLines := g_allLines g @ [l]\<rparr>"

definition node_objects :: "('i, 'o) node_state \<Rightarrow> 'o list" where
  "node_objects n = (case ns_Result n of None \<Rightarrow> [] | Some r \<Rightarrow> Result_List r)"

definition Node_Empty :: "('i, 'o) node_state \<Rightarrow> bool" where
  "Node_Empty n \<longleftrightarrow>
     (case ns_Result n of None \<Rightarrow> True | Some r \<Rightarrow> length (Result_List r) = 0)"

definition RemoveEmpty :: "'g multigraph \<Rightarrow> ('i, 'o, 'g) Graph \<Rightarrow> ('i, 'o, 'g) Graph" where
  "RemoveEmpty mg g =
     (let empty = (\<lambda>l. Queries_Total (g_line g (l_UID l)) = 0);
          m = fold (\<lambda>l m. if empty l then mg_RemoveLine mg (l_line l) m else m) (g_allLines g) (g_multi g);
          kept = filter (\<lambda>l. \<not> empty l) (g_allLines g);
          m = fold (\<lambda>n m. if length (node_objects (g_node g n)) = 0 then mg_RemoveNode mg n m else m)
                (mg_Nodes mg m) m
      in g\<lparr>g_multi := m, g_allLines := kept\<rparr>)"

text \<open>\<open>RemoveEmptyGoalPaths\<close>; \<open>between\<close> is whether Dijkstra's algorithm finds a path in a graph.\<close>

definition RemoveEmptyGoalPaths ::
  "'g multigraph \<Rightarrow> ('g \<Rightarrow> nat \<Rightarrow> nat \<Rightarrow> bool) \<Rightarrow> klass list \<Rightarrow> ('i, 'o, 'g) Graph \<Rightarrow> ('i, 'o, 'g) Graph"
where
  "RemoveEmptyGoalPaths mg between goals g =
     (let goalIDs = List.map_filter (\<lambda>c. case graph_NodeFor mg g c of
                        Some n \<Rightarrow> if \<not> Node_Empty (g_node g n) then Some n else None
                      | None \<Rightarrow> None) goals;
          m = fold (\<lambda>n m. if \<not> list_ex (between (g_multi g) n) goalIDs then mg_RemoveNode mg n m else m)
                (mg_Nodes mg (g_multi g)) (g_multi g);
          kept = filter (\<lambda>l. l_F l \<in> set (mg_Nodes mg m) \<and> l_T l \<in> set (mg_Nodes mg m)) (g_allLines g)
      in g\<lparr>g_multi := m, g_allLines := kept\<rparr>)"

section \<open>What the graph operations keep\<close>

lemma mg_New [simp]:
  "multigraph_laws mg \<Longrightarrow> mg_Nodes mg (mg_New mg) = []"
  "multigraph_laws mg \<Longrightarrow> \<not> mg_has_line mg (mg_New mg) l"
  unfolding multigraph_laws_def by (elim conjE, simp only: simp_thms)+

lemma mg_AddNode [simp]:
  "multigraph_laws mg \<Longrightarrow> set (mg_Nodes mg (mg_AddNode mg n g)) = insert n (set (mg_Nodes mg g))"
  "multigraph_laws mg \<Longrightarrow> mg_has_line mg (mg_AddNode mg n g) l = mg_has_line mg g l"
  unfolding multigraph_laws_def by (elim conjE, simp only: simp_thms)+

lemma mg_SetLine [simp]:
  "multigraph_laws mg \<Longrightarrow> set (mg_Nodes mg (mg_SetLine mg (l_line l) g))
     = insert (l_F l) (insert (l_T l) (set (mg_Nodes mg g)))"
  "multigraph_laws mg \<Longrightarrow> mg_has_line mg (mg_SetLine mg k g) m = (m = k \<or> mg_has_line mg g m)"
  unfolding multigraph_laws_def l_line_def by (elim conjE, simp only: simp_thms)+

lemma mg_RemoveNode [simp]:
  "multigraph_laws mg \<Longrightarrow> set (mg_Nodes mg (mg_RemoveNode mg n g)) = set (mg_Nodes mg g) - {n}"
  "multigraph_laws mg \<Longrightarrow> mg_has_line mg (mg_RemoveNode mg n g) (u, v, i)
     = (mg_has_line mg g (u, v, i) \<and> u \<noteq> n \<and> v \<noteq> n)"
  unfolding multigraph_laws_def by (elim conjE, simp only: simp_thms)+

lemma mg_RemoveLine [simp]:
  "multigraph_laws mg \<Longrightarrow> mg_Nodes mg (mg_RemoveLine mg l g) = mg_Nodes mg g"
  "multigraph_laws mg \<Longrightarrow> mg_has_line mg (mg_RemoveLine mg k g) m = (m \<noteq> k \<and> mg_has_line mg g m)"
  unfolding multigraph_laws_def by (elim conjE, simp only: simp_thms)+

lemma mg_From [simp]:
  "multigraph_laws mg \<Longrightarrow> set (mg_From mg g u) = {v. \<exists>i. mg_has_line mg g (u, v, i)}"
  "multigraph_laws mg \<Longrightarrow> set (mg_To mg g v) = {u. \<exists>i. mg_has_line mg g (u, v, i)}"
  unfolding multigraph_laws_def by (elim conjE, simp only: simp_thms)+

lemma fold_RemoveNode:
  assumes "multigraph_laws mg"
  shows "set (mg_Nodes mg (fold (\<lambda>n m. if P n then mg_RemoveNode mg n m else m) ns m))
      = set (mg_Nodes mg m) - {n \<in> set ns. P n}"
    and "mg_has_line mg (fold (\<lambda>n m. if P n then mg_RemoveNode mg n m else m) ns m) (u, v, i)
      = (mg_has_line mg m (u, v, i) \<and> u \<notin> {n \<in> set ns. P n} \<and> v \<notin> {n \<in> set ns. P n})"
  using assms by (induction ns arbitrary: m) auto

lemma fold_RemoveLine:
  assumes "multigraph_laws mg"
  shows "mg_Nodes mg (fold (\<lambda>l m. if P l then mg_RemoveLine mg (l_line l) m else m) ls m) = mg_Nodes mg m"
    and "mg_has_line mg (fold (\<lambda>l m. if P l then mg_RemoveLine mg (l_line l) m else m) ls m) k
      = (mg_has_line mg m k \<and> k \<notin> l_line ` {l \<in> set ls. P l})"
  using assms by (induction ls arbitrary: m) auto

lemma copyNode_spec:
  assumes "multigraph_laws mg"
  shows "set (mg_Nodes mg (g_multi (copyNode mg ider n g))) = insert n (set (mg_Nodes mg (g_multi g)))"
    and "mg_has_line mg (g_multi (copyNode mg ider n g)) k = mg_has_line mg (g_multi g) k"
    and "g_allLines (copyNode mg ider n g) = g_allLines g"
    and "g_Data (copyNode mg ider n g) = g_Data g"
  using assms by (auto simp: copyNode_def)

lemma copyLine_spec:
  assumes "multigraph_laws mg"
  shows "set (mg_Nodes mg (g_multi (copyLine mg ider l g)))
      = insert (l_F l) (insert (l_T l) (set (mg_Nodes mg (g_multi g))))"
    and "mg_has_line mg (g_multi (copyLine mg ider l g)) k = (k = l_line l \<or> mg_has_line mg (g_multi g) k)"
    and "g_allLines (copyLine mg ider l g) = g_allLines g @ [l]"
    and "g_Data (copyLine mg ider l g) = g_Data g"
  using assms by (auto simp: copyLine_def copyNode_spec Let_def)

text \<open>The multigraph and the list of all lines agree.\<close>

definition graph_ok :: "'g multigraph \<Rightarrow> ('i, 'o, 'g) Graph \<Rightarrow> bool" where
  "graph_ok mg g \<longleftrightarrow>
     (\<forall>k. mg_has_line mg (g_multi g) k \<longleftrightarrow> k \<in> l_line ` set (g_allLines g)) \<and>
     (\<forall>l \<in> set (g_allLines g). l_F l \<in> set (mg_Nodes mg (g_multi g)) \<and> l_T l \<in> set (mg_Nodes mg (g_multi g)))"

lemma fold_copyLine:
  assumes "multigraph_laws mg"
  shows "g_allLines (fold (\<lambda>l sub. if keep l then copyLine mg ider l sub else sub) ls g)
      = g_allLines g @ filter keep ls"
    and "set (mg_Nodes mg (g_multi (fold (\<lambda>l sub. if keep l then copyLine mg ider l sub else sub) ls g)))
      = set (mg_Nodes mg (g_multi g)) \<union> l_F ` set (filter keep ls) \<union> l_T ` set (filter keep ls)"
    and "mg_has_line mg (g_multi (fold (\<lambda>l sub. if keep l then copyLine mg ider l sub else sub) ls g)) k
      = (mg_has_line mg (g_multi g) k \<or> k \<in> l_line ` set (filter keep ls))"
  by (induction ls arbitrary: g) (auto simp: copyLine_spec [OF assms])

lemma graph_Select_ok: "multigraph_laws mg \<Longrightarrow> graph_ok mg (graph_Select mg ider keep g)"
  unfolding graph_ok_def graph_Select_def by (auto simp: fold_copyLine graph_New_def)

text \<open>C37: \<open>Select\<close> makes the sub-graph of exactly the lines that are kept and their ends.\<close>

theorem graph_Select_spec:
  assumes "multigraph_laws mg"
  shows "graph_ok mg (graph_Select mg ider keep g) \<and>
    g_allLines (graph_Select mg ider keep g) = filter keep (g_allLines g) \<and>
    set (mg_Nodes mg (g_multi (graph_Select mg ider keep g)))
      = l_F ` set (filter keep (g_allLines g)) \<union> l_T ` set (filter keep (g_allLines g))"
  using graph_Select_ok [OF assms] unfolding graph_Select_def
  by (auto simp: fold_copyLine [OF assms] graph_New_def assms)

text \<open>\<open>RemoveEmpty\<close> leaves the nodes that have results and, between them, the lines whose queries
  counted a result.\<close>

theorem RemoveEmpty_spec:
  assumes "multigraph_laws mg" and "graph_ok mg g"
  shows "set (mg_Nodes mg (g_multi (RemoveEmpty mg g)))
      = {n \<in> set (mg_Nodes mg (g_multi g)). node_objects (g_node g n) \<noteq> []} \<and>
    g_allLines (RemoveEmpty mg g) = filter (\<lambda>l. Queries_Total (g_line g (l_UID l)) > 0) (g_allLines g) \<and>
    (\<forall>k. mg_has_line mg (g_multi (RemoveEmpty mg g)) k \<longrightarrow>
       (\<exists>l \<in> set (g_allLines (RemoveEmpty mg g)). k = l_line l \<and>
          node_objects (g_node g (l_F l)) \<noteq> [] \<and> node_objects (g_node g (l_T l)) \<noteq> []))"
proof -
  let ?empty = "\<lambda>l. Queries_Total (g_line g (l_UID l)) = 0"
  let ?m = "fold (\<lambda>l m. if ?empty l then mg_RemoveLine mg (l_line l) m else m) (g_allLines g) (g_multi g)"
  have pos: "Queries_Total qs > 0 \<longleftrightarrow> Queries_Total qs \<noteq> 0" for qs
    using Queries_Total_pos [of qs] by linarith
  have line: "mg_has_line mg ?m (u, v, i) \<longleftrightarrow>
      (\<exists>l \<in> set (g_allLines g). l_line l = (u, v, i)) \<and> (u, v, i) \<notin> l_line ` {l \<in> set (g_allLines g). ?empty l}" for u v i
  proof -
    have "mg_has_line mg (g_multi g) (u, v, i) \<longleftrightarrow> (u, v, i) \<in> l_line ` set (g_allLines g)"
      using assms(2) unfolding graph_ok_def by blast
    also have "\<dots> \<longleftrightarrow> (\<exists>l \<in> set (g_allLines g). l_line l = (u, v, i))" by force
    finally show ?thesis by (simp add: fold_RemoveLine [OF assms(1)])
  qed
  have "\<exists>l \<in> set (filter (\<lambda>l. Queries_Total (g_line g (l_UID l)) > 0) (g_allLines g)). k = l_line l \<and>
          node_objects (g_node g (l_F l)) \<noteq> [] \<and> node_objects (g_node g (l_T l)) \<noteq> []"
    if k: "mg_has_line mg (g_multi (RemoveEmpty mg g)) k" for k
  proof -
    obtain u v i where uvi: "k = (u, v, i)" by (metis prod_cases3)
    from k have h: "mg_has_line mg ?m (u, v, i)"
      "\<not> (u \<in> set (mg_Nodes mg ?m) \<and> node_objects (g_node g u) = [])"
      "\<not> (v \<in> set (mg_Nodes mg ?m) \<and> node_objects (g_node g v) = [])"
      by (simp_all add: uvi RemoveEmpty_def Let_def fold_RemoveNode [OF assms(1)])
    from h(1) obtain l where l: "l \<in> set (g_allLines g)" "l_line l = (u, v, i)" "\<not> ?empty l"
      unfolding line by force
    moreover have "u \<in> set (mg_Nodes mg ?m)" "v \<in> set (mg_Nodes mg ?m)"
      using assms(2) l by (auto simp: fold_RemoveLine [OF assms(1)] graph_ok_def l_line_def)
    ultimately show ?thesis using h(2,3) uvi by (auto simp: pos l_line_def intro!: bexI [of _ l])
  qed
  then show ?thesis
    using assms(1) by (auto simp: RemoveEmpty_def Let_def fold_RemoveNode fold_RemoveLine pos)
qed

text \<open>\<open>RemoveEmptyGoalPaths\<close> keeps exactly the nodes with a path to a goal that has results, and the
  lines between the nodes it keeps, and leaves the graph and its list of lines in agreement.\<close>

theorem RemoveEmptyGoalPaths_spec:
  assumes "multigraph_laws mg" and "graph_ok mg g"
  shows "graph_ok mg (RemoveEmptyGoalPaths mg between goals g) \<and>
    set (mg_Nodes mg (g_multi (RemoveEmptyGoalPaths mg between goals g)))
      = {n \<in> set (mg_Nodes mg (g_multi g)). \<exists>c \<in> set goals. \<exists>m. graph_NodeFor mg g c = Some m \<and>
           \<not> Node_Empty (g_node g m) \<and> between (g_multi g) n m} \<and>
    set (g_allLines (RemoveEmptyGoalPaths mg between goals g))
      = {l \<in> set (g_allLines g).
           l_F l \<in> set (mg_Nodes mg (g_multi (RemoveEmptyGoalPaths mg between goals g))) \<and>
           l_T l \<in> set (mg_Nodes mg (g_multi (RemoveEmptyGoalPaths mg between goals g)))}"
proof -
  let ?ids = "List.map_filter (\<lambda>c. case graph_NodeFor mg g c of
      Some n \<Rightarrow> if \<not> Node_Empty (g_node g n) then Some n else None | None \<Rightarrow> None) goals"
  let ?P = "\<lambda>n. \<not> list_ex (between (g_multi g) n) ?ids"
  let ?m = "fold (\<lambda>n m. if ?P n then mg_RemoveNode mg n m else m) (mg_Nodes mg (g_multi g)) (g_multi g)"
  let ?r = "RemoveEmptyGoalPaths mg between goals g"
  have r: "g_multi ?r = ?m" "g_allLines ?r = filter (\<lambda>l. l_F l \<in> set (mg_Nodes mg ?m) \<and> l_T l \<in> set (mg_Nodes mg ?m)) (g_allLines g)"
    by (simp_all add: RemoveEmptyGoalPaths_def Let_def)
  have P: "?P n \<longleftrightarrow> \<not> (\<exists>c \<in> set goals. \<exists>m. graph_NodeFor mg g c = Some m \<and>
      \<not> Node_Empty (g_node g m) \<and> between (g_multi g) n m)" for n
    by (auto simp: list_ex_iff List.map_filter_def split: option.splits if_splits)
  have nodes: "set (mg_Nodes mg ?m) = {n \<in> set (mg_Nodes mg (g_multi g)). \<not> ?P n}"
    by (auto simp: fold_RemoveNode [OF assms(1)])
  have line: "mg_has_line mg ?m (u, v, i) \<longleftrightarrow> mg_has_line mg (g_multi g) (u, v, i) \<and>
      u \<notin> {n \<in> set (mg_Nodes mg (g_multi g)). ?P n} \<and> v \<notin> {n \<in> set (mg_Nodes mg (g_multi g)). ?P n}" for u v i
    by (rule fold_RemoveNode(2) [OF assms(1)])
  have "mg_has_line mg ?m k \<longleftrightarrow> k \<in> l_line ` set (g_allLines ?r)" for k
  proof -
    obtain u v i where k: "k = (u, v, i)" by (metis prod_cases3)
    have "mg_has_line mg (g_multi g) k \<longleftrightarrow> k \<in> l_line ` set (g_allLines g)"
      using assms(2) unfolding graph_ok_def by blast
    moreover have "u \<in> set (mg_Nodes mg (g_multi g)) \<and> v \<in> set (mg_Nodes mg (g_multi g))"
      if "k \<in> l_line ` set (g_allLines g)"
      using that assms(2) k by (auto simp: graph_ok_def l_line_def)
    ultimately show ?thesis
      unfolding r k line nodes by (auto simp: l_line_def image_iff)
  qed
  then have "graph_ok mg ?r"
    unfolding graph_ok_def r(1) by (auto simp: r(2))
  moreover have "set (mg_Nodes mg (g_multi ?r)) = {n \<in> set (mg_Nodes mg (g_multi g)). \<exists>c \<in> set goals. \<exists>m.
      graph_NodeFor mg g c = Some m \<and> \<not> Node_Empty (g_node g m) \<and> between (g_multi g) n m}"
    unfolding r(1) nodes using P by blast
  moreover have "set (g_allLines ?r) = {l \<in> set (g_allLines g).
      l_F l \<in> set (mg_Nodes mg (g_multi ?r)) \<and> l_T l \<in> set (mg_Nodes mg (g_multi ?r))}"
    unfolding r by auto
  ultimately show ?thesis by blast
qed

text \<open>The lines that \<open>EachLineFrom\<close> visits are those that start at the node.\<close>

lemma EachLineFrom_set:
  assumes "multigraph_laws mg" and "graph_ok mg g"
    and "\<forall>l \<in> set (g_allLines g). d_Lines (g_Data g) ! l_UID l = l"
  shows "set (EachLineFrom mg g u) = {l \<in> set (g_allLines g). l_F l = u}"
proof -
  have has: "uid \<in> set (mg_Lines mg (g_multi g) a b) \<longleftrightarrow> (a, b, uid) \<in> l_line ` set (g_allLines g)" for a b uid
  proof -
    have "mg_has_line mg (g_multi g) (a, b, uid) \<longleftrightarrow> (a, b, uid) \<in> l_line ` set (g_allLines g)"
      using assms(2) unfolding graph_ok_def by blast
    then show ?thesis by (simp add: mg_has_line_def)
  qed
  have "set (EachLineFrom mg g u) = {d_Lines (g_Data g) ! uid | v uid. uid \<in> set (mg_Lines mg (g_multi g) u v)}"
    using assms(1) by (auto simp: EachLineFrom_def EachLineBetween_def mg_has_line_def)
  also have "\<dots> = {l \<in> set (g_allLines g). l_F l = u}"
    unfolding has using assms(3) by (force simp: l_line_def)
  finally show ?thesis .
qed

text \<open>The weight of an edge is the least number of goals of a rule on one of its lines; an edge
  without lines has no weight, and a node is at distance zero from itself.\<close>

theorem graph_Weight_spec:
  "graph_Weight mg g u v =
     (if u = v then (Some 0, True)
      else if mg_Lines mg (g_multi g) u v = [] then (None, False)
      else (Some (Min ((\<lambda>l. length (r_Goal (l_Rule l))) ` set (EachLineBetween mg g u v))), True))"
proof -
  let ?n = "\<lambda>uid. length (r_Goal (l_Rule (d_Lines (g_Data g) ! uid)))"
  let ?f = "\<lambda>uid (w, ok). (Some (case w of None \<Rightarrow> ?n uid | Some m \<Rightarrow> min m (?n uid)), True)"
  have step: "fold ?f us (Some m, True) = (Some (Min (insert m (?n ` set us))), True)" for us m
  proof (induction us arbitrary: m)
    case (Cons a us)
    have "Min (insert (min m (?n a)) (?n ` set us)) = Min (insert m (insert (?n a) (?n ` set us)))"
      by (cases "us = []") (simp_all add: min.assoc [symmetric])
    with Cons show ?case by simp
  qed simp
  have "fold ?f us (None, False) = (Some (Min (?n ` set us)), True)" if "us \<noteq> []" for us
    using that step by (cases us) simp_all
  moreover have "graph_Weight mg g u v
      = (if u = v then (Some 0, True) else fold ?f (mg_Lines mg (g_multi g) u v) (None, False))"
    by (simp add: graph_Weight_def Let_def)
  ultimately show ?thesis by (simp add: EachLineBetween_def image_image)
qed

section \<open>A multigraph\<close>

text \<open>Node and line lists satisfy the laws, so the theorems above are about something.\<close>

definition list_multigraph :: "(nat list \<times> mline list) multigraph" where
  "list_multigraph = \<lparr>
     mg_New = ([], []),
     mg_AddNode = (\<lambda>n (ns, ls). (List.insert n ns, ls)),
     mg_SetLine = (\<lambda>l (ns, ls). (List.insert (fst l) (List.insert (fst (snd l)) ns), List.insert l ls)),
     mg_RemoveNode = (\<lambda>n (ns, ls). (filter (\<lambda>m. m \<noteq> n) ns, filter (\<lambda>(u, v, _). u \<noteq> n \<and> v \<noteq> n) ls)),
     mg_RemoveLine = (\<lambda>l (ns, ls). (ns, filter (\<lambda>k. k \<noteq> l) ls)),
     mg_Nodes = fst,
     mg_Lines = (\<lambda>(ns, ls) u v. map (\<lambda>(_, _, i). i) (filter (\<lambda>(a, b, _). a = u \<and> b = v) ls)),
     mg_From = (\<lambda>(ns, ls) u. map (\<lambda>(_, b, _). b) (filter (\<lambda>(a, _, _). a = u) ls)),
     mg_To = (\<lambda>(ns, ls) v. map fst (filter (\<lambda>(_, b, _). b = v) ls))\<rparr>"

lemma list_multigraph_has_line: "mg_has_line list_multigraph (ns, ls) l \<longleftrightarrow> l \<in> set ls"
  by (cases l) (force simp: mg_has_line_def list_multigraph_def)

lemma list_multigraph_simps:
  "mg_New list_multigraph = ([], [])"
  "mg_AddNode list_multigraph n (ns, ls) = (List.insert n ns, ls)"
  "mg_SetLine list_multigraph (u, v, i) (ns, ls) = (List.insert u (List.insert v ns), List.insert (u, v, i) ls)"
  "mg_RemoveNode list_multigraph n (ns, ls) = (filter (\<lambda>m. m \<noteq> n) ns, filter (\<lambda>(u, v, _). u \<noteq> n \<and> v \<noteq> n) ls)"
  "mg_RemoveLine list_multigraph k (ns, ls) = (ns, filter (\<lambda>j. j \<noteq> k) ls)"
  "mg_Nodes list_multigraph (ns, ls) = ns"
  "mg_Lines list_multigraph (ns, ls) u v = map (\<lambda>(_, _, i). i) (filter (\<lambda>(a, b, _). a = u \<and> b = v) ls)"
  "set (mg_From list_multigraph (ns, ls) u) = {v. \<exists>i. (u, v, i) \<in> set ls}"
  "set (mg_To list_multigraph (ns, ls) v) = {u. \<exists>i. (u, v, i) \<in> set ls}"
  by (force simp: list_multigraph_def)+

lemma list_multigraph_laws: "multigraph_laws list_multigraph"
  unfolding multigraph_laws_def split_paired_All
  by (intro conjI allI) (auto simp: list_multigraph_has_line list_multigraph_simps)

definition example_rule :: "unit rule" where
  "example_rule = \<lparr>r_ptr = 0, r_Name = ''r'', r_Start = [Klass ''k8s'' ''Pod''],
     r_Goal = [Klass ''log'' ''infra''], r_Apply = (\<lambda>_. Inr [])\<rparr>"

definition example_graph :: "(nat, unit, nat list \<times> mline list) Graph" where
  "example_graph = graph_Select list_multigraph (\<lambda>_. None) (\<lambda>_. True)
     (SharedGraph list_multigraph (NewData [example_rule]))"

lemma SharedGraph_allLines: "g_allLines (SharedGraph mg d) = d_Lines d"
  by (simp add: SharedGraph_def Let_def)

lemma graph_Select_spec_witness:
  "g_allLines example_graph = d_Lines (NewData [example_rule])"
proof -
  let ?g = "SharedGraph list_multigraph (NewData [example_rule]) :: (nat, unit, nat list \<times> mline list) Graph"
  have "g_allLines (graph_Select list_multigraph (\<lambda>_. None) (\<lambda>_. True) ?g) = filter (\<lambda>_. True) (g_allLines ?g)"
    using graph_Select_spec [OF list_multigraph_laws, of "\<lambda>_. None" "\<lambda>_. True" ?g] by blast
  then show ?thesis by (simp add: example_graph_def SharedGraph_allLines)
qed

lemma RemoveEmpty_spec_witness:
  "set (mg_Nodes list_multigraph (g_multi (RemoveEmpty list_multigraph example_graph)))
     = {n \<in> set (mg_Nodes list_multigraph (g_multi example_graph)). node_objects (g_node example_graph n) \<noteq> []}"
proof -
  have "graph_ok list_multigraph example_graph"
    unfolding example_graph_def by (rule graph_Select_ok [OF list_multigraph_laws])
  from RemoveEmpty_spec [OF list_multigraph_laws this] show ?thesis by blast
qed

lemma RemoveEmptyGoalPaths_spec_witness:
  "graph_ok list_multigraph (RemoveEmptyGoalPaths list_multigraph (\<lambda>_ _ _. True) [Klass ''log'' ''infra''] example_graph)"
proof -
  have "graph_ok list_multigraph example_graph"
    unfolding example_graph_def by (rule graph_Select_ok [OF list_multigraph_laws])
  from RemoveEmptyGoalPaths_spec [OF list_multigraph_laws this] show ?thesis by blast
qed

section \<open>The output of a graph\<close>

text \<open>\<open>Line.String\<close>, \<open>Node.String\<close> (the JSON of the objects is a parameter) and the sorted lists of them.\<close>

definition Line_String :: "'o Data \<Rightarrow> 'o Line \<Rightarrow> string" where
  "Line_String d l =
     r_Name (l_Rule l) @ ''('' @ Class_String (class_of d (l_F l)) @ ''->'' @ Class_String (class_of d (l_T l)) @ '')''"

definition Node_String :: "('o \<Rightarrow> string) \<Rightarrow> bool \<Rightarrow> klass \<Rightarrow> ('i, 'o) node_state \<Rightarrow> string" where
  "Node_String marshal sorted_objects c n =
     (let result = map marshal (node_objects n)
      in if length result = 0 then Class_String c
         else (let result = (if sorted_objects then sort result else result)
               in Class_String c @ ''['' @ strings_Join '','' result @ '']''))"

definition LineStrings :: "('i, 'o, 'g) Graph \<Rightarrow> string list" where
  "LineStrings g = sort (map (Line_String (g_Data g)) (g_allLines g))"

definition NodeStrings :: "'g multigraph \<Rightarrow> ('o \<Rightarrow> string) \<Rightarrow> bool \<Rightarrow> ('i, 'o, 'g) Graph \<Rightarrow> string list" where
  "NodeStrings mg marshal sorted_objects g =
     sort (map (\<lambda>n. Node_String marshal sorted_objects (class_of (g_Data g) n) (g_node g n))
       (mg_Nodes mg (g_multi g)))"

lemma NodeStrings_order:
  assumes "mset (mg_Nodes mg (g_multi g)) = mset (mg_Nodes mg (g_multi g'))"
    and "g_Data g = g_Data g'" and "g_node g = g_node g'"
  shows "NodeStrings mg f b g = NodeStrings mg f b g'"
  unfolding NodeStrings_def assms(2,3)
  by (rule properties_for_sort) (simp_all add: assms(1))

end
