(* ===== verification/Traverse.thy ===== *)
theory Traverse
  imports Graph
begin

text \<open>
  \<open>pkg/engine/traverse/traverse.go\<close>: the concurrent traversal of the rule graph. Workers take queries
  from a shared queue, add the objects the stores give to the node of the query's class, apply the rules
  of the class to the new objects and put the queries that result back into the queue; a wait group
  counts the work in flight and the queue is closed when it reaches zero.

  Each section of code between two synchronisation points is an atomic function; a goroutine is a program
  counter that names the section it is about to run with its local variables. \<open>proc_step\<close> runs the next
  section of one goroutine and \<open>run_step\<close> interleaves the main goroutine (process 0) and the workers,
  with the cancellation of the context as a step of its own. A nil \<open>Line\<close> is an absent key.

  Parameters: what \<open>Engine.Get\<close> appends for a query (its error is ignored by the code), the status
  rules, the \<open>IDer\<close> of a class. Metrics and logging are left out. Rules are compared by pointer.
\<close>

section \<open>State\<close>

datatype lineKey = LineKey (lk_start: klass) (lk_goal: klass) (lk_rule: nat)

record queryLine =
  ql_Query :: query
  ql_key :: "lineKey option"
  ql_depth :: int

record ('i, 'o) tnode =
  tn_result :: "('i, 'o) Result"
  tn_queries :: Queries
  tn_processed :: nat

record workQueue =
  wq_items :: "queryLine list"
  wq_closed :: bool

record 'o Start =
  st_Class :: klass
  st_Objects :: "'o list"
  st_Queries :: "query list"

record ('i, 'o) trav_env =
  te_start :: "'o Start"
  te_get :: "query \<Rightarrow> 'o list"
  te_status :: "klass \<Rightarrow> ('o \<Rightarrow> string list) list"
  te_ider :: "klass \<Rightarrow> ('o \<Rightarrow> 'i) option"

record ('i, 'o) traverser =
  tv_data :: "'o Data"
  tv_constraint :: "Constraint option"
  tv_maxDepth :: int
  tv_nodes :: "(klass \<times> ('i, 'o) tnode) list"
  tv_rules :: "klass \<Rightarrow> 'o rule list"
  tv_lines :: "lineKey \<rightharpoonup> 'o Line"
  tv_lineQueries :: "(lineKey \<times> Queries) list"
  tv_work :: workQueue
  tv_wg :: nat
  tv_seen :: "query set"
  tv_cancelled :: bool

section \<open>The work queue\<close>

definition newWorkQueue :: workQueue where
  "newWorkQueue = \<lparr>wq_items = [], wq_closed = False\<rparr>"

definition workQueue_put :: "queryLine \<Rightarrow> workQueue \<Rightarrow> workQueue" where
  "workQueue_put ql q = q\<lparr>wq_items := wq_items q @ [ql]\<rparr>"

text \<open>\<open>None\<close>: the caller waits; \<open>Some None\<close>: the queue is closed and empty.\<close>

definition workQueue_get :: "workQueue \<Rightarrow> (queryLine option \<times> workQueue) option" where
  "workQueue_get q =
     (case wq_items q of
        [] \<Rightarrow> if \<not> wq_closed q then None else Some (None, q)
      | ql # items \<Rightarrow> Some (Some ql, q\<lparr>wq_items := items\<rparr>))"

definition workQueue_close :: "workQueue \<Rightarrow> workQueue" where
  "workQueue_close q = q\<lparr>wq_closed := True\<rparr>"

section \<open>Construction\<close>

definition new_tnode :: "('i, 'o) trav_env \<Rightarrow> klass \<Rightarrow> ('i, 'o) tnode" where
  "new_tnode env c = \<lparr>tn_result = Result_New (te_ider env c), tn_queries = [], tn_processed = 0\<rparr>"

definition getOrCreateNode :: "('i, 'o) trav_env \<Rightarrow> klass \<Rightarrow> ('i, 'o) traverser \<Rightarrow> ('i, 'o) traverser" where
  "getOrCreateNode env c t =
     (case map_of (tv_nodes t) c of
        Some _ \<Rightarrow> t
      | None \<Rightarrow> t\<lparr>tv_nodes := al_set c (new_tnode env c) (tv_nodes t)\<rparr>)"

text \<open>Adding a rule to a set of rules.\<close>

definition add_rule :: "'o rule \<Rightarrow> 'o rule list \<Rightarrow> 'o rule list" where
  "add_rule r rs = (if list_ex (\<lambda>s. r_ptr s = r_ptr r) rs then rs else rs @ [r])"

definition line_key :: "'o Data \<Rightarrow> 'o Line \<Rightarrow> lineKey" where
  "line_key d l = LineKey (class_of d (l_F l)) (class_of d (l_T l)) (r_ptr (l_Rule l))"

definition add_scope_line :: "('i, 'o) trav_env \<Rightarrow> 'o Line \<Rightarrow> ('i, 'o) traverser \<Rightarrow> ('i, 'o) traverser" where
  "add_scope_line env l t =
     (let start = class_of (tv_data t) (l_F l);
          goal = class_of (tv_data t) (l_T l);
          t = getOrCreateNode env start t;
          t = getOrCreateNode env goal t;
          t = t\<lparr>tv_rules := (tv_rules t)(start := add_rule (l_Rule l) (tv_rules t start))\<rparr>;
          key = line_key (tv_data t) l;
          t = t\<lparr>tv_lines := (tv_lines t)(key \<mapsto> l)\<rparr>
      in if map_of (tv_lineQueries t) key = None
         then t\<lparr>tv_lineQueries := al_set key [] (tv_lineQueries t)\<rparr>
         else t)"

definition newTraverser ::
  "('i, 'o) trav_env \<Rightarrow> 'o Data \<Rightarrow> 'o Line list \<Rightarrow> Constraint option \<Rightarrow> int \<Rightarrow> ('i, 'o) traverser" where
  "newTraverser env data scopeLines c maxDepth =
     fold (add_scope_line env) scopeLines
       \<lparr>tv_data = data, tv_constraint = c, tv_maxDepth = maxDepth, tv_nodes = [], tv_rules = (\<lambda>_. []),
        tv_lines = Map.empty, tv_lineQueries = [], tv_work = newWorkQueue, tv_wg = 0, tv_seen = {},
        tv_cancelled = False\<rparr>"

section \<open>The atomic sections\<close>

definition set_node :: "klass \<Rightarrow> ('i, 'o) tnode \<Rightarrow> ('i, 'o) traverser \<Rightarrow> ('i, 'o) traverser" where
  "set_node c n t = t\<lparr>tv_nodes := al_set c n (tv_nodes t)\<rparr>"

text \<open>The checks of \<open>dedupAndSend\<close> and \<open>isDuplicate\<close>: whether the query is to be sent.\<close>

definition isDuplicate :: "query \<Rightarrow> ('i, 'o) traverser \<Rightarrow> bool \<times> ('i, 'o) traverser" where
  "isDuplicate q t =
     (if q \<in> tv_seen t then (True, t) else (False, t\<lparr>tv_seen := insert q (tv_seen t)\<rparr>))"

definition dedup_check :: "queryLine \<Rightarrow> ('i, 'o) traverser \<Rightarrow> bool \<times> ('i, 'o) traverser" where
  "dedup_check ql t =
     (if tv_maxDepth t \<ge> 0 \<and> ql_depth ql > tv_maxDepth t then (False, t)
      else if tv_cancelled t then (False, t)
      else (let (dup, t) = isDuplicate (ql_Query ql) t in (\<not> dup, t)))"

definition overLimit :: "int \<Rightarrow> ('i, 'o) tnode \<Rightarrow> bool" where
  "overLimit limit n \<longleftrightarrow> limit > 0 \<and> int (length (tn_queries n)) > limit"

text \<open>The first part of \<open>handleQuery\<close>: whether to execute the query.\<close>

definition query_admitted :: "queryLine \<Rightarrow> ('i, 'o) traverser \<Rightarrow> bool" where
  "query_admitted ql t \<longleftrightarrow>
     (if tv_cancelled t then False
      else (case map_of (tv_nodes t) (q_class (ql_Query ql)) of
              None \<Rightarrow> False
            | Some n \<Rightarrow> \<not> overLimit (Constraint_GetQueryLimit (tv_constraint t)) n))"

text \<open>\<open>Engine.Get\<close> fills the defaults of the traversal's constraint in place.\<close>

definition get_defaults :: "time \<Rightarrow> ('i, 'o) traverser \<Rightarrow> ('i, 'o) traverser" where
  "get_defaults now t =
     (case tv_constraint t of
        None \<Rightarrow> t
      | Some c \<Rightarrow> t\<lparr>tv_constraint := Some (Constraint_Default now (Some c))\<rparr>)"

text \<open>Adding the results under the node's lock: the new objects, their number and the node.\<close>

definition node_store :: "query \<Rightarrow> 'o list \<Rightarrow> ('i, 'o) tnode \<Rightarrow> 'o list \<times> int \<times> ('i, 'o) tnode" where
  "node_store q results n =
     (let prior = length (Result_List (tn_result n));
          r = fold (\<lambda>x r. snd (Result_Add x r)) results (tn_result n);
          resultList = Result_List r;
          resultCount = int (length resultList) - int prior
      in (drop prior resultList, resultCount,
          n\<lparr>tn_result := r, tn_queries := Queries_Set q resultCount (tn_queries n)\<rparr>))"

definition line_set :: "lineKey \<Rightarrow> query \<Rightarrow> int \<Rightarrow> ('i, 'o) traverser \<Rightarrow> ('i, 'o) traverser" where
  "line_set key q cnt t =
     t\<lparr>tv_lineQueries :=
         al_set key (Queries_Set q cnt (ptr_Deref [] (map_of (tv_lineQueries t) key))) (tv_lineQueries t)\<rparr>"

definition status_counts :: "('o \<Rightarrow> string list) list \<Rightarrow> 'o list \<Rightarrow> (string \<times> int) list" where
  "status_counts statusRules objects =
     fold (\<lambda>s m. al_set s (count_get m s + 1) m)
       (concat (map (\<lambda>x. concat (map (\<lambda>r. r x) statusRules)) objects)) []"

definition node_status :: "query \<Rightarrow> (string \<times> int) list \<Rightarrow> ('i, 'o) tnode \<Rightarrow> ('i, 'o) tnode" where
  "node_status q counts n =
     (if length counts > 0 then n\<lparr>tn_queries := Queries_AddStatuses q counts (tn_queries n)\<rparr> else n)"

text \<open>The snapshot of \<open>applyRules\<close>: the objects no one has claimed.\<close>

definition claim_objects :: "('i, 'o) tnode \<Rightarrow> 'o list \<times> ('i, 'o) tnode" where
  "claim_objects n =
     (let objects = Result_List (tn_result n)
      in (drop (tn_processed n) objects, n\<lparr>tn_processed := length objects\<rparr>))"

text \<open>The objects and rules of \<open>applyRules\<close>'s loops. The order of a \<open>range\<close> over a set is not
  determined: \<open>ord i\<close> is the order in the iteration for object \<open>i\<close>.\<close>

definition rule_pairs :: "(nat \<Rightarrow> 'o rule list \<Rightarrow> 'o rule list) \<Rightarrow> 'o rule list \<Rightarrow> 'o list \<Rightarrow> ('o \<times> 'o rule) list" where
  "rule_pairs ord rules objects =
     concat (map (\<lambda>(i, x). map (Pair x) (ord i rules)) (enumerate 0 objects))"

text \<open>The query lines that applying a rule to an object sends; an error gives no queries.\<close>

definition rule_queryLines :: "klass \<Rightarrow> int \<Rightarrow> 'o \<Rightarrow> 'o rule \<Rightarrow> ('i, 'o) traverser \<Rightarrow> queryLine list" where
  "rule_queryLines c nextDepth x r t =
     (let queries = (case r_Apply r x of Inl _ \<Rightarrow> [] | Inr qs \<Rightarrow> qs)
      in List.map_filter (\<lambda>q.
           let key = LineKey c (q_class q) (r_ptr r)
           in if tv_lines t key \<noteq> None then Some \<lparr>ql_Query = q, ql_key = Some key, ql_depth = nextDepth\<rparr>
              else None) queries)"

section \<open>Goroutines\<close>

text \<open>What a goroutine goes on with after it has sent some query lines.\<close>

datatype 'o kont = KApply klass int | KRules klass int "('o \<times> 'o rule) list"

datatype 'o pc =
    PGet
  | PStart queryLine
  | PQuery queryLine
  | PStore queryLine "'o list"
  | PLine queryLine lineKey "'o list" int
  | PStatus queryLine "'o list"
  | PApply klass int
  | PSend "queryLine list" "'o kont"
  | PAdd queryLine "queryLine list" "'o kont"
  | PPut queryLine "queryLine list" "'o kont"
  | PDone
  | PExit
  | PPrime
  | PWait
  | PClose
  | PJoin
  | PFinished

text \<open>One section of one goroutine; \<open>main\<close> is the goroutine of \<open>run\<close>. \<open>None\<close>: it waits.\<close>

fun proc_step ::
  "('i, 'o) trav_env \<Rightarrow> (nat \<Rightarrow> 'o rule list \<Rightarrow> 'o rule list) \<Rightarrow> time \<Rightarrow> bool \<Rightarrow>
     'o pc \<Rightarrow> ('i, 'o) traverser \<Rightarrow> ('o pc \<times> ('i, 'o) traverser) option" where
  "proc_step env ord now main PGet t =
     (case workQueue_get (tv_work t) of
        None \<Rightarrow> None
      | Some (None, _) \<Rightarrow> Some (PExit, t)
      | Some (Some ql, q) \<Rightarrow> Some (PStart ql, t\<lparr>tv_work := q\<rparr>))"
| "proc_step env ord now main (PStart ql) t =
     Some (if query_admitted ql t then PQuery ql else PDone, t)"
| "proc_step env ord now main (PQuery ql) t =
     Some (PStore ql (te_get env (ql_Query ql)), get_defaults now t)"
| "proc_step env ord now main (PStore ql results) t =
     (case map_of (tv_nodes t) (q_class (ql_Query ql)) of
        None \<Rightarrow> None
      | Some n \<Rightarrow>
          (let (objects, resultCount, n) = node_store (ql_Query ql) results n;
               t = set_node (q_class (ql_Query ql)) n t
           in Some (case ql_key ql of
                      Some key \<Rightarrow> PLine ql key objects resultCount
                    | None \<Rightarrow> PStatus ql objects, t)))"
| "proc_step env ord now main (PLine ql key objects resultCount) t =
     Some (PStatus ql objects, line_set key (ql_Query ql) resultCount t)"
| "proc_step env ord now main (PStatus ql objects) t =
     (let c = q_class (ql_Query ql)
      in case map_of (tv_nodes t) c of
           None \<Rightarrow> None
         | Some n \<Rightarrow>
             Some (PApply c (ql_depth ql + 1),
                   set_node c (node_status (ql_Query ql) (status_counts (te_status env c) objects) n) t))"
| "proc_step env ord now main (PApply c nextDepth) t =
     (case map_of (tv_nodes t) c of
        None \<Rightarrow> None
      | Some n \<Rightarrow>
          (let (objects, n) = claim_objects n
           in Some (PSend [] (KRules c nextDepth (rule_pairs ord (tv_rules t c) objects)), set_node c n t)))"
| "proc_step env ord now main (PSend [] (KApply c nextDepth)) t = Some (PApply c nextDepth, t)"
| "proc_step env ord now main (PSend [] (KRules c nextDepth [])) t = Some (PDone, t)"
| "proc_step env ord now main (PSend [] (KRules c nextDepth ((x, r) # ps))) t =
     Some (if tv_cancelled t then PDone
           else PSend (rule_queryLines c nextDepth x r t) (KRules c nextDepth ps), t)"
| "proc_step env ord now main (PSend (ql # qls) k) t =
     (let (send, t) = dedup_check ql t in Some (if send then PAdd ql qls k else PSend qls k, t))"
| "proc_step env ord now main (PAdd ql qls k) t = Some (PPut ql qls k, t\<lparr>tv_wg := tv_wg t + 1\<rparr>)"
| "proc_step env ord now main (PPut ql qls k) t =
     Some (PSend qls k, t\<lparr>tv_work := workQueue_put ql (tv_work t)\<rparr>)"
| "proc_step env ord now main PDone t =
     Some (if main then PWait else PGet, t\<lparr>tv_wg := tv_wg t - 1\<rparr>)"
| "proc_step env ord now main PExit t = None"
| "proc_step env ord now main PPrime t =
     (let c = st_Class (te_start env)
      in case map_of (tv_nodes t) c of
           None \<Rightarrow> None
         | Some n \<Rightarrow>
             Some (PSend (map (\<lambda>q. \<lparr>ql_Query = q, ql_key = None, ql_depth = 0\<rparr>) (st_Queries (te_start env)))
                     (KApply c 1),
                   set_node c (n\<lparr>tn_result := Result_Append (st_Objects (te_start env)) (tn_result n)\<rparr>) t))"
| "proc_step env ord now main PWait t = (if tv_wg t = 0 then Some (PClose, t) else None)"
| "proc_step env ord now main PClose t = Some (PJoin, t\<lparr>tv_work := workQueue_close (tv_work t)\<rparr>)"
| "proc_step env ord now main PJoin t = None"
| "proc_step env ord now main PFinished t = None"

text \<open>A run: the traverser, the goroutines, and as history the queries executed and the objects claimed
  for each class.\<close>

record ('i, 'o) run =
  ru_t :: "('i, 'o) traverser"
  ru_procs :: "'o pc list"
  ru_executed :: "query list"
  ru_claimed :: "klass \<Rightarrow> 'o list"

definition record_history :: "'o pc \<Rightarrow> ('i, 'o) traverser \<Rightarrow> ('i, 'o) run \<Rightarrow> ('i, 'o) run" where
  "record_history pc t st =
     (case pc of
        PQuery ql \<Rightarrow> st\<lparr>ru_executed := ru_executed st @ [ql_Query ql]\<rparr>
      | PApply c _ \<Rightarrow>
          (case map_of (tv_nodes t) c of
             None \<Rightarrow> st
           | Some n \<Rightarrow> st\<lparr>ru_claimed := (ru_claimed st)(c := ru_claimed st c @ fst (claim_objects n))\<rparr>)
      | _ \<Rightarrow> st)"

text \<open>\<open>run\<close> up to the point where the workers are launched and the sentinel is added.\<close>

definition run_init :: "('i, 'o) trav_env \<Rightarrow> ('i, 'o) traverser \<Rightarrow> nat \<Rightarrow> ('i, 'o) run" where
  "run_init env t numWorkers =
     \<lparr>ru_t = (getOrCreateNode env (st_Class (te_start env)) t)\<lparr>tv_wg := tv_wg t + 1\<rparr>,
      ru_procs = PPrime # replicate numWorkers PGet, ru_executed = [], ru_claimed = (\<lambda>_. [])\<rparr>"

inductive run_step :: "('i, 'o) trav_env \<Rightarrow> ('i, 'o) run \<Rightarrow> ('i, 'o) run \<Rightarrow> bool" for env where
  proc: "i < length (ru_procs st) \<Longrightarrow>
    proc_step env ord now (i = 0) (ru_procs st ! i) (ru_t st) = Some (pc, t) \<Longrightarrow>
    (\<forall>j rs. mset (ord j rs) = mset rs) \<Longrightarrow>
    run_step env st ((record_history (ru_procs st ! i) (ru_t st) st)
      \<lparr>ru_t := t, ru_procs := (ru_procs st)[i := pc]\<rparr>)"
| join: "ru_procs st = PJoin # ws \<Longrightarrow> list_all (\<lambda>w. w = PExit) ws \<Longrightarrow>
    run_step env st (st\<lparr>ru_procs := PFinished # ws\<rparr>)"
| cancel: "\<not> tv_cancelled (ru_t st) \<Longrightarrow>
    run_step env st (st\<lparr>ru_t := (ru_t st)\<lparr>tv_cancelled := True\<rparr>\<rparr>)"

inductive_cases run_stepE: "run_step env st st'"

definition run_finished :: "('i, 'o) run \<Rightarrow> bool" where
  "run_finished st \<longleftrightarrow> (case ru_procs st of [] \<Rightarrow> False | p # _ \<Rightarrow> p = PFinished)"

section \<open>The result graph\<close>

text \<open>\<open>buildGraph\<close>: the nodes with results that have a node in the data, and the lines between them whose
  queries counted a result.\<close>

definition build_nodes :: "('i, 'o) traverser \<Rightarrow> (klass \<times> Node \<times> ('i, 'o) tnode) list" where
  "build_nodes t =
     List.map_filter (\<lambda>(c, n).
       if length (Result_List (tn_result n)) = 0 then None
       else (case Data_NodeFor (tv_data t) c of None \<Rightarrow> None | Some dn \<Rightarrow> Some (c, dn, n))) (tv_nodes t)"

definition build_lines :: "('i, 'o) traverser \<Rightarrow> ('o Line \<times> Queries) list" where
  "build_lines t =
     (let nodeMap = map_of (build_nodes t)
      in List.map_filter (\<lambda>(key, queries).
           if Queries_Total queries = 0 then None
           else (case (nodeMap (lk_start key), nodeMap (lk_goal key), tv_lines t key) of
                   (Some (from, _), Some (to, _), Some topoLine) \<Rightarrow>
                     Some (topoLine\<lparr>l_F := n_ID from, l_T := n_ID to\<rparr>, queries)
                 | _ \<Rightarrow> None)) (tv_lineQueries t))"

definition buildGraph :: "'g multigraph \<Rightarrow> ('i, 'o) traverser \<Rightarrow> ('i, 'o, 'g) Graph" where
  "buildGraph mg t =
     fold (\<lambda>(l, queries) g. graph_AddLine mg l queries g) (build_lines t)
       (fold (\<lambda>(c, dn, n) g.
            g\<lparr>g_multi := mg_AddNode mg (n_ID dn) (g_multi g),
              g_node := (g_node g)(n_ID dn := \<lparr>ns_Result = Some (tn_result n), ns_Queries = tn_queries n\<rparr>)\<rparr>)
          (build_nodes t) (graph_New mg (tv_data t)))"

end
