(* ===== verification/Quiescence.thy ===== *)
theory Quiescence
  imports Traverse
begin

text \<open>
  The wait group of the traversal: it counts the sentinel of the main goroutine, the queued query lines
  and the workers that handle one. So when the main goroutine has passed \<open>wg.Wait()\<close> nothing is queued
  and no worker is busy, the queue is closed only then, and no query line is put into a closed queue.
\<close>

section \<open>What a section leaves alone\<close>

text \<open>The shares of the wait group that a goroutine holds: its sentinel or query line, and one more
  between \<open>wg.Add(1)\<close> and \<open>put\<close>.\<close>

fun wg_share :: "'o pc \<Rightarrow> nat" where
  "wg_share PGet = 0"
| "wg_share PExit = 0"
| "wg_share PWait = 0"
| "wg_share PClose = 0"
| "wg_share PJoin = 0"
| "wg_share PFinished = 0"
| "wg_share (PPut ql qls k) = 2"
| "wg_share pc = 1"

fun main_pc :: "'o pc \<Rightarrow> bool" where
  "main_pc PPrime = True"
| "main_pc PWait = True"
| "main_pc PClose = True"
| "main_pc PJoin = True"
| "main_pc PFinished = True"
| "main_pc (PApply c d) = True"
| "main_pc (PSend qls k) = True"
| "main_pc (PAdd ql qls k) = True"
| "main_pc (PPut ql qls k) = True"
| "main_pc PDone = True"
| "main_pc pc = False"

definition worker_pc :: "'o pc \<Rightarrow> bool" where
  "worker_pc pc \<longleftrightarrow> pc \<notin> {PPrime, PWait, PClose, PJoin, PFinished}"

definition past_wait :: "'o pc \<Rightarrow> bool" where
  "past_wait pc \<longleftrightarrow> pc \<in> {PClose, PJoin, PFinished}"

abbreviation items :: "('i, 'o) traverser \<Rightarrow> queryLine list" where
  "items t \<equiv> wq_items (tv_work t)"

lemmas section_defs = workQueue_get_def workQueue_put_def workQueue_close_def dedup_check_def
  isDuplicate_def get_defaults_def line_set_def set_node_def Let_def

lemma proc_step_static [traverse_invariant]:
  assumes "proc_step env ord now main pc t = Some (pc', t')"
  shows "tv_data t' = tv_data t \<and> tv_maxDepth t' = tv_maxDepth t \<and> tv_rules t' = tv_rules t \<and>
    tv_lines t' = tv_lines t \<and> tv_cancelled t' = tv_cancelled t \<and>
    (map_of (tv_nodes t') c = None) = (map_of (tv_nodes t) c = None)"
  using assms
  by (induction env ord now main pc t rule: proc_step.induct)
     (auto simp: section_defs split: option.splits prod.splits if_splits list.splits)

lemma proc_step_wg:
  assumes "proc_step env ord now main pc t = Some (pc', t')" and "wg_share pc \<le> tv_wg t"
  shows "tv_wg t' + length (items t) + wg_share pc = tv_wg t + length (items t') + wg_share pc'"
  using assms
  by (induction env ord now main pc t rule: proc_step.induct)
     (auto simp: section_defs split: option.splits prod.splits if_splits list.splits)

section \<open>The wait group counts the work in flight\<close>

definition shares :: "('i, 'o) run \<Rightarrow> nat" where
  "shares st = sum_list (map wg_share (ru_procs st))"

definition wg_ok :: "('i, 'o) run \<Rightarrow> bool" where
  "wg_ok st \<longleftrightarrow> tv_wg (ru_t st) = length (items (ru_t st)) + shares st"

definition procs_ok :: "('i, 'o) run \<Rightarrow> bool" where
  "procs_ok st \<longleftrightarrow>
     ru_procs st \<noteq> [] \<and> main_pc (hd (ru_procs st)) \<and> list_all worker_pc (tl (ru_procs st))"

definition phase_ok :: "('i, 'o) run \<Rightarrow> bool" where
  "phase_ok st \<longleftrightarrow>
     (past_wait (hd (ru_procs st)) \<longrightarrow> tv_wg (ru_t st) = 0) \<and>
     (wq_closed (tv_work (ru_t st)) \<longleftrightarrow> hd (ru_procs st) \<in> {PJoin, PFinished}) \<and>
     (PExit \<in> set (ru_procs st) \<longrightarrow> wq_closed (tv_work (ru_t st))) \<and>
     (hd (ru_procs st) = PFinished \<longrightarrow> list_all (\<lambda>w. w = PExit) (tl (ru_procs st)))"

lemma record_history_fields [simp]:
  "ru_t (record_history pc t st) = ru_t st" "ru_procs (record_history pc t st) = ru_procs st"
  by (auto simp: record_history_def split: pc.splits option.splits)

lemma share_le: "wg_ok st \<Longrightarrow> i < length (ru_procs st) \<Longrightarrow> wg_share (ru_procs st ! i) \<le> tv_wg (ru_t st)"
  using sum_list_map_member [of "ru_procs st ! i" "ru_procs st" wg_share]
  by (simp add: wg_ok_def shares_def)

lemma run_step_wg: "run_step env st st' \<Longrightarrow> wg_ok st \<Longrightarrow> wg_ok st'"
proof (induction rule: run_step.induct)
  case (proc i st ord now pc t)
  have "sum_list (map wg_share ((ru_procs st)[i := pc])) + wg_share (ru_procs st ! i)
      = sum_list (map wg_share (ru_procs st)) + wg_share pc"
    by (rule sum_list_map_update [OF proc(1)])
  moreover have "tv_wg t + length (items (ru_t st)) + wg_share (ru_procs st ! i)
      = tv_wg (ru_t st) + length (items t) + wg_share pc"
    by (rule proc_step_wg [OF proc(2) share_le [OF proc(4,1)]])
  ultimately show ?case using proc(4) by (simp add: wg_ok_def shares_def)
qed (auto simp: wg_ok_def shares_def)

lemma proc_step_kind:
  assumes "proc_step env ord now m pc t = Some (pc', t')"
  shows "(m \<longrightarrow> main_pc pc \<longrightarrow> main_pc pc') \<and> (\<not> m \<longrightarrow> worker_pc pc \<longrightarrow> worker_pc pc')"
  using assms
  by (induction env ord now m pc t rule: proc_step.induct)
     (auto simp: section_defs worker_pc_def split: option.splits prod.splits if_splits list.splits)

lemma procs_ok_Cons:
  "procs_ok st \<longleftrightarrow> (\<exists>m ws. ru_procs st = m # ws \<and> main_pc m \<and> list_all worker_pc ws)"
  by (cases "ru_procs st") (auto simp: procs_ok_def)

lemma run_step_procs: "run_step env st st' \<Longrightarrow> procs_ok st \<Longrightarrow> procs_ok st'"
proof (induction rule: run_step.induct)
  case (proc i st ord now pc t)
  then obtain m ws where ms: "ru_procs st = m # ws" "main_pc m" "list_all worker_pc ws"
    by (auto simp: procs_ok_Cons)
  show ?case
  proof (cases i)
    case 0
    then show ?thesis using proc_step_kind [OF proc(2)] ms by (simp add: procs_ok_def)
  next
    case (Suc j)
    then have "worker_pc pc" using proc_step_kind [OF proc(2)] proc(1) ms by (auto simp: list_all_length)
    then show ?thesis using Suc ms by (auto simp: procs_ok_def list_all_iff dest!: set_update_cases)
  qed
qed (auto simp: procs_ok_def)

text \<open>With a zero wait group a goroutine can only find the queue empty and closed, or pass the wait.\<close>

lemma proc_step_idle:
  assumes "proc_step env ord now m pc t = Some (pc', t')" and "wg_share pc = 0" and "items t = []"
  shows "(pc = PGet \<and> pc' = PExit \<and> wq_closed (tv_work t) \<and> t' = t) \<or>
    (pc = PWait \<and> pc' = PClose \<and> t' = t \<and> tv_wg t = 0) \<or>
    (pc = PClose \<and> pc' = PJoin \<and> t' = t\<lparr>tv_work := workQueue_close (tv_work t)\<rparr>)"
  using assms
  by (induction env ord now m pc t rule: proc_step.induct)
     (auto simp: workQueue_get_def split: option.splits if_splits list.splits)

lemma proc_step_closed:
  assumes "proc_step env ord now m pc t = Some (pc', t')" and "pc \<noteq> PClose"
  shows "wq_closed (tv_work t') = wq_closed (tv_work t)"
  using assms
  by (induction env ord now m pc t rule: proc_step.induct)
     (auto simp: section_defs split: option.splits prod.splits if_splits list.splits)

lemma proc_step_exit:
  assumes "proc_step env ord now m pc t = Some (pc', t')"
  shows "pc' = PExit \<longrightarrow> wq_closed (tv_work t)" and "pc' \<noteq> PFinished" and "pc \<notin> {PJoin, PFinished, PExit}"
    and "past_wait pc' \<longrightarrow> pc \<in> {PWait, PClose}" and "pc' = PJoin \<longleftrightarrow> pc = PClose"
  using assms
  by (induction env ord now m pc t rule: proc_step.induct)
     (auto simp: section_defs past_wait_def split: option.splits prod.splits if_splits list.splits)

lemma idle_at_zero:
  assumes "wg_ok st" and "tv_wg (ru_t st) = 0"
  shows "items (ru_t st) = []" and "pc \<in> set (ru_procs st) \<Longrightarrow> wg_share pc = 0"
  using assms by (auto simp: wg_ok_def shares_def)

lemma run_step_phase:
  assumes "run_step env st st'" and "procs_ok st" and "wg_ok st" and "phase_ok st"
  shows "phase_ok st'"
  using assms
proof (induction rule: run_step.induct)
  case (proc i st ord now pc t)
  obtain m ws where ms: "ru_procs st = m # ws" "main_pc m" "list_all worker_pc ws"
    using proc(4) by (auto simp: procs_ok_Cons)
  note step = proc(2)
  let ?p = "ru_procs st ! i"
  have mem: "?p \<in> set (ru_procs st)" using proc(1) by simp
  have ph: "past_wait m \<longrightarrow> tv_wg (ru_t st) = 0" "wq_closed (tv_work (ru_t st)) \<longleftrightarrow> m \<in> {PJoin, PFinished}"
    "PExit \<in> set (ru_procs st) \<longrightarrow> wq_closed (tv_work (ru_t st))"
    "m = PFinished \<longrightarrow> list_all (\<lambda>w. w = PExit) ws"
    using proc(6) ms by (auto simp: phase_ok_def)
  show ?case
  proof (cases "past_wait m")
    case True
    with ph(1) have zero: "tv_wg (ru_t st) = 0" by simp
    note idle = idle_at_zero [OF proc(5) zero]
    from proc_step_idle [OF step idle(2) [OF mem] idle(1)]
    consider (exit) "?p = PGet" "pc = PExit" "wq_closed (tv_work (ru_t st))" "t = ru_t st"
      | (wait) "?p = PWait" "pc = PClose" "t = ru_t st"
      | (close) "?p = PClose" "pc = PJoin" "t = (ru_t st)\<lparr>tv_work := workQueue_close (tv_work (ru_t st))\<rparr>"
      by auto
    then show ?thesis
    proof cases
      case exit
      then obtain j where j: "i = Suc j" using ms by (cases i) auto
      have "m \<noteq> PFinished"
      proof
        assume "m = PFinished"
        then have "ws ! j = PExit" using ph(4) j proc(1) ms by (simp add: list_all_length)
        with exit j ms show False by simp
      qed
      then show ?thesis using exit j ms ph zero by (auto simp: phase_ok_def)
    next
      case wait
      then have "i = 0" using ms proc(1) by (cases i) (auto simp: list_all_length worker_pc_def)
      then show ?thesis using wait ms ph True by (auto simp: phase_ok_def past_wait_def)
    next
      case close
      then have i: "i = 0" using ms proc(1) by (cases i) (auto simp: list_all_length worker_pc_def)
      then have "m = PClose" using close ms by simp
      then show ?thesis using close ms ph zero i by (auto simp: phase_ok_def workQueue_close_def)
    qed
  next
    case False
    then have open_q: "\<not> wq_closed (tv_work (ru_t st))" and no_exit: "PExit \<notin> set (ru_procs st)"
      using ph by (auto simp: past_wait_def)
    have p: "?p \<noteq> PClose"
      using ms proc(1) False by (cases i) (auto simp: list_all_length worker_pc_def past_wait_def)
    have c: "\<not> wq_closed (tv_work t)" using proc_step_closed [OF step p] open_q by simp
    have e: "pc \<noteq> PExit" "pc \<noteq> PFinished" "pc \<noteq> PJoin"
      using proc_step_exit [OF step] open_q p by auto
    have ne: "PExit \<notin> set ((ru_procs st)[i := pc])" using no_exit e(1) by (auto dest!: set_update_cases)
    show ?thesis
    proof (cases i)
      case 0
      have "tv_wg t = 0" if "past_wait pc"
      proof -
        from that proc_step_exit(4) [OF step] p have "?p = PWait" by auto
        with step show ?thesis by (auto split: if_splits)
      qed
      then show ?thesis using 0 ms c e ne by (auto simp: phase_ok_def)
    next
      case (Suc j)
      then show ?thesis using ms c ne False by (auto simp: phase_ok_def past_wait_def)
    qed
  qed
qed (auto simp: phase_ok_def past_wait_def)

definition run_ok :: "('i, 'o) run \<Rightarrow> bool" where
  "run_ok st \<longleftrightarrow> procs_ok st \<and> wg_ok st \<and> phase_ok st"

lemma run_step_ok: "run_step env st st' \<Longrightarrow> run_ok st \<Longrightarrow> run_ok st'"
  using run_step_procs run_step_wg run_step_phase by (fastforce simp: run_ok_def)

lemma getOrCreateNode_fields [simp]:
  "tv_work (getOrCreateNode env c t) = tv_work t" "tv_wg (getOrCreateNode env c t) = tv_wg t"
  "tv_seen (getOrCreateNode env c t) = tv_seen t" "tv_cancelled (getOrCreateNode env c t) = tv_cancelled t"
  "tv_data (getOrCreateNode env c t) = tv_data t" "tv_maxDepth (getOrCreateNode env c t) = tv_maxDepth t"
  "tv_rules (getOrCreateNode env c t) = tv_rules t" "tv_lines (getOrCreateNode env c t) = tv_lines t"
  "tv_constraint (getOrCreateNode env c t) = tv_constraint t"
  "tv_lineQueries (getOrCreateNode env c t) = tv_lineQueries t"
  by (auto simp: getOrCreateNode_def split: option.splits)

lemma newTraverser_fields [simp]:
  "tv_work (newTraverser env data ls c d) = newWorkQueue" "tv_wg (newTraverser env data ls c d) = 0"
  "tv_seen (newTraverser env data ls c d) = {}" "\<not> tv_cancelled (newTraverser env data ls c d)"
  "tv_data (newTraverser env data ls c d) = data" "tv_maxDepth (newTraverser env data ls c d) = d"
  "tv_constraint (newTraverser env data ls c d) = c"
  unfolding newTraverser_def
  by (rule fold_unchanged [THEN trans] fold_unchanged [where g = tv_cancelled, THEN arg_cong [of _ _ Not], THEN iffD2];
      simp add: add_scope_line_def Let_def)+

lemma run_init_ok: "run_ok (run_init env (newTraverser env data ls c d) n)"
  by (auto simp: run_ok_def procs_ok_def wg_ok_def phase_ok_def run_init_def shares_def newWorkQueue_def
      worker_pc_def past_wait_def list_all_iff sum_list_replicate)

lemma run_reaches_ok:
  "(run_step env)\<^sup>*\<^sup>* (run_init env (newTraverser env data ls c d) n) st \<Longrightarrow> run_ok st"
  by (induction rule: rtranclp_induct) (auto intro: run_init_ok run_step_ok)

text \<open>C1: No work is lost: in every run, when the main goroutine has passed \<open>wg.Wait()\<close> the queue is
  empty and every worker waits on it or has left, so closing the queue discards nothing.\<close>

theorem traverse_quiescent:
  assumes "(run_step env)\<^sup>*\<^sup>* (run_init env (newTraverser env data ls c d) n) st"
    and "past_wait (hd (ru_procs st))"
  shows "wq_items (tv_work (ru_t st)) = [] \<and> list_all (\<lambda>w. w = PGet \<or> w = PExit) (tl (ru_procs st))"
proof -
  have ok: "run_ok st" by (rule run_reaches_ok [OF assms(1)])
  then have zero: "tv_wg (ru_t st) = 0" using assms(2) by (simp add: run_ok_def phase_ok_def)
  note idle = idle_at_zero [OF _ zero]
  have "w = PGet \<or> w = PExit" if w: "w \<in> set (tl (ru_procs st))" for w
  proof -
    have "wg_share w = 0" using idle(2) ok w by (metis list.set_sel(2) procs_ok_def run_ok_def)
    moreover have "worker_pc w" using ok w by (auto simp: run_ok_def procs_ok_def list_all_iff)
    ultimately show ?thesis by (cases w) (auto simp: worker_pc_def)
  qed
  then show ?thesis using idle(1) ok by (auto simp: run_ok_def list_all_iff)
qed

section \<open>Running a schedule\<close>

text \<open>A schedule names the goroutine of each step; \<open>range\<close> visits rules in list order and the clock
  stands still. The main goroutine joins the workers when it is its turn and all have left.\<close>

fun has_exited :: "'o pc \<Rightarrow> bool" where
  "has_exited PExit = True"
| "has_exited pc = False"

fun is_joining :: "'o pc \<Rightarrow> bool" where
  "is_joining PJoin = True"
| "is_joining pc = False"

lemma pc_tests [simp]: "has_exited pc = (pc = PExit)" "is_joining pc = (pc = PJoin)"
  by (cases pc; simp)+

definition exec_step :: "('i, 'o) trav_env \<Rightarrow> nat \<Rightarrow> ('i, 'o) run \<Rightarrow> ('i, 'o) run option" where
  "exec_step env i st =
     (if i < length (ru_procs st)
      then (let p = ru_procs st ! i
            in if is_joining p
               then (if i = 0 \<and> list_all has_exited (tl (ru_procs st))
                     then Some (st\<lparr>ru_procs := PFinished # tl (ru_procs st)\<rparr>) else None)
               else (case proc_step env (\<lambda>_ rs. rs) zero_time (i = 0) p (ru_t st) of
                       None \<Rightarrow> None
                     | Some (pc, t) \<Rightarrow>
                         Some ((record_history p (ru_t st) st)\<lparr>ru_t := t, ru_procs := (ru_procs st)[i := pc]\<rparr>)))
      else None)"

fun exec :: "('i, 'o) trav_env \<Rightarrow> nat list \<Rightarrow> ('i, 'o) run \<Rightarrow> ('i, 'o) run option" where
  "exec env [] st = Some st"
| "exec env (i # is) st = (case exec_step env i st of None \<Rightarrow> None | Some st \<Rightarrow> exec env is st)"

lemma exec_step_run_step:
  assumes "exec_step env i st = Some st'"
  shows "run_step env st st'"
proof (cases "ru_procs st ! i = PJoin")
  case True
  with assms have i: "i = 0" "ru_procs st \<noteq> []"
    and st': "st' = st\<lparr>ru_procs := PFinished # tl (ru_procs st)\<rparr>"
    and ex: "list_all (\<lambda>w. w = PExit) (tl (ru_procs st))"
    by (auto simp: exec_step_def list_all_iff split: if_splits)
  have "ru_procs st = PJoin # tl (ru_procs st)" using i True by (cases "ru_procs st") auto
  then show ?thesis unfolding st' by (rule join [OF _ ex])
next
  case False
  with assms obtain pc t where "i < length (ru_procs st)"
    "proc_step env (\<lambda>_ rs. rs) zero_time (i = 0) (ru_procs st ! i) (ru_t st) = Some (pc, t)"
    "st' = (record_history (ru_procs st ! i) (ru_t st) st)\<lparr>ru_t := t, ru_procs := (ru_procs st)[i := pc]\<rparr>"
    by (auto simp: exec_step_def Let_def split: if_splits option.splits)
  then show ?thesis using run_step.proc [of i st env "\<lambda>_ rs. rs"] by simp
qed

lemma exec_run_steps: "exec env is st = Some st' \<Longrightarrow> (run_step env)\<^sup>*\<^sup>* st st'"
  by (induction "is" arbitrary: st)
     (auto split: option.splits intro: converse_rtranclp_into_rtranclp exec_step_run_step)

text \<open>An example: a rule from class \<open>a\<close> to class \<open>b\<close>, one start object and one worker.\<close>

definition example_query :: query where
  "example_query = \<lparr>q_class = Klass ''mock'' ''b'', q_data = ''y'', q_ptr = 0\<rparr>"

definition example_ab :: "string rule" where
  "example_ab = \<lparr>r_ptr = 0, r_Name = ''ab'', r_Start = [Klass ''mock'' ''a''], r_Goal = [Klass ''mock'' ''b''],
     r_Apply = (\<lambda>x. if x = ''x'' then Inr [example_query] else Inr [])\<rparr>"

definition example_trav :: "(string, string) trav_env" where
  "example_trav = \<lparr>te_start = \<lparr>st_Class = Klass ''mock'' ''a'', st_Objects = [''x''], st_Queries = []\<rparr>,
     te_get = (\<lambda>q. [''y'', ''y'']), te_status = (\<lambda>_. []), te_ider = (\<lambda>_. Some (\<lambda>x. x))\<rparr>"

definition example_traverser :: "(string, string) traverser" where
  "example_traverser = newTraverser example_trav (NewData [example_ab]) (d_Lines (NewData [example_ab])) None (-1)"

definition example_schedule :: "nat list" where
  "example_schedule = replicate 9 0 @ replicate 9 1 @ [0, 0, 1, 0]"

fun is_finished :: "'o pc \<Rightarrow> bool" where
  "is_finished PFinished = True"
| "is_finished pc = False"

lemma is_finished_iff [simp]: "is_finished pc = (pc = PFinished)"
  by (cases pc) auto

text \<open>The run of the example, to its end: the worker executed the one query and the result of class \<open>b\<close>
  is its object, once.\<close>

definition example_init :: "(string, string) run" where
  "example_init = run_init example_trav example_traverser 1"

lemma example_exec:
  "case exec example_trav example_schedule example_init of
     None \<Rightarrow> False
   | Some st \<Rightarrow> list_all2 (\<lambda>f p. f p) [is_finished, has_exited] (ru_procs st) \<and> ru_executed st = [example_query] \<and>
       \<not> tv_cancelled (ru_t st) \<and>
       map (\<lambda>(c, n). (c, Result_List (tn_result n))) (tv_nodes (ru_t st)) =
         [(Klass ''mock'' ''a'', [''x'']), (Klass ''mock'' ''b'', [''y''])]"
  by code_simp

lemma example_run:
  obtains st where "(run_step example_trav)\<^sup>*\<^sup>* example_init st" "ru_procs st = [PFinished, PExit]"
    "ru_executed st = [example_query]" "\<not> tv_cancelled (ru_t st)"
    "map (\<lambda>(c, n). (c, Result_List (tn_result n))) (tv_nodes (ru_t st)) =
       [(Klass ''mock'' ''a'', [''x'']), (Klass ''mock'' ''b'', [''y''])]"
proof -
  obtain st where st: "exec example_trav example_schedule example_init = Some st"
    using example_exec by (auto split: option.splits)
  then have "list_all2 (\<lambda>f p. f p) [is_finished, has_exited] (ru_procs st)"
    using example_exec by simp
  then have "ru_procs st = [PFinished, PExit]"
    by (auto simp: list_all2_Cons1)
  with st example_exec exec_run_steps [OF st] that show ?thesis by simp
qed

lemma traverse_quiescent_witness:
  "\<exists>st :: (string, string) run. ru_executed st = [example_query] \<and> wq_items (tv_work (ru_t st)) = []"
proof -
  obtain st where st: "(run_step example_trav)\<^sup>*\<^sup>* example_init st" "ru_procs st = [PFinished, PExit]"
    "ru_executed st = [example_query]" by (rule example_run)
  have "past_wait (hd (ru_procs st))" by (simp add: st(2) past_wait_def)
  from traverse_quiescent [OF st(1) [unfolded example_init_def example_traverser_def] this] st(3)
  show ?thesis by blast
qed

end
