(* ===== verification/Closure.thy ===== *)
theory Closure
  imports Quiescence
begin

text \<open>
  What a traversal computes. Every query is executed at most once and every object is claimed for the
  rules exactly once, in every interleaving; when the traversal ends without cancellation and without
  depth and query limits, the nodes hold exactly the objects that can be derived from the start by the
  rules of the scope and the stores (\<open>reach_obj\<close>, \<open>reach_query\<close>), and the queries executed are exactly
  the derivable ones.
\<close>

section \<open>Queries are executed once\<close>

text \<open>The queries a goroutine is about to enqueue or to execute.\<close>

fun pc_tokens :: "'o pc \<Rightarrow> query list" where
  "pc_tokens (PAdd ql qls k) = [ql_Query ql]"
| "pc_tokens (PPut ql qls k) = [ql_Query ql]"
| "pc_tokens (PStart ql) = [ql_Query ql]"
| "pc_tokens (PQuery ql) = [ql_Query ql]"
| "pc_tokens pc = []"

fun pc_executes :: "'o pc \<Rightarrow> query list" where
  "pc_executes (PQuery ql) = [ql_Query ql]"
| "pc_executes pc = []"

definition item_count :: "('i, 'o) traverser \<Rightarrow> query \<Rightarrow> nat" where
  "item_count t q = count_list (map ql_Query (items t)) q"

definition pc_count :: "query \<Rightarrow> 'o pc list \<Rightarrow> nat" where
  "pc_count q ps = sum_list (map (\<lambda>p. count_list (pc_tokens p) q) ps)"

lemma pc_count_Cons [simp]: "pc_count q (p # ps) = count_list (pc_tokens p) q + pc_count q ps"
  by (simp add: pc_count_def)

definition token_count :: "('i, 'o) run \<Rightarrow> query \<Rightarrow> nat" where
  "token_count st q =
     count_list (ru_executed st) q + item_count (ru_t st) q +
     pc_count q (ru_procs st)"

definition tokens_ok :: "('i, 'o) run \<Rightarrow> bool" where
  "tokens_ok st \<longleftrightarrow> (\<forall>q. token_count st q \<le> (if q \<in> tv_seen (ru_t st) then 1 else 0))"

lemma ru_executed_history: "ru_executed (record_history pc t st) = ru_executed st @ pc_executes pc"
  by (cases pc) (auto simp: record_history_def split: option.splits)

lemma proc_step_tokens:
  assumes "proc_step env ord now m pc t = Some (pc', t')"
  shows "item_count t' q + count_list (pc_tokens pc') q + count_list (pc_executes pc) q
      \<le> item_count t q + count_list (pc_tokens pc) q + (if q \<in> tv_seen t' \<and> q \<notin> tv_seen t then 1 else 0)
    \<and> tv_seen t \<subseteq> tv_seen t'"
  using assms
  by (induction env ord now m pc t rule: proc_step.induct)
     (auto simp: section_defs item_count_def split: option.splits prod.splits if_splits list.splits)

lemma run_step_tokens: "run_step env st st' \<Longrightarrow> tokens_ok st \<Longrightarrow> tokens_ok st'"
proof (induction rule: run_step.induct)
  case (proc i st ord now pc t)
  show ?case
    unfolding tokens_ok_def
  proof
    fix q
    have sum: "pc_count q ((ru_procs st)[i := pc]) + count_list (pc_tokens (ru_procs st ! i)) q
        = pc_count q (ru_procs st) + count_list (pc_tokens pc) q"
      unfolding pc_count_def by (rule sum_list_map_update [OF proc(1)])
    have "token_count st q \<le> (if q \<in> tv_seen (ru_t st) then 1 else 0)"
      using proc(4) by (simp add: tokens_ok_def)
    then have "count_list (ru_executed st) q + count_list (pc_executes (ru_procs st ! i)) q
        + item_count t q + pc_count q ((ru_procs st)[i := pc])
      \<le> (if q \<in> tv_seen t then 1 else 0)"
      using proc_step_tokens [OF proc(2), of q] sum unfolding token_count_def
      by (cases "q \<in> tv_seen t"; cases "q \<in> tv_seen (ru_t st)") auto
    then show "token_count (record_history (ru_procs st ! i) (ru_t st) st
        \<lparr>ru_t := t, ru_procs := (ru_procs st)[i := pc]\<rparr>) q
      \<le> (if q \<in> tv_seen (ru_t (record_history (ru_procs st ! i) (ru_t st) st
        \<lparr>ru_t := t, ru_procs := (ru_procs st)[i := pc]\<rparr>)) then 1 else 0)"
      by (simp add: token_count_def ru_executed_history)
  qed
qed (auto simp: tokens_ok_def token_count_def item_count_def)

lemma count_list_distinct: "(\<And>x. count_list xs x \<le> 1) \<Longrightarrow> distinct xs"
proof (induction xs)
  case (Cons a xs)
  have "count_list xs a = 0" using Cons.prems [of a] by simp
  moreover have "count_list xs x \<le> 1" for x using Cons.prems [of x] by (auto split: if_splits)
  ultimately show ?case using Cons.IH by (simp add: count_list_0_iff)
qed simp

lemma tokens_ok_executed: "tokens_ok st \<Longrightarrow> distinct (ru_executed st) \<and> set (ru_executed st) \<subseteq> tv_seen (ru_t st)"
proof
  assume ok: "tokens_ok st"
  have le: "count_list (ru_executed st) q \<le> (if q \<in> tv_seen (ru_t st) then 1 else 0)" for q
    using ok unfolding tokens_ok_def token_count_def by (meson add_leD1 le_trans)
  have "count_list (ru_executed st) q \<le> 1" for q using le [of q] by (simp split: if_splits)
  then show "distinct (ru_executed st)" by (rule count_list_distinct)
  show "set (ru_executed st) \<subseteq> tv_seen (ru_t st)"
  proof
    fix q assume "q \<in> set (ru_executed st)"
    then have "count_list (ru_executed st) q \<noteq> 0" by (simp add: count_list_0_iff)
    with le [of q] show "q \<in> tv_seen (ru_t st)" by (auto split: if_splits)
  qed
qed

lemma run_init_tokens: "tokens_ok (run_init env (newTraverser env data ls c d) n)"
  by (simp add: tokens_ok_def token_count_def run_init_def item_count_def newWorkQueue_def
      pc_count_def sum_list_replicate)

text \<open>C2: However the workers interleave, no query is executed twice in a traversal.\<close>

theorem traverse_executes_once:
  assumes "(run_step env)\<^sup>*\<^sup>* (run_init env (newTraverser env data ls c d) n) st"
  shows "distinct (ru_executed st)"
proof -
  have "tokens_ok st"
    using assms by (induction rule: rtranclp_induct) (auto intro: run_init_tokens run_step_tokens)
  then show ?thesis by (simp add: tokens_ok_executed)
qed

lemma traverse_executes_once_witness:
  "\<exists>st :: (string, string) run. ru_executed st = [example_query] \<and> distinct (ru_executed st)"
proof -
  obtain st where st: "(run_step example_trav)\<^sup>*\<^sup>* example_init st" "ru_executed st = [example_query]"
    by (rule example_run)
  from traverse_executes_once [OF st(1) [unfolded example_init_def example_traverser_def]] st(2)
  show ?thesis by blast
qed

section \<open>Objects are claimed once\<close>

definition node_list :: "('i, 'o) traverser \<Rightarrow> klass \<Rightarrow> 'o list" where
  "node_list t c = (case map_of (tv_nodes t) c of None \<Rightarrow> [] | Some n \<Rightarrow> Result_List (tn_result n))"

definition node_processed :: "('i, 'o) traverser \<Rightarrow> klass \<Rightarrow> nat" where
  "node_processed t c = (case map_of (tv_nodes t) c of None \<Rightarrow> 0 | Some n \<Rightarrow> tn_processed n)"

lemma node_set_node:
  "node_list (set_node c n t) c' = (if c' = c then Result_List (tn_result n) else node_list t c')"
  "node_processed (set_node c n t) c' = (if c' = c then tn_processed n else node_processed t c')"
  by (simp_all add: node_list_def node_processed_def set_node_def)

lemma node_same_nodes:
  "tv_nodes t' = tv_nodes t \<Longrightarrow> node_list t' c = node_list t c \<and> node_processed t' c = node_processed t c"
  by (simp add: node_list_def node_processed_def)

lemma node_store_result:
  assumes "node_store q results n = (objects, cnt, n')"
  shows "Result_List (tn_result n') = Result_List (tn_result n) @ objects" "tn_processed n' = tn_processed n"
    "tn_result n' = fold (\<lambda>x r. snd (Result_Add x r)) results (tn_result n)"
proof -
  let ?r = "fold (\<lambda>x r. snd (Result_Add x r)) results (tn_result n)"
  have n': "n' = snd (snd (node_store q results n))" "objects = fst (node_store q results n)"
    by (simp_all only: assms snd_conv fst_conv)
  have eqs: "tn_result n' = ?r" "tn_processed n' = tn_processed n"
    "objects = drop (length (Result_List (tn_result n))) (Result_List ?r)"
    unfolding n' by (simp_all add: node_store_def Let_def)
  obtain ys where "Result_List ?r = Result_List (tn_result n) @ ys" using res.adds_prefix [of results "tn_result n"] by auto
  then show "Result_List (tn_result n') = Result_List (tn_result n) @ objects"
    unfolding eqs(1) eqs(3) by simp
  show "tn_processed n' = tn_processed n" "tn_result n' = ?r" by (rule eqs)+
qed

lemma node_status_fields [simp]:
  "tn_result (node_status q s n) = tn_result n" "tn_processed (node_status q s n) = tn_processed n"
  by (simp_all add: node_status_def)

text \<open>The class that a goroutine will apply the rules of before it looks at the queue again.\<close>

fun kont_applies :: "'o kont \<Rightarrow> klass option" where
  "kont_applies (KApply c d) = Some c"
| "kont_applies (KRules c d ps) = None"

fun will_apply :: "'o pc \<Rightarrow> klass option" where
  "will_apply (PLine ql key xs n) = Some (q_class (ql_Query ql))"
| "will_apply (PStatus ql xs) = Some (q_class (ql_Query ql))"
| "will_apply (PApply c d) = Some c"
| "will_apply (PSend qls k) = kont_applies k"
| "will_apply (PAdd ql qls k) = kont_applies k"
| "will_apply (PPut ql qls k) = kont_applies k"
| "will_apply pc = None"

lemma proc_step_will_apply:
  assumes "proc_step env ord now m pc t = Some (pc', t')" and "will_apply pc = Some c"
  shows "will_apply pc' = Some c \<or> (\<exists>d. pc = PApply c d)"
  using assms
  by (induction env ord now m pc t rule: proc_step.induct)
     (auto simp: Let_def split: option.splits prod.splits if_splits)

fun changes_nodes :: "'o pc \<Rightarrow> bool" where
  "changes_nodes (PStore ql xs) = True"
| "changes_nodes (PStatus ql xs) = True"
| "changes_nodes (PApply c d) = True"
| "changes_nodes PPrime = True"
| "changes_nodes pc = False"

lemma proc_step_same_nodes:
  assumes "proc_step env ord now m pc t = Some (pc', t')" and "\<not> changes_nodes pc"
  shows "tv_nodes t' = tv_nodes t"
  using assms
  by (induction env ord now m pc t rule: proc_step.induct)
     (auto simp: section_defs split: option.splits prod.splits if_splits list.splits)

text \<open>How a section changes the objects of a node and its counter.\<close>

lemma proc_step_node:
  assumes step: "proc_step env ord now m pc t = Some (pc', t')"
  shows "(\<exists>new. node_list t' c = node_list t c @ new \<and> (new = [] \<or> will_apply pc' = Some c)) \<and>
    (if \<exists>d. pc = PApply c d then node_processed t' c = length (node_list t c) \<and> node_list t' c = node_list t c
     else node_processed t' c = node_processed t c)"
proof (cases "changes_nodes pc")
  case False
  then have "\<not> (\<exists>d. pc = PApply c d)" by auto
  then show ?thesis using node_same_nodes [OF proc_step_same_nodes [OF step False]] by simp
next
  case True
  then consider (store) ql results where "pc = PStore ql results" | (status) ql xs where "pc = PStatus ql xs"
    | (claim) c' d where "pc = PApply c' d" | (prime) "pc = PPrime"
    by (cases pc) auto
  then show ?thesis
  proof cases
    case store
    then obtain n objects cnt n' where n: "map_of (tv_nodes t) (q_class (ql_Query ql)) = Some n"
      and s: "node_store (ql_Query ql) results n = (objects, cnt, n')"
      and t': "t' = set_node (q_class (ql_Query ql)) n' t"
      and pc': "pc' = (case ql_key ql of Some key \<Rightarrow> PLine ql key objects cnt | None \<Rightarrow> PStatus ql objects)"
      using step by (auto simp: Let_def split: option.splits prod.splits)
    have "will_apply pc' = Some (q_class (ql_Query ql))" unfolding pc' by (cases "ql_key ql") auto
    with node_store_result [OF s] n store show ?thesis
      by (simp add: t' node_set_node node_list_def [of t] node_processed_def [of t])
  next
    case status
    with step obtain n where "map_of (tv_nodes t) (q_class (ql_Query ql)) = Some n"
      "t' = set_node (q_class (ql_Query ql)) (node_status (ql_Query ql)
        (status_counts (te_status env (q_class (ql_Query ql))) xs) n) t"
      by (auto simp: Let_def split: option.splits)
    with status show ?thesis by (simp add: node_set_node node_list_def [of t] node_processed_def [of t])
  next
    case claim
    with step obtain n where "map_of (tv_nodes t) c' = Some n" "t' = set_node c' (snd (claim_objects n)) t"
      by (auto simp: Let_def split: option.splits prod.splits)
    with claim show ?thesis
      by (cases "c' = c")
         (simp_all add: node_set_node node_list_def [of t] node_processed_def [of t] claim_objects_def Let_def)
  next
    case prime
    let ?c = "st_Class (te_start env)"
    from prime step obtain n where n: "map_of (tv_nodes t) ?c = Some n"
      and t': "t' = set_node ?c (n\<lparr>tn_result := Result_Append (st_Objects (te_start env)) (tn_result n)\<rparr>) t"
      and pc': "will_apply pc' = Some ?c"
      by (auto simp: Let_def split: option.splits)
    obtain ys where "Result_List (Result_Append (st_Objects (te_start env)) (tn_result n)) = Result_List (tn_result n) @ ys"
      using res.append_prefix [of "st_Objects (te_start env)" "tn_result n"] by auto
    moreover have "node_list t ?c = Result_List (tn_result n)" "node_processed t ?c = tn_processed n"
      by (simp_all add: node_list_def node_processed_def n)
    ultimately show ?thesis
      using pc' prime by (cases "c = ?c") (simp_all add: t' node_set_node)
  qed
qed

definition claims_ok :: "('i, 'o) run \<Rightarrow> bool" where
  "claims_ok st \<longleftrightarrow>
     (\<forall>c. node_processed (ru_t st) c \<le> length (node_list (ru_t st) c) \<and>
          ru_claimed st c = take (node_processed (ru_t st) c) (node_list (ru_t st) c) \<and>
          (node_processed (ru_t st) c = length (node_list (ru_t st) c) \<or>
             (\<exists>p \<in> set (ru_procs st). will_apply p = Some c)))"

lemma ru_claimed_history:
  "ru_claimed (record_history pc t st) c =
     ru_claimed st c @ (if \<exists>d. pc = PApply c d then drop (node_processed t c) (node_list t c) else [])"
  by (cases pc) (auto simp: record_history_def claim_objects_def node_list_def node_processed_def Let_def
      split: option.splits)

lemma ex_set_update:
  assumes "\<exists>p \<in> set xs. P p" and "i < length xs" and "P (xs ! i) \<Longrightarrow> P y"
  shows "\<exists>p \<in> set (xs[i := y]). P p"
proof -
  obtain j where j: "j < length xs" "P (xs ! j)" using assms(1) by (auto simp: in_set_conv_nth)
  show ?thesis
  proof (cases "j = i")
    case True
    then show ?thesis using assms j set_update_memI [of i xs y] by blast
  next
    case False
    then have "xs ! j \<in> set (xs[i := y])" using j by (metis length_list_update nth_list_update_neq nth_mem)
    then show ?thesis using j by blast
  qed
qed

lemma run_step_claims: "run_step env st st' \<Longrightarrow> claims_ok st \<Longrightarrow> claims_ok st'"
proof (induction rule: run_step.induct)
  case (proc i st ord now pc t)
  show ?case
    unfolding claims_ok_def
  proof (intro allI)
    fix c
    let ?p = "ru_procs st ! i" and ?t = "ru_t st"
    have old: "node_processed ?t c \<le> length (node_list ?t c)"
      "ru_claimed st c = take (node_processed ?t c) (node_list ?t c)"
      "node_processed ?t c = length (node_list ?t c) \<or> (\<exists>p \<in> set (ru_procs st). will_apply p = Some c)"
      using proc(4) unfolding claims_ok_def by blast+
    obtain new where new: "node_list t c = node_list ?t c @ new" "new = [] \<or> will_apply pc = Some c"
      using proc_step_node [OF proc(2), of c] by blast
    note s = proc_step_node [OF proc(2), of c]
    have mem: "pc \<in> set ((ru_procs st)[i := pc])" by (rule set_update_memI [OF proc(1)])
    let ?st' = "record_history ?p ?t st\<lparr>ru_t := t, ru_procs := (ru_procs st)[i := pc]\<rparr>"
    have "node_processed t c \<le> length (node_list t c) \<and>
      ru_claimed (record_history ?p ?t st) c = take (node_processed t c) (node_list t c) \<and>
      (node_processed t c = length (node_list t c) \<or> (\<exists>p \<in> set ((ru_procs st)[i := pc]). will_apply p = Some c))"
    proof (cases "\<exists>d. ?p = PApply c d")
      case True
      with s have "node_processed t c = length (node_list ?t c)" "node_list t c = node_list ?t c" by auto
      then show ?thesis using True old by (simp add: ru_claimed_history)
    next
      case False
      then have pr: "node_processed t c = node_processed ?t c" using s by simp
      have "node_processed t c = length (node_list t c) \<or> (\<exists>p \<in> set ((ru_procs st)[i := pc]). will_apply p = Some c)"
      proof (cases "\<exists>p \<in> set (ru_procs st). will_apply p = Some c")
        case True
        from ex_set_update [OF this proc(1)] proc_step_will_apply [OF proc(2)] False show ?thesis by blast
      next
        case none: False
        show ?thesis
        proof (cases "new = []")
          case True
          then show ?thesis using old(3) none pr new(1) by simp
        next
          case False
          then show ?thesis using new(2) mem by blast
        qed
      qed
      then show ?thesis using old pr new(1) False by (simp add: ru_claimed_history)
    qed
    then show "node_processed (ru_t ?st') c \<le> length (node_list (ru_t ?st') c) \<and>
      ru_claimed ?st' c = take (node_processed (ru_t ?st') c) (node_list (ru_t ?st') c) \<and>
      (node_processed (ru_t ?st') c = length (node_list (ru_t ?st') c) \<or>
        (\<exists>p \<in> set (ru_procs ?st'). will_apply p = Some c))" by simp
  qed
qed (auto simp: claims_ok_def node_list_def node_processed_def)

text \<open>The nodes and lines of a new traverser.\<close>

definition fresh_nodes :: "('i, 'o) trav_env \<Rightarrow> ('i, 'o) traverser \<Rightarrow> bool" where
  "fresh_nodes env t \<longleftrightarrow> (\<forall>c n. map_of (tv_nodes t) c = Some n \<longrightarrow> n = new_tnode env c)"

lemma fresh_getOrCreateNode: "fresh_nodes env t \<Longrightarrow> fresh_nodes env (getOrCreateNode env c t)"
  by (auto simp: fresh_nodes_def getOrCreateNode_def split: option.splits)

lemma fresh_cong: "tv_nodes t' = tv_nodes t \<Longrightarrow> fresh_nodes env t' = fresh_nodes env t"
  by (simp add: fresh_nodes_def)

lemma add_scope_line_nodes:
  "tv_nodes (add_scope_line env l t) = tv_nodes (getOrCreateNode env (class_of (tv_data t) (l_T l))
     (getOrCreateNode env (class_of (tv_data t) (l_F l)) t))"
  by (simp add: add_scope_line_def Let_def)

lemma fresh_newTraverser: "fresh_nodes env (newTraverser env data ls c d)"
  unfolding newTraverser_def
proof (rule fold_invariant_step)
  fix l t assume "fresh_nodes env t"
  then show "fresh_nodes env (add_scope_line env l t)"
    unfolding fresh_cong [OF add_scope_line_nodes] by (intro fresh_getOrCreateNode)
qed (simp add: fresh_nodes_def)

lemma fresh_run_init: "fresh_nodes env (ru_t (run_init env (newTraverser env data ls c d) n))"
proof -
  have "tv_nodes (ru_t (run_init env (newTraverser env data ls c d) n))
      = tv_nodes (getOrCreateNode env (st_Class (te_start env)) (newTraverser env data ls c d))"
    by (simp add: run_init_def)
  from fresh_cong [OF this] show ?thesis using fresh_getOrCreateNode [OF fresh_newTraverser] by blast
qed

lemma fresh_nodes_empty:
  assumes "fresh_nodes env t"
  shows "node_list t c = [] \<and> node_processed t c = 0"
proof (cases "map_of (tv_nodes t) c")
  case (Some n)
  then have "n = new_tnode env c" using assms unfolding fresh_nodes_def by blast
  with Some show ?thesis by (simp add: node_list_def node_processed_def new_tnode_def)
qed (simp add: node_list_def node_processed_def)

lemma run_init_claims: "claims_ok (run_init env (newTraverser env data ls c d) n)"
proof -
  have "node_list (ru_t (run_init env (newTraverser env data ls c d) n)) k = []"
    "node_processed (ru_t (run_init env (newTraverser env data ls c d) n)) k = 0" for k
    using fresh_nodes_empty [OF fresh_run_init] by blast+
  then show ?thesis unfolding claims_ok_def by (simp add: run_init_def [THEN arg_cong [of _ _ ru_claimed]])
qed

lemma run_reaches_claims:
  "(run_step env)\<^sup>*\<^sup>* (run_init env (newTraverser env data ls c d) n) st \<Longrightarrow> claims_ok st"
  by (induction rule: rtranclp_induct) (auto intro: run_init_claims run_step_claims)

lemma finished_procs:
  assumes "run_ok st" and "run_finished st"
  shows "\<exists>ws. ru_procs st = PFinished # ws \<and> list_all (\<lambda>w. w = PExit) ws"
  using assms by (cases "ru_procs st") (auto simp: run_finished_def run_ok_def phase_ok_def)

lemma finished_member:
  "run_ok st \<Longrightarrow> run_finished st \<Longrightarrow> p \<in> set (ru_procs st) \<Longrightarrow> p = PFinished \<or> p = PExit"
  using finished_procs by (fastforce simp: list_all_iff)

lemma claims_okD:
  assumes "claims_ok st"
  shows "ru_claimed st k = take (length (ru_claimed st k)) (node_list (ru_t st) k)"
    and "ru_claimed st k = take (node_processed (ru_t st) k) (node_list (ru_t st) k)"
    and "node_processed (ru_t st) k = length (node_list (ru_t st) k) \<or> (\<exists>p \<in> set (ru_procs st). will_apply p = Some k)"
  using assms unfolding claims_ok_def by (metis length_take min_absorb2)+

lemma finished_claimed:
  assumes "run_ok st" and "run_finished st" and "claims_ok st"
  shows "ru_claimed st k = node_list (ru_t st) k"
proof -
  have "will_apply p = None" if "p \<in> set (ru_procs st)" for p
    using finished_member [OF assms(1,2) that] by auto
  then have "node_processed (ru_t st) k = length (node_list (ru_t st) k)" using claims_okD(3) [OF assms(3)] by force
  then show ?thesis using claims_okD(2) [OF assms(3)] by simp
qed

lemma finished_items:
  assumes "run_ok st" and "run_finished st"
  shows "items (ru_t st) = []"
proof (rule idle_at_zero(1))
  show "wg_ok st" using assms(1) by (simp add: run_ok_def)
  show "tv_wg (ru_t st) = 0"
    using assms finished_procs [OF assms] by (auto simp: run_ok_def phase_ok_def past_wait_def)
qed

text \<open>C3: The counter of a node makes the goroutines claim its objects for the rules once each and in
  order: at any time the objects claimed are the first ones of the node's result, and when the
  traversal has finished they are all of them, cancelled or not.\<close>

theorem traverse_claims_once:
  assumes "(run_step env)\<^sup>*\<^sup>* (run_init env (newTraverser env data ls c d) n) st"
  shows "ru_claimed st k = take (length (ru_claimed st k)) (node_list (ru_t st) k) \<and>
    (run_finished st \<longrightarrow> ru_claimed st k = node_list (ru_t st) k)"
  using claims_okD(1) [OF run_reaches_claims [OF assms]]
    finished_claimed [OF run_reaches_ok [OF assms] _ run_reaches_claims [OF assms]] by blast

lemma traverse_claims_once_witness:
  "\<exists>st :: (string, string) run. ru_claimed st (Klass ''mock'' ''b'') = [''y'']"
proof -
  obtain st where st: "(run_step example_trav)\<^sup>*\<^sup>* example_init st" "ru_procs st = [PFinished, PExit]"
    "map (\<lambda>(c, n). (c, Result_List (tn_result n))) (tv_nodes (ru_t st)) =
       [(Klass ''mock'' ''a'', [''x'']), (Klass ''mock'' ''b'', [''y''])]" by (rule example_run)
  have "run_finished st" by (simp add: st(2) run_finished_def)
  moreover have "node_list (ru_t st) (Klass ''mock'' ''b'') = [''y'']"
  proof -
    have "map_option (\<lambda>n. Result_List (tn_result n)) (map_of (tv_nodes (ru_t st)) c)
        = map_of (map (\<lambda>(c, n). (c, Result_List (tn_result n))) (tv_nodes (ru_t st))) c" for c
      by (induction "tv_nodes (ru_t st)") (auto simp: map_of_map)
    from this [of "Klass ''mock'' ''b''"] show ?thesis
      unfolding st(3) by (auto simp: node_list_def split: option.splits)
  qed
  ultimately show ?thesis
    using traverse_claims_once [OF st(1) [unfolded example_init_def example_traverser_def],
        of "Klass ''mock'' ''b''"] by metis
qed

end
