(* ===== verification/Complete.thy ===== *)
theory Complete
  imports Closure
begin

text \<open>
  The result of a traversal that ends without cancellation, depth or query limit is the set of objects
  derivable from the start (\<open>reach_obj\<close>), whatever the interleaving. Soundness and completeness are
  invariants of the steps: everything the goroutines hold is derivable, and everything derivable is in
  the nodes or still owed by a goroutine.
\<close>

section \<open>The specification\<close>

definition rule_queries :: "'o rule \<Rightarrow> 'o \<Rightarrow> query list" where
  "rule_queries r x = (case r_Apply r x of Inl _ \<Rightarrow> [] | Inr qs \<Rightarrow> qs)"

text \<open>The queries and objects that the rules and lines of a traverser derive from the start.\<close>

inductive reach_query :: "('i, 'o) trav_env \<Rightarrow> ('i, 'o) traverser \<Rightarrow> query \<Rightarrow> bool"
  and reach_obj :: "('i, 'o) trav_env \<Rightarrow> ('i, 'o) traverser \<Rightarrow> klass \<Rightarrow> 'o \<Rightarrow> bool" for env t where
  start_query: "q \<in> set (st_Queries (te_start env)) \<Longrightarrow> reach_query env t q"
| start_object: "x \<in> set (st_Objects (te_start env)) \<Longrightarrow> reach_obj env t (st_Class (te_start env)) x"
| store_object: "reach_query env t q \<Longrightarrow> x \<in> set (te_get env q) \<Longrightarrow> reach_obj env t (q_class q) x"
| rule_query: "reach_obj env t c x \<Longrightarrow> r \<in> set (tv_rules t c) \<Longrightarrow> q \<in> set (rule_queries r x) \<Longrightarrow>
    tv_lines t (LineKey c (q_class q) (r_ptr r)) \<noteq> None \<Longrightarrow> reach_query env t q"

inductive_cases reach_queryE: "reach_query env t q"

lemma reach_static:
  assumes "tv_rules t' = tv_rules t" and "tv_lines t' = tv_lines t"
  shows "(reach_query env t q \<longrightarrow> reach_query env t' q) \<and> (reach_obj env t c x \<longrightarrow> reach_obj env t' c x)"
proof -
  have "reach_query env t q \<Longrightarrow> reach_query env t' q" and "reach_obj env t c x \<Longrightarrow> reach_obj env t' c x"
    for q c x
    by (induction rule: reach_query_reach_obj.inducts)
       (auto intro: reach_query_reach_obj.intros simp: assms)
  then show ?thesis by blast
qed

section \<open>Soundness\<close>

fun kont_pairs :: "'o kont \<Rightarrow> (klass \<times> 'o \<times> 'o rule) list" where
  "kont_pairs (KApply c d) = []"
| "kont_pairs (KRules c d ps) = map (\<lambda>(x, r). (c, x, r)) ps"

text \<open>The query lines and the applications of rules that a goroutine has still to send and to do.\<close>

fun pc_sends :: "'o pc \<Rightarrow> query list" where
  "pc_sends (PSend qls k) = map ql_Query qls"
| "pc_sends (PAdd ql qls k) = map ql_Query qls"
| "pc_sends (PPut ql qls k) = map ql_Query qls"
| "pc_sends pc = []"

fun pc_pairs :: "'o pc \<Rightarrow> (klass \<times> 'o \<times> 'o rule) list" where
  "pc_pairs (PSend qls k) = kont_pairs k"
| "pc_pairs (PAdd ql qls k) = kont_pairs k"
| "pc_pairs (PPut ql qls k) = kont_pairs k"
| "pc_pairs pc = []"

fun pc_results :: "'o pc \<Rightarrow> (klass \<times> 'o) list" where
  "pc_results (PStore ql xs) = map (Pair (q_class (ql_Query ql))) xs"
| "pc_results pc = []"

definition pc_sound :: "('i, 'o) trav_env \<Rightarrow> ('i, 'o) traverser \<Rightarrow> 'o pc \<Rightarrow> bool" where
  "pc_sound env t p \<longleftrightarrow>
     (\<forall>q \<in> set (pc_tokens p) \<union> set (pc_sends p). reach_query env t q) \<and>
     (\<forall>(c, x, r) \<in> set (pc_pairs p). reach_obj env t c x \<and> r \<in> set (tv_rules t c)) \<and>
     (\<forall>(c, x) \<in> set (pc_results p). reach_obj env t c x)"

definition trav_sound :: "('i, 'o) trav_env \<Rightarrow> ('i, 'o) traverser \<Rightarrow> bool" where
  "trav_sound env t \<longleftrightarrow>
     (\<forall>c. \<forall>x \<in> set (node_list t c). reach_obj env t c x) \<and>
     (\<forall>ql \<in> set (items t). reach_query env t (ql_Query ql))"

lemma rule_pairs_set:
  assumes "\<forall>j rs. mset (ord j rs) = mset rs"
  shows "set (rule_pairs ord rules objects) = set objects \<times> set rules"
proof -
  have ord: "set (ord j rs) = set rs" for j rs using assms by (metis mset_eq_setD)
  have "set (rule_pairs ord rules objects) = (\<Union>(i, x) \<in> set (enumerate 0 objects). Pair x ` set rules)"
    by (auto simp: rule_pairs_def ord)
  also have "\<dots> = (\<Union>x \<in> snd ` set (enumerate 0 objects). Pair x ` set rules)" by force
  also have "snd ` set (enumerate 0 objects) = set objects" by (metis list.set_map map_snd_enumerate)
  finally show ?thesis by auto
qed

lemma rule_queryLines_iff:
  "q \<in> set (map ql_Query (rule_queryLines c d x r t)) \<longleftrightarrow>
     q \<in> set (rule_queries r x) \<and> tv_lines t (LineKey c (q_class q) (r_ptr r)) \<noteq> None"
  by (auto simp: rule_queryLines_def rule_queries_def List.map_filter_def Let_def image_iff split: sum.splits)

lemma Result_Append_fold: "Result_List (Result_Append xs r) = Result_List (fold (\<lambda>x r. snd (Result_Add x r)) xs r)"
  by (rule res.append_adds)

lemma results_subset:
  "set (Result_List (fold (\<lambda>x r. snd (Result_Add x r)) xs r)) \<subseteq> set (Result_List r) \<union> set xs"
  using res.adds_prefix [of xs r] by auto

text \<open>The objects a section adds to a node come from the start or from the results it holds.\<close>

lemma proc_step_new_objects:
  assumes step: "proc_step env ord now m pc t = Some (pc', t')" and x: "x \<in> set (node_list t' c)"
  shows "x \<in> set (node_list t c) \<or> (c, x) \<in> set (pc_results pc) \<or>
    (pc = PPrime \<and> c = st_Class (te_start env) \<and> x \<in> set (st_Objects (te_start env)))"
proof (cases "changes_nodes pc")
  case False
  then show ?thesis using node_same_nodes [OF proc_step_same_nodes [OF step False]] x by simp
next
  case True
  then consider (store) ql results where "pc = PStore ql results" | (status) ql xs where "pc = PStatus ql xs"
    | (claim) c' d where "pc = PApply c' d" | (prime) "pc = PPrime"
    by (cases pc) auto
  then show ?thesis
  proof cases
    case store
    then obtain n objects cnt n' where n: "map_of (tv_nodes t) (q_class (ql_Query ql)) = Some n"
      and s: "node_store (ql_Query ql) results n = (objects, cnt, n')"
      and t': "t' = set_node (q_class (ql_Query ql)) n' t"
      using step by (auto simp: Let_def split: option.splits prod.splits)
    have "node_list t (q_class (ql_Query ql)) = Result_List (tn_result n)" by (simp add: node_list_def n)
    moreover have "set (Result_List (tn_result n')) \<subseteq> set (Result_List (tn_result n)) \<union> set results"
      unfolding node_store_result(3) [OF s] by (rule results_subset)
    ultimately show ?thesis using x store by (auto simp: t' node_set_node split: if_splits)
  next
    case status
    then show ?thesis using proc_step_node [OF step, of c] x by (auto simp: Let_def split: option.splits)
      (use step x in \<open>auto simp: Let_def node_set_node node_list_def [of t] split: option.splits if_splits\<close>)
  next
    case claim
    then show ?thesis using proc_step_node [OF step, of c] x step
      by (auto simp: Let_def node_set_node node_list_def [of t] claim_objects_def split: option.splits if_splits)
  next
    case prime
    let ?c = "st_Class (te_start env)"
    from prime step obtain n where n: "map_of (tv_nodes t) ?c = Some n"
      and t': "t' = set_node ?c (n\<lparr>tn_result := Result_Append (st_Objects (te_start env)) (tn_result n)\<rparr>) t"
      by (auto simp: Let_def split: option.splits)
    have "node_list t ?c = Result_List (tn_result n)" by (simp add: node_list_def n)
    then show ?thesis
      using x prime results_subset [of "st_Objects (te_start env)" "tn_result n"]
      by (auto simp: t' node_set_node Result_Append_fold split: if_splits)
  qed
qed

lemma reach_cong:
  assumes "tv_rules t' = tv_rules t" and "tv_lines t' = tv_lines t"
  shows "reach_query env t' = reach_query env t" "reach_obj env t' = reach_obj env t"
  using reach_static [OF assms, of env] reach_static [OF assms [symmetric], of env] by (intro ext; blast)+

lemma pc_sound_cong:
  assumes "tv_rules t' = tv_rules t" and "tv_lines t' = tv_lines t"
  shows "pc_sound env t' = pc_sound env t"
  by (intro ext) (simp add: pc_sound_def reach_cong [OF assms] assms(1))

lemma proc_step_pc_sound:
  assumes "proc_step env ord now m pc t = Some (pc', t')" and "\<forall>j rs. mset (ord j rs) = mset rs"
    and "pc_sound env t pc" and "trav_sound env t"
  shows "pc_sound env t pc'"
  using assms
proof (induction env ord now m pc t rule: proc_step.induct)
  case (1 env ord now m t)
  then show ?case
    by (auto simp: pc_sound_def trav_sound_def workQueue_get_def split: list.splits if_splits)
next
  case (3 env ord now m ql t)
  then show ?case by (auto simp: pc_sound_def intro: store_object)
next
  case (7 env ord now m c d t)
  then obtain n where n: "map_of (tv_nodes t) c = Some n"
    and pc': "pc' = PSend [] (KRules c d (rule_pairs ord (tv_rules t c) (drop (tn_processed n) (Result_List (tn_result n)))))"
    by (auto simp: Let_def claim_objects_def split: option.splits)
  have "reach_obj env t c x" if "x \<in> set (Result_List (tn_result n))" for x
    using 7(4) that n by (auto simp: trav_sound_def node_list_def)
  then show ?case
    by (auto simp: pc_sound_def pc' rule_pairs_set [OF 7(2)] dest!: in_set_dropD)
next
  case (10 env ord now m c d x r ps t)
  have reach: "reach_obj env t c x" "r \<in> set (tv_rules t c)" using 10(3) by (auto simp: pc_sound_def)
  have "reach_query env t q" if "q \<in> set (map ql_Query (rule_queryLines c d x r t))" for q
    using that rule_query [OF reach] unfolding rule_queryLines_iff by blast
  moreover have "pc' = PDone \<or> pc' = PSend (rule_queryLines c d x r t) (KRules c d ps)"
    using 10(1) by (auto split: if_splits)
  ultimately show ?case using 10(3) by (auto simp: pc_sound_def)
next
  case (16 env ord now m t)
  then show ?case by (auto simp: pc_sound_def Let_def image_iff split: option.splits intro: start_query)
qed (auto simp: section_defs pc_sound_def split: option.splits prod.splits if_splits)

lemma proc_step_items:
  assumes "proc_step env ord now m pc t = Some (pc', t')" and "q \<in> ql_Query ` set (items t')"
  shows "q \<in> ql_Query ` set (items t) \<or> q \<in> set (pc_tokens pc)"
  using assms
  by (induction env ord now m pc t rule: proc_step.induct)
     (auto simp: section_defs split: option.splits prod.splits if_splits list.splits)

lemma proc_step_trav_sound:
  assumes step: "proc_step env ord now m pc t = Some (pc', t')"
    and pc: "pc_sound env t pc" and t: "trav_sound env t"
  shows "trav_sound env t'"
proof -
  note static = proc_step_static [OF step]
  have r: "reach_query env t' = reach_query env t" "reach_obj env t' = reach_obj env t"
    using reach_cong static by blast+
  have "reach_obj env t c x" if "x \<in> set (node_list t' c)" for c x
    using proc_step_new_objects [OF step that] pc t
    by (auto simp: pc_sound_def trav_sound_def intro: start_object)
  moreover have "reach_query env t q" if "q \<in> ql_Query ` set (items t')" for q
    using proc_step_items [OF step that] pc t by (auto simp: pc_sound_def trav_sound_def)
  ultimately show ?thesis unfolding trav_sound_def r by blast
qed

definition run_sound :: "('i, 'o) trav_env \<Rightarrow> ('i, 'o) run \<Rightarrow> bool" where
  "run_sound env st \<longleftrightarrow>
     trav_sound env (ru_t st) \<and> list_all (pc_sound env (ru_t st)) (ru_procs st) \<and>
     (\<forall>q \<in> set (ru_executed st). reach_query env (ru_t st) q)"

lemma executes_tokens: "set (pc_executes pc) \<subseteq> set (pc_tokens pc)"
  by (cases pc) auto

lemma run_step_sound: "run_step env st st' \<Longrightarrow> run_sound env st \<Longrightarrow> run_sound env st'"
proof (induction rule: run_step.induct)
  case (proc i st ord now pc t)
  have p: "pc_sound env (ru_t st) (ru_procs st ! i)" and ts: "trav_sound env (ru_t st)"
    using proc(1,4) by (auto simp: run_sound_def list_all_length)
  have cong: "pc_sound env t = pc_sound env (ru_t st)" "reach_query env t = reach_query env (ru_t st)"
    using pc_sound_cong reach_cong proc_step_static [OF proc(2)] by blast+
  have "list_all (pc_sound env t) ((ru_procs st)[i := pc])"
    using proc_step_pc_sound [OF proc(2,3) p ts] proc(4)
    by (auto simp: cong run_sound_def list_all_iff dest!: set_update_cases)
  moreover have "reach_query env t q" if "q \<in> set (ru_executed (record_history (ru_procs st ! i) (ru_t st) st))" for q
    using that proc(4) p executes_tokens [of "ru_procs st ! i"]
    by (auto simp: ru_executed_history run_sound_def cong pc_sound_def)
  ultimately show ?case using proc_step_trav_sound [OF proc(2) p ts] by (simp add: run_sound_def)
next
  case (join st ws)
  then show ?case by (auto simp: run_sound_def pc_sound_def)
next
  case (cancel st)
  let ?t = "(ru_t st)\<lparr>tv_cancelled := True\<rparr>"
  have "pc_sound env ?t = pc_sound env (ru_t st)" "reach_query env ?t = reach_query env (ru_t st)"
    "reach_obj env ?t = reach_obj env (ru_t st)"
    using pc_sound_cong [of ?t "ru_t st"] reach_cong [of ?t "ru_t st"] by simp_all
  with cancel(2) show ?case by (simp add: run_sound_def trav_sound_def node_list_def)
qed

lemma run_init_sound: "run_sound env (run_init env (newTraverser env data ls c d) n)"
proof -
  let ?st = "run_init env (newTraverser env data ls c d) n"
  have "items (ru_t ?st) = []" by (simp add: run_init_def newWorkQueue_def)
  moreover have "node_list (ru_t ?st) k = []" for k using fresh_nodes_empty [OF fresh_run_init] by blast
  ultimately have "trav_sound env (ru_t ?st)" by (simp add: trav_sound_def)
  then show ?thesis
    by (simp add: run_sound_def) (simp add: run_init_def pc_sound_def list_all_iff)
qed

text \<open>C4: Soundness of the traversal, at any time and in every interleaving, cancelled or not: every
  object in a node and every query executed is derived from the start by rules of the scope and what
  the stores give.\<close>

theorem traverse_sound:
  assumes "(run_step env)\<^sup>*\<^sup>* (run_init env (newTraverser env data ls c d) n) st"
  shows "(\<forall>q \<in> set (ru_executed st). reach_query env (ru_t st) q) \<and>
    (\<forall>k. \<forall>x \<in> set (node_list (ru_t st) k). reach_obj env (ru_t st) k x)"
proof -
  have "run_sound env st"
    using assms by (induction rule: rtranclp_induct) (auto intro: run_init_sound run_step_sound)
  then show ?thesis by (simp add: run_sound_def trav_sound_def)
qed

lemma traverse_sound_witness:
  "\<exists>st :: (string, string) run. ru_executed st = [example_query] \<and> reach_query example_trav (ru_t st) example_query"
proof -
  obtain st where st: "(run_step example_trav)\<^sup>*\<^sup>* example_init st" "ru_executed st = [example_query]"
    by (rule example_run)
  from traverse_sound [OF st(1) [unfolded example_init_def example_traverser_def]] st(2) show ?thesis by auto
qed

section \<open>Completeness\<close>

text \<open>Nothing stops a query: no depth limit, no limit of queries per class (a missing limit of a given
  constraint would become 10 at the first \<open>Get\<close>).\<close>

definition unlimited :: "('i, 'o) traverser \<Rightarrow> bool" where
  "unlimited t \<longleftrightarrow>
     tv_maxDepth t < 0 \<and>
     (case tv_constraint t of None \<Rightarrow> True
      | Some k \<Rightarrow> (case c_QueryLimit k of None \<Rightarrow> False | Some l \<Rightarrow> l \<le> 0))"

lemma unlimited_overLimit: "unlimited t \<Longrightarrow> \<not> overLimit (Constraint_GetQueryLimit (tv_constraint t)) n"
  by (auto simp: unlimited_def overLimit_def Constraint_GetQueryLimit_def split: option.splits)

lemma unlimited_defaults: "unlimited t \<Longrightarrow> unlimited (get_defaults now t)"
  by (auto simp: unlimited_def get_defaults_def Default_fields split: option.splits)

lemma proc_step_constraint:
  assumes "proc_step env ord now m pc t = Some (pc', t')"
  shows "tv_constraint t' = tv_constraint (get_defaults now t) \<or> tv_constraint t' = tv_constraint t"
  using assms
  by (induction env ord now m pc t rule: proc_step.induct)
     (auto simp: workQueue_get_def dedup_check_def isDuplicate_def line_set_def set_node_def Let_def
        split: option.splits prod.splits if_splits list.splits)

lemma get_defaults_maxDepth [simp]: "tv_maxDepth (get_defaults now t) = tv_maxDepth t"
  by (simp add: get_defaults_def split: option.splits)

lemma proc_step_unlimited:
  assumes "proc_step env ord now m pc t = Some (pc', t')" and "unlimited t"
  shows "unlimited t'"
  using proc_step_constraint [OF assms(1)] unlimited_defaults [OF assms(2), of now] assms(2)
    proc_step_static [OF assms(1)]
  by (auto simp: unlimited_def)

text \<open>The sections of a goroutine that is not stopped pass on what they owe.\<close>

lemma proc_step_sends:
  assumes "proc_step env ord now m pc t = Some (pc', t')" and "unlimited t" and "\<not> tv_cancelled t"
    and "q \<in> set (pc_sends pc)"
  shows "q \<in> tv_seen t' \<or> q \<in> set (pc_sends pc')"
  using assms
  by (induction env ord now m pc t rule: proc_step.induct)
     (auto simp: unlimited_def dedup_check_def isDuplicate_def Let_def split: prod.splits if_splits)

lemma proc_step_pairs:
  assumes "proc_step env ord now m pc t = Some (pc', t')" and "\<not> tv_cancelled t"
    and "(c, x, r) \<in> set (pc_pairs pc)"
  shows "(c, x, r) \<in> set (pc_pairs pc') \<or>
    (\<forall>q \<in> set (rule_queries r x). tv_lines t (LineKey c (q_class q) (r_ptr r)) \<noteq> None \<longrightarrow> q \<in> set (pc_sends pc'))"
  using assms
proof (induction env ord now m pc t rule: proc_step.induct)
  case (10 env ord now m c' d x' r' ps t)
  then have pc': "pc' = PSend (rule_queryLines c' d x' r' t) (KRules c' d ps)" by auto
  show ?case
  proof (cases "(c, x, r) = (c', x', r')")
    case True
    then have "q \<in> set (map ql_Query (rule_queryLines c' d x' r' t))"
      if "q \<in> set (rule_queries r x)" "tv_lines t (LineKey c (q_class q) (r_ptr r)) \<noteq> None" for q
      using that unfolding rule_queryLines_iff by simp
    then show ?thesis by (simp add: pc')
  next
    case False
    then show ?thesis using 10(3) by (auto simp: pc')
  qed
qed (auto split: prod.splits if_splits)

lemma proc_step_claim_pairs:
  assumes "proc_step env ord now m (PApply c d) t = Some (pc', t')" and "\<forall>j rs. mset (ord j rs) = mset rs"
    and "x \<in> set (drop (node_processed t c) (node_list t c))" and "r \<in> set (tv_rules t c)"
  shows "(c, x, r) \<in> set (pc_pairs pc')"
  using assms(1,3,4)
  by (auto simp: Let_def claim_objects_def node_list_def node_processed_def rule_pairs_set [OF assms(2)] image_iff
      split: option.splits)

lemma proc_step_seen:
  assumes "proc_step env ord now m pc t = Some (pc', t')" and "q \<in> tv_seen t'"
  shows "q \<in> tv_seen t \<or> q \<in> set (pc_tokens pc')"
  using assms
  by (induction env ord now m pc t rule: proc_step.induct)
     (auto simp: section_defs split: option.splits prod.splits if_splits list.splits)

lemma proc_step_token_kept:
  assumes "proc_step env ord now m pc t = Some (pc', t')" and "unlimited t" and "\<not> tv_cancelled t"
    and "q \<in> set (pc_tokens pc)" and "map_of (tv_nodes t) (q_class q) \<noteq> None"
  shows "q \<in> set (pc_executes pc) \<or> q \<in> ql_Query ` set (items t') \<or> q \<in> set (pc_tokens pc')"
  using assms
  by (induction env ord now m pc t rule: proc_step.induct)
     (auto simp: query_admitted_def workQueue_put_def unlimited_overLimit)

lemma proc_step_item_kept:
  assumes "proc_step env ord now m pc t = Some (pc', t')" and "q \<in> ql_Query ` set (items t)"
  shows "q \<in> ql_Query ` set (items t') \<or> q \<in> set (pc_tokens pc')"
  using assms
  by (induction env ord now m pc t rule: proc_step.induct)
     (auto simp: section_defs split: option.splits prod.splits if_splits list.splits)

text \<open>An object is in a result when it, or with an \<open>IDer\<close> an object with its ID, is listed.\<close>

definition listed :: "('o \<Rightarrow> 'i) option \<Rightarrow> 'o \<Rightarrow> 'o list \<Rightarrow> bool" where
  "listed ider x xs \<longleftrightarrow> (case ider of None \<Rightarrow> x \<in> set xs | Some f \<Rightarrow> f x \<in> f ` set xs)"

definition result_for :: "('o \<Rightarrow> 'i) option \<Rightarrow> ('i, 'o) Result \<Rightarrow> bool" where
  "result_for ider r \<longleftrightarrow>
     (case (ider, r) of
        (None, ResultList _) \<Rightarrow> True
      | (Some f, ResultSet s) \<Rightarrow> rSet_wf s \<and> dd_key (rs_dedup s) = f
      | _ \<Rightarrow> False)"

lemma result_for_New: "result_for ider (Result_New ider)"
  by (auto simp: result_for_def Result_New_def NewSet_result_wf split: option.splits)
     (simp add: NewSet_result_def NewDeduplicator_def)

lemma fold_rSet_key: "dd_key (rs_dedup (fold (\<lambda>x r. snd (rSet_Add x r)) xs s)) = dd_key (rs_dedup s)"
  by (rule fold_unchanged [where g = "\<lambda>s. dd_key (rs_dedup s)"]) (simp add: rset.add_id)

lemma result_for_adds:
  assumes "result_for ider r"
  shows "result_for ider (fold (\<lambda>x r. snd (Result_Add x r)) xs r) \<and>
    (\<forall>x \<in> set xs. listed ider x (Result_List (fold (\<lambda>x r. snd (Result_Add x r)) xs r)))"
proof (cases ider)
  case None
  then obtain l where "r = ResultList l" using assms by (cases r) (auto simp: result_for_def)
  then show ?thesis
    by (simp add: None Result_adds_cases result_for_def listed_def fold_rList_Add rList_List_def)
next
  case (Some f)
  then obtain s where s: "r = ResultSet s" "rSet_wf s" "dd_key (rs_dedup s) = f"
    using assms by (cases r) (auto simp: result_for_def)
  have "f ` set (rSet_List (fold (\<lambda>x r. snd (rSet_Add x r)) xs s)) = f ` set (rSet_List s) \<union> f ` set xs"
    using rset.append_ids [OF s(2), of xs] by (simp add: s(3) rset.append_adds)
  then have "\<forall>x \<in> set xs. f x \<in> f ` set (rSet_List (fold (\<lambda>x r. snd (rSet_Add x r)) xs s))" by blast
  then show ?thesis
    using rset.adds_wf [OF s(2)] by (simp add: s(1,3) Some Result_adds_cases result_for_def listed_def fold_rSet_key)
qed

lemma Result_Append_adds: "Result_Append xs r = fold (\<lambda>x r. snd (Result_Add x r)) xs r"
  by (cases r) (simp_all add: Result_adds_cases fold_rList_Add rList_Append_def rSet_Append_def)

lemma listed_append: "listed ider x xs \<Longrightarrow> listed ider x (xs @ ys)"
  by (auto simp: listed_def split: option.splits)

definition results_for :: "('i, 'o) trav_env \<Rightarrow> ('i, 'o) traverser \<Rightarrow> bool" where
  "results_for env t \<longleftrightarrow>
     (\<forall>c n. map_of (tv_nodes t) c = Some n \<longrightarrow> result_for (te_ider env c) (tn_result n))"

lemma results_for_set_node:
  "results_for env t \<Longrightarrow> result_for (te_ider env c) (tn_result n) \<Longrightarrow> results_for env (set_node c n t)"
  by (auto simp: results_for_def set_node_def)

lemma proc_step_results_for:
  assumes step: "proc_step env ord now m pc t = Some (pc', t')" and ok: "results_for env t"
  shows "results_for env t'"
proof (cases "changes_nodes pc")
  case False
  then show ?thesis using proc_step_same_nodes [OF step] ok by (simp add: results_for_def)
next
  case True
  have get: "result_for (te_ider env c) (tn_result n)" if "map_of (tv_nodes t) c = Some n" for c n
    using ok that by (simp add: results_for_def)
  from True consider (store) ql results where "pc = PStore ql results" | (status) ql xs where "pc = PStatus ql xs"
    | (claim) c' d where "pc = PApply c' d" | (prime) "pc = PPrime"
    by (cases pc) auto
  then show ?thesis
  proof cases
    case store
    then obtain n objects cnt n' where n: "map_of (tv_nodes t) (q_class (ql_Query ql)) = Some n"
      and s: "node_store (ql_Query ql) results n = (objects, cnt, n')"
      and t': "t' = set_node (q_class (ql_Query ql)) n' t"
      using step by (auto simp: Let_def split: option.splits prod.splits)
    show ?thesis
      unfolding t' using result_for_adds [OF get [OF n], of results] node_store_result(3) [OF s]
      by (intro results_for_set_node [OF ok]) simp
  next
    case status
    then show ?thesis using step get by (auto simp: Let_def split: option.splits intro!: results_for_set_node [OF ok])
  next
    case claim
    then show ?thesis using step get
      by (auto simp: Let_def claim_objects_def split: option.splits intro!: results_for_set_node [OF ok])
  next
    case prime
    let ?c = "st_Class (te_start env)"
    from prime step obtain n where n: "map_of (tv_nodes t) ?c = Some n"
      and t': "t' = set_node ?c (n\<lparr>tn_result := Result_Append (st_Objects (te_start env)) (tn_result n)\<rparr>) t"
      by (auto simp: Let_def split: option.splits)
    show ?thesis
      unfolding t' using result_for_adds [OF get [OF n]]
      by (intro results_for_set_node [OF ok]) (simp add: Result_Append_adds)
  qed
qed

lemma proc_step_stored:
  assumes step: "proc_step env ord now m (PStore ql results) t = Some (pc', t')" and ok: "results_for env t"
    and x: "x \<in> set results"
  shows "listed (te_ider env (q_class (ql_Query ql))) x (node_list t' (q_class (ql_Query ql)))"
proof -
  obtain n objects cnt n' where n: "map_of (tv_nodes t) (q_class (ql_Query ql)) = Some n"
    and s: "node_store (ql_Query ql) results n = (objects, cnt, n')"
    and t': "t' = set_node (q_class (ql_Query ql)) n' t"
    using step by (auto simp: Let_def split: option.splits prod.splits)
  have "result_for (te_ider env (q_class (ql_Query ql))) (tn_result n)" using ok n by (simp add: results_for_def)
  from result_for_adds [OF this, of results] x show ?thesis
    by (simp add: t' node_set_node node_store_result(3) [OF s])
qed

lemma proc_step_primed:
  assumes step: "proc_step env ord now m PPrime t = Some (pc', t')" and ok: "results_for env t"
  shows "(\<forall>x \<in> set (st_Objects (te_start env)).
      listed (te_ider env (st_Class (te_start env))) x (node_list t' (st_Class (te_start env)))) \<and>
    set (st_Queries (te_start env)) \<subseteq> set (pc_sends pc')"
proof -
  let ?c = "st_Class (te_start env)"
  obtain n where n: "map_of (tv_nodes t) ?c = Some n"
    and t': "t' = set_node ?c (n\<lparr>tn_result := Result_Append (st_Objects (te_start env)) (tn_result n)\<rparr>) t"
    and pc': "pc' = PSend (map (\<lambda>q. \<lparr>ql_Query = q, ql_key = None, ql_depth = 0\<rparr>) (st_Queries (te_start env))) (KApply ?c 1)"
    using step by (auto simp: Let_def split: option.splits)
  have "result_for (te_ider env ?c) (tn_result n)" using ok n by (simp add: results_for_def)
  from result_for_adds [OF this, of "st_Objects (te_start env)"] show ?thesis
    by (simp add: t' pc' node_set_node Result_Append_adds image_iff subset_iff)
qed

text \<open>What is derivable and not yet in the nodes is owed by a goroutine or in the queue.\<close>

definition nodes_reach :: "('i, 'o) trav_env \<Rightarrow> ('i, 'o) traverser \<Rightarrow> bool" where
  "nodes_reach env t \<longleftrightarrow> (\<forall>q. reach_query env t q \<longrightarrow> map_of (tv_nodes t) (q_class q) \<noteq> None)"

definition rules_owed :: "('i, 'o) run \<Rightarrow> bool" where
  "rules_owed st \<longleftrightarrow>
     (\<forall>c. \<forall>x \<in> set (ru_claimed st c). \<forall>r \<in> set (tv_rules (ru_t st) c). \<forall>q \<in> set (rule_queries r x).
        tv_lines (ru_t st) (LineKey c (q_class q) (r_ptr r)) \<noteq> None \<longrightarrow>
        q \<in> tv_seen (ru_t st) \<or> (\<exists>p \<in> set (ru_procs st). q \<in> set (pc_sends p) \<or> (c, x, r) \<in> set (pc_pairs p)))"

definition start_owed :: "('i, 'o) trav_env \<Rightarrow> ('i, 'o) run \<Rightarrow> bool" where
  "start_owed env st \<longleftrightarrow>
     (\<forall>q \<in> set (st_Queries (te_start env)).
        q \<in> tv_seen (ru_t st) \<or> (\<exists>p \<in> set (ru_procs st). q \<in> set (pc_sends p) \<or> p = PPrime)) \<and>
     (\<forall>x \<in> set (st_Objects (te_start env)).
        listed (te_ider env (st_Class (te_start env))) x (node_list (ru_t st) (st_Class (te_start env))) \<or>
        PPrime \<in> set (ru_procs st))"

definition seen_owed :: "('i, 'o) run \<Rightarrow> bool" where
  "seen_owed st \<longleftrightarrow>
     (\<forall>q \<in> tv_seen (ru_t st). q \<in> set (ru_executed st) \<or> q \<in> ql_Query ` set (items (ru_t st)) \<or>
        (\<exists>p \<in> set (ru_procs st). q \<in> set (pc_tokens p)))"

definition stores_owed :: "('i, 'o) trav_env \<Rightarrow> ('i, 'o) run \<Rightarrow> bool" where
  "stores_owed env st \<longleftrightarrow>
     (\<forall>q \<in> set (ru_executed st). \<forall>x \<in> set (te_get env q).
        listed (te_ider env (q_class q)) x (node_list (ru_t st) (q_class q)) \<or>
        (\<exists>p \<in> set (ru_procs st). \<exists>ql. p = PStore ql (te_get env q) \<and> ql_Query ql = q))"

definition run_complete :: "('i, 'o) trav_env \<Rightarrow> ('i, 'o) run \<Rightarrow> bool" where
  "run_complete env st \<longleftrightarrow>
     results_for env (ru_t st) \<and> unlimited (ru_t st) \<and> nodes_reach env (ru_t st) \<and>
     (\<not> tv_cancelled (ru_t st) \<longrightarrow> rules_owed st \<and> start_owed env st \<and> seen_owed st \<and> stores_owed env st)"

lemma ex_step:
  assumes "\<exists>p \<in> set xs. P p" and "i < length xs" and "P (xs ! i) \<Longrightarrow> P y \<or> G"
  shows "G \<or> (\<exists>p \<in> set (xs[i := y]). P p)"
  using ex_set_update [of xs P i y] assms by blast

lemma proc_step_seen_mono: "proc_step env ord now m pc t = Some (pc', t') \<Longrightarrow> tv_seen t \<subseteq> tv_seen t'"
  using proc_step_tokens by blast

lemma node_list_grows:
  assumes "proc_step env ord now m pc t = Some (pc', t')"
  shows "listed ider x (node_list t c) \<Longrightarrow> listed ider x (node_list t' c)"
proof -
  obtain new where "node_list t' c = node_list t c @ new" using proc_step_node [OF assms, of c] by blast
  then show "listed ider x (node_list t c) \<Longrightarrow> listed ider x (node_list t' c)" by (simp add: listed_append)
qed

lemma step_rules_owed:
  assumes i: "i < length (ru_procs st)"
    and step: "proc_step env ord now m (ru_procs st ! i) (ru_t st) = Some (pc, t)"
    and ord: "\<forall>j rs. mset (ord j rs) = mset rs"
    and u: "unlimited (ru_t st)" and nc: "\<not> tv_cancelled (ru_t st)" and owed: "rules_owed st"
  shows "rules_owed ((record_history (ru_procs st ! i) (ru_t st) st)\<lparr>ru_t := t, ru_procs := (ru_procs st)[i := pc]\<rparr>)"
  unfolding rules_owed_def
proof (intro allI ballI impI)
  let ?p = "ru_procs st ! i"
  let ?st' = "(record_history ?p (ru_t st) st)\<lparr>ru_t := t, ru_procs := (ru_procs st)[i := pc]\<rparr>"
  fix c x r q
  assume x: "x \<in> set (ru_claimed ?st' c)" and r: "r \<in> set (tv_rules (ru_t ?st') c)"
    and q: "q \<in> set (rule_queries r x)" and l: "tv_lines (ru_t ?st') (LineKey c (q_class q) (r_ptr r)) \<noteq> None"
  have static: "tv_rules t = tv_rules (ru_t st)" "tv_lines t = tv_lines (ru_t st)"
    using proc_step_static [OF step] by blast+
  have mem: "pc \<in> set ((ru_procs st)[i := pc])" by (rule set_update_memI [OF i])
  show "q \<in> tv_seen (ru_t ?st') \<or> (\<exists>p \<in> set (ru_procs ?st'). q \<in> set (pc_sends p) \<or> (c, x, r) \<in> set (pc_pairs p))"
  proof (cases "x \<in> set (ru_claimed st c)")
    case True
    then have "q \<in> tv_seen (ru_t st) \<or> (\<exists>p \<in> set (ru_procs st). q \<in> set (pc_sends p) \<or> (c, x, r) \<in> set (pc_pairs p))"
      using owed r q l static by (simp add: rules_owed_def)
    then show ?thesis
    proof
      assume "q \<in> tv_seen (ru_t st)"
      then show ?thesis using proc_step_seen_mono [OF step] by auto
    next
      assume ex: "\<exists>p \<in> set (ru_procs st). q \<in> set (pc_sends p) \<or> (c, x, r) \<in> set (pc_pairs p)"
      have "q \<in> set (pc_sends ?p) \<or> (c, x, r) \<in> set (pc_pairs ?p) \<Longrightarrow>
          (q \<in> set (pc_sends pc) \<or> (c, x, r) \<in> set (pc_pairs pc)) \<or> q \<in> tv_seen t"
        using proc_step_sends [OF step u nc, of q] proc_step_pairs [OF step nc, of c x r] q l static by auto
      from ex_step [OF ex i this] show ?thesis by simp
    qed
  next
    case False
    then obtain d where "?p = PApply c d" "x \<in> set (drop (node_processed (ru_t st) c) (node_list (ru_t st) c))"
      using x by (auto simp: ru_claimed_history split: if_splits)
    then have "(c, x, r) \<in> set (pc_pairs pc)"
      using proc_step_claim_pairs [OF _ ord] step r static by simp
    with mem show ?thesis by auto
  qed
qed

lemma step_start_owed:
  assumes i: "i < length (ru_procs st)"
    and step: "proc_step env ord now m (ru_procs st ! i) (ru_t st) = Some (pc, t)"
    and u: "unlimited (ru_t st)" and nc: "\<not> tv_cancelled (ru_t st)" and res: "results_for env (ru_t st)"
    and owed: "start_owed env st"
  shows "start_owed env ((record_history (ru_procs st ! i) (ru_t st) st)\<lparr>ru_t := t, ru_procs := (ru_procs st)[i := pc]\<rparr>)"
proof -
  let ?p = "ru_procs st ! i"
  let ?c = "st_Class (te_start env)"
  have q: "q \<in> tv_seen t \<or> (\<exists>p \<in> set ((ru_procs st)[i := pc]). q \<in> set (pc_sends p) \<or> p = PPrime)"
    if "q \<in> set (st_Queries (te_start env))" for q
  proof -
    from owed that have "q \<in> tv_seen (ru_t st) \<or> (\<exists>p \<in> set (ru_procs st). q \<in> set (pc_sends p) \<or> p = PPrime)"
      by (simp add: start_owed_def)
    then consider "q \<in> tv_seen (ru_t st)" | "\<exists>p \<in> set (ru_procs st). q \<in> set (pc_sends p) \<or> p = PPrime"
      by blast
    then show ?thesis
    proof cases
      case 1
      then show ?thesis using proc_step_seen_mono [OF step] by auto
    next
      case 2
      have "q \<in> set (pc_sends ?p) \<or> ?p = PPrime \<Longrightarrow> (q \<in> set (pc_sends pc) \<or> pc = PPrime) \<or> q \<in> tv_seen t"
        using proc_step_sends [OF step u nc, of q] proc_step_primed [OF _ res, of ord now m pc t] step that
        by (cases "?p = PPrime") auto
      from ex_step [OF 2 i this] show ?thesis by blast
    qed
  qed
  have x: "listed (te_ider env ?c) x (node_list t ?c) \<or> PPrime \<in> set ((ru_procs st)[i := pc])"
    if "x \<in> set (st_Objects (te_start env))" for x
  proof -
    from owed that have "listed (te_ider env ?c) x (node_list (ru_t st) ?c) \<or> PPrime \<in> set (ru_procs st)"
      unfolding start_owed_def by (elim conjE) (rule bspec)
    then consider "listed (te_ider env ?c) x (node_list (ru_t st) ?c)" | "\<exists>p \<in> set (ru_procs st). p = PPrime"
      by blast
    then show ?thesis
    proof cases
      case 1
      then show ?thesis using node_list_grows [OF step] by blast
    next
      case 2
      have "?p = PPrime \<Longrightarrow> pc = PPrime \<or> listed (te_ider env ?c) x (node_list t ?c)"
        using proc_step_primed [OF _ res, of ord now m pc t] step that by auto
      from ex_step [OF 2 i this] show ?thesis by blast
    qed
  qed
  show ?thesis unfolding start_owed_def using q x by (intro conjI ballI) simp_all
qed

lemma step_seen_owed:
  assumes i: "i < length (ru_procs st)"
    and step: "proc_step env ord now m (ru_procs st ! i) (ru_t st) = Some (pc, t)"
    and u: "unlimited (ru_t st)" and nc: "\<not> tv_cancelled (ru_t st)"
    and sound: "run_sound env st" and nodes: "nodes_reach env (ru_t st)" and owed: "seen_owed st"
  shows "seen_owed ((record_history (ru_procs st ! i) (ru_t st) st)\<lparr>ru_t := t, ru_procs := (ru_procs st)[i := pc]\<rparr>)"
proof -
  let ?p = "ru_procs st ! i"
  let ?done = "\<lambda>q. q \<in> set (ru_executed st) \<or> q \<in> set (pc_executes ?p) \<or> q \<in> ql_Query ` set (items t) \<or>
    (\<exists>p \<in> set ((ru_procs st)[i := pc]). q \<in> set (pc_tokens p))"
  have mem: "pc \<in> set ((ru_procs st)[i := pc])" by (rule set_update_memI [OF i])
  have p: "pc_sound env (ru_t st) ?p" using sound i by (auto simp: run_sound_def list_all_length)
  have "?done q" if "q \<in> tv_seen t" for q
  proof (cases "q \<in> tv_seen (ru_t st)")
    case False
    then show ?thesis using proc_step_seen [OF step that] mem by blast
  next
    case True
    then consider "q \<in> set (ru_executed st)" | "q \<in> ql_Query ` set (items (ru_t st))"
      | "\<exists>p \<in> set (ru_procs st). q \<in> set (pc_tokens p)"
      using owed unfolding seen_owed_def by blast
    then show ?thesis
    proof cases
      case 2
      then show ?thesis using proc_step_item_kept [OF step 2] mem by blast
    next
      case 3
      have "q \<in> set (pc_tokens ?p) \<Longrightarrow>
          q \<in> set (pc_tokens pc) \<or> q \<in> set (pc_executes ?p) \<or> q \<in> ql_Query ` set (items t)"
        using proc_step_token_kept [OF step u nc, of q] p nodes by (auto simp: pc_sound_def nodes_reach_def)
      from ex_step [OF 3 i this] show ?thesis by blast
    qed simp
  qed
  then show ?thesis by (simp add: seen_owed_def ru_executed_history disj_assoc)
qed

lemma step_stores_owed:
  assumes i: "i < length (ru_procs st)"
    and step: "proc_step env ord now m (ru_procs st ! i) (ru_t st) = Some (pc, t)"
    and res: "results_for env (ru_t st)" and owed: "stores_owed env st"
  shows "stores_owed env ((record_history (ru_procs st ! i) (ru_t st) st)\<lparr>ru_t := t, ru_procs := (ru_procs st)[i := pc]\<rparr>)"
proof -
  let ?p = "ru_procs st ! i"
  have mem: "pc \<in> set ((ru_procs st)[i := pc])" by (rule set_update_memI [OF i])
  have "listed (te_ider env (q_class q)) x (node_list t (q_class q)) \<or>
      (\<exists>p \<in> set ((ru_procs st)[i := pc]). \<exists>ql. p = PStore ql (te_get env q) \<and> ql_Query ql = q)"
    if q: "q \<in> set (ru_executed st @ pc_executes ?p)" and x: "x \<in> set (te_get env q)" for q x
  proof (cases "q \<in> set (ru_executed st)")
    case False
    with q obtain ql where "?p = PQuery ql" "ql_Query ql = q" by (cases ?p) auto
    then have "pc = PStore ql (te_get env q)" using step by auto
    with mem \<open>ql_Query ql = q\<close> show ?thesis by blast
  next
    case True
    then consider "listed (te_ider env (q_class q)) x (node_list (ru_t st) (q_class q))"
      | "\<exists>p \<in> set (ru_procs st). \<exists>ql. p = PStore ql (te_get env q) \<and> ql_Query ql = q"
      using owed x unfolding stores_owed_def by blast
    then show ?thesis
    proof cases
      case 1
      then show ?thesis using node_list_grows [OF step] by blast
    next
      case 2
      have "\<exists>ql. ?p = PStore ql (te_get env q) \<and> ql_Query ql = q \<Longrightarrow>
          (\<exists>ql. pc = PStore ql (te_get env q) \<and> ql_Query ql = q) \<or>
          listed (te_ider env (q_class q)) x (node_list t (q_class q))"
        using proc_step_stored [OF _ res _, of ord now m _ "te_get env q" pc t x] step x by metis
      from ex_step [OF 2 i this] show ?thesis by blast
    qed
  qed
  then show ?thesis by (simp add: stores_owed_def ru_executed_history)
qed

lemma proc_step_nodes_reach:
  assumes "proc_step env ord now m pc t = Some (pc', t')" and "nodes_reach env t"
  shows "nodes_reach env t'"
proof -
  have "reach_query env t' = reach_query env t" using reach_cong proc_step_static [OF assms(1)] by blast
  then show ?thesis using assms(2) proc_step_static [OF assms(1)] by (auto simp: nodes_reach_def)
qed

lemma run_step_complete:
  "run_step env st st' \<Longrightarrow> run_sound env st \<Longrightarrow> run_complete env st \<Longrightarrow> run_complete env st'"
proof (induction rule: run_step.induct)
  case (proc i st ord now pc t)
  have c: "results_for env (ru_t st)" "unlimited (ru_t st)" "nodes_reach env (ru_t st)"
    using proc(5) by (auto simp: run_complete_def)
  have canc: "tv_cancelled t = tv_cancelled (ru_t st)" using proc_step_static [OF proc(2)] by blast
  have owed: "rules_owed st" "start_owed env st" "seen_owed st" "stores_owed env st" if "\<not> tv_cancelled t"
    using proc(5) that canc by (auto simp: run_complete_def)
  show ?case
    unfolding run_complete_def
    using proc_step_results_for [OF proc(2) c(1)] proc_step_unlimited [OF proc(2) c(2)]
      proc_step_nodes_reach [OF proc(2) c(3)] canc
      step_rules_owed [OF proc(1,2,3) c(2) _ owed(1)] step_start_owed [OF proc(1,2) c(2) _ c(1) owed(2)]
      step_seen_owed [OF proc(1,2) c(2) _ proc(4) c(3) owed(3)] step_stores_owed [OF proc(1,2) c(1) owed(4)]
    by simp
next
  case (join st ws)
  then have procs: "set (ru_procs st) = insert PJoin (set ws)" by simp
  have owed: "rules_owed st" "start_owed env st" "seen_owed st" "stores_owed env st" if "\<not> tv_cancelled (ru_t st)"
    using join(4) that by (auto simp: run_complete_def)
  show ?case
    using join(4) owed
    by (auto simp: run_complete_def rules_owed_def start_owed_def seen_owed_def stores_owed_def procs)
next
  case (cancel st)
  let ?t = "(ru_t st)\<lparr>tv_cancelled := True\<rparr>"
  have "reach_query env ?t = reach_query env (ru_t st)" using reach_cong [of ?t "ru_t st"] by simp
  with cancel(3) show ?case by (simp add: run_complete_def results_for_def unlimited_def nodes_reach_def)
qed

text \<open>Initially.\<close>

definition lines_have_nodes :: "('i, 'o) traverser \<Rightarrow> bool" where
  "lines_have_nodes t \<longleftrightarrow> (\<forall>key. tv_lines t key \<noteq> None \<longrightarrow> map_of (tv_nodes t) (lk_goal key) \<noteq> None)"

lemma getOrCreateNode_has:
  "map_of (tv_nodes (getOrCreateNode env c t)) k \<noteq> None \<longleftrightarrow> k = c \<or> map_of (tv_nodes t) k \<noteq> None"
  by (auto simp: getOrCreateNode_def split: option.splits)

lemma add_scope_line_lines:
  "tv_lines (add_scope_line env l t) = (tv_lines t)(line_key (tv_data t) l \<mapsto> l)"
  by (simp add: add_scope_line_def Let_def)

lemma add_scope_line_has_nodes: "lines_have_nodes t \<Longrightarrow> lines_have_nodes (add_scope_line env l t)"
  unfolding lines_have_nodes_def add_scope_line_lines add_scope_line_nodes getOrCreateNode_has
  by (auto simp: line_key_def)

lemma newTraverser_has_nodes: "lines_have_nodes (newTraverser env data ls c d)"
  unfolding newTraverser_def
  by (rule fold_invariant_step) (simp add: lines_have_nodes_def, rule add_scope_line_has_nodes)

lemma run_init_t:
  "ru_t (run_init env t n) = (getOrCreateNode env (st_Class (te_start env)) t)\<lparr>tv_wg := tv_wg t + 1\<rparr>"
  by (simp add: run_init_def)

lemma reach_has_node:
  assumes "lines_have_nodes t" and "\<forall>q \<in> set (st_Queries (te_start env)). q_class q = st_Class (te_start env)"
    and "reach_query env t q"
  shows "q_class q = st_Class (te_start env) \<or> map_of (tv_nodes t) (q_class q) \<noteq> None"
  using assms(3,1,2) by (elim reach_queryE) (auto simp: lines_have_nodes_def)

lemma run_init_nodes_reach:
  assumes "\<forall>q \<in> set (st_Queries (te_start env)). q_class q = st_Class (te_start env)"
  shows "nodes_reach env (ru_t (run_init env (newTraverser env data ls c d) n))"
proof -
  let ?t = "newTraverser env data ls c d"
  have r: "reach_query env (ru_t (run_init env ?t n)) = reach_query env ?t"
    by (rule reach_cong) (simp_all add: run_init_t)
  have "map_of (tv_nodes (ru_t (run_init env ?t n))) (q_class q) \<noteq> None" if "reach_query env ?t q" for q
    using reach_has_node [OF newTraverser_has_nodes assms that]
      getOrCreateNode_has [of env "st_Class (te_start env)" ?t "q_class q"] by (simp add: run_init_t)
  then show ?thesis unfolding nodes_reach_def r by blast
qed

lemma run_init_complete:
  assumes "\<forall>q \<in> set (st_Queries (te_start env)). q_class q = st_Class (te_start env)"
    and "unlimited (newTraverser env data ls c d)"
  shows "run_complete env (run_init env (newTraverser env data ls c d) n)"
proof -
  let ?st = "run_init env (newTraverser env data ls c d) n"
  have "results_for env (ru_t ?st)"
    using fresh_run_init [of env data ls c d n] result_for_New [of "te_ider env c" for c]
    unfolding results_for_def fresh_nodes_def new_tnode_def by fastforce
  moreover have "unlimited (ru_t ?st)" using assms(2) by (simp add: unlimited_def run_init_t)
  moreover have "rules_owed ?st" "start_owed env ?st" "seen_owed ?st" "stores_owed env ?st"
    by (simp_all add: rules_owed_def start_owed_def seen_owed_def stores_owed_def run_init_def)
  ultimately show ?thesis using run_init_nodes_reach [OF assms(1)] by (simp add: run_complete_def)
qed

lemma run_reaches_complete:
  assumes "(run_step env)\<^sup>*\<^sup>* (run_init env (newTraverser env data ls c d) n) st"
    and "\<forall>q \<in> set (st_Queries (te_start env)). q_class q = st_Class (te_start env)"
    and "unlimited (newTraverser env data ls c d)"
  shows "run_ok st \<and> run_sound env st \<and> claims_ok st \<and> run_complete env st"
  using assms(1)
proof (induction rule: rtranclp_induct)
  case base
  then show ?case
    using run_init_ok run_init_sound run_init_claims run_init_complete [OF assms(2,3)] by blast
next
  case (step y z)
  then show ?case
    using run_step_ok run_step_sound run_step_claims run_step_complete by meson
qed

text \<open>At the end nothing is owed.\<close>

text \<open>At the end nothing is owed.\<close>

lemma finished_closed:
  assumes "run_ok st" and "run_finished st" and "claims_ok st" and "run_complete env st" and "\<not> tv_cancelled (ru_t st)"
    and "\<forall>c f. te_ider env c = Some f \<longrightarrow> inj f"
  shows "reach_query env (ru_t st) q \<Longrightarrow> q \<in> set (ru_executed st)"
    and "reach_obj env (ru_t st) c x \<Longrightarrow> x \<in> set (node_list (ru_t st) c)"
proof -
  have no: "pc_sends p = []" "pc_pairs p = []" "pc_tokens p = []" "p \<noteq> PPrime" "p \<noteq> PStore ql xs"
    if "p \<in> set (ru_procs st)" for p ql xs
    using finished_member [OF assms(1,2) that] by auto
  have in_list: "x \<in> set (node_list (ru_t st) c)" if "listed (te_ider env c) x (node_list (ru_t st) c)" for c x
    using that assms(6) by (auto simp: listed_def inj_image_mem_iff split: option.splits)
  have owed: "rules_owed st" "start_owed env st" "seen_owed st" "stores_owed env st"
    using assms(4,5) by (auto simp: run_complete_def)
  have seen: "q \<in> set (ru_executed st)" if "q \<in> tv_seen (ru_t st)" for q
  proof -
    have "q \<in> set (ru_executed st) \<or> q \<in> ql_Query ` set (items (ru_t st)) \<or>
        (\<exists>p \<in> set (ru_procs st). q \<in> set (pc_tokens p))"
      using owed(3) that unfolding seen_owed_def by (rule bspec)
    then show ?thesis using no(3) finished_items [OF assms(1,2)] by auto
  qed
  show "reach_query env (ru_t st) q \<Longrightarrow> q \<in> set (ru_executed st)"
    and "reach_obj env (ru_t st) c x \<Longrightarrow> x \<in> set (node_list (ru_t st) c)" for q c x
  proof (induction rule: reach_query_reach_obj.inducts)
    case (start_query q)
    then have "q \<in> tv_seen (ru_t st) \<or> (\<exists>p \<in> set (ru_procs st). q \<in> set (pc_sends p) \<or> p = PPrime)"
      using owed(2) unfolding start_owed_def by blast
    then show ?case using no(1,4) seen by auto
  next
    case (start_object x)
    then have "listed (te_ider env (st_Class (te_start env))) x (node_list (ru_t st) (st_Class (te_start env))) \<or>
        PPrime \<in> set (ru_procs st)"
      using owed(2) unfolding start_owed_def by (elim conjE) (rule bspec)
    then show ?case using no(4) in_list by blast
  next
    case (store_object q x)
    then have "listed (te_ider env (q_class q)) x (node_list (ru_t st) (q_class q)) \<or>
        (\<exists>p \<in> set (ru_procs st). \<exists>ql. p = PStore ql (te_get env q) \<and> ql_Query ql = q)"
      using owed(4) unfolding stores_owed_def by blast
    then show ?case using no(5) in_list by blast
  next
    case (rule_query c x r q)
    then have "x \<in> set (ru_claimed st c)" using finished_claimed [OF assms(1-3)] by metis
    then have "q \<in> tv_seen (ru_t st) \<or> (\<exists>p \<in> set (ru_procs st). q \<in> set (pc_sends p) \<or> (c, x, r) \<in> set (pc_pairs p))"
      using owed(1) rule_query(3,4,5) unfolding rules_owed_def by blast
    then show ?case using no(1,2) seen by auto
  qed
qed

lemma run_reaches_static:
  assumes "(run_step env)\<^sup>*\<^sup>* st st'"
  shows "tv_rules (ru_t st') = tv_rules (ru_t st) \<and> tv_lines (ru_t st') = tv_lines (ru_t st)"
  using assms
proof (induction rule: rtranclp_induct)
  case (step y z)
  from step(2) have "tv_rules (ru_t z) = tv_rules (ru_t y) \<and> tv_lines (ru_t z) = tv_lines (ru_t y)"
    by (cases rule: run_step.cases) (auto dest: proc_step_static)
  with step(3) show ?case by simp
qed simp

lemma run_reaches_reach:
  assumes "(run_step env)\<^sup>*\<^sup>* (run_init env t n) st"
  shows "reach_query env (ru_t st) = reach_query env t" "reach_obj env (ru_t st) = reach_obj env t"
  using reach_cong [of "ru_t st" t env] run_reaches_static [OF assms] by (simp_all add: run_init_t)



end
