(* ===== verification/Liveness.thy ===== *)
theory Liveness
  imports Complete
begin

text \<open>
  The traversal ends. Every section decreases a lexicographic measure when finitely many queries are
  derivable from the start, so there is no infinite run; and a run that has not finished can always
  take a step other than a cancellation, so every run can be continued until it has finished.
\<close>

section \<open>A measure of a run\<close>

text \<open>What is left to do before the rules of a class are applied.\<close>

fun kont_weight :: "'o kont \<Rightarrow> nat" where
  "kont_weight (KApply c d) = 5"
| "kont_weight (KRules c d ps) = 0"

fun pc_weight :: "'o pc \<Rightarrow> nat" where
  "pc_weight (PStart ql) = 9"
| "pc_weight (PQuery ql) = 8"
| "pc_weight (PStore ql xs) = 7"
| "pc_weight (PLine ql key xs n) = 6"
| "pc_weight (PStatus ql xs) = 5"
| "pc_weight (PApply c d) = 4"
| "pc_weight (PSend qls k) = kont_weight k"
| "pc_weight (PAdd ql qls k) = 13 + kont_weight k"
| "pc_weight (PPut ql qls k) = 12 + kont_weight k"
| "pc_weight PPrime = 6"
| "pc_weight pc = 0"

fun pc_rank :: "'o pc \<Rightarrow> nat" where
  "pc_rank (PSend qls k) = 8"
| "pc_rank (PAdd ql qls k) = 8"
| "pc_rank (PPut ql qls k) = 8"
| "pc_rank PDone = 7"
| "pc_rank PGet = 6"
| "pc_rank PWait = 5"
| "pc_rank PClose = 4"
| "pc_rank PJoin = 3"
| "pc_rank PFinished = 2"
| "pc_rank pc = 0"

definition total_of :: "('o pc \<Rightarrow> nat) \<Rightarrow> ('i, 'o) run \<Rightarrow> nat" where
  "total_of f st = sum_list (map f (ru_procs st))"

definition unseen :: "query set \<Rightarrow> ('i, 'o) traverser \<Rightarrow> nat" where
  "unseen U t = card (U - tv_seen t)"

definition run_measures :: "query set \<Rightarrow> (('i, 'o) run \<Rightarrow> nat) list" where
  "run_measures U =
     [\<lambda>st. of_bool (\<not> tv_cancelled (ru_t st)), \<lambda>st. unseen U (ru_t st),
      \<lambda>st. 10 * length (items (ru_t st)) + total_of pc_weight st, total_of (\<lambda>p. length (pc_pairs p)),
      total_of (\<lambda>p. length (pc_sends p)), total_of pc_rank]"

lemma proc_step_measures:
  assumes "proc_step env ord now m pc t = Some (pc', t')"
  shows "(\<exists>q \<in> set (pc_sends pc). tv_seen t' = insert q (tv_seen t) \<and> q \<notin> tv_seen t) \<or>
    tv_seen t' = tv_seen t \<and>
    (10 * length (items t') + pc_weight pc' < 10 * length (items t) + pc_weight pc \<or>
     10 * length (items t') + pc_weight pc' = 10 * length (items t) + pc_weight pc \<and>
     (length (pc_pairs pc') < length (pc_pairs pc) \<or>
      length (pc_pairs pc') = length (pc_pairs pc) \<and>
      (length (pc_sends pc') < length (pc_sends pc) \<or>
       length (pc_sends pc') = length (pc_sends pc) \<and> pc_rank pc' < pc_rank pc)))"
  using assms
  by (induction env ord now m pc t rule: proc_step.induct)
     (auto simp: section_defs split: option.splits prod.splits if_splits list.splits)

lemma total_of_update:
  assumes "i < length (ru_procs st)" and "ru_procs st' = (ru_procs st)[i := pc]"
  shows "total_of f st' + f (ru_procs st ! i) = total_of f st + f pc"
  using sum_list_map_update [OF assms(1), of f pc] by (simp add: total_of_def assms(2))

lemma unseen_insert: "finite U \<Longrightarrow> q \<in> U \<Longrightarrow> q \<notin> tv_seen t \<Longrightarrow> tv_seen t' = insert q (tv_seen t) \<Longrightarrow> unseen U t' < unseen U t"
  unfolding unseen_def by (rule psubset_card_mono) auto

lemma run_step_decreases:
  assumes "run_step env st st'" and "run_sound env st" and "finite {q. reach_query env (ru_t st) q}"
  shows "(st', st) \<in> measures (run_measures {q. reach_query env (ru_t st) q})"
  using assms
proof (induction rule: run_step.induct)
  case (proc i st ord now pc t)
  let ?U = "{q. reach_query env (ru_t st) q}" and ?p = "ru_procs st ! i"
  let ?st' = "(record_history ?p (ru_t st) st)\<lparr>ru_t := t, ru_procs := (ru_procs st)[i := pc]\<rparr>"
  have canc: "tv_cancelled t = tv_cancelled (ru_t st)" using proc_step_static [OF proc(2)] by blast
  have sum: "total_of f ?st' + f ?p = total_of f st + f pc" for f
    by (rule total_of_update [OF proc(1)]) simp
  have ps: "reach_query env (ru_t st) q" if "q \<in> set (pc_sends ?p)" for q
    using that proc(1,4) by (auto simp: run_sound_def list_all_length pc_sound_def)
  from proc_step_measures [OF proc(2)] show ?case
  proof (elim disjE)
    assume "\<exists>q \<in> set (pc_sends ?p). tv_seen t = insert q (tv_seen (ru_t st)) \<and> q \<notin> tv_seen (ru_t st)"
    then have "unseen ?U t < unseen ?U (ru_t st)" using unseen_insert [OF proc(5)] ps by blast
    then show ?thesis by (simp add: run_measures_def canc)
  qed (use sum [of pc_weight] sum [of "\<lambda>p. length (pc_pairs p)"] sum [of "\<lambda>p. length (pc_sends p)"] sum [of pc_rank]
       in \<open>auto simp: run_measures_def canc unseen_def\<close>)
next
  case (join st ws)
  then show ?case by (simp add: run_measures_def total_of_def)
next
  case (cancel st)
  then show ?case by (simp add: run_measures_def)
qed

lemma run_reaches_sound:
  "(run_step env)\<^sup>*\<^sup>* (run_init env (newTraverser env data ls k d) n) st \<Longrightarrow> run_sound env st"
  by (induction rule: rtranclp_induct) (auto intro: run_init_sound run_step_sound)

lemma reaches_decreases:
  assumes "(run_step env)\<^sup>*\<^sup>* (run_init env (newTraverser env data ls k d) n) st" and "run_step env st st'"
    and "finite {q. reach_query env (newTraverser env data ls k d) q}"
  shows "(st', st) \<in> measures (run_measures {q. reach_query env (newTraverser env data ls k d) q})"
  using run_step_decreases [OF assms(2) run_reaches_sound [OF assms(1)]] assms(3)
  unfolding run_reaches_reach [OF assms(1)] by simp

text \<open>C6: The traversal terminates: when finitely many queries are derivable from the start, there is no
  infinite run, whatever the workers, the schedule and the moment of a cancellation.\<close>

theorem traverse_terminates:
  assumes "finite {q. reach_query env (newTraverser env data ls k d) q}"
    and "f 0 = run_init env (newTraverser env data ls k d) n"
  shows "\<not> (\<forall>i. run_step env (f i) (f (Suc i)))"
proof
  assume steps: "\<forall>i. run_step env (f i) (f (Suc i))"
  have "(run_step env)\<^sup>*\<^sup>* (run_init env (newTraverser env data ls k d) n) (f i)" for i
    by (induction i) (auto simp: assms(2) steps intro: rtranclp.rtrancl_into_rtrancl)
  then have "(f (Suc i), f i) \<in> measures (run_measures {q. reach_query env (newTraverser env data ls k d) q})" for i
    using reaches_decreases assms(1) steps by blast
  then show False using wf_measures [unfolded wf_iff_no_infinite_down_chain] by blast
qed

lemma add_scope_line_rules:
  "tv_rules (add_scope_line env l t) =
     (tv_rules t)(class_of (tv_data t) (l_F l) := add_rule (l_Rule l) (tv_rules t (class_of (tv_data t) (l_F l))))"
  by (simp add: add_scope_line_def Let_def)

lemma newTraverser_rules: "set (tv_rules (newTraverser env data ls k d) c) \<subseteq> l_Rule ` set ls"
proof -
  have "\<forall>c. set (tv_rules (newTraverser env data ls k d) c) \<subseteq> l_Rule ` set ls"
    unfolding newTraverser_def
    by (rule fold_invariant_step) (auto simp: add_scope_line_rules add_rule_def)
  then show ?thesis by blast
qed

lemma addLine_rules: "l_Rule ` set (d_Lines (Data_addLine r sg d)) \<subseteq> insert r (l_Rule ` set (d_Lines d))"
  by (auto simp: Data_addLine_def Data_addClass_def Let_def split: option.splits)

lemma addRule_rules: "l_Rule ` set (d_Lines (Data_addRule r d)) \<subseteq> insert r (l_Rule ` set (d_Lines d))"
proof -
  have "l_Rule ` set (d_Lines (fold (Data_addLine r) sgs d)) \<subseteq> insert r (l_Rule ` set (d_Lines d))" for sgs
    by (rule fold_invariant_step) (use addLine_rules [of r] in blast)+
  then show ?thesis by (simp add: Data_addRule_def)
qed

lemma example_rules: "set (tv_rules example_traverser c) \<subseteq> {example_ab}"
  using newTraverser_rules [of example_trav "NewData [example_ab]" "d_Lines (NewData [example_ab])" None "-1" c]
    addRule_rules [of example_ab "\<lparr>d_Nodes = [], d_Lines = [], d_nodeID = Map.empty\<rparr>"]
  by (auto simp: example_traverser_def NewData_def)

lemma example_reach: "finite {q. reach_query example_trav example_traverser q}"
proof (rule finite_subset)
  have "q = example_query" if "r \<in> set (tv_rules example_traverser c)" "q \<in> set (rule_queries r x)" for r c q x
    using that example_rules [of c] by (auto simp: rule_queries_def example_ab_def split: if_splits)
  then show "{q. reach_query example_trav example_traverser q} \<subseteq> {example_query}"
    by (auto elim!: reach_queryE simp: example_trav_def)
qed simp

lemma traverse_terminates_witness: "\<not> (\<forall>i::nat. run_step example_trav example_init example_init)"
  using traverse_terminates [of example_trav "NewData [example_ab]" "d_Lines (NewData [example_ab])" None "-1"
      "\<lambda>_. example_init" 1] example_reach
  by (simp add: example_init_def example_traverser_def)

section \<open>No deadlock\<close>

text \<open>The class whose node a goroutine is going to use.\<close>

fun pc_class :: "('i, 'o) trav_env \<Rightarrow> 'o pc \<Rightarrow> klass option" where
  "pc_class env (PQuery ql) = Some (q_class (ql_Query ql))"
| "pc_class env (PStore ql xs) = Some (q_class (ql_Query ql))"
| "pc_class env PPrime = Some (st_Class (te_start env))"
| "pc_class env pc = will_apply pc"

definition has_node :: "('i, 'o) traverser \<Rightarrow> klass option \<Rightarrow> bool" where
  "has_node t c \<longleftrightarrow> (case c of None \<Rightarrow> True | Some c \<Rightarrow> map_of (tv_nodes t) c \<noteq> None)"

lemma proc_step_has_node:
  assumes "proc_step env ord now m pc t = Some (pc', t')" and "has_node t (pc_class env pc)"
  shows "has_node t' (pc_class env pc')"
proof -
  have "has_node t (pc_class env pc')"
    using assms
    by (induction env ord now m pc t rule: proc_step.induct)
       (auto simp: has_node_def query_admitted_def dedup_check_def Let_def
         split: option.splits prod.splits if_splits)
  then show ?thesis using proc_step_static [OF assms(1)] by (simp add: has_node_def split: option.splits)
qed

lemma proc_step_waits:
  assumes "proc_step env ord now m pc t = None" and "has_node t (pc_class env pc)"
  shows "pc = PGet \<and> items t = [] \<and> \<not> wq_closed (tv_work t) \<or> pc \<in> {PExit, PJoin, PFinished} \<or> pc = PWait \<and> tv_wg t \<noteq> 0"
  using assms
  by (induction env ord now m pc t rule: proc_step.induct)
     (auto simp: has_node_def workQueue_get_def Let_def split: option.splits prod.splits if_splits list.splits)

definition nodes_present :: "('i, 'o) trav_env \<Rightarrow> ('i, 'o) run \<Rightarrow> bool" where
  "nodes_present env st \<longleftrightarrow> list_all (\<lambda>p. has_node (ru_t st) (pc_class env p)) (ru_procs st)"

lemma run_step_nodes_present: "run_step env st st' \<Longrightarrow> nodes_present env st \<Longrightarrow> nodes_present env st'"
proof (induction rule: run_step.induct)
  case (proc i st ord now pc t)
  have "has_node t = has_node (ru_t st)"
    using proc_step_static [OF proc(2)] by (intro ext) (simp add: has_node_def split: option.splits)
  moreover have "has_node t (pc_class env pc)"
    using proc_step_has_node [OF proc(2)] proc(1,4) by (simp add: nodes_present_def list_all_length)
  ultimately show ?case using proc(4) by (auto simp: nodes_present_def list_all_iff dest!: set_update_cases)
qed (auto simp: nodes_present_def has_node_def split: option.splits)

lemma run_init_nodes_present: "nodes_present env (run_init env t n)"
  using getOrCreateNode_has [of env "st_Class (te_start env)" t "st_Class (te_start env)"]
  by (auto simp: nodes_present_def run_init_def has_node_def list_all_iff)

lemma run_step_length: "run_step env st st' \<Longrightarrow> length (ru_procs st') = length (ru_procs st)"
  by (induction rule: run_step.induct) auto

lemma run_reaches_present:
  assumes "(run_step env)\<^sup>*\<^sup>* (run_init env t n) st"
  shows "nodes_present env st \<and> length (ru_procs st) = Suc n"
  using assms
proof (induction rule: rtranclp_induct)
  case base
  show ?case using run_init_nodes_present by (simp add: run_init_def)
next
  case (step y z)
  then show ?case using run_step_nodes_present run_step_length by fastforce
qed

text \<open>A goroutine that does not wait gives a step of the run.\<close>

definition moves :: "('i, 'o) trav_env \<Rightarrow> ('i, 'o) run \<Rightarrow> bool" where
  "moves env st \<longleftrightarrow> (\<exists>st'. run_step env st st' \<and> tv_cancelled (ru_t st') = tv_cancelled (ru_t st))"

lemma proc_moves:
  assumes "i < length (ru_procs st)" and "nodes_present env st"
    and "\<not> (ru_procs st ! i = PGet \<and> items (ru_t st) = [] \<and> \<not> wq_closed (tv_work (ru_t st)))"
    and "ru_procs st ! i \<notin> {PExit, PJoin, PFinished}" and "ru_procs st ! i = PWait \<Longrightarrow> tv_wg (ru_t st) = 0"
  shows "moves env st"
proof -
  have "has_node (ru_t st) (pc_class env (ru_procs st ! i))"
    using assms(1,2) by (simp add: nodes_present_def list_all_length)
  then have "proc_step env (\<lambda>_ rs. rs) zero_time (i = 0) (ru_procs st ! i) (ru_t st) \<noteq> None"
    using proc_step_waits assms(3-5) by blast
  then obtain pc t where step: "proc_step env (\<lambda>_ rs. rs) zero_time (i = 0) (ru_procs st ! i) (ru_t st) = Some (pc, t)"
    by auto
  from run_step.proc [OF assms(1) step] proc_step_static [OF step] show ?thesis
    unfolding moves_def by (intro exI conjI) (assumption | simp)+
qed

lemma not_finished_moves:
  assumes ok: "run_ok st" and present: "nodes_present env st" and len: "1 < length (ru_procs st)"
    and unf: "\<not> run_finished st"
  shows "moves env st"
proof -
  obtain m ws where ms: "ru_procs st = m # ws" "main_pc m" "list_all worker_pc ws"
    using ok by (auto simp: run_ok_def procs_ok_Cons)
  have phase: "past_wait m \<longrightarrow> tv_wg (ru_t st) = 0" "wq_closed (tv_work (ru_t st)) \<longleftrightarrow> m \<in> {PJoin, PFinished}"
    "PExit \<in> set (ru_procs st) \<longrightarrow> wq_closed (tv_work (ru_t st))"
    using ok ms(1) by (auto simp: run_ok_def phase_ok_def)
  have nf: "m \<noteq> PFinished" using unf ms(1) by (simp add: run_finished_def)
  have worker: "moves env st" if w: "j < length ws" "ws ! j \<noteq> PExit"
    "ws ! j = PGet \<longrightarrow> items (ru_t st) \<noteq> [] \<or> wq_closed (tv_work (ru_t st))" for j
    using proc_moves [of "Suc j" st env] present that ms(1,3) by (auto simp: list_all_length worker_pc_def)
  show ?thesis
  proof (cases "m = PJoin")
    case True
    show ?thesis
    proof (cases "list_all (\<lambda>w. w = PExit) ws")
      case all: True
      from join [OF ms(1) [unfolded True] all] show ?thesis unfolding moves_def by fastforce
    next
      case False
      then obtain j where "j < length ws" "ws ! j \<noteq> PExit" by (auto simp: list_all_length)
      then show ?thesis using worker phase(2) True by blast
    qed
  next
    case False
    show ?thesis
    proof (cases "m = PWait \<and> tv_wg (ru_t st) \<noteq> 0")
      case False
      moreover have "m \<noteq> PGet" "m \<noteq> PExit" using ms(2) by auto
      ultimately show ?thesis
        using proc_moves [of 0 st env] present ms(1) nf \<open>m \<noteq> PJoin\<close> by auto
    next
      case True
      then have no_exit: "w \<noteq> PExit" if "w \<in> set ws" for w
        using that phase(2,3) ms(1) by auto
      have "\<exists>w \<in> set ws. w \<noteq> PGet" if "items (ru_t st) = []"
      proof (rule ccontr)
        assume "\<not> ?thesis"
        then have "map wg_share ws = map (\<lambda>_. 0) ws" by auto
        then have "shares st = 0" using True ms(1) by (simp add: shares_def sum_list_0)
        then show False using ok that True by (simp add: run_ok_def wg_ok_def)
      qed
      then obtain j where "j < length ws" "items (ru_t st) = [] \<longrightarrow> ws ! j \<noteq> PGet"
        using len ms(1) by (cases "items (ru_t st) = []") (auto simp: in_set_conv_nth)
      then show ?thesis using worker no_exit by auto
    qed
  qed
qed

text \<open>C7: No deadlock and no waiting for ever: from every state of a run with at least one worker, where
  finitely many queries are derivable, the goroutines can go on to the end of the traversal without any
  cancellation; each of the worker's waits is answered.\<close>

theorem traverse_finishes:
  assumes "(run_step env)\<^sup>*\<^sup>* (run_init env (newTraverser env data ls k d) n) st" and "0 < n"
    and "finite {q. reach_query env (newTraverser env data ls k d) q}"
  shows "\<exists>st'. (run_step env)\<^sup>*\<^sup>* st st' \<and> run_finished st' \<and> tv_cancelled (ru_t st') = tv_cancelled (ru_t st)"
proof -
  let ?r = "measures (run_measures {q. reach_query env (newTraverser env data ls k d) q})"
  have "wf ?r" by (rule wf_measures)
  then show ?thesis
    using assms(1)
  proof (induction st rule: wf_induct_rule)
    case (less st)
    show ?case
    proof (cases "run_finished st")
      case False
      have "moves env st"
        using not_finished_moves [OF run_reaches_ok [OF less(2)] _ _ False] run_reaches_present [OF less(2)] assms(2)
        by simp
      then obtain st1 where st1: "run_step env st st1" "tv_cancelled (ru_t st1) = tv_cancelled (ru_t st)"
        unfolding moves_def by blast
      have "(run_step env)\<^sup>*\<^sup>* (run_init env (newTraverser env data ls k d) n) st1"
        using less(2) st1(1) by (rule rtranclp.rtrancl_into_rtrancl)
      from less(1) [OF reaches_decreases [OF less(2) st1(1) assms(3)] this] st1 show ?thesis
        by (metis converse_rtranclp_into_rtranclp)
    qed blast
  qed
qed

lemma traverse_finishes_witness:
  "\<exists>st :: (string, string) run. (run_step example_trav)\<^sup>*\<^sup>* example_init st \<and> run_finished st \<and> \<not> tv_cancelled (ru_t st)"
proof -
  have "\<not> tv_cancelled (ru_t example_init)"
    by (simp add: example_init_def example_traverser_def run_init_t)
  with traverse_finishes [of example_trav "NewData [example_ab]" "d_Lines (NewData [example_ab])" None "-1" 1
      example_init] example_reach
  show ?thesis by (simp add: example_init_def example_traverser_def)
qed

end
