(* ===== verification/Limits.thy ===== *)
theory Limits
  imports Liveness
begin

text \<open>
  The limit of queries per class. \<open>overLimit\<close> reads the number of queries a node has recorded before a
  query is executed and compares with \<open>>\<close>, and other workers may hold admitted queries that are not
  recorded yet: a class can get more queries than the limit, by at most the number of workers.
\<close>

definition class_executed :: "klass \<Rightarrow> ('i, 'o) run \<Rightarrow> query list" where
  "class_executed c st = filter (\<lambda>q. q_class q = c) (ru_executed st)"

definition node_queries :: "('i, 'o) traverser \<Rightarrow> klass \<Rightarrow> Queries" where
  "node_queries t c = (case map_of (tv_nodes t) c of None \<Rightarrow> [] | Some n \<Rightarrow> tn_queries n)"

text \<open>The query a goroutine is executing, and the one it has executed and not yet recorded.\<close>

fun pc_executing :: "'o pc \<Rightarrow> query option" where
  "pc_executing (PQuery ql) = Some (ql_Query ql)"
| "pc_executing pc = None"

fun pc_stores :: "'o pc \<Rightarrow> query option" where
  "pc_stores (PStore ql xs) = Some (ql_Query ql)"
| "pc_stores pc = None"

definition of_class :: "klass \<Rightarrow> query option \<Rightarrow> nat" where
  "of_class c q = (case q of None \<Rightarrow> 0 | Some q \<Rightarrow> of_bool (q_class q = c))"

lemma node_queries_set_node:
  "node_queries (set_node c n t) c' = (if c' = c then tn_queries n else node_queries t c')"
  by (simp add: node_queries_def set_node_def)

lemma proc_step_node_queries:
  assumes step: "proc_step env ord now m pc t = Some (pc', t')"
  shows "fst ` set (node_queries t c) \<subseteq> fst ` set (node_queries t' c) \<and>
    (pc_stores pc = Some q \<longrightarrow> q_class q = c \<longrightarrow> q \<in> fst ` set (node_queries t' c))"
proof (cases "changes_nodes pc")
  case False
  then have "pc_stores pc = None" by (cases pc) auto
  then show ?thesis using proc_step_same_nodes [OF step False] by (simp add: node_queries_def)
next
  case True
  then consider (store) ql results where "pc = PStore ql results" | (status) ql xs where "pc = PStatus ql xs"
    | (claim) c' d where "pc = PApply c' d" | (prime) "pc = PPrime"
    by (cases pc) auto
  then show ?thesis
  proof cases
    case store
    with step obtain n where n: "map_of (tv_nodes t) (q_class (ql_Query ql)) = Some n"
      and t': "t' = set_node (q_class (ql_Query ql)) (snd (snd (node_store (ql_Query ql) results n))) t"
      by (auto simp: Let_def split: option.splits prod.splits)
    show ?thesis
      using store n by (auto simp: t' node_queries_set_node node_store_def Let_def Queries_Set_keys node_queries_def [of t])
  next
    case status
    with step obtain n where n: "map_of (tv_nodes t) (q_class (ql_Query ql)) = Some n"
      and t': "t' = set_node (q_class (ql_Query ql)) (node_status (ql_Query ql)
        (status_counts (te_status env (q_class (ql_Query ql))) xs) n) t"
      by (auto simp: Let_def split: option.splits)
    show ?thesis
      using status n by (auto simp: t' node_queries_set_node node_status_def Queries_AddStatuses_keys node_queries_def [of t])
  next
    case claim
    with step obtain n where "map_of (tv_nodes t) c' = Some n" "t' = set_node c' (snd (claim_objects n)) t"
      by (auto simp: Let_def split: option.splits prod.splits)
    with claim show ?thesis
      by (auto simp: node_queries_set_node claim_objects_def Let_def node_queries_def [of t])
  next
    case prime
    with step have "node_queries t' c = node_queries t c"
      by (auto simp: Let_def node_queries_set_node node_queries_def [of t] split: option.splits)
    with prime show ?thesis by simp
  qed
qed

lemma proc_step_executing:
  assumes "proc_step env ord now m pc t = Some (pc', t')"
  shows "pc_executing pc' = Some q \<longrightarrow>
      (\<forall>L. Constraint_GetQueryLimit (tv_constraint t) = L \<longrightarrow> L > 0 \<longrightarrow>
        int (length (node_queries t (q_class q))) \<le> L)"
    and "pc_executing pc = Some q \<longrightarrow> pc_stores pc' = Some q \<and> pc_executing pc' = None"
    and "pc_executes pc = (case pc_executing pc of None \<Rightarrow> [] | Some q \<Rightarrow> [q])"
  using assms
  by (induction env ord now m pc t rule: proc_step.induct)
     (auto simp: query_admitted_def overLimit_def node_queries_def section_defs
        split: option.splits prod.splits if_splits list.splits)

lemma proc_step_starts:
  assumes "proc_step env ord now m pc t = Some (pc', t')" and "pc_executing pc' = Some q"
  shows "pc_executing pc = None \<and> pc_stores pc = None \<and> worker_pc pc \<and> \<not> main_pc pc"
  using assms
  by (induction env ord now m pc t rule: proc_step.induct)
     (auto simp: section_defs worker_pc_def split: option.splits prod.splits if_splits list.splits)

definition queries_limited :: "int \<Rightarrow> klass \<Rightarrow> ('i, 'o) run \<Rightarrow> bool" where
  "queries_limited L c st \<longleftrightarrow>
     Constraint_GetQueryLimit (tv_constraint (ru_t st)) = L \<and>
     (\<forall>q \<in> set (class_executed c st). q \<in> fst ` set (node_queries (ru_t st) c) \<or>
        (\<exists>p \<in> set (ru_procs st). pc_stores p = Some q)) \<and>
     length (class_executed c st) + total_of (\<lambda>p. of_class c (pc_executing p)) st
       \<le> nat L + (length (ru_procs st) - 1)"

lemma stores_card:
  "card {q. q_class q = c \<and> (\<exists>p \<in> set ps. pc_stores p = Some q)} \<le> sum_list (map (\<lambda>p. of_class c (pc_stores p)) ps)"
proof (induction ps)
  case (Cons p ps)
  let ?S = "\<lambda>ps. {q. q_class q = c \<and> (\<exists>p \<in> set ps. pc_stores p = Some q)}"
  have "?S (p # ps) = ?S [p] \<union> ?S ps" by auto
  moreover have "card (?S [p]) \<le> of_class c (pc_stores p)"
  proof (cases "pc_stores p")
    case (Some q)
    then have "?S [p] = (if q_class q = c then {q} else {})" by auto
    then show ?thesis by (simp add: Some of_class_def)
  qed (simp add: of_class_def)
  ultimately show ?case using card_Un_le [of "?S [p]" "?S ps"] Cons by simp
qed simp

text \<open>A goroutine holds at most one query, the main goroutine and one that is just starting none.\<close>

lemma holding_le: "of_class c (pc_stores p) + of_class c (pc_executing p) \<le> 1"
  by (cases p) (auto simp: of_class_def)

lemma sum_holding_le:
  "sum_list (map (\<lambda>p. of_class c (pc_stores p)) ps) + sum_list (map (\<lambda>p. of_class c (pc_executing p)) ps) \<le> length ps"
proof (induction ps)
  case (Cons p ps)
  then show ?case using holding_le [of c p] by simp
qed simp

lemma holding_without:
  assumes "i < length ps" and "pc_stores (ps ! i) = None" and "pc_executing (ps ! i) = None"
  shows "sum_list (map (\<lambda>p. of_class c (pc_stores p)) ps) + sum_list (map (\<lambda>p. of_class c (pc_executing p)) ps)
    \<le> length ps - 1"
proof -
  have ps: "ps = take i ps @ ps ! i # drop (Suc i) ps" using assms(1) by (rule id_take_nth_drop)
  show ?thesis
    using sum_holding_le [of c "take i ps"] sum_holding_le [of c "drop (Suc i) ps"] assms
    by (subst (1 2) ps) (simp add: of_class_def)
qed

lemma executed_le:
  assumes "distinct (class_executed c st)"
    and "\<forall>q \<in> set (class_executed c st). q \<in> fst ` set (node_queries (ru_t st) c) \<or>
        (\<exists>p \<in> set (ru_procs st). pc_stores p = Some q)"
  shows "length (class_executed c st)
    \<le> length (node_queries (ru_t st) c) + total_of (\<lambda>p. of_class c (pc_stores p)) st"
proof -
  let ?K = "fst ` set (node_queries (ru_t st) c)" and ?S = "{q. q_class q = c \<and> (\<exists>p \<in> set (ru_procs st). pc_stores p = Some q)}"
  have fin: "finite ?S"
    by (rule finite_subset [of _ "(\<lambda>p. the (pc_stores p)) ` set (ru_procs st)"]) force+
  have "set (class_executed c st) \<subseteq> ?K \<union> ?S" using assms(2) by (auto simp: class_executed_def)
  then have "card (set (class_executed c st)) \<le> card (?K \<union> ?S)" using fin by (intro card_mono) auto
  also have "\<dots> \<le> card ?K + card ?S" by (rule card_Un_le)
  also have "card ?K \<le> length (node_queries (ru_t st) c)" by (metis card_length length_map list.set_map)
  finally show ?thesis
    using stores_card [of c "ru_procs st"] assms(1) by (simp add: distinct_card total_of_def)
qed

lemma worker_holding:
  assumes "procs_ok st" and "i < length (ru_procs st)" and "\<not> main_pc (ru_procs st ! i)"
    and "pc_stores (ru_procs st ! i) = None" and "pc_executing (ru_procs st ! i) = None"
  shows "total_of (\<lambda>p. of_class c (pc_stores p)) st + total_of (\<lambda>p. of_class c (pc_executing p)) st + 1
    \<le> length (ru_procs st) - 1"
proof -
  obtain m ws where ms: "ru_procs st = m # ws" "main_pc m" using assms(1) by (auto simp: procs_ok_Cons)
  then obtain j where j: "i = Suc j" "j < length ws" using assms(2,3) by (cases i) auto
  moreover have "pc_stores m = None" "pc_executing m = None" using ms(2) by (cases m; simp)+
  ultimately show ?thesis
    using holding_without [of j ws c] assms(4,5) ms(1) by (simp add: total_of_def of_class_def)
qed

lemma executed_history:
  "length (class_executed c (record_history pc t st)) = length (class_executed c st) + of_class c (pc_executing pc)"
  by (cases pc) (auto simp: class_executed_def ru_executed_history of_class_def)

lemma step_class_executed:
  assumes "proc_step env ord now m (ru_procs st ! i) (ru_t st) = Some (pc, t)" and "i < length (ru_procs st)"
    and "queries_limited L c st"
    and "q \<in> set (class_executed c (record_history (ru_procs st ! i) (ru_t st) st))"
  shows "q \<in> fst ` set (node_queries t c) \<or> (\<exists>p \<in> set ((ru_procs st)[i := pc]). pc_stores p = Some q)"
proof -
  let ?p = "ru_procs st ! i"
  have mem: "pc \<in> set ((ru_procs st)[i := pc])" by (rule set_update_memI [OF assms(2)])
  consider (new) "pc_executing ?p = Some q" | (old) "q \<in> set (class_executed c st)"
    using assms(4) proc_step_executing(3) [OF assms(1)]
    by (auto simp: class_executed_def ru_executed_history split: option.splits)
  then show ?thesis
  proof cases
    case new
    then show ?thesis using proc_step_executing(2) [OF assms(1)] mem by blast
  next
    case old
    then have c: "q_class q = c" by (simp add: class_executed_def)
    from old assms(3) consider "q \<in> fst ` set (node_queries (ru_t st) c)"
      | "\<exists>p \<in> set (ru_procs st). pc_stores p = Some q"
      unfolding queries_limited_def by blast
    then show ?thesis
    proof cases
      case 1
      then show ?thesis using proc_step_node_queries [OF assms(1), of c q] by blast
    next
      case 2
      have "pc_stores ?p = Some q \<Longrightarrow> pc_stores pc = Some q \<or> q \<in> fst ` set (node_queries t c)"
        using proc_step_node_queries [OF assms(1), of c q] c by blast
      from ex_step [OF 2 assms(2) this] show ?thesis .
    qed
  qed
qed

lemma run_step_limited:
  "run_step env st st' \<Longrightarrow> 0 < L \<Longrightarrow> run_ok st \<Longrightarrow> tokens_ok st \<Longrightarrow> queries_limited L c st \<Longrightarrow> queries_limited L c st'"
proof (induction rule: run_step.induct)
  case (proc i st ord now pc t)
  let ?p = "ru_procs st ! i"
  let ?st' = "(record_history ?p (ru_t st) st)\<lparr>ru_t := t, ru_procs := (ru_procs st)[i := pc]\<rparr>"
  have lim: "Constraint_GetQueryLimit (tv_constraint (ru_t st)) = L"
    and sub: "\<forall>q \<in> set (class_executed c st). q \<in> fst ` set (node_queries (ru_t st) c) \<or>
        (\<exists>p \<in> set (ru_procs st). pc_stores p = Some q)"
    and le: "length (class_executed c st) + total_of (\<lambda>p. of_class c (pc_executing p)) st
       \<le> nat L + (length (ru_procs st) - 1)"
    using proc(7) unfolding queries_limited_def by blast+
  have lim': "Constraint_GetQueryLimit (tv_constraint t) = L"
    using proc_step_constraint [OF proc(2)] lim proc(4)
    by (auto simp: get_defaults_def Constraint_GetQueryLimit_def Default_fields split: option.splits)
  have sum: "total_of f ?st' + f ?p = total_of f st + f pc" for f :: "_ \<Rightarrow> nat"
    by (rule total_of_update [OF proc(1)]) simp
  have "length (class_executed c st) + of_class c (pc_executing ?p) + total_of (\<lambda>p. of_class c (pc_executing p)) ?st'
      \<le> nat L + (length (ru_procs st) - 1)"
  proof (cases "\<exists>q. pc_executing pc = Some q \<and> q_class q = c")
    case False
    then have "of_class c (pc_executing pc) = 0" by (auto simp: of_class_def split: option.splits)
    then show ?thesis using sum [of "\<lambda>p. of_class c (pc_executing p)"] le by simp
  next
    case True
    then obtain q where q: "pc_executing pc = Some q" "q_class q = c" by blast
    then have p: "pc_executing ?p = None" "pc_stores ?p = None"
      using proc_step_executing(1,2) [OF proc(2)] proc_step_starts [OF proc(2)] by fastforce+
    have "int (length (node_queries (ru_t st) c)) \<le> L"
      using proc_step_executing(1) [OF proc(2), of q] q lim proc(4) by blast
    moreover have "length (class_executed c st)
        \<le> length (node_queries (ru_t st) c) + total_of (\<lambda>p. of_class c (pc_stores p)) st"
      using executed_le [OF _ sub] tokens_ok_executed [OF proc(6)] by (simp add: class_executed_def)
    moreover have "total_of (\<lambda>p. of_class c (pc_stores p)) st + total_of (\<lambda>p. of_class c (pc_executing p)) st + 1
        \<le> length (ru_procs st) - 1"
      using worker_holding [of st i c] proc(1,5) p proc_step_starts [OF proc(2) q(1)] by (simp add: run_ok_def)
    ultimately show ?thesis using sum [of "\<lambda>p. of_class c (pc_executing p)"] q p by (simp add: of_class_def)
  qed
  then show ?case
    using lim' step_class_executed [OF proc(2,1,7)] executed_history [of c ?p "ru_t st" st]
    by (simp add: queries_limited_def class_executed_def)
qed (auto simp: queries_limited_def class_executed_def total_of_def node_queries_def)

lemma run_init_limited:
  "Constraint_GetQueryLimit k = L \<Longrightarrow> queries_limited L c (run_init env (newTraverser env data ls k d) n)"
  by (simp add: queries_limited_def run_init_def class_executed_def total_of_def of_class_def sum_list_replicate)

lemma run_reaches_limited:
  assumes "(run_step env)\<^sup>*\<^sup>* (run_init env (newTraverser env data ls k d) n) st"
    and "Constraint_GetQueryLimit k = L" and "0 < L"
  shows "run_ok st \<and> tokens_ok st \<and> queries_limited L c st"
  using assms(1)
proof (induction rule: rtranclp_induct)
  case base
  then show ?case using run_init_ok run_init_tokens run_init_limited [OF assms(2)] by blast
next
  case (step y z)
  then show ?case using run_step_ok run_step_tokens run_step_limited [OF _ assms(3)] by blast
qed

text \<open>C8: With a query limit L > 0 and n workers a traversal executes at most L + n queries of a class
  (not L: \<open>overLimit\<close> compares with \<open>>\<close>, and each worker may hold an admitted query).\<close>

theorem traverse_query_limit:
  assumes "(run_step env)\<^sup>*\<^sup>* (run_init env (newTraverser env data ls k d) n) st"
    and "0 < Constraint_GetQueryLimit k"
  shows "length (filter (\<lambda>q. q_class q = c) (ru_executed st)) \<le> nat (Constraint_GetQueryLimit k) + n"
proof -
  have "queries_limited (Constraint_GetQueryLimit k) c st"
    using run_reaches_limited [OF assms(1) refl assms(2)] by blast
  then show ?thesis
    using run_reaches_present [OF assms(1)] by (simp add: queries_limited_def class_executed_def)
qed

text \<open>One worker, a limit of one query and three start queries: two are executed.\<close>

definition limit_query :: "string \<Rightarrow> query" where
  "limit_query s = \<lparr>q_class = Klass ''mock'' ''a'', q_data = s, q_ptr = length s\<rparr>"

definition limit_constraint :: Constraint where
  "limit_constraint = \<lparr>c_Limit = None, c_QueryLimit = Some 1, c_Start = None, c_End = None\<rparr>"

definition limit_trav :: "(string, string) trav_env" where
  "limit_trav = \<lparr>te_start = \<lparr>st_Class = Klass ''mock'' ''a'', st_Objects = [],
       st_Queries = [limit_query ''p'', limit_query ''qq'', limit_query ''rrr'']\<rparr>,
     te_get = (\<lambda>q. [q_data q]), te_status = (\<lambda>_. []), te_ider = (\<lambda>_. Some (\<lambda>x. x))\<rparr>"

definition limit_init :: "(string, string) run" where
  "limit_init = run_init limit_trav (newTraverser limit_trav (NewData []) [] (Some limit_constraint) (-1)) 1"

definition limit_schedule :: "nat list" where
  "limit_schedule = replicate 14 0 @ replicate 19 1 @ [0, 0, 1, 0]"

lemma limit_exec:
  "case exec limit_trav limit_schedule limit_init of
     None \<Rightarrow> False
   | Some st \<Rightarrow> map q_data (ru_executed st) = [''p'', ''qq''] \<and>
       filter (\<lambda>q. q_class q = Klass ''mock'' ''a'') (ru_executed st) = ru_executed st"
  by code_simp

lemma traverse_query_limit_witness:
  "\<exists>st :: (string, string) run. (run_step limit_trav)\<^sup>*\<^sup>* limit_init st \<and>
     length (filter (\<lambda>q. q_class q = Klass ''mock'' ''a'') (ru_executed st)) = nat (Constraint_GetQueryLimit (Some limit_constraint)) + 1"
proof -
  obtain st where st: "exec limit_trav limit_schedule limit_init = Some st" "map q_data (ru_executed st) = [''p'', ''qq'']"
    "filter (\<lambda>q. q_class q = Klass ''mock'' ''a'') (ru_executed st) = ru_executed st"
    using limit_exec by (auto split: option.splits simp: filter_id_conv)
  have L: "Constraint_GetQueryLimit (Some limit_constraint) = 1" by (simp add: limit_constraint_def Constraint_GetQueryLimit_def)
  have "length (ru_executed st) = 2" using st(2) by (metis length_Cons length_map list.size(3) numeral_2_eq_2)
  moreover have "length (filter (\<lambda>q. q_class q = Klass ''mock'' ''a'') (ru_executed st))
      \<le> nat (Constraint_GetQueryLimit (Some limit_constraint)) + 1"
    using traverse_query_limit [of limit_trav "NewData []" "[]" "Some limit_constraint" "-1" 1 st "Klass ''mock'' ''a''"]
      exec_run_steps [OF st(1)] L by (simp add: limit_init_def)
  ultimately show ?thesis using exec_run_steps [OF st(1)] st(3) L by (intro exI [of _ st]) simp
qed

end
