(* ===== verification/Dynamic.thy ===== *)
theory Dynamic
  imports Rules
begin

text \<open>
  Dynamically typed Go values as the domains and the compiled rules use them: type assertions that
  panic or report, maps of any values, the parts of \<open>strings\<close> they call, and the sequencing of code that
  may panic. The helper functions of \<open>pkg/rules/quickrules/k8s_helpers.go\<close> that walk such values are here
  too; the regular expression of \<open>csvPartOfName\<close> is translated to the cuts it describes.
\<close>

section \<open>Code that may panic\<close>

fun go_bind :: "'a go \<Rightarrow> ('a \<Rightarrow> 'b go) \<Rightarrow> 'b go" where
  "go_bind (Returns a) f = f a"
| "go_bind (Panics p) f = Panics p"

lemma go_bind_Returns_iff [go_results]:
  "go_bind m f = Returns b \<longleftrightarrow> (\<exists>a. m = Returns a \<and> f a = Returns b)"
  by (cases m) auto

text \<open>What the writes of a template produce, in order; the first panic ends it.\<close>

fun go_write :: "string go list \<Rightarrow> string go" where
  "go_write [] = Returns []"
| "go_write (m # ms) = go_bind m (\<lambda>s. go_bind (go_write ms) (\<lambda>t. Returns (s @ t)))"

definition go_each :: "('a \<Rightarrow> string go) \<Rightarrow> 'a list \<Rightarrow> string go" where
  "go_each f xs = go_write (map f xs)"

fun go_maps :: "('a \<Rightarrow> 'b list go) \<Rightarrow> 'a list \<Rightarrow> 'b list go" where
  "go_maps f [] = Returns []"
| "go_maps f (x # xs) = go_bind (f x) (\<lambda>ys. go_bind (go_maps f xs) (\<lambda>zs. Returns (ys @ zs)))"

lemma go_write_Returns [go_results]:
  "go_write ms = Returns t \<longleftrightarrow> (\<exists>ss. ms = map Returns ss \<and> t = concat ss)"
proof (induction ms arbitrary: t)
  case (Cons m ms)
  show ?case
  proof
    assume "go_write (m # ms) = Returns t"
    then obtain s u where "m = Returns s" "go_write ms = Returns u" "t = s @ u"
      by (auto simp: go_bind_Returns_iff)
    with Cons show "\<exists>ss. m # ms = map Returns ss \<and> t = concat ss" by (metis concat.simps(2) list.map(2))
  next
    assume "\<exists>ss. m # ms = map Returns ss \<and> t = concat ss"
    then obtain s ss where "m = Returns s" "ms = map Returns ss" "t = s @ concat ss" by auto
    with Cons show "go_write (m # ms) = Returns t" by (auto simp: go_bind_Returns_iff)
  qed
qed auto

lemma go_each_Returns:
  "go_each f xs = Returns t \<longleftrightarrow> (\<exists>ss. list_all2 (\<lambda>x s. f x = Returns s) xs ss \<and> t = concat ss)"
proof (induction xs arbitrary: t)
  case (Cons x xs)
  have "go_each f (x # xs) = Returns t \<longleftrightarrow> (\<exists>s u. f x = Returns s \<and> go_each f xs = Returns u \<and> t = s @ u)"
    by (auto simp: go_each_def go_bind_Returns_iff)
  also have "\<dots> \<longleftrightarrow> (\<exists>ss. list_all2 (\<lambda>x s. f x = Returns s) (x # xs) ss \<and> t = concat ss)"
    unfolding Cons by (auto simp: list_all2_Cons1) (metis concat.simps(2))
  finally show ?case .
qed (auto simp: go_each_def)

section \<open>Strings\<close>

definition strings_Contains :: "string \<Rightarrow> string \<Rightarrow> bool" where
  "strings_Contains s sub \<longleftrightarrow> strings_Index s sub \<noteq> None"

definition strings_HasSuffix :: "string \<Rightarrow> string \<Rightarrow> bool" where
  "strings_HasSuffix s p \<longleftrightarrow> strings_HasPrefix (rev s) (rev p)"

definition is_digit :: "char \<Rightarrow> bool" where
  "is_digit c \<longleftrightarrow> of_char c \<in> {48..57::nat}"

definition is_upper :: "char \<Rightarrow> bool" where
  "is_upper c \<longleftrightarrow> of_char c \<in> {65..90::nat}"

definition is_lower :: "char \<Rightarrow> bool" where
  "is_lower c \<longleftrightarrow> of_char c \<in> {97..122::nat}"

text \<open>\<open>strings.ToLower\<close> of an ASCII string.\<close>

definition strings_ToLower :: "string \<Rightarrow> string" where
  "strings_ToLower s = map (\<lambda>c. if is_upper c then char_of (of_char c + 32 :: nat) else c) s"

section \<open>Maps and type assertions\<close>

type_synonym gomap = "(string \<times> go_value) list"
type_synonym smap = "(string \<times> string) list"

definition gomap_get :: "gomap \<Rightarrow> string \<Rightarrow> go_value" where
  "gomap_get m k = ptr_Deref VNil (map_of m k)"

definition smap_get :: "smap \<Rightarrow> string \<Rightarrow> string" where
  "smap_get m k = ptr_Deref [] (map_of m k)"

fun dyn_type :: "go_value \<Rightarrow> string" where
  "dyn_type VNil = ''nil''"
| "dyn_type (VBool b) = ''bool''"
| "dyn_type (VInt i) = ''int64''"
| "dyn_type (VString s) = ''string''"
| "dyn_type (VSlice xs) = ''[]interface {}''"
| "dyn_type (VMap m) = ''map[string]interface {}''"
| "dyn_type (VMaps ms) = ''[]map[string]interface {}''"
| "dyn_type (VStruct fs) = ''struct''"
| "dyn_type (VPointer p) = ''pointer''"

definition conversion_panic :: "string \<Rightarrow> string \<Rightarrow> 'a go" where
  "conversion_panic have_type want = Panics (''interface conversion: interface {} is '' @ have_type @ '', not '' @ want)"

definition maybe_map :: "go_value \<Rightarrow> gomap option" where
  "maybe_map v = (case v of VMap m \<Rightarrow> Some (ptr_Deref [] m) | _ \<Rightarrow> None)"

definition as_map :: "go_value \<Rightarrow> gomap go" where
  "as_map v = (case maybe_map v of Some m \<Rightarrow> Returns m | None \<Rightarrow> conversion_panic (dyn_type v) ''map[string]interface {}'')"

definition maybe_string :: "go_value \<Rightarrow> string option" where
  "maybe_string v = (case v of VString s \<Rightarrow> Some s | _ \<Rightarrow> None)"

definition as_string :: "go_value \<Rightarrow> string go" where
  "as_string v = (case maybe_string v of Some s \<Rightarrow> Returns s | None \<Rightarrow> conversion_panic (dyn_type v) ''string'')"

text \<open>\<open>s, _ := v.(string)\<close>, and the same for a map.\<close>

definition string_or_blank :: "go_value \<Rightarrow> string" where
  "string_or_blank v = ptr_Deref [] (maybe_string v)"

definition map_or_nil :: "go_value \<Rightarrow> gomap" where
  "map_or_nil v = ptr_Deref [] (maybe_map v)"

definition go_index :: "'a list \<Rightarrow> nat \<Rightarrow> 'a go" where
  "go_index xs i =
     (if i < length xs then Returns (xs ! i)
      else Panics (''runtime error: index out of range ['' @ show_nat i @ ''] with length '' @ show_nat (length xs)))"

definition Require_string :: "string \<Rightarrow> string go" where
  "Require_string s = go_bind (Require (VString s)) (\<lambda>_. Returns s)"

definition Default_string :: "string \<Rightarrow> string \<Rightarrow> string" where
  "Default_string dflt s = (if Empty (VString s) then dflt else s)"

definition strings_value :: "string list \<Rightarrow> go_value" where
  "strings_value xs = VSlice (Some (map VString xs))"

definition smap_value :: "smap \<Rightarrow> go_value" where
  "smap_value m = VMap (Some (map (\<lambda>(k, v). (k, VString v)) m))"

section \<open>k8s\_helpers.go\<close>

definition mapSlice :: "gomap \<Rightarrow> string \<Rightarrow> go_value list" where
  "mapSlice m key =
     (case gomap_get m key of
        VSlice v \<Rightarrow> ptr_Deref [] v
      | VMaps v \<Rightarrow> map VMap (ptr_Deref [] v)
      | _ \<Rightarrow> [])"

text \<open>\<open>k8sMetadata\<close> of an object that is a \<open>k8s.Object\<close>.\<close>

definition k8sMetadata :: "gomap \<Rightarrow> gomap \<times> gomap \<times> string \<times> string \<times> string" where
  "k8sMetadata obj =
     (let metadata = map_or_nil (gomap_get obj ''metadata'');
          ns = string_or_blank (gomap_get metadata ''namespace'');
          name = string_or_blank (gomap_get metadata ''name'');
          kind = string_or_blank (gomap_get obj ''kind'')
      in (obj, metadata, ns, name, kind))"

definition isCustomResource :: "gomap \<Rightarrow> bool" where
  "isCustomResource obj =
     (let apiVersion = string_or_blank (gomap_get obj ''apiVersion'');
          (group, _, _) = strings_Cut apiVersion (CHR ''/'')
      in if group = apiVersion then False
         else strings_Contains group ''.'' \<and> \<not> strings_HasSuffix group ''.k8s.io'')"

text \<open>\<open>if svc, ok := x["service"].(map[string]any); ok { append svc["name"].(string) }\<close>, for any keys.\<close>

definition name_of :: "gomap \<Rightarrow> string \<Rightarrow> string \<Rightarrow> string list go" where
  "name_of m key field =
     (case maybe_map (gomap_get m key) of
        None \<Rightarrow> Returns []
      | Some s \<Rightarrow> go_bind (as_string (gomap_get s field)) (\<lambda>n. Returns [n]))"

definition ingress_rule_names :: "go_value \<Rightarrow> string list go" where
  "ingress_rule_names r =
     go_bind (as_map r) (\<lambda>rule.
       case maybe_map (gomap_get rule ''http'') of
         None \<Rightarrow> Returns []
       | Some httpRule \<Rightarrow>
           go_maps (\<lambda>p. go_bind (as_map p) (\<lambda>path.
             case maybe_map (gomap_get path ''backend'') of
               None \<Rightarrow> Returns []
             | Some backend \<Rightarrow> name_of backend ''service'' ''name'')) (mapSlice httpRule ''paths''))"

definition ingressServiceNames :: "gomap \<Rightarrow> string list go" where
  "ingressServiceNames obj =
     go_bind (as_map (gomap_get obj ''spec'')) (\<lambda>spec.
     go_bind (case maybe_map (gomap_get spec ''defaultBackend'') of
                None \<Rightarrow> Returns []
              | Some db \<Rightarrow> name_of db ''service'' ''name'') (\<lambda>dflt.
     go_bind (go_maps ingress_rule_names (mapSlice spec ''rules'')) (\<lambda>names.
     Returns (dflt @ names))))"

definition volume_secrets :: "go_value \<Rightarrow> string list go" where
  "volume_secrets v =
     go_bind (as_map v) (\<lambda>vol.
     go_bind (name_of vol ''secret'' ''secretName'') (\<lambda>a.
     go_bind (go_maps (\<lambda>ciKey.
         case maybe_map (gomap_get vol ciKey) of
           None \<Rightarrow> Returns []
         | Some ci \<Rightarrow>
             go_bind (name_of ci ''secretRef'' ''name'') (\<lambda>x.
             go_bind (name_of ci ''networkDataSecretRef'' ''name'') (\<lambda>y. Returns (x @ y))))
       [''cloudInitNoCloud'', ''cloudInitConfigDrive'']) (\<lambda>b.
     go_bind (case maybe_map (gomap_get vol ''sysprep'') of
                None \<Rightarrow> Returns []
              | Some sp \<Rightarrow> name_of sp ''secret'' ''name'') (\<lambda>c.
     Returns (a @ b @ c)))))"

definition cred_secrets :: "go_value \<Rightarrow> string list go" where
  "cred_secrets c =
     go_bind (as_map c) (\<lambda>cred.
       go_maps (\<lambda>credKey.
         case maybe_map (gomap_get cred credKey) of
           None \<Rightarrow> Returns []
         | Some entry \<Rightarrow>
             (case maybe_map (gomap_get entry ''source'') of
                None \<Rightarrow> Returns []
              | Some src \<Rightarrow> name_of src ''secret'' ''secretName''))
         [''sshPublicKey'', ''userPassword''])"

definition kvSecretNames :: "go_value list \<Rightarrow> go_value list \<Rightarrow> string list go" where
  "kvSecretNames volumes creds =
     go_bind (go_maps volume_secrets volumes) (\<lambda>a.
     go_bind (go_maps cred_secrets creds) (\<lambda>b. Returns (a @ b)))"

definition kvConfigMapNames :: "go_value list \<Rightarrow> string list go" where
  "kvConfigMapNames volumes =
     go_maps (\<lambda>v. go_bind (as_map v) (\<lambda>vol.
       go_bind (name_of vol ''configMap'' ''name'') (\<lambda>a.
       go_bind (case maybe_map (gomap_get vol ''sysprep'') of
                  None \<Rightarrow> Returns []
                | Some sp \<Rightarrow> name_of sp ''configMap'' ''name'') (\<lambda>b.
       Returns (a @ b))))) volumes"

text \<open>\<open>csvVersionRE\<close>: \<open>.v\<close>, a semantic version and the end of the text. Every part of the expression is
  delimited by what follows it, so the match from a position is determined.\<close>

definition semver_char :: "char \<Rightarrow> bool" where
  "semver_char c \<longleftrightarrow> is_digit c \<or> is_upper c \<or> is_lower c \<or> c = CHR ''.'' \<or> c = CHR ''-''"

definition cut_digits :: "string \<Rightarrow> string option" where
  "cut_digits s = (if s \<noteq> [] \<and> is_digit (hd s) then Some (dropWhile is_digit s) else None)"

definition cut_char :: "char \<Rightarrow> string \<Rightarrow> string option" where
  "cut_char c s = (case s of [] \<Rightarrow> None | d # t \<Rightarrow> if d = c then Some t else None)"

text \<open>An optional \<open>c[0-9A-Za-z.-]+\<close>.\<close>

definition cut_suffix :: "char \<Rightarrow> string \<Rightarrow> string" where
  "cut_suffix c s =
     (case cut_char c s of
        None \<Rightarrow> s
      | Some t \<Rightarrow> if t \<noteq> [] \<and> semver_char (hd t) then dropWhile semver_char t else s)"

definition is_csv_version :: "string \<Rightarrow> bool" where
  "is_csv_version s \<longleftrightarrow>
     (case Option.bind (cut_char (CHR ''.'') s) (\<lambda>s.
           Option.bind (cut_char (CHR ''v'') s) (\<lambda>s.
           Option.bind (cut_digits s) (\<lambda>s.
           Option.bind (cut_char (CHR ''.'') s) (\<lambda>s.
           Option.bind (cut_digits s) (\<lambda>s.
           Option.bind (cut_char (CHR ''.'') s) cut_digits))))) of
        None \<Rightarrow> False
      | Some s \<Rightarrow> cut_suffix (CHR ''+'') (cut_suffix (CHR ''-'') s) = [])"

text \<open>\<open>ReplaceAllString\<close> with the empty string: the leftmost match, which reaches the end.\<close>

fun csvPartOfName :: "string \<Rightarrow> string" where
  "csvPartOfName [] = []"
| "csvPartOfName (c # cs) = (if is_csv_version (c # cs) then [] else c # csvPartOfName cs)"

lemma csvPartOfName_example:
  "csvPartOfName ''elasticsearch-operator.v5.8.1-rc.2+build'' = ''elasticsearch-operator''"
  "csvPartOfName ''plain'' = ''plain''"
  by code_simp+

end
