(* ===== verification/Wire.thy ===== *)
theory Wire
  imports Dynamic "HOL-Library.Word"
begin

text \<open>
  \<open>internal/pkg/types\<close>: numbers, durations and times in protobuf's JSON coding. An \<open>int64\<close> is a 64-bit
  word read with \<open>sint\<close>; a \<open>time.Duration\<close> is an \<open>int64\<close> of nanoseconds. The bytes an \<open>UnmarshalJSON\<close>
  gets from the JSON package are a valid JSON value, so \<open>json.Unmarshal\<close> into one of these types is its
  \<open>UnmarshalJSON\<close>. A method that assigns its receiver and returns an error gives both.
\<close>

type_synonym int64 = "64 word"

definition max_int64 :: int where "max_int64 = 9223372036854775807"
definition min_int64 :: int where "min_int64 = -9223372036854775808"

section \<open>strconv.ParseInt\<close>

definition digit_value :: "char \<Rightarrow> nat" where
  "digit_value c = of_char c - 48"

definition digits_value :: "string \<Rightarrow> nat" where
  "digits_value s = foldl (\<lambda>n c. 10 * n + digit_value c) 0 s"

text \<open>\<open>strconv.ParseInt(s, 10, 64)\<close>: the value and whether there was no error. A syntax error gives 0, a
  value out of range the nearest bound.\<close>

definition ParseInt :: "string \<Rightarrow> int \<times> bool" where
  "ParseInt s =
     (let (neg, ds) = (case s of [] \<Rightarrow> (False, []) | c # t \<Rightarrow> if c = CHR ''-'' then (True, t)
                         else if c = CHR ''+'' then (False, t) else (False, s))
      in if ds = [] \<or> \<not> list_all is_digit ds then (0, False)
         else (let n = (if neg then - int (digits_value ds) else int (digits_value ds))
               in if n < min_int64 then (min_int64, False)
                  else if max_int64 < n then (max_int64, False) else (n, True)))"

section \<open>ProtobufInt\<close>

definition ProtobufInt_UnmarshalJSON :: "string \<Rightarrow> int64 \<times> bool" where
  "ProtobufInt_UnmarshalJSON data =
     (let data = (if length data > 2 \<and> hd data = quote_char \<and> last data = quote_char
                  then take (length data - 2) (tl data) else data);
          (n, ok) = ParseInt data
      in (word_of_int n, ok))"

definition ProtobufInt_MarshalJSON :: "int64 \<Rightarrow> string" where
  "ProtobufInt_MarshalJSON i =
     (if sint i < 2147483647 \<and> sint i > -2147483648 then show_int (sint i)
      else quoted (show_int (sint i)))"

section \<open>Durations\<close>

text \<open>Go's integer division rounds towards zero.\<close>

definition quot :: "int \<Rightarrow> int \<Rightarrow> int" where
  "quot a b = sgn a * sgn b * (\<bar>a\<bar> div \<bar>b\<bar>)"

definition Milliseconds :: "int64 \<Rightarrow> int64" where
  "Milliseconds d = word_of_int (quot (sint d) 1000000)"

definition MilliDuration_MarshalJSON :: "int64 \<Rightarrow> string" where
  "MilliDuration_MarshalJSON d = ProtobufInt_MarshalJSON (Milliseconds d)"

definition MilliDuration_UnmarshalJSON :: "string \<Rightarrow> int64 \<times> bool" where
  "MilliDuration_UnmarshalJSON data =
     (let (n, ok) = ProtobufInt_UnmarshalJSON data in (n * 1000000, ok))"

definition NanoDuration_MarshalJSON :: "int64 \<Rightarrow> string" where
  "NanoDuration_MarshalJSON d = ProtobufInt_MarshalJSON d"

definition NanoDuration_UnmarshalJSON :: "string \<Rightarrow> int64 \<times> bool" where
  "NanoDuration_UnmarshalJSON data = ProtobufInt_UnmarshalJSON data"

section \<open>Times\<close>

text \<open>The Unix epoch, in nanoseconds since Go's zero time.\<close>

definition unix_epoch :: time where
  "unix_epoch = 62135596800 * second"

definition time_Unix :: "int64 \<Rightarrow> time" where
  "time_Unix nsec = unix_epoch + sint nsec"

definition UnixNano :: "time \<Rightarrow> int64" where
  "UnixNano t = word_of_int (t - unix_epoch)"

definition UnixNanoTime_MarshalJSON :: "time \<Rightarrow> string" where
  "UnixNanoTime_MarshalJSON t = ProtobufInt_MarshalJSON (UnixNano t)"

definition UnixNanoTime_UnmarshalJSON :: "string \<Rightarrow> time \<times> bool" where
  "UnixNanoTime_UnmarshalJSON data =
     (let (n, ok) = ProtobufInt_UnmarshalJSON data in (time_Unix n, ok))"

section \<open>Decimal numbers\<close>

lemma digit_char_props:
  assumes "d < 10"
  shows "is_digit (digit_char d)" "digit_value (digit_char d) = d"
proof -
  have "of_char (digit_char d) = 48 + d" using assms by (simp add: digit_char_def)
  then show "is_digit (digit_char d)" "digit_value (digit_char d) = d"
    using assms by (auto simp: is_digit_def digit_value_def)
qed

lemma digits_value_snoc: "digits_value (s @ [c]) = 10 * digits_value s + digit_value c"
  by (simp add: digits_value_def)

lemma show_nat_digits: "list_all is_digit (show_nat n) \<and> show_nat n \<noteq> [] \<and> digits_value (show_nat n) = n"
proof (induction n rule: show_nat.induct)
  case (1 n)
  show ?case
  proof (cases "n < 10")
    case True
    then show ?thesis
      by (simp add: show_nat.simps [of n] digit_char_props digits_value_snoc [of "[]", simplified] digits_value_def)
  next
    case False
    then show ?thesis
      using 1 by (simp add: show_nat.simps [of n] digit_char_props digits_value_snoc)
  qed
qed

lemma digit_not_sign: "is_digit c \<Longrightarrow> c \<noteq> CHR ''-'' \<and> c \<noteq> CHR ''+'' \<and> c \<noteq> quote_char"
  by (auto simp: is_digit_def quote_char_def)

lemma ParseInt_show:
  assumes "min_int64 \<le> i" and "i \<le> max_int64"
  shows "ParseInt (show_int i) = (i, True)"
proof (cases "i < 0")
  case True
  then show ?thesis
    using assms show_nat_digits [of "nat (- i)"] by (simp add: ParseInt_def show_int_def Let_def)
next
  case False
  obtain c t where s: "show_nat (nat i) = c # t" "is_digit c"
    using show_nat_digits [of "nat i"] by (cases "show_nat (nat i)") auto
  then have "c \<noteq> CHR ''-''" "c \<noteq> CHR ''+''" using digit_not_sign by blast+
  then show ?thesis
    using False assms s show_nat_digits [of "nat i"] by (simp add: ParseInt_def show_int_def Let_def)
qed

lemma show_int_not_quoted: "show_int i \<noteq> [] \<and> hd (show_int i) \<noteq> quote_char"
proof (cases "i < 0")
  case True
  then show ?thesis by (simp add: show_int_def quote_char_def)
next
  case False
  then show ?thesis
    using show_nat_digits [of "nat i"] digit_not_sign by (cases "show_nat (nat i)") (auto simp: show_int_def)
qed

lemma sint_int64: "min_int64 \<le> sint (i :: int64)" "sint (i :: int64) \<le> max_int64"
  using sint_range_size [of i] by (simp_all add: min_int64_def max_int64_def word_size)

lemma ParseInt_int64: "ParseInt (show_int (sint (i :: int64))) = (sint i, True)"
  by (intro ParseInt_show sint_int64)

lemma ProtobufInt_number: "ProtobufInt_UnmarshalJSON (show_int (sint i)) = (i, True)"
  using show_int_not_quoted [of "sint i"] ParseInt_int64 [of i]
  by (simp add: ProtobufInt_UnmarshalJSON_def)

lemma ProtobufInt_quoted: "ProtobufInt_UnmarshalJSON (quoted (show_int (sint i))) = (i, True)"
  using show_int_not_quoted [of "sint i"] ParseInt_int64 [of i]
  by (simp add: ProtobufInt_UnmarshalJSON_def quoted_def)

text \<open>Every 64-bit integer survives its JSON coding, whether it is written as a number or a string; so do
  nanosecond durations.\<close>

theorem ProtobufInt_roundtrip:
  "ProtobufInt_UnmarshalJSON (ProtobufInt_MarshalJSON i) = (i, True)"
  by (simp add: ProtobufInt_MarshalJSON_def ProtobufInt_number ProtobufInt_quoted)

lemma ProtobufInt_read: "ProtobufInt_UnmarshalJSON (ProtobufInt_MarshalJSON i) = (i, True)"
  by (simp add: ProtobufInt_MarshalJSON_def ProtobufInt_number ProtobufInt_quoted)

section \<open>Durations and times\<close>

lemma sint_word_of_int64:
  "sint (word_of_int k :: int64) = k \<longleftrightarrow> min_int64 \<le> k \<and> k \<le> max_int64"
proof
  assume "sint (word_of_int k :: int64) = k"
  then show "min_int64 \<le> k \<and> k \<le> max_int64" using sint_int64 [of "word_of_int k"] by simp
next
  assume "min_int64 \<le> k \<and> k \<le> max_int64"
  then show "sint (word_of_int k :: int64) = k"
    by (simp add: sint_sbintrunc' signed_take_bit_int_eq_self_iff min_int64_def max_int64_def)
qed

lemma quot_bounds:
  fixes a m :: int
  assumes "0 < m"
  shows "\<bar>a - quot a m * m\<bar> < m" "\<bar>quot a m * m\<bar> \<le> \<bar>a\<bar>"
proof -
  have q: "\<bar>a\<bar> div m * m + \<bar>a\<bar> mod m = \<bar>a\<bar>" "0 \<le> \<bar>a\<bar> mod m" "\<bar>a\<bar> mod m < m" "0 \<le> \<bar>a\<bar> div m * m"
    using assms by (auto simp: pos_imp_zdiv_nonneg_iff)
  have e: "quot a m * m = sgn a * (\<bar>a\<bar> div m * m)" using assms by (simp add: quot_def)
  have s: "a = sgn a * \<bar>a\<bar>" by (simp add: sgn_mult_abs)
  have "a - quot a m * m = sgn a * (\<bar>a\<bar> mod m)"
    using e s q(1) by (metis add_diff_cancel_left' right_diff_distrib)
  then show "\<bar>a - quot a m * m\<bar> < m" using q by (auto simp: abs_mult sgn_if split: if_splits)
  have "\<bar>quot a m * m\<bar> = \<bar>sgn a\<bar> * (\<bar>a\<bar> div m * m)" unfolding e abs_mult [of "sgn a"] using q(4) by simp
  also have "\<dots> \<le> \<bar>a\<bar> div m * m" using q(4) by (simp add: abs_sgn_eq)
  also have "\<dots> \<le> \<bar>a\<bar>" using q(1,2) by linarith
  finally show "\<bar>quot a m * m\<bar> \<le> \<bar>a\<bar>" .
qed

lemma quot_range:
  assumes "min_int64 \<le> a" and "a \<le> max_int64"
  shows "min_int64 \<le> quot a 1000000 * 1000000" "quot a 1000000 * 1000000 \<le> max_int64"
    "min_int64 \<le> quot a 1000000" "quot a 1000000 \<le> max_int64"
  using quot_bounds [of 1000000 a] assms by (auto simp: min_int64_def max_int64_def abs_if split: if_splits)

text \<open>A duration comes back from its JSON coding in milliseconds truncated towards zero to a whole
  number of milliseconds; nothing overflows on the way.\<close>

theorem MilliDuration_roundtrip:
  "case MilliDuration_UnmarshalJSON (MilliDuration_MarshalJSON d) of (d', ok) \<Rightarrow>
     ok \<and> sint d' = quot (sint d) 1000000 * 1000000 \<and> \<bar>sint d - sint d'\<bar> < 1000000"
proof -
  let ?q = "quot (sint d) 1000000"
  have r: "min_int64 \<le> ?q * 1000000" "?q * 1000000 \<le> max_int64"
    using quot_range [of "sint d"] sint_int64 [of d] by blast+
  have "(word_of_int ?q :: int64) * 1000000 = word_of_int (?q * 1000000)" by simp
  then have "sint ((word_of_int ?q :: int64) * 1000000) = ?q * 1000000"
    using r sint_word_of_int64 [of "?q * 1000000"] by simp
  then show ?thesis
    using quot_bounds [of 1000000 "sint d"]
    by (simp add: MilliDuration_UnmarshalJSON_def MilliDuration_MarshalJSON_def ProtobufInt_read Milliseconds_def)
qed

text \<open>\<open>MilliDuration.UnmarshalJSON\<close> multiplies without a check: it never reports an error for a 64-bit
  number of milliseconds, and gives the right duration exactly for those whose nanoseconds fit.\<close>

theorem MilliDuration_overflow:
  "snd (MilliDuration_UnmarshalJSON (show_int (sint (n :: int64)))) \<and>
   (sint (fst (MilliDuration_UnmarshalJSON (show_int (sint n)))) = sint n * 1000000 \<longleftrightarrow>
      \<bar>sint n\<bar> \<le> 9223372036854)"
proof -
  have w: "(word_of_int (sint n * 1000000) :: int64) = n * 1000000" unfolding of_int_mult by simp
  have "sint (n * 1000000) = sint n * 1000000 \<longleftrightarrow> min_int64 \<le> sint n * 1000000 \<and> sint n * 1000000 \<le> max_int64"
    using sint_word_of_int64 [of "sint n * 1000000"] unfolding w .
  also have "\<dots> \<longleftrightarrow> \<bar>sint n\<bar> \<le> 9223372036854" by (auto simp: min_int64_def max_int64_def)
  finally show ?thesis by (simp add: MilliDuration_UnmarshalJSON_def ProtobufInt_number)
qed

text \<open>A time survives its JSON coding in Unix nanoseconds exactly when it is within 2 to the 63 nanoseconds of
  the epoch (the years 1678 to 2262); other times come back wrong without an error.\<close>

theorem UnixNanoTime_roundtrip_iff:
  "snd (UnixNanoTime_UnmarshalJSON (UnixNanoTime_MarshalJSON t)) \<and>
   (fst (UnixNanoTime_UnmarshalJSON (UnixNanoTime_MarshalJSON t)) = t \<longleftrightarrow>
      min_int64 \<le> t - unix_epoch \<and> t - unix_epoch \<le> max_int64)"
proof -
  have "unix_epoch + sint (UnixNano t) = t \<longleftrightarrow> sint (word_of_int (t - unix_epoch) :: int64) = t - unix_epoch"
    by (auto simp: UnixNano_def)
  then show ?thesis
    unfolding sint_word_of_int64
    by (simp add: UnixNanoTime_UnmarshalJSON_def UnixNanoTime_MarshalJSON_def ProtobufInt_read time_Unix_def)
qed

end
