(* ===== verification/Loki.thy ===== *)
theory Loki
  imports Wire
begin

text \<open>
  \<open>internal/pkg/loki/loki.go\<close>: the client of Loki's HTTP API. A response holds streams of log records,
  each newest first; \<open>collectSorted\<close> merges them. HTTP and JSON are parameters: what a GET of the query
  URL returns. \<open>Get\<close> and \<open>GetStack\<close> differ in the path they ask for.
\<close>

record Loki_Log =
  ll_Body :: string
  ll_Time :: time
  ll_Labels :: smap
  ll_Metadata :: smap

record stream =
  ls_Stream :: smap
  ls_Values :: "Loki_Log list"

record loki_response =
  lr_Status :: string
  lr_ResultType :: string
  lr_Result :: "stream list"

text \<open>\<open>UnmarshalJSON\<close> of a record from an array of raw messages; the decoders of strings and of label maps
  are parameters. Parts that are missing are left at their zero value.\<close>

definition Loki_Log_UnmarshalJSON ::
  "(string \<Rightarrow> string result) \<Rightarrow> (string \<Rightarrow> smap result) \<Rightarrow> string list \<Rightarrow> Loki_Log result" where
  "Loki_Log_UnmarshalJSON str labels tuple =
     (let r = \<lparr>ll_Body = [], ll_Time = zero_time, ll_Labels = [], ll_Metadata = []\<rparr>
      in case (if length tuple > 0
               then (case UnixNanoTime_UnmarshalJSON (tuple ! 0) of
                       (t, ok) \<Rightarrow> if ok then Inr (r\<lparr>ll_Time := t\<rparr>) else Inl (ErrorString ''invalid time''))
               else Inr r) of
           Inl e \<Rightarrow> Inl e
         | Inr r \<Rightarrow>
             (case (if length tuple > 1
                    then map_sum id (\<lambda>b. r\<lparr>ll_Body := b\<rparr>) (str (tuple ! 1)) else Inr r) of
                Inl e \<Rightarrow> Inl e
              | Inr r \<Rightarrow>
                  if length tuple > 2
                  then map_sum id (\<lambda>m. r\<lparr>ll_Metadata := m\<rparr>) (labels (tuple ! 2)) else Inr r))"

section \<open>The query\<close>

definition loki_formatTime :: "time \<Rightarrow> string" where
  "loki_formatTime t = show_int (sint (UnixNano t))"

text \<open>The parameters of the query URL, in the order they are added.\<close>

definition loki_queryParams :: "string \<Rightarrow> Constraint option \<Rightarrow> (string \<times> string) list" where
  "loki_queryParams logQL c =
     [(''query'', logQL)] @
     (if Constraint_GetLimit c > 0 then [(''limit'', show_int (Constraint_GetLimit c))] else []) @
     (if Constraint_GetEnd c \<noteq> zero_time then [(''end'', loki_formatTime (Constraint_GetEnd c))] else []) @
     (if Constraint_GetStart c \<noteq> zero_time then [(''start'', loki_formatTime (Constraint_GetStart c))] else [])"

definition queryRangePath :: string where "queryRangePath = ''/loki/api/v1/query_range''"

text \<open>\<open>path.Join\<close> of the LokiStack path, the tenant (one path element) and the query path.\<close>

definition stackPath :: "string \<Rightarrow> string" where
  "stackPath tenant = ''/api/logs/v1/'' @ tenant @ queryRangePath"

section \<open>Merging the streams\<close>

definition head_time :: "stream \<Rightarrow> time" where
  "head_time s = ll_Time (hd (ls_Values s))"

text \<open>The inner loop: the first of the streams with the latest first record.\<close>

fun latest_loop :: "nat \<Rightarrow> stream list \<Rightarrow> (nat \<times> time) option \<Rightarrow> (nat \<times> time) option" where
  "latest_loop j [] i = i"
| "latest_loop j (s # ss) i =
     latest_loop (Suc j) ss
       (if ls_Values s \<noteq> [] \<and> (case i of None \<Rightarrow> True | Some (_, t) \<Rightarrow> t < head_time s)
        then Some (j, head_time s) else i)"

definition latest :: "stream list \<Rightarrow> nat option" where
  "latest streams = map_option fst (latest_loop 0 streams None)"

definition advance :: "nat \<Rightarrow> stream list \<Rightarrow> stream list" where
  "advance i streams = streams[i := (streams ! i)\<lparr>ls_Values := tl (ls_Values (streams ! i))\<rparr>]"

definition labelled :: "stream \<Rightarrow> Loki_Log \<Rightarrow> Loki_Log" where
  "labelled s v = v\<lparr>ll_Labels := ls_Stream s\<rparr>"

definition records :: "stream list \<Rightarrow> nat" where
  "records streams = sum_list (map (\<lambda>s. length (ls_Values s)) streams)"

lemma latest_loop_spec:
  assumes "latest_loop j ss i = Some (k, t)"
  shows "(i = Some (k, t) \<or> (j \<le> k \<and> k < j + length ss \<and> ls_Values (ss ! (k - j)) \<noteq> [] \<and> t = head_time (ss ! (k - j))))
    \<and> (\<forall>s \<in> set ss. ls_Values s \<noteq> [] \<longrightarrow> head_time s \<le> t) \<and> (\<forall>l u. i = Some (l, u) \<longrightarrow> u \<le> t)"
  using assms
proof (induction j ss i rule: latest_loop.induct)
  case (2 j s ss i)
  let ?take = "ls_Values s \<noteq> [] \<and> (case i of None \<Rightarrow> True | Some (_, t) \<Rightarrow> t < head_time s)"
  show ?case
  proof (cases ?take)
    case True
    then have "latest_loop (Suc j) ss (Some (j, head_time s)) = Some (k, t)" using 2(2) by simp
    with 2(1) True have ih: "(j = k \<and> head_time s = t \<or> Suc j \<le> k \<and> k < Suc j + length ss \<and>
        ls_Values (ss ! (k - Suc j)) \<noteq> [] \<and> t = head_time (ss ! (k - Suc j)))"
      "\<forall>s \<in> set ss. ls_Values s \<noteq> [] \<longrightarrow> head_time s \<le> t" "head_time s \<le> t" by auto
    then show ?thesis using True by (auto simp: nth_Cons' split: option.splits prod.splits)
  next
    case False
    then have take: "?take = False" by simp
    have "latest_loop (Suc j) ss i = Some (k, t)" using 2(2) unfolding latest_loop.simps take if_False .
    moreover have "ls_Values s \<noteq> [] \<longrightarrow> (\<exists>l u. i = Some (l, u) \<and> head_time s \<le> u)"
      using False by (auto split: option.splits)
    ultimately show ?thesis using 2(1) unfolding take if_False by (fastforce simp: nth_Cons')
  qed
qed auto

lemma latest_loop_None: "latest_loop j ss i = None \<longleftrightarrow> i = None \<and> list_all (\<lambda>s. ls_Values s = []) ss"
  by (induction j ss i rule: latest_loop.induct) auto

lemma latest_Some:
  assumes "latest ss = Some i"
  shows "i < length ss" "ls_Values (ss ! i) \<noteq> []"
    "s \<in> set ss \<Longrightarrow> ls_Values s \<noteq> [] \<Longrightarrow> head_time s \<le> head_time (ss ! i)"
proof -
  from assms obtain t where "latest_loop 0 ss None = Some (i, t)" by (auto simp: latest_def)
  from latest_loop_spec [OF this] show "i < length ss" "ls_Values (ss ! i) \<noteq> []"
    "s \<in> set ss \<Longrightarrow> ls_Values s \<noteq> [] \<Longrightarrow> head_time s \<le> head_time (ss ! i)" by auto
qed

lemma latest_None: "latest ss = None \<longleftrightarrow> list_all (\<lambda>s. ls_Values s = []) ss"
  by (simp add: latest_def latest_loop_None)

lemma records_advance:
  assumes "latest ss = Some i"
  shows "Suc (records (advance i ss)) = records ss"
proof -
  have "ls_Values (ss ! i) \<noteq> []" "i < length ss" using latest_Some [OF assms] by auto
  then show ?thesis
    using sum_list_map_update [of i ss "\<lambda>s. length (ls_Values s)" "(ss ! i)\<lparr>ls_Values := tl (ls_Values (ss ! i))\<rparr>"]
    by (cases "ls_Values (ss ! i)") (simp_all add: records_def advance_def)
qed

function collectSorted :: "stream list \<Rightarrow> Loki_Log list" where
  "collectSorted streams =
     (case latest streams of
        None \<Rightarrow> []
      | Some i \<Rightarrow> labelled (streams ! i) (hd (ls_Values (streams ! i))) # collectSorted (advance i streams))"
  by pat_completeness auto

termination
  by (relation "measure records") (auto dest: records_advance)

declare collectSorted.simps [simp del]

text \<open>\<open>Client.get\<close>: the error of the request, or the records of a response with the expected status. The
  error messages end with the response, left out here.\<close>

definition single_quoted :: "string \<Rightarrow> string" where
  "single_quoted s = CHR 0x27 # s @ [CHR 0x27]"

definition loki_get :: "loki_response result \<Rightarrow> Loki_Log list \<times> error option" where
  "loki_get response =
     (case response of
        Inl e \<Rightarrow> ([], Some e)
      | Inr r \<Rightarrow>
          if lr_Status r \<noteq> ''success'' then ([], Some (ErrorString (''expected '' @ single_quoted ''status: success'')))
          else if lr_ResultType r \<noteq> ''streams'' then ([], Some (ErrorString (''expected '' @ single_quoted ''resultType: streams'')))
          else (collectSorted (lr_Result r), None))"

section \<open>The merge is right\<close>

definition stream_records :: "stream \<Rightarrow> Loki_Log list" where
  "stream_records s = map (labelled s) (ls_Values s)"

definition newest_first :: "Loki_Log list \<Rightarrow> bool" where
  "newest_first xs \<longleftrightarrow> sorted_wrt (\<lambda>x y. ll_Time y \<le> ll_Time x) xs"

lemma labelled_time [simp]: "ll_Time (labelled s v) = ll_Time v"
  by (simp add: labelled_def)

lemma collectSorted_None: "latest ss = None \<Longrightarrow> collectSorted ss = []"
  by (subst collectSorted.simps) simp

lemma collectSorted_Some:
  "latest ss = Some i \<Longrightarrow> collectSorted ss = labelled (ss ! i) (hd (ls_Values (ss ! i))) # collectSorted (advance i ss)"
  by (subst collectSorted.simps) simp

lemma labelled_values [simp]: "labelled (s\<lparr>ls_Values := vs\<rparr>) = labelled s"
  by (rule ext) (simp add: labelled_def)

lemma map_advance:
  assumes "i < length ss"
  shows "map stream_records (advance i ss) = (map stream_records ss)[i := tl (stream_records (ss ! i))]"
  by (simp add: advance_def map_update stream_records_def map_tl)

lemma mset_concat_update:
  assumes "i < length xss"
  shows "mset (concat (xss[i := ys])) + mset (xss ! i) = mset (concat xss) + mset ys"
proof -
  have "xss = take i xss @ xss ! i # drop (Suc i) xss" using assms by (rule id_take_nth_drop)
  then have "mset (concat xss) = mset (concat (take i xss)) + mset (xss ! i) + mset (concat (drop (Suc i) xss))"
    by (metis concat.simps(2) concat_append mset_append union_assoc)
  moreover have "mset (concat (xss[i := ys])) = mset (concat (take i xss)) + mset ys + mset (concat (drop (Suc i) xss))"
    using assms by (simp add: upd_conv_take_nth_drop)
  ultimately show ?thesis by simp
qed

lemma collectSorted_mset: "mset (collectSorted ss) = mset (concat (map stream_records ss))"
proof (induction ss rule: collectSorted.induct)
  case (1 ss)
  show ?case
  proof (cases "latest ss")
    case None
    then have "concat (map stream_records ss) = []" by (auto simp: latest_None stream_records_def list_all_iff)
    then show ?thesis by (simp add: collectSorted_None [OF None])
  next
    case (Some i)
    note i = latest_Some [OF Some]
    have upd: "map stream_records (advance i ss) = (map stream_records ss)[i := tl (stream_records (ss ! i))]"
      by (rule map_advance [OF i(1)])
    obtain v vs where v: "ls_Values (ss ! i) = v # vs" using i(2) by (cases "ls_Values (ss ! i)") auto
    have "mset (concat (map stream_records (advance i ss))) + mset (stream_records (ss ! i))
        = mset (concat (map stream_records ss)) + mset (tl (stream_records (ss ! i)))"
      unfolding upd using mset_concat_update [of i "map stream_records ss" "tl (stream_records (ss ! i))"] i(1) by simp
    moreover have "stream_records (ss ! i) = labelled (ss ! i) v # map (labelled (ss ! i)) vs"
      by (simp add: stream_records_def v)
    ultimately show ?thesis
      using 1 [OF Some] by (simp add: collectSorted_Some [OF Some] v)
  qed
qed

lemma newest_first_Cons: "newest_first (x # xs) \<longleftrightarrow> (\<forall>y \<in> set xs. ll_Time y \<le> ll_Time x) \<and> newest_first xs"
  by (simp add: newest_first_def)

lemma collectSorted_sorted:
  "list_all (\<lambda>s. newest_first (ls_Values s)) ss \<Longrightarrow> newest_first (collectSorted ss)"
proof (induction ss rule: collectSorted.induct)
  case (1 ss)
  show ?case
  proof (cases "latest ss")
    case None
    then show ?thesis by (simp add: collectSorted_None newest_first_def)
  next
    case (Some i)
    note i = latest_Some [OF Some]
    have sorted: "newest_first (ls_Values s)" if "s \<in> set ss" for s using 1(2) that by (simp add: list_all_iff)
    have mem: "ss ! i \<in> set ss" using i(1) by simp
    have sub: "\<exists>s \<in> set ss. set (ls_Values s') \<subseteq> set (ls_Values s) \<and> newest_first (ls_Values s')"
      if "s' \<in> set (advance i ss)" for s'
    proof -
      from that have "s' = (ss ! i)\<lparr>ls_Values := tl (ls_Values (ss ! i))\<rparr> \<or> s' \<in> set ss"
        unfolding advance_def using set_update_subset_insert by fastforce
      then show ?thesis
      proof
        assume "s' = (ss ! i)\<lparr>ls_Values := tl (ls_Values (ss ! i))\<rparr>"
        then have "set (ls_Values s') \<subseteq> set (ls_Values (ss ! i))" "newest_first (ls_Values s')"
          using sorted [OF mem] by (cases "ls_Values (ss ! i)"; auto simp: newest_first_def)+
        with mem show ?thesis by blast
      qed (use sorted in blast)
    qed
    have le: "ll_Time x \<le> head_time (ss ! i)" if "x \<in> set (ls_Values s)" "s \<in> set ss" for x s
    proof -
      from that obtain v vs where v: "ls_Values s = v # vs" by (cases "ls_Values s") auto
      then have "ll_Time x \<le> ll_Time v" using sorted [OF that(2)] that(1) by (auto simp: newest_first_def)
      also have "\<dots> \<le> head_time (ss ! i)" using i(3) [OF that(2)] v by (simp add: head_time_def)
      finally show ?thesis .
    qed
    have "ll_Time y \<le> head_time (ss ! i)" if "y \<in> set (collectSorted (advance i ss))" for y
    proof -
      have "set (collectSorted (advance i ss)) = set (concat (map stream_records (advance i ss)))"
        using collectSorted_mset mset_eq_setD by blast
      with that obtain s' x where "s' \<in> set (advance i ss)" "x \<in> set (ls_Values s')" "y = labelled s' x"
        by (auto simp: stream_records_def)
      with sub le show ?thesis by fastforce
    qed
    moreover have "newest_first (collectSorted (advance i ss))"
      using 1(1) [OF Some] sub by (auto simp: list_all_iff)
    ultimately show ?thesis by (simp add: collectSorted_Some [OF Some] newest_first_Cons head_time_def)
  qed
qed

text \<open>C39: Merging the streams of a response loses, adds and duplicates no record, gives each the labels of its
  stream, and when every stream is newest first, as Loki sends them, the result is newest first.\<close>

theorem collectSorted_spec:
  "mset (collectSorted streams) = (\<Sum>s \<in># mset streams. image_mset (labelled s) (mset (ls_Values s))) \<and>
   (list_all (\<lambda>s. newest_first (ls_Values s)) streams \<longrightarrow> newest_first (collectSorted streams))"
proof -
  have "mset (concat (map stream_records ss)) = (\<Sum>s \<in># mset ss. image_mset (labelled s) (mset (ls_Values s)))" for ss
    by (induction ss) (simp_all add: stream_records_def)
  then show ?thesis using collectSorted_mset [of streams] collectSorted_sorted [of streams] by simp
qed

lemma collectSorted_spec_witness:
  "newest_first (collectSorted
     [\<lparr>ls_Stream = [], ls_Values = [\<lparr>ll_Body = ''b'', ll_Time = 5, ll_Labels = [], ll_Metadata = []\<rparr>]\<rparr>])"
  using collectSorted_spec
    [of "[\<lparr>ls_Stream = [], ls_Values = [\<lparr>ll_Body = ''b'', ll_Time = 5, ll_Labels = [], ll_Metadata = []\<rparr>]\<rparr>]"]
  by (simp add: newest_first_def)

end
