(* ===== verification/K8s.thy ===== *)
theory K8s
  imports Dynamic
begin

text \<open>
  \<open>pkg/domains/k8s\<close>: Kubernetes resources. A class is a group, version and kind; the domain knows the
  classes of the built-in resources and those a cluster's discovery reports. The Kubernetes libraries
  are parameters: parsing of API versions (\<open>k8s_api\<close>), the API client (\<open>k8s_client\<close>), the decoder of
  queries and the health analysis. The mutex of the domain makes each operation atomic.
\<close>

section \<open>Classes\<close>

record gvk =
  g_Group :: string
  g_Version :: string
  g_Kind :: string

record APIResource =
  ar_Name :: string
  ar_Group :: string
  ar_Version :: string
  ar_Kind :: string
  ar_Namespaced :: bool

record APIGroup =
  ag_Name :: string
  ag_PreferredVersion :: string

text \<open>\<open>schema.ParseGroupVersion\<close>, which gives group and version, and \<open>schema.FromAPIVersionAndKind\<close>.\<close>

record k8s_api =
  ka_ParseGroupVersion :: "string \<Rightarrow> (string \<times> string) option"
  ka_FromAPIVersionAndKind :: "string \<Rightarrow> string \<Rightarrow> gvk"

record k8s_domain =
  kd_resources :: "gvk \<rightharpoonup> APIResource"
  kd_groups :: "string \<rightharpoonup> APIGroup"
  kd_classes :: "gvk list"

definition k8s_Class_Name :: "gvk \<Rightarrow> string" where
  "k8s_Class_Name c =
     g_Kind c @ ''.'' @ g_Version c @ (if g_Group c \<noteq> [] then ''.'' @ g_Group c else [])"

definition k8s_klass :: "gvk \<Rightarrow> klass" where
  "k8s_klass c = Klass ''k8s'' (k8s_Class_Name c)"

definition nonBlank :: "string \<Rightarrow> string \<Rightarrow> string" where
  "nonBlank v1 v2 = (if v1 = [] then v2 else v1)"

definition resource_gvk :: "string \<times> string \<Rightarrow> APIResource \<Rightarrow> gvk" where
  "resource_gvk gv r =
     \<lparr>g_Group = nonBlank (ar_Group r) (fst gv), g_Version = nonBlank (ar_Version r) (snd gv), g_Kind = ar_Kind r\<rparr>"

text \<open>The groups keep, of \<open>metav1.APIGroup\<close>, the preferred version that \<open>Class\<close> reads.\<close>

definition add_resource :: "string \<times> string \<Rightarrow> APIResource \<Rightarrow> k8s_domain \<Rightarrow> k8s_domain" where
  "add_resource gv r d =
     (if strings_Contains (ar_Name r) ''/'' then d
      else (let c = resource_gvk gv r;
                d = d\<lparr>kd_classes := (if c \<in> set (kd_classes d) then kd_classes d else kd_classes d @ [c])\<rparr>;
                d = d\<lparr>kd_resources := (kd_resources d)(c \<mapsto> r)\<rparr>
            in if kd_groups d (g_Group c) = None
               then d\<lparr>kd_groups := (kd_groups d)(g_Group c \<mapsto>
                        \<lparr>ag_Name = g_Group c, ag_PreferredVersion = g_Version c\<rparr>)\<rparr>
               else d))"

definition add_resource_list :: "k8s_api \<Rightarrow> string \<times> APIResource list \<Rightarrow> k8s_domain \<Rightarrow> k8s_domain" where
  "add_resource_list api l d =
     (case ka_ParseGroupVersion api (fst l) of
        None \<Rightarrow> d
      | Some gv \<Rightarrow>
          if snd gv = [] \<or> hd (snd gv) \<noteq> CHR ''v'' then d else fold (add_resource gv) (snd l) d)"

definition addClasses ::
  "k8s_api \<Rightarrow> APIGroup list \<Rightarrow> (string \<times> APIResource list) list \<Rightarrow> k8s_domain \<Rightarrow> k8s_domain" where
  "addClasses api groups resourceLists d =
     fold (add_resource_list api) resourceLists
       (fold (\<lambda>g d. d\<lparr>kd_groups := (kd_groups d)(ag_Name g \<mapsto> g)\<rparr>) groups d)"

definition builtin :: "bool \<Rightarrow> string \<Rightarrow> APIResource" where
  "builtin ns kind =
     \<lparr>ar_Name = [], ar_Group = [], ar_Version = [], ar_Kind = kind, ar_Namespaced = ns\<rparr>"

definition defaultResources :: "(string \<times> APIResource list) list" where
  "defaultResources =
     [(''v1'', [builtin True ''Binding'', builtin False ''ComponentStatus'', builtin True ''ConfigMap'',
        builtin True ''Endpoints'', builtin True ''Event'', builtin True ''LimitRange'',
        builtin False ''Namespace'', builtin False ''Node'', builtin True ''PersistentVolumeClaim'',
        builtin False ''PersistentVolume'', builtin True ''Pod'', builtin True ''PodTemplate'',
        builtin True ''ReplicationController'', builtin True ''ResourceQuota'', builtin True ''Secret'',
        builtin True ''ServiceAccount'', builtin True ''Service'']),
      (''apps/v1'', [builtin True ''ControllerRevision'', builtin True ''DaemonSet'',
        builtin True ''Deployment'', builtin True ''ReplicaSet'', builtin True ''StatefulSet'']),
      (''batch/v1'', [builtin True ''CronJob'', builtin True ''Job'']),
      (''policy/v1'', [builtin True ''PodDisruptionBudget'']),
      (''events.k8s.io/v1'', [builtin True ''Event'']),
      (''storage.k8s.io/v1'', [builtin False ''VolumeSnapshotClass'', builtin False ''VolumeSnapshotContent'',
        builtin True ''VolumeSnapshot'', builtin False ''CSIDriver'', builtin False ''CSINode'',
        builtin True ''CSIStorageCapacity'', builtin False ''StorageClass'', builtin False ''VolumeAttachment''])]"

definition newDomain :: "k8s_api \<Rightarrow> k8s_domain" where
  "newDomain api =
     addClasses api [] defaultResources \<lparr>kd_resources = Map.empty, kd_groups = Map.empty, kd_classes = []\<rparr>"

definition k8s_Classes :: "k8s_domain \<Rightarrow> klass list" where
  "k8s_Classes d = sort_key Class_String (map k8s_klass (kd_classes d))"

text \<open>
  \<open>classRE\<close>: KIND[.VERSION][.GROUP]. \<open>cut_version\<close> splits off the longest prefix that is a version; a
  shorter one would be followed by a digit or a letter and not by a dot or the end.
\<close>

definition cut_word :: "string \<Rightarrow> string \<Rightarrow> (string \<times> string) option" where
  "cut_word w s =
     (if strings_HasPrefix s w
      then Some (w @ takeWhile is_digit (drop (length w) s), dropWhile is_digit (drop (length w) s)) else None)"

definition cut_version :: "string \<Rightarrow> (string \<times> string) option" where
  "cut_version s =
     (case cut_char (CHR ''v'') s of
        None \<Rightarrow> None
      | Some t \<Rightarrow>
          if t = [] \<or> \<not> is_digit (hd t) then None
          else (let ds = takeWhile is_digit t; r = dropWhile is_digit t
                in case cut_word ''alpha'' r of
                     Some (w, r) \<Rightarrow> Some (''v'' @ ds @ w, r)
                   | None \<Rightarrow>
                       (case cut_word ''beta'' r of
                          Some (w, r) \<Rightarrow> Some (''v'' @ ds @ w, r)
                        | None \<Rightarrow> Some (''v'' @ ds, r))))"

definition cut_group :: "string \<Rightarrow> string option" where
  "cut_group s =
     (if s = [] then Some []
      else case cut_char (CHR ''.'') s of
             None \<Rightarrow> None
           | Some g \<Rightarrow> if CHR ''/'' \<in> set g then None else Some g)"

definition kind_char :: "char \<Rightarrow> bool" where
  "kind_char c \<longleftrightarrow> c \<noteq> CHR ''.'' \<and> c \<noteq> CHR ''/''"

definition k8s_classRE :: "string \<Rightarrow> gvk option" where
  "k8s_classRE name =
     (let kind = takeWhile kind_char name; r = dropWhile kind_char name
      in if kind = [] then None
         else (case Option.bind (cut_char (CHR ''.'') r) (\<lambda>t. Option.bind (cut_version t) (\<lambda>(v, s).
                      map_option (\<lambda>g. \<lparr>g_Group = g, g_Version = v, g_Kind = kind\<rparr>) (cut_group s))) of
                 Some c \<Rightarrow> Some c
               | None \<Rightarrow> map_option (\<lambda>g. \<lparr>g_Group = g, g_Version = [], g_Kind = kind\<rparr>) (cut_group r)))"

definition k8s_Class :: "k8s_domain \<Rightarrow> string \<Rightarrow> gvk option" where
  "k8s_Class d name =
     (case k8s_classRE name of
        None \<Rightarrow> None
      | Some c \<Rightarrow>
          (case (if g_Version c = []
                 then map_option (\<lambda>g. c\<lparr>g_Version := ag_PreferredVersion g\<rparr>) (kd_groups d (g_Group c))
                 else Some c) of
             None \<Rightarrow> None
           | Some c \<Rightarrow> if c \<in> set (kd_classes d) then Some c else None))"

definition k8s_Namespaced :: "k8s_domain \<Rightarrow> gvk \<Rightarrow> bool" where
  "k8s_Namespaced d c = (case kd_resources d c of None \<Rightarrow> False | Some r \<Rightarrow> ar_Namespaced r)"

definition CRDName :: "k8s_api \<Rightarrow> k8s_domain \<Rightarrow> string \<Rightarrow> string \<Rightarrow> string" where
  "CRDName api d apiVersion kind =
     (let c = ka_FromAPIVersionAndKind api apiVersion kind
      in if g_Group c = [] then []
         else (case kd_resources d c of
                 None \<Rightarrow> []
               | Some r \<Rightarrow> if ar_Name r = [] then [] else ar_Name r @ ''.'' @ g_Group c))"

text \<open>The health of an object with a status; the analysis of \<open>kube-health\<close> is a parameter, \<open>None\<close> where
  it fails.\<close>

datatype health = HealthError | HealthWarning | HealthOther

definition HealthStatus :: "(gomap \<Rightarrow> health option) \<Rightarrow> gomap \<Rightarrow> string" where
  "HealthStatus analyze obj =
     (if map_of obj ''status'' = None then []
      else (case analyze obj of
              Some HealthError \<Rightarrow> ''Error''
            | Some HealthWarning \<Rightarrow> ''Warning''
            | _ \<Rightarrow> []))"

section \<open>Queries and stores\<close>

record Selector =
  sel_Namespace :: string
  sel_Name :: string
  sel_Labels :: smap
  sel_Fields :: smap

record k8s_Query =
  kq_Selector :: Selector
  kq_class :: gvk

text \<open>The JSON coding of selectors is a parameter.\<close>

definition k8s_Query_parse ::
  "(string \<Rightarrow> Selector result) \<Rightarrow> k8s_domain \<Rightarrow> string \<Rightarrow> k8s_Query result" where
  "k8s_Query_parse unmarshal d s =
     (case impl_UnmarshalQueryString unmarshal ''k8s'' (\<lambda>n. map_option k8s_klass (k8s_Class d n)) s of
        Inl e \<Rightarrow> Inl e
      | Inr (_, sel) \<Rightarrow>
          (case QuerySplit s of
             Inl e \<Rightarrow> Inl e
           | Inr (_, n, _) \<Rightarrow>
               (case k8s_Class d n of
                  None \<Rightarrow> Inl (ClassNotFoundError ''k8s'' n)
                | Some c \<Rightarrow> Inr \<lparr>kq_Selector = sel, kq_class = c\<rparr>)))"

text \<open>The domain as the interface of the engine sees it.\<close>

definition k8s_Domain ::
  "(string \<Rightarrow> Selector result) \<Rightarrow> (Selector \<Rightarrow> string) \<Rightarrow> k8s_domain \<Rightarrow> domain" where
  "k8s_Domain unmarshal marshal d =
     \<lparr>dom_Name = ''k8s'', dom_Class = (\<lambda>n. map_option k8s_klass (k8s_Class d n)),
      dom_Classes = k8s_Classes d,
      dom_Query = (\<lambda>p s. case k8s_Query_parse unmarshal d s of
        Inl e \<Rightarrow> Inl e
      | Inr q \<Rightarrow> Inr \<lparr>q_class = k8s_klass (kq_class q), q_data = marshal (kq_Selector q), q_ptr = p\<rparr>)\<rparr>"

datatype ListOption =
    InNamespace string
  | MatchingLabels smap
  | MatchingFields smap
  | ListLimit int

text \<open>The API client: whether the class has a REST mapping, \<open>Get\<close> and \<open>List\<close>, which errors mean "not
  found", and the creation time of an object.\<close>

record k8s_client =
  kc_RESTMapping :: "gvk \<Rightarrow> error option"
  kc_Get :: "gvk \<Rightarrow> string \<Rightarrow> string \<Rightarrow> gomap result"
  kc_List :: "gvk \<Rightarrow> ListOption list \<Rightarrow> gomap list result"
  kc_NotFound :: "error \<Rightarrow> bool"
  kc_CreationTime :: "gomap \<Rightarrow> time"

definition list_options :: "Selector \<Rightarrow> Constraint option \<Rightarrow> ListOption list" where
  "list_options s c =
     (if sel_Namespace s \<noteq> [] then [InNamespace (sel_Namespace s)] else []) @
     (if length (sel_Labels s) > 0 then [MatchingLabels (sel_Labels s)] else []) @
     (if length (sel_Fields s) > 0 then [MatchingFields (sel_Fields s)] else []) @
     (if Constraint_GetLimit c > 0 then [ListLimit (Constraint_GetLimit c)] else [])"

definition getObject :: "k8s_client \<Rightarrow> k8s_Query \<Rightarrow> gomap list result" where
  "getObject cl q =
     (case kc_Get cl (kq_class q) (sel_Namespace (kq_Selector q)) (sel_Name (kq_Selector q)) of
        Inl e \<Rightarrow> Inl e
      | Inr x \<Rightarrow> Inr [x])"

definition getList :: "k8s_client \<Rightarrow> k8s_Query \<Rightarrow> Constraint option \<Rightarrow> gomap list result" where
  "getList cl q c = kc_List cl (kq_class q) (list_options (kq_Selector q) c)"

definition k8s_Store_Get :: "k8s_client \<Rightarrow> k8s_Query \<Rightarrow> Constraint option \<Rightarrow> gomap list \<times> error option" where
  "k8s_Store_Get cl q c =
     (let not_found = (\<lambda>e. if kc_NotFound cl e then None else Some e)
      in case kc_RESTMapping cl (kq_class q) of
           Some e \<Rightarrow> ([], not_found e)
         | None \<Rightarrow>
             (case (if sel_Name (kq_Selector q) \<noteq> [] then getObject cl q else getList cl q c) of
                Inl e \<Rightarrow> ([], not_found e)
              | Inr objs \<Rightarrow> (filter (\<lambda>x. Constraint_CompareTime c (kc_CreationTime cl x) \<le> 0) objs, None)))"

section \<open>Names and classes\<close>

definition valid_version :: "string \<Rightarrow> bool" where
  "valid_version v \<longleftrightarrow> cut_version v = Some (v, [])"

definition gvk_ok :: "gvk \<Rightarrow> bool" where
  "gvk_ok c \<longleftrightarrow>
     g_Kind c \<noteq> [] \<and> list_all kind_char (g_Kind c) \<and> valid_version (g_Version c) \<and> CHR ''/'' \<notin> set (g_Group c)"

lemma digits_append:
  assumes "r = [] \<or> \<not> is_digit (hd r)"
  shows "takeWhile is_digit (t @ r) = takeWhile is_digit t" "dropWhile is_digit (t @ r) = dropWhile is_digit t @ r"
proof -
  have "takeWhile is_digit r = []" "dropWhile is_digit r = r" using assms by (cases r; simp)+
  then show "takeWhile is_digit (t @ r) = takeWhile is_digit t" "dropWhile is_digit (t @ r) = dropWhile is_digit t @ r"
    by (induction t) auto
qed

lemma cut_word_append:
  assumes "r = [] \<or> \<not> is_digit (hd r)" and "cut_word w x = Some (y, z)"
  shows "cut_word w (x @ r) = Some (y, z @ r)"
proof -
  from assms(2) obtain t where t: "x = w @ t" "y = w @ takeWhile is_digit t" "z = dropWhile is_digit t"
    by (auto simp: cut_word_def strings_HasPrefix_iff split: if_splits)
  have "strings_HasPrefix (w @ t @ r) w" by (auto simp: strings_HasPrefix_iff)
  then show ?thesis using digits_append [OF assms(1), of t] by (simp add: cut_word_def t)
qed

lemma cut_version_append:
  assumes "cut_version v = Some (w, [])" and r: "r = [] \<or> hd r = CHR ''.''"
  shows "cut_version (v @ r) = Some (w, r)"
proof -
  have nd: "r = [] \<or> \<not> is_digit (hd r)" using r by (auto simp: is_digit_def)
  from assms(1) obtain t where v: "v = CHR ''v'' # t" "t \<noteq> []" "is_digit (hd t)"
    by (cases v) (auto simp: cut_version_def cut_char_def split: if_splits)
  let ?d = "dropWhile is_digit t"
  have head: "cut_version (v @ r) =
      (case cut_word ''alpha'' (?d @ r) of
         Some (w, r) \<Rightarrow> Some (''v'' @ takeWhile is_digit t @ w, r)
       | None \<Rightarrow> (case cut_word ''beta'' (?d @ r) of
            Some (w, r) \<Rightarrow> Some (''v'' @ takeWhile is_digit t @ w, r)
          | None \<Rightarrow> Some (''v'' @ takeWhile is_digit t, ?d @ r)))"
    using v by (simp add: cut_version_def cut_char_def Let_def digits_append [OF nd])
  have old: "(case cut_word ''alpha'' ?d of
         Some (w, r) \<Rightarrow> Some (''v'' @ takeWhile is_digit t @ w, r)
       | None \<Rightarrow> (case cut_word ''beta'' ?d of
            Some (w, r) \<Rightarrow> Some (''v'' @ takeWhile is_digit t @ w, r)
          | None \<Rightarrow> Some (''v'' @ takeWhile is_digit t, ?d))) = Some (w, [])"
    using assms(1) v by (simp add: cut_version_def cut_char_def Let_def)
  show ?thesis
  proof (cases "cut_word ''alpha'' ?d")
    case (Some p)
    then obtain y z where p: "cut_word ''alpha'' ?d = Some (y, z)" by (cases p) auto
    with old have "z = []" "w = ''v'' @ takeWhile is_digit t @ y" by auto
    with head cut_word_append [OF nd p] show ?thesis by simp
  next
    case None
    note no_alpha = None
    show ?thesis
    proof (cases "cut_word ''beta'' ?d")
      case (Some p)
      then obtain y z where p: "cut_word ''beta'' ?d = Some (y, z)" by (cases p) auto
      with old no_alpha have z: "z = []" "w = ''v'' @ takeWhile is_digit t @ y" by auto
      from p obtain b where "?d = ''beta'' @ b"
        by (auto simp: cut_word_def strings_HasPrefix_iff split: if_splits)
      then have "cut_word ''alpha'' (?d @ r) = None" by (simp add: cut_word_def)
      with head cut_word_append [OF nd p] z show ?thesis by simp
    next
      case None
      with old no_alpha have d: "?d = []" "w = ''v'' @ takeWhile is_digit t" by auto
      have "cut_word ''alpha'' r = None" "cut_word ''beta'' r = None"
        using r by (cases r; auto simp: cut_word_def)+
      with head d show ?thesis by simp
    qed
  qed
qed

lemma k8s_classRE_Name:
  assumes "gvk_ok c"
  shows "k8s_classRE (k8s_Class_Name c) = Some c"
proof -
  let ?g = "if g_Group c \<noteq> [] then ''.'' @ g_Group c else []"
  have kind: "list_all kind_char (g_Kind c)" "g_Kind c \<noteq> []" using assms by (auto simp: gvk_ok_def)
  then have "\<forall>x \<in> set (g_Kind c). kind_char x" by (simp add: list_all_iff)
  then have cut: "takeWhile kind_char (g_Kind c @ CHR ''.'' # s) = g_Kind c"
    "dropWhile kind_char (g_Kind c @ CHR ''.'' # s) = CHR ''.'' # s" for s
    by (simp_all add: kind_char_def)
  have "cut_version (g_Version c @ ?g) = Some (g_Version c, ?g)"
    using cut_version_append [of "g_Version c" "g_Version c" ?g] assms by (auto simp: gvk_ok_def valid_version_def)
  moreover have "cut_group ?g = Some (g_Group c)"
    using assms by (auto simp: cut_group_def cut_char_def gvk_ok_def)
  ultimately show ?thesis
    using kind(2) by (simp add: k8s_classRE_def k8s_Class_Name_def cut cut_char_def Let_def)
qed


definition k8s_ok :: "k8s_domain \<Rightarrow> bool" where
  "k8s_ok d \<longleftrightarrow> list_all gvk_ok (kd_classes d)"

lemma k8s_Class_known: "k8s_Class d n = Some c \<Longrightarrow> c \<in> set (kd_classes d)"
  by (auto simp: k8s_Class_def split: option.splits if_splits)

lemma k8s_found:
  assumes "k8s_ok d" and "c \<in> set (kd_classes d)"
  shows "k8s_Class d (k8s_Class_Name c) = Some c"
proof -
  have ok: "gvk_ok c" using assms by (simp add: k8s_ok_def list_all_iff)
  then have "g_Version c \<noteq> []" by (auto simp: gvk_ok_def valid_version_def cut_version_def cut_char_def)
  then show ?thesis using assms(2) by (simp add: k8s_Class_def k8s_classRE_Name [OF ok])
qed

lemma k8s_domain_laws:
  assumes "k8s_ok d"
  shows "domain_laws (k8s_Domain unmarshal marshal d)"
proof
  let ?D = "k8s_Domain unmarshal marshal d"
  fix n c
  show "dom_Class ?D n = Some c \<Longrightarrow> k_domain c = dom_Name ?D"
    by (auto simp: k8s_Domain_def k8s_klass_def)
  show "dom_Class ?D n = Some c \<Longrightarrow> dom_Class ?D (k_name c) = Some c"
    using k8s_found [OF assms k8s_Class_known] by (auto simp: k8s_Domain_def k8s_klass_def)
next
  let ?D = "k8s_Domain unmarshal marshal d"
  fix c
  show "c \<in> set (dom_Classes ?D) \<Longrightarrow> dom_Class ?D (k_name c) = Some c"
    using k8s_found [OF assms] by (auto simp: k8s_Domain_def k8s_klass_def k8s_Classes_def)
next
  let ?D = "k8s_Domain unmarshal marshal d"
  fix p s q
  assume "dom_Query ?D p s = Inr q"
  then obtain kq where "k8s_Query_parse unmarshal d s = Inr kq" "q_class q = k8s_klass (kq_class kq)"
    by (auto simp: k8s_Domain_def split: sum.splits)
  moreover from this(1) have "kq_class kq \<in> set (kd_classes d)"
    by (auto simp: k8s_Query_parse_def dest: k8s_Class_known split: sum.splits option.splits prod.splits)
  ultimately show "dom_Class ?D (k_name (q_class q)) = Some (q_class q)"
    using k8s_found [OF assms] by (simp add: k8s_Domain_def k8s_klass_def)
qed

text \<open>Discovery keeps the classes well formed when the resources it reports are.\<close>

lemma add_resource_ok:
  assumes "k8s_ok d" and "\<not> strings_Contains (ar_Name r) ''/'' \<longrightarrow> gvk_ok (resource_gvk gv r)"
  shows "k8s_ok (add_resource gv r d)"
  using assms by (auto simp: k8s_ok_def add_resource_def Let_def list_all_iff)

lemma addClasses_ok:
  assumes "k8s_ok d"
    and "\<forall>l \<in> set rls. \<forall>gv r. ka_ParseGroupVersion api (fst l) = Some gv \<longrightarrow> r \<in> set (snd l) \<longrightarrow>
      \<not> strings_Contains (ar_Name r) ''/'' \<longrightarrow> gvk_ok (resource_gvk gv r)"
  shows "k8s_ok (addClasses api groups rls d)"
  unfolding addClasses_def
proof (rule fold_invariant_step)
  show "k8s_ok (fold (\<lambda>g d. d\<lparr>kd_groups := (kd_groups d)(ag_Name g \<mapsto> g)\<rparr>) groups d)"
    by (rule fold_invariant_step) (use assms(1) in \<open>auto simp: k8s_ok_def\<close>)
next
  fix l d' assume l: "l \<in> set rls" and ok: "k8s_ok d'"
  show "k8s_ok (add_resource_list api l d')"
  proof (cases "ka_ParseGroupVersion api (fst l)")
    case None
    with ok show ?thesis by (simp add: add_resource_list_def)
  next
    case (Some gv)
    have "k8s_ok (fold (add_resource gv) (snd l) d')"
      by (rule fold_invariant_step [where P = k8s_ok]) (use ok assms(2) l Some add_resource_ok in blast)+
    with Some ok show ?thesis by (simp add: add_resource_list_def)
  qed
qed

text \<open>An API that parses group versions as documented, on which the domain of the built-in resources is
  an instance of the interface.\<close>

definition example_api :: k8s_api where
  "example_api = \<lparr>
     ka_ParseGroupVersion = (\<lambda>s.
       let (g, v, ok) = strings_Cut s (CHR ''/'')
       in if \<not> ok then Some ([], s) else if CHR ''/'' \<in> set v then None else Some (g, v)),
     ka_FromAPIVersionAndKind = (\<lambda>s kind.
       let (g, v, ok) = strings_Cut s (CHR ''/'')
       in if ok then \<lparr>g_Group = g, g_Version = v, g_Kind = kind\<rparr>
          else \<lparr>g_Group = [], g_Version = s, g_Kind = kind\<rparr>)\<rparr>"

lemma example_default_ok: "k8s_ok (newDomain example_api)"
proof -
  have "list_all (\<lambda>l. case ka_ParseGroupVersion example_api (fst l) of None \<Rightarrow> True
      | Some gv \<Rightarrow> list_all (\<lambda>r. gvk_ok (resource_gvk gv r)) (snd l)) defaultResources"
    by code_simp
  then have ok: "gvk_ok (resource_gvk gv r)" if "l \<in> set defaultResources" "r \<in> set (snd l)"
    "ka_ParseGroupVersion example_api (fst l) = Some gv" for l r gv
    using that by (cases gv) (auto simp: list_all_iff split: option.splits)
  show ?thesis
    unfolding newDomain_def by (rule addClasses_ok) (use ok in \<open>auto simp: k8s_ok_def\<close>)
qed

interpretation k8s: domain_laws "k8s_Domain unmarshal marshal (newDomain example_api)"
  for unmarshal marshal
  by (rule k8s_domain_laws [OF example_default_ok])


section \<open>Objects\<close>

text \<open>\<open>Class.ID\<close>: the name of an object in its namespace, which tells the objects of a class apart; what is no object has
  none. \<open>Preview\<close> shows it.\<close>

definition k8s_ID :: "gomap option \<Rightarrow> (string \<times> string) option" where
  "k8s_ID obj =
     (case obj of
        None \<Rightarrow> None
      | Some m \<Rightarrow>
          (let metadata = map_or_nil (gomap_get m ''metadata'')
           in Some (string_or_blank (gomap_get metadata ''namespace''), string_or_blank (gomap_get metadata ''name''))))"

definition k8s_Preview :: "gomap option \<Rightarrow> string" where
  "k8s_Preview obj = (case k8s_ID obj of None \<Rightarrow> ''<nil>'' | Some (ns, name) \<Rightarrow> ns @ ''/'' @ name)"

text \<open>\<open>New\<close> is an empty object of a class, which \<open>Unmarshal\<close> decodes into: the keys that are decoded replace those it has.\<close>

definition gv_String :: "gvk \<Rightarrow> string" where
  "gv_String g = (if g_Group g = [] then g_Version g else g_Group g @ ''/'' @ g_Version g)"

definition k8s_New :: "gvk \<Rightarrow> gomap" where
  "k8s_New c = [(''apiVersion'', VString (gv_String c)), (''kind'', VString (g_Kind c))]"

definition k8s_Unmarshal :: "(string \<Rightarrow> gomap result) \<Rightarrow> gvk \<Rightarrow> string \<Rightarrow> gomap result" where
  "k8s_Unmarshal decode c b =
     (case decode b of
        Inl err \<Rightarrow> Inl err
      | Inr m \<Rightarrow> Inr (fold (\<lambda>(k, v) obj. al_set k v obj) m (k8s_New c)))"

lemma map_of_al_sets: "map_of (fold (\<lambda>(k, v) obj. al_set k v obj) m obj) k =
    (case map_of (rev m) k of None \<Rightarrow> map_of obj k | Some v \<Rightarrow> Some v)"
proof (induction m arbitrary: obj)
  case (Cons p m)
  then show ?case by (cases p) (auto split: option.splits)
qed simp

text \<open>A decoded object has the kind and the version of its class, unless the text says otherwise.\<close>

lemma k8s_Unmarshal_class:
  assumes "k8s_Unmarshal decode c b = Inr obj" and "decode b = Inr m"
  shows "''kind'' \<notin> fst ` set m \<Longrightarrow> gomap_get obj ''kind'' = VString (g_Kind c)"
    and "''apiVersion'' \<notin> fst ` set m \<Longrightarrow> gomap_get obj ''apiVersion'' = VString (gv_String c)"
proof -
  have obj: "map_of obj k = (case map_of (rev m) k of None \<Rightarrow> map_of (k8s_New c) k | Some v \<Rightarrow> Some v)" for k
    using assms map_of_al_sets [of m "k8s_New c" k] by (simp add: k8s_Unmarshal_def)
  have "map_of (rev m) k = None" if "k \<notin> fst ` set m" for k using that by (simp add: map_of_eq_None_iff)
  then show "''kind'' \<notin> fst ` set m \<Longrightarrow> gomap_get obj ''kind'' = VString (g_Kind c)"
    "''apiVersion'' \<notin> fst ` set m \<Longrightarrow> gomap_get obj ''apiVersion'' = VString (gv_String c)"
    by (simp_all add: gomap_get_def obj k8s_New_def ptr_Deref_def)
qed

text \<open>Its identity are the namespace and the name that the compiled rules find in it.\<close>

lemma k8s_ID_metadata: "k8s_ID (Some m) = Some (case k8sMetadata m of (_, _, ns, name, _) \<Rightarrow> (ns, name))"
  by (simp add: k8s_ID_def k8sMetadata_def Let_def)

end
