(* ===== verification/LogDomain.thy ===== *)
theory LogDomain
  imports Loki K8s Config
begin

text \<open>
  \<open>pkg/domains/log\<close>: logs from Loki and directly from pods. Queries are LogQL or a container selector,
  which \<open>LogQL\<close> translates. Parameters: \<open>%q\<close> quoting, the strict JSON decoder, URLs, HTTP clients, the
  Kubernetes API and the parser of RFC 3339 times. Regular expressions work on ASCII text.
\<close>

section \<open>template\_funcs.go\<close>

definition label_start :: "char \<Rightarrow> bool" where
  "label_start c \<longleftrightarrow> is_lower c \<or> is_upper c \<or> c = CHR ''_'' \<or> c = CHR '':''"

definition label_rest :: "char \<Rightarrow> bool" where
  "label_rest c \<longleftrightarrow> label_start c \<or> is_digit c"

text \<open>\<open>labelBad.ReplaceAllString(label, "_")\<close>.\<close>

definition SafeLabel :: "string \<Rightarrow> string" where
  "SafeLabel label =
     (case label of
        [] \<Rightarrow> []
      | c # cs \<Rightarrow> (if label_start c then c else CHR ''_'') # map (\<lambda>c. if label_rest c then c else CHR ''_'') cs)"

text \<open>The order of the range decides which value a key gets that two labels map to.\<close>

definition SafeLabels :: "(string \<times> 'a) list \<Rightarrow> (string \<times> 'a) list" where
  "SafeLabels labels = fold (\<lambda>(k, v) m. al_set (SafeLabel k) v m) labels []"

text \<open>\<open>^(default|(openshift|kube)(-.*)?)$\<close>\<close>

definition infraNamespace :: "string \<Rightarrow> bool" where
  "infraNamespace ns \<longleftrightarrow>
     ns = ''default'' \<or>
     list_ex (\<lambda>p. ns = p \<or> (strings_HasPrefix ns (p @ ''-'') \<and> CHR 0x0A \<notin> set ns)) [''openshift'', ''kube'']"

definition TypeForNamespace :: "string \<Rightarrow> string" where
  "TypeForNamespace ns = (if infraNamespace ns then ''infrastructure'' else ''application'')"

section \<open>Container selectors and queries\<close>

record ContainerSelector =
  cs_Selector :: Selector
  cs_Containers :: "string list"

definition IsContainerSelected :: "ContainerSelector \<Rightarrow> string \<Rightarrow> bool" where
  "IsContainerSelected s container \<longleftrightarrow> length (cs_Containers s) = 0 \<or> container \<in> set (cs_Containers s)"

definition LogQL_add :: "(string \<Rightarrow> string) \<Rightarrow> string \<Rightarrow> string \<Rightarrow> string \<Rightarrow> string" where
  "LogQL_add quote k v w = (if v \<noteq> [] then w @ (if w = [] then ''{'' else '','') @ k @ quote v else w)"

definition LogQL :: "(string \<Rightarrow> string) \<Rightarrow> ContainerSelector \<Rightarrow> string" where
  "LogQL quote p =
     (let w = LogQL_add quote ''kubernetes_namespace_name='' (sel_Namespace (cs_Selector p)) [];
          w = LogQL_add quote ''kubernetes_pod_name='' (sel_Name (cs_Selector p)) w;
          w = LogQL_add quote ''kubernetes_container_name=~'' (strings_Join ''|'' (cs_Containers p)) w;
          w = w @ ''}|json''
      in fold (\<lambda>(k, v) w. w @ ''|kubernetes_labels_'' @ SafeLabel k @ ''='' @ quote v) (sel_Labels (cs_Selector p)) w)"

record log_Query =
  lq_logQL :: string
  lq_direct :: "ContainerSelector option"
  lq_class :: klass

definition log_Query_Data :: "(ContainerSelector \<Rightarrow> string) \<Rightarrow> log_Query \<Rightarrow> string" where
  "log_Query_Data marshal q = (case lq_direct q of Some d \<Rightarrow> marshal d | None \<Rightarrow> lq_logQL q)"

definition log_classes :: "klass list" where
  "log_classes = [Klass ''log'' ''application'', Klass ''log'' ''infrastructure'', Klass ''log'' ''audit'']"

definition log_NewQuery ::
  "(string \<Rightarrow> ContainerSelector result) \<Rightarrow> (string \<Rightarrow> string) \<Rightarrow> string \<Rightarrow> log_Query result" where
  "log_NewQuery unmarshal quote query =
     (case impl_ParseQuery ''log'' (classMap log_classes) query of
        Inl e \<Rightarrow> Inl e
      | Inr (c, selector) \<Rightarrow>
          (case unmarshal selector of
             Inr direct \<Rightarrow> Inr \<lparr>lq_logQL = LogQL quote direct, lq_direct = Some direct, lq_class = c\<rparr>
           | Inl _ \<Rightarrow> Inr \<lparr>lq_logQL = selector, lq_direct = None, lq_class = c\<rparr>))"

definition log_Domain ::
  "(string \<Rightarrow> ContainerSelector result) \<Rightarrow> (string \<Rightarrow> string) \<Rightarrow> (ContainerSelector \<Rightarrow> string) \<Rightarrow> domain" where
  "log_Domain unmarshal quote marshal =
     NewDomain ''log'' log_classes (\<lambda>p s.
       case log_NewQuery unmarshal quote s of
         Inl e \<Rightarrow> Inl e
       | Inr q \<Rightarrow> Inr \<lparr>q_class = lq_class q, q_data = log_Query_Data marshal q, q_ptr = p\<rparr>)"

section \<open>loki\_store.go\<close>

definition word_char :: "char \<Rightarrow> bool" where
  "word_char c \<longleftrightarrow> is_digit c \<or> is_upper c \<or> is_lower c \<or> c = CHR ''_''"

text \<open>\<open>\|\s*json\b\<close> at a position, and anywhere.\<close>

definition jsonRE_here :: "string \<Rightarrow> bool" where
  "jsonRE_here s \<longleftrightarrow>
     (case cut_char (CHR ''|'') s of
        None \<Rightarrow> False
      | Some t \<Rightarrow>
          (let t = dropWhile regexp_space t
           in strings_HasPrefix t ''json'' \<and> (drop 4 t = [] \<or> \<not> word_char (hd (drop 4 t)))))"

fun jsonRE :: "string \<Rightarrow> bool" where
  "jsonRE [] = False"
| "jsonRE (c # cs) = (jsonRE_here (c # cs) \<or> jsonRE cs)"

definition parseJSON :: "string \<Rightarrow> string" where
  "parseJSON logql = (if \<not> jsonRE logql then logql @ ''|json'' else logql)"

definition maps_Copy :: "smap \<Rightarrow> smap \<Rightarrow> smap" where
  "maps_Copy src dst = fold (\<lambda>(k, v) m. al_set k v m) src dst"

text \<open>\<open>newObject\<close>; the RFC 3339 format of a time is a parameter.\<close>

definition log_newObject :: "(time \<Rightarrow> string) \<Rightarrow> Loki_Log \<Rightarrow> smap" where
  "log_newObject rfc3339 l =
     (let x = maps_Copy (ll_Labels l) (maps_Copy (ll_Metadata l) []);
          x = (if smap_get x ''message'' \<noteq> [] \<and> smap_get x ''_timestamp'' \<noteq> []
               then al_set ''body'' (smap_get x ''message'') x else al_set ''body'' (ll_Body l) x);
          x = (if smap_get x ''timestamp'' = [] \<and> smap_get x ''_timestamp'' \<noteq> []
               then al_set ''timestamp'' (smap_get x ''_timestamp'') x else x);
          x = (if smap_get x ''observed_timestamp'' = []
               then al_set ''observed_timestamp'' (rfc3339 (ll_Time l)) x else x)
      in if smap_get x ''__error__'' = ''JSONParserErr''
         then al_delete ''__error_details__'' (al_delete ''__error__'' x) else x)"

text \<open>\<open>lokiStore.Get\<close> and \<open>lokiStackStore.Get\<close>: \<open>http\<close> gives the response for a path and parameters.\<close>

definition lokiStore_Get ::
  "(string \<Rightarrow> (string \<times> string) list \<Rightarrow> loki_response result) \<Rightarrow> (time \<Rightarrow> string) \<Rightarrow> log_Query \<Rightarrow>
     Constraint option \<Rightarrow> smap list \<times> error option" where
  "lokiStore_Get http rfc3339 q c =
     (let (logs, err) = loki_get (http queryRangePath (loki_queryParams (parseJSON (lq_logQL q)) c))
      in (map (log_newObject rfc3339) logs, err))"

definition lokiStackStore_Get ::
  "(string \<Rightarrow> (string \<times> string) list \<Rightarrow> loki_response result) \<Rightarrow> (time \<Rightarrow> string) \<Rightarrow> log_Query \<Rightarrow>
     Constraint option \<Rightarrow> smap list \<times> error option" where
  "lokiStackStore_Get http rfc3339 q c =
     (let (logs, err) = loki_get (http (stackPath (k_name (lq_class q))) (loki_queryParams (parseJSON (lq_logQL q)) c))
      in (map (log_newObject rfc3339) logs, err))"

section \<open>direct\_store.go\<close>

text \<open>
  \<open>readPodLogs\<close> on the lines of a stream: the objects it sends and the shared counter afterwards, which it
  increases only when there is a limit. \<open>strings.Cut\<close> splits off a time stamp.
\<close>

fun readPodLogs ::
  "(string \<Rightarrow> time option) \<Rightarrow> smap \<Rightarrow> Constraint option \<Rightarrow> string list \<Rightarrow> int \<Rightarrow> smap list \<times> int" where
  "readPodLogs parse attrs c [] cnt = ([], cnt)"
| "readPodLogs parse attrs c (line # rest) cnt =
     (let x = al_set ''body'' line attrs;
          (ts, msg, _) = strings_Cut line (CHR '' '');
          stamp = (if msg \<noteq> [] then parse ts else None);
          x = (case stamp of None \<Rightarrow> x | Some _ \<Rightarrow> al_set ''observed_timestamp'' ts (al_set ''body'' msg x));
          n = (case stamp of None \<Rightarrow> 0 | Some t \<Rightarrow> Constraint_CompareTime c t);
          limit = Constraint_GetLimit c;
          cnt' = (if limit > 0 then cnt + 1 else cnt)
      in if n < 0 then readPodLogs parse attrs c rest cnt
         else if n > 0 then ([], cnt)
         else if limit > 0 \<and> cnt' > limit then ([], cnt')
         else (let (out, cnt'') = readPodLogs parse attrs c rest cnt' in (x # out, cnt'')))"

definition container_attrs :: "string \<Rightarrow> string \<Rightarrow> string \<Rightarrow> smap" where
  "container_attrs pod ns container =
     [(''k8s_pod_name'', pod), (''k8s_namespace_name'', ns), (''k8s_container_name'', container),
      (''kubernetes_pod_name'', pod), (''kubernetes_namespace_name'', ns), (''kubernetes_container_name'', container)]"

record pod =
  pod_Name :: string
  pod_Namespace :: string
  pod_Containers :: "string list"

text \<open>
  \<open>directStore.Get\<close> when the goroutines that read the containers run one after another: the selected
  containers of the pods the query finds. \<open>as_pod\<close> converts an object and \<open>logs\<close> opens a stream of lines,
  with the tail limit and the start time; an error of a stream ends the group with that error.
\<close>

fun read_containers ::
  "(pod \<Rightarrow> string \<Rightarrow> string list result) \<Rightarrow> (string \<Rightarrow> time option) \<Rightarrow> Constraint option \<Rightarrow>
     (pod \<times> string) list \<Rightarrow> int \<Rightarrow> smap list \<Rightarrow> error option \<Rightarrow> smap list \<times> error option" where
  "read_containers logs parse c [] cnt out err = (out, err)"
| "read_containers logs parse c ((p, k) # rest) cnt out err =
     (case logs p k of
        Inl e \<Rightarrow> read_containers logs parse c rest cnt out (if err = None then Some e else err)
      | Inr ls \<Rightarrow>
          (let (xs, cnt) = readPodLogs parse (container_attrs (pod_Name p) (pod_Namespace p) k) c ls cnt
           in read_containers logs parse c rest cnt (out @ xs) err))"

definition directStore_Get ::
  "(Selector \<Rightarrow> Constraint option \<Rightarrow> gomap list \<times> error option) \<Rightarrow> (gomap \<Rightarrow> pod result) \<Rightarrow>
     (pod \<Rightarrow> string \<Rightarrow> string list result) \<Rightarrow> (string \<Rightarrow> time option) \<Rightarrow> (error \<Rightarrow> bool) \<Rightarrow>
     log_Query \<Rightarrow> Constraint option \<Rightarrow> smap list \<times> error option" where
  "directStore_Get pods as_pod logs parse not_found q c =
     (let (out, err) =
        (case lq_direct q of
           None \<Rightarrow> ([], Some (ErrorString (''direct log store cannot execute Loki query: '' @ lq_logQL q)))
         | Some d \<Rightarrow>
             (case pods (cs_Selector d) c of
                (_, Some e) \<Rightarrow> ([], Some e)
              | (objs, None) \<Rightarrow>
                  (case collect_results as_pod objs of
                     Inl e \<Rightarrow> ([], Some e)
                   | Inr ps \<Rightarrow>
                       read_containers logs parse c
                         (concat (map (\<lambda>p. map (Pair p) (filter (IsContainerSelected d) (pod_Containers p))) ps))
                         0 [] None)))
      in (out, case err of None \<Rightarrow> None | Some e \<Rightarrow> if not_found e then None else Some e))"

section \<open>Stores from a configuration\<close>

datatype log_store = LokiStore string | LokiStackStore string | DirectStore

text \<open>\<open>strconv.ParseBool\<close>.\<close>

definition ParseBool :: "string \<Rightarrow> bool option" where
  "ParseBool s =
     (if s \<in> set [''1'', ''t'', ''T'', ''TRUE'', ''true'', ''True''] then Some True
      else if s \<in> set [''0'', ''f'', ''F'', ''FALSE'', ''false'', ''False''] then Some False
      else None)"

text \<open>\<open>NewStore\<close>: \<open>parse_url\<close>, the HTTP client and the client set of the direct store can fail.\<close>

definition log_NewStore ::
  "(string \<Rightarrow> error option) \<Rightarrow> error option \<Rightarrow> error option \<Rightarrow> smap \<Rightarrow> log_store list result" where
  "log_NewStore parse_url http_client clientset cs =
     (let loki = smap_get cs ''loki''; lokiStack = smap_get cs ''lokiStack''; direct = smap_get cs ''direct''
      in if loki \<noteq> [] \<and> lokiStack \<noteq> [] then Inl (ErrorString (''can'' @ [CHR 0x27] @ ''t set both loki and lokiStack URLs''))
         else case http_client of
           Some e \<Rightarrow> Inl e
         | None \<Rightarrow>
             (case (if loki \<noteq> [] then parse_url loki else None) of
                Some e \<Rightarrow> Inl e
              | None \<Rightarrow>
                  (case (if lokiStack \<noteq> [] then parse_url lokiStack else None) of
                     Some e \<Rightarrow> Inl e
                   | None \<Rightarrow>
                       if direct \<noteq> [] \<and> ParseBool direct = None
                       then Inl (ErrorString (''strconv.ParseBool: parsing '' @ quoted direct @ '': invalid syntax''))
                       else case (if ParseBool direct = Some True then clientset else None) of
                         Some e \<Rightarrow> Inl e
                       | None \<Rightarrow>
                           (let stores =
                              (if loki \<noteq> [] then [LokiStore loki] else []) @
                              (if lokiStack \<noteq> [] then [LokiStackStore lokiStack] else []) @
                              (if ParseBool direct = Some True then [DirectStore] else [])
                            in if length stores = 0
                               then Inl (ErrorString ''must set at least one of loki, lokiStack or direct'')
                               else Inr stores))))"

end
