(* ===== verification/Netflow.thy ===== *)
theory Netflow
  imports LogDomain
begin

text \<open>
  \<open>pkg/domains/netflow/netflow.go\<close>: network flows, which are log records in Loki. The FNV-1 hash that
  identifies a flow is computed on 64-bit words. What \<open>fmt\<close> prints for a value under \<open>%v\<close>, HTTP and JSON
  are parameters. A query is a value, the LogQL text, so it has no address.
\<close>

section \<open>Domains with fixed classes\<close>

text \<open>The laws of a domain that \<open>impl.NewDomain\<close> makes from distinct classes of its own, when its parser
  takes the class from \<open>impl.ParseQuery\<close>.\<close>

lemma NewDomain_laws:
  assumes "distinct (map k_name cs)" and "list_all (\<lambda>c. k_domain c = n) cs"
    and "\<And>p s q. query p s = Inr q \<Longrightarrow> q_class q \<in> set cs"
  shows "domain_laws (NewDomain n cs query)"
proof
  fix m c
  show "dom_Class (NewDomain n cs query) m = Some c \<Longrightarrow> k_domain c = dom_Name (NewDomain n cs query)"
    using assms(2) by (auto simp: NewDomain_def list_all_iff dest: classMap_name)
  show "dom_Class (NewDomain n cs query) m = Some c \<Longrightarrow> dom_Class (NewDomain n cs query) (k_name c) = Some c"
    by (auto simp: NewDomain_def dest: classMap_name)
next
  fix c
  show "c \<in> set (dom_Classes (NewDomain n cs query)) \<Longrightarrow> dom_Class (NewDomain n cs query) (k_name c) = Some c"
    using classMap_member [OF assms(1)] by (simp add: NewDomain_def)
next
  fix p s q
  assume "dom_Query (NewDomain n cs query) p s = Inr q"
  then have "q_class q \<in> set cs" using assms(3) by (simp add: NewDomain_def)
  then show "dom_Class (NewDomain n cs query) (k_name (q_class q)) = Some (q_class q)"
    using classMap_member [OF assms(1)] by (simp add: NewDomain_def)
qed

lemma ParseQuery_class: "impl_ParseQuery n (classMap cs) s = Inr (c, data) \<Longrightarrow> c \<in> set cs"
  by (auto simp: impl_ParseQuery_iff dest: classMap_name)

interpretation log: domain_laws "log_Domain unmarshal quote marshal" for unmarshal quote marshal
  unfolding log_Domain_def
  by (rule NewDomain_laws)
     (auto simp: log_classes_def log_NewQuery_def [abs_def] split: sum.splits dest!: ParseQuery_class)

section \<open>The domain\<close>

definition netflow_class :: klass where "netflow_class = Klass ''netflow'' ''network''"

definition netflow_Query :: "nat \<Rightarrow> string \<Rightarrow> query result" where
  "netflow_Query p s =
     (case impl_ParseQuery ''netflow'' (classMap [netflow_class]) s of
        Inl e \<Rightarrow> Inl e
      | Inr (_, s) \<Rightarrow> Inr \<lparr>q_class = netflow_class, q_data = s, q_ptr = 0\<rparr>)"

definition netflow_Domain :: domain where
  "netflow_Domain = NewDomain ''netflow'' [netflow_class] netflow_Query"

interpretation netflow: domain_laws netflow_Domain
  unfolding netflow_Domain_def
  by (rule NewDomain_laws) (auto simp: netflow_Query_def netflow_class_def split: sum.splits)

definition netflow_NewQuery :: "string \<Rightarrow> query" where
  "netflow_NewQuery logQL = \<lparr>q_class = netflow_class, q_data = strings_TrimSpace logQL, q_ptr = 0\<rparr>"

definition TypeToK8s :: "string \<Rightarrow> string" where
  "TypeToK8s netflowType =
     (if netflowType \<in> set [''Deployment'', ''DaemonSet'', ''StatefulSet'', ''ReplicaSet'']
      then ''k8s:'' @ netflowType @ ''.v1.apps''
      else ''k8s:'' @ netflowType @ ''.v1'')"

text \<open>The stores a configuration asks for; an HTTP client or a URL can fail.\<close>

datatype netflow_store = NetflowLoki string | NetflowLokiStack string

definition netflow_Store :: "(string \<Rightarrow> error option) \<Rightarrow> error option \<Rightarrow> smap \<Rightarrow> netflow_store result" where
  "netflow_Store parse_url http_client cs =
     (case http_client of
        Some e \<Rightarrow> Inl e
      | None \<Rightarrow>
          (let loki = smap_get cs ''loki''; lokiStack = smap_get cs ''lokiStack''
           in if loki \<noteq> [] \<and> lokiStack \<noteq> []
              then Inl (ErrorString (''can'' @ [CHR 0x27] @ ''t set both loki and lokiStack URLs''))
              else if loki \<noteq> []
              then (case parse_url loki of Some e \<Rightarrow> Inl e | None \<Rightarrow> Inr (NetflowLoki loki))
              else if lokiStack \<noteq> []
              then (case parse_url lokiStack of Some e \<Rightarrow> Inl e | None \<Rightarrow> Inr (NetflowLokiStack lokiStack))
              else Inl (ErrorString ''must set one of loki or lokiStack URLs'')))"

section \<open>Objects and identity\<close>

text \<open>
  \<open>NewObject\<close>. \<open>decode\<close> is \<open>json.Unmarshal\<close> into a map: what the variable holds afterwards, where
  \<open>None\<close> is the nil map a body of \<open>null\<close> leaves. Copying labels into a nil map panics.
\<close>

definition netflow_NewObject :: "(string \<Rightarrow> gomap option) \<Rightarrow> Loki_Log \<Rightarrow> gomap option go" where
  "netflow_NewObject decode entry =
     (let labels = map (\<lambda>(k, v). (k, VString v)) (ll_Labels entry)
      in case decode (ll_Body entry) of
           None \<Rightarrow> if labels = [] then Returns None else Panics ''assignment to entry in nil map''
         | Some obj \<Rightarrow> Returns (Some (fold (\<lambda>(k, v) m. al_set k v m) labels obj)))"

definition idKeys :: "string list" where
  "idKeys =
     [''SrcK8S_Name'', ''SrcSubnetLabel'', ''AgentIP'', ''DstK8S_OwnerType'', ''Proto'', ''SrcK8S_OwnerType'',
      ''DnsErrno'', ''DstPort'', ''DstSubnetLabel'', ''SrcK8S_Namespace'', ''SrcK8S_Type'', ''DstK8S_Name'',
      ''DstMac'', ''K8S_FlowLayer'', ''SrcAddr'', ''SrcPort'', ''service_name'', ''DstK8S_HostName'',
      ''DstK8S_Type'', ''SrcMac'', ''DstAddr'', ''DstK8S_HostIP'', ''DstK8S_Namespace'', ''DstK8S_OwnerName'',
      ''IfDirections'', ''SrcK8S_HostIP'', ''SrcK8S_HostName'', ''SrcK8S_OwnerName'', ''Dscp'']"

text \<open>\<open>hash/fnv\<close>: the 64-bit FNV-1 hash multiplies and then mixes in the byte.\<close>

definition fnv64_step :: "char \<Rightarrow> 64 word \<Rightarrow> 64 word" where
  "fnv64_step c h = Bit_Operations.xor (h * 1099511628211) (of_nat (of_char c))"

definition fnv64 :: "string \<Rightarrow> 64 word" where
  "fnv64 s = fold fnv64_step s 14695981039346656037"

definition netflow_ID :: "(go_value \<Rightarrow> string) \<Rightarrow> gomap \<Rightarrow> 64 word" where
  "netflow_ID sprint obj = fold (\<lambda>k h. fold fnv64_step (sprint (gomap_get obj k)) h) idKeys 14695981039346656037"

lemma netflow_ID_concat:
  "netflow_ID sprint obj = fnv64 (concat (map (\<lambda>k. sprint (gomap_get obj k)) idKeys))"
proof -
  have "fold (\<lambda>k h. fold fnv64_step (sprint (gomap_get obj k)) h) ks h0
      = fold fnv64_step (concat (map (\<lambda>k. sprint (gomap_get obj k)) ks)) h0" for ks h0
    by (induction ks arbitrary: h0) simp_all
  then show ?thesis by (simp add: netflow_ID_def fnv64_def)
qed

text \<open>The identity depends on nothing but the key attributes, so flows that differ in their counters or
  times are one object for the engine.\<close>

lemma netflow_ID_keys:
  "(\<And>k. k \<in> set idKeys \<Longrightarrow> gomap_get a k = gomap_get b k) \<Longrightarrow> netflow_ID sprint a = netflow_ID sprint b"
  unfolding netflow_ID_concat by (rule arg_cong [where f = "\<lambda>x. fnv64 (concat x)"]) simp

text \<open>The printed values are hashed without separators, so different flows can have the same identity.\<close>

lemma netflow_ID_collision:
  fixes sprint
  defines "a \<equiv> [(''SrcPort'', VString ''12''), (''service_name'', VString ''3'')] :: gomap"
    and "b \<equiv> [(''SrcPort'', VString ''1''), (''service_name'', VString ''23'')] :: gomap"
  assumes "sprint VNil = ''<nil>''" and "\<And>s. sprint (VString s) = s"
  shows "netflow_ID sprint a = netflow_ID sprint b"
  unfolding netflow_ID_concat a_def b_def by (simp add: assms idKeys_def gomap_get_def ptr_Deref_def)

section \<open>Stores\<close>

text \<open>\<open>store.Get\<close> and \<open>stackStore.Get\<close> ask Loki for the query text as it is.\<close>

definition netflow_store_Get ::
  "(string \<Rightarrow> (string \<times> string) list \<Rightarrow> loki_response result) \<Rightarrow> (string \<Rightarrow> gomap option) \<Rightarrow> string \<Rightarrow>
     Constraint option \<Rightarrow> gomap option go list \<times> error option" where
  "netflow_store_Get http decode q c =
     (let (logs, err) = loki_get (http queryRangePath (loki_queryParams q c))
      in (map (netflow_NewObject decode) logs, err))"

definition netflow_stackStore_Get ::
  "(string \<Rightarrow> (string \<times> string) list \<Rightarrow> loki_response result) \<Rightarrow> (string \<Rightarrow> gomap option) \<Rightarrow> string \<Rightarrow>
     Constraint option \<Rightarrow> gomap option go list \<times> error option" where
  "netflow_stackStore_Get http decode q c =
     (let (logs, err) = loki_get (http (stackPath ''network'') (loki_queryParams q c))
      in (map (netflow_NewObject decode) logs, err))"

end
