(* ===== verification/Metric.thy ===== *)
theory Metric
  imports Netflow
begin

text \<open>
  \<open>internal/pkg/prometheus/prometheus.go\<close> and \<open>pkg/domains/metric\<close>. A user without access to the cluster's
  Prometheus is sent to the namespaced port, and whether a user has access is cached for ten minutes. Go
  maps used as sets are lists of their keys, and \<open>order\<close> is the order in which a map is iterated. HTTP,
  the PromQL parser, the access review and the float format of times are parameters.
\<close>

section \<open>prometheus.go\<close>

definition NamespacedPort :: string where "NamespacedPort = ''9092''"

text \<open>\<open>net.SplitHostPort\<close> and \<open>net.JoinHostPort\<close>: the port follows the last colon, and a host with colons
  stands in brackets.\<close>

definition cut_last :: "char \<Rightarrow> string \<Rightarrow> (string \<times> string) option" where
  "cut_last c s =
     (if c \<in> set s
      then Some (rev (tl (dropWhile (\<lambda>x. x \<noteq> c) (rev s))), rev (takeWhile (\<lambda>x. x \<noteq> c) (rev s)))
      else None)"

definition SplitHostPort :: "string \<Rightarrow> (string \<times> string) option" where
  "SplitHostPort hostport =
     (case cut_last (CHR '':'') hostport of
        None \<Rightarrow> None
      | Some (h, port) \<Rightarrow>
          if CHR ''['' \<in> set port \<or> CHR '']'' \<in> set port then None
          else if h \<noteq> [] \<and> hd h = CHR ''[''
          then (case strings_Cut (tl h) (CHR '']'') of
                  (host, rest, closed) \<Rightarrow>
                    if closed \<and> rest = [] \<and> CHR ''['' \<notin> set host then Some (host, port) else None)
          else if CHR '':'' \<in> set h \<or> CHR ''['' \<in> set h \<or> CHR '']'' \<in> set h then None
          else Some (h, port))"

definition JoinHostPort :: "string \<Rightarrow> string \<Rightarrow> string" where
  "JoinHostPort host port =
     (if CHR '':'' \<in> set host then ''['' @ host @ '']:'' @ port else host @ '':'' @ port)"

definition ReplacePort :: "string \<Rightarrow> string \<Rightarrow> string" where
  "ReplacePort host newPort =
     (case SplitHostPort host of
        Some (h, _) \<Rightarrow> JoinHostPort h newPort
      | None \<Rightarrow> JoinHostPort host newPort)"

text \<open>The parameters of a URL in the order they are added.\<close>

type_synonym url_Values = "(string \<times> string) list"

definition AddNamespaceParams :: "(string list \<Rightarrow> string list) \<Rightarrow> url_Values \<Rightarrow> string list \<Rightarrow> url_Values" where
  "AddNamespaceParams order params namespaces = params @ map (Pair ''namespace'') (order namespaces)"

text \<open>\<open>CanAccessPrometheusAPI\<close> of the token in the context; \<open>review\<close> creates the access review.\<close>

definition rbacCache :: "(string, bool) TTL" where "rbacCache = NewTTL (10 * minute)"

definition CanAccessPrometheusAPI ::
  "(string \<Rightarrow> bool result) \<Rightarrow> time \<Rightarrow> string \<Rightarrow> (string, bool) TTL \<Rightarrow> (bool \<times> error option) \<times> (string, bool) TTL" where
  "CanAccessPrometheusAPI review now token c =
     (case TTL_Get now token c of
        (Some allowed, c) \<Rightarrow> ((allowed, None), c)
      | (None, c) \<Rightarrow>
          (case review token of
             Inl e \<Rightarrow> ((False, Some e), c)
           | Inr allowed \<Rightarrow> ((allowed, None), TTL_Put now token allowed c)))"

text \<open>A URL is its host and the rest; \<open>EffectiveURL\<close> changes the host of a copy.\<close>

record 'r host_url =
  hu_Host :: string
  hu_rest :: 'r

definition EffectiveURL ::
  "(string \<Rightarrow> bool result) \<Rightarrow> time \<Rightarrow> string \<Rightarrow> 'r host_url \<Rightarrow> (string, bool) TTL \<Rightarrow> 'r host_url \<times> (string, bool) TTL" where
  "EffectiveURL review now token u c =
     (let ((hasClusterAccess, _), c) = CanAccessPrometheusAPI review now token c
      in (if hasClusterAccess then u else u\<lparr>hu_Host := ReplacePort (hu_Host u) NamespacedPort\<rparr>, c))"

lemma CanAccess_cached_call:
  "CanAccessPrometheusAPI review now token c =
     map_prod (\<lambda>r. case r of Inl e \<Rightarrow> (False, Some e) | Inr b \<Rightarrow> (b, None)) id
       (ttl.cached_call review now token c)"
  by (auto simp: CanAccessPrometheusAPI_def ttl.cached_call_def split: prod.splits option.splits sum.splits)

lemma until_append:
  assumes "c \<notin> set p"
  shows "takeWhile (\<lambda>x. x \<noteq> c) (p @ c # r) = p" and "dropWhile (\<lambda>x. x \<noteq> c) (p @ c # r) = c # r"
  using assms by (induction p) auto

lemma cut_last_append: "c \<notin> set p \<Longrightarrow> cut_last c (h @ c # p) = Some (h, p)"
  by (simp add: cut_last_def until_append [of c "rev p" "rev h"])

lemma strings_Cut_append: "c \<notin> set h \<Longrightarrow> strings_Cut (h @ c # r) c = (h, r, True)"
  by (simp add: strings_Cut_def until_append)

lemma SplitHostPort_Join:
  assumes "list_all (\<lambda>x. x \<noteq> CHR '':'' \<and> x \<noteq> CHR ''['' \<and> x \<noteq> CHR '']'') p"
    and "list_all (\<lambda>x. x \<noteq> CHR ''['' \<and> x \<noteq> CHR '']'') h"
  shows "SplitHostPort (JoinHostPort h p) = Some (h, p)"
proof -
  have p: "CHR '':'' \<notin> set p" "CHR ''['' \<notin> set p" "CHR '']'' \<notin> set p" using assms(1) by (auto simp: list_all_iff)
  have h: "CHR ''['' \<notin> set h" "CHR '']'' \<notin> set h" using assms(2) by (auto simp: list_all_iff)
  show ?thesis
  proof (cases "CHR '':'' \<in> set h")
    case True
    have "cut_last (CHR '':'') (JoinHostPort h p) = Some (''['' @ h @ '']'', p)"
      using cut_last_append [OF p(1), of "''['' @ h @ '']''"] True by (simp add: JoinHostPort_def)
    moreover have "strings_Cut (h @ '']'') (CHR '']'') = (h, [], True)"
      using strings_Cut_append [OF h(2), of "[]"] by simp
    ultimately show ?thesis using p h by (simp add: SplitHostPort_def)
  next
    case False
    then have "cut_last (CHR '':'') (JoinHostPort h p) = Some (h, p)"
      using cut_last_append [OF p(1), of h] by (simp add: JoinHostPort_def)
    moreover have "\<not> (h \<noteq> [] \<and> hd h = CHR ''['')" using h(1) by (cases h) auto
    ultimately show ?thesis using p h False by (auto simp: SplitHostPort_def)
  qed
qed

text \<open>Replacing the port keeps the host: a host joined with a port, an IPv6 address included, comes back
  joined with the new port.\<close>

lemma ReplacePort_Join:
  "list_all (\<lambda>x. x \<noteq> CHR '':'' \<and> x \<noteq> CHR ''['' \<and> x \<noteq> CHR '']'') p \<Longrightarrow>
   list_all (\<lambda>x. x \<noteq> CHR ''['' \<and> x \<noteq> CHR '']'') h \<Longrightarrow>
   ReplacePort (JoinHostPort h p) q = JoinHostPort h q"
  by (simp add: ReplacePort_def SplitHostPort_Join)

text \<open>A host without a port gets it, unless it is an IPv6 address, whose brackets are doubled.\<close>

lemma ReplacePort_plain:
  assumes "CHR '':'' \<notin> set h"
  shows "ReplacePort h q = h @ '':'' @ q"
  using assms by (simp add: ReplacePort_def SplitHostPort_def cut_last_def JoinHostPort_def)

lemma ReplacePort_ipv6: "ReplacePort ''[::1]'' ''9092'' = ''[[::1]]:9092''"
  by code_simp

text \<open>For ten minutes after a review that allowed access, the same token is sent to the configured
  host, whatever a new review would say.\<close>

lemma EffectiveURL_cached:
  assumes "fst (TTL_Get t0 token c) = None" and "review token = Inr allowed"
    and "t0 \<le> t" and "t < t0 + ttl_ttl c"
  shows "fst (EffectiveURL review' t token u (snd (CanAccessPrometheusAPI review t0 token c))) =
     (if allowed then u else u\<lparr>hu_Host := ReplacePort (hu_Host u) NamespacedPort\<rparr>)"
proof -
  have "fst (ttl.cached_call review' t token (snd (ttl.cached_call review t0 token c))) = Inr allowed"
    using assms by (intro ttl.cached_call_stable)
  then obtain c' where "ttl.cached_call review' t token (snd (ttl.cached_call review t0 token c)) = (Inr allowed, c')"
    by (metis prod.collapse)
  then show ?thesis by (simp add: EffectiveURL_def CanAccess_cached_call)
qed

section \<open>The metric domain\<close>

record metric_Object =
  mo_Labels :: smap
  mo_Fingerprint :: string

definition metric_class :: klass where "metric_class = Klass ''metric'' ''metric''"

definition metric_Query :: "nat \<Rightarrow> string \<Rightarrow> query result" where
  "metric_Query p s =
     map_sum id (\<lambda>(_, qs). \<lparr>q_class = metric_class, q_data = qs, q_ptr = 0\<rparr>)
       (impl_ParseQuery ''metric'' (classMap [metric_class]) s)"

definition metric_Domain :: domain where
  "metric_Domain = NewDomain ''metric'' [metric_class] metric_Query"

interpretation metric: domain_laws metric_Domain
  unfolding metric_Domain_def
  by (rule NewDomain_laws) (auto simp: metric_Query_def metric_class_def map_sum_def split: sum.splits)

text \<open>\<open>Object.String\<close> of a map of labels, which has each key once.\<close>

definition metric_Object_String :: "metric_Object \<Rightarrow> string" where
  "metric_Object_String obj =
     (let metricName = smap_get (mo_Labels obj) ''__name__'';
          labelStrings = sort (map (\<lambda>(k, v). k @ ''='' @ strconv_Quote v)
                                (filter (\<lambda>(k, _). k \<noteq> ''__name__'') (mo_Labels obj)))
      in if length labelStrings = 0 then (if metricName \<noteq> [] then metricName else ''{}'')
         else metricName @ ''{'' @ strings_Join '', '' labelStrings @ ''}'')"

lemma metric_Object_String_example:
  "metric_Object_String \<lparr>mo_Labels = [(''pod'', ''p''), (''__name__'', ''up''), (''job'', ''j'')], mo_Fingerprint = []\<rparr>
   = ''up{job=\"j\", pod=\"p\"}''"
  by code_simp

text \<open>The labels of a map print alike in whatever order the map is iterated.\<close>

lemma metric_Object_String_order:
  assumes "mset ls = mset ls'" and "distinct (map fst ls)"
  shows "metric_Object_String \<lparr>mo_Labels = ls, mo_Fingerprint = f\<rparr> =
    metric_Object_String \<lparr>mo_Labels = ls', mo_Fingerprint = f\<rparr>"
proof -
  have "distinct (map fst ls')" using assms by (metis mset_map mset_eq_imp_distinct_iff)
  then have "map_of ls = map_of ls'"
    using assms by (metis map_of_inject_set mset_eq_setD)
  moreover have "sort (map g (filter P ls)) = sort (map g (filter P ls'))" for P and g :: "_ \<Rightarrow> string"
    by (rule properties_for_sort) (simp_all add: assms(1) mset_filter)
  ultimately show ?thesis unfolding metric_Object_String_def smap_get_def by simp
qed

text \<open>\<open>extractNamespaces\<close>: the text between the first \<open>namespace=\<close> with a quote and the next such quote;
  the single quote is tried only when there is no double quote.\<close>

definition namespace_in :: "char \<Rightarrow> string \<Rightarrow> string option option" where
  "namespace_in quote selector =
     (case strings_Index selector (''namespace='' @ [quote]) of
        None \<Rightarrow> None
      | Some idx \<Rightarrow>
          Some (let rest = drop (idx + 11) selector
                in case strings_Index rest [quote] of None \<Rightarrow> None | Some e \<Rightarrow> Some (take e rest)))"

definition extract_namespace :: "string \<Rightarrow> string list \<Rightarrow> string list" where
  "extract_namespace selector namespaces =
     (case (case namespace_in (CHR 0x22) selector of
              Some found \<Rightarrow> found
            | None \<Rightarrow> ptr_Deref None (namespace_in (CHR 0x27) selector)) of
        None \<Rightarrow> namespaces
      | Some ns \<Rightarrow> List.insert ns namespaces)"

definition extractNamespaces :: "string list \<Rightarrow> string list" where
  "extractNamespaces selectors = fold extract_namespace selectors []"

text \<open>Any label whose name ends in \<open>namespace\<close> counts, such as the \<open>exported_namespace\<close> label of federated
  metrics.\<close>

lemma extractNamespaces_exported:
  "extractNamespaces [''up{exported_namespace=\"a\",namespace=\"b\"}''] = [''a'']"
  by code_simp

lemma extractNamespaces_distinct: "distinct (extractNamespaces selectors)"
  unfolding extractNamespaces_def
  by (rule fold_invariant_step [where P = distinct])
     (auto simp: extract_namespace_def split: option.splits)

text \<open>The parameters of the request for series, in the order they are added.\<close>

definition metric_params ::
  "(time \<Rightarrow> string) \<Rightarrow> (string list \<Rightarrow> string list) \<Rightarrow> string list \<Rightarrow> Constraint option \<Rightarrow> url_Values" where
  "metric_params formatTime order selectors c =
     (let q = map (Pair ''match[]'') selectors;
          q = AddNamespaceParams order q (extractNamespaces selectors)
      in case c of
           None \<Rightarrow> q
         | Some c \<Rightarrow>
             q @ (case c_Start c of None \<Rightarrow> [] | Some t \<Rightarrow> if t \<noteq> zero_time then [(''start'', formatTime t)] else [])
               @ (case c_End c of None \<Rightarrow> [] | Some t \<Rightarrow> if t \<noteq> zero_time then [(''end'', formatTime t)] else [])
               @ (case c_Limit c of None \<Rightarrow> [] | Some n \<Rightarrow> if n > 0 then [(''limit'', show_int n)] else []))"

record metric_response =
  mr_Status :: string
  mr_Data :: "smap list"

definition convertMetricToMap :: "smap \<Rightarrow> smap" where
  "convertMetricToMap m = fold (\<lambda>(k, v) res. al_set k v res) m []"

text \<open>\<open>Store.Get\<close> of a metric query at the URL \<open>EffectiveURL\<close> gave; \<open>http\<close> asks its series endpoint.\<close>

definition metric_Get ::
  "(string \<Rightarrow> string list result) \<Rightarrow> (time \<Rightarrow> string) \<Rightarrow> (string list \<Rightarrow> string list) \<Rightarrow>
     (url_Values \<Rightarrow> metric_response result) \<Rightarrow> (smap \<Rightarrow> string) \<Rightarrow> string \<Rightarrow> Constraint option \<Rightarrow>
     metric_Object list \<times> error option" where
  "metric_Get selectors_of formatTime order http fingerprint query c =
     (case selectors_of query of
        Inl e \<Rightarrow> ([], Some e)
      | Inr selectors \<Rightarrow>
          (case http (metric_params formatTime order selectors c) of
             Inl e \<Rightarrow> ([], Some (ErrorWrap ''metric tenancy query error: '' e []))
           | Inr r \<Rightarrow>
               if mr_Status r \<noteq> ''success''
               then ([], Some (ErrorString (''unexpected status: '' @ mr_Status r)))
               else (map (\<lambda>m. \<lparr>mo_Labels = convertMetricToMap m, mo_Fingerprint = fingerprint m\<rparr>) (mr_Data r), None)))"

end
