(* ===== verification/Trace.thy ===== *)
theory Trace
  imports Metric
begin

text \<open>
  \<open>pkg/domains/trace\<close> and \<open>pkg/otel/attributes.go\<close>: spans found by TraceQL in Tempo. The decoded response
  is a parameter of \<open>trace_get\<close>; the decoding of a span's duration is the one of \<open>internal/pkg/types\<close>.
\<close>

record SpanContext =
  sc_TraceID :: string
  sc_SpanID :: string

datatype StatusCode = StatusUnset | StatusError | StatusOK

record span_Status =
  ss_Code :: StatusCode
  ss_Description :: string

record Span =
  sp_Name :: string
  sp_Context :: SpanContext
  sp_ParentID :: "string option"
  sp_StartTime :: time
  sp_EndTime :: time
  sp_Attributes :: gomap
  sp_Status :: span_Status

definition span_Duration :: "Span \<Rightarrow> duration" where
  "span_Duration s = sp_EndTime s - sp_StartTime s"

definition trace_class :: klass where "trace_class = Klass ''trace'' ''span''"

definition trace_ID :: "Span option \<Rightarrow> SpanContext option" where
  "trace_ID obj = map_option sp_Context obj"

definition trace_Query :: "nat \<Rightarrow> string \<Rightarrow> query result" where
  "trace_Query p s =
     (case impl_ParseQuery ''trace'' (classMap [trace_class]) s of
        Inl e \<Rightarrow> Inl e
      | Inr (_, s) \<Rightarrow> Inr \<lparr>q_class = trace_class, q_data = s, q_ptr = 0\<rparr>)"

definition trace_NewQuery :: "string \<Rightarrow> query" where
  "trace_NewQuery traceQL = \<lparr>q_class = trace_class, q_data = strings_TrimSpace traceQL, q_ptr = 0\<rparr>"

definition trace_Domain :: domain where
  "trace_Domain = NewDomain ''trace'' [trace_class] trace_Query"

interpretation trace: domain_laws trace_Domain
  unfolding trace_Domain_def
  by (rule NewDomain_laws) (auto simp: trace_Query_def trace_class_def split: sum.splits)

definition trace_Store :: "(string \<Rightarrow> error option) \<Rightarrow> error option \<Rightarrow> smap \<Rightarrow> string result" where
  "trace_Store parse_url http_client cs =
     (case http_client of
        Some e \<Rightarrow> Inl e
      | None \<Rightarrow>
          (let tempoStack = smap_get cs ''tempoStack''
           in if tempoStack = [] then Inl (ErrorString ''must set tempoStack URL'')
              else case parse_url tempoStack of Some e \<Rightarrow> Inl e | None \<Rightarrow> Inr tempoStack))"

section \<open>The query\<close>

text \<open>\<open>hasSelect\<close>: a bar, spaces, \<open>select\<close>, spaces and a parenthesis, at a position and anywhere.\<close>

definition hasSelect_here :: "string \<Rightarrow> bool" where
  "hasSelect_here s \<longleftrightarrow>
     (case cut_char (CHR ''|'') s of
        None \<Rightarrow> False
      | Some t \<Rightarrow>
          (let t = dropWhile (\<lambda>c. c = CHR '' '') t
           in strings_HasPrefix t ''select'' \<and>
              strings_HasPrefix (dropWhile (\<lambda>c. c = CHR '' '') (drop 6 t)) ''(''))"

fun hasSelect :: "string \<Rightarrow> bool" where
  "hasSelect [] = False"
| "hasSelect (c # cs) = (hasSelect_here (c # cs) \<or> hasSelect cs)"

definition defaultAttributes :: string where
  "defaultAttributes = strings_Join '',''
     [''resource.http.method'', ''resource.http.status_code'', ''resource.http.target'', ''resource.http.url'',
      ''resource.k8s.deployment.name'', ''resource.k8s.namespace.name'', ''resource.k8s.node.name'',
      ''resource.k8s.pod.ip'', ''resource.k8s.pod.name'', ''resource.k8s.pod.uid'', ''resource.net.host.name'',
      ''resource.net.host.port'', ''resource.net.peer.name'', ''resource.net.peer.port'', ''resource.service.name'']"

definition defaultSelect :: "string \<Rightarrow> string" where
  "defaultSelect traceQL =
     (if \<not> hasSelect traceQL then traceQL @ ''|select('' @ defaultAttributes @ '')'' else traceQL)"

lemma hasSelect_append: "hasSelect t \<Longrightarrow> hasSelect (s @ t)"
  by (induction s) auto

lemma defaultSelect_idempotent: "defaultSelect (defaultSelect q) = defaultSelect q"
proof -
  have "hasSelect (''|select('' @ t)" for t by (simp add: hasSelect_here_def cut_char_def)
  then have "hasSelect (q @ ''|select('' @ t)" for t by (rule hasSelect_append)
  then show ?thesis by (simp add: defaultSelect_def)
qed

definition trace_formatTime :: "time \<Rightarrow> string" where
  "trace_formatTime t = show_int ((t - unix_epoch) div second)"

text \<open>The parameters \<open>get\<close> adds: a start time needs an end time.\<close>

definition trace_params :: "time \<Rightarrow> string \<Rightarrow> Constraint option \<Rightarrow> url_Values" where
  "trace_params now traceQL c =
     (let start = Constraint_GetStart c; end = Constraint_GetEnd c
      in [(''q'', defaultSelect traceQL)] @
         (if Constraint_GetLimit c > 0 then [(''limit'', show_int (Constraint_GetLimit c))] else []) @
         (if end \<noteq> zero_time then [(''end'', trace_formatTime end)] else []) @
         (if start \<noteq> zero_time
          then [(''start'', trace_formatTime start)] @
               (if end = zero_time then [(''end'', trace_formatTime now)] else [])
          else []))"

lemma trace_params_start_end:
  "(\<exists>v. (''start'', v) \<in> set (trace_params now q c)) \<Longrightarrow> (\<exists>v. (''end'', v) \<in> set (trace_params now q c))"
  by (auto simp: trace_params_def Let_def split: if_splits)

section \<open>The response\<close>

text \<open>\<open>KeyValueList.Map\<close>: a later value of a key replaces an earlier one.\<close>

definition KeyValueList_Map :: "(string \<times> go_value) list \<Rightarrow> gomap" where
  "KeyValueList_Map l = fold (\<lambda>(k, v) m. al_set k v m) l []"

record tempoSpan =
  ts_SpanID :: string
  ts_Start :: time
  ts_Duration :: int64
  ts_Attributes :: "(string \<times> go_value) list"

record tempoTrace =
  tt_TraceID :: string
  tt_RootServiceName :: string
  tt_RootTraceName :: string
  tt_SpanSets :: "tempoSpan list list"
  tt_SpanSet :: "tempoSpan list option"

text \<open>The fields of a span that hold numbers, decoded from their raw JSON.\<close>

definition tempoSpan_times :: "string \<Rightarrow> string \<Rightarrow> tempoSpan \<Rightarrow> tempoSpan" where
  "tempoSpan_times startTimeUnixNano durationNanos ts =
     ts\<lparr>ts_Start := fst (UnixNanoTime_UnmarshalJSON startTimeUnixNano),
        ts_Duration := fst (MilliDuration_UnmarshalJSON durationNanos)\<rparr>"

definition collect_span :: "tempoTrace \<Rightarrow> tempoSpan \<Rightarrow> Span" where
  "collect_span tt ts =
     (let attrs = al_set ''service.name'' (VString (tt_RootServiceName tt)) (KeyValueList_Map (ts_Attributes ts));
          description = string_or_blank (gomap_get attrs ''status'')
      in \<lparr>sp_Name = tt_RootTraceName tt,
          sp_Context = \<lparr>sc_TraceID = tt_TraceID tt, sc_SpanID = ts_SpanID ts\<rparr>,
          sp_ParentID = None,
          sp_StartTime = ts_Start ts,
          sp_EndTime = ts_Start ts + sint (ts_Duration ts),
          sp_Attributes = al_delete ''status'' attrs,
          sp_Status = \<lparr>ss_Code = (if description \<noteq> [] then StatusError else StatusUnset),
                       ss_Description = description\<rparr>\<rparr>)"

definition tempoTrace_collect :: "tempoTrace \<Rightarrow> tempoSpan list \<Rightarrow> Span list" where
  "tempoTrace_collect tt spans = map (collect_span tt) spans"

definition tempoResponse_collect :: "tempoTrace list \<Rightarrow> Span list" where
  "tempoResponse_collect traces =
     concat (map (\<lambda>tt. concat (map (tempoTrace_collect tt) (tt_SpanSets tt)) @
                       (case tt_SpanSet tt of None \<Rightarrow> [] | Some s \<Rightarrow> tempoTrace_collect tt s)) traces)"

definition trace_get ::
  "(url_Values \<Rightarrow> tempoTrace list result) \<Rightarrow> time \<Rightarrow> string \<Rightarrow> Constraint option \<Rightarrow> Span list \<times> error option" where
  "trace_get http now traceQL c =
     (case http (trace_params now traceQL c) of
        Inl e \<Rightarrow> ([], Some e)
      | Inr response \<Rightarrow> (tempoResponse_collect response, None))"

text \<open>Every span of a response becomes one object, with the identity Tempo gave it.\<close>

lemma tempoResponse_collect_IDs:
  "map sp_Context (tempoResponse_collect traces) =
     concat (map (\<lambda>tt. map (\<lambda>ts. \<lparr>sc_TraceID = tt_TraceID tt, sc_SpanID = ts_SpanID ts\<rparr>)
       (concat (tt_SpanSets tt) @ (case tt_SpanSet tt of None \<Rightarrow> [] | Some s \<Rightarrow> s))) traces)"
proof -
  have "map sp_Context (tempoTrace_collect tt s) = map (\<lambda>ts. \<lparr>sc_TraceID = tt_TraceID tt, sc_SpanID = ts_SpanID ts\<rparr>) s" for tt s
    by (simp add: tempoTrace_collect_def collect_span_def Let_def)
  then show ?thesis
    by (auto simp: tempoResponse_collect_def map_concat comp_def intro!: arg_cong [where f = concat] split: option.splits)
qed

text \<open>The field \<open>durationNanos\<close> of a Tempo span holds nanoseconds, but its type reads milliseconds: a span
  of \<open>n\<close> nanoseconds gets a duration a million times too long, for every \<open>n\<close> that does not overflow (about
  two and a half hours).\<close>

theorem tempoSpan_durationNanos:
  fixes n :: int64
  assumes "\<bar>sint n\<bar> \<le> 9223372036854"
  shows "span_Duration (collect_span tt (tempoSpan_times start (show_int (sint n)) ts)) = 1000000 * sint n"
proof -
  have "(word_of_int (sint n * 1000000) :: int64) = n * 1000000" unfolding of_int_mult by simp
  then have "sint (n * 1000000) = sint n * 1000000"
    using sint_word_of_int64 [of "sint n * 1000000"] assms by (auto simp: min_int64_def max_int64_def)
  then show ?thesis
    by (simp add: span_Duration_def collect_span_def tempoSpan_times_def Let_def
        MilliDuration_UnmarshalJSON_def ProtobufInt_number)
qed

lemma tempoSpan_durationNanos_witness:
  "span_Duration (collect_span
     \<lparr>tt_TraceID = ''t'', tt_RootServiceName = ''s'', tt_RootTraceName = ''n'', tt_SpanSets = [], tt_SpanSet = None\<rparr>
     (tempoSpan_times ''1'' (show_int (sint (44697949 :: int64)))
       \<lparr>ts_SpanID = ''1'', ts_Start = 0, ts_Duration = 0, ts_Attributes = []\<rparr>)) = 44697949000000"
  by (subst tempoSpan_durationNanos) simp_all

end
