(* ===== verification/Incident.thy ===== *)
theory Incident
  imports Trace
begin

text \<open>
  \<open>pkg/domains/incident/incident.go\<close>: incidents are groups of alerts that cluster-health-analyzer reports
  as samples of one Prometheus metric. A sample is its labels. The Prometheus client is a parameter, and
  \<open>order\<close> the order in which the map of incidents is iterated.
\<close>

record incident_Object =
  io_Id :: string
  io_AlertsLabels :: "smap list"
  io_Value :: string

record incident_Query =
  iq_Id :: string
  iq_AlertLabels :: smap

definition incident_class :: klass where "incident_class = Klass ''incident'' ''incident''"

definition incident_Query_parse :: "(string \<Rightarrow> incident_Query result) \<Rightarrow> string \<Rightarrow> incident_Query result" where
  "incident_Query_parse unmarshal s =
     map_sum id snd (impl_UnmarshalQueryString unmarshal ''incident'' (classMap [incident_class]) s)"

definition incident_Domain ::
  "(string \<Rightarrow> incident_Query result) \<Rightarrow> (incident_Query \<Rightarrow> string) \<Rightarrow> domain" where
  "incident_Domain unmarshal marshal =
     NewDomain ''incident'' [incident_class] (\<lambda>p s.
       map_sum id (\<lambda>q. \<lparr>q_class = incident_class, q_data = marshal q, q_ptr = p\<rparr>)
         (incident_Query_parse unmarshal s))"

interpretation incident: domain_laws "incident_Domain unmarshal marshal" for unmarshal marshal
  unfolding incident_Domain_def
  by (rule NewDomain_laws)
     (auto simp: incident_Query_parse_def incident_class_def map_sum_def split: sum.splits)

definition incident_ID :: "incident_Object \<Rightarrow> string" where
  "incident_ID obj = io_Id obj"

section \<open>PromQL\<close>

text \<open>\<open>int(d.Seconds())\<close> of a duration, truncated towards zero.\<close>

definition preparePromQL :: "time \<Rightarrow> incident_Query \<Rightarrow> Constraint option \<Rightarrow> (string \<times> time) result" where
  "preparePromQL now q c =
     (let promq = ''cluster:health:components:map'' @
            (if iq_Id q \<noteq> [] then ''{group_id='' @ [CHR 0x22] @ iq_Id q @ [CHR 0x22] @ ''}'' else [])
      in case c of
           None \<Rightarrow> Inr (promq, now)
         | Some c \<Rightarrow>
             (let t = ptr_Deref now (c_End c)
              in case c_Start c of
                   None \<Rightarrow> Inr (promq, t)
                 | Some s \<Rightarrow>
                     (let duration = quot (t - s) second
                      in if duration < 0
                         then Inl (ErrorString ''start constraint is happening before the end time'')
                         else Inr (''max_over_time('' @ promq @ ''['' @ show_int duration @ ''s])'', t))))"

text \<open>The query fails exactly when the start is at least a second after the end, which the text of the
  error says the other way round.\<close>

lemma preparePromQL_fails:
  assumes "c_Start c = Some s"
  shows "(\<exists>e. preparePromQL now q (Some c) = Inl e) \<longleftrightarrow> ptr_Deref now (c_End c) + second \<le> s"
proof -
  let ?d = "ptr_Deref now (c_End c) - s"
  have "quot ?d second < 0 \<longleftrightarrow> ?d \<le> - second"
  proof (cases "?d < 0")
    case True
    have "0 < (- ?d) div second \<longleftrightarrow> second \<le> - ?d"
      by (rule pos_imp_zdiv_pos_iff) (simp add: second_def)
    moreover have "quot ?d second = - ((- ?d) div second)" using True by (simp add: quot_def second_def)
    ultimately show ?thesis by linarith
  next
    case False
    then have "0 \<le> quot ?d second" by (simp add: quot_def second_def sgn_if pos_imp_zdiv_nonneg_iff)
    with False show ?thesis by (simp add: second_def)
  qed
  then show ?thesis using assms by (auto simp: preparePromQL_def Let_def)
qed

section \<open>Objects\<close>

definition source_labels :: "smap \<Rightarrow> smap" where
  "source_labels labels =
     map (\<lambda>(k, v). (drop 4 k, v)) (filter (\<lambda>(k, _). strings_HasPrefix k ''src_'') labels)"

definition load_sample :: "smap \<Rightarrow> (string \<times> incident_Object) list \<Rightarrow> (string \<times> incident_Object) list" where
  "load_sample labels incidents =
     (let i = smap_get labels ''group_id'';
          obj = ptr_Deref \<lparr>io_Id = i, io_AlertsLabels = [], io_Value = []\<rparr> (map_of incidents i);
          obj = (if smap_get labels ''type'' = ''alert''
                 then obj\<lparr>io_AlertsLabels := io_AlertsLabels obj @ [source_labels labels]\<rparr> else obj)
      in al_set i obj incidents)"

definition loadObjects ::
  "(incident_Object list \<Rightarrow> incident_Object list) \<Rightarrow> smap list \<Rightarrow> incident_Object list" where
  "loadObjects order data = order (map snd (fold load_sample data []))"

definition isSubsetOf :: "smap \<Rightarrow> smap \<Rightarrow> bool" where
  "isSubsetOf part whole = list_all (\<lambda>(k, v). smap_get whole k = v) part"

definition filterObjects :: "incident_Object list \<Rightarrow> incident_Query \<Rightarrow> incident_Object list" where
  "filterObjects objects q =
     filter (\<lambda>obj. if length (iq_AlertLabels q) > 0
                   then list_ex (\<lambda>l. isSubsetOf l (iq_AlertLabels q)) (io_AlertsLabels obj)
                   else True) objects"

definition incident_Get ::
  "(string \<Rightarrow> time \<Rightarrow> smap list result) \<Rightarrow> (incident_Object list \<Rightarrow> incident_Object list) \<Rightarrow> time \<Rightarrow>
     incident_Query \<Rightarrow> Constraint option \<Rightarrow> incident_Object list \<times> error option" where
  "incident_Get prometheus order now q c =
     (case preparePromQL now q c of
        Inl e \<Rightarrow> ([], Some e)
      | Inr (promq, t) \<Rightarrow>
          (case prometheus promq t of
             Inl e \<Rightarrow> ([], Some (ErrorWrap ''failed to query incidents from Prometheus API: '' e []))
           | Inr data \<Rightarrow> (filterObjects (loadObjects order data) q, None)))"

lemma isSubsetOf_refl: "distinct (map fst m) \<Longrightarrow> isSubsetOf m m"
  by (auto simp: isSubsetOf_def list_all_iff smap_get_def ptr_Deref_def)

text \<open>What the loop over the samples leaves: for each incident its identity and the source labels of its
  alert samples, in order.\<close>

definition alerts_of :: "string \<Rightarrow> smap list \<Rightarrow> smap list" where
  "alerts_of i data =
     map source_labels (filter (\<lambda>l. smap_get l ''group_id'' = i \<and> smap_get l ''type'' = ''alert'') data)"

lemma load_samples_spec:
  "map_of (fold load_sample data []) i =
     (if \<exists>l \<in> set data. smap_get l ''group_id'' = i
      then Some \<lparr>io_Id = i, io_AlertsLabels = alerts_of i data, io_Value = []\<rparr> else None)"
proof (induction data rule: rev_induct)
  case (snoc l ls)
  then show ?case
    by (auto simp: load_sample_def Let_def alerts_of_def ptr_Deref_def map_of_al_set)
qed simp

lemma load_samples_distinct: "distinct (map fst (fold load_sample data []))"
  by (rule fold_invariant_step [where P = "\<lambda>m. distinct (map fst m)"])
     (auto simp: load_sample_def Let_def distinct_al_set)

text \<open>What a query finds: the incidents that some sample names, each once with the source labels of all
  its alerts, and when the query has alert labels only those with an alert whose source labels all
  occur in the query with the same value. The order of the map does not matter.\<close>

theorem filterObjects_loadObjects:
  assumes "mset (order (map snd (fold load_sample data []))) = mset (map snd (fold load_sample data []))"
  shows "obj \<in> set (filterObjects (loadObjects order data) q) \<longleftrightarrow>
     (\<exists>l \<in> set data. smap_get l ''group_id'' = io_Id obj) \<and>
     obj = \<lparr>io_Id = io_Id obj, io_AlertsLabels = alerts_of (io_Id obj) data, io_Value = []\<rparr> \<and>
     (iq_AlertLabels q = [] \<or>
      (\<exists>l \<in> set data. smap_get l ''group_id'' = io_Id obj \<and> smap_get l ''type'' = ''alert'' \<and>
         isSubsetOf (source_labels l) (iq_AlertLabels q)))"
proof -
  let ?m = "fold load_sample data []"
  have "obj \<in> set (loadObjects order data) \<longleftrightarrow> (\<exists>i. (i, obj) \<in> set ?m)"
    using mset_eq_setD [OF assms] by (force simp: loadObjects_def)
  also have "\<dots> \<longleftrightarrow> (\<exists>i. map_of ?m i = Some obj)"
    using load_samples_distinct [of data] by simp
  also have "\<dots> \<longleftrightarrow> (\<exists>l \<in> set data. smap_get l ''group_id'' = io_Id obj) \<and>
     obj = \<lparr>io_Id = io_Id obj, io_AlertsLabels = alerts_of (io_Id obj) data, io_Value = []\<rparr>"
    unfolding load_samples_spec by (cases obj) auto
  finally have "obj \<in> set (loadObjects order data) \<longleftrightarrow> \<dots>" .
  moreover have "list_ex (\<lambda>l. isSubsetOf l (iq_AlertLabels q)) (alerts_of i data) \<longleftrightarrow>
     (\<exists>l \<in> set data. smap_get l ''group_id'' = i \<and> smap_get l ''type'' = ''alert'' \<and>
         isSubsetOf (source_labels l) (iq_AlertLabels q))" for i
    by (auto simp: alerts_of_def list_ex_iff)
  moreover have "obj = \<lparr>io_Id = io_Id obj, io_AlertsLabels = alerts_of (io_Id obj) data, io_Value = []\<rparr> \<Longrightarrow>
    io_AlertsLabels obj = alerts_of (io_Id obj) data" by (metis incident_Object.select_convs(2))
  ultimately show ?thesis by (auto simp: filterObjects_def)
qed

definition example_samples :: "smap list" where
  "example_samples =
     [[(''group_id'', ''g1''), (''type'', ''alert''), (''src_alertname'', ''A'')],
      [(''group_id'', ''g2''), (''type'', ''alert''), (''src_alertname'', ''B'')]]"

lemma filterObjects_loadObjects_witness:
  "\<lparr>io_Id = ''g1'', io_AlertsLabels = [[(''alertname'', ''A'')]], io_Value = []\<rparr> \<in>
     set (filterObjects (loadObjects id example_samples)
       \<lparr>iq_Id = [], iq_AlertLabels = [(''alertname'', ''A''), (''severity'', ''info'')]\<rparr>)"
  by (subst filterObjects_loadObjects)
     (simp_all add: example_samples_def alerts_of_def source_labels_def isSubsetOf_def smap_get_def ptr_Deref_def)

end
