(* ===== verification/Alert.thy ===== *)
theory Alert
  imports Incident
begin

text \<open>
  \<open>pkg/domains/alert/alert.go\<close>: alerts of Prometheus and Loki rules, augmented from Alertmanager. The
  clients of the three services, JSON, YAML and fingerprints are parameters (\<open>alert_env\<close>), with the access
  review and its cache of \<open>prometheus.go\<close>. A set of namespaces is the list of its elements.
\<close>

record alert_Object =
  ao_Labels :: smap
  ao_Annotations :: smap
  ao_Status :: string
  ao_StartsAt :: time
  ao_Value :: string
  ao_Expression :: string
  ao_Fingerprint :: string
  ao_EndsAt :: time
  ao_UpdatedAt :: time
  ao_Receivers :: "string list"
  ao_InhibitedBy :: "string list"
  ao_SilencedBy :: "string list"
  ao_GeneratorURL :: string

definition zero_alert :: alert_Object where
  "zero_alert =
     \<lparr>ao_Labels = [], ao_Annotations = [], ao_Status = [], ao_StartsAt = zero_time, ao_Value = [],
      ao_Expression = [], ao_Fingerprint = [], ao_EndsAt = zero_time, ao_UpdatedAt = zero_time,
      ao_Receivers = [], ao_InhibitedBy = [], ao_SilencedBy = [], ao_GeneratorURL = []\<rparr>"

record alert_Query =
  aq_Qs :: string
  aq_Parsed :: "smap list"

definition alert_class :: klass where "alert_class = Klass ''alert'' ''alert''"

text \<open>\<open>domain.Query\<close>: a map of labels, else a list of maps; the two decoders are parameters.\<close>

definition alert_Query_parse ::
  "(string \<Rightarrow> smap result) \<Rightarrow> (string \<Rightarrow> smap list result) \<Rightarrow> string \<Rightarrow> alert_Query result" where
  "alert_Query_parse one many s =
     (case impl_ParseQuery ''alert'' (classMap [alert_class]) s of
        Inl e \<Rightarrow> Inl e
      | Inr (_, qs) \<Rightarrow>
          (case one qs of
             Inr simpleQuery \<Rightarrow> Inr \<lparr>aq_Qs = qs, aq_Parsed = [simpleQuery]\<rparr>
           | Inl _ \<Rightarrow>
               (case many qs of Inl e \<Rightarrow> Inl e | Inr query \<Rightarrow> Inr \<lparr>aq_Qs = qs, aq_Parsed = query\<rparr>)))"

definition alert_Domain :: "(string \<Rightarrow> smap result) \<Rightarrow> (string \<Rightarrow> smap list result) \<Rightarrow> domain" where
  "alert_Domain one many =
     NewDomain ''alert'' [alert_class] (\<lambda>p s.
       map_sum id (\<lambda>q. \<lparr>q_class = alert_class, q_data = aq_Qs q, q_ptr = p\<rparr>) (alert_Query_parse one many s))"

interpretation alert: domain_laws "alert_Domain one many" for one many
  unfolding alert_Domain_def
  by (rule NewDomain_laws) (auto simp: alert_class_def map_sum_def split: sum.splits)

definition alert_ID :: "alert_Object \<Rightarrow> string" where
  "alert_ID obj = ao_Fingerprint obj"

definition alert_Preview :: "alert_Object \<Rightarrow> string" where
  "alert_Preview obj = smap_get (ao_Labels obj) ''alertname''"

section \<open>The services\<close>

record prom_Alert =
  pa_Labels :: smap
  pa_Annotations :: smap
  pa_State :: string
  pa_Value :: string
  pa_ActiveAt :: time

datatype prom_rule = AlertingRule string "prom_Alert list" | RecordingRule

type_synonym RuleGroup = "prom_rule list"

record gettable_Alert =
  ga_Labels :: smap
  ga_Annotations :: smap
  ga_StartsAt :: time
  ga_EndsAt :: time
  ga_GeneratorURL :: string
  ga_Receivers :: "string list"
  ga_SilencedBy :: "string list"
  ga_InhibitedBy :: "string list"
  ga_State :: string

type_synonym host = "unit host_url"

text \<open>\<open>ae_http\<close> is a GET of a path under a host: a status and a body, or an error.\<close>

record alert_env =
  ae_review :: "string \<Rightarrow> bool result"
  ae_order :: "string list \<Rightarrow> string list"
  ae_newPrometheusClient :: "host \<Rightarrow> error option"
  ae_promRules :: "host \<Rightarrow> RuleGroup list result"
  ae_http :: "host \<Rightarrow> string \<Rightarrow> url_Values \<Rightarrow> (int \<times> string) result"
  ae_rules_json :: "string \<Rightarrow> (string \<times> RuleGroup list) result"
  ae_rules_yaml :: "string \<Rightarrow> (string \<times> RuleGroup list) list result"
  ae_newAlertmanagerClient :: "host \<Rightarrow> error option"
  ae_getAlerts :: "host \<Rightarrow> url_Values \<Rightarrow> string list \<Rightarrow> gettable_Alert list result"
  ae_fingerprint :: "smap \<Rightarrow> string"

record alert_Store =
  as_prometheusURL :: host
  as_alertmanagerURL :: host
  as_lokiRulerURL :: "host option"

section \<open>Loki rules\<close>

definition getLokiRulesForTenant ::
  "alert_env \<Rightarrow> host \<Rightarrow> string \<Rightarrow> string list \<Rightarrow> RuleGroup list result" where
  "getLokiRulesForTenant env lokiRulerURL tenant namespaces =
     (let path = ''/api/logs/v1/'' @ tenant @ ''/loki/api/v1/rules'';
          params = (if length namespaces > 0
                    then map (Pair ''kubernetes_namespace_name'') (ae_order env namespaces) else [])
      in case ae_http env lokiRulerURL path params of
           Inl e \<Rightarrow> Inl (ErrorWrap ''alert: GET Loki rules failed: '' e ('': '' @ path))
         | Inr (status, body) \<Rightarrow>
             if status \<noteq> 200
             then Inl (ErrorString (''loki ruler request returned status '' @ show_int status))
             else (case ae_rules_yaml env body of
                     Inl e \<Rightarrow> Inl (ErrorWrap ''failed to unmarshal Loki rules YAML: '' e [])
                   | Inr rulesMap \<Rightarrow> Inr (concat (map snd rulesMap))))"

definition getLokiRules :: "alert_env \<Rightarrow> alert_Store \<Rightarrow> string list \<Rightarrow> RuleGroup list" where
  "getLokiRules env s namespaces =
     (case as_lokiRulerURL s of
        None \<Rightarrow> []
      | Some u \<Rightarrow>
          concat (map (\<lambda>tenant. case getLokiRulesForTenant env u tenant namespaces of Inl _ \<Rightarrow> [] | Inr gs \<Rightarrow> gs)
            [''application'', ''infrastructure'', ''audit'']))"

section \<open>Access\<close>

definition url_Port :: "host \<Rightarrow> string" where
  "url_Port u = (case SplitHostPort (hu_Host u) of None \<Rightarrow> [] | Some (_, p) \<Rightarrow> p)"

text \<open>A client of Alertmanager is its URL and the namespaces that \<open>namespaceInjectingTransport\<close> adds to each
  request.\<close>

record alertmanager =
  am_URL :: host
  am_namespaces :: "string list"

definition RoundTrip_params :: "alert_env \<Rightarrow> string list \<Rightarrow> url_Values" where
  "RoundTrip_params env namespaces = map (Pair ''namespace'') (ae_order env namespaces)"

definition alertmanagerAPIForAccess ::
  "alert_env \<Rightarrow> time \<Rightarrow> string \<Rightarrow> alert_Store \<Rightarrow> string list \<Rightarrow> (string, bool) TTL \<Rightarrow>
     alertmanager result \<times> (string, bool) TTL" where
  "alertmanagerAPIForAccess env now token s namespaces cache =
     (let (u, cache) = EffectiveURL (ae_review env) now token (as_alertmanagerURL s) cache;
          am = \<lparr>am_URL = u, am_namespaces = (if url_Port u = NamespacedPort then namespaces else [])\<rparr>
      in (case ae_newAlertmanagerClient env u of Some e \<Rightarrow> Inl e | None \<Rightarrow> Inr am, cache))"

definition GetAlerts :: "alert_env \<Rightarrow> alertmanager \<Rightarrow> string list \<Rightarrow> gettable_Alert list result" where
  "GetAlerts env am filters = ae_getAlerts env (am_URL am) (RoundTrip_params env (am_namespaces am)) filters"

definition matchesSubquery :: "smap \<Rightarrow> smap \<Rightarrow> bool" where
  "matchesSubquery q labels = list_all (\<lambda>(k, v). v = smap_get labels k) q"

definition extractNamespacesFromQuery :: "alert_Query \<Rightarrow> string list" where
  "extractNamespacesFromQuery q =
     fold (\<lambda>subq namespaces.
         case map_of subq ''namespace'' of
           Some ns \<Rightarrow> if ns \<noteq> [] then List.insert ns namespaces else namespaces
         | None \<Rightarrow> namespaces) (aq_Parsed q) []"

definition getRulesWithNamespaceFilter ::
  "alert_env \<Rightarrow> time \<Rightarrow> string \<Rightarrow> alert_Store \<Rightarrow> alert_Query \<Rightarrow> (string, bool) TTL \<Rightarrow>
     RuleGroup list result \<times> (string, bool) TTL" where
  "getRulesWithNamespaceFilter env now token s q cache =
     (let namespaces = extractNamespacesFromQuery q
      in if length namespaces = 0 then (Inr [], cache)
         else (let (u, cache) = EffectiveURL (ae_review env) now token (as_prometheusURL s) cache
               in (case ae_http env u ''/api/v1/rules'' (AddNamespaceParams (ae_order env) [] namespaces) of
                     Inl e \<Rightarrow> Inl (ErrorWrap ''alert: GET rules failed: '' e [])
                   | Inr (status, body) \<Rightarrow>
                       if status \<noteq> 200 then Inl (ErrorString (''rules request returned status '' @ show_int status))
                       else (case ae_rules_json env body of
                               Inl e \<Rightarrow> Inl (ErrorWrap ''failed to decode rules response: '' e [])
                             | Inr (st, data) \<Rightarrow>
                                 if st \<noteq> ''success'' then Inl (ErrorString (''rules API returned status: '' @ st))
                                 else Inr data), cache)))"

section \<open>Alertmanager data\<close>

text \<open>The statements in the loop over the labels, for an Alertmanager alert and a label that it has with the
  same value.\<close>

definition augment_with :: "gettable_Alert \<Rightarrow> alert_Object \<Rightarrow> alert_Object" where
  "augment_with ama pa =
     (let pa = pa\<lparr>ao_StartsAt := ga_StartsAt ama, ao_EndsAt := ga_EndsAt ama,
                  ao_GeneratorURL := ga_GeneratorURL ama,
                  ao_Receivers := ao_Receivers pa @ ga_Receivers ama,
                  ao_SilencedBy := ga_SilencedBy ama, ao_InhibitedBy := ga_InhibitedBy ama\<rparr>
      in if ao_Status pa = []
         then pa\<lparr>ao_Status := (if ga_State ama \<noteq> ''suppressed'' then ''firing'' else ga_State ama)\<rparr>
         else if ga_State ama = ''suppressed'' then pa\<lparr>ao_Status := ga_State ama\<rparr>
         else pa)"

definition augment_label :: "gettable_Alert \<Rightarrow> string \<times> string \<Rightarrow> alert_Object \<Rightarrow> alert_Object" where
  "augment_label ama kv pa =
     (case kv of (k, v) \<Rightarrow> if smap_get (ga_Labels ama) k \<noteq> v then pa else augment_with ama pa)"

definition augmentAlert :: "gettable_Alert list \<Rightarrow> alert_Object \<Rightarrow> alert_Object" where
  "augmentAlert payload pa =
     fold (\<lambda>ama pa. fold (augment_label ama) (ao_Labels pa) pa) payload pa"

section \<open>Get\<close>

definition prom_object :: "alert_env \<Rightarrow> string \<Rightarrow> prom_Alert \<Rightarrow> alert_Object" where
  "prom_object env query a =
     zero_alert\<lparr>ao_Labels := pa_Labels a, ao_Annotations := pa_Annotations a, ao_Status := pa_State a,
       ao_Value := pa_Value a, ao_StartsAt := pa_ActiveAt a, ao_Expression := query,
       ao_Fingerprint := ae_fingerprint env (pa_Labels a)\<rparr>"

definition rule_alerts :: "alert_env \<Rightarrow> smap \<Rightarrow> prom_rule \<Rightarrow> alert_Object list" where
  "rule_alerts env subQuery r =
     (case r of
        RecordingRule \<Rightarrow> []
      | AlertingRule query alerts \<Rightarrow>
          map (prom_object env query) (filter (\<lambda>a. matchesSubquery subQuery (pa_Labels a)) alerts))"

definition fallback_alert :: "gettable_Alert list \<Rightarrow> gettable_Alert \<Rightarrow> alert_Object" where
  "fallback_alert payload ama =
     augmentAlert payload (zero_alert\<lparr>ao_Labels := ga_Labels ama, ao_Annotations := ga_Annotations ama\<rparr>)"

definition getSubquery ::
  "alert_env \<Rightarrow> RuleGroup list \<Rightarrow> smap \<Rightarrow> alertmanager option \<Rightarrow> alert_Object list" where
  "getSubquery env groups subQuery am =
     (let alerts = concat (map (\<lambda>rg. concat (map (rule_alerts env subQuery) rg)) groups)
      in case am of
           None \<Rightarrow> alerts
         | Some am \<Rightarrow>
             (let filters = map (\<lambda>(k, v). k @ ''='' @ v) subQuery
              in case GetAlerts env am filters of
                   Inl _ \<Rightarrow> alerts
                 | Inr payload \<Rightarrow>
                     if length alerts = 0
                     then map (fallback_alert payload)
                            (filter (\<lambda>ama. list_all (\<lambda>(k, v). smap_get (ga_Labels ama) k = v) subQuery) payload)
                     else map (augmentAlert payload) alerts))"

definition alert_Get ::
  "alert_env \<Rightarrow> time \<Rightarrow> string \<Rightarrow> alert_Store \<Rightarrow> alert_Query \<Rightarrow> Constraint option \<Rightarrow> (string, bool) TTL \<Rightarrow>
     (alert_Object list \<times> error option) \<times> (string, bool) TTL" where
  "alert_Get env now token s q c cache =
     (let (u, cache) = EffectiveURL (ae_review env) now token (as_prometheusURL s) cache
      in case ae_newPrometheusClient env u of
           Some e \<Rightarrow> (([], Some (ErrorWrap ''failed to create Prometheus client: '' e [])), cache)
         | None \<Rightarrow>
             (let namespaces = extractNamespacesFromQuery q;
                  ((ok, _), cache) = CanAccessPrometheusAPI (ae_review env) now token cache;
                  (prometheusRules, cache) =
                    (if ok then (ae_promRules env u, cache)
                     else getRulesWithNamespaceFilter env now token s q cache);
                  lokiRules = (if length namespaces = 0 then [] else getLokiRules env s namespaces);
                  allRules = (case prometheusRules of Inl _ \<Rightarrow> [] | Inr gs \<Rightarrow> gs) @ lokiRules;
                  (am, cache) = alertmanagerAPIForAccess env now token s namespaces cache;
                  alerts = concat (map (\<lambda>subquery.
                    getSubquery env allRules subquery (case am of Inl _ \<Rightarrow> None | Inr am \<Rightarrow> Some am)) (aq_Parsed q))
              in ((filter (\<lambda>a. Constraint_CompareTime c (ao_StartsAt a) \<le> 0 \<and>
                               Constraint_CompareTime c (ao_EndsAt a) \<ge> 0) alerts, None), cache)))"

section \<open>Which alerts are augmented\<close>

lemma augment_with_labels [simp]: "ao_Labels (augment_with ama pa) = ao_Labels pa"
  by (simp add: augment_with_def Let_def)

lemma augment_label_labels [simp]: "ao_Labels (augment_label ama kv pa) = ao_Labels pa"
  by (cases kv) (simp add: augment_label_def)

lemma augmentAlert_labels: "ao_Labels (augmentAlert payload pa) = ao_Labels pa"
proof -
  have inner: "ao_Labels (fold (augment_label ama) kvs pa) = ao_Labels pa" for ama kvs pa
    by (induction kvs arbitrary: pa) simp_all
  show ?thesis unfolding augmentAlert_def by (induction payload arbitrary: pa) (simp_all add: inner)
qed

definition shared_labels :: "smap \<Rightarrow> smap \<Rightarrow> nat" where
  "shared_labels a b = length (filter (\<lambda>(k, v). smap_get b k = v) a)"

lemma augment_labels_receivers:
  "ao_Receivers (fold (augment_label ama) kvs pa) =
     ao_Receivers pa @ concat (replicate (shared_labels kvs (ga_Labels ama)) (ga_Receivers ama))"
  by (induction kvs arbitrary: pa)
     (auto simp: augment_label_def augment_with_def shared_labels_def Let_def)

text \<open>Although the comment asks for the labels of an Alertmanager alert to include those of the Prometheus
  alert, \<open>augmentAlert\<close> takes over the data of every Alertmanager alert that shares any label with it, and
  adds its receivers once for each label they share.\<close>

theorem augmentAlert_receivers:
  "ao_Receivers (augmentAlert payload pa) =
     ao_Receivers pa @
     concat (map (\<lambda>ama. concat (replicate (shared_labels (ao_Labels pa) (ga_Labels ama)) (ga_Receivers ama))) payload)"
proof -
  have inner: "ao_Labels (fold (augment_label ama) kvs pa) = ao_Labels pa" for ama kvs pa
    by (induction kvs arbitrary: pa) simp_all
  show ?thesis
    unfolding augmentAlert_def
    by (induction payload arbitrary: pa) (simp_all add: inner augment_labels_receivers)
qed

text \<open>The alerts of a subquery from the rules have all its labels.\<close>

lemma getSubquery_matches:
  assumes "pa \<in> set (getSubquery env groups subQuery am)"
  shows "matchesSubquery subQuery (ao_Labels pa)"
proof -
  have rules: "matchesSubquery subQuery (ao_Labels a)"
    if "rg \<in> set groups" "r \<in> set rg" "a \<in> set (rule_alerts env subQuery r)" for a r rg
    using that by (auto simp: rule_alerts_def prom_object_def split: prom_rule.splits)
  have fallback: "matchesSubquery subQuery (ao_Labels (fallback_alert payload ama))"
    if "list_all (\<lambda>(k, v). smap_get (ga_Labels ama) k = v) subQuery" for payload ama
    using that unfolding fallback_alert_def augmentAlert_labels by (auto simp: matchesSubquery_def list_all_iff)
  show ?thesis
  proof (cases am)
    case None
    with assms rules show ?thesis by (auto simp: getSubquery_def)
  next
    case (Some a)
    with assms show ?thesis
      by (auto simp: getSubquery_def Let_def augmentAlert_labels intro: rules fallback split: sum.splits if_splits)
  qed
qed

text \<open>C40: Every alert that a query finds matches one of its maps of labels and starts and ends in the
  interval of the constraint (a time that is not set counts as inside).\<close>

theorem alert_Get_matches:
  assumes "pa \<in> set (fst (fst (alert_Get env now token s q c cache)))"
  shows "(\<exists>subq \<in> set (aq_Parsed q). matchesSubquery subq (ao_Labels pa)) \<and>
    Constraint_CompareTime c (ao_StartsAt pa) \<le> 0 \<and> Constraint_CompareTime c (ao_EndsAt pa) \<ge> 0"
  using assms getSubquery_matches
  by (fastforce simp: alert_Get_def Let_def split: prod.splits option.splits)

definition example_alert_env :: alert_env where
  "example_alert_env =
     \<lparr>ae_review = (\<lambda>_. Inr True), ae_order = id, ae_newPrometheusClient = (\<lambda>_. None),
      ae_promRules = (\<lambda>_. Inr [[AlertingRule ''up == 0''
        [\<lparr>pa_Labels = [(''alertname'', ''Down''), (''namespace'', ''a'')], pa_Annotations = [],
          pa_State = ''firing'', pa_Value = ''0'', pa_ActiveAt = 5\<rparr>]]]),
      ae_http = (\<lambda>_ _ _. Inl (ErrorString ''no loki'')), ae_rules_json = (\<lambda>_. Inr ([], [])),
      ae_rules_yaml = (\<lambda>_. Inr []), ae_newAlertmanagerClient = (\<lambda>_. None),
      ae_getAlerts = (\<lambda>_ _ _. Inl (ErrorString ''down'')), ae_fingerprint = (\<lambda>_. ''f'')\<rparr>"

definition example_alert_Store :: alert_Store where
  "example_alert_Store =
     \<lparr>as_prometheusURL = \<lparr>hu_Host = ''prom:9091'', hu_rest = ()\<rparr>,
      as_alertmanagerURL = \<lparr>hu_Host = ''am:9094'', hu_rest = ()\<rparr>, as_lokiRulerURL = None\<rparr>"

lemma alert_Get_matches_witness:
  "\<exists>pa :: alert_Object. matchesSubquery [(''alertname'', ''Down'')] (ao_Labels pa) \<and> ao_Expression pa = ''up == 0''"
proof -
  let ?q = "\<lparr>aq_Qs = [], aq_Parsed = [[(''alertname'', ''Down'')]]\<rparr>"
  let ?r = "fst (fst (alert_Get example_alert_env 0 ''t'' example_alert_Store ?q None rbacCache))"
  have "map ao_Expression ?r = [''up == 0'']" by code_simp
  then obtain pa where pa: "pa \<in> set ?r" "ao_Expression pa = ''up == 0''" by (cases ?r) auto
  have "matchesSubquery [(''alertname'', ''Down'')] (ao_Labels pa)"
    using alert_Get_matches [OF pa(1)] by simp
  with pa(2) show ?thesis by blast
qed

end
