(* ===== verification/QuickObjects.thy ===== *)
theory QuickObjects
  imports Alert
begin

text \<open>
  What the compiled rules of \<open>pkg/rules/quickrules\<close> work on. A \<open>korrel8r.Object\<close> is an object of one of the
  domains, and a rule asserts the type of the domain it starts in. A stream function writes a text, or
  panics where an assertion or a requirement fails; what it has written by then is lost, as
  \<open>quickRule.Apply\<close> reports the panic. quicktemplate is a library: its writer's \<open>S\<close> writes a string as it
  is and \<open>Q\<close> writes it as a quoted JSON string, which is a parameter.
\<close>

datatype go_object =
    K8sObject gomap
  | NetflowObject gomap
  | LogObject smap
  | MetricObject metric_Object
  | AlertObject alert_Object
  | SpanObject Span
  | IncidentObject incident_Object

fun object_type :: "go_object \<Rightarrow> string" where
  "object_type (K8sObject _) = ''map[string]interface {}''"
| "object_type (NetflowObject _) = ''netflow.Object''"
| "object_type (LogObject _) = ''log.Object''"
| "object_type (MetricObject _) = ''metric.Object''"
| "object_type (AlertObject _) = ''*alert.Object''"
| "object_type (SpanObject _) = ''*trace.Span''"
| "object_type (IncidentObject _) = ''*incident.Object''"

definition as_k8s :: "go_object \<Rightarrow> gomap go" where
  "as_k8s obj = (case obj of K8sObject m \<Rightarrow> Returns m | _ \<Rightarrow> conversion_panic (object_type obj) ''map[string]interface {}'')"

definition as_netflow :: "go_object \<Rightarrow> gomap go" where
  "as_netflow obj = (case obj of NetflowObject m \<Rightarrow> Returns m | _ \<Rightarrow> conversion_panic (object_type obj) ''netflow.Object'')"

definition as_log :: "go_object \<Rightarrow> smap go" where
  "as_log obj = (case obj of LogObject m \<Rightarrow> Returns m | _ \<Rightarrow> conversion_panic (object_type obj) ''log.Object'')"

definition as_metric :: "go_object \<Rightarrow> metric_Object go" where
  "as_metric obj = (case obj of MetricObject m \<Rightarrow> Returns m | _ \<Rightarrow> conversion_panic (object_type obj) ''metric.Object'')"

definition as_alert :: "go_object \<Rightarrow> alert_Object go" where
  "as_alert obj = (case obj of AlertObject m \<Rightarrow> Returns m | _ \<Rightarrow> conversion_panic (object_type obj) ''*alert.Object'')"

definition as_span :: "go_object \<Rightarrow> Span go" where
  "as_span obj = (case obj of SpanObject m \<Rightarrow> Returns m | _ \<Rightarrow> conversion_panic (object_type obj) ''*trace.Span'')"

definition as_incident :: "go_object \<Rightarrow> incident_Object go" where
  "as_incident obj = (case obj of IncidentObject m \<Rightarrow> Returns m | _ \<Rightarrow> conversion_panic (object_type obj) ''*incident.Object'')"

record quick_env =
  qe_quote :: "string \<Rightarrow> string"
  qe_marshal :: "go_value \<Rightarrow> string result"
  qe_api :: k8s_api
  qe_k8s :: k8s_domain

abbreviation qw_S :: "string \<Rightarrow> string go" where
  "qw_S s \<equiv> Returns s"

abbreviation qw_Q :: "quick_env \<Rightarrow> string \<Rightarrow> string go" where
  "qw_Q env s \<equiv> Returns (qe_quote env s)"

end
