(* ===== verification/RulesK8s.thy ===== *)
theory RulesK8s
  imports QuickObjects
begin

text \<open>
  The rules that start at Kubernetes objects, \<open>pkg/rules/quickrules/k8s.qtpl.go\<close>. Each definition is one
  stream function: the assertions and requirements it makes in order, and what it writes.
\<close>

definition StreamDependentToOwner :: "quick_env \<Rightarrow> go_object \<Rightarrow> string go" where
  \<open>StreamDependentToOwner env start =
     go_write [qw_S ''\<newline>'',
       go_bind (as_k8s start) (\<lambda>obj.
       go_bind (as_map (gomap_get obj ''metadata'')) (\<lambda>metadata.
       go_bind (go_index (mapSlice metadata ''ownerReferences'') 0) (\<lambda>x3.
       go_bind (as_map x3) (\<lambda>ref.
       go_bind (as_string (gomap_get ref ''apiVersion'')) (\<lambda>apiVersion.
       go_bind (as_string (gomap_get ref ''kind'')) (\<lambda>kind.
       go_bind (as_string (gomap_get ref ''name'')) (\<lambda>name.
       (let class = ka_FromAPIVersionAndKind (qe_api env) apiVersion kind in
       (let ns = string_or_blank (gomap_get metadata ''namespace'') in
       go_write [qw_S ''\<newline>'',
         (if k8s_Namespaced (qe_k8s env) class \<and> ns \<noteq> []
          then go_write [qw_S ''\<newline>k8s:'', qw_S (k8s_Class_Name class), qw_S '':{"namespace":'', qw_Q env ns,
                 qw_S '',"name":'', qw_Q env name, qw_S ''}\<newline>'']
          else go_write [qw_S ''\<newline>k8s:'', qw_S (k8s_Class_Name class), qw_S '':{"name":'', qw_Q env name,
                 qw_S ''}\<newline>'']),
         qw_S ''\<newline>''])))))))))]\<close>

definition StreamAllToEvent :: "quick_env \<Rightarrow> go_object \<Rightarrow> string go" where
  \<open>StreamAllToEvent env start =
     go_write [qw_S ''\<newline>'',
       go_bind (as_k8s start) (\<lambda>m1.
       (let (_, _, ns, name, kind) = k8sMetadata m1 in
       go_bind (as_k8s start) (\<lambda>x2.
       (let apiVersion = string_or_blank (gomap_get x2 ''apiVersion'') in
       go_bind (RequireAll [VString ns, VString name, VString kind, VString apiVersion]) (\<lambda>_.
       go_write [qw_S ''\<newline>k8s:Event:{"namespace":'', qw_Q env ns,
         qw_S '',"fields":{"involvedObject.apiVersion":'', qw_Q env apiVersion,
         qw_S '',"involvedObject.kind":'', qw_Q env kind, qw_S '',"involvedObject.name":'', qw_Q env name,
         qw_S '',"involvedObject.namespace":'', qw_Q env ns, qw_S ''}}\<newline>''])))))]\<close>

definition StreamAllToMetric :: "quick_env \<Rightarrow> go_object \<Rightarrow> string go" where
  \<open>StreamAllToMetric env start =
     go_write [qw_S ''\<newline>'',
       go_bind (as_k8s start) (\<lambda>m1.
       (let (_, _, ns, name, kind) = k8sMetadata m1 in
       go_bind (RequireAll [VString ns, VString name, VString kind]) (\<lambda>_.
       go_write [qw_S ''\<newline>metric:metric:{namespace='', qw_Q env ns, qw_S '','', qw_S (strings_ToLower kind),
         qw_S ''='', qw_Q env name, qw_S ''}\<newline>''])))]\<close>

definition StreamSelectorToPods :: "quick_env \<Rightarrow> go_object \<Rightarrow> string go" where
  \<open>StreamSelectorToPods env start =
     go_write [qw_S ''\<newline>'',
       go_bind (as_k8s start) (\<lambda>m1.
       (let (obj, _, ns, _, _) = k8sMetadata m1 in
       go_bind (RequireAll [VString ns]) (\<lambda>_.
       go_bind (as_map (gomap_get obj ''spec'')) (\<lambda>x2.
       go_bind (as_map (gomap_get x2 ''selector'')) (\<lambda>x3.
       (let matchLabels = gomap_get x3 ''matchLabels'' in
       go_bind (RequireAll [matchLabels]) (\<lambda>_.
       go_write [qw_S ''\<newline>k8s:Pod:{"namespace":'', qw_Q env ns, qw_S '',"labels":'',
         ToJSON (qe_marshal env) matchLabels, qw_S ''}\<newline>''])))))))]\<close>

definition StreamSelectorToLogs :: "quick_env \<Rightarrow> go_object \<Rightarrow> string go" where
  \<open>StreamSelectorToLogs env start =
     go_write [qw_S ''\<newline>'',
       go_bind (as_k8s start) (\<lambda>m1.
       (let (obj, _, ns, _, _) = k8sMetadata m1 in
       go_bind (RequireAll [VString ns]) (\<lambda>_.
       go_bind (as_map (gomap_get obj ''spec'')) (\<lambda>x2.
       go_bind (as_map (gomap_get x2 ''selector'')) (\<lambda>x3.
       (let matchLabels = gomap_get x3 ''matchLabels'' in
       go_bind (RequireAll [matchLabels]) (\<lambda>_.
       go_write [qw_S ''\<newline>log:'', qw_S (TypeForNamespace ns), qw_S '':{"namespace":'', qw_Q env ns,
         qw_S '',"labels":'', ToJSON (qe_marshal env) matchLabels, qw_S ''}\<newline>''])))))))]\<close>

definition StreamK8sSrcToNetflow :: "quick_env \<Rightarrow> go_object \<Rightarrow> string go" where
  \<open>StreamK8sSrcToNetflow env start =
     go_write [qw_S ''\<newline>'',
       go_bind (as_k8s start) (\<lambda>m1.
       (let (_, _, ns, name, kind) = k8sMetadata m1 in
       go_bind (RequireAll [VString name, VString kind]) (\<lambda>_.
       go_write [qw_S ''\<newline>netflow:network:{SrcK8S_Type='', qw_Q env kind, qw_S '', SrcK8S_Namespace='',
         qw_Q env ns, qw_S ''} | json | SrcK8S_Name='', qw_Q env name, qw_S ''\<newline>''])))]\<close>

definition StreamK8sSrcOwnerToNetflow :: "quick_env \<Rightarrow> go_object \<Rightarrow> string go" where
  \<open>StreamK8sSrcOwnerToNetflow env start =
     go_write [qw_S ''\<newline>'',
       go_bind (as_k8s start) (\<lambda>m1.
       (let (_, _, ns, name, _) = k8sMetadata m1 in
       go_bind (RequireAll [VString ns, VString name]) (\<lambda>_.
       go_write [qw_S ''\<newline>netflow:network:{SrcK8S_Namespace='', qw_Q env ns, qw_S '', SrcK8S_OwnerName='',
         qw_Q env name, qw_S ''}\<newline>''])))]\<close>

definition StreamK8sDstToNetflow :: "quick_env \<Rightarrow> go_object \<Rightarrow> string go" where
  \<open>StreamK8sDstToNetflow env start =
     go_write [qw_S ''\<newline>'',
       go_bind (as_k8s start) (\<lambda>m1.
       (let (_, _, ns, name, kind) = k8sMetadata m1 in
       go_bind (RequireAll [VString name, VString kind]) (\<lambda>_.
       go_write [qw_S ''\<newline>netflow:network:{DstK8S_Type='', qw_Q env kind, qw_S '', DstK8S_Namespace='',
         qw_Q env ns, qw_S ''} | json | DstK8S_Name='', qw_Q env name, qw_S ''\<newline>''])))]\<close>

definition StreamK8sDstOwnerToNetflow :: "quick_env \<Rightarrow> go_object \<Rightarrow> string go" where
  \<open>StreamK8sDstOwnerToNetflow env start =
     go_write [qw_S ''\<newline>'',
       go_bind (as_k8s start) (\<lambda>m1.
       (let (_, _, ns, name, _) = k8sMetadata m1 in
       go_bind (RequireAll [VString ns, VString name]) (\<lambda>_.
       go_write [qw_S ''\<newline>netflow:network:{DstK8S_Namespace='', qw_Q env ns, qw_S '', DstK8S_OwnerName='',
         qw_Q env name, qw_S ''}\<newline>''])))]\<close>

definition StreamServiceToPods :: "quick_env \<Rightarrow> go_object \<Rightarrow> string go" where
  \<open>StreamServiceToPods env start =
     go_write [qw_S ''\<newline>'',
       go_bind (as_k8s start) (\<lambda>m1.
       (let (obj, _, ns, _, _) = k8sMetadata m1 in
       go_bind (RequireAll [VString ns]) (\<lambda>_.
       go_bind (as_map (gomap_get obj ''spec'')) (\<lambda>x2.
       (let selector = gomap_get x2 ''selector'' in
       go_bind (RequireAll [selector]) (\<lambda>_.
       go_write [qw_S ''\<newline>k8s:Pod:{"namespace":'', qw_Q env ns, qw_S '',"labels":'',
         ToJSON (qe_marshal env) selector, qw_S ''}\<newline>'']))))))]\<close>

definition StreamEventToAll :: "quick_env \<Rightarrow> go_object \<Rightarrow> string go" where
  \<open>StreamEventToAll env start =
     go_write [qw_S ''\<newline>'',
       go_bind (as_k8s start) (\<lambda>obj.
       go_bind (as_map (gomap_get obj ''involvedObject'')) (\<lambda>inv.
       go_bind (as_string (gomap_get inv ''apiVersion'')) (\<lambda>x3.
       go_bind (as_string (gomap_get inv ''kind'')) (\<lambda>x4.
       (let class = ka_FromAPIVersionAndKind (qe_api env) x3 x4 in
       (let ns = string_or_blank (gomap_get inv ''namespace'') in
       go_bind (as_string (gomap_get inv ''name'')) (\<lambda>name.
       go_bind (RequireAll [VString name]) (\<lambda>_.
       go_write [qw_S ''\<newline>'',
         (if ns \<noteq> []
          then go_write [qw_S ''\<newline>k8s:'', qw_S (k8s_Class_Name class), qw_S '':{"namespace":'', qw_Q env ns,
                 qw_S '',"name":'', qw_Q env name, qw_S ''}\<newline>'']
          else go_write [qw_S ''\<newline>k8s:'', qw_S (k8s_Class_Name class), qw_S '':{"name":'', qw_Q env name,
                 qw_S ''}\<newline>'']),
         qw_S ''\<newline>'']))))))))]\<close>

definition StreamEvent2ToAll :: "quick_env \<Rightarrow> go_object \<Rightarrow> string go" where
  \<open>StreamEvent2ToAll env start =
     go_write [qw_S ''\<newline>'',
       go_bind (as_k8s start) (\<lambda>obj.
       go_bind (as_map (gomap_get obj ''regarding'')) (\<lambda>reg.
       go_bind (as_string (gomap_get reg ''apiVersion'')) (\<lambda>x3.
       go_bind (as_string (gomap_get reg ''kind'')) (\<lambda>x4.
       (let class = ka_FromAPIVersionAndKind (qe_api env) x3 x4 in
       (let ns = string_or_blank (gomap_get reg ''namespace'') in
       go_bind (as_string (gomap_get reg ''name'')) (\<lambda>name.
       go_bind (RequireAll [VString name]) (\<lambda>_.
       go_write [qw_S ''\<newline>'',
         (if ns \<noteq> []
          then go_write [qw_S ''\<newline>k8s:'', qw_S (k8s_Class_Name class), qw_S '':{"namespace":'', qw_Q env ns,
                 qw_S '',"name":'', qw_Q env name, qw_S ''}\<newline>'']
          else go_write [qw_S ''\<newline>k8s:'', qw_S (k8s_Class_Name class), qw_S '':{"name":'', qw_Q env name,
                 qw_S ''}\<newline>'']),
         qw_S ''\<newline>'']))))))))]\<close>

definition StreamPodToPVC :: "quick_env \<Rightarrow> go_object \<Rightarrow> string go" where
  \<open>StreamPodToPVC env start =
     go_write [qw_S ''\<newline>'',
       go_bind (as_k8s start) (\<lambda>m1.
       (let (obj, _, ns, _, _) = k8sMetadata m1 in
       go_bind (RequireAll [VString ns]) (\<lambda>_.
       go_bind (as_map (gomap_get obj ''spec'')) (\<lambda>x2.
       (let volumes = mapSlice x2 ''volumes'' in
       go_write [qw_S ''\<newline>'',
         go_each (\<lambda>v.
           go_write [qw_S ''\<newline>'',
             go_bind (as_map v) (\<lambda>vol.
             go_write [qw_S ''\<newline>'',
               (case maybe_map (gomap_get vol ''persistentVolumeClaim'') of
                 None \<Rightarrow> Returns []
               | Some pvc \<Rightarrow>
                   go_write [qw_S ''\<newline>k8s:PersistentVolumeClaim:{"namespace":'', qw_Q env ns, qw_S '',"name":'',
                     go_bind (as_string (gomap_get pvc ''claimName'')) (qw_Q env), qw_S ''}\<newline>'']),
               qw_S ''\<newline>''])]) volumes,
         qw_S ''\<newline>''])))))]\<close>

definition StreamPodToConfigMap :: "quick_env \<Rightarrow> go_object \<Rightarrow> string go" where
  \<open>StreamPodToConfigMap env start =
     go_write [qw_S ''\<newline>'',
       go_bind (as_k8s start) (\<lambda>m1.
       (let (obj, _, ns, _, _) = k8sMetadata m1 in
       go_bind (RequireAll [VString ns]) (\<lambda>_.
       go_bind (as_map (gomap_get obj ''spec'')) (\<lambda>x2.
       (let volumes = mapSlice x2 ''volumes'' in
       go_write [qw_S ''\<newline>'',
         go_each (\<lambda>v.
           go_write [qw_S ''\<newline>'',
             go_bind (as_map v) (\<lambda>vol.
             go_write [qw_S ''\<newline>'',
               (case maybe_map (gomap_get vol ''configMap'') of
                 None \<Rightarrow> Returns []
               | Some cm \<Rightarrow>
                   go_write [qw_S ''\<newline>k8s:ConfigMap:{"namespace":'', qw_Q env ns, qw_S '',"name":'',
                     go_bind (as_string (gomap_get cm ''name'')) (qw_Q env), qw_S ''}\<newline>'']),
               qw_S ''\<newline>''])]) volumes,
         qw_S ''\<newline>''])))))]\<close>

definition StreamPodToSecret :: "quick_env \<Rightarrow> go_object \<Rightarrow> string go" where
  \<open>StreamPodToSecret env start =
     go_write [qw_S ''\<newline>'',
       go_bind (as_k8s start) (\<lambda>m1.
       (let (obj, _, ns, _, _) = k8sMetadata m1 in
       go_bind (RequireAll [VString ns]) (\<lambda>_.
       go_bind (as_map (gomap_get obj ''spec'')) (\<lambda>x2.
       (let volumes = mapSlice x2 ''volumes'' in
       go_write [qw_S ''\<newline>'',
         go_each (\<lambda>v.
           go_write [qw_S ''\<newline>'',
             go_bind (as_map v) (\<lambda>vol.
             go_write [qw_S ''\<newline>'',
               (case maybe_map (gomap_get vol ''secret'') of
                 None \<Rightarrow> Returns []
               | Some sec \<Rightarrow>
                   go_write [qw_S ''\<newline>k8s:Secret:{"namespace":'', qw_Q env ns, qw_S '',"name":'',
                     go_bind (as_string (gomap_get sec ''secretName'')) (qw_Q env), qw_S ''}\<newline>'']),
               qw_S ''\<newline>''])]) volumes,
         qw_S ''\<newline>''])))))]\<close>

definition StreamPodToServiceAccount :: "quick_env \<Rightarrow> go_object \<Rightarrow> string go" where
  \<open>StreamPodToServiceAccount env start =
     go_write [qw_S ''\<newline>'',
       go_bind (as_k8s start) (\<lambda>m1.
       (let (obj, _, ns, _, _) = k8sMetadata m1 in
       go_bind (RequireAll [VString ns]) (\<lambda>_.
       go_bind (as_map (gomap_get obj ''spec'')) (\<lambda>x2.
       go_bind (as_string (gomap_get x2 ''serviceAccountName'')) (\<lambda>x3.
       go_bind (Require_string x3) (\<lambda>sa.
       go_write [qw_S ''\<newline>k8s:ServiceAccount:{"namespace":'', qw_Q env ns, qw_S '',"name":'', qw_Q env sa,
         qw_S ''}\<newline>'']))))))]\<close>

definition StreamServiceToEndpointSlice :: "quick_env \<Rightarrow> go_object \<Rightarrow> string go" where
  \<open>StreamServiceToEndpointSlice env start =
     go_write [qw_S ''\<newline>'',
       go_bind (as_k8s start) (\<lambda>m1.
       (let (_, _, ns, name, _) = k8sMetadata m1 in
       go_bind (RequireAll [VString ns, VString name]) (\<lambda>_.
       go_write [qw_S ''\<newline>k8s:EndpointSlice.discovery.k8s.io:{"namespace":'', qw_Q env ns,
         qw_S '',"labels":{"kubernetes.io/service-name":'', qw_Q env name, qw_S ''}}\<newline>''])))]\<close>

definition StreamEndpointSliceToService :: "quick_env \<Rightarrow> go_object \<Rightarrow> string go" where
  \<open>StreamEndpointSliceToService env start =
     go_write [qw_S ''\<newline>'',
       go_bind (as_k8s start) (\<lambda>m1.
       (let (_, metadata, ns, _, _) = k8sMetadata m1 in
       go_bind (RequireAll [VString ns]) (\<lambda>_.
       go_bind (as_map (gomap_get metadata ''labels'')) (\<lambda>labels.
       go_bind (as_string (gomap_get labels ''kubernetes.io/service-name'')) (\<lambda>x3.
       go_bind (Require_string x3) (\<lambda>svcName.
       go_write [qw_S ''\<newline>k8s:Service:{"namespace":'', qw_Q env ns, qw_S '',"name":'', qw_Q env svcName,
         qw_S ''}\<newline>'']))))))]\<close>

definition StreamPVCToPV :: "quick_env \<Rightarrow> go_object \<Rightarrow> string go" where
  \<open>StreamPVCToPV env start =
     go_write [qw_S ''\<newline>'',
       go_bind (as_k8s start) (\<lambda>obj.
       go_bind (as_map (gomap_get obj ''spec'')) (\<lambda>x2.
       go_bind (as_string (gomap_get x2 ''volumeName'')) (\<lambda>x3.
       go_bind (Require_string x3) (\<lambda>volName.
       go_write [qw_S ''\<newline>k8s:PersistentVolume:{"name":'', qw_Q env volName, qw_S ''}\<newline>'']))))]\<close>

definition StreamPVToPVC :: "quick_env \<Rightarrow> go_object \<Rightarrow> string go" where
  \<open>StreamPVToPVC env start =
     go_write [qw_S ''\<newline>'',
       go_bind (as_k8s start) (\<lambda>obj.
       go_bind (as_map (gomap_get obj ''spec'')) (\<lambda>x2.
       go_bind (as_map (gomap_get x2 ''claimRef'')) (\<lambda>ref.
       go_write [qw_S ''\<newline>k8s:PersistentVolumeClaim:{"namespace":'',
         go_bind (as_string (gomap_get ref ''namespace'')) (qw_Q env), qw_S '',"name":'',
         go_bind (as_string (gomap_get ref ''name'')) (qw_Q env), qw_S ''}\<newline>''])))]\<close>

definition StreamPVToStorageClass :: "quick_env \<Rightarrow> go_object \<Rightarrow> string go" where
  \<open>StreamPVToStorageClass env start =
     go_write [qw_S ''\<newline>'',
       go_bind (as_k8s start) (\<lambda>obj.
       go_bind (as_map (gomap_get obj ''spec'')) (\<lambda>x2.
       go_bind (as_string (gomap_get x2 ''storageClassName'')) (\<lambda>x3.
       go_bind (Require_string x3) (\<lambda>sc.
       go_write [qw_S ''\<newline>k8s:StorageClass.storage.k8s.io:{"name":'', qw_Q env sc, qw_S ''}\<newline>'']))))]\<close>

definition StreamPVCToStorageClass :: "quick_env \<Rightarrow> go_object \<Rightarrow> string go" where
  \<open>StreamPVCToStorageClass env start =
     go_write [qw_S ''\<newline>'',
       go_bind (as_k8s start) (\<lambda>obj.
       go_bind (as_map (gomap_get obj ''spec'')) (\<lambda>x2.
       go_bind (as_string (gomap_get x2 ''storageClassName'')) (\<lambda>x3.
       go_bind (Require_string x3) (\<lambda>sc.
       go_write [qw_S ''\<newline>k8s:StorageClass.storage.k8s.io:{"name":'', qw_Q env sc, qw_S ''}\<newline>'']))))]\<close>

definition StreamSubscriptionToCSV :: "quick_env \<Rightarrow> go_object \<Rightarrow> string go" where
  \<open>StreamSubscriptionToCSV env start =
     go_write [qw_S ''\<newline>'',
       go_bind (as_k8s start) (\<lambda>obj.
       go_bind (as_map (gomap_get obj ''status'')) (\<lambda>x2.
       go_bind (as_string (gomap_get x2 ''currentCSV'')) (\<lambda>x3.
       go_bind (Require_string x3) (\<lambda>csv.
       go_write [qw_S ''\<newline>k8s:ClusterServiceVersion.v1alpha1.operators.coreos.com:{"name":'', qw_Q env csv,
         qw_S ''}\<newline>'']))))]\<close>

definition StreamCSVToCRD :: "quick_env \<Rightarrow> go_object \<Rightarrow> string go" where
  \<open>StreamCSVToCRD env start =
     go_write [qw_S ''\<newline>'',
       go_bind (as_k8s start) (\<lambda>obj.
       go_bind (as_map (gomap_get obj ''spec'')) (\<lambda>x2.
       go_bind (as_map (gomap_get x2 ''customresourcedefinitions'')) (\<lambda>x3.
       (let owned = mapSlice x3 ''owned'' in
       go_write [qw_S ''\<newline>'',
         go_each (\<lambda>item.
           go_write [qw_S ''\<newline>'',
             go_bind (as_map item) (\<lambda>crd.
             go_write [qw_S ''\<newline>k8s:CustomResourceDefinition.apiextensions.k8s.io:{"name":'',
               go_bind (as_string (gomap_get crd ''name'')) (qw_Q env), qw_S ''}\<newline>''])]) owned,
         qw_S ''\<newline>'']))))]\<close>

definition StreamCRDToInstances :: "quick_env \<Rightarrow> go_object \<Rightarrow> string go" where
  \<open>StreamCRDToInstances env start =
     go_write [qw_S ''\<newline>'',
       go_bind (as_k8s start) (\<lambda>obj.
       go_bind (as_map (gomap_get obj ''spec'')) (\<lambda>spec.
       go_bind (as_map (gomap_get spec ''names'')) (\<lambda>x3.
       go_bind (as_string (gomap_get x3 ''kind'')) (\<lambda>kind.
       go_bind (go_index (mapSlice spec ''versions'') 0) (\<lambda>x5.
       go_bind (as_map x5) (\<lambda>x6.
       go_bind (as_string (gomap_get x6 ''name'')) (\<lambda>version.
       go_bind (as_string (gomap_get spec ''group'')) (\<lambda>group.
       go_write [qw_S ''\<newline>k8s:'', qw_S kind, qw_S ''.'', qw_S version, qw_S ''.'', qw_S group,
         qw_S '':{}\<newline>'']))))))))]\<close>

definition StreamCSVToDeployment :: "quick_env \<Rightarrow> go_object \<Rightarrow> string go" where
  \<open>StreamCSVToDeployment env start =
     go_write [qw_S ''\<newline>'',
       go_bind (as_k8s start) (\<lambda>m1.
       (let (_, _, ns, _, _) = k8sMetadata m1 in
       go_bind (RequireAll [VString ns]) (\<lambda>_.
       go_bind (as_k8s start) (\<lambda>obj.
       go_bind (as_map (gomap_get obj ''spec'')) (\<lambda>x3.
       go_bind (as_map (gomap_get x3 ''install'')) (\<lambda>x4.
       go_bind (as_map (gomap_get x4 ''spec'')) (\<lambda>x5.
       (let deployments = mapSlice x5 ''deployments'' in
       go_write [qw_S ''\<newline>'',
         go_each (\<lambda>d.
           go_write [qw_S ''\<newline>'',
             go_bind (as_map d) (\<lambda>dep.
             go_write [qw_S ''\<newline>k8s:Deployment.apps:{"namespace":'', qw_Q env ns, qw_S '',"name":'',
               go_bind (as_string (gomap_get dep ''name'')) (qw_Q env), qw_S ''}\<newline>''])]) deployments,
         qw_S ''\<newline>'']))))))))]\<close>

definition StreamSubscriptionToInstallPlan :: "quick_env \<Rightarrow> go_object \<Rightarrow> string go" where
  \<open>StreamSubscriptionToInstallPlan env start =
     go_write [qw_S ''\<newline>'',
       go_bind (as_k8s start) (\<lambda>obj.
       go_bind (as_map (gomap_get obj ''status'')) (\<lambda>x2.
       go_bind (as_map (gomap_get x2 ''installPlanRef'')) (\<lambda>ref.
       go_write [qw_S ''\<newline>k8s:InstallPlan.v1alpha1.operators.coreos.com:{"namespace":'',
         go_bind (as_string (gomap_get ref ''namespace'')) (qw_Q env), qw_S '',"name":'',
         go_bind (as_string (gomap_get ref ''name'')) (qw_Q env), qw_S ''}\<newline>''])))]\<close>

definition StreamInstallPlanToCSV :: "quick_env \<Rightarrow> go_object \<Rightarrow> string go" where
  \<open>StreamInstallPlanToCSV env start =
     go_write [qw_S ''\<newline>'',
       go_bind (as_k8s start) (\<lambda>m1.
       (let (_, _, ns, _, _) = k8sMetadata m1 in
       go_bind (RequireAll [VString ns]) (\<lambda>_.
       go_bind (as_k8s start) (\<lambda>obj.
       go_bind (as_map (gomap_get obj ''spec'')) (\<lambda>x3.
       (let names = mapSlice x3 ''clusterServiceVersionNames'' in
       go_write [qw_S ''\<newline>'',
         go_each (\<lambda>n.
           go_write [qw_S ''\<newline>k8s:ClusterServiceVersion.v1alpha1.operators.coreos.com:{"namespace":'',
             qw_Q env ns, qw_S '',"name":'', go_bind (as_string n) (qw_Q env), qw_S ''}\<newline>'']) names,
         qw_S ''\<newline>'']))))))]\<close>

definition StreamSubscriptionToCatalogSource :: "quick_env \<Rightarrow> go_object \<Rightarrow> string go" where
  \<open>StreamSubscriptionToCatalogSource env start =
     go_write [qw_S ''\<newline>'',
       go_bind (as_k8s start) (\<lambda>obj.
       go_bind (as_map (gomap_get obj ''spec'')) (\<lambda>spec.
       go_bind (as_string (gomap_get spec ''sourceNamespace'')) (\<lambda>x3.
       go_bind (Require_string x3) (\<lambda>srcNs.
       go_bind (as_string (gomap_get spec ''source'')) (\<lambda>x5.
       go_bind (Require_string x5) (\<lambda>src.
       go_write [qw_S ''\<newline>k8s:CatalogSource.v1alpha1.operators.coreos.com:{"namespace":'', qw_Q env srcNs,
         qw_S '',"name":'', qw_Q env src, qw_S ''}\<newline>'']))))))]\<close>

definition StreamOperatorToCRD :: "quick_env \<Rightarrow> go_object \<Rightarrow> string go" where
  \<open>StreamOperatorToCRD env start =
     go_write [qw_S ''\<newline>'',
       go_bind (as_k8s start) (\<lambda>obj.
       go_bind (as_map (gomap_get obj ''status'')) (\<lambda>x2.
       go_bind (as_map (gomap_get x2 ''components'')) (\<lambda>x3.
       (let refs = mapSlice x3 ''refs'' in
       go_write [qw_S ''\<newline>'',
         go_each (\<lambda>r.
           go_write [qw_S ''\<newline>'',
             go_bind (as_map r) (\<lambda>ref.
             go_write [qw_S ''\<newline>'',
               go_bind (as_string (gomap_get ref ''kind'')) (\<lambda>x5.
               (if x5 = ''CustomResourceDefinition''
                then go_write [qw_S ''\<newline>k8s:CustomResourceDefinition.apiextensions.k8s.io:{"name":'',
                       go_bind (as_string (gomap_get ref ''name'')) (qw_Q env), qw_S ''}\<newline>'']
                else Returns [])),
               qw_S ''\<newline>''])]) refs,
         qw_S ''\<newline>'']))))]\<close>

definition StreamOperatorToCSV :: "quick_env \<Rightarrow> go_object \<Rightarrow> string go" where
  \<open>StreamOperatorToCSV env start =
     go_write [qw_S ''\<newline>'',
       go_bind (as_k8s start) (\<lambda>obj.
       go_bind (as_map (gomap_get obj ''status'')) (\<lambda>x2.
       go_bind (as_map (gomap_get x2 ''components'')) (\<lambda>x3.
       (let refs = mapSlice x3 ''refs'' in
       go_write [qw_S ''\<newline>'',
         go_each (\<lambda>r.
           go_write [qw_S ''\<newline>'',
             go_bind (as_map r) (\<lambda>ref.
             go_write [qw_S ''\<newline>'',
               go_bind (as_string (gomap_get ref ''kind'')) (\<lambda>x5.
               (if x5 = ''ClusterServiceVersion''
                then go_write [qw_S ''\<newline>k8s:ClusterServiceVersion.v1alpha1.operators.coreos.com:{"namespace":'',
                       go_bind (as_string (gomap_get ref ''namespace'')) (qw_Q env), qw_S '',"name":'',
                       go_bind (as_string (gomap_get ref ''name'')) (qw_Q env), qw_S ''}\<newline>'']
                else Returns [])),
               qw_S ''\<newline>''])]) refs,
         qw_S ''\<newline>'']))))]\<close>

definition StreamOperatorToSubscription :: "quick_env \<Rightarrow> go_object \<Rightarrow> string go" where
  \<open>StreamOperatorToSubscription env start =
     go_write [qw_S ''\<newline>'',
       go_bind (as_k8s start) (\<lambda>obj.
       go_bind (as_map (gomap_get obj ''status'')) (\<lambda>x2.
       go_bind (as_map (gomap_get x2 ''components'')) (\<lambda>x3.
       (let refs = mapSlice x3 ''refs'' in
       go_write [qw_S ''\<newline>'',
         go_each (\<lambda>r.
           go_write [qw_S ''\<newline>'',
             go_bind (as_map r) (\<lambda>ref.
             go_write [qw_S ''\<newline>'',
               go_bind (as_string (gomap_get ref ''kind'')) (\<lambda>x5.
               (if x5 = ''Subscription''
                then go_write [qw_S ''\<newline>k8s:Subscription.v1alpha1.operators.coreos.com:{"namespace":'',
                       go_bind (as_string (gomap_get ref ''namespace'')) (qw_Q env), qw_S '',"name":'',
                       go_bind (as_string (gomap_get ref ''name'')) (qw_Q env), qw_S ''}\<newline>'']
                else Returns [])),
               qw_S ''\<newline>''])]) refs,
         qw_S ''\<newline>'']))))]\<close>

definition StreamIngressToService :: "quick_env \<Rightarrow> go_object \<Rightarrow> string go" where
  \<open>StreamIngressToService env start =
     go_write [qw_S ''\<newline>'',
       go_bind (as_k8s start) (\<lambda>m1.
       (let (_, _, ns, _, _) = k8sMetadata m1 in
       go_bind (RequireAll [VString ns]) (\<lambda>_.
       go_bind (as_k8s start) (\<lambda>x2.
       go_bind (ingressServiceNames x2) (\<lambda>svcNames.
       go_write [qw_S ''\<newline>'',
         go_each (\<lambda>name.
           go_write [qw_S ''\<newline>k8s:Service:{"namespace":'', qw_Q env ns, qw_S '',"name":'', qw_Q env name,
             qw_S ''}\<newline>'']) svcNames,
         qw_S ''\<newline>''])))))]\<close>

definition StreamCSVToPartOf :: "quick_env \<Rightarrow> go_object \<Rightarrow> string go" where
  \<open>StreamCSVToPartOf env start =
     go_write [qw_S ''\<newline>'',
       go_bind (as_k8s start) (\<lambda>m1.
       (let (_, _, ns, name, _) = k8sMetadata m1 in
       go_bind (RequireAll [VString ns, VString name]) (\<lambda>_.
       go_bind (Require_string (csvPartOfName name)) (\<lambda>partOf.
       go_write [qw_S ''\<newline>k8s:Deployment.apps:{"namespace":'', qw_Q env ns,
         qw_S '',"labels":{"app.kubernetes.io/part-of":'', qw_Q env partOf,
         qw_S ''}}\<newline>k8s:DaemonSet.apps:{"namespace":'', qw_Q env ns,
         qw_S '',"labels":{"app.kubernetes.io/part-of":'', qw_Q env partOf,
         qw_S ''}}\<newline>k8s:StatefulSet.apps:{"namespace":'', qw_Q env ns,
         qw_S '',"labels":{"app.kubernetes.io/part-of":'', qw_Q env partOf,
         qw_S ''}}\<newline>k8s:Service:{"namespace":'', qw_Q env ns,
         qw_S '',"labels":{"app.kubernetes.io/part-of":'', qw_Q env partOf,
         qw_S ''}}\<newline>k8s:ConfigMap:{"namespace":'', qw_Q env ns,
         qw_S '',"labels":{"app.kubernetes.io/part-of":'', qw_Q env partOf,
         qw_S ''}}\<newline>k8s:Secret:{"namespace":'', qw_Q env ns,
         qw_S '',"labels":{"app.kubernetes.io/part-of":'', qw_Q env partOf,
         qw_S ''}}\<newline>k8s:ServiceAccount:{"namespace":'', qw_Q env ns,
         qw_S '',"labels":{"app.kubernetes.io/part-of":'', qw_Q env partOf, qw_S ''}}\<newline>'']))))]\<close>

definition StreamHPAToTarget :: "quick_env \<Rightarrow> go_object \<Rightarrow> string go" where
  \<open>StreamHPAToTarget env start =
     go_write [qw_S ''\<newline>'',
       go_bind (as_k8s start) (\<lambda>m1.
       (let (_, _, ns, _, _) = k8sMetadata m1 in
       go_bind (RequireAll [VString ns]) (\<lambda>_.
       go_bind (as_k8s start) (\<lambda>obj.
       go_bind (as_map (gomap_get obj ''spec'')) (\<lambda>x3.
       go_bind (as_map (gomap_get x3 ''scaleTargetRef'')) (\<lambda>ref.
       (let apiVersion = string_or_blank (gomap_get ref ''apiVersion'') in
       go_bind (as_string (gomap_get ref ''kind'')) (\<lambda>kind.
       go_bind (as_string (gomap_get ref ''name'')) (\<lambda>name.
       (let class = ka_FromAPIVersionAndKind (qe_api env) apiVersion kind in
       go_write [qw_S ''\<newline>k8s:'', qw_S (k8s_Class_Name class), qw_S '':{"namespace":'', qw_Q env ns,
         qw_S '',"name":'', qw_Q env name, qw_S ''}\<newline>'']))))))))))]\<close>

definition StreamInstanceToOperands :: "quick_env \<Rightarrow> go_object \<Rightarrow> string go" where
  \<open>StreamInstanceToOperands env start =
     go_write [qw_S ''\<newline>'',
       go_bind (as_k8s start) (\<lambda>m1.
       (let (obj, _, ns, name, _) = k8sMetadata m1 in
       go_bind (RequireAll [VString ns, VString name]) (\<lambda>_.
       go_write [(if \<not> isCustomResource obj
          then Fail ''not a custom resource''
          else Returns []),
         qw_S ''\<newline>k8s:Deployment.apps:{"namespace":'', qw_Q env ns,
         qw_S '',"labels":{"app.kubernetes.io/instance":'', qw_Q env name,
         qw_S ''}}\<newline>k8s:DaemonSet.apps:{"namespace":'', qw_Q env ns,
         qw_S '',"labels":{"app.kubernetes.io/instance":'', qw_Q env name,
         qw_S ''}}\<newline>k8s:StatefulSet.apps:{"namespace":'', qw_Q env ns,
         qw_S '',"labels":{"app.kubernetes.io/instance":'', qw_Q env name,
         qw_S ''}}\<newline>k8s:ReplicaSet.apps:{"namespace":'', qw_Q env ns,
         qw_S '',"labels":{"app.kubernetes.io/instance":'', qw_Q env name,
         qw_S ''}}\<newline>k8s:Service:{"namespace":'', qw_Q env ns,
         qw_S '',"labels":{"app.kubernetes.io/instance":'', qw_Q env name,
         qw_S ''}}\<newline>k8s:ConfigMap:{"namespace":'', qw_Q env ns,
         qw_S '',"labels":{"app.kubernetes.io/instance":'', qw_Q env name,
         qw_S ''}}\<newline>k8s:Secret:{"namespace":'', qw_Q env ns,
         qw_S '',"labels":{"app.kubernetes.io/instance":'', qw_Q env name,
         qw_S ''}}\<newline>k8s:ServiceAccount:{"namespace":'', qw_Q env ns,
         qw_S '',"labels":{"app.kubernetes.io/instance":'', qw_Q env name,
         qw_S ''}}\<newline>k8s:PersistentVolumeClaim:{"namespace":'', qw_Q env ns,
         qw_S '',"labels":{"app.kubernetes.io/instance":'', qw_Q env name,
         qw_S ''}}\<newline>k8s:Job.batch:{"namespace":'', qw_Q env ns,
         qw_S '',"labels":{"app.kubernetes.io/instance":'', qw_Q env name,
         qw_S ''}}\<newline>k8s:CronJob.batch:{"namespace":'', qw_Q env ns,
         qw_S '',"labels":{"app.kubernetes.io/instance":'', qw_Q env name,
         qw_S ''}}\<newline>k8s:Role.rbac.authorization.k8s.io:{"namespace":'', qw_Q env ns,
         qw_S '',"labels":{"app.kubernetes.io/instance":'', qw_Q env name,
         qw_S ''}}\<newline>k8s:RoleBinding.rbac.authorization.k8s.io:{"namespace":'', qw_Q env ns,
         qw_S '',"labels":{"app.kubernetes.io/instance":'', qw_Q env name,
         qw_S ''}}\<newline>k8s:Ingress.networking.k8s.io:{"namespace":'', qw_Q env ns,
         qw_S '',"labels":{"app.kubernetes.io/instance":'', qw_Q env name,
         qw_S ''}}\<newline>k8s:NetworkPolicy.networking.k8s.io:{"namespace":'', qw_Q env ns,
         qw_S '',"labels":{"app.kubernetes.io/instance":'', qw_Q env name,
         qw_S ''}}\<newline>k8s:Route.v1.route.openshift.io:{"namespace":'', qw_Q env ns,
         qw_S '',"labels":{"app.kubernetes.io/instance":'', qw_Q env name, qw_S ''}}\<newline>''])))]\<close>

definition StreamClusterInstanceToOperands :: "quick_env \<Rightarrow> go_object \<Rightarrow> string go" where
  \<open>StreamClusterInstanceToOperands env start =
     go_write [qw_S ''\<newline>'',
       go_bind (as_k8s start) (\<lambda>m1.
       (let (obj, _, ns, name, _) = k8sMetadata m1 in
       go_write [(if ns \<noteq> []
          then Fail ''namespaced object''
          else Returns []),
         go_bind (RequireAll [VString name]) (\<lambda>_.
         go_write [(if \<not> isCustomResource obj
            then Fail ''not a custom resource''
            else Returns []),
           qw_S ''\<newline>k8s:ClusterRole.rbac.authorization.k8s.io:{"labels":{"app.kubernetes.io/instance":'',
           qw_Q env name,
           qw_S ''}}\<newline>k8s:ClusterRoleBinding.rbac.authorization.k8s.io:{"labels":{"app.kubernetes.io/instance":'',
           qw_Q env name, qw_S ''}}\<newline>k8s:Deployment.apps:{"labels":{"app.kubernetes.io/instance":'',
           qw_Q env name, qw_S ''}}\<newline>k8s:DaemonSet.apps:{"labels":{"app.kubernetes.io/instance":'',
           qw_Q env name, qw_S ''}}\<newline>k8s:StatefulSet.apps:{"labels":{"app.kubernetes.io/instance":'',
           qw_Q env name, qw_S ''}}\<newline>k8s:ReplicaSet.apps:{"labels":{"app.kubernetes.io/instance":'',
           qw_Q env name, qw_S ''}}\<newline>k8s:Service:{"labels":{"app.kubernetes.io/instance":'',
           qw_Q env name, qw_S ''}}\<newline>k8s:ConfigMap:{"labels":{"app.kubernetes.io/instance":'',
           qw_Q env name, qw_S ''}}\<newline>k8s:Secret:{"labels":{"app.kubernetes.io/instance":'',
           qw_Q env name, qw_S ''}}\<newline>k8s:ServiceAccount:{"labels":{"app.kubernetes.io/instance":'',
           qw_Q env name,
           qw_S ''}}\<newline>k8s:PersistentVolumeClaim:{"labels":{"app.kubernetes.io/instance":'',
           qw_Q env name, qw_S ''}}\<newline>k8s:Job.batch:{"labels":{"app.kubernetes.io/instance":'',
           qw_Q env name, qw_S ''}}\<newline>k8s:CronJob.batch:{"labels":{"app.kubernetes.io/instance":'',
           qw_Q env name,
           qw_S ''}}\<newline>k8s:Role.rbac.authorization.k8s.io:{"labels":{"app.kubernetes.io/instance":'',
           qw_Q env name,
           qw_S ''}}\<newline>k8s:RoleBinding.rbac.authorization.k8s.io:{"labels":{"app.kubernetes.io/instance":'',
           qw_Q env name,
           qw_S ''}}\<newline>k8s:Ingress.networking.k8s.io:{"labels":{"app.kubernetes.io/instance":'',
           qw_Q env name,
           qw_S ''}}\<newline>k8s:NetworkPolicy.networking.k8s.io:{"labels":{"app.kubernetes.io/instance":'',
           qw_Q env name,
           qw_S ''}}\<newline>k8s:Route.v1.route.openshift.io:{"labels":{"app.kubernetes.io/instance":'',
           qw_Q env name, qw_S ''}}\<newline>''])]))]\<close>

end
