(* ===== verification/RulesKubevirt.thy ===== *)
theory RulesKubevirt
  imports QuickObjects
begin

text \<open>
  The rules about virtual machines, \<open>pkg/rules/quickrules/kubevirt.qtpl.go\<close>, one definition for each
  stream function.
\<close>

definition StreamVmToVmi :: "quick_env \<Rightarrow> go_object \<Rightarrow> string go" where
  \<open>StreamVmToVmi env start =
     go_write [qw_S ''\<newline>'',
       go_bind (as_k8s start) (\<lambda>m1.
       (let (_, _, ns, name, _) = k8sMetadata m1 in
       go_bind (RequireAll [VString ns, VString name]) (\<lambda>_.
       go_write [qw_S ''\<newline>k8s:VirtualMachineInstance.kubevirt.io:{"namespace":'', qw_Q env ns,
         qw_S '',"name":'', qw_Q env name, qw_S ''}\<newline>''])))]\<close>

definition StreamVmiToPod :: "quick_env \<Rightarrow> go_object \<Rightarrow> string go" where
  \<open>StreamVmiToPod env start =
     go_write [qw_S ''\<newline>'',
       go_bind (as_k8s start) (\<lambda>m1.
       (let (_, _, ns, name, _) = k8sMetadata m1 in
       go_bind (RequireAll [VString ns, VString name]) (\<lambda>_.
       go_write [qw_S ''\<newline>k8s:Pod:{"namespace":'', qw_Q env ns,
         qw_S '',"labels":{"kubevirt.io":"virt-launcher","vm.kubevirt.io/name":'', qw_Q env name,
         qw_S ''}}\<newline>''])))]\<close>

definition StreamVmiToNode :: "quick_env \<Rightarrow> go_object \<Rightarrow> string go" where
  \<open>StreamVmiToNode env start =
     go_write [qw_S ''\<newline>'',
       go_bind (as_k8s start) (\<lambda>obj.
       go_bind (as_map (gomap_get obj ''status'')) (\<lambda>x2.
       go_bind (as_string (gomap_get x2 ''nodeName'')) (\<lambda>x3.
       go_bind (Require_string x3) (\<lambda>nodeName.
       go_write [qw_S ''\<newline>k8s:Node:{"name":'', qw_Q env nodeName, qw_S ''}\<newline>'']))))]\<close>

definition StreamVmToPVC :: "quick_env \<Rightarrow> go_object \<Rightarrow> string go" where
  \<open>StreamVmToPVC env start =
     go_write [qw_S ''\<newline>'',
       go_bind (as_k8s start) (\<lambda>m1.
       (let (obj, _, ns, _, _) = k8sMetadata m1 in
       go_bind (RequireAll [VString ns]) (\<lambda>_.
       go_bind (as_map (gomap_get obj ''spec'')) (\<lambda>spec.
       (let dvTemplates = mapSlice spec ''dataVolumeTemplates'' in
       go_bind (as_map (gomap_get spec ''template'')) (\<lambda>x3.
       go_bind (as_map (gomap_get x3 ''spec'')) (\<lambda>tmplSpec.
       (let volumes = mapSlice tmplSpec ''volumes'' in
       go_write [qw_S ''\<newline>'',
         go_each (\<lambda>t.
           go_write [qw_S ''\<newline>'',
             go_bind (as_map t) (\<lambda>x5.
             go_bind (as_map (gomap_get x5 ''metadata'')) (\<lambda>x6.
             go_bind (as_string (gomap_get x6 ''name'')) (\<lambda>dvName.
             go_write [qw_S ''\<newline>k8s:PersistentVolumeClaim:{"namespace":'', qw_Q env ns, qw_S '',"name":'',
               qw_Q env dvName, qw_S ''}\<newline>''])))]) dvTemplates,
         qw_S ''\<newline>'',
         go_each (\<lambda>v.
           go_write [qw_S ''\<newline>'',
             go_bind (as_map v) (\<lambda>vol.
             go_write [qw_S ''\<newline>'',
               (case maybe_map (gomap_get vol ''persistentVolumeClaim'') of
                 None \<Rightarrow> Returns []
               | Some pvc \<Rightarrow>
                   go_write [qw_S ''\<newline>k8s:PersistentVolumeClaim:{"namespace":'', qw_Q env ns, qw_S '',"name":'',
                     go_bind (as_string (gomap_get pvc ''claimName'')) (qw_Q env), qw_S ''}\<newline>'']),
               qw_S ''\<newline>'',
               (case maybe_map (gomap_get vol ''dataVolume'') of
                 None \<Rightarrow> Returns []
               | Some dv \<Rightarrow>
                   go_write [qw_S ''\<newline>k8s:PersistentVolumeClaim:{"namespace":'', qw_Q env ns, qw_S '',"name":'',
                     go_bind (as_string (gomap_get dv ''name'')) (qw_Q env), qw_S ''}\<newline>'']),
               qw_S ''\<newline>'',
               (case maybe_map (gomap_get vol ''ephemeral'') of
                 None \<Rightarrow> Returns []
               | Some eph \<Rightarrow>
                   go_write [qw_S ''\<newline>k8s:PersistentVolumeClaim:{"namespace":'', qw_Q env ns, qw_S '',"name":'',
                     go_bind (as_map (gomap_get eph ''persistentVolumeClaim'')) (\<lambda>x11.
                     go_bind (as_string (gomap_get x11 ''claimName'')) (qw_Q env)),
                     qw_S ''}\<newline>'']),
               qw_S ''\<newline>'',
               (case maybe_map (gomap_get vol ''memoryDump'') of
                 None \<Rightarrow> Returns []
               | Some md \<Rightarrow>
                   go_write [qw_S ''\<newline>k8s:PersistentVolumeClaim:{"namespace":'', qw_Q env ns, qw_S '',"name":'',
                     go_bind (as_string (gomap_get md ''claimName'')) (qw_Q env), qw_S ''}\<newline>'']),
               qw_S ''\<newline>''])]) volumes,
         qw_S ''\<newline>'']))))))))]\<close>

definition StreamVmToAlert :: "quick_env \<Rightarrow> go_object \<Rightarrow> string go" where
  \<open>StreamVmToAlert env start =
     go_write [qw_S ''\<newline>'',
       go_bind (as_k8s start) (\<lambda>m1.
       (let (_, _, ns, name, _) = k8sMetadata m1 in
       go_bind (RequireAll [VString ns, VString name]) (\<lambda>_.
       go_write [qw_S ''\<newline>alert:alert:{"namespace":'', qw_Q env ns, qw_S '',"name":'', qw_Q env name,
         qw_S ''}\<newline>''])))]\<close>

definition StreamVmiToAlert :: "quick_env \<Rightarrow> go_object \<Rightarrow> string go" where
  \<open>StreamVmiToAlert env start =
     go_write [qw_S ''\<newline>'',
       go_bind (as_k8s start) (\<lambda>m1.
       (let (_, _, ns, name, _) = k8sMetadata m1 in
       go_bind (RequireAll [VString ns, VString name]) (\<lambda>_.
       go_write [qw_S ''\<newline>alert:alert:{"namespace":'', qw_Q env ns, qw_S '',"name":'', qw_Q env name,
         qw_S ''}\<newline>''])))]\<close>

definition StreamVmimToAlert :: "quick_env \<Rightarrow> go_object \<Rightarrow> string go" where
  \<open>StreamVmimToAlert env start =
     go_write [qw_S ''\<newline>'',
       go_bind (as_k8s start) (\<lambda>m1.
       (let (_, _, ns, name, _) = k8sMetadata m1 in
       go_bind (RequireAll [VString ns, VString name]) (\<lambda>_.
       go_write [qw_S ''\<newline>alert:alert:{"namespace":'', qw_Q env ns, qw_S '',"vmim":'', qw_Q env name,
         qw_S ''}\<newline>''])))]\<close>

definition StreamVmToMetric :: "quick_env \<Rightarrow> go_object \<Rightarrow> string go" where
  \<open>StreamVmToMetric env start =
     go_write [qw_S ''\<newline>'',
       go_bind (as_k8s start) (\<lambda>m1.
       (let (_, _, ns, name, _) = k8sMetadata m1 in
       go_bind (RequireAll [VString ns, VString name]) (\<lambda>_.
       go_write [qw_S ''\<newline>metric:metric:{namespace='', qw_Q env ns, qw_S '',name='', qw_Q env name,
         qw_S ''}\<newline>''])))]\<close>

definition StreamVmiToMetric :: "quick_env \<Rightarrow> go_object \<Rightarrow> string go" where
  \<open>StreamVmiToMetric env start =
     go_write [qw_S ''\<newline>'',
       go_bind (as_k8s start) (\<lambda>m1.
       (let (_, _, ns, name, _) = k8sMetadata m1 in
       go_bind (RequireAll [VString ns, VString name]) (\<lambda>_.
       go_write [qw_S ''\<newline>metric:metric:{namespace='', qw_Q env ns, qw_S '',name='', qw_Q env name,
         qw_S ''}\<newline>''])))]\<close>

definition StreamVmiToLogs :: "quick_env \<Rightarrow> go_object \<Rightarrow> string go" where
  \<open>StreamVmiToLogs env start =
     go_write [qw_S ''\<newline>'',
       go_bind (as_k8s start) (\<lambda>m1.
       (let (_, _, ns, name, _) = k8sMetadata m1 in
       go_bind (RequireAll [VString ns, VString name]) (\<lambda>_.
       go_write [qw_S ''\<newline>log:'', qw_S (TypeForNamespace ns), qw_S '':{"namespace":'', qw_Q env ns,
         qw_S '',"labels":{"kubevirt.io":"virt-launcher","vm.kubevirt.io/name":'', qw_Q env name,
         qw_S ''}}\<newline>''])))]\<close>

definition StreamVmimToVmi :: "quick_env \<Rightarrow> go_object \<Rightarrow> string go" where
  \<open>StreamVmimToVmi env start =
     go_write [qw_S ''\<newline>'',
       go_bind (as_k8s start) (\<lambda>m1.
       (let (obj, _, ns, _, _) = k8sMetadata m1 in
       go_bind (RequireAll [VString ns]) (\<lambda>_.
       go_bind (as_map (gomap_get obj ''spec'')) (\<lambda>x2.
       go_bind (as_string (gomap_get x2 ''vmiName'')) (\<lambda>x3.
       go_bind (Require_string x3) (\<lambda>vmiName.
       go_write [qw_S ''\<newline>k8s:VirtualMachineInstance.kubevirt.io:{"namespace":'', qw_Q env ns,
         qw_S '',"name":'', qw_Q env vmiName, qw_S ''}\<newline>'']))))))]\<close>

definition StreamVmiToVmim :: "quick_env \<Rightarrow> go_object \<Rightarrow> string go" where
  \<open>StreamVmiToVmim env start =
     go_write [qw_S ''\<newline>'',
       go_bind (as_k8s start) (\<lambda>m1.
       (let (_, _, ns, name, _) = k8sMetadata m1 in
       go_bind (RequireAll [VString ns, VString name]) (\<lambda>_.
       go_write [qw_S ''\<newline>k8s:VirtualMachineInstanceMigration.kubevirt.io:{"namespace":'', qw_Q env ns,
         qw_S '',"labels":{"kubevirt.io/vmi-name":'', qw_Q env name, qw_S ''}}\<newline>''])))]\<close>

definition StreamDataVolumeToPVC :: "quick_env \<Rightarrow> go_object \<Rightarrow> string go" where
  \<open>StreamDataVolumeToPVC env start =
     go_write [qw_S ''\<newline>'',
       go_bind (as_k8s start) (\<lambda>m1.
       (let (_, _, ns, name, _) = k8sMetadata m1 in
       go_bind (RequireAll [VString ns, VString name]) (\<lambda>_.
       go_write [qw_S ''\<newline>k8s:PersistentVolumeClaim:{"namespace":'', qw_Q env ns, qw_S '',"name":'',
         qw_Q env name, qw_S ''}\<newline>''])))]\<close>

definition StreamVmToDataVolume :: "quick_env \<Rightarrow> go_object \<Rightarrow> string go" where
  \<open>StreamVmToDataVolume env start =
     go_write [qw_S ''\<newline>'',
       go_bind (as_k8s start) (\<lambda>m1.
       (let (obj, _, ns, _, _) = k8sMetadata m1 in
       go_bind (RequireAll [VString ns]) (\<lambda>_.
       go_bind (as_map (gomap_get obj ''spec'')) (\<lambda>spec.
       (let dvTemplates = mapSlice spec ''dataVolumeTemplates'' in
       go_bind (as_map (gomap_get spec ''template'')) (\<lambda>x3.
       go_bind (as_map (gomap_get x3 ''spec'')) (\<lambda>tmplSpec.
       (let volumes = mapSlice tmplSpec ''volumes'' in
       go_write [qw_S ''\<newline>'',
         go_each (\<lambda>t.
           go_write [qw_S ''\<newline>'',
             go_bind (as_map t) (\<lambda>x5.
             go_bind (as_map (gomap_get x5 ''metadata'')) (\<lambda>x6.
             go_bind (as_string (gomap_get x6 ''name'')) (\<lambda>dvName.
             go_write [qw_S ''\<newline>k8s:DataVolume.cdi.kubevirt.io:{"namespace":'', qw_Q env ns, qw_S '',"name":'',
               qw_Q env dvName, qw_S ''}\<newline>''])))]) dvTemplates,
         qw_S ''\<newline>'',
         go_each (\<lambda>v.
           go_write [qw_S ''\<newline>'',
             go_bind (as_map v) (\<lambda>vol.
             go_write [qw_S ''\<newline>'',
               (case maybe_map (gomap_get vol ''dataVolume'') of
                 None \<Rightarrow> Returns []
               | Some dv \<Rightarrow>
                   go_write [qw_S ''\<newline>k8s:DataVolume.cdi.kubevirt.io:{"namespace":'', qw_Q env ns, qw_S '',"name":'',
                     go_bind (as_string (gomap_get dv ''name'')) (qw_Q env), qw_S ''}\<newline>'']),
               qw_S ''\<newline>''])]) volumes,
         qw_S ''\<newline>'']))))))))]\<close>

definition StreamVmiToPVC :: "quick_env \<Rightarrow> go_object \<Rightarrow> string go" where
  \<open>StreamVmiToPVC env start =
     go_write [qw_S ''\<newline>'',
       go_bind (as_k8s start) (\<lambda>m1.
       (let (obj, _, ns, _, _) = k8sMetadata m1 in
       go_bind (RequireAll [VString ns]) (\<lambda>_.
       go_bind (as_map (gomap_get obj ''spec'')) (\<lambda>x2.
       (let volumes = mapSlice x2 ''volumes'' in
       go_write [qw_S ''\<newline>'',
         go_each (\<lambda>v.
           go_write [qw_S ''\<newline>'',
             go_bind (as_map v) (\<lambda>vol.
             go_write [qw_S ''\<newline>'',
               (case maybe_map (gomap_get vol ''persistentVolumeClaim'') of
                 None \<Rightarrow> Returns []
               | Some pvc \<Rightarrow>
                   go_write [qw_S ''\<newline>k8s:PersistentVolumeClaim:{"namespace":'', qw_Q env ns, qw_S '',"name":'',
                     go_bind (as_string (gomap_get pvc ''claimName'')) (qw_Q env), qw_S ''}\<newline>'']),
               qw_S ''\<newline>'',
               (case maybe_map (gomap_get vol ''dataVolume'') of
                 None \<Rightarrow> Returns []
               | Some dv \<Rightarrow>
                   go_write [qw_S ''\<newline>k8s:PersistentVolumeClaim:{"namespace":'', qw_Q env ns, qw_S '',"name":'',
                     go_bind (as_string (gomap_get dv ''name'')) (qw_Q env), qw_S ''}\<newline>'']),
               qw_S ''\<newline>'',
               (case maybe_map (gomap_get vol ''ephemeral'') of
                 None \<Rightarrow> Returns []
               | Some eph \<Rightarrow>
                   go_write [qw_S ''\<newline>k8s:PersistentVolumeClaim:{"namespace":'', qw_Q env ns, qw_S '',"name":'',
                     go_bind (as_map (gomap_get eph ''persistentVolumeClaim'')) (\<lambda>x6.
                     go_bind (as_string (gomap_get x6 ''claimName'')) (qw_Q env)),
                     qw_S ''}\<newline>'']),
               qw_S ''\<newline>'',
               (case maybe_map (gomap_get vol ''memoryDump'') of
                 None \<Rightarrow> Returns []
               | Some md \<Rightarrow>
                   go_write [qw_S ''\<newline>k8s:PersistentVolumeClaim:{"namespace":'', qw_Q env ns, qw_S '',"name":'',
                     go_bind (as_string (gomap_get md ''claimName'')) (qw_Q env), qw_S ''}\<newline>'']),
               qw_S ''\<newline>''])]) volumes,
         qw_S ''\<newline>''])))))]\<close>

definition StreamVmiToDataVolume :: "quick_env \<Rightarrow> go_object \<Rightarrow> string go" where
  \<open>StreamVmiToDataVolume env start =
     go_write [qw_S ''\<newline>'',
       go_bind (as_k8s start) (\<lambda>m1.
       (let (obj, _, ns, _, _) = k8sMetadata m1 in
       go_bind (RequireAll [VString ns]) (\<lambda>_.
       go_bind (as_map (gomap_get obj ''spec'')) (\<lambda>x2.
       (let volumes = mapSlice x2 ''volumes'' in
       go_write [qw_S ''\<newline>'',
         go_each (\<lambda>v.
           go_write [qw_S ''\<newline>'',
             go_bind (as_map v) (\<lambda>vol.
             go_write [qw_S ''\<newline>'',
               (case maybe_map (gomap_get vol ''dataVolume'') of
                 None \<Rightarrow> Returns []
               | Some dv \<Rightarrow>
                   go_write [qw_S ''\<newline>k8s:DataVolume.cdi.kubevirt.io:{"namespace":'', qw_Q env ns, qw_S '',"name":'',
                     go_bind (as_string (gomap_get dv ''name'')) (qw_Q env), qw_S ''}\<newline>'']),
               qw_S ''\<newline>''])]) volumes,
         qw_S ''\<newline>''])))))]\<close>

definition StreamVmSnapshotToVm :: "quick_env \<Rightarrow> go_object \<Rightarrow> string go" where
  \<open>StreamVmSnapshotToVm env start =
     go_write [qw_S ''\<newline>'',
       go_bind (as_k8s start) (\<lambda>m1.
       (let (obj, _, ns, _, _) = k8sMetadata m1 in
       go_bind (RequireAll [VString ns]) (\<lambda>_.
       go_bind (as_map (gomap_get obj ''spec'')) (\<lambda>x2.
       go_bind (as_map (gomap_get x2 ''source'')) (\<lambda>x3.
       go_bind (as_string (gomap_get x3 ''name'')) (\<lambda>x4.
       go_bind (Require_string x4) (\<lambda>srcName.
       go_write [qw_S ''\<newline>k8s:VirtualMachine.kubevirt.io:{"namespace":'', qw_Q env ns, qw_S '',"name":'',
         qw_Q env srcName, qw_S ''}\<newline>''])))))))]\<close>

definition StreamVmToVmSnapshot :: "quick_env \<Rightarrow> go_object \<Rightarrow> string go" where
  \<open>StreamVmToVmSnapshot env start =
     go_write [qw_S ''\<newline>'',
       go_bind (as_k8s start) (\<lambda>m1.
       (let (_, _, ns, name, _) = k8sMetadata m1 in
       go_bind (RequireAll [VString ns, VString name]) (\<lambda>_.
       go_write [qw_S ''\<newline>k8s:VirtualMachineSnapshot.snapshot.kubevirt.io:{"namespace":'', qw_Q env ns,
         qw_S '',"labels":{"vm.kubevirt.io/name":'', qw_Q env name, qw_S ''}}\<newline>''])))]\<close>

definition StreamVmRestoreToVm :: "quick_env \<Rightarrow> go_object \<Rightarrow> string go" where
  \<open>StreamVmRestoreToVm env start =
     go_write [qw_S ''\<newline>'',
       go_bind (as_k8s start) (\<lambda>m1.
       (let (obj, _, ns, _, _) = k8sMetadata m1 in
       go_bind (RequireAll [VString ns]) (\<lambda>_.
       go_bind (as_map (gomap_get obj ''spec'')) (\<lambda>x2.
       go_bind (as_map (gomap_get x2 ''target'')) (\<lambda>x3.
       go_bind (as_string (gomap_get x3 ''name'')) (\<lambda>x4.
       go_bind (Require_string x4) (\<lambda>targetName.
       go_write [qw_S ''\<newline>k8s:VirtualMachine.kubevirt.io:{"namespace":'', qw_Q env ns, qw_S '',"name":'',
         qw_Q env targetName, qw_S ''}\<newline>''])))))))]\<close>

definition StreamVmToVmRestore :: "quick_env \<Rightarrow> go_object \<Rightarrow> string go" where
  \<open>StreamVmToVmRestore env start =
     go_write [qw_S ''\<newline>'',
       go_bind (as_k8s start) (\<lambda>m1.
       (let (_, _, ns, name, _) = k8sMetadata m1 in
       go_bind (RequireAll [VString ns, VString name]) (\<lambda>_.
       go_write [qw_S ''\<newline>k8s:VirtualMachineRestore.snapshot.kubevirt.io:{"namespace":'', qw_Q env ns,
         qw_S '',"labels":{"vm.kubevirt.io/name":'', qw_Q env name, qw_S ''}}\<newline>''])))]\<close>

definition StreamVmRestoreToVmSnapshot :: "quick_env \<Rightarrow> go_object \<Rightarrow> string go" where
  \<open>StreamVmRestoreToVmSnapshot env start =
     go_write [qw_S ''\<newline>'',
       go_bind (as_k8s start) (\<lambda>m1.
       (let (obj, _, ns, _, _) = k8sMetadata m1 in
       go_bind (RequireAll [VString ns]) (\<lambda>_.
       go_bind (as_map (gomap_get obj ''spec'')) (\<lambda>x2.
       go_bind (as_string (gomap_get x2 ''virtualMachineSnapshotName'')) (\<lambda>x3.
       go_bind (Require_string x3) (\<lambda>snapName.
       go_write [qw_S ''\<newline>k8s:VirtualMachineSnapshot.snapshot.kubevirt.io:{"namespace":'', qw_Q env ns,
         qw_S '',"name":'', qw_Q env snapName, qw_S ''}\<newline>'']))))))]\<close>

definition StreamVmExportToVm :: "quick_env \<Rightarrow> go_object \<Rightarrow> string go" where
  \<open>StreamVmExportToVm env start =
     go_write [qw_S ''\<newline>'',
       go_bind (as_k8s start) (\<lambda>m1.
       (let (obj, _, ns, _, _) = k8sMetadata m1 in
       go_bind (RequireAll [VString ns]) (\<lambda>_.
       go_bind (as_map (gomap_get obj ''spec'')) (\<lambda>x2.
       go_bind (as_map (gomap_get x2 ''source'')) (\<lambda>src.
       go_write [go_bind (as_string (gomap_get src ''kind'')) (\<lambda>x4.
         (if x4 \<noteq> ''VirtualMachine''
          then Fail ''not a VirtualMachine export''
          else Returns [])),
         qw_S ''\<newline>k8s:VirtualMachine.kubevirt.io:{"namespace":'', qw_Q env ns, qw_S '',"name":'',
         go_bind (as_string (gomap_get src ''name'')) (qw_Q env), qw_S ''}\<newline>''])))))]\<close>

definition StreamVmExportToVmSnapshot :: "quick_env \<Rightarrow> go_object \<Rightarrow> string go" where
  \<open>StreamVmExportToVmSnapshot env start =
     go_write [qw_S ''\<newline>'',
       go_bind (as_k8s start) (\<lambda>m1.
       (let (obj, _, ns, _, _) = k8sMetadata m1 in
       go_bind (RequireAll [VString ns]) (\<lambda>_.
       go_bind (as_map (gomap_get obj ''spec'')) (\<lambda>x2.
       go_bind (as_map (gomap_get x2 ''source'')) (\<lambda>src.
       go_write [go_bind (as_string (gomap_get src ''kind'')) (\<lambda>x4.
         (if x4 \<noteq> ''VirtualMachineSnapshot''
          then Fail ''not a VirtualMachineSnapshot export''
          else Returns [])),
         qw_S ''\<newline>k8s:VirtualMachineSnapshot.snapshot.kubevirt.io:{"namespace":'', qw_Q env ns,
         qw_S '',"name":'', go_bind (as_string (gomap_get src ''name'')) (qw_Q env), qw_S ''}\<newline>''])))))]\<close>

definition StreamVmExportToPVC :: "quick_env \<Rightarrow> go_object \<Rightarrow> string go" where
  \<open>StreamVmExportToPVC env start =
     go_write [qw_S ''\<newline>'',
       go_bind (as_k8s start) (\<lambda>m1.
       (let (obj, _, ns, _, _) = k8sMetadata m1 in
       go_bind (RequireAll [VString ns]) (\<lambda>_.
       go_bind (as_map (gomap_get obj ''spec'')) (\<lambda>x2.
       go_bind (as_map (gomap_get x2 ''source'')) (\<lambda>src.
       go_write [go_bind (as_string (gomap_get src ''kind'')) (\<lambda>x4.
         (if x4 \<noteq> ''PersistentVolumeClaim''
          then Fail ''not a PersistentVolumeClaim export''
          else Returns [])),
         qw_S ''\<newline>k8s:PersistentVolumeClaim:{"namespace":'', qw_Q env ns, qw_S '',"name":'',
         go_bind (as_string (gomap_get src ''name'')) (qw_Q env), qw_S ''}\<newline>''])))))]\<close>

definition StreamNodeToVmi :: "quick_env \<Rightarrow> go_object \<Rightarrow> string go" where
  \<open>StreamNodeToVmi env start =
     go_write [qw_S ''\<newline>'',
       go_bind (as_k8s start) (\<lambda>m1.
       (let (_, _, _, name, _) = k8sMetadata m1 in
       go_bind (RequireAll [VString name]) (\<lambda>_.
       go_write [qw_S ''\<newline>k8s:VirtualMachineInstance.kubevirt.io:{"labels":{"kubevirt.io/nodeName":'',
         qw_Q env name, qw_S ''}}\<newline>''])))]\<close>

definition StreamDataVolumeToImporterPod :: "quick_env \<Rightarrow> go_object \<Rightarrow> string go" where
  \<open>StreamDataVolumeToImporterPod env start =
     go_write [qw_S ''\<newline>'',
       go_bind (as_k8s start) (\<lambda>m1.
       (let (_, _, ns, name, _) = k8sMetadata m1 in
       go_bind (RequireAll [VString ns, VString name]) (\<lambda>_.
       go_write [qw_S ''\<newline>k8s:Pod:{"namespace":'', qw_Q env ns,
         qw_S '',"labels":{"cdi.kubevirt.io/storage.import.importPvcName":'', qw_Q env name,
         qw_S ''}}\<newline>''])))]\<close>

definition StreamVmToNetAttachDef :: "quick_env \<Rightarrow> go_object \<Rightarrow> string go" where
  \<open>StreamVmToNetAttachDef env start =
     go_write [qw_S ''\<newline>'',
       go_bind (as_k8s start) (\<lambda>m1.
       (let (obj, _, ns, _, _) = k8sMetadata m1 in
       go_bind (RequireAll [VString ns]) (\<lambda>_.
       go_bind (as_map (gomap_get obj ''spec'')) (\<lambda>x2.
       go_bind (as_map (gomap_get x2 ''template'')) (\<lambda>x3.
       go_bind (as_map (gomap_get x3 ''spec'')) (\<lambda>x4.
       (let networks = mapSlice x4 ''networks'' in
       go_write [qw_S ''\<newline>'',
         go_each (\<lambda>n.
           go_write [qw_S ''\<newline>'',
             go_bind (as_map n) (\<lambda>net.
             go_write [qw_S ''\<newline>'',
               (case maybe_map (gomap_get net ''multus'') of
                 None \<Rightarrow> Returns []
               | Some m \<Rightarrow>
                   go_write [qw_S ''\<newline>'',
                     go_bind (as_string (gomap_get m ''networkName'')) (\<lambda>netName.
                     go_write [qw_S ''\<newline>'',
                       (if \<not> strings_Contains netName ''/''
                        then go_write [qw_S ''\<newline>k8s:NetworkAttachmentDefinition.k8s.cni.cncf.io:{"namespace":'', qw_Q env ns,
                               qw_S '',"name":'', qw_Q env netName, qw_S ''}\<newline>'']
                        else Returns []),
                       qw_S ''\<newline>''])]),
               qw_S ''\<newline>''])]) networks,
         qw_S ''\<newline>''])))))))]\<close>

definition StreamVmiToNetAttachDef :: "quick_env \<Rightarrow> go_object \<Rightarrow> string go" where
  \<open>StreamVmiToNetAttachDef env start =
     go_write [qw_S ''\<newline>'',
       go_bind (as_k8s start) (\<lambda>m1.
       (let (obj, _, ns, _, _) = k8sMetadata m1 in
       go_bind (RequireAll [VString ns]) (\<lambda>_.
       go_bind (as_map (gomap_get obj ''spec'')) (\<lambda>x2.
       (let networks = mapSlice x2 ''networks'' in
       go_write [qw_S ''\<newline>'',
         go_each (\<lambda>n.
           go_write [qw_S ''\<newline>'',
             go_bind (as_map n) (\<lambda>net.
             go_write [qw_S ''\<newline>'',
               (case maybe_map (gomap_get net ''multus'') of
                 None \<Rightarrow> Returns []
               | Some m \<Rightarrow>
                   go_write [qw_S ''\<newline>'',
                     go_bind (as_string (gomap_get m ''networkName'')) (\<lambda>netName.
                     go_write [qw_S ''\<newline>'',
                       (if \<not> strings_Contains netName ''/''
                        then go_write [qw_S ''\<newline>k8s:NetworkAttachmentDefinition.k8s.cni.cncf.io:{"namespace":'', qw_Q env ns,
                               qw_S '',"name":'', qw_Q env netName, qw_S ''}\<newline>'']
                        else Returns []),
                       qw_S ''\<newline>''])]),
               qw_S ''\<newline>''])]) networks,
         qw_S ''\<newline>''])))))]\<close>

definition StreamVmToSecret :: "quick_env \<Rightarrow> go_object \<Rightarrow> string go" where
  \<open>StreamVmToSecret env start =
     go_write [qw_S ''\<newline>'',
       go_bind (as_k8s start) (\<lambda>m1.
       (let (obj, _, ns, _, _) = k8sMetadata m1 in
       go_bind (RequireAll [VString ns]) (\<lambda>_.
       go_bind (as_map (gomap_get obj ''spec'')) (\<lambda>x2.
       go_bind (as_map (gomap_get x2 ''template'')) (\<lambda>x3.
       go_bind (as_map (gomap_get x3 ''spec'')) (\<lambda>tmplSpec.
       (let volumes = mapSlice tmplSpec ''volumes'' in
       (let creds = mapSlice tmplSpec ''accessCredentials'' in
       go_bind (kvSecretNames volumes creds) (\<lambda>names.
       go_bind (RequireAll [strings_value names]) (\<lambda>_.
       go_write [qw_S ''\<newline>'',
         go_each (\<lambda>n.
           go_write [qw_S ''\<newline>k8s:Secret:{"namespace":'', qw_Q env ns, qw_S '',"name":'', qw_Q env n,
             qw_S ''}\<newline>'']) names,
         qw_S ''\<newline>'']))))))))))]\<close>

definition StreamVmiToSecret :: "quick_env \<Rightarrow> go_object \<Rightarrow> string go" where
  \<open>StreamVmiToSecret env start =
     go_write [qw_S ''\<newline>'',
       go_bind (as_k8s start) (\<lambda>m1.
       (let (obj, _, ns, _, _) = k8sMetadata m1 in
       go_bind (RequireAll [VString ns]) (\<lambda>_.
       go_bind (as_map (gomap_get obj ''spec'')) (\<lambda>x2.
       (let volumes = mapSlice x2 ''volumes'' in
       go_bind (as_map (gomap_get obj ''spec'')) (\<lambda>x3.
       (let creds = mapSlice x3 ''accessCredentials'' in
       go_bind (kvSecretNames volumes creds) (\<lambda>names.
       go_bind (RequireAll [strings_value names]) (\<lambda>_.
       go_write [qw_S ''\<newline>'',
         go_each (\<lambda>n.
           go_write [qw_S ''\<newline>k8s:Secret:{"namespace":'', qw_Q env ns, qw_S '',"name":'', qw_Q env n,
             qw_S ''}\<newline>'']) names,
         qw_S ''\<newline>''])))))))))]\<close>

definition StreamVmToConfigMap :: "quick_env \<Rightarrow> go_object \<Rightarrow> string go" where
  \<open>StreamVmToConfigMap env start =
     go_write [qw_S ''\<newline>'',
       go_bind (as_k8s start) (\<lambda>m1.
       (let (obj, _, ns, _, _) = k8sMetadata m1 in
       go_bind (RequireAll [VString ns]) (\<lambda>_.
       go_bind (as_map (gomap_get obj ''spec'')) (\<lambda>x2.
       go_bind (as_map (gomap_get x2 ''template'')) (\<lambda>x3.
       go_bind (as_map (gomap_get x3 ''spec'')) (\<lambda>x4.
       (let volumes = mapSlice x4 ''volumes'' in
       go_bind (kvConfigMapNames volumes) (\<lambda>names.
       go_bind (RequireAll [strings_value names]) (\<lambda>_.
       go_write [qw_S ''\<newline>'',
         go_each (\<lambda>n.
           go_write [qw_S ''\<newline>k8s:ConfigMap:{"namespace":'', qw_Q env ns, qw_S '',"name":'', qw_Q env n,
             qw_S ''}\<newline>'']) names,
         qw_S ''\<newline>''])))))))))]\<close>

definition StreamVmiToConfigMap :: "quick_env \<Rightarrow> go_object \<Rightarrow> string go" where
  \<open>StreamVmiToConfigMap env start =
     go_write [qw_S ''\<newline>'',
       go_bind (as_k8s start) (\<lambda>m1.
       (let (obj, _, ns, _, _) = k8sMetadata m1 in
       go_bind (RequireAll [VString ns]) (\<lambda>_.
       go_bind (as_map (gomap_get obj ''spec'')) (\<lambda>x2.
       (let volumes = mapSlice x2 ''volumes'' in
       go_bind (kvConfigMapNames volumes) (\<lambda>names.
       go_bind (RequireAll [strings_value names]) (\<lambda>_.
       go_write [qw_S ''\<newline>'',
         go_each (\<lambda>n.
           go_write [qw_S ''\<newline>k8s:ConfigMap:{"namespace":'', qw_Q env ns, qw_S '',"name":'', qw_Q env n,
             qw_S ''}\<newline>'']) names,
         qw_S ''\<newline>''])))))))]\<close>

definition StreamVmToServiceAccount :: "quick_env \<Rightarrow> go_object \<Rightarrow> string go" where
  \<open>StreamVmToServiceAccount env start =
     go_write [qw_S ''\<newline>'',
       go_bind (as_k8s start) (\<lambda>m1.
       (let (obj, _, ns, _, _) = k8sMetadata m1 in
       go_bind (RequireAll [VString ns]) (\<lambda>_.
       go_bind (as_map (gomap_get obj ''spec'')) (\<lambda>x2.
       go_bind (as_map (gomap_get x2 ''template'')) (\<lambda>x3.
       go_bind (as_map (gomap_get x3 ''spec'')) (\<lambda>x4.
       (let volumes = mapSlice x4 ''volumes'' in
       go_write [qw_S ''\<newline>'',
         go_each (\<lambda>v.
           go_write [qw_S ''\<newline>'',
             go_bind (as_map v) (\<lambda>vol.
             go_write [qw_S ''\<newline>'',
               (case maybe_map (gomap_get vol ''serviceAccount'') of
                 None \<Rightarrow> Returns []
               | Some sa \<Rightarrow>
                   go_write [qw_S ''\<newline>k8s:ServiceAccount:{"namespace":'', qw_Q env ns, qw_S '',"name":'',
                     go_bind (as_string (gomap_get sa ''serviceAccountName'')) (qw_Q env), qw_S ''}\<newline>'']),
               qw_S ''\<newline>''])]) volumes,
         qw_S ''\<newline>''])))))))]\<close>

definition StreamVmiToServiceAccount :: "quick_env \<Rightarrow> go_object \<Rightarrow> string go" where
  \<open>StreamVmiToServiceAccount env start =
     go_write [qw_S ''\<newline>'',
       go_bind (as_k8s start) (\<lambda>m1.
       (let (obj, _, ns, _, _) = k8sMetadata m1 in
       go_bind (RequireAll [VString ns]) (\<lambda>_.
       go_bind (as_map (gomap_get obj ''spec'')) (\<lambda>x2.
       (let volumes = mapSlice x2 ''volumes'' in
       go_write [qw_S ''\<newline>'',
         go_each (\<lambda>v.
           go_write [qw_S ''\<newline>'',
             go_bind (as_map v) (\<lambda>vol.
             go_write [qw_S ''\<newline>'',
               (case maybe_map (gomap_get vol ''serviceAccount'') of
                 None \<Rightarrow> Returns []
               | Some sa \<Rightarrow>
                   go_write [qw_S ''\<newline>k8s:ServiceAccount:{"namespace":'', qw_Q env ns, qw_S '',"name":'',
                     go_bind (as_string (gomap_get sa ''serviceAccountName'')) (qw_Q env), qw_S ''}\<newline>'']),
               qw_S ''\<newline>''])]) volumes,
         qw_S ''\<newline>''])))))]\<close>

definition StreamVmToInstancetype :: "quick_env \<Rightarrow> go_object \<Rightarrow> string go" where
  \<open>StreamVmToInstancetype env start =
     go_write [qw_S ''\<newline>'',
       go_bind (as_k8s start) (\<lambda>m1.
       (let (obj, _, ns, _, _) = k8sMetadata m1 in
       go_bind (RequireAll [VString ns]) (\<lambda>_.
       go_bind (as_map (gomap_get obj ''spec'')) (\<lambda>x2.
       go_bind (as_map (gomap_get x2 ''instancetype'')) (\<lambda>it.
       go_bind (as_string (gomap_get it ''name'')) (\<lambda>x4.
       go_bind (Require_string x4) (\<lambda>name.
       (let kind = string_or_blank (gomap_get it ''kind'') in
       go_write [qw_S ''\<newline>'',
         (if kind = ''VirtualMachineInstancetype''
          then go_write [qw_S ''\<newline>k8s:VirtualMachineInstancetype.instancetype.kubevirt.io:{"namespace":'',
                 qw_Q env ns, qw_S '',"name":'', qw_Q env name, qw_S ''}\<newline>'']
          else go_write [qw_S ''\<newline>k8s:VirtualMachineClusterInstancetype.instancetype.kubevirt.io:{"name":'',
                 qw_Q env name, qw_S ''}\<newline>'']),
         qw_S ''\<newline>'']))))))))]\<close>

definition StreamVmToPreference :: "quick_env \<Rightarrow> go_object \<Rightarrow> string go" where
  \<open>StreamVmToPreference env start =
     go_write [qw_S ''\<newline>'',
       go_bind (as_k8s start) (\<lambda>m1.
       (let (obj, _, ns, _, _) = k8sMetadata m1 in
       go_bind (RequireAll [VString ns]) (\<lambda>_.
       go_bind (as_map (gomap_get obj ''spec'')) (\<lambda>x2.
       go_bind (as_map (gomap_get x2 ''preference'')) (\<lambda>pref.
       go_bind (as_string (gomap_get pref ''name'')) (\<lambda>x4.
       go_bind (Require_string x4) (\<lambda>name.
       (let kind = string_or_blank (gomap_get pref ''kind'') in
       go_write [qw_S ''\<newline>'',
         (if kind = ''VirtualMachinePreference''
          then go_write [qw_S ''\<newline>k8s:VirtualMachinePreference.instancetype.kubevirt.io:{"namespace":'', qw_Q env ns,
                 qw_S '',"name":'', qw_Q env name, qw_S ''}\<newline>'']
          else go_write [qw_S ''\<newline>k8s:VirtualMachineClusterPreference.instancetype.kubevirt.io:{"name":'',
                 qw_Q env name, qw_S ''}\<newline>'']),
         qw_S ''\<newline>'']))))))))]\<close>

end
