(* ===== verification/RulesSignals.thy ===== *)
theory RulesSignals
  imports QuickObjects
begin

text \<open>
  The rules that start at alerts, incidents, logs, metrics, network flows and traces, one definition for
  each stream function of \<open>pkg/rules/quickrules\<close>.
\<close>

section \<open>alert.qtpl.go\<close>

definition StreamAlertToDeployment :: "quick_env \<Rightarrow> go_object \<Rightarrow> string go" where
  \<open>StreamAlertToDeployment env start =
     go_write [qw_S ''\<newline>'',
       go_bind (as_alert start) (\<lambda>x1.
       (let l = ao_Labels x1 in
       go_write [qw_S ''\<newline>k8s:Deployment.apps:{"namespace":'',
         go_bind (Require_string (smap_get l ''namespace'')) (qw_Q env), qw_S '',"name":'',
         go_bind (Require_string (smap_get l ''deployment'')) (qw_Q env), qw_S ''}\<newline>'']))]\<close>

definition StreamAlertToPod :: "quick_env \<Rightarrow> go_object \<Rightarrow> string go" where
  \<open>StreamAlertToPod env start =
     go_write [qw_S ''\<newline>'',
       go_bind (as_alert start) (\<lambda>x1.
       (let l = ao_Labels x1 in
       (let ns = Default_string (smap_get l ''namespace'') (smap_get l ''kubernetes_namespace_name'') in
       (let name = Default_string (smap_get l ''pod'') (smap_get l ''kubernetes_pod_name'') in
       go_bind (RequireAll [VString ns, VString name]) (\<lambda>_.
       go_write [qw_S ''\<newline>k8s:Pod.v1:{"namespace":'', qw_Q env ns, qw_S '',"name":'', qw_Q env name,
         qw_S ''}\<newline>''])))))]\<close>

definition StreamAlertToPodDisruptionBudget :: "quick_env \<Rightarrow> go_object \<Rightarrow> string go" where
  \<open>StreamAlertToPodDisruptionBudget env start =
     go_write [qw_S ''\<newline>'',
       go_bind (as_alert start) (\<lambda>x1.
       (let l = ao_Labels x1 in
       go_write [qw_S ''\<newline>k8s:PodDisruptionBudget.v1.policy:{"namespace":'',
         go_bind (Require_string (smap_get l ''namespace'')) (qw_Q env), qw_S '',"name":'',
         go_bind (Require_string (smap_get l ''poddisruptionbudget'')) (qw_Q env), qw_S ''}\<newline>'']))]\<close>

definition StreamAlertToDaemonSet :: "quick_env \<Rightarrow> go_object \<Rightarrow> string go" where
  \<open>StreamAlertToDaemonSet env start =
     go_write [qw_S ''\<newline>'',
       go_bind (as_alert start) (\<lambda>x1.
       (let l = ao_Labels x1 in
       go_write [qw_S ''\<newline>k8s:DaemonSet.apps:{"namespace":'',
         go_bind (Require_string (smap_get l ''namespace'')) (qw_Q env), qw_S '',"name":'',
         go_bind (Require_string (smap_get l ''daemonset'')) (qw_Q env), qw_S ''}\<newline>'']))]\<close>

definition StreamAlertToStatefulSet :: "quick_env \<Rightarrow> go_object \<Rightarrow> string go" where
  \<open>StreamAlertToStatefulSet env start =
     go_write [qw_S ''\<newline>'',
       go_bind (as_alert start) (\<lambda>x1.
       (let l = ao_Labels x1 in
       go_write [qw_S ''\<newline>k8s:StatefulSet.apps:{"namespace":'',
         go_bind (Require_string (smap_get l ''namespace'')) (qw_Q env), qw_S '',"name":'',
         go_bind (Require_string (smap_get l ''statefulset'')) (qw_Q env), qw_S ''}\<newline>'']))]\<close>

definition StreamAlertToMetric :: "quick_env \<Rightarrow> go_object \<Rightarrow> string go" where
  \<open>StreamAlertToMetric env start =
     go_write [qw_S ''\<newline>metric:metric:'',
       go_bind (as_alert start) (\<lambda>x1. Require_string (ao_Expression x1)), qw_S ''\<newline>'']\<close>

definition StreamPodToAlert :: "quick_env \<Rightarrow> go_object \<Rightarrow> string go" where
  \<open>StreamPodToAlert env start =
     go_write [qw_S ''\<newline>'',
       go_bind (as_k8s start) (\<lambda>m1.
       (let (_, _, ns, name, _) = k8sMetadata m1 in
       go_bind (RequireAll [VString ns, VString name]) (\<lambda>_.
       go_write [qw_S ''\<newline>alert:alert:{"namespace":'', qw_Q env ns, qw_S '',"pod":'', qw_Q env name,
         qw_S ''}\<newline>''])))]\<close>

definition StreamPodToLokiAlert :: "quick_env \<Rightarrow> go_object \<Rightarrow> string go" where
  \<open>StreamPodToLokiAlert env start =
     go_write [qw_S ''\<newline>'',
       go_bind (as_k8s start) (\<lambda>m1.
       (let (_, _, ns, name, _) = k8sMetadata m1 in
       go_bind (RequireAll [VString ns, VString name]) (\<lambda>_.
       go_write [qw_S ''\<newline>alert:alert:{"namespace":'', qw_Q env ns, qw_S '',"kubernetes_pod_name":'',
         qw_Q env name, qw_S ''}\<newline>''])))]\<close>

definition StreamDeploymentToAlert :: "quick_env \<Rightarrow> go_object \<Rightarrow> string go" where
  \<open>StreamDeploymentToAlert env start =
     go_write [qw_S ''\<newline>'',
       go_bind (as_k8s start) (\<lambda>m1.
       (let (_, _, ns, name, _) = k8sMetadata m1 in
       go_bind (RequireAll [VString ns, VString name]) (\<lambda>_.
       go_write [qw_S ''\<newline>alert:alert:{"namespace":'', qw_Q env ns, qw_S '',"deployment":'', qw_Q env name,
         qw_S ''}\<newline>''])))]\<close>

definition StreamPodDisruptionBudgetToAlert :: "quick_env \<Rightarrow> go_object \<Rightarrow> string go" where
  \<open>StreamPodDisruptionBudgetToAlert env start =
     go_write [qw_S ''\<newline>'',
       go_bind (as_k8s start) (\<lambda>m1.
       (let (_, _, ns, name, _) = k8sMetadata m1 in
       go_bind (RequireAll [VString ns, VString name]) (\<lambda>_.
       go_write [qw_S ''\<newline>alert:alert:{"namespace":'', qw_Q env ns, qw_S '',"poddisruptionbudget":'',
         qw_Q env name, qw_S ''}\<newline>''])))]\<close>

definition StreamDaemonSetToAlert :: "quick_env \<Rightarrow> go_object \<Rightarrow> string go" where
  \<open>StreamDaemonSetToAlert env start =
     go_write [qw_S ''\<newline>'',
       go_bind (as_k8s start) (\<lambda>m1.
       (let (_, _, ns, name, _) = k8sMetadata m1 in
       go_bind (RequireAll [VString ns, VString name]) (\<lambda>_.
       go_write [qw_S ''\<newline>alert:alert:{"namespace":'', qw_Q env ns, qw_S '',"daemonset":'', qw_Q env name,
         qw_S ''}\<newline>''])))]\<close>

definition StreamStatefulSetToAlert :: "quick_env \<Rightarrow> go_object \<Rightarrow> string go" where
  \<open>StreamStatefulSetToAlert env start =
     go_write [qw_S ''\<newline>'',
       go_bind (as_k8s start) (\<lambda>m1.
       (let (_, _, ns, name, _) = k8sMetadata m1 in
       go_bind (RequireAll [VString ns, VString name]) (\<lambda>_.
       go_write [qw_S ''\<newline>alert:alert:{"namespace":'', qw_Q env ns, qw_S '',"statefulset":'', qw_Q env name,
         qw_S ''}\<newline>''])))]\<close>

definition StreamAlertToVM :: "quick_env \<Rightarrow> go_object \<Rightarrow> string go" where
  \<open>StreamAlertToVM env start =
     go_write [qw_S ''\<newline>'',
       go_bind (as_alert start) (\<lambda>x1.
       (let l = ao_Labels x1 in
       go_write [qw_S ''\<newline>k8s:VirtualMachine.kubevirt.io:{"namespace":'',
         go_bind (Require_string (smap_get l ''namespace'')) (qw_Q env), qw_S '',"name":'',
         go_bind (Require_string (smap_get l ''name'')) (qw_Q env), qw_S ''}\<newline>'']))]\<close>

definition StreamAlertToVMI :: "quick_env \<Rightarrow> go_object \<Rightarrow> string go" where
  \<open>StreamAlertToVMI env start =
     go_write [qw_S ''\<newline>'',
       go_bind (as_alert start) (\<lambda>x1.
       (let l = ao_Labels x1 in
       go_write [qw_S ''\<newline>k8s:VirtualMachineInstance.kubevirt.io:{"namespace":'',
         go_bind (Require_string (smap_get l ''namespace'')) (qw_Q env), qw_S '',"name":'',
         go_bind (Require_string (smap_get l ''name'')) (qw_Q env), qw_S ''}\<newline>'']))]\<close>

definition StreamAlertToVmim :: "quick_env \<Rightarrow> go_object \<Rightarrow> string go" where
  \<open>StreamAlertToVmim env start =
     go_write [qw_S ''\<newline>'',
       go_bind (as_alert start) (\<lambda>x1.
       (let l = ao_Labels x1 in
       go_write [qw_S ''\<newline>k8s:VirtualMachineInstanceMigration.kubevirt.io:{"namespace":'',
         go_bind (Require_string (smap_get l ''namespace'')) (qw_Q env), qw_S '',"name":'',
         go_bind (Require_string (smap_get l ''vmim'')) (qw_Q env), qw_S ''}\<newline>'']))]\<close>

section \<open>incident.qtpl.go\<close>

definition StreamAlertToIncident :: "quick_env \<Rightarrow> go_object \<Rightarrow> string go" where
  \<open>StreamAlertToIncident env start =
     go_write [qw_S ''\<newline>'',
       go_bind (as_alert start) (\<lambda>x1.
       (let l = ao_Labels x1 in
       go_write [qw_S ''\<newline>incident:incident:{"alertLabels":'', ToJSON (qe_marshal env) (smap_value l),
         qw_S ''}\<newline>'']))]\<close>

definition StreamIncidentToAlert :: "quick_env \<Rightarrow> go_object \<Rightarrow> string go" where
  \<open>StreamIncidentToAlert env start =
     go_write [qw_S ''\<newline>'',
       go_bind (as_incident start) (\<lambda>x1.
       (let al = io_AlertsLabels x1 in
       go_bind (RequireAll [VSlice (Some (map smap_value al))]) (\<lambda>_.
       go_write [qw_S ''\<newline>alert:alert:'', ToJSON (qe_marshal env) (VSlice (Some (map smap_value al))),
         qw_S ''\<newline>''])))]\<close>

section \<open>log.qtpl.go\<close>

definition StreamLogToPod :: "quick_env \<Rightarrow> go_object \<Rightarrow> string go" where
  \<open>StreamLogToPod env start =
     go_write [qw_S ''\<newline>'',
       go_bind (as_log start) (\<lambda>l.
       go_bind (Require_string (smap_get l ''kubernetes_namespace_name'')) (\<lambda>ns.
       go_bind (Require_string (smap_get l ''kubernetes_pod_name'')) (\<lambda>name.
       go_write [qw_S ''\<newline>k8s:Pod:{"namespace":'', qw_Q env ns, qw_S '',"name":'', qw_Q env name,
         qw_S ''}\<newline>''])))]\<close>

definition StreamPodToLogs :: "quick_env \<Rightarrow> go_object \<Rightarrow> string go" where
  \<open>StreamPodToLogs env start =
     go_write [qw_S ''\<newline>'',
       go_bind (as_k8s start) (\<lambda>m1.
       (let (_, _, ns, name, _) = k8sMetadata m1 in
       go_bind (RequireAll [VString ns, VString name]) (\<lambda>_.
       go_write [qw_S ''\<newline>log:'', qw_S (TypeForNamespace ns), qw_S '':{"namespace":'', qw_Q env ns,
         qw_S '',"name":'', qw_Q env name, qw_S ''}\<newline>''])))]\<close>

definition StreamServiceToLogs :: "quick_env \<Rightarrow> go_object \<Rightarrow> string go" where
  \<open>StreamServiceToLogs env start =
     go_write [qw_S ''\<newline>'',
       go_bind (as_k8s start) (\<lambda>m1.
       (let (obj, _, ns, _, _) = k8sMetadata m1 in
       go_bind (RequireAll [VString ns]) (\<lambda>_.
       go_bind (as_map (gomap_get obj ''spec'')) (\<lambda>x2.
       (let selector = gomap_get x2 ''selector'' in
       go_bind (RequireAll [selector]) (\<lambda>_.
       go_write [qw_S ''\<newline>log:'', qw_S (TypeForNamespace ns), qw_S '':{"namespace":'', qw_Q env ns,
         qw_S '',"labels":'', ToJSON (qe_marshal env) selector, qw_S ''}\<newline>'']))))))]\<close>

section \<open>metric.qtpl.go\<close>

definition StreamMetricToPod :: "quick_env \<Rightarrow> go_object \<Rightarrow> string go" where
  \<open>StreamMetricToPod env start =
     go_write [qw_S ''\<newline>'',
       go_bind (as_metric start) (\<lambda>m.
       (let ns = Default_string (smap_get (mo_Labels m) ''namespace'') (smap_get (mo_Labels m) ''k8s_namespace_name'') in
       (let name = Default_string (smap_get (mo_Labels m) ''pod'') (smap_get (mo_Labels m) ''k8s_pod_name'') in
       go_bind (RequireAll [VString ns, VString name]) (\<lambda>_.
       go_write [qw_S ''\<newline>k8s:Pod:{"namespace":'', qw_Q env ns, qw_S '',"name":'', qw_Q env name,
         qw_S ''}\<newline>'']))))]\<close>

definition StreamMetricToDeployment :: "quick_env \<Rightarrow> go_object \<Rightarrow> string go" where
  \<open>StreamMetricToDeployment env start =
     go_write [qw_S ''\<newline>'',
       go_bind (as_metric start) (\<lambda>m.
       (let ns = Default_string (smap_get (mo_Labels m) ''namespace'') (smap_get (mo_Labels m) ''k8s_namespace_name'') in
       (let name = Default_string (smap_get (mo_Labels m) ''deployment'') (smap_get (mo_Labels m) ''k8s_deployment_name'') in
       go_bind (RequireAll [VString ns, VString name]) (\<lambda>_.
       go_write [qw_S ''\<newline>k8s:Deployment.apps:{"namespace":'', qw_Q env ns, qw_S '',"name":'', qw_Q env name,
         qw_S ''}\<newline>'']))))]\<close>

definition StreamMetricToDaemonSet :: "quick_env \<Rightarrow> go_object \<Rightarrow> string go" where
  \<open>StreamMetricToDaemonSet env start =
     go_write [qw_S ''\<newline>'',
       go_bind (as_metric start) (\<lambda>m.
       (let ns = Default_string (smap_get (mo_Labels m) ''namespace'') (smap_get (mo_Labels m) ''k8s_namespace_name'') in
       (let name = Default_string (smap_get (mo_Labels m) ''daemonset'') (smap_get (mo_Labels m) ''k8s_daemonset_name'') in
       go_bind (RequireAll [VString ns, VString name]) (\<lambda>_.
       go_write [qw_S ''\<newline>k8s:DaemonSet.apps:{"namespace":'', qw_Q env ns, qw_S '',"name":'', qw_Q env name,
         qw_S ''}\<newline>'']))))]\<close>

definition StreamMetricToStatefulSet :: "quick_env \<Rightarrow> go_object \<Rightarrow> string go" where
  \<open>StreamMetricToStatefulSet env start =
     go_write [qw_S ''\<newline>'',
       go_bind (as_metric start) (\<lambda>m.
       (let ns = Default_string (smap_get (mo_Labels m) ''namespace'') (smap_get (mo_Labels m) ''k8s_namespace_name'') in
       (let name = Default_string (smap_get (mo_Labels m) ''statefulset'') (smap_get (mo_Labels m) ''k8s_statefulset_name'') in
       go_bind (RequireAll [VString ns, VString name]) (\<lambda>_.
       go_write [qw_S ''\<newline>k8s:StatefulSet.apps:{"namespace":'', qw_Q env ns, qw_S '',"name":'', qw_Q env name,
         qw_S ''}\<newline>'']))))]\<close>

definition StreamMetricToNode :: "quick_env \<Rightarrow> go_object \<Rightarrow> string go" where
  \<open>StreamMetricToNode env start =
     go_write [qw_S ''\<newline>'',
       go_bind (as_metric start) (\<lambda>m.
       (let name = Default_string (smap_get (mo_Labels m) ''node'') (smap_get (mo_Labels m) ''k8s_node_name'') in
       go_bind (RequireAll [VString name]) (\<lambda>_.
       go_write [qw_S ''\<newline>k8s:Node:{"name":'', qw_Q env name, qw_S ''}\<newline>''])))]\<close>

section \<open>netflow.qtpl.go\<close>

definition StreamNetflowToSrcK8s :: "quick_env \<Rightarrow> go_object \<Rightarrow> string go" where
  \<open>StreamNetflowToSrcK8s env start =
     go_write [qw_S ''\<newline>'',
       go_bind (as_netflow start) (\<lambda>f.
       go_bind (as_string (gomap_get f ''SrcK8S_Type'')) (\<lambda>x2.
       go_bind (Require_string x2) (\<lambda>typ.
       go_bind (as_string (gomap_get f ''SrcK8S_Namespace'')) (\<lambda>ns.
       go_bind (as_string (gomap_get f ''SrcK8S_Name'')) (\<lambda>name.
       go_write [qw_S ''\<newline>'', qw_S (TypeToK8s typ), qw_S '':{"namespace":'', qw_Q env ns, qw_S '',"name":'',
         qw_Q env name, qw_S ''}\<newline>''])))))]\<close>

definition StreamNetflowToSrcK8sOwner :: "quick_env \<Rightarrow> go_object \<Rightarrow> string go" where
  \<open>StreamNetflowToSrcK8sOwner env start =
     go_write [qw_S ''\<newline>'',
       go_bind (as_netflow start) (\<lambda>f.
       go_bind (as_string (gomap_get f ''SrcK8S_OwnerType'')) (\<lambda>x2.
       go_bind (Require_string x2) (\<lambda>typ.
       go_bind (as_string (gomap_get f ''SrcK8S_Namespace'')) (\<lambda>ns.
       go_bind (as_string (gomap_get f ''SrcK8S_OwnerName'')) (\<lambda>name.
       go_write [qw_S ''\<newline>'', qw_S (TypeToK8s typ), qw_S '':{"namespace":'', qw_Q env ns, qw_S '',"name":'',
         qw_Q env name, qw_S ''}\<newline>''])))))]\<close>

definition StreamNetflowToDstK8s :: "quick_env \<Rightarrow> go_object \<Rightarrow> string go" where
  \<open>StreamNetflowToDstK8s env start =
     go_write [qw_S ''\<newline>'',
       go_bind (as_netflow start) (\<lambda>f.
       go_bind (as_string (gomap_get f ''DstK8S_Type'')) (\<lambda>x2.
       go_bind (Require_string x2) (\<lambda>typ.
       go_bind (as_string (gomap_get f ''DstK8S_Namespace'')) (\<lambda>ns.
       go_bind (as_string (gomap_get f ''DstK8S_Name'')) (\<lambda>name.
       go_write [qw_S ''\<newline>'', qw_S (TypeToK8s typ), qw_S '':{"namespace":'', qw_Q env ns, qw_S '',"name":'',
         qw_Q env name, qw_S ''}\<newline>''])))))]\<close>

definition StreamNetflowToDstK8sOwner :: "quick_env \<Rightarrow> go_object \<Rightarrow> string go" where
  \<open>StreamNetflowToDstK8sOwner env start =
     go_write [qw_S ''\<newline>'',
       go_bind (as_netflow start) (\<lambda>f.
       go_bind (as_string (gomap_get f ''DstK8S_OwnerType'')) (\<lambda>x2.
       go_bind (Require_string x2) (\<lambda>typ.
       go_bind (as_string (gomap_get f ''DstK8S_Namespace'')) (\<lambda>ns.
       go_bind (as_string (gomap_get f ''DstK8S_OwnerName'')) (\<lambda>name.
       go_write [qw_S ''\<newline>'', qw_S (TypeToK8s typ), qw_S '':{"namespace":'', qw_Q env ns, qw_S '',"name":'',
         qw_Q env name, qw_S ''}\<newline>''])))))]\<close>

section \<open>trace.qtpl.go\<close>

definition StreamTraceToPod :: "quick_env \<Rightarrow> go_object \<Rightarrow> string go" where
  \<open>StreamTraceToPod env start =
     go_write [qw_S ''\<newline>'',
       go_bind (as_span start) (\<lambda>x1.
       (let a = sp_Attributes x1 in
       go_bind (as_string (gomap_get a ''k8s.namespace.name'')) (\<lambda>x2.
       go_bind (Require_string x2) (\<lambda>ns.
       go_bind (as_string (gomap_get a ''k8s.pod.name'')) (\<lambda>x4.
       go_bind (Require_string x4) (\<lambda>name.
       go_write [qw_S ''\<newline>k8s:Pod:{"namespace":'', qw_Q env ns, qw_S '',"name":'', qw_Q env name,
         qw_S ''}\<newline>'']))))))]\<close>

definition StreamPodToTrace :: "quick_env \<Rightarrow> go_object \<Rightarrow> string go" where
  \<open>StreamPodToTrace env start =
     go_write [qw_S ''\<newline>'',
       go_bind (as_k8s start) (\<lambda>m1.
       (let (_, _, ns, name, _) = k8sMetadata m1 in
       go_bind (RequireAll [VString ns, VString name]) (\<lambda>_.
       go_write [qw_S ''\<newline>trace:span:{resource.k8s.namespace.name='', qw_Q env ns,
         qw_S ''&&resource.k8s.pod.name='', qw_Q env name, qw_S ''}\<newline>''])))]\<close>

end
