(* ===== verification/QuickRules.thy ===== *)
theory QuickRules
  imports RulesK8s RulesKubevirt RulesSignals
begin

text \<open>
  \<open>pkg/rules/quickrules\<close>: the registry of the compiled rules (\<open>quickrules.go\<close>, \<open>applyfuncs.go\<close>) and the
  compiled status rules (\<open>status.go\<close>). The embedded files are pairs of a name and a text, and decoding the
  YAML of an annotation is a parameter. Logging is left out.
\<close>

section \<open>Annotations\<close>

record classSpec =
  qs_Domain :: string
  qs_Classes :: "string list"

record ruleSpec =
  rs_Name :: string
  rs_Start :: classSpec
  rs_Goal :: classSpec

text \<open>\<open>funcDecl\<close> at a position and at the first position where it matches.\<close>

definition funcDecl_here :: "string \<Rightarrow> string option" where
  "funcDecl_here s =
     (if \<not> strings_HasPrefix s ''{%'' then None
      else (let t = dropWhile regexp_space (drop 2 s)
            in if \<not> strings_HasPrefix t ''func'' then None
               else (let u = drop 4 t; v = dropWhile regexp_space u;
                         w = takeWhile word_char v; rest = dropWhile regexp_space (dropWhile word_char v)
                     in if u = v \<or> w = [] \<or> \<not> strings_HasPrefix rest ''('' then None else Some w)))"

fun funcDecl :: "string \<Rightarrow> string option" where
  "funcDecl [] = None"
| "funcDecl (c # cs) = (case funcDecl_here (c # cs) of Some n \<Rightarrow> Some n | None \<Rightarrow> funcDecl cs)"

definition parseRule :: "(string \<Rightarrow> ruleSpec result) \<Rightarrow> string list \<Rightarrow> ruleSpec option result" where
  "parseRule unmarshal buf =
     (let text = strings_Join [CHR 0x0A] buf
      in if strings_TrimSpace text = [] then Inr None
         else (case unmarshal text of
                 Inl e \<Rightarrow> Inl (ErrorWrap ''invalid rule annotation: '' e [])
               | Inr spec \<Rightarrow>
                   if rs_Name spec = [] then Inl (ErrorString ''rule annotation has no name'')
                   else if qs_Domain (rs_Start spec) = [] \<or> qs_Domain (rs_Goal spec) = []
                   then Inl (ErrorString (''rule '' @ strconv_Quote (rs_Name spec) @
                          '': annotation must specify start and goal domains''))
                   else Inr (Some spec)))"

text \<open>The state of the scan: the rules so far, the lines of the current annotation and whether the scan is
  in a function. \<open>add\<close> refuses a name it has seen.\<close>

record annotations =
  an_specs :: "ruleSpec list"
  an_buf :: "string list"
  an_inFunc :: bool

definition annotation_add :: "ruleSpec \<Rightarrow> annotations \<Rightarrow> annotations result" where
  "annotation_add spec a =
     (if rs_Name spec \<in> rs_Name ` set (an_specs a)
      then Inl (ErrorString (''duplicate rule annotation '' @ strconv_Quote (rs_Name spec)))
      else Inr (a\<lparr>an_specs := an_specs a @ [spec]\<rparr>))"

definition annotation_func ::
  "(string \<Rightarrow> ruleSpec result) \<Rightarrow> string \<Rightarrow> annotations \<Rightarrow> annotations result" where
  "annotation_func unmarshal name a =
     (case parseRule unmarshal (an_buf a) of
        Inl e \<Rightarrow> Inl e
      | Inr None \<Rightarrow>
          Inl (ErrorString (''rule '' @ strconv_Quote name @ '': no rule annotation, add YAML above its function''))
      | Inr (Some spec) \<Rightarrow>
          if rs_Name spec \<noteq> name
          then Inl (ErrorString (''rule annotation '' @ strconv_Quote (rs_Name spec) @
                 '' does not match function name '' @ strconv_Quote name))
          else annotation_add spec a)"

definition annotation_line ::
  "(string \<Rightarrow> ruleSpec result) \<Rightarrow> string \<Rightarrow> annotations \<Rightarrow> annotations result" where
  "annotation_line unmarshal line a =
     (if strings_HasPrefix (strings_TrimSpace line) ''{%''
      then (case (case funcDecl line of Some name \<Rightarrow> annotation_func unmarshal name a | None \<Rightarrow> Inr a) of
              Inl e \<Rightarrow> Inl e
            | Inr a \<Rightarrow>
                (let inFunc = (if strings_Contains line ''{% func'' then True else an_inFunc a);
                     inFunc = (if strings_Contains line ''{% endfunc'' then False else inFunc)
                 in Inr (a\<lparr>an_buf := [], an_inFunc := inFunc\<rparr>)))
      else Inr (if an_inFunc a then a else a\<lparr>an_buf := an_buf a @ [line]\<rparr>))"

fun annotation_lines ::
  "(string \<Rightarrow> ruleSpec result) \<Rightarrow> string list \<Rightarrow> annotations \<Rightarrow> annotations result" where
  "annotation_lines unmarshal [] a = Inr a"
| "annotation_lines unmarshal (l # ls) a =
     (case annotation_line unmarshal l a of Inl e \<Rightarrow> Inl e | Inr a \<Rightarrow> annotation_lines unmarshal ls a)"

definition parseRuleAnnotations :: "(string \<Rightarrow> ruleSpec result) \<Rightarrow> string \<Rightarrow> ruleSpec list result" where
  "parseRuleAnnotations unmarshal src =
     (case annotation_lines unmarshal (strings_Split (CHR 0x0A) src)
             \<lparr>an_specs = [], an_buf = [], an_inFunc = False\<rparr> of
        Inl e \<Rightarrow> Inl e
      | Inr a \<Rightarrow>
          (case parseRule unmarshal (an_buf a) of
             Inl e \<Rightarrow> Inl e
           | Inr (Some spec) \<Rightarrow>
               Inl (ErrorString (''rule '' @ strconv_Quote (rs_Name spec) @
                      '': annotation has no matching function declaration''))
           | Inr None \<Rightarrow> Inr (an_specs a)))"

section \<open>Rules\<close>

definition applyFuncs :: "(string \<times> (quick_env \<Rightarrow> go_object \<Rightarrow> string go)) list" where
  "applyFuncs =
    [(''AlertToDaemonSet'', StreamAlertToDaemonSet),
     (''AlertToDeployment'', StreamAlertToDeployment), (''AlertToIncident'', StreamAlertToIncident),
     (''AlertToMetric'', StreamAlertToMetric), (''AlertToPod'', StreamAlertToPod),
     (''AlertToPodDisruptionBudget'', StreamAlertToPodDisruptionBudget),
     (''AlertToStatefulSet'', StreamAlertToStatefulSet), (''AlertToVM'', StreamAlertToVM),
     (''AlertToVMI'', StreamAlertToVMI), (''AlertToVmim'', StreamAlertToVmim),
     (''AllToEvent'', StreamAllToEvent), (''AllToMetric'', StreamAllToMetric),
     (''ClusterInstanceToOperands'', StreamClusterInstanceToOperands),
     (''CRDToInstances'', StreamCRDToInstances), (''CSVToCRD'', StreamCSVToCRD),
     (''CSVToDeployment'', StreamCSVToDeployment), (''CSVToPartOf'', StreamCSVToPartOf),
     (''DaemonSetToAlert'', StreamDaemonSetToAlert),
     (''DataVolumeToImporterPod'', StreamDataVolumeToImporterPod),
     (''DataVolumeToPVC'', StreamDataVolumeToPVC), (''DependentToOwner'', StreamDependentToOwner),
     (''DeploymentToAlert'', StreamDeploymentToAlert),
     (''EndpointSliceToService'', StreamEndpointSliceToService),
     (''Event2ToAll'', StreamEvent2ToAll), (''EventToAll'', StreamEventToAll),
     (''HPAToTarget'', StreamHPAToTarget), (''IncidentToAlert'', StreamIncidentToAlert),
     (''IngressToService'', StreamIngressToService), (''InstallPlanToCSV'', StreamInstallPlanToCSV),
     (''InstanceToOperands'', StreamInstanceToOperands),
     (''K8sDstOwnerToNetflow'', StreamK8sDstOwnerToNetflow),
     (''K8sDstToNetflow'', StreamK8sDstToNetflow),
     (''K8sSrcOwnerToNetflow'', StreamK8sSrcOwnerToNetflow),
     (''K8sSrcToNetflow'', StreamK8sSrcToNetflow), (''LogToPod'', StreamLogToPod),
     (''MetricToDaemonSet'', StreamMetricToDaemonSet),
     (''MetricToDeployment'', StreamMetricToDeployment), (''MetricToNode'', StreamMetricToNode),
     (''MetricToPod'', StreamMetricToPod), (''MetricToStatefulSet'', StreamMetricToStatefulSet),
     (''NetflowToDstK8s'', StreamNetflowToDstK8s),
     (''NetflowToDstK8sOwner'', StreamNetflowToDstK8sOwner),
     (''NetflowToSrcK8s'', StreamNetflowToSrcK8s),
     (''NetflowToSrcK8sOwner'', StreamNetflowToSrcK8sOwner), (''NodeToVmi'', StreamNodeToVmi),
     (''OperatorToCRD'', StreamOperatorToCRD), (''OperatorToCSV'', StreamOperatorToCSV),
     (''OperatorToSubscription'', StreamOperatorToSubscription),
     (''PodDisruptionBudgetToAlert'', StreamPodDisruptionBudgetToAlert),
     (''PodToAlert'', StreamPodToAlert), (''PodToConfigMap'', StreamPodToConfigMap),
     (''PodToLogs'', StreamPodToLogs), (''PodToLokiAlert'', StreamPodToLokiAlert),
     (''PodToPVC'', StreamPodToPVC), (''PodToSecret'', StreamPodToSecret),
     (''PodToServiceAccount'', StreamPodToServiceAccount), (''PodToTrace'', StreamPodToTrace),
     (''PVCToPV'', StreamPVCToPV), (''PVCToStorageClass'', StreamPVCToStorageClass),
     (''PVToPVC'', StreamPVToPVC), (''PVToStorageClass'', StreamPVToStorageClass),
     (''SelectorToLogs'', StreamSelectorToLogs), (''SelectorToPods'', StreamSelectorToPods),
     (''ServiceToEndpointSlice'', StreamServiceToEndpointSlice),
     (''ServiceToLogs'', StreamServiceToLogs), (''ServiceToPods'', StreamServiceToPods),
     (''StatefulSetToAlert'', StreamStatefulSetToAlert),
     (''SubscriptionToCatalogSource'', StreamSubscriptionToCatalogSource),
     (''SubscriptionToCSV'', StreamSubscriptionToCSV),
     (''SubscriptionToInstallPlan'', StreamSubscriptionToInstallPlan),
     (''TraceToPod'', StreamTraceToPod), (''VmExportToPVC'', StreamVmExportToPVC),
     (''VmExportToVm'', StreamVmExportToVm), (''VmExportToVmSnapshot'', StreamVmExportToVmSnapshot),
     (''VmimToAlert'', StreamVmimToAlert), (''VmimToVmi'', StreamVmimToVmi),
     (''VmiToAlert'', StreamVmiToAlert), (''VmiToConfigMap'', StreamVmiToConfigMap),
     (''VmiToDataVolume'', StreamVmiToDataVolume), (''VmiToLogs'', StreamVmiToLogs),
     (''VmiToMetric'', StreamVmiToMetric), (''VmiToNetAttachDef'', StreamVmiToNetAttachDef),
     (''VmiToNode'', StreamVmiToNode), (''VmiToPod'', StreamVmiToPod),
     (''VmiToPVC'', StreamVmiToPVC), (''VmiToSecret'', StreamVmiToSecret),
     (''VmiToServiceAccount'', StreamVmiToServiceAccount), (''VmiToVmim'', StreamVmiToVmim),
     (''VmRestoreToVm'', StreamVmRestoreToVm),
     (''VmRestoreToVmSnapshot'', StreamVmRestoreToVmSnapshot),
     (''VmSnapshotToVm'', StreamVmSnapshotToVm), (''VmToAlert'', StreamVmToAlert),
     (''VmToConfigMap'', StreamVmToConfigMap), (''VmToDataVolume'', StreamVmToDataVolume),
     (''VmToInstancetype'', StreamVmToInstancetype), (''VmToMetric'', StreamVmToMetric),
     (''VmToNetAttachDef'', StreamVmToNetAttachDef), (''VmToPreference'', StreamVmToPreference),
     (''VmToPVC'', StreamVmToPVC), (''VmToSecret'', StreamVmToSecret),
     (''VmToServiceAccount'', StreamVmToServiceAccount), (''VmToVmi'', StreamVmToVmi),
     (''VmToVmRestore'', StreamVmToVmRestore), (''VmToVmSnapshot'', StreamVmToVmSnapshot)]"

text \<open>\<open>classes\<close>: the classes found and the names that are missing; a set of classes is listed in the order
  of insertion.\<close>

fun find_classes :: "Domains \<Rightarrow> string \<Rightarrow> string list \<Rightarrow> klass list \<Rightarrow> string list \<Rightarrow> klass list \<times> string list" where
  "find_classes d domain [] found missing = (found, missing)"
| "find_classes d domain (c # cs) found missing =
     (case Domains_domainClass d domain c of
        Inl _ \<Rightarrow> find_classes d domain cs found (missing @ [domain @ '':'' @ c])
      | Inr k \<Rightarrow> find_classes d domain cs (if k \<in> set found then found else found @ [k]) missing)"

definition classes :: "Domains \<Rightarrow> classSpec \<Rightarrow> klass list \<times> string list" where
  "classes d spec =
     (if length (qs_Classes spec) = 0
      then (case Domains_domain d (qs_Domain spec) of
              Inl _ \<Rightarrow> ([], [])
            | Inr known \<Rightarrow> (dom_Classes known, []))
      else find_classes d (qs_Domain spec) (qs_Classes spec) [] [])"

definition newRule :: "quick_env \<Rightarrow> Domains \<Rightarrow> ruleSpec \<Rightarrow> go_object quickRule option result" where
  "newRule env d spec =
     (let (start, missingStart) = classes d (rs_Start spec);
          (goal, missingGoal) = classes d (rs_Goal spec)
      in if length start = 0 \<or> length goal = 0 then Inr None
         else (case map_of applyFuncs (rs_Name spec) of
                 None \<Rightarrow> Inl (ErrorString (''no apply function registered for rule '' @ strconv_Quote (rs_Name spec)))
               | Some apply_fun \<Rightarrow> Inr (Some (NewQuickRule (rs_Name spec) start goal (apply_fun env)))))"

definition new_rules :: "quick_env \<Rightarrow> Domains \<Rightarrow> ruleSpec list \<Rightarrow> go_object quickRule list" where
  "new_rules env d specs =
     concat (map (\<lambda>spec. case newRule env d spec of Inr (Some r) \<Rightarrow> [r] | _ \<Rightarrow> []) specs)"

text \<open>\<open>Rules\<close> over the embedded files; an annotation that is wrong panics.\<close>

fun quick_Rules ::
  "(string \<Rightarrow> ruleSpec result) \<Rightarrow> quick_env \<Rightarrow> Domains \<Rightarrow> (string \<times> string) list \<Rightarrow>
     go_object quickRule list go" where
  "quick_Rules unmarshal env d [] = Returns []"
| "quick_Rules unmarshal env d ((name, qtpl) # entries) =
     (case parseRuleAnnotations unmarshal qtpl of
        Inl e \<Rightarrow> Panics (''compiled rules: file '' @ strconv_Quote name)
      | Inr specs \<Rightarrow>
          go_bind (quick_Rules unmarshal env d entries) (\<lambda>rest. Returns (new_rules env d specs @ rest)))"

section \<open>status.go\<close>

record compiledStatus =
  ct_name :: string
  ct_start :: "klass list"
  ct_apply :: "go_object \<Rightarrow> string list go"

definition compiledStatus_Apply :: "compiledStatus \<Rightarrow> go_object \<Rightarrow> string list result" where
  "compiledStatus_Apply s obj =
     (case ct_apply s obj of Panics p \<Rightarrow> Inl (ErrorString p) | Returns result \<Rightarrow> Inr result)"

definition healthStatus :: "(gomap \<Rightarrow> health option) \<Rightarrow> go_object \<Rightarrow> string list go" where
  "healthStatus analyze start =
     go_bind (as_k8s start) (\<lambda>m.
       let s = HealthStatus analyze m in Returns (if s \<noteq> [] then [s] else []))"

definition hasFinalizer :: "go_object \<Rightarrow> string list go" where
  "hasFinalizer start =
     go_bind (as_k8s start) (\<lambda>obj.
       let metadata = map_or_nil (gomap_get obj ''metadata'');
           fins = (case gomap_get metadata ''finalizers'' of VSlice xs \<Rightarrow> ptr_Deref [] xs | _ \<Rightarrow> [])
       in Returns (if length fins > 0 then [''Finalizer''] else []))"

definition eventType :: "go_object \<Rightarrow> string list go" where
  "eventType start =
     go_bind (as_k8s start) (\<lambda>obj.
       let t = string_or_blank (gomap_get obj ''type'')
       in Returns (if t \<noteq> [] \<and> t \<noteq> ''Normal'' then [t] else []))"

definition alertSeverity :: "go_object \<Rightarrow> string list go" where
  "alertSeverity start =
     go_bind (as_alert start) (\<lambda>a.
       let s = smap_get (ao_Labels a) ''severity''
       in Returns (if s \<noteq> [] \<and> s \<noteq> ''none'' then [s] else []))"

definition errorLevels :: smap where
  "errorLevels = map (\<lambda>k. (k, ''Error''))
     [''error'', ''err'', ''ERROR'', ''ERR'', ''Error'', ''critical'', ''fatal'', ''CRITICAL'', ''FATAL'']"

definition warningLevels :: smap where
  "warningLevels = map (\<lambda>k. (k, ''Warning'')) [''warning'', ''warn'', ''WARNING'', ''WARN'', ''Warning'']"

definition logSeverity :: "go_object \<Rightarrow> string list go" where
  "logSeverity start =
     go_bind (as_log start) (\<lambda>l.
       let s = smap_get l ''level'';
           s = (if s = [] then smap_get l ''severity_text'' else s);
           s = strings_TrimSpace s
       in Returns
            (case map_of errorLevels s of
               Some v \<Rightarrow> [v]
             | None \<Rightarrow> (case map_of warningLevels s of Some v \<Rightarrow> [v] | None \<Rightarrow> [])))"

definition status_specs ::
  "(gomap \<Rightarrow> health option) \<Rightarrow> (string \<times> string \<times> string list \<times> (go_object \<Rightarrow> string list go)) list" where
  "status_specs analyze =
     [(''HealthStatus'', ''k8s'', [], healthStatus analyze),
      (''HasFinalizer'', ''k8s'', [], hasFinalizer),
      (''EventType'', ''k8s'', [''Event.v1'', ''Event.v1.events.k8s.io''], eventType),
      (''AlertSeverity'', ''alert'', [], alertSeverity),
      (''LogSeverity'', ''log'', [], logSeverity)]"

definition StatusRules :: "(gomap \<Rightarrow> health option) \<Rightarrow> Domains \<Rightarrow> compiledStatus list" where
  "StatusRules analyze d =
     concat (map (\<lambda>(name, domain, cs, apply_fun).
       let (start, missing) = classes d \<lparr>qs_Domain = domain, qs_Classes = cs\<rparr>
       in if length start = 0 then [] else [\<lparr>ct_name = name, ct_start = start, ct_apply = apply_fun\<rparr>])
       (status_specs analyze))"

end
