(* ===== verification/RuleLines.thy ===== *)
theory RuleLines
  imports QuickRules
begin

text \<open>
  What the compiled rules write. A scan reads a text and checks that every line that is not empty starts
  with a prefix; its state is \<open>None\<close> behind the prefix and otherwise what is left of the prefix. The scan
  of a text in pieces is the scan of the pieces in turn, so a rule is followed write by write
  (\<open>writes\<close>), with no regard to the values it writes in quotes.
\<close>

section \<open>Scanning lines\<close>

fun scan :: "string \<Rightarrow> string option \<Rightarrow> string \<Rightarrow> string option option" where
  "scan p s [] = Some s"
| "scan p None (c # cs) = (if c = CHR 0x0A then scan p (Some p) cs else scan p None cs)"
| "scan p (Some r) (c # cs) =
     (if c = CHR 0x0A then (if r = p then scan p (Some p) cs else None)
      else (case r of
              [] \<Rightarrow> None
            | x # r \<Rightarrow> if c = x then scan p (if r = [] then None else Some r) cs else None))"

lemma scan_append: "scan p s a = Some s' \<Longrightarrow> scan p s (a @ b) = scan p s' b"
proof (induction p s a rule: scan.induct)
  case (3 p r c cs)
  then show ?case by (cases r) (auto split: if_splits)
qed (auto split: if_splits)

lemma scan_plain: "CHR 0x0A \<notin> set t \<Longrightarrow> scan p None t = Some None"
  by (induction t) auto

definition writes :: "string \<Rightarrow> string option \<Rightarrow> string go \<Rightarrow> string option \<Rightarrow> bool" where
  "writes p s m s' \<longleftrightarrow> (\<forall>t. m = Returns t \<longrightarrow> scan p s t = Some s')"

text \<open>What a rule writes in quotes or as JSON has no line break.\<close>

definition quotes_plain :: "quick_env \<Rightarrow> bool" where
  "quotes_plain env \<longleftrightarrow> (\<forall>s. CHR 0x0A \<notin> set (qe_quote env s)) \<and>
     (\<forall>v s. qe_marshal env v = Inr s \<longrightarrow> CHR 0x0A \<notin> set s)"

lemma writes_quote: "quotes_plain env \<Longrightarrow> writes p None (Returns (qe_quote env x)) None"
  by (simp add: writes_def scan_plain quotes_plain_def)

lemma writes_json: "quotes_plain env \<Longrightarrow> writes p None (ToJSON (qe_marshal env) v) None"
  by (auto simp: writes_def ToJSON_def scan_plain quotes_plain_def split: sum.splits)

lemma writes_TypeForNamespace: "writes p None (Returns (TypeForNamespace x)) None"
  by (simp add: writes_def TypeForNamespace_def scan_plain)

lemma writes_Returns: "scan p s t = Some s' \<Longrightarrow> writes p s (Returns t) s'"
  by (simp add: writes_def)

lemma writes_bind: "(\<And>x. writes p s (f x) s') \<Longrightarrow> writes p s (go_bind m f) s'"
  by (auto simp: writes_def go_bind_Returns_iff)

lemma writes_Nil: "writes p s (go_write []) s"
  by (simp add: writes_def)

lemma writes_Cons: "writes p s m s1 \<Longrightarrow> writes p s1 (go_write ms) s' \<Longrightarrow> writes p s (go_write (m # ms)) s'"
  by (auto simp: writes_def go_bind_Returns_iff scan_append)

lemma writes_Fail: "writes p s (Fail m) s"
  by (simp add: writes_def Fail_def)

lemma writes_if: "writes p s a s' \<Longrightarrow> writes p s b s' \<Longrightarrow> writes p s (if c then a else b) s'"
  by simp

lemma writes_option:
  "writes p s a s' \<Longrightarrow> (\<And>x. writes p s (b x) s') \<Longrightarrow> writes p s (case v of None \<Rightarrow> a | Some x \<Rightarrow> b x) s'"
  by (cases v) auto

lemma writes_prod: "(\<And>x y. writes p s (f x y) s') \<Longrightarrow> writes p s (case v of (x, y) \<Rightarrow> f x y) s'"
  by (cases v) auto

lemma writes_let: "(\<And>x. writes p s (f x) s') \<Longrightarrow> writes p s (let x = v in f x) s'"
  by simp

lemma writes_each:
  assumes "\<And>x. writes p s (f x) s"
  shows "writes p s (go_each f xs) s"
proof (induction xs)
  case (Cons x xs)
  then show ?case using writes_Cons [OF assms] by (simp add: go_each_def)
qed (simp add: go_each_def writes_Returns)

lemmas writes_rules = writes_quote writes_json writes_TypeForNamespace writes_bind writes_Nil writes_Cons
  writes_Fail writes_if writes_option writes_let writes_prod writes_each writes_Returns

section \<open>The lines of a text\<close>

definition starts_with :: "string \<Rightarrow> string \<Rightarrow> bool" where
  "starts_with p l \<longleftrightarrow> (\<exists>r. l = p @ r)"

lemma strings_Split_line:
  "c \<notin> set u \<Longrightarrow> strings_Split c (u @ c # t) = u # strings_Split c t"
  by (induction u) auto

lemma scan_lines:
  assumes "scan p s t = Some (Some p)" and "p \<noteq> []" and "CHR 0x0A \<notin> set u"
    and "case s of None \<Rightarrow> starts_with p u | Some r \<Rightarrow> r \<noteq> [] \<and> u @ r = p"
  shows "\<forall>l \<in> set (strings_Split (CHR 0x0A) (u @ t)). l = [] \<or> starts_with p l"
  using assms
proof (induction p s t arbitrary: u rule: scan.induct)
  case (1 p s)
  then show ?case by simp
next
  case (2 p c cs)
  show ?case
  proof (cases "c = CHR 0x0A")
    case True
    with 2 show ?thesis by (auto simp: strings_Split_line)
  next
    case False
    have "starts_with p (u @ [c])" using 2(6) by (auto simp: starts_with_def)
    with 2(2) [OF False, of "u @ [c]"] 2(3-5) False show ?thesis by simp
  qed
next
  case (3 p r c cs)
  show ?case
  proof (cases "c = CHR 0x0A")
    case True
    with 3 have "r = p" "u = []" by (auto split: if_splits)
    with 3 True show ?thesis by auto
  next
    case False
    with 3(3) obtain x r' where r: "r = x # r'" "c = x" by (cases r) (auto split: if_splits)
    let ?s = "if r' = [] then None else Some r'"
    have "scan p ?s cs = Some (Some p)" using 3(3) False r by simp
    moreover have "case ?s of None \<Rightarrow> starts_with p (u @ [c]) | Some r \<Rightarrow> r \<noteq> [] \<and> (u @ [c]) @ r = p"
      using 3(6) r by (auto simp: starts_with_def)
    ultimately show ?thesis using 3(2) [OF False r, of "u @ [c]"] 3(4,5) False by simp
  qed
qed

lemma TrimSpace_prefix:
  assumes "p \<noteq> []" and "\<not> unicode_space (hd p)" and "\<not> unicode_space (last p)"
  shows "starts_with p (strings_TrimSpace (p @ r))"
proof -
  have "dropWhile unicode_space (p @ r) = p @ r" using assms(1,2) by (cases p) auto
  moreover have "dropWhile unicode_space (rev p) = rev p"
    using assms(1,3) by (cases "rev p") (auto simp: last_rev [symmetric] hd_rev)
  then have "\<exists>x. dropWhile unicode_space (rev r @ rev p) = x @ rev p"
    using append_Nil [of "rev p"] by (auto simp: dropWhile_append simp del: append_Nil)
  ultimately show ?thesis by (force simp: strings_TrimSpace_def starts_with_def)
qed

lemma text_lines_prefix:
  assumes "scan p (Some p) t = Some (Some p)" and "p \<noteq> []" and "\<not> unicode_space (hd p)"
    and "\<not> unicode_space (last p)" and "l \<in> set (text_lines t)"
  shows "starts_with p l"
proof -
  from assms(5) obtain k where k: "k \<in> set (strings_Split (CHR 0x0A) t)" "l = strings_TrimSpace k" "l \<noteq> []"
    by (auto simp: text_lines_def)
  then have "starts_with p k"
    using scan_lines [OF assms(1,2), of "[]"] assms(2) by (auto simp: strings_TrimSpace_def)
  then show ?thesis using TrimSpace_prefix [OF assms(2-4)] k(2) by (auto simp: starts_with_def)
qed

section \<open>The goal of a rule\<close>

text \<open>
  What the queries of each rule of \<open>applyFuncs\<close> start with: the goal class of its annotation, when the
  annotation names one class and the rule writes that class, else the goal domain. \<open>None\<close> is for the rules
  that write a string of the start object without quotes.
\<close>

definition rule_goals :: "(string \<times> string option) list" where
  "rule_goals =
    [(''AlertToDaemonSet'', Some ''k8s:DaemonSet.apps:''),
     (''AlertToDeployment'', Some ''k8s:Deployment.apps:''),
     (''AlertToIncident'', Some ''incident:incident:''), (''AlertToMetric'', None),
     (''AlertToPod'', Some ''k8s:Pod.v1:''),
     (''AlertToPodDisruptionBudget'', Some ''k8s:PodDisruptionBudget.v1.policy:''),
     (''AlertToStatefulSet'', Some ''k8s:StatefulSet.apps:''),
     (''AlertToVM'', Some ''k8s:VirtualMachine.kubevirt.io:''),
     (''AlertToVMI'', Some ''k8s:VirtualMachineInstance.kubevirt.io:''),
     (''AlertToVmim'', Some ''k8s:VirtualMachineInstanceMigration.kubevirt.io:''),
     (''AllToEvent'', Some ''k8s:Event:''), (''AllToMetric'', None),
     (''ClusterInstanceToOperands'', Some ''k8s:''), (''CRDToInstances'', None),
     (''CSVToCRD'', Some ''k8s:CustomResourceDefinition.apiextensions.k8s.io:''),
     (''CSVToDeployment'', Some ''k8s:Deployment.apps:''), (''CSVToPartOf'', Some ''k8s:''),
     (''DaemonSetToAlert'', Some ''alert:alert:''), (''DataVolumeToImporterPod'', Some ''k8s:Pod:''),
     (''DataVolumeToPVC'', Some ''k8s:PersistentVolumeClaim:''), (''DependentToOwner'', None),
     (''DeploymentToAlert'', Some ''alert:alert:''), (''EndpointSliceToService'', Some ''k8s:Service:''),
     (''Event2ToAll'', None), (''EventToAll'', None), (''HPAToTarget'', None),
     (''IncidentToAlert'', Some ''alert:alert:''), (''IngressToService'', Some ''k8s:Service:''),
     (''InstallPlanToCSV'', Some ''k8s:ClusterServiceVersion.v1alpha1.operators.coreos.com:''),
     (''InstanceToOperands'', Some ''k8s:''), (''K8sDstOwnerToNetflow'', Some ''netflow:network:''),
     (''K8sDstToNetflow'', Some ''netflow:network:''),
     (''K8sSrcOwnerToNetflow'', Some ''netflow:network:''),
     (''K8sSrcToNetflow'', Some ''netflow:network:''), (''LogToPod'', Some ''k8s:Pod:''),
     (''MetricToDaemonSet'', Some ''k8s:DaemonSet.apps:''),
     (''MetricToDeployment'', Some ''k8s:Deployment.apps:''), (''MetricToNode'', Some ''k8s:Node:''),
     (''MetricToPod'', Some ''k8s:Pod:''), (''MetricToStatefulSet'', Some ''k8s:StatefulSet.apps:''),
     (''NetflowToDstK8s'', None), (''NetflowToDstK8sOwner'', None), (''NetflowToSrcK8s'', None),
     (''NetflowToSrcK8sOwner'', None), (''NodeToVmi'', Some ''k8s:VirtualMachineInstance.kubevirt.io:''),
     (''OperatorToCRD'', Some ''k8s:CustomResourceDefinition.apiextensions.k8s.io:''),
     (''OperatorToCSV'', Some ''k8s:ClusterServiceVersion.v1alpha1.operators.coreos.com:''),
     (''OperatorToSubscription'', Some ''k8s:Subscription.v1alpha1.operators.coreos.com:''),
     (''PodDisruptionBudgetToAlert'', Some ''alert:alert:''), (''PodToAlert'', Some ''alert:alert:''),
     (''PodToConfigMap'', Some ''k8s:ConfigMap:''), (''PodToLogs'', Some ''log:''),
     (''PodToLokiAlert'', Some ''alert:alert:''), (''PodToPVC'', Some ''k8s:PersistentVolumeClaim:''),
     (''PodToSecret'', Some ''k8s:Secret:''), (''PodToServiceAccount'', Some ''k8s:ServiceAccount:''),
     (''PodToTrace'', Some ''trace:span:''), (''PVCToPV'', Some ''k8s:PersistentVolume:''),
     (''PVCToStorageClass'', Some ''k8s:StorageClass.storage.k8s.io:''),
     (''PVToPVC'', Some ''k8s:PersistentVolumeClaim:''),
     (''PVToStorageClass'', Some ''k8s:StorageClass.storage.k8s.io:''),
     (''SelectorToLogs'', Some ''log:''), (''SelectorToPods'', Some ''k8s:Pod:''),
     (''ServiceToEndpointSlice'', Some ''k8s:EndpointSlice.discovery.k8s.io:''),
     (''ServiceToLogs'', Some ''log:''), (''ServiceToPods'', Some ''k8s:Pod:''),
     (''StatefulSetToAlert'', Some ''alert:alert:''),
     (''SubscriptionToCatalogSource'', Some ''k8s:CatalogSource.v1alpha1.operators.coreos.com:''),
     (''SubscriptionToCSV'', Some ''k8s:ClusterServiceVersion.v1alpha1.operators.coreos.com:''),
     (''SubscriptionToInstallPlan'', Some ''k8s:InstallPlan.v1alpha1.operators.coreos.com:''),
     (''TraceToPod'', Some ''k8s:Pod:''), (''VmExportToPVC'', Some ''k8s:PersistentVolumeClaim:''),
     (''VmExportToVm'', Some ''k8s:VirtualMachine.kubevirt.io:''),
     (''VmExportToVmSnapshot'', Some ''k8s:VirtualMachineSnapshot.snapshot.kubevirt.io:''),
     (''VmimToAlert'', Some ''alert:alert:''),
     (''VmimToVmi'', Some ''k8s:VirtualMachineInstance.kubevirt.io:''),
     (''VmiToAlert'', Some ''alert:alert:''), (''VmiToConfigMap'', Some ''k8s:ConfigMap:''),
     (''VmiToDataVolume'', Some ''k8s:DataVolume.cdi.kubevirt.io:''), (''VmiToLogs'', Some ''log:''),
     (''VmiToMetric'', Some ''metric:metric:''),
     (''VmiToNetAttachDef'', Some ''k8s:NetworkAttachmentDefinition.k8s.cni.cncf.io:''),
     (''VmiToNode'', Some ''k8s:Node:''), (''VmiToPod'', Some ''k8s:Pod:''),
     (''VmiToPVC'', Some ''k8s:PersistentVolumeClaim:''), (''VmiToSecret'', Some ''k8s:Secret:''),
     (''VmiToServiceAccount'', Some ''k8s:ServiceAccount:''),
     (''VmiToVmim'', Some ''k8s:VirtualMachineInstanceMigration.kubevirt.io:''),
     (''VmRestoreToVm'', Some ''k8s:VirtualMachine.kubevirt.io:''),
     (''VmRestoreToVmSnapshot'', Some ''k8s:VirtualMachineSnapshot.snapshot.kubevirt.io:''),
     (''VmSnapshotToVm'', Some ''k8s:VirtualMachine.kubevirt.io:''),
     (''VmToAlert'', Some ''alert:alert:''), (''VmToConfigMap'', Some ''k8s:ConfigMap:''),
     (''VmToDataVolume'', Some ''k8s:DataVolume.cdi.kubevirt.io:''),
     (''VmToInstancetype'', Some ''k8s:''), (''VmToMetric'', Some ''metric:metric:''),
     (''VmToNetAttachDef'', Some ''k8s:NetworkAttachmentDefinition.k8s.cni.cncf.io:''),
     (''VmToPreference'', Some ''k8s:''), (''VmToPVC'', Some ''k8s:PersistentVolumeClaim:''),
     (''VmToSecret'', Some ''k8s:Secret:''), (''VmToServiceAccount'', Some ''k8s:ServiceAccount:''),
     (''VmToVmi'', Some ''k8s:VirtualMachineInstance.kubevirt.io:''),
     (''VmToVmRestore'', Some ''k8s:VirtualMachineRestore.snapshot.kubevirt.io:''),
     (''VmToVmSnapshot'', Some ''k8s:VirtualMachineSnapshot.snapshot.kubevirt.io:'')]"

definition keeps_goal ::
  "quick_env \<Rightarrow> go_object \<Rightarrow> string \<times> (quick_env \<Rightarrow> go_object \<Rightarrow> string go) \<Rightarrow> string \<times> string option \<Rightarrow> bool"
where
  "keeps_goal env start nf np \<longleftrightarrow>
     fst nf = fst np \<and>
     (case snd np of None \<Rightarrow> True | Some p \<Rightarrow> writes p (Some p) (snd nf env start) (Some p))"

lemma list_all2_member: "list_all2 P xs ys \<Longrightarrow> x \<in> set xs \<Longrightarrow> \<exists>y \<in> set ys. P x y"
  by (induction rule: list_all2_induct) auto

lemma rule_goals_ok:
  "list_all (\<lambda>(n, p). case p of None \<Rightarrow> True
     | Some p \<Rightarrow> p \<noteq> [] \<and> \<not> unicode_space (hd p) \<and> \<not> unicode_space (last p)) rule_goals"
  "distinct (map fst rule_goals)"
  by code_simp+

lemmas k8s_rule_defs =
  StreamAllToEvent_def StreamSelectorToPods_def StreamSelectorToLogs_def StreamK8sSrcToNetflow_def
  StreamK8sSrcOwnerToNetflow_def StreamK8sDstToNetflow_def StreamK8sDstOwnerToNetflow_def
  StreamServiceToPods_def StreamPodToPVC_def StreamPodToConfigMap_def StreamPodToSecret_def
  StreamPodToServiceAccount_def StreamServiceToEndpointSlice_def StreamEndpointSliceToService_def
  StreamPVCToPV_def StreamPVToPVC_def StreamPVToStorageClass_def StreamPVCToStorageClass_def
  StreamSubscriptionToCSV_def StreamCSVToCRD_def StreamCSVToDeployment_def
  StreamSubscriptionToInstallPlan_def StreamInstallPlanToCSV_def
  StreamSubscriptionToCatalogSource_def StreamOperatorToCRD_def StreamOperatorToCSV_def
  StreamOperatorToSubscription_def StreamIngressToService_def StreamCSVToPartOf_def
  StreamInstanceToOperands_def StreamClusterInstanceToOperands_def

lemmas kubevirt_rule_defs =
  StreamVmToVmi_def StreamVmiToPod_def StreamVmiToNode_def StreamVmToPVC_def StreamVmToAlert_def
  StreamVmiToAlert_def StreamVmimToAlert_def StreamVmToMetric_def StreamVmiToMetric_def
  StreamVmiToLogs_def StreamVmimToVmi_def StreamVmiToVmim_def StreamDataVolumeToPVC_def
  StreamVmToDataVolume_def StreamVmiToPVC_def StreamVmiToDataVolume_def StreamVmSnapshotToVm_def
  StreamVmToVmSnapshot_def StreamVmRestoreToVm_def StreamVmToVmRestore_def
  StreamVmRestoreToVmSnapshot_def StreamVmExportToVm_def StreamVmExportToVmSnapshot_def
  StreamVmExportToPVC_def StreamNodeToVmi_def StreamDataVolumeToImporterPod_def
  StreamVmToNetAttachDef_def StreamVmiToNetAttachDef_def StreamVmToSecret_def StreamVmiToSecret_def
  StreamVmToConfigMap_def StreamVmiToConfigMap_def StreamVmToServiceAccount_def
  StreamVmiToServiceAccount_def StreamVmToInstancetype_def StreamVmToPreference_def

lemmas signal_rule_defs =
  StreamAlertToDeployment_def StreamAlertToPod_def StreamAlertToPodDisruptionBudget_def
  StreamAlertToDaemonSet_def StreamAlertToStatefulSet_def StreamPodToAlert_def
  StreamPodToLokiAlert_def StreamDeploymentToAlert_def StreamPodDisruptionBudgetToAlert_def
  StreamDaemonSetToAlert_def StreamStatefulSetToAlert_def StreamAlertToVM_def StreamAlertToVMI_def
  StreamAlertToVmim_def StreamAlertToIncident_def StreamIncidentToAlert_def StreamLogToPod_def
  StreamPodToLogs_def StreamServiceToLogs_def StreamMetricToPod_def StreamMetricToDeployment_def
  StreamMetricToDaemonSet_def StreamMetricToStatefulSet_def StreamMetricToNode_def
  StreamTraceToPod_def StreamPodToTrace_def

lemma k8s_rules_write:
  assumes "quotes_plain env"
  shows
    "writes ''k8s:Event:'' (Some ''k8s:Event:'') (StreamAllToEvent env start) (Some ''k8s:Event:'')"
    "writes ''k8s:Pod:'' (Some ''k8s:Pod:'') (StreamSelectorToPods env start) (Some ''k8s:Pod:'')"
    "writes ''log:'' (Some ''log:'') (StreamSelectorToLogs env start) (Some ''log:'')"
    "writes ''netflow:network:'' (Some ''netflow:network:'') (StreamK8sSrcToNetflow env start) (Some ''netflow:network:'')"
    "writes ''netflow:network:'' (Some ''netflow:network:'') (StreamK8sSrcOwnerToNetflow env start) (Some ''netflow:network:'')"
    "writes ''netflow:network:'' (Some ''netflow:network:'') (StreamK8sDstToNetflow env start) (Some ''netflow:network:'')"
    "writes ''netflow:network:'' (Some ''netflow:network:'') (StreamK8sDstOwnerToNetflow env start) (Some ''netflow:network:'')"
    "writes ''k8s:Pod:'' (Some ''k8s:Pod:'') (StreamServiceToPods env start) (Some ''k8s:Pod:'')"
    "writes ''k8s:PersistentVolumeClaim:'' (Some ''k8s:PersistentVolumeClaim:'') (StreamPodToPVC env start) (Some ''k8s:PersistentVolumeClaim:'')"
    "writes ''k8s:ConfigMap:'' (Some ''k8s:ConfigMap:'') (StreamPodToConfigMap env start) (Some ''k8s:ConfigMap:'')"
    "writes ''k8s:Secret:'' (Some ''k8s:Secret:'') (StreamPodToSecret env start) (Some ''k8s:Secret:'')"
    "writes ''k8s:ServiceAccount:'' (Some ''k8s:ServiceAccount:'') (StreamPodToServiceAccount env start) (Some ''k8s:ServiceAccount:'')"
    "writes ''k8s:EndpointSlice.discovery.k8s.io:'' (Some ''k8s:EndpointSlice.discovery.k8s.io:'') (StreamServiceToEndpointSlice env start) (Some ''k8s:EndpointSlice.discovery.k8s.io:'')"
    "writes ''k8s:Service:'' (Some ''k8s:Service:'') (StreamEndpointSliceToService env start) (Some ''k8s:Service:'')"
    "writes ''k8s:PersistentVolume:'' (Some ''k8s:PersistentVolume:'') (StreamPVCToPV env start) (Some ''k8s:PersistentVolume:'')"
    "writes ''k8s:PersistentVolumeClaim:'' (Some ''k8s:PersistentVolumeClaim:'') (StreamPVToPVC env start) (Some ''k8s:PersistentVolumeClaim:'')"
    "writes ''k8s:StorageClass.storage.k8s.io:'' (Some ''k8s:StorageClass.storage.k8s.io:'') (StreamPVToStorageClass env start) (Some ''k8s:StorageClass.storage.k8s.io:'')"
    "writes ''k8s:StorageClass.storage.k8s.io:'' (Some ''k8s:StorageClass.storage.k8s.io:'') (StreamPVCToStorageClass env start) (Some ''k8s:StorageClass.storage.k8s.io:'')"
    "writes ''k8s:ClusterServiceVersion.v1alpha1.operators.coreos.com:'' (Some ''k8s:ClusterServiceVersion.v1alpha1.operators.coreos.com:'') (StreamSubscriptionToCSV env start) (Some ''k8s:ClusterServiceVersion.v1alpha1.operators.coreos.com:'')"
    "writes ''k8s:CustomResourceDefinition.apiextensions.k8s.io:'' (Some ''k8s:CustomResourceDefinition.apiextensions.k8s.io:'') (StreamCSVToCRD env start) (Some ''k8s:CustomResourceDefinition.apiextensions.k8s.io:'')"
    "writes ''k8s:Deployment.apps:'' (Some ''k8s:Deployment.apps:'') (StreamCSVToDeployment env start) (Some ''k8s:Deployment.apps:'')"
    "writes ''k8s:InstallPlan.v1alpha1.operators.coreos.com:'' (Some ''k8s:InstallPlan.v1alpha1.operators.coreos.com:'') (StreamSubscriptionToInstallPlan env start) (Some ''k8s:InstallPlan.v1alpha1.operators.coreos.com:'')"
    "writes ''k8s:ClusterServiceVersion.v1alpha1.operators.coreos.com:'' (Some ''k8s:ClusterServiceVersion.v1alpha1.operators.coreos.com:'') (StreamInstallPlanToCSV env start) (Some ''k8s:ClusterServiceVersion.v1alpha1.operators.coreos.com:'')"
    "writes ''k8s:CatalogSource.v1alpha1.operators.coreos.com:'' (Some ''k8s:CatalogSource.v1alpha1.operators.coreos.com:'') (StreamSubscriptionToCatalogSource env start) (Some ''k8s:CatalogSource.v1alpha1.operators.coreos.com:'')"
    "writes ''k8s:CustomResourceDefinition.apiextensions.k8s.io:'' (Some ''k8s:CustomResourceDefinition.apiextensions.k8s.io:'') (StreamOperatorToCRD env start) (Some ''k8s:CustomResourceDefinition.apiextensions.k8s.io:'')"
    "writes ''k8s:ClusterServiceVersion.v1alpha1.operators.coreos.com:'' (Some ''k8s:ClusterServiceVersion.v1alpha1.operators.coreos.com:'') (StreamOperatorToCSV env start) (Some ''k8s:ClusterServiceVersion.v1alpha1.operators.coreos.com:'')"
    "writes ''k8s:Subscription.v1alpha1.operators.coreos.com:'' (Some ''k8s:Subscription.v1alpha1.operators.coreos.com:'') (StreamOperatorToSubscription env start) (Some ''k8s:Subscription.v1alpha1.operators.coreos.com:'')"
    "writes ''k8s:Service:'' (Some ''k8s:Service:'') (StreamIngressToService env start) (Some ''k8s:Service:'')"
    "writes ''k8s:'' (Some ''k8s:'') (StreamCSVToPartOf env start) (Some ''k8s:'')"
    "writes ''k8s:'' (Some ''k8s:'') (StreamInstanceToOperands env start) (Some ''k8s:'')"
    "writes ''k8s:'' (Some ''k8s:'') (StreamClusterInstanceToOperands env start) (Some ''k8s:'')"
  unfolding k8s_rule_defs
  by (((rule writes_rules assms | simp)+)[1])+

lemma kubevirt_rules_write:
  assumes "quotes_plain env"
  shows
    "writes ''k8s:VirtualMachineInstance.kubevirt.io:'' (Some ''k8s:VirtualMachineInstance.kubevirt.io:'') (StreamVmToVmi env start) (Some ''k8s:VirtualMachineInstance.kubevirt.io:'')"
    "writes ''k8s:Pod:'' (Some ''k8s:Pod:'') (StreamVmiToPod env start) (Some ''k8s:Pod:'')"
    "writes ''k8s:Node:'' (Some ''k8s:Node:'') (StreamVmiToNode env start) (Some ''k8s:Node:'')"
    "writes ''k8s:PersistentVolumeClaim:'' (Some ''k8s:PersistentVolumeClaim:'') (StreamVmToPVC env start) (Some ''k8s:PersistentVolumeClaim:'')"
    "writes ''alert:alert:'' (Some ''alert:alert:'') (StreamVmToAlert env start) (Some ''alert:alert:'')"
    "writes ''alert:alert:'' (Some ''alert:alert:'') (StreamVmiToAlert env start) (Some ''alert:alert:'')"
    "writes ''alert:alert:'' (Some ''alert:alert:'') (StreamVmimToAlert env start) (Some ''alert:alert:'')"
    "writes ''metric:metric:'' (Some ''metric:metric:'') (StreamVmToMetric env start) (Some ''metric:metric:'')"
    "writes ''metric:metric:'' (Some ''metric:metric:'') (StreamVmiToMetric env start) (Some ''metric:metric:'')"
    "writes ''log:'' (Some ''log:'') (StreamVmiToLogs env start) (Some ''log:'')"
    "writes ''k8s:VirtualMachineInstance.kubevirt.io:'' (Some ''k8s:VirtualMachineInstance.kubevirt.io:'') (StreamVmimToVmi env start) (Some ''k8s:VirtualMachineInstance.kubevirt.io:'')"
    "writes ''k8s:VirtualMachineInstanceMigration.kubevirt.io:'' (Some ''k8s:VirtualMachineInstanceMigration.kubevirt.io:'') (StreamVmiToVmim env start) (Some ''k8s:VirtualMachineInstanceMigration.kubevirt.io:'')"
    "writes ''k8s:PersistentVolumeClaim:'' (Some ''k8s:PersistentVolumeClaim:'') (StreamDataVolumeToPVC env start) (Some ''k8s:PersistentVolumeClaim:'')"
    "writes ''k8s:DataVolume.cdi.kubevirt.io:'' (Some ''k8s:DataVolume.cdi.kubevirt.io:'') (StreamVmToDataVolume env start) (Some ''k8s:DataVolume.cdi.kubevirt.io:'')"
    "writes ''k8s:PersistentVolumeClaim:'' (Some ''k8s:PersistentVolumeClaim:'') (StreamVmiToPVC env start) (Some ''k8s:PersistentVolumeClaim:'')"
    "writes ''k8s:DataVolume.cdi.kubevirt.io:'' (Some ''k8s:DataVolume.cdi.kubevirt.io:'') (StreamVmiToDataVolume env start) (Some ''k8s:DataVolume.cdi.kubevirt.io:'')"
    "writes ''k8s:VirtualMachine.kubevirt.io:'' (Some ''k8s:VirtualMachine.kubevirt.io:'') (StreamVmSnapshotToVm env start) (Some ''k8s:VirtualMachine.kubevirt.io:'')"
    "writes ''k8s:VirtualMachineSnapshot.snapshot.kubevirt.io:'' (Some ''k8s:VirtualMachineSnapshot.snapshot.kubevirt.io:'') (StreamVmToVmSnapshot env start) (Some ''k8s:VirtualMachineSnapshot.snapshot.kubevirt.io:'')"
    "writes ''k8s:VirtualMachine.kubevirt.io:'' (Some ''k8s:VirtualMachine.kubevirt.io:'') (StreamVmRestoreToVm env start) (Some ''k8s:VirtualMachine.kubevirt.io:'')"
    "writes ''k8s:VirtualMachineRestore.snapshot.kubevirt.io:'' (Some ''k8s:VirtualMachineRestore.snapshot.kubevirt.io:'') (StreamVmToVmRestore env start) (Some ''k8s:VirtualMachineRestore.snapshot.kubevirt.io:'')"
    "writes ''k8s:VirtualMachineSnapshot.snapshot.kubevirt.io:'' (Some ''k8s:VirtualMachineSnapshot.snapshot.kubevirt.io:'') (StreamVmRestoreToVmSnapshot env start) (Some ''k8s:VirtualMachineSnapshot.snapshot.kubevirt.io:'')"
    "writes ''k8s:VirtualMachine.kubevirt.io:'' (Some ''k8s:VirtualMachine.kubevirt.io:'') (StreamVmExportToVm env start) (Some ''k8s:VirtualMachine.kubevirt.io:'')"
    "writes ''k8s:VirtualMachineSnapshot.snapshot.kubevirt.io:'' (Some ''k8s:VirtualMachineSnapshot.snapshot.kubevirt.io:'') (StreamVmExportToVmSnapshot env start) (Some ''k8s:VirtualMachineSnapshot.snapshot.kubevirt.io:'')"
    "writes ''k8s:PersistentVolumeClaim:'' (Some ''k8s:PersistentVolumeClaim:'') (StreamVmExportToPVC env start) (Some ''k8s:PersistentVolumeClaim:'')"
    "writes ''k8s:VirtualMachineInstance.kubevirt.io:'' (Some ''k8s:VirtualMachineInstance.kubevirt.io:'') (StreamNodeToVmi env start) (Some ''k8s:VirtualMachineInstance.kubevirt.io:'')"
    "writes ''k8s:Pod:'' (Some ''k8s:Pod:'') (StreamDataVolumeToImporterPod env start) (Some ''k8s:Pod:'')"
    "writes ''k8s:NetworkAttachmentDefinition.k8s.cni.cncf.io:'' (Some ''k8s:NetworkAttachmentDefinition.k8s.cni.cncf.io:'') (StreamVmToNetAttachDef env start) (Some ''k8s:NetworkAttachmentDefinition.k8s.cni.cncf.io:'')"
    "writes ''k8s:NetworkAttachmentDefinition.k8s.cni.cncf.io:'' (Some ''k8s:NetworkAttachmentDefinition.k8s.cni.cncf.io:'') (StreamVmiToNetAttachDef env start) (Some ''k8s:NetworkAttachmentDefinition.k8s.cni.cncf.io:'')"
    "writes ''k8s:Secret:'' (Some ''k8s:Secret:'') (StreamVmToSecret env start) (Some ''k8s:Secret:'')"
    "writes ''k8s:Secret:'' (Some ''k8s:Secret:'') (StreamVmiToSecret env start) (Some ''k8s:Secret:'')"
    "writes ''k8s:ConfigMap:'' (Some ''k8s:ConfigMap:'') (StreamVmToConfigMap env start) (Some ''k8s:ConfigMap:'')"
    "writes ''k8s:ConfigMap:'' (Some ''k8s:ConfigMap:'') (StreamVmiToConfigMap env start) (Some ''k8s:ConfigMap:'')"
    "writes ''k8s:ServiceAccount:'' (Some ''k8s:ServiceAccount:'') (StreamVmToServiceAccount env start) (Some ''k8s:ServiceAccount:'')"
    "writes ''k8s:ServiceAccount:'' (Some ''k8s:ServiceAccount:'') (StreamVmiToServiceAccount env start) (Some ''k8s:ServiceAccount:'')"
    "writes ''k8s:'' (Some ''k8s:'') (StreamVmToInstancetype env start) (Some ''k8s:'')"
    "writes ''k8s:'' (Some ''k8s:'') (StreamVmToPreference env start) (Some ''k8s:'')"
  unfolding kubevirt_rule_defs
  by (((rule writes_rules assms | simp)+)[1])+

lemma signal_rules_write:
  assumes "quotes_plain env"
  shows
    "writes ''k8s:Deployment.apps:'' (Some ''k8s:Deployment.apps:'') (StreamAlertToDeployment env start) (Some ''k8s:Deployment.apps:'')"
    "writes ''k8s:Pod.v1:'' (Some ''k8s:Pod.v1:'') (StreamAlertToPod env start) (Some ''k8s:Pod.v1:'')"
    "writes ''k8s:PodDisruptionBudget.v1.policy:'' (Some ''k8s:PodDisruptionBudget.v1.policy:'') (StreamAlertToPodDisruptionBudget env start) (Some ''k8s:PodDisruptionBudget.v1.policy:'')"
    "writes ''k8s:DaemonSet.apps:'' (Some ''k8s:DaemonSet.apps:'') (StreamAlertToDaemonSet env start) (Some ''k8s:DaemonSet.apps:'')"
    "writes ''k8s:StatefulSet.apps:'' (Some ''k8s:StatefulSet.apps:'') (StreamAlertToStatefulSet env start) (Some ''k8s:StatefulSet.apps:'')"
    "writes ''alert:alert:'' (Some ''alert:alert:'') (StreamPodToAlert env start) (Some ''alert:alert:'')"
    "writes ''alert:alert:'' (Some ''alert:alert:'') (StreamPodToLokiAlert env start) (Some ''alert:alert:'')"
    "writes ''alert:alert:'' (Some ''alert:alert:'') (StreamDeploymentToAlert env start) (Some ''alert:alert:'')"
    "writes ''alert:alert:'' (Some ''alert:alert:'') (StreamPodDisruptionBudgetToAlert env start) (Some ''alert:alert:'')"
    "writes ''alert:alert:'' (Some ''alert:alert:'') (StreamDaemonSetToAlert env start) (Some ''alert:alert:'')"
    "writes ''alert:alert:'' (Some ''alert:alert:'') (StreamStatefulSetToAlert env start) (Some ''alert:alert:'')"
    "writes ''k8s:VirtualMachine.kubevirt.io:'' (Some ''k8s:VirtualMachine.kubevirt.io:'') (StreamAlertToVM env start) (Some ''k8s:VirtualMachine.kubevirt.io:'')"
    "writes ''k8s:VirtualMachineInstance.kubevirt.io:'' (Some ''k8s:VirtualMachineInstance.kubevirt.io:'') (StreamAlertToVMI env start) (Some ''k8s:VirtualMachineInstance.kubevirt.io:'')"
    "writes ''k8s:VirtualMachineInstanceMigration.kubevirt.io:'' (Some ''k8s:VirtualMachineInstanceMigration.kubevirt.io:'') (StreamAlertToVmim env start) (Some ''k8s:VirtualMachineInstanceMigration.kubevirt.io:'')"
    "writes ''incident:incident:'' (Some ''incident:incident:'') (StreamAlertToIncident env start) (Some ''incident:incident:'')"
    "writes ''alert:alert:'' (Some ''alert:alert:'') (StreamIncidentToAlert env start) (Some ''alert:alert:'')"
    "writes ''k8s:Pod:'' (Some ''k8s:Pod:'') (StreamLogToPod env start) (Some ''k8s:Pod:'')"
    "writes ''log:'' (Some ''log:'') (StreamPodToLogs env start) (Some ''log:'')"
    "writes ''log:'' (Some ''log:'') (StreamServiceToLogs env start) (Some ''log:'')"
    "writes ''k8s:Pod:'' (Some ''k8s:Pod:'') (StreamMetricToPod env start) (Some ''k8s:Pod:'')"
    "writes ''k8s:Deployment.apps:'' (Some ''k8s:Deployment.apps:'') (StreamMetricToDeployment env start) (Some ''k8s:Deployment.apps:'')"
    "writes ''k8s:DaemonSet.apps:'' (Some ''k8s:DaemonSet.apps:'') (StreamMetricToDaemonSet env start) (Some ''k8s:DaemonSet.apps:'')"
    "writes ''k8s:StatefulSet.apps:'' (Some ''k8s:StatefulSet.apps:'') (StreamMetricToStatefulSet env start) (Some ''k8s:StatefulSet.apps:'')"
    "writes ''k8s:Node:'' (Some ''k8s:Node:'') (StreamMetricToNode env start) (Some ''k8s:Node:'')"
    "writes ''k8s:Pod:'' (Some ''k8s:Pod:'') (StreamTraceToPod env start) (Some ''k8s:Pod:'')"
    "writes ''trace:span:'' (Some ''trace:span:'') (StreamPodToTrace env start) (Some ''trace:span:'')"
  unfolding signal_rule_defs
  by (((rule writes_rules assms | simp)+)[1])+

lemma applyFuncs_keep_goals:
  assumes "quotes_plain env"
  shows "list_all2 (keeps_goal env start) applyFuncs rule_goals"
  unfolding applyFuncs_def rule_goals_def
  by (simp add: keeps_goal_def k8s_rules_write kubevirt_rules_write signal_rules_write assms)


definition example_quick_env :: quick_env where
  "example_quick_env =
     \<lparr>qe_quote = (\<lambda>s. quoted (filter (\<lambda>c. c \<noteq> CHR 0x0A) s)), qe_marshal = (\<lambda>_. Inr ''{}''),
      qe_api = example_api, qe_k8s = newDomain example_api\<rparr>"


end
