(* ===== verification/RuleTexts.thy ===== *)
theory RuleTexts
  imports RulesK8s RulesKubevirt RulesSignals
begin

text \<open>
  The text functions of the compiled rules of \<open>pkg/rules/quickrules\<close>: for each stream function a \<open>Write\<close> function,
  which writes to a buffer, and a function that gives the text. The engine runs the stream functions; the text functions
  are what other packages can call. The buffers of quicktemplate keep what is written and a new one is empty; the
  writer only passes on what the stream writes.
\<close>

type_synonym rule_stream = "quick_env \<Rightarrow> go_object \<Rightarrow> string go"
type_synonym rule_writer = "quick_env \<Rightarrow> string \<Rightarrow> go_object \<Rightarrow> string go"

text \<open>A buffer after a stream function has written to it, and the text of a new buffer.\<close>

definition write_rule :: "rule_stream \<Rightarrow> rule_writer" where
  "write_rule stream env buffer obj = go_bind (stream env obj) (\<lambda>s. Returns (buffer @ s))"

definition rule_string :: "rule_writer \<Rightarrow> rule_stream" where
  "rule_string write env obj = write env [] obj"

lemma rule_string_write: "rule_string (write_rule stream) = stream"
proof (intro ext)
  fix env obj
  show "rule_string (write_rule stream) env obj = stream env obj"
    by (cases "stream env obj") (simp_all add: rule_string_def write_rule_def)
qed

section \<open>k8s.qtpl.go\<close>

definition WriteDependentToOwner :: rule_writer where
  "WriteDependentToOwner = write_rule StreamDependentToOwner"

definition DependentToOwner :: rule_stream where
  "DependentToOwner = rule_string WriteDependentToOwner"

definition WriteAllToEvent :: rule_writer where
  "WriteAllToEvent = write_rule StreamAllToEvent"

definition AllToEvent :: rule_stream where
  "AllToEvent = rule_string WriteAllToEvent"

definition WriteAllToMetric :: rule_writer where
  "WriteAllToMetric = write_rule StreamAllToMetric"

definition AllToMetric :: rule_stream where
  "AllToMetric = rule_string WriteAllToMetric"

definition WriteSelectorToPods :: rule_writer where
  "WriteSelectorToPods = write_rule StreamSelectorToPods"

definition SelectorToPods :: rule_stream where
  "SelectorToPods = rule_string WriteSelectorToPods"

definition WriteSelectorToLogs :: rule_writer where
  "WriteSelectorToLogs = write_rule StreamSelectorToLogs"

definition SelectorToLogs :: rule_stream where
  "SelectorToLogs = rule_string WriteSelectorToLogs"

definition WriteK8sSrcToNetflow :: rule_writer where
  "WriteK8sSrcToNetflow = write_rule StreamK8sSrcToNetflow"

definition K8sSrcToNetflow :: rule_stream where
  "K8sSrcToNetflow = rule_string WriteK8sSrcToNetflow"

definition WriteK8sSrcOwnerToNetflow :: rule_writer where
  "WriteK8sSrcOwnerToNetflow = write_rule StreamK8sSrcOwnerToNetflow"

definition K8sSrcOwnerToNetflow :: rule_stream where
  "K8sSrcOwnerToNetflow = rule_string WriteK8sSrcOwnerToNetflow"

definition WriteK8sDstToNetflow :: rule_writer where
  "WriteK8sDstToNetflow = write_rule StreamK8sDstToNetflow"

definition K8sDstToNetflow :: rule_stream where
  "K8sDstToNetflow = rule_string WriteK8sDstToNetflow"

definition WriteK8sDstOwnerToNetflow :: rule_writer where
  "WriteK8sDstOwnerToNetflow = write_rule StreamK8sDstOwnerToNetflow"

definition K8sDstOwnerToNetflow :: rule_stream where
  "K8sDstOwnerToNetflow = rule_string WriteK8sDstOwnerToNetflow"

definition WriteServiceToPods :: rule_writer where
  "WriteServiceToPods = write_rule StreamServiceToPods"

definition ServiceToPods :: rule_stream where
  "ServiceToPods = rule_string WriteServiceToPods"

definition WriteEventToAll :: rule_writer where
  "WriteEventToAll = write_rule StreamEventToAll"

definition EventToAll :: rule_stream where
  "EventToAll = rule_string WriteEventToAll"

definition WriteEvent2ToAll :: rule_writer where
  "WriteEvent2ToAll = write_rule StreamEvent2ToAll"

definition Event2ToAll :: rule_stream where
  "Event2ToAll = rule_string WriteEvent2ToAll"

definition WritePodToPVC :: rule_writer where
  "WritePodToPVC = write_rule StreamPodToPVC"

definition PodToPVC :: rule_stream where
  "PodToPVC = rule_string WritePodToPVC"

definition WritePodToConfigMap :: rule_writer where
  "WritePodToConfigMap = write_rule StreamPodToConfigMap"

definition PodToConfigMap :: rule_stream where
  "PodToConfigMap = rule_string WritePodToConfigMap"

definition WritePodToSecret :: rule_writer where
  "WritePodToSecret = write_rule StreamPodToSecret"

definition PodToSecret :: rule_stream where
  "PodToSecret = rule_string WritePodToSecret"

definition WritePodToServiceAccount :: rule_writer where
  "WritePodToServiceAccount = write_rule StreamPodToServiceAccount"

definition PodToServiceAccount :: rule_stream where
  "PodToServiceAccount = rule_string WritePodToServiceAccount"

definition WriteServiceToEndpointSlice :: rule_writer where
  "WriteServiceToEndpointSlice = write_rule StreamServiceToEndpointSlice"

definition ServiceToEndpointSlice :: rule_stream where
  "ServiceToEndpointSlice = rule_string WriteServiceToEndpointSlice"

definition WriteEndpointSliceToService :: rule_writer where
  "WriteEndpointSliceToService = write_rule StreamEndpointSliceToService"

definition EndpointSliceToService :: rule_stream where
  "EndpointSliceToService = rule_string WriteEndpointSliceToService"

definition WritePVCToPV :: rule_writer where
  "WritePVCToPV = write_rule StreamPVCToPV"

definition PVCToPV :: rule_stream where
  "PVCToPV = rule_string WritePVCToPV"

definition WritePVToPVC :: rule_writer where
  "WritePVToPVC = write_rule StreamPVToPVC"

definition PVToPVC :: rule_stream where
  "PVToPVC = rule_string WritePVToPVC"

definition WritePVToStorageClass :: rule_writer where
  "WritePVToStorageClass = write_rule StreamPVToStorageClass"

definition PVToStorageClass :: rule_stream where
  "PVToStorageClass = rule_string WritePVToStorageClass"

definition WritePVCToStorageClass :: rule_writer where
  "WritePVCToStorageClass = write_rule StreamPVCToStorageClass"

definition PVCToStorageClass :: rule_stream where
  "PVCToStorageClass = rule_string WritePVCToStorageClass"

definition WriteSubscriptionToCSV :: rule_writer where
  "WriteSubscriptionToCSV = write_rule StreamSubscriptionToCSV"

definition SubscriptionToCSV :: rule_stream where
  "SubscriptionToCSV = rule_string WriteSubscriptionToCSV"

definition WriteCSVToCRD :: rule_writer where
  "WriteCSVToCRD = write_rule StreamCSVToCRD"

definition CSVToCRD :: rule_stream where
  "CSVToCRD = rule_string WriteCSVToCRD"

definition WriteCRDToInstances :: rule_writer where
  "WriteCRDToInstances = write_rule StreamCRDToInstances"

definition CRDToInstances :: rule_stream where
  "CRDToInstances = rule_string WriteCRDToInstances"

definition WriteCSVToDeployment :: rule_writer where
  "WriteCSVToDeployment = write_rule StreamCSVToDeployment"

definition CSVToDeployment :: rule_stream where
  "CSVToDeployment = rule_string WriteCSVToDeployment"

definition WriteSubscriptionToInstallPlan :: rule_writer where
  "WriteSubscriptionToInstallPlan = write_rule StreamSubscriptionToInstallPlan"

definition SubscriptionToInstallPlan :: rule_stream where
  "SubscriptionToInstallPlan = rule_string WriteSubscriptionToInstallPlan"

definition WriteInstallPlanToCSV :: rule_writer where
  "WriteInstallPlanToCSV = write_rule StreamInstallPlanToCSV"

definition InstallPlanToCSV :: rule_stream where
  "InstallPlanToCSV = rule_string WriteInstallPlanToCSV"

definition WriteSubscriptionToCatalogSource :: rule_writer where
  "WriteSubscriptionToCatalogSource = write_rule StreamSubscriptionToCatalogSource"

definition SubscriptionToCatalogSource :: rule_stream where
  "SubscriptionToCatalogSource = rule_string WriteSubscriptionToCatalogSource"

definition WriteOperatorToCRD :: rule_writer where
  "WriteOperatorToCRD = write_rule StreamOperatorToCRD"

definition OperatorToCRD :: rule_stream where
  "OperatorToCRD = rule_string WriteOperatorToCRD"

definition WriteOperatorToCSV :: rule_writer where
  "WriteOperatorToCSV = write_rule StreamOperatorToCSV"

definition OperatorToCSV :: rule_stream where
  "OperatorToCSV = rule_string WriteOperatorToCSV"

definition WriteOperatorToSubscription :: rule_writer where
  "WriteOperatorToSubscription = write_rule StreamOperatorToSubscription"

definition OperatorToSubscription :: rule_stream where
  "OperatorToSubscription = rule_string WriteOperatorToSubscription"

definition WriteIngressToService :: rule_writer where
  "WriteIngressToService = write_rule StreamIngressToService"

definition IngressToService :: rule_stream where
  "IngressToService = rule_string WriteIngressToService"

definition WriteCSVToPartOf :: rule_writer where
  "WriteCSVToPartOf = write_rule StreamCSVToPartOf"

definition CSVToPartOf :: rule_stream where
  "CSVToPartOf = rule_string WriteCSVToPartOf"

definition WriteHPAToTarget :: rule_writer where
  "WriteHPAToTarget = write_rule StreamHPAToTarget"

definition HPAToTarget :: rule_stream where
  "HPAToTarget = rule_string WriteHPAToTarget"

definition WriteInstanceToOperands :: rule_writer where
  "WriteInstanceToOperands = write_rule StreamInstanceToOperands"

definition InstanceToOperands :: rule_stream where
  "InstanceToOperands = rule_string WriteInstanceToOperands"

definition WriteClusterInstanceToOperands :: rule_writer where
  "WriteClusterInstanceToOperands = write_rule StreamClusterInstanceToOperands"

definition ClusterInstanceToOperands :: rule_stream where
  "ClusterInstanceToOperands = rule_string WriteClusterInstanceToOperands"

section \<open>kubevirt.qtpl.go\<close>

definition WriteVmToVmi :: rule_writer where
  "WriteVmToVmi = write_rule StreamVmToVmi"

definition VmToVmi :: rule_stream where
  "VmToVmi = rule_string WriteVmToVmi"

definition WriteVmiToPod :: rule_writer where
  "WriteVmiToPod = write_rule StreamVmiToPod"

definition VmiToPod :: rule_stream where
  "VmiToPod = rule_string WriteVmiToPod"

definition WriteVmiToNode :: rule_writer where
  "WriteVmiToNode = write_rule StreamVmiToNode"

definition VmiToNode :: rule_stream where
  "VmiToNode = rule_string WriteVmiToNode"

definition WriteVmToPVC :: rule_writer where
  "WriteVmToPVC = write_rule StreamVmToPVC"

definition VmToPVC :: rule_stream where
  "VmToPVC = rule_string WriteVmToPVC"

definition WriteVmToAlert :: rule_writer where
  "WriteVmToAlert = write_rule StreamVmToAlert"

definition VmToAlert :: rule_stream where
  "VmToAlert = rule_string WriteVmToAlert"

definition WriteVmiToAlert :: rule_writer where
  "WriteVmiToAlert = write_rule StreamVmiToAlert"

definition VmiToAlert :: rule_stream where
  "VmiToAlert = rule_string WriteVmiToAlert"

definition WriteVmimToAlert :: rule_writer where
  "WriteVmimToAlert = write_rule StreamVmimToAlert"

definition VmimToAlert :: rule_stream where
  "VmimToAlert = rule_string WriteVmimToAlert"

definition WriteVmToMetric :: rule_writer where
  "WriteVmToMetric = write_rule StreamVmToMetric"

definition VmToMetric :: rule_stream where
  "VmToMetric = rule_string WriteVmToMetric"

definition WriteVmiToMetric :: rule_writer where
  "WriteVmiToMetric = write_rule StreamVmiToMetric"

definition VmiToMetric :: rule_stream where
  "VmiToMetric = rule_string WriteVmiToMetric"

definition WriteVmiToLogs :: rule_writer where
  "WriteVmiToLogs = write_rule StreamVmiToLogs"

definition VmiToLogs :: rule_stream where
  "VmiToLogs = rule_string WriteVmiToLogs"

definition WriteVmimToVmi :: rule_writer where
  "WriteVmimToVmi = write_rule StreamVmimToVmi"

definition VmimToVmi :: rule_stream where
  "VmimToVmi = rule_string WriteVmimToVmi"

definition WriteVmiToVmim :: rule_writer where
  "WriteVmiToVmim = write_rule StreamVmiToVmim"

definition VmiToVmim :: rule_stream where
  "VmiToVmim = rule_string WriteVmiToVmim"

definition WriteDataVolumeToPVC :: rule_writer where
  "WriteDataVolumeToPVC = write_rule StreamDataVolumeToPVC"

definition DataVolumeToPVC :: rule_stream where
  "DataVolumeToPVC = rule_string WriteDataVolumeToPVC"

definition WriteVmToDataVolume :: rule_writer where
  "WriteVmToDataVolume = write_rule StreamVmToDataVolume"

definition VmToDataVolume :: rule_stream where
  "VmToDataVolume = rule_string WriteVmToDataVolume"

definition WriteVmiToPVC :: rule_writer where
  "WriteVmiToPVC = write_rule StreamVmiToPVC"

definition VmiToPVC :: rule_stream where
  "VmiToPVC = rule_string WriteVmiToPVC"

definition WriteVmiToDataVolume :: rule_writer where
  "WriteVmiToDataVolume = write_rule StreamVmiToDataVolume"

definition VmiToDataVolume :: rule_stream where
  "VmiToDataVolume = rule_string WriteVmiToDataVolume"

definition WriteVmSnapshotToVm :: rule_writer where
  "WriteVmSnapshotToVm = write_rule StreamVmSnapshotToVm"

definition VmSnapshotToVm :: rule_stream where
  "VmSnapshotToVm = rule_string WriteVmSnapshotToVm"

definition WriteVmToVmSnapshot :: rule_writer where
  "WriteVmToVmSnapshot = write_rule StreamVmToVmSnapshot"

definition VmToVmSnapshot :: rule_stream where
  "VmToVmSnapshot = rule_string WriteVmToVmSnapshot"

definition WriteVmRestoreToVm :: rule_writer where
  "WriteVmRestoreToVm = write_rule StreamVmRestoreToVm"

definition VmRestoreToVm :: rule_stream where
  "VmRestoreToVm = rule_string WriteVmRestoreToVm"

definition WriteVmToVmRestore :: rule_writer where
  "WriteVmToVmRestore = write_rule StreamVmToVmRestore"

definition VmToVmRestore :: rule_stream where
  "VmToVmRestore = rule_string WriteVmToVmRestore"

definition WriteVmRestoreToVmSnapshot :: rule_writer where
  "WriteVmRestoreToVmSnapshot = write_rule StreamVmRestoreToVmSnapshot"

definition VmRestoreToVmSnapshot :: rule_stream where
  "VmRestoreToVmSnapshot = rule_string WriteVmRestoreToVmSnapshot"

definition WriteVmExportToVm :: rule_writer where
  "WriteVmExportToVm = write_rule StreamVmExportToVm"

definition VmExportToVm :: rule_stream where
  "VmExportToVm = rule_string WriteVmExportToVm"

definition WriteVmExportToVmSnapshot :: rule_writer where
  "WriteVmExportToVmSnapshot = write_rule StreamVmExportToVmSnapshot"

definition VmExportToVmSnapshot :: rule_stream where
  "VmExportToVmSnapshot = rule_string WriteVmExportToVmSnapshot"

definition WriteVmExportToPVC :: rule_writer where
  "WriteVmExportToPVC = write_rule StreamVmExportToPVC"

definition VmExportToPVC :: rule_stream where
  "VmExportToPVC = rule_string WriteVmExportToPVC"

definition WriteNodeToVmi :: rule_writer where
  "WriteNodeToVmi = write_rule StreamNodeToVmi"

definition NodeToVmi :: rule_stream where
  "NodeToVmi = rule_string WriteNodeToVmi"

definition WriteDataVolumeToImporterPod :: rule_writer where
  "WriteDataVolumeToImporterPod = write_rule StreamDataVolumeToImporterPod"

definition DataVolumeToImporterPod :: rule_stream where
  "DataVolumeToImporterPod = rule_string WriteDataVolumeToImporterPod"

definition WriteVmToNetAttachDef :: rule_writer where
  "WriteVmToNetAttachDef = write_rule StreamVmToNetAttachDef"

definition VmToNetAttachDef :: rule_stream where
  "VmToNetAttachDef = rule_string WriteVmToNetAttachDef"

definition WriteVmiToNetAttachDef :: rule_writer where
  "WriteVmiToNetAttachDef = write_rule StreamVmiToNetAttachDef"

definition VmiToNetAttachDef :: rule_stream where
  "VmiToNetAttachDef = rule_string WriteVmiToNetAttachDef"

definition WriteVmToSecret :: rule_writer where
  "WriteVmToSecret = write_rule StreamVmToSecret"

definition VmToSecret :: rule_stream where
  "VmToSecret = rule_string WriteVmToSecret"

definition WriteVmiToSecret :: rule_writer where
  "WriteVmiToSecret = write_rule StreamVmiToSecret"

definition VmiToSecret :: rule_stream where
  "VmiToSecret = rule_string WriteVmiToSecret"

definition WriteVmToConfigMap :: rule_writer where
  "WriteVmToConfigMap = write_rule StreamVmToConfigMap"

definition VmToConfigMap :: rule_stream where
  "VmToConfigMap = rule_string WriteVmToConfigMap"

definition WriteVmiToConfigMap :: rule_writer where
  "WriteVmiToConfigMap = write_rule StreamVmiToConfigMap"

definition VmiToConfigMap :: rule_stream where
  "VmiToConfigMap = rule_string WriteVmiToConfigMap"

definition WriteVmToServiceAccount :: rule_writer where
  "WriteVmToServiceAccount = write_rule StreamVmToServiceAccount"

definition VmToServiceAccount :: rule_stream where
  "VmToServiceAccount = rule_string WriteVmToServiceAccount"

definition WriteVmiToServiceAccount :: rule_writer where
  "WriteVmiToServiceAccount = write_rule StreamVmiToServiceAccount"

definition VmiToServiceAccount :: rule_stream where
  "VmiToServiceAccount = rule_string WriteVmiToServiceAccount"

definition WriteVmToInstancetype :: rule_writer where
  "WriteVmToInstancetype = write_rule StreamVmToInstancetype"

definition VmToInstancetype :: rule_stream where
  "VmToInstancetype = rule_string WriteVmToInstancetype"

definition WriteVmToPreference :: rule_writer where
  "WriteVmToPreference = write_rule StreamVmToPreference"

definition VmToPreference :: rule_stream where
  "VmToPreference = rule_string WriteVmToPreference"

section \<open>alert.qtpl.go\<close>

definition WriteAlertToDeployment :: rule_writer where
  "WriteAlertToDeployment = write_rule StreamAlertToDeployment"

definition AlertToDeployment :: rule_stream where
  "AlertToDeployment = rule_string WriteAlertToDeployment"

definition WriteAlertToPod :: rule_writer where
  "WriteAlertToPod = write_rule StreamAlertToPod"

definition AlertToPod :: rule_stream where
  "AlertToPod = rule_string WriteAlertToPod"

definition WriteAlertToPodDisruptionBudget :: rule_writer where
  "WriteAlertToPodDisruptionBudget = write_rule StreamAlertToPodDisruptionBudget"

definition AlertToPodDisruptionBudget :: rule_stream where
  "AlertToPodDisruptionBudget = rule_string WriteAlertToPodDisruptionBudget"

definition WriteAlertToDaemonSet :: rule_writer where
  "WriteAlertToDaemonSet = write_rule StreamAlertToDaemonSet"

definition AlertToDaemonSet :: rule_stream where
  "AlertToDaemonSet = rule_string WriteAlertToDaemonSet"

definition WriteAlertToStatefulSet :: rule_writer where
  "WriteAlertToStatefulSet = write_rule StreamAlertToStatefulSet"

definition AlertToStatefulSet :: rule_stream where
  "AlertToStatefulSet = rule_string WriteAlertToStatefulSet"

definition WriteAlertToMetric :: rule_writer where
  "WriteAlertToMetric = write_rule StreamAlertToMetric"

definition AlertToMetric :: rule_stream where
  "AlertToMetric = rule_string WriteAlertToMetric"

definition WritePodToAlert :: rule_writer where
  "WritePodToAlert = write_rule StreamPodToAlert"

definition PodToAlert :: rule_stream where
  "PodToAlert = rule_string WritePodToAlert"

definition WritePodToLokiAlert :: rule_writer where
  "WritePodToLokiAlert = write_rule StreamPodToLokiAlert"

definition PodToLokiAlert :: rule_stream where
  "PodToLokiAlert = rule_string WritePodToLokiAlert"

definition WriteDeploymentToAlert :: rule_writer where
  "WriteDeploymentToAlert = write_rule StreamDeploymentToAlert"

definition DeploymentToAlert :: rule_stream where
  "DeploymentToAlert = rule_string WriteDeploymentToAlert"

definition WritePodDisruptionBudgetToAlert :: rule_writer where
  "WritePodDisruptionBudgetToAlert = write_rule StreamPodDisruptionBudgetToAlert"

definition PodDisruptionBudgetToAlert :: rule_stream where
  "PodDisruptionBudgetToAlert = rule_string WritePodDisruptionBudgetToAlert"

definition WriteDaemonSetToAlert :: rule_writer where
  "WriteDaemonSetToAlert = write_rule StreamDaemonSetToAlert"

definition DaemonSetToAlert :: rule_stream where
  "DaemonSetToAlert = rule_string WriteDaemonSetToAlert"

definition WriteStatefulSetToAlert :: rule_writer where
  "WriteStatefulSetToAlert = write_rule StreamStatefulSetToAlert"

definition StatefulSetToAlert :: rule_stream where
  "StatefulSetToAlert = rule_string WriteStatefulSetToAlert"

definition WriteAlertToVM :: rule_writer where
  "WriteAlertToVM = write_rule StreamAlertToVM"

definition AlertToVM :: rule_stream where
  "AlertToVM = rule_string WriteAlertToVM"

definition WriteAlertToVMI :: rule_writer where
  "WriteAlertToVMI = write_rule StreamAlertToVMI"

definition AlertToVMI :: rule_stream where
  "AlertToVMI = rule_string WriteAlertToVMI"

definition WriteAlertToVmim :: rule_writer where
  "WriteAlertToVmim = write_rule StreamAlertToVmim"

definition AlertToVmim :: rule_stream where
  "AlertToVmim = rule_string WriteAlertToVmim"

section \<open>incident.qtpl.go\<close>

definition WriteAlertToIncident :: rule_writer where
  "WriteAlertToIncident = write_rule StreamAlertToIncident"

definition AlertToIncident :: rule_stream where
  "AlertToIncident = rule_string WriteAlertToIncident"

definition WriteIncidentToAlert :: rule_writer where
  "WriteIncidentToAlert = write_rule StreamIncidentToAlert"

definition IncidentToAlert :: rule_stream where
  "IncidentToAlert = rule_string WriteIncidentToAlert"

section \<open>log.qtpl.go\<close>

definition WriteLogToPod :: rule_writer where
  "WriteLogToPod = write_rule StreamLogToPod"

definition LogToPod :: rule_stream where
  "LogToPod = rule_string WriteLogToPod"

definition WritePodToLogs :: rule_writer where
  "WritePodToLogs = write_rule StreamPodToLogs"

definition PodToLogs :: rule_stream where
  "PodToLogs = rule_string WritePodToLogs"

definition WriteServiceToLogs :: rule_writer where
  "WriteServiceToLogs = write_rule StreamServiceToLogs"

definition ServiceToLogs :: rule_stream where
  "ServiceToLogs = rule_string WriteServiceToLogs"

section \<open>metric.qtpl.go\<close>

definition WriteMetricToPod :: rule_writer where
  "WriteMetricToPod = write_rule StreamMetricToPod"

definition MetricToPod :: rule_stream where
  "MetricToPod = rule_string WriteMetricToPod"

definition WriteMetricToDeployment :: rule_writer where
  "WriteMetricToDeployment = write_rule StreamMetricToDeployment"

definition MetricToDeployment :: rule_stream where
  "MetricToDeployment = rule_string WriteMetricToDeployment"

definition WriteMetricToDaemonSet :: rule_writer where
  "WriteMetricToDaemonSet = write_rule StreamMetricToDaemonSet"

definition MetricToDaemonSet :: rule_stream where
  "MetricToDaemonSet = rule_string WriteMetricToDaemonSet"

definition WriteMetricToStatefulSet :: rule_writer where
  "WriteMetricToStatefulSet = write_rule StreamMetricToStatefulSet"

definition MetricToStatefulSet :: rule_stream where
  "MetricToStatefulSet = rule_string WriteMetricToStatefulSet"

definition WriteMetricToNode :: rule_writer where
  "WriteMetricToNode = write_rule StreamMetricToNode"

definition MetricToNode :: rule_stream where
  "MetricToNode = rule_string WriteMetricToNode"

section \<open>netflow.qtpl.go\<close>

definition WriteNetflowToSrcK8s :: rule_writer where
  "WriteNetflowToSrcK8s = write_rule StreamNetflowToSrcK8s"

definition NetflowToSrcK8s :: rule_stream where
  "NetflowToSrcK8s = rule_string WriteNetflowToSrcK8s"

definition WriteNetflowToSrcK8sOwner :: rule_writer where
  "WriteNetflowToSrcK8sOwner = write_rule StreamNetflowToSrcK8sOwner"

definition NetflowToSrcK8sOwner :: rule_stream where
  "NetflowToSrcK8sOwner = rule_string WriteNetflowToSrcK8sOwner"

definition WriteNetflowToDstK8s :: rule_writer where
  "WriteNetflowToDstK8s = write_rule StreamNetflowToDstK8s"

definition NetflowToDstK8s :: rule_stream where
  "NetflowToDstK8s = rule_string WriteNetflowToDstK8s"

definition WriteNetflowToDstK8sOwner :: rule_writer where
  "WriteNetflowToDstK8sOwner = write_rule StreamNetflowToDstK8sOwner"

definition NetflowToDstK8sOwner :: rule_stream where
  "NetflowToDstK8sOwner = rule_string WriteNetflowToDstK8sOwner"

section \<open>trace.qtpl.go\<close>

definition WriteTraceToPod :: rule_writer where
  "WriteTraceToPod = write_rule StreamTraceToPod"

definition TraceToPod :: rule_stream where
  "TraceToPod = rule_string WriteTraceToPod"

definition WritePodToTrace :: rule_writer where
  "WritePodToTrace = write_rule StreamPodToTrace"

definition PodToTrace :: rule_stream where
  "PodToTrace = rule_string WritePodToTrace"

section \<open>The text is what the stream writes\<close>

lemmas text_defs =
  WriteDependentToOwner_def DependentToOwner_def WriteAllToEvent_def AllToEvent_def
  WriteAllToMetric_def AllToMetric_def WriteSelectorToPods_def SelectorToPods_def
  WriteSelectorToLogs_def SelectorToLogs_def WriteK8sSrcToNetflow_def K8sSrcToNetflow_def
  WriteK8sSrcOwnerToNetflow_def K8sSrcOwnerToNetflow_def WriteK8sDstToNetflow_def K8sDstToNetflow_def
  WriteK8sDstOwnerToNetflow_def K8sDstOwnerToNetflow_def WriteServiceToPods_def ServiceToPods_def
  WriteEventToAll_def EventToAll_def WriteEvent2ToAll_def Event2ToAll_def WritePodToPVC_def PodToPVC_def
  WritePodToConfigMap_def PodToConfigMap_def WritePodToSecret_def PodToSecret_def
  WritePodToServiceAccount_def PodToServiceAccount_def WriteServiceToEndpointSlice_def ServiceToEndpointSlice_def
  WriteEndpointSliceToService_def EndpointSliceToService_def WritePVCToPV_def PVCToPV_def
  WritePVToPVC_def PVToPVC_def WritePVToStorageClass_def PVToStorageClass_def
  WritePVCToStorageClass_def PVCToStorageClass_def WriteSubscriptionToCSV_def SubscriptionToCSV_def
  WriteCSVToCRD_def CSVToCRD_def WriteCRDToInstances_def CRDToInstances_def
  WriteCSVToDeployment_def CSVToDeployment_def WriteSubscriptionToInstallPlan_def SubscriptionToInstallPlan_def
  WriteInstallPlanToCSV_def InstallPlanToCSV_def WriteSubscriptionToCatalogSource_def SubscriptionToCatalogSource_def
  WriteOperatorToCRD_def OperatorToCRD_def WriteOperatorToCSV_def OperatorToCSV_def
  WriteOperatorToSubscription_def OperatorToSubscription_def WriteIngressToService_def IngressToService_def
  WriteCSVToPartOf_def CSVToPartOf_def WriteHPAToTarget_def HPAToTarget_def
  WriteInstanceToOperands_def InstanceToOperands_def WriteClusterInstanceToOperands_def ClusterInstanceToOperands_def
  WriteVmToVmi_def VmToVmi_def WriteVmiToPod_def VmiToPod_def WriteVmiToNode_def VmiToNode_def
  WriteVmToPVC_def VmToPVC_def WriteVmToAlert_def VmToAlert_def WriteVmiToAlert_def VmiToAlert_def
  WriteVmimToAlert_def VmimToAlert_def WriteVmToMetric_def VmToMetric_def WriteVmiToMetric_def VmiToMetric_def
  WriteVmiToLogs_def VmiToLogs_def WriteVmimToVmi_def VmimToVmi_def WriteVmiToVmim_def VmiToVmim_def
  WriteDataVolumeToPVC_def DataVolumeToPVC_def WriteVmToDataVolume_def VmToDataVolume_def
  WriteVmiToPVC_def VmiToPVC_def WriteVmiToDataVolume_def VmiToDataVolume_def
  WriteVmSnapshotToVm_def VmSnapshotToVm_def WriteVmToVmSnapshot_def VmToVmSnapshot_def
  WriteVmRestoreToVm_def VmRestoreToVm_def WriteVmToVmRestore_def VmToVmRestore_def
  WriteVmRestoreToVmSnapshot_def VmRestoreToVmSnapshot_def WriteVmExportToVm_def VmExportToVm_def
  WriteVmExportToVmSnapshot_def VmExportToVmSnapshot_def WriteVmExportToPVC_def VmExportToPVC_def
  WriteNodeToVmi_def NodeToVmi_def WriteDataVolumeToImporterPod_def DataVolumeToImporterPod_def
  WriteVmToNetAttachDef_def VmToNetAttachDef_def WriteVmiToNetAttachDef_def VmiToNetAttachDef_def
  WriteVmToSecret_def VmToSecret_def WriteVmiToSecret_def VmiToSecret_def WriteVmToConfigMap_def VmToConfigMap_def
  WriteVmiToConfigMap_def VmiToConfigMap_def WriteVmToServiceAccount_def VmToServiceAccount_def
  WriteVmiToServiceAccount_def VmiToServiceAccount_def WriteVmToInstancetype_def VmToInstancetype_def
  WriteVmToPreference_def VmToPreference_def WriteAlertToDeployment_def AlertToDeployment_def
  WriteAlertToPod_def AlertToPod_def WriteAlertToPodDisruptionBudget_def AlertToPodDisruptionBudget_def
  WriteAlertToDaemonSet_def AlertToDaemonSet_def WriteAlertToStatefulSet_def AlertToStatefulSet_def
  WriteAlertToMetric_def AlertToMetric_def WritePodToAlert_def PodToAlert_def
  WritePodToLokiAlert_def PodToLokiAlert_def WriteDeploymentToAlert_def DeploymentToAlert_def
  WritePodDisruptionBudgetToAlert_def PodDisruptionBudgetToAlert_def WriteDaemonSetToAlert_def DaemonSetToAlert_def
  WriteStatefulSetToAlert_def StatefulSetToAlert_def WriteAlertToVM_def AlertToVM_def
  WriteAlertToVMI_def AlertToVMI_def WriteAlertToVmim_def AlertToVmim_def
  WriteAlertToIncident_def AlertToIncident_def WriteIncidentToAlert_def IncidentToAlert_def
  WriteLogToPod_def LogToPod_def WritePodToLogs_def PodToLogs_def WriteServiceToLogs_def ServiceToLogs_def
  WriteMetricToPod_def MetricToPod_def WriteMetricToDeployment_def MetricToDeployment_def
  WriteMetricToDaemonSet_def MetricToDaemonSet_def WriteMetricToStatefulSet_def MetricToStatefulSet_def
  WriteMetricToNode_def MetricToNode_def WriteNetflowToSrcK8s_def NetflowToSrcK8s_def
  WriteNetflowToSrcK8sOwner_def NetflowToSrcK8sOwner_def WriteNetflowToDstK8s_def NetflowToDstK8s_def
  WriteNetflowToDstK8sOwner_def NetflowToDstK8sOwner_def WriteTraceToPod_def TraceToPod_def
  WritePodToTrace_def PodToTrace_def

text \<open>Each text function gives what the stream function the engine runs writes, and panics where it does.\<close>

lemma rule_texts:
  "DependentToOwner = StreamDependentToOwner" "AllToEvent = StreamAllToEvent" "AllToMetric = StreamAllToMetric"
  "SelectorToPods = StreamSelectorToPods" "SelectorToLogs = StreamSelectorToLogs"
  "K8sSrcToNetflow = StreamK8sSrcToNetflow" "K8sSrcOwnerToNetflow = StreamK8sSrcOwnerToNetflow"
  "K8sDstToNetflow = StreamK8sDstToNetflow" "K8sDstOwnerToNetflow = StreamK8sDstOwnerToNetflow"
  "ServiceToPods = StreamServiceToPods" "EventToAll = StreamEventToAll" "Event2ToAll = StreamEvent2ToAll"
  "PodToPVC = StreamPodToPVC" "PodToConfigMap = StreamPodToConfigMap" "PodToSecret = StreamPodToSecret"
  "PodToServiceAccount = StreamPodToServiceAccount" "ServiceToEndpointSlice = StreamServiceToEndpointSlice"
  "EndpointSliceToService = StreamEndpointSliceToService" "PVCToPV = StreamPVCToPV" "PVToPVC = StreamPVToPVC"
  "PVToStorageClass = StreamPVToStorageClass" "PVCToStorageClass = StreamPVCToStorageClass"
  "SubscriptionToCSV = StreamSubscriptionToCSV" "CSVToCRD = StreamCSVToCRD" "CRDToInstances = StreamCRDToInstances"
  "CSVToDeployment = StreamCSVToDeployment" "SubscriptionToInstallPlan = StreamSubscriptionToInstallPlan"
  "InstallPlanToCSV = StreamInstallPlanToCSV" "SubscriptionToCatalogSource = StreamSubscriptionToCatalogSource"
  "OperatorToCRD = StreamOperatorToCRD" "OperatorToCSV = StreamOperatorToCSV"
  "OperatorToSubscription = StreamOperatorToSubscription" "IngressToService = StreamIngressToService"
  "CSVToPartOf = StreamCSVToPartOf" "HPAToTarget = StreamHPAToTarget" "InstanceToOperands = StreamInstanceToOperands"
  "ClusterInstanceToOperands = StreamClusterInstanceToOperands" "VmToVmi = StreamVmToVmi" "VmiToPod = StreamVmiToPod"
  "VmiToNode = StreamVmiToNode" "VmToPVC = StreamVmToPVC" "VmToAlert = StreamVmToAlert"
  "VmiToAlert = StreamVmiToAlert" "VmimToAlert = StreamVmimToAlert" "VmToMetric = StreamVmToMetric"
  "VmiToMetric = StreamVmiToMetric" "VmiToLogs = StreamVmiToLogs" "VmimToVmi = StreamVmimToVmi"
  "VmiToVmim = StreamVmiToVmim" "DataVolumeToPVC = StreamDataVolumeToPVC" "VmToDataVolume = StreamVmToDataVolume"
  "VmiToPVC = StreamVmiToPVC" "VmiToDataVolume = StreamVmiToDataVolume" "VmSnapshotToVm = StreamVmSnapshotToVm"
  "VmToVmSnapshot = StreamVmToVmSnapshot" "VmRestoreToVm = StreamVmRestoreToVm" "VmToVmRestore = StreamVmToVmRestore"
  "VmRestoreToVmSnapshot = StreamVmRestoreToVmSnapshot" "VmExportToVm = StreamVmExportToVm"
  "VmExportToVmSnapshot = StreamVmExportToVmSnapshot" "VmExportToPVC = StreamVmExportToPVC"
  "NodeToVmi = StreamNodeToVmi" "DataVolumeToImporterPod = StreamDataVolumeToImporterPod"
  "VmToNetAttachDef = StreamVmToNetAttachDef" "VmiToNetAttachDef = StreamVmiToNetAttachDef"
  "VmToSecret = StreamVmToSecret" "VmiToSecret = StreamVmiToSecret" "VmToConfigMap = StreamVmToConfigMap"
  "VmiToConfigMap = StreamVmiToConfigMap" "VmToServiceAccount = StreamVmToServiceAccount"
  "VmiToServiceAccount = StreamVmiToServiceAccount" "VmToInstancetype = StreamVmToInstancetype"
  "VmToPreference = StreamVmToPreference" "AlertToDeployment = StreamAlertToDeployment"
  "AlertToPod = StreamAlertToPod" "AlertToPodDisruptionBudget = StreamAlertToPodDisruptionBudget"
  "AlertToDaemonSet = StreamAlertToDaemonSet" "AlertToStatefulSet = StreamAlertToStatefulSet"
  "AlertToMetric = StreamAlertToMetric" "PodToAlert = StreamPodToAlert" "PodToLokiAlert = StreamPodToLokiAlert"
  "DeploymentToAlert = StreamDeploymentToAlert" "PodDisruptionBudgetToAlert = StreamPodDisruptionBudgetToAlert"
  "DaemonSetToAlert = StreamDaemonSetToAlert" "StatefulSetToAlert = StreamStatefulSetToAlert"
  "AlertToVM = StreamAlertToVM" "AlertToVMI = StreamAlertToVMI" "AlertToVmim = StreamAlertToVmim"
  "AlertToIncident = StreamAlertToIncident" "IncidentToAlert = StreamIncidentToAlert" "LogToPod = StreamLogToPod"
  "PodToLogs = StreamPodToLogs" "ServiceToLogs = StreamServiceToLogs" "MetricToPod = StreamMetricToPod"
  "MetricToDeployment = StreamMetricToDeployment" "MetricToDaemonSet = StreamMetricToDaemonSet"
  "MetricToStatefulSet = StreamMetricToStatefulSet" "MetricToNode = StreamMetricToNode"
  "NetflowToSrcK8s = StreamNetflowToSrcK8s" "NetflowToSrcK8sOwner = StreamNetflowToSrcK8sOwner"
  "NetflowToDstK8s = StreamNetflowToDstK8s" "NetflowToDstK8sOwner = StreamNetflowToDstK8sOwner"
  "TraceToPod = StreamTraceToPod" "PodToTrace = StreamPodToTrace"
  by (simp_all only: text_defs rule_string_write)

end
