(* ===== verification/Engine.thy ===== *)
theory Engine
  imports Graph
begin

text \<open>
  \<open>pkg/engine/builder.go\<close>, \<open>engine.go\<close> and \<open>template_funcs.go\<close>: the builder that collects domains,
  stores and rules and makes an engine, and the engine's look-ups and queries. The builder's methods
  are functions on its state; what it defers to the end (\<open>finally\<close>) is a list of actions. An error of
  the builder is sticky: methods that find one do nothing, where the code checks for it.

  Parameters (\<open>builder_env\<close>): parsing templates, executing parsed ones, the identity of domains, and what a
  store's connection gives. A map keyed by domains is keyed by their names. Metrics and logging are
  left out, and so are the template functions the domains add.
\<close>

section \<open>State\<close>

record 'o status_rule =
  sr_Name :: string
  sr_Start :: "klass list"
  sr_Apply :: "'o \<Rightarrow> string list result"

record 'o engine =
  en_domains :: Domains
  en_storeHolders :: "(string \<times> storeHolders) list"
  en_rulesByName :: "(string \<times> 'o rule) list"
  en_rules :: "'o rule list"
  en_statuses :: "(string \<times> 'o status_rule list) list"
  en_data :: "'o Data"
  en_Tuning :: Tuning
  en_templateBase :: "(string \<times> string) list"

datatype 'o deferred =
    Add_rules "'o rule list"
  | Add_status_rules "'o status_rule list"
  | Config_rule config_Rule
  | Config_status config_StatusRule

record 'o Builder =
  bu_e :: "'o engine"
  bu_err :: "error option"
  bu_finally :: "'o deferred list"
  bu_templates :: "(string \<times> string) list"
  bu_missingClasses :: "(string \<times> string list) list"

record 'o builder_env =
  be_same :: "domain \<Rightarrow> domain \<Rightarrow> bool"
  be_domain :: "klass \<Rightarrow> domain"
  be_store :: "storeHolder \<Rightarrow> 'o store_env"
  be_parse_base :: "string \<Rightarrow> string \<Rightarrow> error option"
  be_parse_rule :: "string \<Rightarrow> string \<Rightarrow> 'o template result"
  be_apply_rule :: "'o templateRule \<Rightarrow> 'o \<Rightarrow> query list result"
  be_parse_status :: "string \<Rightarrow> string \<Rightarrow> ('o \<Rightarrow> string list result) result"

definition zero_Tuning :: Tuning where
  "zero_Tuning = \<lparr>tn_RequestTimeout = 0, tn_SessionTimeout = 0, tn_UnsafeSharedSession = False,
     tn_StoreRetryInterval = 0\<rparr>"

definition Build :: "'o Builder" where
  "Build = \<lparr>bu_e = \<lparr>en_domains = NewDomains, en_storeHolders = [], en_rulesByName = [], en_rules = [],
       en_statuses = [], en_data = NewData [], en_Tuning = zero_Tuning, en_templateBase = []\<rparr>,
     bu_err = None, bu_finally = [], bu_templates = [], bu_missingClasses = []\<rparr>"

section \<open>Domains and stores\<close>

definition GetDomains :: "'o Builder \<Rightarrow> Domains go" where
  "GetDomains b =
     (if Domains_Empty (en_domains (bu_e b))
      then Panics ''Builder: GetDomains called before any domains were added. ''
      else Returns (en_domains (bu_e b)))"

fun builder_Domains :: "'o builder_env \<Rightarrow> domain list \<Rightarrow> 'o Builder \<Rightarrow> 'o Builder" where
  "builder_Domains env [] b = b"
| "builder_Domains env (d # ds) b =
     (let e = bu_e b
      in case Domains_Get (en_domains e) (dom_Name d) of
           None \<Rightarrow>
             builder_Domains env ds
               (b\<lparr>bu_e := e\<lparr>en_domains := Domains_Add d (en_domains e),
                            en_storeHolders := al_set (dom_Name d) (newStoreHolders (dom_Name d)) (en_storeHolders e)\<rparr>\<rparr>)
         | Some d' \<Rightarrow>
             if be_same env d' d then builder_Domains env ds b
             else b\<lparr>bu_err := Some (ErrorString (''duplicate domain name: '' @ dom_Name d))\<rparr>)"

text \<open>\<open>store\<close>: \<open>Add\<close> compares only original configurations, which \<open>Ensure\<close> leaves alone, so adding the
  holder as \<open>Ensure\<close> leaves it is adding the holder that \<open>Ensure\<close> then changes.\<close>

definition builder_store ::
  "'o builder_env \<Rightarrow> config_Store option \<Rightarrow> (nat \<times> string) option \<Rightarrow> 'o Builder \<Rightarrow> 'o Builder go" where
  "builder_store env sc s b =
     (case wrap (Domains_domain (en_domains (bu_e b))) sc s of
        Inl e \<Rightarrow> Returns (b\<lparr>bu_err := Some e\<rparr>)
      | Inr w \<Rightarrow>
          (case map_of (en_storeHolders (bu_e b)) (sh_domain w) of
             None \<Rightarrow> Panics ''nil pointer dereference''
           | Some ss \<Rightarrow>
               (let (_, w) = storeHolder_Ensure (be_store env w) w
                in Returns (b\<lparr>bu_err := None,
                     bu_e := (bu_e b)\<lparr>en_storeHolders :=
                       al_set (sh_domain w) (storeHolders_Add w ss) (en_storeHolders (bu_e b))\<rparr>\<rparr>))))"

text \<open>A store that is given comes with its domain.\<close>

fun builder_Stores :: "'o builder_env \<Rightarrow> (nat \<times> domain) list \<Rightarrow> 'o Builder \<Rightarrow> 'o Builder go" where
  "builder_Stores env [] b = Returns b"
| "builder_Stores env ((k, d) # ss) b =
     (if bu_err b \<noteq> None then Returns b
      else (let b = builder_Domains env [d] b
            in if bu_err b \<noteq> None then Returns b
               else (case builder_store env None (Some (k, dom_Name d)) b of
                       Panics p \<Rightarrow> Panics p
                     | Returns b \<Rightarrow> builder_Stores env ss b)))"

fun builder_StoreConfigs :: "'o builder_env \<Rightarrow> config_Store list \<Rightarrow> 'o Builder \<Rightarrow> 'o Builder go" where
  "builder_StoreConfigs env [] b = Returns b"
| "builder_StoreConfigs env (sc # scs) b =
     (if bu_err b \<noteq> None then Returns b
      else (case builder_store env (Some sc) None b of
              Panics p \<Rightarrow> Panics p
            | Returns b \<Rightarrow> builder_StoreConfigs env scs b))"

section \<open>Rules\<close>

definition builder_Rules :: "'o rule list \<Rightarrow> 'o Builder \<Rightarrow> 'o Builder" where
  "builder_Rules rules b = b\<lparr>bu_finally := bu_finally b @ [Add_rules rules]\<rparr>"

definition builder_StatusRules :: "'o status_rule list \<Rightarrow> 'o Builder \<Rightarrow> 'o Builder" where
  "builder_StatusRules rules b = b\<lparr>bu_finally := bu_finally b @ [Add_status_rules rules]\<rparr>"

definition add_status :: "'o status_rule \<Rightarrow> klass \<Rightarrow> 'o Builder \<Rightarrow> 'o Builder" where
  "add_status r c b =
     b\<lparr>bu_e := (bu_e b)\<lparr>en_statuses :=
         al_set (Class_String c) (ptr_Deref [] (map_of (en_statuses (bu_e b)) (Class_String c)) @ [r])
           (en_statuses (bu_e b))\<rparr>\<rparr>"

definition add_status_rules :: "'o status_rule list \<Rightarrow> 'o Builder \<Rightarrow> 'o Builder" where
  "add_status_rules rules b =
     (if bu_err b \<noteq> None then b
      else fold (\<lambda>r b. fold (add_status r) (sr_Start r) b) rules b)"

text \<open>\<open>rules\<close>: the first start and goal class of a rule give the domains; a rule without one panics.\<close>

fun builder_rules :: "'o builder_env \<Rightarrow> 'o rule list \<Rightarrow> 'o Builder \<Rightarrow> 'o Builder go" where
  "builder_rules env [] b = Returns b"
| "builder_rules env (r # rs) b =
     (if bu_err b \<noteq> None then Returns b
      else if map_of (en_rulesByName (bu_e b)) (r_Name r) \<noteq> None
      then Returns (b\<lparr>bu_err := Some (ErrorString (''duplicate rule name: '' @ r_Name r))\<rparr>)
      else (case (r_Start r, r_Goal r) of
              (s # _, g # _) \<Rightarrow>
                (let b = builder_Domains env [be_domain env s, be_domain env g] b;
                     e = bu_e b
                 in builder_rules env rs
                      (b\<lparr>bu_e := e\<lparr>en_rulesByName := al_set (r_Name r) r (en_rulesByName e),
                                   en_rules := en_rules e @ [r]\<rparr>\<rparr>))
            | _ \<Rightarrow> Panics ''runtime error: index out of range [0] with length 0''))"

text \<open>\<open>classes\<close>: an unknown domain is an error; an unknown class is only reported.\<close>

definition add_missing :: "string \<Rightarrow> string \<Rightarrow> 'o Builder \<Rightarrow> 'o Builder" where
  "add_missing cls name b =
     b\<lparr>bu_missingClasses :=
         al_set cls (ptr_Deref [] (map_of (bu_missingClasses b) cls) @ [name]) (bu_missingClasses b)\<rparr>"

fun known_classes ::
  "domain \<Rightarrow> string \<Rightarrow> string list \<Rightarrow> klass uList \<Rightarrow> 'o Builder \<Rightarrow> klass list \<times> 'o Builder" where
  "known_classes d name [] l b = (ul_List l, b)"
| "known_classes d name (cls # cs) l b =
     (case dom_Class d cls of
        None \<Rightarrow> known_classes d name cs l (add_missing cls name b)
      | Some c \<Rightarrow> known_classes d name cs (uList_Add c l) b)"

definition builder_classes :: "string \<Rightarrow> ClassSpec \<Rightarrow> 'o Builder \<Rightarrow> klass list \<times> 'o Builder" where
  "builder_classes name spec b =
     (case Domains_domain (en_domains (bu_e b)) (cs_Domain spec) of
        Inl e \<Rightarrow> ([], b\<lparr>bu_err := Some e\<rparr>)
      | Inr d \<Rightarrow>
          (let b = b\<lparr>bu_err := None\<rparr>
           in if length (cs_Classes spec) > 0 then known_classes d name (cs_Classes spec) (NewList []) b
              else (dom_Classes d, b)))"

text \<open>The deferred function that names the rule in the error.\<close>

definition name_error :: "string \<Rightarrow> string \<Rightarrow> 'o Builder \<Rightarrow> 'o Builder" where
  "name_error what name b =
     (case bu_err b of
        None \<Rightarrow> b
      | Some e \<Rightarrow> b\<lparr>bu_err := Some (ErrorWrap (''invalid '' @ what @ '' '' @ name @ '': '') e [])\<rparr>)"

definition rule_of :: "'o builder_env \<Rightarrow> nat \<Rightarrow> 'o templateRule \<Rightarrow> 'o rule" where
  "rule_of env p tr =
     \<lparr>r_ptr = p, r_Name = templateRule_Name tr, r_Start = tr_start tr, r_Goal = tr_goal tr,
      r_Apply = be_apply_rule env tr\<rparr>"

text \<open>\<open>p\<close> is the address of the new rule.\<close>

definition configRule :: "'o builder_env \<Rightarrow> nat \<Rightarrow> config_Rule \<Rightarrow> 'o Builder \<Rightarrow> 'o Builder go" where
  "configRule env p r b =
     (if bu_err b \<noteq> None then Returns b
      else (let (start, b) = builder_classes (cr_Name r) (cr_Start r) b;
                (goal, b) = builder_classes (cr_Name r) (cr_Goal r) b
            in if length start = 0 \<or> length goal = 0 then Returns (name_error ''rule'' (cr_Name r) b)
               else (case NewTemplateRule start goal (cr_Name r) (be_parse_rule env (cr_Name r)) (cr_Query r) of
                       Inl e \<Rightarrow> Returns (name_error ''rule'' (cr_Name r) (b\<lparr>bu_err := Some e\<rparr>))
                     | Inr tr \<Rightarrow>
                         (case builder_rules env [rule_of env p tr] (b\<lparr>bu_err := None\<rparr>) of
                            Panics x \<Rightarrow> Panics x
                          | Returns b \<Rightarrow> Returns (name_error ''rule'' (cr_Name r) b)))))"

definition configStatusRule :: "'o builder_env \<Rightarrow> config_StatusRule \<Rightarrow> 'o Builder \<Rightarrow> 'o Builder" where
  "configStatusRule env r b =
     (if bu_err b \<noteq> None then b
      else (let (start, b) = builder_classes (csr_Name r) (csr_Start r) b
            in if length start = 0 then name_error ''label rule'' (csr_Name r) b
               else (case be_parse_status env (csr_Name r) (csr_Status r) of
                       Inl e \<Rightarrow> name_error ''label rule'' (csr_Name r) (b\<lparr>bu_err := Some e\<rparr>)
                     | Inr f \<Rightarrow>
                         fold (add_status \<lparr>sr_Name = csr_Name r, sr_Start = start, sr_Apply = f\<rparr>) start
                           (b\<lparr>bu_err := None\<rparr>))))"

section \<open>Configurations\<close>

definition builder_Tuning :: "Tuning option \<Rightarrow> 'o Builder \<Rightarrow> 'o Builder" where
  "builder_Tuning t b = (case t of None \<Rightarrow> b | Some t \<Rightarrow> b\<lparr>bu_e := (bu_e b)\<lparr>en_Tuning := t\<rparr>\<rparr>)"

definition builder_config :: "'o builder_env \<Rightarrow> Config \<Rightarrow> 'o Builder \<Rightarrow> 'o Builder go" where
  "builder_config env c b =
     (if bu_err b \<noteq> None then Returns b
      else (case builder_StoreConfigs env (cf_Stores c) b of
              Panics p \<Rightarrow> Panics p
            | Returns b \<Rightarrow>
                (let b = b\<lparr>bu_templates := bu_templates b @ cf_Templates c\<rparr>
                 in Returns (if bu_err b \<noteq> None then b
                             else b\<lparr>bu_finally := bu_finally b @ map Config_rule (cf_Rules c)
                                      @ map Config_status (cf_StatusRules c)\<rparr>))))"

text \<open>The range over the configurations gives their positions, which the code calls \<open>source\<close>.\<close>

fun builder_Configs :: "'o builder_env \<Rightarrow> nat \<Rightarrow> Config list \<Rightarrow> 'o Builder \<Rightarrow> 'o Builder go" where
  "builder_Configs env source [] b = Returns b"
| "builder_Configs env source (c # cs) b =
     (case builder_config env c b of
        Panics p \<Rightarrow> Panics p
      | Returns b \<Rightarrow>
          (case bu_err b of
             Some e \<Rightarrow> Returns (b\<lparr>bu_err := Some (ErrorWrap (show_nat source @ '': '') e [])\<rparr>)
           | None \<Rightarrow> builder_Configs env (Suc source) cs (builder_Tuning (cf_Tuning c) b)))"

definition builder_Config :: "'o builder_env \<Rightarrow> Config list \<Rightarrow> 'o Builder \<Rightarrow> 'o Builder go" where
  "builder_Config env configs b = (if bu_err b \<noteq> None then Returns b else builder_Configs env 0 configs b)"

definition builder_ConfigFile ::
  "'o builder_env \<Rightarrow> (string \<Rightarrow> Config list result) \<Rightarrow> string \<Rightarrow> 'o Builder \<Rightarrow> 'o Builder go" where
  "builder_ConfigFile env load file b =
     (case load file of Inl e \<Rightarrow> Returns (b\<lparr>bu_err := Some e\<rparr>) | Inr cfg \<Rightarrow> builder_Config env cfg b)"

section \<open>The engine\<close>

fun parse_templates ::
  "'o builder_env \<Rightarrow> (string \<times> string) list \<Rightarrow> 'o Builder \<Rightarrow> 'o Builder" where
  "parse_templates env [] b = b"
| "parse_templates env ((n, t) # ts) b =
     (case be_parse_base env n t of
        Some e \<Rightarrow> b\<lparr>bu_err := Some (ErrorWrap (''invalid template '' @ strconv_Quote n @ '': '') e [])\<rparr>
      | None \<Rightarrow> parse_templates env ts (b\<lparr>bu_e := (bu_e b)\<lparr>en_templateBase := en_templateBase (bu_e b) @ [(n, t)]\<rparr>\<rparr>))"

definition buildTemplateBase :: "'o builder_env \<Rightarrow> 'o Builder \<Rightarrow> 'o Builder" where
  "buildTemplateBase env b = (if bu_err b \<noteq> None then b else parse_templates env (bu_templates b) b)"

definition run_deferred :: "'o builder_env \<Rightarrow> nat \<Rightarrow> 'o deferred \<Rightarrow> 'o Builder \<Rightarrow> 'o Builder go" where
  "run_deferred env p f b =
     (case f of
        Add_rules rs \<Rightarrow> builder_rules env rs b
      | Add_status_rules rs \<Rightarrow> Returns (add_status_rules rs b)
      | Config_rule r \<Rightarrow> configRule env p r b
      | Config_status r \<Rightarrow> Returns (configStatusRule env r b))"

fun run_finally :: "'o builder_env \<Rightarrow> nat \<Rightarrow> 'o deferred list \<Rightarrow> 'o Builder \<Rightarrow> 'o Builder go" where
  "run_finally env p [] b = Returns b"
| "run_finally env p (f # fs) b =
     (case run_deferred env p f b of
        Panics x \<Rightarrow> Panics x
      | Returns b \<Rightarrow> if bu_err b \<noteq> None then Returns b else run_finally env (Suc p) fs b)"

text \<open>\<open>Engine\<close>: the engine, the error and the builder reset.\<close>

definition builder_Engine :: "'o builder_env \<Rightarrow> nat \<Rightarrow> 'o Builder \<Rightarrow> (('o engine \<times> error option) \<times> 'o Builder) go" where
  "builder_Engine env p b =
     (let b = buildTemplateBase env b
      in case run_finally env p (bu_finally b) b of
           Panics x \<Rightarrow> Panics x
         | Returns b \<Rightarrow>
             Returns (((bu_e b)\<lparr>en_data := NewData (en_rules (bu_e b))\<rparr>, bu_err b), Build))"

text \<open>\<open>StoreFor\<close> gives nil for a domain without stores.\<close>

definition StoreFor :: "'o engine \<Rightarrow> string \<Rightarrow> storeHolders option" where
  "StoreFor e d =
     (case map_of (en_storeHolders e) d of
        None \<Rightarrow> None
      | Some s \<Rightarrow> if length (ss_stores s) = 0 then None else Some s)"

definition engine_Class :: "'o engine \<Rightarrow> string \<Rightarrow> klass result" where
  "engine_Class e fullname =
     (case ClassSplit fullname of
        Inl err \<Rightarrow> Inl err
      | Inr (d, c) \<Rightarrow>
          if c = [] then Inl (ErrorString (''invalid class name: '' @ fullname))
          else Domains_domainClass (en_domains e) d c)"

definition engine_Classes :: "'o engine \<Rightarrow> string list \<Rightarrow> klass list result" where
  "engine_Classes e fullnames = collect_results (engine_Class e) fullnames"

definition engine_DomainClass :: "'o engine \<Rightarrow> string \<Rightarrow> string \<Rightarrow> klass result" where
  "engine_DomainClass e domain class =
     (case Domains_domain (en_domains e) domain of
        Inl err \<Rightarrow> Inl err
      | Inr d \<Rightarrow>
          (case dom_Class d class of
             None \<Rightarrow> Inl (ClassNotFoundError domain class)
           | Some c \<Rightarrow> Inr c))"

text \<open>\<open>Query\<close> interns in the registry, which the engine shares; so does each of \<open>Queries\<close>.\<close>

definition engine_Query :: "string \<Rightarrow> 'o engine \<Rightarrow> query result \<times> 'o engine" where
  "engine_Query query e = (let (r, ds) = Domains_Query query (en_domains e) in (r, e\<lparr>en_domains := ds\<rparr>))"

fun engine_Queries :: "string list \<Rightarrow> 'o engine \<Rightarrow> query list result \<times> 'o engine" where
  "engine_Queries [] e = (Inr [], e)"
| "engine_Queries (q # qs) e =
     (case engine_Query q e of
        (Inl err, e) \<Rightarrow> (Inl err, e)
      | (Inr query, e) \<Rightarrow>
          (case engine_Queries qs e of
             (Inl err, e) \<Rightarrow> (Inl err, e)
           | (Inr queries, e) \<Rightarrow> (Inr (query # queries), e)))"

definition engine_Rule :: "'o engine \<Rightarrow> string \<Rightarrow> 'o rule option" where
  "engine_Rule e name = map_of (en_rulesByName e) name"

definition StatusRulesFor :: "'o engine \<Rightarrow> klass \<Rightarrow> 'o status_rule list" where
  "StatusRulesFor e c = ptr_Deref [] (map_of (en_statuses e) (Class_String c))"

text \<open>\<open>Get\<close>: the constraint it uses, the objects and the error. \<open>envs\<close> is what the outside does in the call
  of each holder. A domain that was not added has a nil holder.\<close>

definition engine_Get ::
  "'o store_env list \<Rightarrow> time \<Rightarrow> query \<Rightarrow> Constraint option \<Rightarrow> 'o engine \<Rightarrow>
     (('o list \<times> error option) \<times> 'o engine) go" where
  "engine_Get envs now q c e =
     (let c = Constraint_Default now c; domain = k_domain (q_class q)
      in case map_of (en_storeHolders e) domain of
           None \<Rightarrow> Panics ''nil pointer dereference''
         | Some ss \<Rightarrow>
             if length (ss_stores ss) = 0
             then Returns (([], Some (ErrorString (''no stores found for domain '' @ domain))), e)
             else (case storeHolders_Get envs q (Some c) ss of
                     Panics p \<Rightarrow> Panics p
                   | Returns (r, ss) \<Rightarrow>
                       Returns (r, e\<lparr>en_storeHolders := al_set domain ss (en_storeHolders e)\<rparr>)))"

section \<open>template\_funcs.go\<close>

text \<open>\<open>query\<close> collects the results without duplicates; \<open>ider\<close> is the identity of the class's objects.\<close>

definition engine_query ::
  "'o store_env list \<Rightarrow> time \<Rightarrow> ('o \<Rightarrow> 'i) option \<Rightarrow> string \<Rightarrow> 'o engine \<Rightarrow>
     (('o list \<times> error option) \<times> 'o engine) go" where
  "engine_query envs now ider query e =
     (case engine_Query query e of
        (Inl err, e) \<Rightarrow> Returns (([], Some err), e)
      | (Inr q, e) \<Rightarrow>
          (case engine_Get envs now q None e of
             Panics p \<Rightarrow> Panics p
           | Returns ((objects, err), e) \<Rightarrow>
               Returns ((Result_List (Result_Append objects (Result_New ider)), err), e)))"

definition WithTimeout :: "'o engine \<Rightarrow> duration \<Rightarrow> duration option" where
  "WithTimeout e timeout =
     (let timeout = (if timeout = 0 then tn_RequestTimeout (en_Tuning e) else timeout)
      in if timeout = 0 then None else Some timeout)"

text \<open>\<open>k8sRouteHost\<close>; \<open>nested\<close> is \<open>unstructured.NestedString\<close> of \<open>spec.host\<close>. The deferred function makes an
  empty host an error and names the route in every error.\<close>

definition k8sRouteHost ::
  "'o store_env list \<Rightarrow> time \<Rightarrow> ('o \<Rightarrow> 'i) option \<Rightarrow> ('o \<Rightarrow> string \<times> error option) \<Rightarrow> string \<Rightarrow> string \<Rightarrow> 'o engine \<Rightarrow>
     ((string \<times> error option) \<times> 'o engine) go" where
  "k8sRouteHost envs now ider nested namespace name e =
     (let query = ''k8s:Route.v1.route.openshift.io:{namespace: '' @ namespace @ '', name: '' @ name @ ''}''
      in case engine_query envs now ider query e of
           Panics p \<Rightarrow> Panics p
         | Returns ((routes, err), e) \<Rightarrow>
             (let (host, err) = (if err \<noteq> None \<or> length routes = 0 then ([], err) else nested (hd routes));
                  err = (if host = [] \<and> err = None then Some (ErrorString ''not found'') else err)
              in Returns ((host, map_option (\<lambda>x. ErrorWrap (''route/'' @ name @ '' namespace='' @ namespace @ '': '') x []) err), e)))"

section \<open>Stores of a domain\<close>

definition engine_Domain :: "'o engine \<Rightarrow> string \<Rightarrow> domain result" where
  "engine_Domain e name = Domains_domain (en_domains e) name"

definition engine_Domains :: "'o engine \<Rightarrow> domain list" where
  "engine_Domains e = Domains_List (en_domains e)"

definition engine_Rules :: "'o engine \<Rightarrow> 'o rule list" where
  "engine_Rules e = en_rules e"

definition engine_Graph :: "'g multigraph \<Rightarrow> 'o engine \<Rightarrow> ('i, 'o, 'g) Graph" where
  "engine_Graph mg e = SharedGraph mg (en_data e)"

definition StoresFor :: "'o store_env list \<Rightarrow> string \<Rightarrow> 'o engine \<Rightarrow> nat list \<times> 'o engine" where
  "StoresFor envs d e =
     (case map_of (en_storeHolders e) d of
        None \<Rightarrow> ([], e)
      | Some ss \<Rightarrow>
          (let (ks, stores) = storeHolders_Ensure envs (ss_stores ss)
           in (ks, e\<lparr>en_storeHolders := al_set d (ss\<lparr>ss_stores := stores\<rparr>) (en_storeHolders e)\<rparr>)))"

definition StoreConfigsFor :: "string \<Rightarrow> 'o engine \<Rightarrow> config_Store option list go" where
  "StoreConfigsFor d e =
     (case map_of (en_storeHolders e) d of
        None \<Rightarrow> Returns []
      | Some ss \<Rightarrow> storeHolders_Configs (ss_stores ss))"

text \<open>\<open>execTemplate\<close>: the text and the error of executing the parsed template are what the library gives.\<close>

definition execTemplate ::
  "(string \<Rightarrow> string \<Rightarrow> ('d \<Rightarrow> string result) result) \<Rightarrow> string \<Rightarrow> string \<Rightarrow> 'd \<Rightarrow> string result" where
  "execTemplate parse name tmplString data =
     (case parse name tmplString of Inl err \<Rightarrow> Inl err | Inr tmpl \<Rightarrow> tmpl data)"

end
