(* ===== verification/Assembly.thy ===== *)
theory Assembly
  imports Engine Netflow
begin

text \<open>
  What the builder promises (\<open>pkg/engine/builder.go\<close>) and what the engine's queries rest on
  (\<open>engine.go\<close>): every domain has its store holder, the rules are indexed by distinct names, and every
  query the registry gives is for a registered domain. \<open>built\<close> are the builders that calls of its
  methods make from \<open>Build\<close>, \<open>running\<close> the engines in use.
\<close>

section \<open>The invariant\<close>

definition engine_ok :: "'o engine \<Rightarrow> bool" where
  "engine_ok e \<longleftrightarrow>
     Domains_ok (en_domains e) \<and>
     map fst (en_storeHolders e) = map fst (ds_domains (en_domains e)) \<and>
     (\<forall>ss \<in> snd ` set (en_storeHolders e). holders_ok ss) \<and>
     en_rulesByName e = map (\<lambda>r. (r_Name r, r)) (en_rules e) \<and>
     distinct (map r_Name (en_rules e)) \<and>
     (\<forall>q \<in> ran (ds_queries (en_domains e)). k_domain (q_class q) \<in> fst ` set (en_storeHolders e))"

named_theorems engine_intro

lemma engine_okI:
  assumes "Domains_ok (en_domains e)"
    and "map fst (en_storeHolders e) = map fst (ds_domains (en_domains e))"
    and "\<And>ss. ss \<in> snd ` set (en_storeHolders e) \<Longrightarrow> holders_ok ss"
    and "en_rulesByName e = map (\<lambda>r. (r_Name r, r)) (en_rules e)" "distinct (map r_Name (en_rules e))"
    and "\<And>q. q \<in> ran (ds_queries (en_domains e)) \<Longrightarrow> k_domain (q_class q) \<in> fst ` set (en_storeHolders e)"
  shows "engine_ok e"
  using assms by (simp add: engine_ok_def)

lemma fst_image: "fst ` set xs = set (map fst xs)"
  by (induction xs) auto

lemma map_of_keys_eq: "map fst xs = map fst ys \<Longrightarrow> (map_of xs k = None) = (map_of ys k = None)"
  by (simp only: map_of_eq_None_iff fst_image)

lemma engine_ok_holder:
  "engine_ok e \<Longrightarrow> (map_of (en_storeHolders e) n = None) = (Domains_Get (en_domains e) n = None)"
  unfolding Domains_Get_def by (rule map_of_keys_eq) (simp add: engine_ok_def)

lemma map_of_indexed:
  "distinct (map f xs) \<Longrightarrow> (map_of (map (\<lambda>x. (f x, x)) xs) n = Some x) \<longleftrightarrow> (x \<in> set xs \<and> f x = n)"
  by (subst map_of_eq_Some_iff) (auto simp: o_def)

lemma map_of_indexed_None: "(map_of (map (\<lambda>x. (f x, x)) xs) n = None) \<longleftrightarrow> n \<notin> f ` set xs"
  by (force simp: map_of_eq_None_iff)

lemma al_set_new: "k \<notin> fst ` set m \<Longrightarrow> al_set k v m = m @ [(k, v)]"
  by (induction m) auto

lemma al_set_snd: "x \<in> snd ` set (al_set k v m) \<Longrightarrow> x = v \<or> x \<in> snd ` set m"
  by (force dest: al_set_values)

lemma map_fst_al_set_cong:
  "map fst xs = map fst ys \<Longrightarrow> map fst (al_set k v xs) = map fst (al_set k w ys)"
  by (simp only: map_fst_al_set fst_image)

lemma Build_ok [engine_intro]: "engine_ok (bu_e Build)"
  using NewDomains_ok by (intro engine_okI) (auto simp: Build_def NewDomains_def)

section \<open>The builder's methods keep it\<close>

lemma builder_Domains_ok [engine_intro]:
  "engine_ok (bu_e b) \<Longrightarrow> engine_ok (bu_e (builder_Domains env ds b))"
proof (induction env ds b rule: builder_Domains.induct)
  case (2 env d ds b)
  show ?case
  proof (cases "Domains_Get (en_domains (bu_e b)) (dom_Name d)")
    case None
    let ?e = "bu_e b"
    let ?e' = "?e\<lparr>en_domains := Domains_Add d (en_domains ?e),
        en_storeHolders := al_set (dom_Name d) (newStoreHolders (dom_Name d)) (en_storeHolders ?e)\<rparr>"
    have "engine_ok ?e'"
    proof (rule engine_okI)
      show "Domains_ok (en_domains ?e')" using 2(3) by (simp add: engine_ok_def Domains_Add_ok)
      show "map fst (en_storeHolders ?e') = map fst (ds_domains (en_domains ?e'))"
        using 2(3) by (simp add: engine_ok_def Domains_Add_def map_fst_al_set_cong)
      show "holders_ok ss" if "ss \<in> snd ` set (en_storeHolders ?e')" for ss
        using al_set_snd [of ss "dom_Name d" "newStoreHolders (dom_Name d)" "en_storeHolders ?e"] that 2(3)
        by (simp add: engine_ok_def) (auto simp: holders_ok_def newStoreHolders_def)
    qed (use 2(3) in \<open>auto simp: engine_ok_def Domains_Add_def keys_al_set\<close>)
    then have "engine_ok (bu_e (b\<lparr>bu_e := ?e'\<rparr>))" by simp
    with 2(1) [OF refl None] show ?thesis using None by (simp add: Let_def)
  next
    case (Some d')
    with 2 show ?thesis by (simp add: Let_def)
  qed
qed simp

lemma builder_Domains_registers:
  "Domains_Get (en_domains (bu_e b)) n \<noteq> None \<Longrightarrow>
     Domains_Get (en_domains (bu_e (builder_Domains env ds b))) n \<noteq> None"
  by (induction env ds b rule: builder_Domains.induct)
    (auto simp: Let_def Domains_Get_Add split: option.splits)

lemma builder_Domains_one:
  "Domains_Get (en_domains (bu_e (builder_Domains env [d] b))) (dom_Name d) \<noteq> None"
  by (auto simp: Let_def Domains_Get_Add split: option.splits)

lemma wrap_domain:
  assumes "engine_ok e" and "wrap (Domains_domain (en_domains e)) sc s = Inr w"
    and "s \<noteq> None \<Longrightarrow> Domains_Get (en_domains e) (snd (the s)) \<noteq> None"
  shows "Domains_Get (en_domains e) (sh_domain w) \<noteq> None"
proof (cases s)
  case None
  with assms(2) obtain d where d: "Domains_domain (en_domains e) (str_get (ptr_Deref [] sc) ''domain'') = Inr d"
    "sh_domain w = dom_Name d"
    by (auto simp: wrap_def split: sum.splits)
  moreover have "dom_Name d = str_get (ptr_Deref [] sc) ''domain''"
    using Domains_domain_name [OF _ d(1)] assms(1) by (simp add: engine_ok_def)
  ultimately show ?thesis by (auto simp: Domains_domain_def Domains_Get_def split: option.splits)
qed (use assms in \<open>auto simp: wrap_def\<close>)

lemma ensureLH_domain: "sh_domain (snd (ensureLH env s)) = sh_domain s"
proof (cases rule: ensureLH_cases [where s = s and env = env])
  case (failed original e s1)
  then show ?thesis using createLH_fields(6) [OF failed(4)] by (simp add: recordErrorLH_def)
next
  case (created original k s1)
  then show ?thesis using createLH_fields(6) [OF created(4)] by simp
qed simp_all

text \<open>Adding a store: the domain's holder is there, so the call returns.\<close>

lemma builder_store_ok:
  assumes ok: "engine_ok (bu_e b)" and one: "(sc = None) \<noteq> (s = None)"
    and dom: "s \<noteq> None \<Longrightarrow> Domains_Get (en_domains (bu_e b)) (snd (the s)) \<noteq> None"
  shows "\<exists>b'. builder_store env sc s b = Returns b' \<and> engine_ok (bu_e b')"
proof (cases "wrap (Domains_domain (en_domains (bu_e b))) sc s")
  case (Inl err)
  then show ?thesis using ok by (simp add: builder_store_def)
next
  case (Inr w)
  let ?e = "bu_e b"
  obtain ss where ss: "map_of (en_storeHolders ?e) (sh_domain w) = Some ss"
    using wrap_domain [OF ok Inr dom] engine_ok_holder [OF ok, of "sh_domain w"] by auto
  obtain r w' where e: "storeHolder_Ensure (be_store env w) w = (r, w')" by (metis prod.collapse)
  have w': "holder_ok w'" "sh_domain w' = sh_domain w"
    using ensureLH_ok [OF wrap_ok [OF Inr one], of "be_store env w"] ensureLH_domain [of "be_store env w" w] e
    by (simp_all add: storeHolder_Ensure_def)
  let ?e' = "?e\<lparr>en_storeHolders := al_set (sh_domain w') (storeHolders_Add w' ss) (en_storeHolders ?e)\<rparr>"
  have key: "sh_domain w' \<in> fst ` set (en_storeHolders ?e)"
    using ss w'(2) by (metis map_of_eq_None_iff option.distinct(1))
  have hs: "holders_ok ss" using ok ss by (force simp: engine_ok_def dest: map_of_SomeD)
  have "engine_ok ?e'"
  proof (rule engine_okI)
    show "holders_ok hs" if "hs \<in> snd ` set (en_storeHolders ?e')" for hs
      using al_set_snd [of hs "sh_domain w'" "storeHolders_Add w' ss" "en_storeHolders ?e"] that ok
        storeHolders_Add_ok [OF hs w'(1)]
      by (simp add: engine_ok_def) auto
  qed (use ok key in \<open>auto simp: engine_ok_def map_fst_al_set keys_al_set\<close>)
  then show ?thesis using Inr ss e by (simp add: builder_store_def)
qed

lemma builder_Stores_ok:
  "engine_ok (bu_e b) \<Longrightarrow> \<exists>b'. builder_Stores env ss b = Returns b' \<and> engine_ok (bu_e b')"
proof (induction env ss b rule: builder_Stores.induct)
  case (2 env k d ss b)
  let ?b = "builder_Domains env [d] b"
  have ok: "engine_ok (bu_e ?b)" by (rule builder_Domains_ok [OF 2(2)])
  obtain b' where b': "builder_store env None (Some (k, dom_Name d)) ?b = Returns b'" "engine_ok (bu_e b')"
    using builder_store_ok [OF ok, of None "Some (k, dom_Name d)" env] builder_Domains_one [of env d b] by auto
  show ?case
  proof (cases "bu_err b = None \<and> bu_err ?b = None")
    case True
    with 2(1) [OF _ refl _ b'(1) b'(2)] b' show ?thesis by (simp del: builder_Domains.simps)
  next
    case False
    with 2(2) ok show ?thesis by (auto simp del: builder_Domains.simps)
  qed
qed simp

lemma builder_StoreConfigs_ok:
  "engine_ok (bu_e b) \<Longrightarrow> \<exists>b'. builder_StoreConfigs env scs b = Returns b' \<and> engine_ok (bu_e b')"
proof (induction env scs b rule: builder_StoreConfigs.induct)
  case (2 env sc scs b)
  from builder_store_ok [OF 2(2), of "Some sc" None env] obtain b' where
    b': "builder_store env (Some sc) None b = Returns b'" "engine_ok (bu_e b')" by auto
  with 2 show ?case by (cases "bu_err b = None") auto
qed simp

lemma builder_rules_ok:
  "engine_ok (bu_e b) \<Longrightarrow> builder_rules env rs b = Returns b' \<Longrightarrow> engine_ok (bu_e b')"
proof (induction env rs b rule: builder_rules.induct)
  case (2 env r rs b)
  show ?case
  proof (cases "bu_err b \<noteq> None \<or> map_of (en_rulesByName (bu_e b)) (r_Name r) \<noteq> None")
    case True
    with 2(2,3) show ?thesis by (auto split: if_splits)
  next
    case False
    then have err: "bu_err b = None" and new: "map_of (en_rulesByName (bu_e b)) (r_Name r) = None" by auto
    from 2(3) err new obtain s ss g gs where sg: "r_Start r = s # ss" "r_Goal r = g # gs"
      by (auto split: list.splits)
    let ?d = "builder_Domains env [be_domain env s, be_domain env g] b"
    let ?e = "bu_e ?d"
    let ?b = "?d\<lparr>bu_e := ?e\<lparr>en_rulesByName := al_set (r_Name r) r (en_rulesByName ?e), en_rules := en_rules ?e @ [r]\<rparr>\<rparr>"
    have same: "en_rulesByName ?e = en_rulesByName (bu_e b)" "en_rules ?e = en_rules (bu_e b)"
      by (auto simp: Let_def split: option.splits)
    have ok: "engine_ok ?e" by (rule builder_Domains_ok [OF 2(2)])
    have fresh: "r_Name r \<notin> r_Name ` set (en_rules ?e)"
      using new ok unfolding same engine_ok_def by (simp add: same map_of_indexed_None)
    have "engine_ok (bu_e ?b)"
    proof (rule engine_okI)
      show "en_rulesByName (bu_e ?b) = map (\<lambda>r. (r_Name r, r)) (en_rules (bu_e ?b))"
        using ok fresh by (simp add: engine_ok_def al_set_new image_image del: builder_Domains.simps)
    qed (use ok fresh in \<open>auto simp: engine_ok_def simp del: builder_Domains.simps\<close>)
    then show ?thesis
      using 2(1) [OF _ _ _ sg refl refl] 2(3) err new sg by (simp add: Let_def del: builder_Domains.simps)
  qed
qed auto

lemma known_classes_e: "bu_e (snd (known_classes d name cs l b)) = bu_e b"
  and known_classes_err: "bu_err (snd (known_classes d name cs l b)) = bu_err b"
  by (induction d name cs l b rule: known_classes.induct) (auto simp: add_missing_def split: option.splits)

lemma builder_classes_e: "bu_e (snd (builder_classes name spec b)) = bu_e b"
  by (auto simp: builder_classes_def Let_def known_classes_e split: sum.splits)

text \<open>The error afterwards depends on the domain alone: one from before is lost.\<close>

lemma builder_classes_err:
  "bu_err (snd (builder_classes name spec b)) =
     (case Domains_domain (en_domains (bu_e b)) (cs_Domain spec) of Inl e \<Rightarrow> Some e | Inr d \<Rightarrow> None)"
  by (auto simp: builder_classes_def Let_def known_classes_err split: sum.splits)

lemma builder_classes_unknown:
  "Domains_domain (en_domains (bu_e b)) (cs_Domain spec) = Inl e \<Longrightarrow> fst (builder_classes name spec b) = []"
  by (simp add: builder_classes_def)

lemma name_error_e [simp]: "bu_e (name_error what name b) = bu_e b"
  by (simp add: name_error_def split: option.splits)

lemma configRule_ok:
  assumes ok: "engine_ok (bu_e b)" and r: "configRule env p r b = Returns b'"
  shows "engine_ok (bu_e b')"
proof -
  obtain start b1 where s: "builder_classes (cr_Name r) (cr_Start r) b = (start, b1)" by fastforce
  obtain goal b2 where g: "builder_classes (cr_Name r) (cr_Goal r) b1 = (goal, b2)" by fastforce
  have e: "bu_e b2 = bu_e b" using builder_classes_e s g by (metis snd_conv)
  have "engine_ok (bu_e c)" if "builder_rules env [k] (b2\<lparr>bu_err := None\<rparr>) = Returns c" for k c
    by (rule builder_rules_ok [OF _ that]) (simp add: e ok)
  then show ?thesis
    using r e ok unfolding configRule_def s
    by (auto simp: g simp del: builder_rules.simps split: if_splits sum.splits go.splits)
qed

lemma add_status_ok: "engine_ok (bu_e b) \<Longrightarrow> engine_ok (bu_e (add_status r c b))"
  by (simp add: add_status_def engine_ok_def)

lemma fold_add_status_ok: "engine_ok (bu_e b) \<Longrightarrow> engine_ok (bu_e (fold (add_status r) cs b))"
  by (induction cs arbitrary: b) (auto simp: add_status_ok)

lemma add_status_rules_ok: "engine_ok (bu_e b) \<Longrightarrow> engine_ok (bu_e (add_status_rules rs b))"
proof -
  have "engine_ok (bu_e b) \<Longrightarrow> engine_ok (bu_e (fold (\<lambda>r b. fold (add_status r) (sr_Start r) b) rs b))" for b :: "'a Builder"
    by (induction rs arbitrary: b) (auto simp: fold_add_status_ok)
  then show "engine_ok (bu_e b) \<Longrightarrow> ?thesis" by (simp add: add_status_rules_def)
qed

lemma configStatusRule_ok: "engine_ok (bu_e b) \<Longrightarrow> engine_ok (bu_e (configStatusRule env r b))"
  using builder_classes_e [of "csr_Name r" "csr_Start r" b]
  by (auto simp: configStatusRule_def fold_add_status_ok split: prod.splits sum.splits)

lemma run_deferred_ok:
  "engine_ok (bu_e b) \<Longrightarrow> run_deferred env p f b = Returns b' \<Longrightarrow> engine_ok (bu_e b')"
  by (cases f) (auto simp: run_deferred_def add_status_rules_ok configStatusRule_ok
      intro: builder_rules_ok configRule_ok)

lemma run_finally_ok:
  "engine_ok (bu_e b) \<Longrightarrow> run_finally env p fs b = Returns b' \<Longrightarrow> engine_ok (bu_e b')"
proof (induction env p fs b rule: run_finally.induct)
  case (2 env p f fs b)
  then show ?case by (auto split: go.splits if_splits intro: run_deferred_ok)
qed simp

lemma builder_config_ok:
  "engine_ok (bu_e b) \<Longrightarrow> \<exists>b'. builder_config env c b = Returns b' \<and> engine_ok (bu_e b')"
  using builder_StoreConfigs_ok [of b env "cf_Stores c"] by (auto simp: builder_config_def Let_def)

lemma builder_Tuning_ok: "engine_ok (bu_e b) \<Longrightarrow> engine_ok (bu_e (builder_Tuning t b))"
  by (auto simp: builder_Tuning_def engine_ok_def split: option.splits)

lemma builder_Configs_ok:
  "engine_ok (bu_e b) \<Longrightarrow> \<exists>b'. builder_Configs env n cs b = Returns b' \<and> engine_ok (bu_e b')"
proof (induction env n cs b rule: builder_Configs.induct)
  case (2 env source c cs b)
  then obtain b' where b': "builder_config env c b = Returns b'" "engine_ok (bu_e b')"
    using builder_config_ok by blast
  with 2(1) [OF b'(1) _ builder_Tuning_ok [OF b'(2)]] show ?case by (cases "bu_err b'") auto
qed simp

lemma parse_templates_ok: "engine_ok (bu_e b) \<Longrightarrow> engine_ok (bu_e (parse_templates env ts b))"
proof (induction env ts b rule: parse_templates.induct)
  case (2 env n t ts b)
  then show ?case by (auto simp: engine_ok_def split: option.splits)
qed simp

section \<open>Builders and engines in use\<close>

text \<open>The builders that sequences of calls make.\<close>

inductive built :: "'o builder_env \<Rightarrow> 'o Builder \<Rightarrow> bool" for env where
  built_Build: "built env Build"
| built_Domains: "built env b \<Longrightarrow> built env (builder_Domains env ds b)"
| built_Stores: "built env b \<Longrightarrow> builder_Stores env ss b = Returns b' \<Longrightarrow> built env b'"
| built_StoreConfigs: "built env b \<Longrightarrow> builder_StoreConfigs env scs b = Returns b' \<Longrightarrow> built env b'"
| built_Rules: "built env b \<Longrightarrow> built env (builder_Rules rs b)"
| built_StatusRules: "built env b \<Longrightarrow> built env (builder_StatusRules srs b)"
| built_Config: "built env b \<Longrightarrow> builder_Config env cs b = Returns b' \<Longrightarrow> built env b'"
| built_Tuning: "built env b \<Longrightarrow> built env (builder_Tuning t b)"
| built_ConfigFile: "built env b \<Longrightarrow> builder_ConfigFile env load path b = Returns b' \<Longrightarrow> built env b'"

lemma builder_Config_ok:
  "engine_ok (bu_e b) \<Longrightarrow> \<exists>b'. builder_Config env cs b = Returns b' \<and> engine_ok (bu_e b')"
  using builder_Configs_ok by (auto simp: builder_Config_def)

lemma builder_ConfigFile_ok:
  "engine_ok (bu_e b) \<Longrightarrow> \<exists>b'. builder_ConfigFile env load path b = Returns b' \<and> engine_ok (bu_e b')"
  using builder_Config_ok by (auto simp: builder_ConfigFile_def split: sum.splits)

lemma built_ok: "built env b \<Longrightarrow> engine_ok (bu_e b)"
proof (induction rule: built.induct)
  case (built_Stores b ss b')
  with builder_Stores_ok [of b env ss] show ?case by auto
next
  case (built_StoreConfigs b scs b')
  with builder_StoreConfigs_ok [of b env scs] show ?case by auto
next
  case (built_Config b cs b')
  with builder_Config_ok [of b env cs] show ?case by auto
next
  case (built_ConfigFile b load path b')
  with builder_ConfigFile_ok [of b env load path] show ?case by auto
qed (auto simp: builder_Rules_def builder_StatusRules_def intro: engine_intro builder_Tuning_ok)

lemma engine_ok_data: "engine_ok (e\<lparr>en_data := x\<rparr>) = engine_ok e"
  by (simp add: engine_ok_def)

lemma builder_Engine_engine:
  assumes "built env b" and "builder_Engine env p b = Returns ((e, err), b')"
  shows "engine_ok e" "en_data e = NewData (en_rules e)" "b' = Build"
proof -
  let ?b = "buildTemplateBase env b"
  have "engine_ok (bu_e ?b)"
    using built_ok [OF assms(1)] parse_templates_ok by (auto simp: buildTemplateBase_def)
  moreover from assms(2) obtain c where "run_finally env p (bu_finally ?b) ?b = Returns c"
    "e = (bu_e c)\<lparr>en_data := NewData (en_rules (bu_e c))\<rparr>" "b' = Build"
    by (auto simp: builder_Engine_def Let_def split: go.splits)
  ultimately show "engine_ok e" "en_data e = NewData (en_rules e)" "b' = Build"
    using run_finally_ok by (auto simp: engine_ok_data)
qed

text \<open>C14: An engine that any calls of the builder's methods give finds exactly its own rules by their names,
  has a store holder for exactly the domains that it knows, and its graph is that of its rules; the builder
  is as new.\<close>

theorem builder_Engine_spec:
  assumes "built env b" and "builder_Engine env p b = Returns ((e, err), b')"
  shows "(\<forall>n r. engine_Rule e n = Some r \<longleftrightarrow> r \<in> set (en_rules e) \<and> r_Name r = n) \<and>
    (\<forall>n. map_of (en_storeHolders e) n = None \<longleftrightarrow> Domains_Get (en_domains e) n = None) \<and>
    en_data e = NewData (en_rules e) \<and> b' = Build"
proof -
  note e = builder_Engine_engine [OF assms]
  have "engine_Rule e n = Some r \<longleftrightarrow> r \<in> set (en_rules e) \<and> r_Name r = n" for n r
    using e(1) map_of_indexed [of r_Name "en_rules e" n r] by (simp add: engine_ok_def engine_Rule_def)
  with e(2,3) engine_ok_holder [OF e(1)] show ?thesis by blast
qed

text \<open>C15: Adding stores and configurations to a builder never panics: the domain of a store that is wrapped
  has a holder.\<close>

theorem builder_calls_return:
  assumes "built env b"
  shows "(\<exists>b'. builder_Stores env ss b = Returns b') \<and> (\<exists>b'. builder_StoreConfigs env scs b = Returns b') \<and>
    (\<exists>b'. builder_Config env cs b = Returns b')"
  using builder_Stores_ok [OF built_ok [OF assms], of env ss]
    builder_StoreConfigs_ok [OF built_ok [OF assms], of env scs] builder_Config_ok [OF built_ok [OF assms], of env cs]
  by blast

lemma builder_calls_return_witness:
  "(\<exists>b'. builder_Stores (undefined :: nat builder_env) [] Build = Returns b') \<and>
   (\<exists>b'. builder_StoreConfigs (undefined :: nat builder_env) [[(''domain'', ''log'')]] Build = Returns b') \<and>
   (\<exists>b'. builder_Config (undefined :: nat builder_env) [] Build = Returns b')"
  by (rule builder_calls_return [OF built_Build])

text \<open>A builder with the network flow domain and its rule-free engine.\<close>

definition example_builder_env :: "nat builder_env" where
  "example_builder_env = \<lparr>be_same = (\<lambda>d e. dom_Name d = dom_Name e), be_domain = (\<lambda>c. netflow_Domain),
     be_store = (\<lambda>h. example_env (Inr 7) None 0), be_parse_base = (\<lambda>n t. None),
     be_parse_rule = (\<lambda>n t. Inr (\<lambda>x. Returns (Inr t))), be_apply_rule = (\<lambda>r x. Inr []),
     be_parse_status = (\<lambda>n t. Inr (\<lambda>x. Inr []))\<rparr>"

definition example_builder :: "nat Builder" where
  "example_builder = builder_Domains example_builder_env [netflow_Domain] Build"

definition example_engine :: "nat engine" where
  "example_engine = bu_e example_builder"

lemma example_engine_facts:
  "ds_domains (en_domains example_engine) = [(''netflow'', netflow_Domain)]"
  "ds_queries (en_domains example_engine) = Map.empty"
  "example_engine\<lparr>en_data := NewData (en_rules example_engine)\<rparr> = example_engine"
  and example_builder_facts:
  "bu_err example_builder = None" "bu_finally example_builder = []" "bu_templates example_builder = []"
  by (simp_all add: example_engine_def example_builder_def Build_def NewDomains_def Domains_Get_def Domains_Add_def
      Let_def netflow_Domain_def NewDomain_def newStoreHolders_def)

lemma example_built: "built example_builder_env example_builder"
  unfolding example_builder_def by (intro built_Domains built_Build)

lemma example_builder_Engine:
  "builder_Engine example_builder_env 0 example_builder = Returns ((example_engine, None), Build)"
  using example_engine_facts(3) example_builder_facts
  by (simp add: builder_Engine_def buildTemplateBase_def Let_def flip: example_engine_def)

lemma builder_Engine_spec_witness:
  "(\<forall>n r. engine_Rule example_engine n = Some r \<longleftrightarrow> r \<in> set (en_rules example_engine) \<and> r_Name r = n) \<and>
    (\<forall>n. map_of (en_storeHolders example_engine) n = None \<longleftrightarrow> Domains_Get (en_domains example_engine) n = None) \<and>
    en_data example_engine = NewData (en_rules example_engine) \<and> (Build :: nat Builder) = Build"
  by (rule builder_Engine_spec [OF example_built example_builder_Engine])

section \<open>Queries\<close>

inductive running :: "'o builder_env \<Rightarrow> 'o engine \<Rightarrow> bool" for env where
  running_Engine: "built env b \<Longrightarrow> builder_Engine env p b = Returns ((e, err), b') \<Longrightarrow> running env e"
| running_Query: "running env e \<Longrightarrow> engine_Query s e = (r, e') \<Longrightarrow> running env e'"
| running_Get: "running env e \<Longrightarrow> list_all (\<lambda>env. zero_time \<le> se_now env) envs \<Longrightarrow>
     engine_Get envs now q c e = Returns (r, e') \<Longrightarrow> running env e'"

definition lawful :: "'o engine \<Rightarrow> bool" where
  "lawful e \<longleftrightarrow> (\<forall>d \<in> snd ` set (ds_domains (en_domains e)). domain_laws d)"

lemma engine_Query_domains:
  "engine_Query s e = (r, e') \<Longrightarrow> ds_domains (en_domains e') = ds_domains (en_domains e)"
  by (auto simp: engine_Query_def Domains_Query_def Domains_lockedQuery_def split: option.splits sum.splits prod.splits)

text \<open>A query the registry gives is for the domain that its text names.\<close>

lemma lockedQuery_domain:
  assumes "Domains_lockedQuery s ds = (Inr q, ds')" and "ds_queries ds s = None"
    and "\<forall>d \<in> snd ` set (ds_domains ds). domain_laws d"
  shows "k_domain (q_class q) \<in> fst ` set (ds_domains ds) \<and> ds_queries ds' = (ds_queries ds)(s \<mapsto> q) \<or> \<not> Domains_ok ds"
proof -
  from assms(1,2) obtain domain d where d: "map_of (ds_domains ds) domain = Some d"
    "dom_Query d (ds_next ds) s = Inr q" "ds_queries ds' = (ds_queries ds)(s \<mapsto> q)"
    by (auto simp: Domains_lockedQuery_def Domains_domain_def split: sum.splits option.splits prod.splits)
  have "(domain, d) \<in> set (ds_domains ds)" using d(1) by (rule map_of_SomeD)
  moreover then have "k_domain (q_class q) = dom_Name d"
    using domain_laws.query_domain [OF _ d(2)] assms(3) by force
  ultimately show ?thesis using d(3) by (force simp: Domains_ok_def)
qed

lemma engine_Query_ok:
  assumes ok: "engine_ok e" and laws: "lawful e" and q: "engine_Query s e = (r, e')"
  shows "engine_ok e' \<and> (\<forall>x. r = Inr x \<longrightarrow> x \<in> ran (ds_queries (en_domains e')))"
proof (cases "ds_queries (en_domains e) s")
  case (Some x)
  with q have "r = Inr x" "e' = e" by (auto simp: engine_Query_def Domains_Query_def Domains_rQuery_def)
  with ok Some show ?thesis by (auto intro: ranI)
next
  case None
  obtain ds where l: "Domains_lockedQuery s (en_domains e) = (r, ds)" "e' = e\<lparr>en_domains := ds\<rparr>"
    using q None by (auto simp: engine_Query_def Domains_Query_def Domains_rQuery_def split: prod.splits)
  have same: "ds_domains ds = ds_domains (en_domains e)" using engine_Query_domains [OF q] l(2) by simp
  have ds: "Domains_ok ds" using ok same by (simp add: engine_ok_def Domains_ok_def)
  show ?thesis
  proof (cases r)
    case (Inl err)
    with l None have "ds = en_domains e"
      by (auto simp: Domains_lockedQuery_def split: sum.splits option.splits prod.splits)
    with l ok Inl show ?thesis by simp
  next
    case (Inr x)
    have "k_domain (q_class x) \<in> fst ` set (ds_domains (en_domains e))"
      "ds_queries ds = (ds_queries (en_domains e))(s \<mapsto> x)"
      using lockedQuery_domain [OF l(1) [unfolded Inr] None] laws ok by (auto simp: lawful_def engine_ok_def)
    moreover have "fst ` set (en_storeHolders e) = fst ` set (ds_domains (en_domains e))"
      using ok unfolding fst_image by (simp add: engine_ok_def)
    ultimately show ?thesis
      using ok l(2) Inr same ds by (auto simp: engine_ok_def ran_def)
  qed
qed

lemma storeHolders_Get_ok:
  assumes "holders_ok ss" and "list_all (\<lambda>env. zero_time \<le> se_now env) envs"
  shows "\<exists>r ss'. storeHolders_Get envs q c ss = Returns (r, ss') \<and> holders_ok ss'"
  using storeHolders_loop_results [OF assms(1) [unfolded holders_ok_def] assms(2), of q c "[]" "NewList []" False]
  by (auto simp: storeHolders_Get_def holders_ok_def)

lemma engine_Get_ok:
  assumes ok: "engine_ok e" and now: "list_all (\<lambda>env. zero_time \<le> se_now env) envs"
    and dom: "k_domain (q_class q) \<in> fst ` set (en_storeHolders e)"
  shows "\<exists>r e'. engine_Get envs now q c e = Returns (r, e') \<and> engine_ok e' \<and> en_domains e' = en_domains e"
proof -
  let ?d = "k_domain (q_class q)"
  obtain ss where ss: "map_of (en_storeHolders e) ?d = Some ss"
    using dom by (metis map_of_eq_None_iff not_None_eq)
  have "holders_ok ss" using ok ss by (force simp: engine_ok_def dest: map_of_SomeD)
  from storeHolders_Get_ok [OF this now, of q "Some (Constraint_Default now c)"]
  obtain r ss' where r: "storeHolders_Get envs q (Some (Constraint_Default now c)) ss = Returns (r, ss')"
    "holders_ok ss'" by blast
  let ?e = "e\<lparr>en_storeHolders := al_set ?d ss' (en_storeHolders e)\<rparr>"
  have "engine_ok ?e"
  proof (rule engine_okI)
    show "holders_ok hs" if "hs \<in> snd ` set (en_storeHolders ?e)" for hs
      using al_set_snd [of hs ?d ss' "en_storeHolders e"] that ok r(2) by (simp add: engine_ok_def) auto
  qed (use ok dom in \<open>auto simp: engine_ok_def map_fst_al_set keys_al_set\<close>)
  then show ?thesis using ok r ss by (cases "length (ss_stores ss) = 0") (auto simp: engine_Get_def Let_def)
qed

lemma running_ok: "running env e \<Longrightarrow> lawful e \<Longrightarrow> engine_ok e"
proof (induction rule: running.induct)
  case (running_Engine b p e err b')
  then show ?case using builder_Engine_engine(1) by blast
next
  case (running_Query e s r e')
  then have "lawful e" using engine_Query_domains [OF running_Query(2)] by (simp add: lawful_def)
  with running_Query show ?case using engine_Query_ok by blast
next
  case (running_Get e envs now q c r e')
  have same: "ds_domains (en_domains e') = ds_domains (en_domains e)"
    using running_Get(3) by (auto simp: engine_Get_def Let_def split: option.splits go.splits if_splits)
  then have ok: "engine_ok e" using running_Get by (simp add: lawful_def)
  have "k_domain (q_class q) \<in> fst ` set (en_storeHolders e)"
    using running_Get(3) by (force simp: engine_Get_def Let_def dest: map_of_SomeD split: option.splits)
  with engine_Get_ok [OF ok running_Get(2), of q now c] running_Get(3) show ?case by auto
qed

text \<open>C16: A query that an engine in use parses can be asked of it: when the domains keep the laws of domains,
  \<open>Get\<close> finds the holder of the query's domain and returns.\<close>

theorem engine_Query_Get_returns:
  assumes "running env e" and "lawful e" and "engine_Query s e = (Inr q, e')"
    and "list_all (\<lambda>env. zero_time \<le> se_now env) envs"
  shows "\<exists>r e''. engine_Get envs now q c e' = Returns (r, e'')"
proof -
  have ok: "engine_ok e'" "q \<in> ran (ds_queries (en_domains e'))"
    using engine_Query_ok [OF running_ok [OF assms(1,2)] assms(2,3)] by auto
  then have "k_domain (q_class q) \<in> fst ` set (en_storeHolders e')" by (simp add: engine_ok_def)
  from engine_Get_ok [OF ok(1) assms(4) this, of now c] show ?thesis by blast
qed

lemma engine_Query_Get_returns_witness:
  "\<exists>q e'. engine_Query ''netflow:network:{}'' example_engine = (Inr q, e') \<and>
     (\<exists>r e''. engine_Get [] 0 q None e' = Returns (r, e''))"
proof -
  have split: "QuerySplit ''netflow:network:{}'' = Inr (''netflow'', ''network'', ''{}'')" by code_simp
  have "\<exists>q e'. engine_Query ''netflow:network:{}'' example_engine = (Inr q, e')"
    using split
    by (simp add: example_engine_facts engine_Query_def Domains_Query_def Domains_rQuery_def Domains_lockedQuery_def Domains_domain_def
        netflow_Domain_def NewDomain_def netflow_Query_def impl_ParseQuery_def classMap_def netflow_class_def)
  then obtain q e' where q: "engine_Query ''netflow:network:{}'' example_engine = (Inr q, e')" by blast
  have "running example_builder_env example_engine"
    by (rule running_Engine [OF example_built example_builder_Engine])
  moreover have "lawful example_engine"
    using netflow.domain_laws_axioms by (simp add: lawful_def example_engine_facts)
  ultimately show ?thesis using engine_Query_Get_returns [OF _ _ q, of example_builder_env "[]" 0 None] q by auto
qed

text \<open>A query made without the engine can be of a domain it does not know, for which \<open>Get\<close> has no holder.\<close>

lemma engine_Get_unknown:
  assumes "engine_ok e" and "Domains_Get (en_domains e) (k_domain (q_class q)) = None"
  shows "engine_Get envs now q c e = Panics ''nil pointer dereference''"
  using engine_ok_holder [OF assms(1), of "k_domain (q_class q)"] assms(2) by (simp add: engine_Get_def Let_def)

section \<open>Configured rules\<close>

text \<open>A configured rule whose start domain is unknown is dropped without an error when its goal domain
  is known: looking up the goal classes clears the error of the start classes.\<close>

theorem configRule_unknown_start:
  assumes "bu_err b = None" and "Domains_domain (en_domains (bu_e b)) (cs_Domain (cr_Start r)) = Inl err"
    and "Domains_domain (en_domains (bu_e b)) (cs_Domain (cr_Goal r)) = Inr d"
  shows "\<exists>b'. configRule env p r b = Returns b' \<and> bu_err b' = None \<and> bu_e b' = bu_e b"
proof -
  obtain b1 where s: "builder_classes (cr_Name r) (cr_Start r) b = ([], b1)"
    using builder_classes_unknown [OF assms(2)] by (metis prod.collapse)
  obtain goal b2 where g: "builder_classes (cr_Name r) (cr_Goal r) b1 = (goal, b2)" by fastforce
  have e: "bu_e b1 = bu_e b" "bu_e b2 = bu_e b1" using builder_classes_e s g by (metis snd_conv)+
  have "bu_err b2 = None"
    using builder_classes_err [of "cr_Name r" "cr_Goal r" b1] g e assms(3) by simp
  then show ?thesis using assms(1) s g e by (simp add: configRule_def name_error_def)
qed

lemma configRule_unknown_start_witness:
  "\<exists>b'. configRule example_builder_env 0
      \<lparr>cr_Name = ''r'', cr_Start = \<lparr>cs_Domain = ''nteflow'', cs_Classes = []\<rparr>,
       cr_Goal = \<lparr>cs_Domain = ''netflow'', cs_Classes = []\<rparr>, cr_Query = []\<rparr> example_builder = Returns b'
    \<and> bu_err b' = None \<and> bu_e b' = bu_e example_builder"
  by (rule configRule_unknown_start [where err = "DomainNotFoundError ''nteflow''" and d = netflow_Domain])
    (simp_all add: Domains_domain_def example_builder_facts example_engine_facts flip: example_engine_def)

lemma configRule_unknown_goal:
  assumes "bu_err b = None" and "Domains_domain (en_domains (bu_e b)) (cs_Domain (cr_Goal r)) = Inl err"
  shows "\<exists>b'. configRule env p r b = Returns b' \<and>
    bu_err b' = Some (ErrorWrap (''invalid rule '' @ cr_Name r @ '': '') err []) \<and> bu_e b' = bu_e b"
proof -
  obtain start b1 where s: "builder_classes (cr_Name r) (cr_Start r) b = (start, b1)" by fastforce
  obtain goal b2 where g: "builder_classes (cr_Name r) (cr_Goal r) b1 = (goal, b2)" by fastforce
  have e: "bu_e b1 = bu_e b" "bu_e b2 = bu_e b1" using builder_classes_e s g by (metis snd_conv)+
  have "goal = []" "bu_err b2 = Some err"
    using builder_classes_unknown [of b1 "cr_Goal r" err "cr_Name r"] builder_classes_err [of "cr_Name r" "cr_Goal r" b1] g e assms(2)
    by auto
  then show ?thesis using assms(1) s g e by (simp add: configRule_def name_error_def)
qed

end
