(* ===== verification/Scope.thy ===== *)
theory Scope
  imports Traverse
begin

text \<open>
  The entry points of \<open>pkg/engine/traverse/traverse.go\<close>: \<open>Goals\<close> and \<open>Neighbors\<close> choose the lines of the shared
  rule graph that are in scope (\<open>goalScope\<close>, \<open>neighborScope\<close>), run the traversal on them and, for goals,
  remove what leads to no goal.

  Parameters: gonum's \<open>BreadthFirst.Walk\<close> and \<open>YenKShortestPaths\<close>. What their documentation says of one call is a
  predicate (\<open>bfs_walks\<close>, \<open>yen_paths\<close>), a hypothesis of the lemmas that rely on it.
\<close>

section \<open>Neighbours\<close>

text \<open>The callbacks of a walk work on a state \<open>'s\<close>: \<open>Traverse\<close> on an edge, \<open>until\<close> on a node and its depth.\<close>

type_synonym 's bfs_traverse = "nat \<times> nat \<Rightarrow> 's \<Rightarrow> bool \<times> 's"
type_synonym 's bfs_until = "nat \<Rightarrow> nat \<Rightarrow> 's \<Rightarrow> bool \<times> 's"
type_synonym 's bfs_walk = "'s bfs_traverse \<Rightarrow> 's bfs_until \<Rightarrow> nat \<Rightarrow> 's \<Rightarrow> 's"

definition scope_traverse ::
  "'g multigraph \<Rightarrow> ('i, 'o, 'g) Graph \<Rightarrow> int \<Rightarrow> (int \<times> 'o Line list) bfs_traverse" where
  "scope_traverse mg shared maxDepth e s =
     (let (depth, ls) = s; ok = depth < maxDepth
      in (ok, (depth, if ok then ls @ EachLineBetween mg shared (fst e) (snd e) else ls)))"

definition scope_until :: "int \<Rightarrow> (int \<times> 'o Line list) bfs_until" where
  "scope_until maxDepth n d s = (int d > maxDepth, (int d, snd s))"

definition neighborScope ::
  "'g multigraph \<Rightarrow> (int \<times> 'o Line list) bfs_walk \<Rightarrow> ('i, 'o, 'g) Graph \<Rightarrow> klass \<Rightarrow> int \<Rightarrow> 'o Line list result"
where
  "neighborScope mg walk shared start maxDepth =
     (case graph_NodeForErr mg shared start of
        Inl err \<Rightarrow> Inl err
      | Inr u \<Rightarrow> Inr (snd (walk (scope_traverse mg shared maxDepth) (scope_until maxDepth) u (0, []))))"

text \<open>The calls of a walk that visits the nodes \<open>vs\<close> with their depths: \<open>until\<close> for each until it stops the walk,
  \<open>Traverse\<close> for the edges out of a node that does not. The edges \<open>Traverse\<close> accepts come with the depth
  of their start.\<close>

fun call_edges :: "'s bfs_traverse \<Rightarrow> nat \<Rightarrow> nat list \<Rightarrow> 's \<Rightarrow> nat list \<times> 's" where
  "call_edges tr n [] s = ([], s)"
| "call_edges tr n (v # vs) s =
     (let (ok, s) = tr (n, v) s; (acc, s) = call_edges tr n vs s in (if ok then v # acc else acc, s))"

fun bfs_calls ::
  "'s bfs_traverse \<Rightarrow> 's bfs_until \<Rightarrow> (nat \<Rightarrow> nat list) \<Rightarrow> (nat \<times> nat) list \<Rightarrow> 's \<Rightarrow>
     (nat \<times> nat \<times> nat) list \<times> bool \<times> 's" where
  "bfs_calls tr un out [] s = ([], False, s)"
| "bfs_calls tr un out ((n, d) # vs) s =
     (let (stop, s) = un n d s
      in if stop then ([], True, s)
         else (let (acc, s) = call_edges tr n (out n) s;
                   (es, stopped, s) = bfs_calls tr un out vs s
               in (map (\<lambda>v. (n, d, v)) acc @ es, stopped, s)))"

text \<open>The documented behaviour of one walk: it starts at the node with depth 0, reaches every other node over an
  accepted edge from a node one less deep and, unless it is stopped, visits the end of every accepted
  edge at a depth that is at most one more.\<close>

definition bfs_walks ::
  "'s bfs_traverse \<Rightarrow> 's bfs_until \<Rightarrow> (nat \<Rightarrow> nat list) \<Rightarrow> nat \<Rightarrow> 's \<Rightarrow> 's \<Rightarrow> bool" where
  "bfs_walks tr un out u s s' \<longleftrightarrow>
     (\<exists>vs es stopped. bfs_calls tr un out ((u, 0) # vs) s = (es, stopped, s') \<and>
        (\<forall>(v, d) \<in> set vs. \<exists>n d'. d = Suc d' \<and> (n, d', v) \<in> set es) \<and>
        (\<not> stopped \<longrightarrow> (\<forall>(n, d, v) \<in> set es. \<exists>d' \<le> Suc d. (v, d') \<in> set ((u, 0) # vs))))"

section \<open>Goals\<close>

text \<open>The lines between the consecutive nodes of a path.\<close>

fun path_lines :: "'g multigraph \<Rightarrow> ('i, 'o, 'g) Graph \<Rightarrow> nat list \<Rightarrow> 'o Line list" where
  "path_lines mg shared (u # v # p) = EachLineBetween mg shared u v @ path_lines mg shared (v # p)"
| "path_lines mg shared p = []"

fun goal_lines ::
  "'g multigraph \<Rightarrow> (nat \<Rightarrow> nat \<Rightarrow> nat list list) \<Rightarrow> ('i, 'o, 'g) Graph \<Rightarrow> nat \<Rightarrow> klass list \<Rightarrow> 'o Line list result"
where
  "goal_lines mg yen shared u [] = Inr []"
| "goal_lines mg yen shared u (goal # goals) =
     (case graph_NodeForErr mg shared goal of
        Inl err \<Rightarrow> Inl err
      | Inr v \<Rightarrow>
          (case goal_lines mg yen shared u goals of
             Inl err \<Rightarrow> Inl err
           | Inr ls \<Rightarrow> Inr (concat (map (path_lines mg shared) (yen u v)) @ ls)))"

definition goalScope ::
  "'g multigraph \<Rightarrow> (nat \<Rightarrow> nat \<Rightarrow> nat list list) \<Rightarrow> ('i, 'o, 'g) Graph \<Rightarrow> klass \<Rightarrow> klass list \<Rightarrow> 'o Line list result"
where
  "goalScope mg yen shared start goals =
     (case graph_NodeForErr mg shared start of
        Inl err \<Rightarrow> Inl err
      | Inr u \<Rightarrow> goal_lines mg yen shared u goals)"

text \<open>The documented result of \<open>YenKShortestPaths\<close> without a bound on their number and with cost 1: the loopless
  paths whose weight exceeds the least by at most 1.\<close>

fun path_ok :: "'g multigraph \<Rightarrow> ('i, 'o, 'g) Graph \<Rightarrow> nat list \<Rightarrow> bool" where
  "path_ok mg g (u # v # p) \<longleftrightarrow> mg_Lines mg (g_multi g) u v \<noteq> [] \<and> path_ok mg g (v # p)"
| "path_ok mg g p \<longleftrightarrow> p \<noteq> []"

fun path_weight :: "'g multigraph \<Rightarrow> ('i, 'o, 'g) Graph \<Rightarrow> nat list \<Rightarrow> nat" where
  "path_weight mg g (u # v # p) = ptr_Deref 0 (fst (graph_Weight mg g u v)) + path_weight mg g (v # p)"
| "path_weight mg g p = 0"

definition is_path :: "'g multigraph \<Rightarrow> ('i, 'o, 'g) Graph \<Rightarrow> nat \<Rightarrow> nat \<Rightarrow> nat list \<Rightarrow> bool" where
  "is_path mg g u v p \<longleftrightarrow> path_ok mg g p \<and> hd p = u \<and> last p = v \<and> distinct p"

definition yen_paths :: "'g multigraph \<Rightarrow> ('i, 'o, 'g) Graph \<Rightarrow> nat \<Rightarrow> nat \<Rightarrow> nat list list \<Rightarrow> bool" where
  "yen_paths mg g u v ps \<longleftrightarrow>
     set ps = {p. is_path mg g u v p \<and>
       (\<forall>p'. is_path mg g u v p' \<longrightarrow> path_weight mg g p \<le> path_weight mg g p' + 1)}"

section \<open>The traversals\<close>

text \<open>\<open>Neighbors\<close> and \<open>Goals\<close> up to \<open>run\<close>; \<open>shared\<close> is the engine's graph.\<close>

definition Neighbors_traverser ::
  "'g multigraph \<Rightarrow> (int \<times> 'o Line list) bfs_walk \<Rightarrow> ('i, 'o) trav_env \<Rightarrow> ('i, 'o, 'g) Graph \<Rightarrow>
     Constraint option \<Rightarrow> int \<Rightarrow> ('i, 'o) traverser result" where
  "Neighbors_traverser mg walk env shared c depth =
     (case neighborScope mg walk shared (st_Class (te_start env)) depth of
        Inl err \<Rightarrow> Inl err
      | Inr scope \<Rightarrow> Inr (newTraverser env (g_Data shared) scope c depth))"

definition Goals_traverser ::
  "'g multigraph \<Rightarrow> (nat \<Rightarrow> nat \<Rightarrow> nat list list) \<Rightarrow> ('i, 'o) trav_env \<Rightarrow> ('i, 'o, 'g) Graph \<Rightarrow>
     Constraint option \<Rightarrow> klass list \<Rightarrow> ('i, 'o) traverser result" where
  "Goals_traverser mg yen env shared c goals =
     (case goalScope mg yen shared (st_Class (te_start env)) goals of
        Inl err \<Rightarrow> Inl err
      | Inr scope \<Rightarrow> Inr (newTraverser env (g_Data shared) scope c (-1)))"

text \<open>What \<open>run\<close> returns when it has finished, and what the two give: \<open>Neighbors\<close> returns a graph with the error of
  a cancelled context, \<open>Goals\<close> only the error.\<close>

definition run_result :: "'g multigraph \<Rightarrow> ('i, 'o) run \<Rightarrow> ('i, 'o, 'g) Graph \<times> error option" where
  "run_result mg st =
     (buildGraph mg (ru_t st), if tv_cancelled (ru_t st) then Some (ErrorString ''context canceled'') else None)"

definition Goals_result ::
  "'g multigraph \<Rightarrow> ('g \<Rightarrow> nat \<Rightarrow> nat \<Rightarrow> bool) \<Rightarrow> klass list \<Rightarrow> ('i, 'o) run \<Rightarrow> ('i, 'o, 'g) Graph result" where
  "Goals_result mg between goals st =
     (case run_result mg st of
        (_, Some err) \<Rightarrow> Inl err
      | (g, None) \<Rightarrow> Inr (RemoveEmptyGoalPaths mg between goals g))"

section \<open>The scope of neighbours\<close>

lemma call_edges_scope:
  "call_edges (scope_traverse mg shared m) n vs (d, ls) =
     (if d < m then (vs, (d, ls @ concat (map (EachLineBetween mg shared n) vs))) else ([], (d, ls)))"
  by (induction vs arbitrary: ls) (auto simp: scope_traverse_def Let_def)

definition scope_lines :: "'g multigraph \<Rightarrow> ('i, 'o, 'g) Graph \<Rightarrow> int \<Rightarrow> (nat \<Rightarrow> nat list) \<Rightarrow> nat \<times> nat \<Rightarrow> 'o Line list" where
  "scope_lines mg shared m out nd =
     (if int (snd nd) < m then concat (map (EachLineBetween mg shared (fst nd)) (out (fst nd))) else [])"

definition scope_edges :: "int \<Rightarrow> (nat \<Rightarrow> nat list) \<Rightarrow> nat \<times> nat \<Rightarrow> (nat \<times> nat \<times> nat) list" where
  "scope_edges m out nd = (if int (snd nd) < m then map (\<lambda>v. (fst nd, snd nd, v)) (out (fst nd)) else [])"

lemma scope_lines_set:
  "l \<in> set (scope_lines mg shared m out nd) \<longleftrightarrow>
     int (snd nd) < m \<and> (\<exists>v \<in> set (out (fst nd)). l \<in> set (EachLineBetween mg shared (fst nd) v))"
  by (auto simp: scope_lines_def)

lemma bfs_calls_scope:
  "bfs_calls (scope_traverse mg shared m) (scope_until m) out (nd # vs) s =
     (if m < int (snd nd) then ([], True, (int (snd nd), snd s))
      else (let (es, stopped, s) = bfs_calls (scope_traverse mg shared m) (scope_until m) out vs
                  (int (snd nd), snd s @ scope_lines mg shared m out nd)
            in (scope_edges m out nd @ es, stopped, s)))"
  by (cases nd) (auto simp: scope_until_def call_edges_scope scope_lines_def scope_edges_def Let_def split: prod.splits)

lemma bfs_calls_edges:
  "bfs_calls (scope_traverse mg shared m) (scope_until m) out vs s = (es, stopped, s') \<Longrightarrow>
     (n, d, v) \<in> set es \<Longrightarrow> int d < m \<and> (n, d) \<in> set vs \<and> v \<in> set (out n)"
proof (induction vs arbitrary: s es stopped s')
  case (Cons nd vs)
  obtain es' st' s'' where r: "bfs_calls (scope_traverse mg shared m) (scope_until m) out vs
      (int (snd nd), snd s @ scope_lines mg shared m out nd) = (es', st', s'')"
    by (metis prod_cases3)
  show ?case
  proof (cases "(n, d, v) \<in> set (scope_edges m out nd)")
    case True
    then show ?thesis by (auto simp: scope_edges_def split: if_splits)
  next
    case False
    then have "(n, d, v) \<in> set es'"
      using Cons.prems r by (auto simp: bfs_calls_scope simp del: bfs_calls.simps split: if_splits)
    then show ?thesis using Cons.IH [OF r] by simp
  qed
qed simp

lemma bfs_calls_lines:
  assumes "\<forall>(n, d) \<in> set vs. int d \<le> m"
  shows "\<exists>depth. bfs_calls (scope_traverse mg shared m) (scope_until m) out vs s =
     (concat (map (scope_edges m out) vs), False, depth, snd s @ concat (map (scope_lines mg shared m out) vs))"
  using assms
proof (induction vs arbitrary: s)
  case Nil
  show ?case by (cases s) simp
next
  case (Cons nd vs)
  then have "\<forall>(n, d) \<in> set vs. int d \<le> m" by simp
  from Cons.IH [OF this, of "(int (snd nd), snd s @ scope_lines mg shared m out nd)"] obtain depth where
    "bfs_calls (scope_traverse mg shared m) (scope_until m) out vs
      (int (snd nd), snd s @ scope_lines mg shared m out nd) =
     (concat (map (scope_edges m out) vs), False, depth,
      (snd s @ scope_lines mg shared m out nd) @ concat (map (scope_lines mg shared m out) vs))"
    by auto
  with Cons.prems show ?case by (auto simp: bfs_calls_scope simp del: bfs_calls.simps)
qed

text \<open>The nodes that a number of edges leads to.\<close>

fun reached :: "(nat \<Rightarrow> nat list) \<Rightarrow> nat \<Rightarrow> nat \<Rightarrow> nat \<Rightarrow> bool" where
  "reached out 0 u v = (v = u)"
| "reached out (Suc k) u v = (\<exists>n. reached out k u n \<and> v \<in> set (out n))"

lemma bfs_walks_lines:
  assumes "bfs_walks (scope_traverse mg shared m) (scope_until m) out u (0, []) s'"
  shows "l \<in> set (snd s') \<longleftrightarrow>
    (\<exists>k n v. int k < m \<and> reached out k u n \<and> v \<in> set (out n) \<and> l \<in> set (EachLineBetween mg shared n v))"
proof -
  from assms obtain vs es stopped where
    run: "bfs_calls (scope_traverse mg shared m) (scope_until m) out ((u, 0) # vs) (0, []) = (es, stopped, s')"
    and from_edge: "\<forall>(v, d) \<in> set vs. \<exists>n d'. d = Suc d' \<and> (n, d', v) \<in> set es"
    and to_node: "\<not> stopped \<longrightarrow> (\<forall>(n, d, v) \<in> set es. \<exists>d' \<le> Suc d. (v, d') \<in> set ((u, 0) # vs))"
    unfolding bfs_walks_def by blast
  let ?vs = "(u, 0) # vs"
  show ?thesis
  proof (cases "m < 0")
    case True
    then have "snd s' = []" using run by (auto simp: bfs_calls_scope simp del: bfs_calls.simps)
    then show ?thesis using True by simp
  next
    case False
    have edge: "int d < m \<and> (n, d) \<in> set ?vs \<and> v \<in> set (out n)" if "(n, d, v) \<in> set es" for n d v
      by (rule bfs_calls_edges [OF run that])
    have "int d \<le> m" if vd: "(v, d) \<in> set vs" for v d
    proof -
      obtain n d' where "d = Suc d'" "(n, d', v) \<in> set es" using bspec [OF from_edge vd] by auto
      with edge [of n d' v] show ?thesis by simp
    qed
    then have "\<forall>(v, d) \<in> set ?vs. int d \<le> m" using False by auto
    from bfs_calls_lines [OF this, of mg shared out "(0, [])"] run
    have es: "es = concat (map (scope_edges m out) ?vs)" and ns: "\<not> stopped"
      and ls: "snd s' = concat (map (scope_lines mg shared m out) ?vs)" by auto
    have sound: "reached out d u v" if "(v, d) \<in> set ?vs" for v d
      using that
    proof (induction d arbitrary: v)
      case 0
      then show ?case using from_edge by fastforce
    next
      case (Suc d)
      then have "(v, Suc d) \<in> set vs" by simp
      then obtain n where "(n, d, v) \<in> set es" using from_edge by fastforce
      then show ?case using edge Suc.IH by (metis reached.simps(2))
    qed
    have complete: "\<exists>d \<le> k. (v, d) \<in> set ?vs" if "reached out k u v" "int k \<le> m" for k v
      using that
    proof (induction k arbitrary: v)
      case (Suc k)
      then obtain n where n: "reached out k u n" "v \<in> set (out n)" by auto
      with Suc obtain d where d: "d \<le> k" "(n, d) \<in> set ?vs" by force
      have "(n, d, v) \<in> set (scope_edges m out (n, d))" using n(2) d(1) Suc.prems(2) by (simp add: scope_edges_def)
      then have "(n, d, v) \<in> set es" unfolding es using d(2) by auto
      with to_node ns obtain d' where "d' \<le> Suc d" "(v, d') \<in> set ?vs" by blast
      with d(1) show ?case by (meson Suc_le_mono order_trans)
    qed simp
    have "l \<in> set (snd s') \<longleftrightarrow> (\<exists>(n, d) \<in> set ?vs. int d < m \<and> (\<exists>v \<in> set (out n). l \<in> set (EachLineBetween mg shared n v)))"
      unfolding ls by (simp add: scope_lines_set split_beta)
    also have "\<dots> \<longleftrightarrow> (\<exists>k n v. int k < m \<and> reached out k u n \<and> v \<in> set (out n) \<and> l \<in> set (EachLineBetween mg shared n v))"
    proof
      assume "\<exists>(n, d) \<in> set ?vs. int d < m \<and> (\<exists>v \<in> set (out n). l \<in> set (EachLineBetween mg shared n v))"
      then show "\<exists>k n v. int k < m \<and> reached out k u n \<and> v \<in> set (out n) \<and> l \<in> set (EachLineBetween mg shared n v)"
        using sound by blast
    next
      assume "\<exists>k n v. int k < m \<and> reached out k u n \<and> v \<in> set (out n) \<and> l \<in> set (EachLineBetween mg shared n v)"
      then obtain k n v where k: "int k < m" "reached out k u n" "v \<in> set (out n)"
        "l \<in> set (EachLineBetween mg shared n v)" by blast
      from complete [OF k(2)] k(1) obtain d where "d \<le> k" "(n, d) \<in> set ?vs" by auto
      with k show "\<exists>(n, d) \<in> set ?vs. int d < m \<and> (\<exists>v \<in> set (out n). l \<in> set (EachLineBetween mg shared n v))"
        by fastforce
    qed
    finally show ?thesis .
  qed
qed

lemma neighborScope_lines:
  assumes "graph_NodeFor mg shared start = Some u"
    and "bfs_walks (scope_traverse mg shared m) (scope_until m) (mg_From mg (g_multi shared)) u (0, [])
           (walk (scope_traverse mg shared m) (scope_until m) u (0, []))"
  shows "\<exists>ls. neighborScope mg walk shared start m = Inr ls \<and>
    (\<forall>l. l \<in> set ls \<longleftrightarrow>
       (\<exists>k n. int k < m \<and> reached (mg_From mg (g_multi shared)) k u n \<and> l \<in> set (EachLineFrom mg shared n)))"
  using bfs_walks_lines [OF assms(2)] assms(1)
  by (auto simp: neighborScope_def graph_NodeForErr_def EachLineFrom_def)

text \<open>C11: The scope of a neighbourhood search of depth \<open>m\<close> is exactly the lines that start at a class fewer than \<open>m\<close>
  edges away from the start class, given the documented behaviour of the breadth-first walk.\<close>

theorem neighborScope_spec:
  assumes "graph_NodeFor mg shared start = Some u"
    and "bfs_walks (scope_traverse mg shared m) (scope_until m) (mg_From mg (g_multi shared)) u (0, [])
           (walk (scope_traverse mg shared m) (scope_until m) u (0, []))"
  shows "\<exists>ls. neighborScope mg walk shared start m = Inr ls \<and>
    (\<forall>l. l \<in> set ls \<longleftrightarrow>
       (\<exists>k n. int k < m \<and> reached (mg_From mg (g_multi shared)) k u n \<and> l \<in> set (EachLineFrom mg shared n)))"
  using assms by (rule neighborScope_lines [where walk = walk])

lemma SharedGraph_Data: "g_Data (SharedGraph mg d) = d"
  by (simp add: SharedGraph_def graph_New_def Let_def)

text \<open>A walk of the graph with an edge from node 0 to node 1.\<close>

definition example_walk :: "'s bfs_walk" where
  "example_walk tr un u s = snd (snd (bfs_calls tr un (\<lambda>n. if n = 0 then [1] else []) [(u, 0), (1, 1)] s))"

lemma example_walks:
  fixes g :: "('i, 'o, nat list \<times> mline list) Graph"
  assumes "g_multi g = ([1, 0], [(0, 1, 0)])"
  shows "bfs_walks (scope_traverse list_multigraph g 1) (scope_until 1) (mg_From list_multigraph (g_multi g)) 0 (0, [])
      (example_walk (scope_traverse list_multigraph g 1) (scope_until 1) 0 (0, []))"
proof -
  let ?out = "\<lambda>n. if n = (0::nat) then [1::nat] else []"
  have out: "mg_From list_multigraph (g_multi g) = ?out" unfolding assms by (auto simp: list_multigraph_def)
  have calls: "bfs_calls (scope_traverse list_multigraph g 1) (scope_until 1) ?out [(0, 0), (1, 1)] (0, []) =
      ([(0, 0, 1)], False, (1, EachLineBetween list_multigraph g 0 1))"
    by (simp add: scope_until_def scope_traverse_def Let_def)
  show ?thesis
    unfolding out bfs_walks_def example_walk_def
  proof (intro exI conjI)
    show "bfs_calls (scope_traverse list_multigraph g 1) (scope_until 1) ?out ((0, 0) # [(1, 1)]) (0, []) =
        ([(0, 0, 1)], False, snd (snd (bfs_calls (scope_traverse list_multigraph g 1) (scope_until 1) ?out [(0, 0), (1, 1)] (0, []))))"
      by (simp only: calls snd_conv)
  qed simp_all
qed

lemma neighborScope_spec_witness:
  "\<exists>ls. neighborScope list_multigraph example_walk
     (SharedGraph list_multigraph (NewData [example_rule]) :: (nat, unit, nat list \<times> mline list) Graph)
     (Klass ''k8s'' ''Pod'') 1 = Inr ls \<and> d_Lines (NewData [example_rule]) ! 0 \<in> set ls"
proof -
  let ?g = "SharedGraph list_multigraph (NewData [example_rule]) :: (nat, unit, nat list \<times> mline list) Graph"
  have g: "g_multi ?g = ([1, 0], [(0, 1, 0)])" "graph_NodeFor list_multigraph ?g (Klass ''k8s'' ''Pod'') = Some 0"
    by code_simp+
  have "\<exists>ls. neighborScope list_multigraph example_walk ?g (Klass ''k8s'' ''Pod'') 1 = Inr ls \<and>
    (\<forall>l. l \<in> set ls \<longleftrightarrow> (\<exists>k n. int k < 1 \<and> reached (mg_From list_multigraph (g_multi ?g)) k 0 n \<and>
        l \<in> set (EachLineFrom list_multigraph ?g n)))"
    by (rule neighborScope_spec [where walk = example_walk, OF g(2)]) (rule example_walks [OF g(1)])
  then obtain ls where
    ls: "neighborScope list_multigraph example_walk ?g (Klass ''k8s'' ''Pod'') 1 = Inr ls"
    "\<forall>l. l \<in> set ls \<longleftrightarrow> (\<exists>k n. int k < 1 \<and> reached (mg_From list_multigraph (g_multi ?g)) k 0 n \<and>
        l \<in> set (EachLineFrom list_multigraph ?g n))" by blast
  have "d_Lines (NewData [example_rule]) ! 0 \<in> set (EachLineFrom list_multigraph ?g 0)"
    unfolding EachLineFrom_def EachLineBetween_def g SharedGraph_Data by (simp add: list_multigraph_def)
  then have "d_Lines (NewData [example_rule]) ! 0 \<in> set ls" unfolding ls(2) [rule_format]
    by (intro exI [of _ 0]) simp
  with ls(1) show ?thesis by blast
qed

section \<open>The scope of goals\<close>

lemma ex_nat_split: "(\<exists>i. P i) \<longleftrightarrow> P 0 \<or> (\<exists>i. P (Suc i))"
  by (metis not0_implies_Suc)

lemma path_lines_set:
  "l \<in> set (path_lines mg g p) \<longleftrightarrow> (\<exists>i. Suc i < length p \<and> l \<in> set (EachLineBetween mg g (p ! i) (p ! Suc i)))"
proof (induction mg g p rule: path_lines.induct)
  case (1 mg g u v p)
  have "(\<exists>i. Suc i < length (u # v # p) \<and> l \<in> set (EachLineBetween mg g ((u # v # p) ! i) ((u # v # p) ! Suc i))) \<longleftrightarrow>
    l \<in> set (EachLineBetween mg g u v) \<or>
    (\<exists>i. Suc i < length (v # p) \<and> l \<in> set (EachLineBetween mg g ((v # p) ! i) ((v # p) ! Suc i)))"
    by (subst ex_nat_split) simp
  with 1 show ?case by simp
qed simp_all

lemma goal_lines_spec:
  assumes "goal_lines mg yen g u goals = Inr ls"
  shows "set ls = (\<Union>goal \<in> set goals. \<Union>p \<in> set (yen u (the (graph_NodeFor mg g goal))). set (path_lines mg g p))"
  using assms
  by (induction mg yen g u goals arbitrary: ls rule: goal_lines.induct)
    (auto simp: graph_NodeForErr_def split: option.splits sum.splits)

text \<open>C12: The scope of a goal search is the lines on the loopless paths from the start class to a goal class
  whose weight exceeds that of the lightest one by at most 1, given the documented result of Yen's algorithm.\<close>

theorem goalScope_spec:
  assumes "goalScope mg yen g start goals = Inr ls" and "graph_NodeFor mg g start = Some u"
    and "\<forall>goal \<in> set goals. yen_paths mg g u (the (graph_NodeFor mg g goal)) (yen u (the (graph_NodeFor mg g goal)))"
  shows "l \<in> set ls \<longleftrightarrow>
    (\<exists>goal \<in> set goals. \<exists>p. is_path mg g u (the (graph_NodeFor mg g goal)) p \<and>
       (\<exists>i. Suc i < length p \<and> l \<in> set (EachLineBetween mg g (p ! i) (p ! Suc i))) \<and>
       (\<forall>p'. is_path mg g u (the (graph_NodeFor mg g goal)) p' \<longrightarrow> path_weight mg g p \<le> path_weight mg g p' + 1))"
proof -
  have "goal_lines mg yen g u goals = Inr ls" using assms(1,2) by (simp add: goalScope_def graph_NodeForErr_def)
  from goal_lines_spec [OF this] assms(3) show ?thesis by (auto simp: yen_paths_def simp flip: path_lines_set)
qed

lemma example_paths:
  fixes g :: "(nat, unit, nat list \<times> mline list) Graph"
  assumes "g_multi g = ([1, 0], [(0, 1, 0)])"
  shows "is_path list_multigraph g 0 (Suc 0) p \<longleftrightarrow> p = [0, Suc 0]"
proof
  assume p: "is_path list_multigraph g 0 (Suc 0) p"
  have lines: "mg_Lines list_multigraph (g_multi g) u v \<noteq> [] \<longleftrightarrow> u = 0 \<and> v = 1" for u v
    by (simp add: assms list_multigraph_def)
  from p obtain q where q: "p = 0 # q" by (cases p) (auto simp: is_path_def)
  with p obtain v r where r: "q = v # r" by (cases q) (auto simp: is_path_def)
  with p q lines have v: "v = 1" by (simp add: is_path_def)
  with p q r lines have "r = []" by (cases r) (auto simp: is_path_def)
  with q r v show "p = [0, Suc 0]" by simp
qed (simp add: is_path_def assms list_multigraph_def)

lemma goalScope_spec_witness:
  "\<exists>ls. goalScope list_multigraph (\<lambda>u v. [[u, v]])
     (SharedGraph list_multigraph (NewData [example_rule]) :: (nat, unit, nat list \<times> mline list) Graph)
     (Klass ''k8s'' ''Pod'') [Klass ''log'' ''infra''] = Inr ls \<and> d_Lines (NewData [example_rule]) ! 0 \<in> set ls"
proof -
  let ?g = "SharedGraph list_multigraph (NewData [example_rule]) :: (nat, unit, nat list \<times> mline list) Graph"
  have g: "g_multi ?g = ([1, 0], [(0, 1, 0)])" "graph_NodeFor list_multigraph ?g (Klass ''k8s'' ''Pod'') = Some 0"
    "graph_NodeFor list_multigraph ?g (Klass ''log'' ''infra'') = Some 1" by code_simp+
  have yen: "yen_paths list_multigraph ?g 0 1 [[0, 1]]"
    by (auto simp: yen_paths_def example_paths [OF g(1)])
  obtain ls where ls: "goalScope list_multigraph (\<lambda>u v. [[u, v]]) ?g (Klass ''k8s'' ''Pod'') [Klass ''log'' ''infra''] = Inr ls"
    using g by (simp add: goalScope_def graph_NodeForErr_def)
  have l: "d_Lines (NewData [example_rule]) ! 0 \<in> set (path_lines list_multigraph ?g [0, Suc 0])"
    by (simp add: EachLineBetween_def g(1) SharedGraph_Data) (simp add: list_multigraph_def)
  have p: "is_path list_multigraph ?g 0 (Suc 0) p' \<longleftrightarrow> p' = [0, Suc 0]" for p'
    by (rule example_paths [OF g(1)])
  have yens: "\<forall>goal \<in> set [Klass ''log'' ''infra'']. yen_paths list_multigraph ?g 0
      (the (graph_NodeFor list_multigraph ?g goal)) [[0, the (graph_NodeFor list_multigraph ?g goal)]]"
    using yen g(3) by simp
  have to: "the (graph_NodeFor list_multigraph ?g (Klass ''log'' ''infra'')) = Suc 0" by (simp add: g(3))
  have all: "\<forall>p'. is_path list_multigraph ?g 0 (Suc 0) p' \<longrightarrow>
      path_weight list_multigraph ?g [0, Suc 0] \<le> path_weight list_multigraph ?g p' + 1"
    unfolding p by (simp del: path_weight.simps)
  have "is_path list_multigraph ?g 0 (Suc 0) [0, Suc 0] \<and>
      d_Lines (NewData [example_rule]) ! 0 \<in> set (path_lines list_multigraph ?g [0, Suc 0]) \<and>
      (\<forall>p'. is_path list_multigraph ?g 0 (Suc 0) p' \<longrightarrow>
         path_weight list_multigraph ?g [0, Suc 0] \<le> path_weight list_multigraph ?g p' + 1)"
    by (intro conjI l all) (simp only: p)
  from exI [where P = "\<lambda>p. is_path list_multigraph ?g 0 (Suc 0) p \<and>
      d_Lines (NewData [example_rule]) ! 0 \<in> set (path_lines list_multigraph ?g p) \<and>
      (\<forall>p'. is_path list_multigraph ?g 0 (Suc 0) p' \<longrightarrow>
         path_weight list_multigraph ?g p \<le> path_weight list_multigraph ?g p' + 1)", OF this]
  have "\<exists>goal \<in> set [Klass ''log'' ''infra'']. \<exists>p.
      is_path list_multigraph ?g 0 (the (graph_NodeFor list_multigraph ?g goal)) p \<and>
      d_Lines (NewData [example_rule]) ! 0 \<in> set (path_lines list_multigraph ?g p) \<and>
      (\<forall>p'. is_path list_multigraph ?g 0 (the (graph_NodeFor list_multigraph ?g goal)) p' \<longrightarrow>
         path_weight list_multigraph ?g p \<le> path_weight list_multigraph ?g p' + 1)"
    by (intro bexI [of _ "Klass ''log'' ''infra''"]) (simp_all only: to list.set insert_iff simp_thms)
  then have "d_Lines (NewData [example_rule]) ! 0 \<in> set ls"
    unfolding goalScope_spec [OF ls g(2) yens] path_lines_set .
  with ls show ?thesis by blast
qed

end
