(* ===== verification/Nearby.thy ===== *)
theory Nearby
  imports Scope Complete
begin

text \<open>
  What a neighbourhood search of \<open>pkg/engine/traverse/traverse.go\<close> finds: \<open>Neighbors\<close> as a whole, from the scope
  to the queries it executes. They are within the depth it is given, but which of them are executed can
  depend on the order in which the goroutines run.
\<close>

section \<open>An example whose result depends on the interleaving\<close>

text \<open>Rules from \<open>a\<close> to \<open>b\<close> and \<open>c\<close>, from \<open>b\<close> to \<open>c\<close> and from \<open>c\<close> to \<open>d\<close>; each gives one query for each object.\<close>

definition near_class :: "string \<Rightarrow> klass" where
  "near_class c = Klass ''mock'' c"

definition near_query :: "string \<Rightarrow> query" where
  "near_query c = \<lparr>q_class = near_class c, q_data = c, q_ptr = 0\<rparr>"

definition near_rule :: "nat \<Rightarrow> string \<Rightarrow> string \<Rightarrow> string rule" where
  "near_rule p a b = \<lparr>r_ptr = p, r_Name = a @ b, r_Start = [near_class a], r_Goal = [near_class b],
     r_Apply = (\<lambda>_. Inr [near_query b])\<rparr>"

definition near_data :: "string Data" where
  "near_data = NewData [near_rule 0 ''a'' ''b'', near_rule 1 ''a'' ''c'', near_rule 2 ''b'' ''c'', near_rule 3 ''c'' ''d'']"

definition near_trav :: "(string, string) trav_env" where
  "near_trav = \<lparr>te_start = \<lparr>st_Class = near_class ''a'', st_Objects = [''x''], st_Queries = []\<rparr>,
     te_get = (\<lambda>q. [q_data q]), te_status = (\<lambda>_. []), te_ider = (\<lambda>_. Some (\<lambda>x. x))\<rparr>"

definition near_init :: "(string, string) run" where
  "near_init = run_init near_trav (newTraverser near_trav near_data (d_Lines near_data) None 2) 1"

text \<open>The two schedules: the start object's queries are both sent before the worker runs, or the worker handles the
  query of \<open>b\<close> before the query of \<open>c\<close> is sent.\<close>

definition near_direct :: "nat list" where
  "near_direct = replicate 13 0 @ replicate 33 1 @ [0, 0, 1, 0]"

definition near_detour :: "nat list" where
  "near_detour = replicate 7 0 @ replicate 24 1 @ replicate 6 0 @ [1, 0]"

definition near_outcome :: "nat list \<Rightarrow> (bool \<times> string list \<times> (string \<times> string list) list) option" where
  "near_outcome schedule =
     map_option (\<lambda>st. (list_all2 (\<lambda>f p. f p) [is_finished, has_exited] (ru_procs st) \<and> \<not> tv_cancelled (ru_t st),
                       map q_data (ru_executed st),
                       map (\<lambda>(c, n). (k_name c, Result_List (tn_result n))) (tv_nodes (ru_t st))))
       (exec near_trav schedule near_init)"

lemma near_outcome_direct:
  "near_outcome near_direct =
     Some (True, [''b'', ''c'', ''d''], [(''a'', [''x'']), (''b'', [''b'']), (''c'', [''c'']), (''d'', [''d''])])"
  by code_simp

lemma near_outcome_detour:
  "near_outcome near_detour =
     Some (True, [''b'', ''c''], [(''a'', [''x'']), (''b'', [''b'']), (''c'', [''c'']), (''d'', [])])"
  by code_simp

text \<open>C10: What a search for neighbours of depth 2 finds depends on the interleaving: of two finished runs from the same
  start, with the same rules, stores and order of rules, one executes the query of \<open>d\<close>, two edges away, and
  the other does not: it reached \<open>c\<close> first over \<open>b\<close>, at depth 2, and dropped the shorter way as a duplicate.\<close>

theorem neighbors_depend_on_schedule:
  "\<exists>st st'. (run_step near_trav)\<^sup>*\<^sup>* near_init st \<and> run_finished st \<and> \<not> tv_cancelled (ru_t st) \<and>
     (run_step near_trav)\<^sup>*\<^sup>* near_init st' \<and> run_finished st' \<and> \<not> tv_cancelled (ru_t st') \<and>
     ''d'' \<in> q_data ` set (ru_executed st) \<and> ''d'' \<notin> q_data ` set (ru_executed st')"
proof -
  have outcome: "\<exists>st. (run_step near_trav)\<^sup>*\<^sup>* near_init st \<and> run_finished st \<and> \<not> tv_cancelled (ru_t st) \<and>
      q_data ` set (ru_executed st) = set qs" if o: "near_outcome schedule = Some (True, qs, ns)" for schedule qs ns
  proof -
    from o obtain st where st: "exec near_trav schedule near_init = Some st"
      "list_all2 (\<lambda>f p. f p) [is_finished, has_exited] (ru_procs st)" "\<not> tv_cancelled (ru_t st)"
      "map q_data (ru_executed st) = qs" by (auto simp: near_outcome_def)
    from st(2) have "run_finished st" by (auto simp: run_finished_def list_all2_Cons1)
    moreover have "q_data ` set (ru_executed st) = set qs" unfolding st(4) [symmetric] by (rule set_map [symmetric])
    ultimately show ?thesis using exec_run_steps [OF st(1)] st(3) by (intro exI [of _ st] conjI)
  qed
  from outcome [OF near_outcome_direct] obtain st where 1: "(run_step near_trav)\<^sup>*\<^sup>* near_init st" "run_finished st"
    "\<not> tv_cancelled (ru_t st)" "q_data ` set (ru_executed st) = set [''b'', ''c'', ''d'']" by (elim exE conjE)
  from outcome [OF near_outcome_detour] obtain st' where 2: "(run_step near_trav)\<^sup>*\<^sup>* near_init st'" "run_finished st'"
    "\<not> tv_cancelled (ru_t st')" "q_data ` set (ru_executed st') = set [''b'', ''c'']" by (elim exE conjE)
  have "''d'' \<in> q_data ` set (ru_executed st)" "''d'' \<notin> q_data ` set (ru_executed st')"
    unfolding 1(4) 2(4) by simp_all
  with 1(1-3) 2(1-3) show ?thesis by (intro exI [of _ st] exI [of _ st'] conjI)
qed

section \<open>The bound\<close>

text \<open>The classes a number of rule applications away.\<close>

fun class_within :: "'o rule list \<Rightarrow> nat \<Rightarrow> klass \<Rightarrow> klass \<Rightarrow> bool" where
  "class_within rules 0 c c' \<longleftrightarrow> c' = c"
| "class_within rules (Suc k) c c' \<longleftrightarrow>
     (\<exists>r \<in> set rules. c' \<in> set (r_Goal r) \<and> (\<exists>c1 \<in> set (r_Start r). class_within rules k c c1))"

lemma fold_mg_AddNode:
  "multigraph_laws mg \<Longrightarrow> mg_has_line mg (fold (\<lambda>n m. mg_AddNode mg (n_ID n) m) ns m) k = mg_has_line mg m k"
  by (induction ns arbitrary: m) simp_all

lemma fold_mg_SetLine:
  "multigraph_laws mg \<Longrightarrow> mg_has_line mg (fold (\<lambda>l m. mg_SetLine mg (l_line l) m) ls m) k \<longleftrightarrow>
     k \<in> l_line ` set ls \<or> mg_has_line mg m k"
  by (induction ls arbitrary: m) auto

lemma SharedGraph_lines:
  "multigraph_laws mg \<Longrightarrow> mg_has_line mg (g_multi (SharedGraph mg d)) k \<longleftrightarrow> k \<in> l_line ` set (d_Lines d)"
  by (simp add: SharedGraph_def graph_New_def Let_def fold_mg_SetLine fold_mg_AddNode)

lemma data_ok_line:
  assumes "data_ok d" and "l \<in> set (d_Lines d)"
  shows "d_Lines d ! l_UID l = l"
proof -
  from assms(2) obtain i where i: "i < length (d_Lines d)" "d_Lines d ! i = l" by (auto simp: in_set_conv_nth)
  have "map l_UID (d_Lines d) ! i = [0..<length (d_Lines d)] ! i" using assms(1) by (simp add: data_ok_def)
  with i show ?thesis by simp
qed

lemma EachLineBetween_SharedGraph:
  assumes "multigraph_laws mg" and "data_ok d"
  shows "l \<in> set (EachLineBetween mg (SharedGraph mg d) u v) \<longleftrightarrow> l \<in> set (d_Lines d) \<and> l_F l = u \<and> l_T l = v"
proof -
  have "uid \<in> set (mg_Lines mg (g_multi (SharedGraph mg d)) u v) \<longleftrightarrow> (u, v, uid) \<in> l_line ` set (d_Lines d)" for uid
    using SharedGraph_lines [OF assms(1), of d "(u, v, uid)"] by (simp add: mg_has_line_def)
  then have "l \<in> set (EachLineBetween mg (SharedGraph mg d) u v) \<longleftrightarrow>
      (\<exists>l' \<in> set (d_Lines d). l_F l' = u \<and> l_T l' = v \<and> l = d_Lines d ! l_UID l')"
    by (auto simp: EachLineBetween_def SharedGraph_Data l_line_def image_iff)
  then show ?thesis using data_ok_line [OF assms(2)] by metis
qed

text \<open>The rules and lines of a traverser are those of its scope.\<close>

lemma add_scope_line_fresh:
  "tv_lines (add_scope_line env l t) = (tv_lines t)(line_key (tv_data t) l \<mapsto> l)"
  "tv_data (add_scope_line env l t) = tv_data t"
  by (simp_all add: add_scope_line_def Let_def)

lemma newTraverser_line:
  assumes "tv_lines (newTraverser env d ls k m) key = Some l"
  shows "l \<in> set ls \<and> key = line_key d l"
proof -
  have step: "\<forall>key l. tv_lines (fold (add_scope_line env) ls' t) key = Some l \<longrightarrow> l \<in> set ls \<and> key = line_key d l"
    if "set ls' \<subseteq> set ls" "tv_data t = d" "\<forall>key l. tv_lines t key = Some l \<longrightarrow> l \<in> set ls \<and> key = line_key d l"
    for ls' t
    using that
  proof (induction ls' arbitrary: t)
    case (Cons l' ls')
    have "\<forall>key l. tv_lines (add_scope_line env l' t) key = Some l \<longrightarrow> l \<in> set ls \<and> key = line_key d l"
    proof (intro allI impI)
      fix key l
      assume l: "tv_lines (add_scope_line env l' t) key = Some l"
      show "l \<in> set ls \<and> key = line_key d l"
      proof (cases "key = line_key d l'")
        case True
        with l have "l = l'" using Cons.prems(2) by (simp add: add_scope_line_fresh)
        with True Cons.prems(1) show ?thesis by simp
      next
        case False
        with l have "tv_lines t key = Some l" using Cons.prems(2) by (simp add: add_scope_line_fresh)
        with Cons.prems(3) show ?thesis by blast
      qed
    qed
    note lines = this
    have "set ls' \<subseteq> set ls" "tv_data (add_scope_line env l' t) = d"
      using Cons.prems(1,2) by (simp_all add: add_scope_line_fresh)
    from Cons.IH [OF this lines] show ?case unfolding fold_Cons comp_apply .
  qed (simp only: fold_Nil id_apply)
  have "\<forall>key l. tv_lines (newTraverser env d ls k m) key = Some l \<longrightarrow> l \<in> set ls \<and> key = line_key d l"
    unfolding newTraverser_def
  proof (rule step)
    show "set ls \<subseteq> set ls" by (rule subset_refl)
  qed (simp_all only: traverser.simps fun_upd_apply option.distinct simp_thms)
  with assms show ?thesis by blast
qed

lemma NewData_line_rule:
  assumes "list_all label_rule rules" and "l \<in> set (d_Lines (NewData rules))"
  shows "\<exists>r \<in> set rules. class_of (NewData rules) (l_F l) \<in> set (r_Start r) \<and> class_of (NewData rules) (l_T l) \<in> set (r_Goal r)"
proof -
  let ?d = "NewData rules"
  have "line_view ?d l \<in> set (map (line_view ?d) (d_Lines ?d))" using assms(2) by simp
  also have "\<dots> = (\<Union>r \<in> set rules. set (rule_lines r))" using NewData_ok_lines [OF assms(1)] by simp
  finally show ?thesis by (auto simp: rule_lines_def line_view_def)
qed

lemma reached_class:
  fixes shared :: "('i, 'o, 'g) Graph"
  assumes "multigraph_laws mg" and "list_all label_rule rules" and "class_of (NewData rules) u = c"
    and "shared = SharedGraph mg (NewData rules)"
  shows "reached (mg_From mg (g_multi shared)) k u n \<Longrightarrow> class_within rules k c (class_of (NewData rules) n)"
proof (induction k arbitrary: n)
  case (Suc k)
  then obtain v where v: "reached (mg_From mg (g_multi shared)) k u v" "n \<in> set (mg_From mg (g_multi shared) v)"
    unfolding reached.simps by blast
  from v(2) obtain i where "mg_has_line mg (g_multi shared) (v, n, i)" using assms(1) by auto
  moreover have "mg_has_line mg (g_multi shared) (v, n, i) \<longleftrightarrow> (v, n, i) \<in> l_line ` set (d_Lines (NewData rules))"
    unfolding assms(4) by (rule SharedGraph_lines [OF assms(1)])
  ultimately obtain l where "l \<in> set (d_Lines (NewData rules))" "l_F l = v" "l_T l = n" by (auto simp: l_line_def)
  with NewData_line_rule [OF assms(2)] Suc.IH [OF v(1)] show ?case by fastforce
qed (simp add: assms(3))

lemma scope_class:
  fixes shared :: "('i, 'o, 'g) Graph"
  assumes "multigraph_laws mg" and "list_all label_rule rules" and "label_class start"
    and "shared = SharedGraph mg (NewData rules)"
    and "graph_NodeFor mg shared start = Some u"
    and "reached (mg_From mg (g_multi shared)) k u n"
    and "l \<in> set (EachLineFrom mg shared n)"
  shows "class_within rules (Suc k) start (class_of (NewData rules) (l_T l))"
proof -
  let ?d = "NewData rules"
  have ok: "data_ok ?d" using NewData_ok_lines [OF assms(2)] by simp
  have u: "class_of ?d u = start"
    using NodeFor_Some [OF ok assms(3)] assms(5) unfolding assms(4)
    by (auto simp: graph_NodeFor_def SharedGraph_Data split: option.splits if_splits)
  from assms(7) obtain v where "l \<in> set (EachLineBetween mg shared n v)" unfolding EachLineFrom_def by auto
  then have l: "l \<in> set (d_Lines ?d)" "l_F l = n"
    unfolding assms(4) using EachLineBetween_SharedGraph [OF assms(1) ok] by blast+
  from NewData_line_rule [OF assms(2) l(1)] reached_class [OF assms(1,2) u assms(4,6)] l(2) show ?thesis by auto
qed

text \<open>What is derived in a scope of a depth is of classes within that depth.\<close>

lemma reach_within:
  assumes lines: "\<forall>key l. tv_lines t key = Some l \<longrightarrow> (\<exists>j \<le> m. class_within rules j (st_Class (te_start env)) (lk_goal key))"
    and start: "\<forall>q \<in> set (st_Queries (te_start env)). q_class q = st_Class (te_start env)"
  shows "reach_query env t q \<Longrightarrow> \<exists>j \<le> m. class_within rules j (st_Class (te_start env)) (q_class q)"
    and "reach_obj env t c x \<Longrightarrow> \<exists>j \<le> m. class_within rules j (st_Class (te_start env)) c"
proof (induction rule: reach_query_reach_obj.inducts)
  case (start_query q)
  with start show ?case by (intro exI [of _ 0]) simp
next
  case (start_object x)
  show ?case by (intro exI [of _ 0]) simp
next
  case (rule_query c x r q)
  then obtain l where "tv_lines t (LineKey c (q_class q) (r_ptr r)) = Some l" by blast
  with lines show ?case by fastforce
qed

lemma walks_sound:
  assumes "(run_step env)\<^sup>*\<^sup>* (run_init env (newTraverser env data ls c d) n) st"
  shows "run_sound env st"
  using assms by (induction rule: rtranclp_induct) (auto intro: run_init_sound run_step_sound)

text \<open>C9: A neighbourhood search of depth \<open>m\<close> executes only queries for classes at most \<open>m\<close> rule applications away from
  the start class, and finds objects of such classes only, in every interleaving.\<close>

theorem neighbors_within_depth:
  fixes shared :: "('i, 'o, 'g) Graph"
  assumes "multigraph_laws mg" and "list_all label_rule rules" and "label_class (st_Class (te_start env))"
    and "shared = SharedGraph mg (NewData rules)"
    and "graph_NodeFor mg shared (st_Class (te_start env)) = Some u"
    and "bfs_walks (scope_traverse mg shared m) (scope_until m)
           (mg_From mg (g_multi shared)) u (0, [])
           (walk (scope_traverse mg shared m) (scope_until m) u (0, []))"
    and "Neighbors_traverser mg walk env shared c m = Inr t"
    and "(run_step env)\<^sup>*\<^sup>* (run_init env t n) st"
    and "\<forall>q \<in> set (st_Queries (te_start env)). q_class q = st_Class (te_start env)"
  shows "(\<forall>q \<in> set (ru_executed st). \<exists>j \<le> nat m. class_within rules j (st_Class (te_start env)) (q_class q)) \<and>
    (\<forall>k. node_list (ru_t st) k \<noteq> [] \<longrightarrow> (\<exists>j \<le> nat m. class_within rules j (st_Class (te_start env)) k))"
proof -
  obtain ls where scope: "neighborScope mg walk shared (st_Class (te_start env)) m = Inr ls"
    "\<And>l. l \<in> set ls \<longleftrightarrow> (\<exists>k n. int k < m \<and> reached (mg_From mg (g_multi shared)) k u n \<and> l \<in> set (EachLineFrom mg shared n))"
    using neighborScope_lines [where walk = walk, OF assms(5,6)] by blast
  have t: "t = newTraverser env (NewData rules) ls c m"
    using assms(7) scope(1) unfolding assms(4) by (simp add: Neighbors_traverser_def SharedGraph_Data)
  have lines: "\<exists>j \<le> nat m. class_within rules j (st_Class (te_start env)) (lk_goal key)" if "tv_lines t key = Some l" for key l
  proof -
    from newTraverser_line [OF that [unfolded t]] have l: "l \<in> set ls" "lk_goal key = class_of (NewData rules) (l_T l)"
      by (simp_all add: line_key_def)
    from l(1) obtain k n where k: "int k < m" "reached (mg_From mg (g_multi shared)) k u n" "l \<in> set (EachLineFrom mg shared n)"
      unfolding scope(2) by blast
    from scope_class [OF assms(1-5) k(2,3)] k(1) l(2) show ?thesis by (intro exI [of _ "Suc k"]) simp
  qed
  note sound = walks_sound [OF assms(8) [unfolded t], unfolded run_sound_def trav_sound_def
      run_reaches_reach [OF assms(8) [unfolded t]]]
  have "\<forall>key l. tv_lines t key = Some l \<longrightarrow> (\<exists>j \<le> nat m. class_within rules j (st_Class (te_start env)) (lk_goal key))"
    using lines by blast
  note within = reach_within [OF this assms(9), unfolded t]
  have "\<exists>j \<le> nat m. class_within rules j (st_Class (te_start env)) (q_class q)" if "q \<in> set (ru_executed st)" for q
    using sound that within(1) by blast
  moreover have "\<exists>j \<le> nat m. class_within rules j (st_Class (te_start env)) k" if "node_list (ru_t st) k \<noteq> []" for k
  proof -
    from that obtain x where "x \<in> set (node_list (ru_t st) k)" by (cases "node_list (ru_t st) k") auto
    with sound within(2) show ?thesis by blast
  qed
  ultimately show ?thesis by blast
qed

text \<open>The example of one rule from \<open>a\<close> to \<open>b\<close>, searched to depth 1.\<close>

definition near_example :: "(string, string) run" where
  "near_example = run_init example_trav
     (newTraverser example_trav (NewData [example_ab]) (d_Lines (NewData [example_ab])) None 1) 1"

lemma near_example_exec:
  "map_option (\<lambda>st. ru_executed st) (exec example_trav example_schedule near_example) = Some [example_query]"
  by code_simp

lemma neighbors_within_depth_witness:
  "\<exists>st. (run_step example_trav)\<^sup>*\<^sup>* near_example st \<and> ru_executed st = [example_query] \<and>
     (\<exists>j \<le> nat 1. class_within [example_ab] j (Klass ''mock'' ''a'') (Klass ''mock'' ''b''))"
proof -
  define g :: "(string, string, nat list \<times> mline list) Graph"
    where "g = SharedGraph list_multigraph (NewData [example_ab])"
  have multi: "g_multi g = ([1, 0], [(0, 1, 0)])" and u: "graph_NodeFor list_multigraph g (Klass ''mock'' ''a'') = Some 0"
    unfolding g_def by code_simp+
  have labels: "list_all label_rule [example_ab]" "label_class (Klass ''mock'' ''a'')" by code_simp+
  have "length (d_Lines (NewData [example_ab])) = 1" by code_simp
  then have line: "[d_Lines (NewData [example_ab]) ! 0] = d_Lines (NewData [example_ab])"
    by (cases "d_Lines (NewData [example_ab])") auto
  have "snd (snd (bfs_calls (scope_traverse list_multigraph g 1) (scope_until 1) (\<lambda>n. if n = 0 then [1] else []) [(0, 0), (1, 1)]
      (0, []))) = (1, EachLineBetween list_multigraph g 0 1)"
    by (simp add: scope_until_def scope_traverse_def Let_def)
  moreover have "EachLineBetween list_multigraph g 0 1 = d_Lines (NewData [example_ab])"
    using line SharedGraph_Data [of list_multigraph "NewData [example_ab]"] unfolding EachLineBetween_def multi
    by (simp add: g_def SharedGraph_Data) (simp add: list_multigraph_def)
  ultimately have "neighborScope list_multigraph example_walk g (Klass ''mock'' ''a'') 1 = Inr (d_Lines (NewData [example_ab]))"
    unfolding neighborScope_def graph_NodeForErr_def u example_walk_def by simp
  then have t: "Neighbors_traverser list_multigraph example_walk example_trav g None 1 =
      Inr (newTraverser example_trav (NewData [example_ab]) (d_Lines (NewData [example_ab])) None 1)"
    by (simp add: Neighbors_traverser_def g_def SharedGraph_Data example_trav_def)
  obtain st where st: "exec example_trav example_schedule near_example = Some st" "ru_executed st = [example_query]"
    using near_example_exec by auto
  have "(\<forall>q \<in> set (ru_executed st). \<exists>j \<le> nat 1. class_within [example_ab] j (st_Class (te_start example_trav)) (q_class q)) \<and>
    (\<forall>k. node_list (ru_t st) k \<noteq> [] \<longrightarrow> (\<exists>j \<le> nat 1. class_within [example_ab] j (st_Class (te_start example_trav)) k))"
  proof (rule neighbors_within_depth [where walk = example_walk, OF list_multigraph_laws labels(1) _ g_def _ _ t])
    show "label_class (st_Class (te_start example_trav))" using labels(2) by (simp add: example_trav_def)
    show "graph_NodeFor list_multigraph g (st_Class (te_start example_trav)) = Some 0" using u by (simp add: example_trav_def)
    show "bfs_walks (scope_traverse list_multigraph g 1) (scope_until 1) (mg_From list_multigraph (g_multi g)) 0 (0, [])
        (example_walk (scope_traverse list_multigraph g 1) (scope_until 1) 0 (0, []))" by (rule example_walks [OF multi])
    show "(run_step example_trav)\<^sup>*\<^sup>* (run_init example_trav
        (newTraverser example_trav (NewData [example_ab]) (d_Lines (NewData [example_ab])) None 1) 1) st"
      using exec_run_steps [OF st(1)] unfolding near_example_def .
  qed (simp add: example_trav_def)
  then have "\<exists>j \<le> nat 1. class_within [example_ab] j (Klass ''mock'' ''a'') (Klass ''mock'' ''b'')"
    by (simp add: st(2) example_trav_def example_query_def)
  with st(2) exec_run_steps [OF st(1)] show ?thesis by blast
qed

end
