(* ===== verification/Sessions.thy ===== *)
theory Sessions
  imports Engine Dynamic
begin

text \<open>
  \<open>pkg/api/auth/auth.go\<close>, \<open>pkg/tokenreview/tokenreview.go\<close> and \<open>pkg/session/session.go\<close>: bearer tokens, the
  users they stand for and the sessions of users. The pool of sessions is a concurrent map: the calls of
  its \<open>Get\<close> are goroutines (\<open>session_pc\<close>) whose atomic operations interleave (\<open>pool_step\<close>). Pointers to entries and
  sessions are positions in the lists of all that were allocated.

  Parameters: the token review service, the clock, and the factory that makes engines.
\<close>

section \<open>auth.go\<close>

text \<open>The values a context carries; no token is the empty one, which is never stored.\<close>

record ctx =
  cx_token :: string
  cx_session :: "nat option"
  cx_timeout :: "duration option"

definition ContextToken :: "ctx \<Rightarrow> string" where
  "ContextToken c = cx_token c"

definition WithToken :: "ctx \<Rightarrow> string \<Rightarrow> ctx" where
  "WithToken c token = (if token = [] then c else c\<lparr>cx_token := token\<rparr>)"

definition HeaderToken :: "smap \<Rightarrow> string" where
  "HeaderToken h = (case strings_CutPrefix (smap_get h ''Authorization'') ''Bearer '' of
                      (token, True) \<Rightarrow> token | _ \<Rightarrow> [])"

definition auth_UpdateRequest :: "smap \<times> ctx \<Rightarrow> smap \<times> ctx" where
  "auth_UpdateRequest req =
     (let token = HeaderToken (fst req)
      in if token \<noteq> [] then (fst req, WithToken (snd req) token) else req)"

definition roundTripper_RoundTrip :: "(smap \<times> ctx \<Rightarrow> 'r) \<Rightarrow> smap \<times> ctx \<Rightarrow> 'r" where
  "roundTripper_RoundTrip next req =
     (let token = ContextToken (snd req)
      in next (if token \<noteq> [] then (al_set ''Authorization'' (''Bearer '' @ token) (fst req), snd req) else req))"

section \<open>tokenreview.go\<close>

record cacheEntry =
  ce_username :: string
  ce_expires :: time

record review =
  rv_Authenticated :: bool
  rv_Username :: string
  rv_UID :: string

definition cacheExpiry :: duration where
  "cacheExpiry = 5 * minute"

text \<open>\<open>New\<close>: the configuration, the client set, the probe and which errors are \<open>forbidden\<close> are parameters.\<close>

definition tokenreview_New ::
  "'c result \<Rightarrow> ('c \<Rightarrow> 'k result) \<Rightarrow> ('k \<Rightarrow> string \<Rightarrow> review result) \<Rightarrow> (error \<Rightarrow> bool) \<Rightarrow> 'k result" where
  "tokenreview_New config clientset create forbidden =
     (case config of
        Inl e \<Rightarrow> Inl e
      | Inr cfg \<Rightarrow>
          (case clientset cfg of
             Inl e \<Rightarrow> Inl e
           | Inr k \<Rightarrow>
               (case create k ''probe'' of
                  Inl e \<Rightarrow> if forbidden e then Inl e else Inr k
                | Inr _ \<Rightarrow> Inr k)))"

definition user_review ::
  "(string \<Rightarrow> review result) \<Rightarrow> time \<Rightarrow> string \<Rightarrow> (string \<times> cacheEntry) list \<Rightarrow>
     string result \<times> (string \<times> cacheEntry) list" where
  "user_review create later token cache =
     (case create token of
        Inl err \<Rightarrow> (Inl (ErrorWrap ''TokenReview failed: '' err []), cache)
      | Inr status \<Rightarrow>
          if \<not> rv_Authenticated status then (Inl (ErrorString ''TokenReview: token not authenticated''), cache)
          else (let username = rv_Username status;
                    username = (if username = [] then rv_UID status else username)
                in if username = [] then (Inl (ErrorString ''TokenReview: no username or UID in response''), cache)
                   else (Inr username, al_set token \<lparr>ce_username = username, ce_expires = later + cacheExpiry\<rparr> cache)))"

text \<open>\<open>User\<close>: the clock is read when the cache is looked up and when the result is stored.\<close>

definition TokenReview_User ::
  "(string \<Rightarrow> review result) \<Rightarrow> time \<Rightarrow> time \<Rightarrow> string \<Rightarrow> (string \<times> cacheEntry) list \<Rightarrow>
     string result \<times> (string \<times> cacheEntry) list" where
  "TokenReview_User create now later token cache =
     (case map_of cache token of
        Some e \<Rightarrow> if now < ce_expires e then (Inr (ce_username e), cache) else user_review create later token (al_delete token cache)
      | None \<Rightarrow> user_review create later token cache)"

section \<open>session.go: sessions and managers\<close>

text \<open>\<open>AuthError\<close> marks the errors of authentication.\<close>

datatype session_error = AuthError error | OtherError error

record 'e Session =
  sn_ID :: string
  sn_Engine :: 'e
  sn_lastUsed :: time

definition newSession :: "'e \<Rightarrow> string \<Rightarrow> 'e Session" where
  "newSession e u = \<lparr>sn_ID = u, sn_Engine = e, sn_lastUsed = 0\<rparr>"

definition Session_String :: "'e Session \<Rightarrow> string" where
  "Session_String s = sn_ID s"

definition WithSession :: "ctx \<Rightarrow> nat \<Rightarrow> ctx" where
  "WithSession c s = c\<lparr>cx_session := Some s\<rparr>"

definition FromContext :: "ctx \<Rightarrow> nat option" where
  "FromContext c = cx_session c"

definition singleManager_Get :: "nat \<Rightarrow> ctx \<Rightarrow> session_error + nat" where
  "singleManager_Get session c = Inr session"

text \<open>\<open>id\<close>; no token review is \<open>None\<close>.\<close>

definition pool_id :: "(string \<Rightarrow> string result) option \<Rightarrow> ctx \<Rightarrow> session_error + string" where
  "pool_id tokenReview c =
     (let token = ContextToken c;
          r = (if token = [] then Inl (ErrorString ''no bearer token in request'')
               else case tokenReview of
                      None \<Rightarrow> Inl (ErrorString ''TokenReview is not available'')
                    | Some user \<Rightarrow> user token)
      in case r of
           Inl err \<Rightarrow> Inl (AuthError (ErrorWrap ''session authentication error: '' err []))
         | Inr u \<Rightarrow> Inr u)"

text \<open>\<open>UpdateRequest\<close> and \<open>Middleware\<close>: the manager's \<open>Get\<close> and the default timeout of the session's engine are
  parameters. \<open>Middleware\<close> gives the status of the response when it aborts.\<close>

definition session_UpdateRequest ::
  "(ctx \<Rightarrow> session_error + nat) \<Rightarrow> (nat \<Rightarrow> duration option) \<Rightarrow> smap \<times> ctx \<Rightarrow> session_error + smap \<times> ctx" where
  "session_UpdateRequest get timeout req =
     (let c = WithToken (snd req) (HeaderToken (fst req))
      in case get c of
           Inl err \<Rightarrow> Inl err
         | Inr ss \<Rightarrow>
             (let c = WithSession c ss
              in Inr (fst req, case timeout ss of None \<Rightarrow> c | Some d \<Rightarrow> c\<lparr>cx_timeout := Some d\<rparr>)))"

definition session_Middleware ::
  "(ctx \<Rightarrow> session_error + nat) \<Rightarrow> (nat \<Rightarrow> duration option) \<Rightarrow> smap \<times> ctx \<Rightarrow> nat + smap \<times> ctx" where
  "session_Middleware get timeout req =
     (case session_UpdateRequest get timeout (auth_UpdateRequest req) of
        Inl (AuthError _) \<Rightarrow> Inl 401
      | Inl (OtherError _) \<Rightarrow> Inl 500
      | Inr req \<Rightarrow> Inr req)"

section \<open>session.go: the pool\<close>

datatype once = Once_New | Once_Running | Once_Done

record entry =
  et_once :: once
  et_session :: "nat option"
  et_err :: "error option"

definition new_entry :: entry where
  "new_entry = \<lparr>et_once = Once_New, et_session = None, et_err = None\<rparr>"

record 'e poolManager =
  pm_sessions :: "(string \<times> nat) list"
  pm_entries :: "entry list"
  pm_store :: "'e Session list"
  pm_timeout :: duration
  pm_lastCleanup :: time

text \<open>\<open>NewTokenReviewManager\<close>: nothing is allocated yet.\<close>

definition NewPool :: "duration \<Rightarrow> 'e poolManager" where
  "NewPool timeout = \<lparr>pm_sessions = [], pm_entries = [], pm_store = [], pm_timeout = timeout, pm_lastCleanup = 0\<rparr>"

text \<open>Where a call of \<open>Get\<close> for a user is: before \<open>LoadOrStore\<close>, before and in the function that is run once,
  after it, at the time stamp, in the cleanup (with the time of the call, and the keys that \<open>Range\<close> has
  visited), or returned. A session is given by its address.\<close>

datatype session_pc =
    SStart string
  | SOnce string nat
  | SCreate string nat
  | SCheck string nat
  | SClock string nat
  | SStamp string nat time
  | SCleanup string nat time
  | SSwap string nat time time
  | SRange string nat time "string list"
  | SDelete string nat time string "string list"
  | SDone string nat
  | SFailed string error

text \<open>What a step finds outside: the clock, what the factory gives and the key that \<open>Range\<close> comes to, if any.\<close>

record 'e pool_env =
  pe_now :: time
  pe_factory :: "'e result"
  pe_next :: "string option"

definition alloc_entry :: "string \<Rightarrow> 'e poolManager \<Rightarrow> 'e poolManager" where
  "alloc_entry u m =
     m\<lparr>pm_sessions := al_set u (length (pm_entries m)) (pm_sessions m), pm_entries := pm_entries m @ [new_entry]\<rparr>"

definition run_factory :: "'e result \<Rightarrow> string \<Rightarrow> nat \<Rightarrow> 'e poolManager \<Rightarrow> 'e poolManager" where
  "run_factory factory u a m =
     (case factory of
        Inl err \<Rightarrow> m\<lparr>pm_entries := (pm_entries m)[a := \<lparr>et_once = Once_Done, et_session = None, et_err = Some err\<rparr>]\<rparr>
      | Inr eng \<Rightarrow>
          m\<lparr>pm_entries := (pm_entries m)[a := \<lparr>et_once = Once_Done, et_session = Some (length (pm_store m)), et_err = None\<rparr>],
            pm_store := pm_store m @ [newSession eng u]\<rparr>)"

definition touch :: "nat \<Rightarrow> time \<Rightarrow> 'e poolManager \<Rightarrow> 'e poolManager" where
  "touch s now m = m\<lparr>pm_store := (pm_store m)[s := (pm_store m ! s)\<lparr>sn_lastUsed := now\<rparr>]\<rparr>"

definition expired :: "time \<Rightarrow> entry \<Rightarrow> 'e poolManager \<Rightarrow> bool" where
  "expired now ent m =
     (case et_session ent of
        None \<Rightarrow> False
      | Some s \<Rightarrow> now - sn_lastUsed (pm_store m ! s) > pm_timeout m)"

text \<open>One atomic operation of a call; \<open>None\<close> when it waits for another to finish the function run once.\<close>

fun pool_step :: "'e pool_env \<Rightarrow> session_pc \<Rightarrow> 'e poolManager \<Rightarrow> (session_pc \<times> 'e poolManager) option" where
  "pool_step env (SStart u) m =
     (case map_of (pm_sessions m) u of
        Some a \<Rightarrow> Some (SOnce u a, m)
      | None \<Rightarrow> Some (SOnce u (length (pm_entries m)), alloc_entry u m))"
| "pool_step env (SOnce u a) m =
     (case et_once (pm_entries m ! a) of
        Once_New \<Rightarrow> Some (SCreate u a, m\<lparr>pm_entries := (pm_entries m)[a := (pm_entries m ! a)\<lparr>et_once := Once_Running\<rparr>]\<rparr>)
      | Once_Running \<Rightarrow> None
      | Once_Done \<Rightarrow> Some (SCheck u a, m))"
| "pool_step env (SCreate u a) m = Some (SCheck u a, run_factory (pe_factory env) u a m)"
| "pool_step env (SCheck u a) m =
     (case et_err (pm_entries m ! a) of
        Some err \<Rightarrow> Some (SFailed u err, if map_of (pm_sessions m) u = Some a then alloc_entry u m else m)
      | None \<Rightarrow>
          (case et_session (pm_entries m ! a) of
             None \<Rightarrow> None
           | Some s \<Rightarrow> Some (SClock u s, m)))"
| "pool_step env (SClock u s) m = Some (SStamp u s (pe_now env), m)"
| "pool_step env (SStamp u s now) m = Some (SCleanup u s now, touch s now m)"
| "pool_step env (SCleanup u s now) m =
     Some (if pm_timeout m \<le> 0 then SDone u s
           else (let prev = pm_lastCleanup m
                 in if now - prev < pm_timeout m then SDone u s else SSwap u s now prev), m)"
| "pool_step env (SSwap u s now prev) m =
     (if pm_lastCleanup m = prev then Some (SRange u s now [], m\<lparr>pm_lastCleanup := now\<rparr>)
      else Some (SDone u s, m))"
| "pool_step env (SRange u s now visited) m =
     (case pe_next env of
        None \<Rightarrow> Some (SDone u s, m)
      | Some k \<Rightarrow>
          if k \<in> set visited then None
          else (case map_of (pm_sessions m) k of
                  None \<Rightarrow> None
                | Some a \<Rightarrow>
                    Some (if expired now (pm_entries m ! a) m then SDelete u s now k (k # visited)
                          else SRange u s now (k # visited), m)))"
| "pool_step env (SDelete u s now k visited) m =
     Some (SRange u s now visited, m\<lparr>pm_sessions := al_delete k (pm_sessions m)\<rparr>)"
| "pool_step env (SDone u s) m = None"
| "pool_step env (SFailed u err) m = None"

text \<open>A run: the pool, its calls and, for each entry, the user it was allocated for.\<close>

record 'e pool_run =
  pr_pool :: "'e poolManager"
  pr_calls :: "session_pc list"
  pr_owner :: "string list"

fun pc_user :: "session_pc \<Rightarrow> string" where
  "pc_user (SStart u) = u"
| "pc_user (SOnce u a) = u"
| "pc_user (SCreate u a) = u"
| "pc_user (SCheck u a) = u"
| "pc_user (SClock u s) = u"
| "pc_user (SStamp u s now) = u"
| "pc_user (SCleanup u s now) = u"
| "pc_user (SSwap u s now prev) = u"
| "pc_user (SRange u s now visited) = u"
| "pc_user (SDelete u s now k visited) = u"
| "pc_user (SDone u s) = u"
| "pc_user (SFailed u err) = u"

definition call_step :: "'e pool_env \<Rightarrow> nat \<Rightarrow> 'e pool_run \<Rightarrow> 'e pool_run option" where
  "call_step env i st =
     (if i < length (pr_calls st)
      then (case pool_step env (pr_calls st ! i) (pr_pool st) of
              None \<Rightarrow> None
            | Some (pc, m) \<Rightarrow>
                Some \<lparr>pr_pool = m, pr_calls = (pr_calls st)[i := pc],
                  pr_owner = pr_owner st @ replicate (length (pm_entries m) - length (pm_entries (pr_pool st)))
                                             (pc_user (pr_calls st ! i))\<rparr>)
      else None)"

inductive pool_reach :: "duration \<Rightarrow> 'e pool_run \<Rightarrow> bool" for timeout where
  pool_start: "pool_reach timeout \<lparr>pr_pool = NewPool timeout, pr_calls = [], pr_owner = []\<rparr>"
| pool_call: "pool_reach timeout st \<Longrightarrow> pool_reach timeout (st\<lparr>pr_calls := pr_calls st @ [SStart u]\<rparr>)"
| pool_move: "pool_reach timeout st \<Longrightarrow> call_step env i st = Some st' \<Longrightarrow> pool_reach timeout st'"

section \<open>Tokens and users\<close>

text \<open>A token in a request's context reaches the server that the request is sent to.\<close>

lemma token_forwarded:
  assumes "token \<noteq> []" and "ContextToken c = []"
  shows "ContextToken (snd (auth_UpdateRequest (roundTripper_RoundTrip id (h, WithToken c token)))) = token"
  using assms
  by (simp add: roundTripper_RoundTrip_def auth_UpdateRequest_def ContextToken_def WithToken_def HeaderToken_def
      strings_CutPrefix_def smap_get_def ptr_Deref_def)

lemma no_token_unauthorized:
  assumes "HeaderToken (fst req) = []" and "ContextToken (snd req) = []"
  shows "session_Middleware (\<lambda>c. map_sum id user (pool_id tr c)) timeout req = Inl 401"
  using assms
  by (simp add: session_Middleware_def auth_UpdateRequest_def session_UpdateRequest_def WithToken_def pool_id_def)

text \<open>The names in the cache are not empty, so neither are those that \<open>User\<close> gives; it asks again for a token
  only when the five minutes are over.\<close>

definition users_ok :: "(string \<times> cacheEntry) list \<Rightarrow> bool" where
  "users_ok cache \<longleftrightarrow> (\<forall>k e. map_of cache k = Some e \<longrightarrow> ce_username e \<noteq> [])"

lemma user_review_ok:
  assumes "users_ok cache" and "user_review create later token cache = (r, cache')"
  shows "users_ok cache' \<and> (\<forall>u. r = Inr u \<longrightarrow>
    u \<noteq> [] \<and> map_of cache' token = Some \<lparr>ce_username = u, ce_expires = later + cacheExpiry\<rparr>)"
  using assms by (auto simp: user_review_def users_ok_def Let_def split: sum.splits if_splits)

lemma TokenReview_User_ok:
  assumes "users_ok cache" and "TokenReview_User create now later token cache = (r, cache')"
  shows "users_ok cache' \<and> (\<forall>u. r = Inr u \<longrightarrow> u \<noteq> [])"
proof (cases "\<exists>e. map_of cache token = Some e \<and> now < ce_expires e")
  case True
  then show ?thesis using assms by (auto simp: TokenReview_User_def users_ok_def)
next
  case False
  then have "user_review create later token cache = (r, cache') \<or>
      user_review create later token (al_delete token cache) = (r, cache')"
    using assms(2) by (auto simp: TokenReview_User_def split: option.splits)
  moreover have "users_ok (al_delete token cache)" using assms(1) by (simp add: users_ok_def)
  ultimately show ?thesis using assms(1) user_review_ok by metis
qed

lemma TokenReview_User_cached:
  assumes "user_review create later token cache = (Inr u, cache')" and "users_ok cache"
    and "now < later + cacheExpiry"
  shows "TokenReview_User create' now later' token cache' = (Inr u, cache')"
  using user_review_ok [OF assms(2,1)] assms(3) by (simp add: TokenReview_User_def)

lemma TokenReview_User_expired:
  assumes "map_of cache token = Some e" and "ce_expires e \<le> now"
  shows "TokenReview_User create now later token cache = user_review create later token (al_delete token cache)"
  using assms by (simp add: TokenReview_User_def)

end
