(* ===== verification/Pool.thy ===== *)
theory Pool
  imports Sessions
begin

text \<open>
  What the pool of sessions (\<open>pkg/session/session.go\<close>) promises under any interleaving of calls, expiries
  and failures of the factory: an entry belongs to one user, its session is made once and carries that
  user's ID, and without expiry all calls of a user get the same session.
\<close>

section \<open>Entries belong to users\<close>

fun pc_entry :: "session_pc \<Rightarrow> nat option" where
  "pc_entry (SOnce u a) = Some a"
| "pc_entry (SCreate u a) = Some a"
| "pc_entry (SCheck u a) = Some a"
| "pc_entry pc = None"

fun pc_session :: "session_pc \<Rightarrow> nat option" where
  "pc_session (SClock u s) = Some s"
| "pc_session (SStamp u s now) = Some s"
| "pc_session (SCleanup u s now) = Some s"
| "pc_session (SSwap u s now prev) = Some s"
| "pc_session (SRange u s now visited) = Some s"
| "pc_session (SDelete u s now k visited) = Some s"
| "pc_session (SDone u s) = Some s"
| "pc_session pc = None"

fun creates :: "session_pc \<Rightarrow> nat option" where
  "creates (SCreate u a) = Some a"
| "creates pc = None"

definition owner_ok :: "'e poolManager \<Rightarrow> string list \<Rightarrow> bool" where
  "owner_ok m own \<longleftrightarrow> length own = length (pm_entries m) \<and>
     (\<forall>k a. map_of (pm_sessions m) k = Some a \<longrightarrow> a < length own \<and> own ! a = k)"

definition call_ok :: "string list \<Rightarrow> session_pc \<Rightarrow> bool" where
  "call_ok own pc \<longleftrightarrow> (\<forall>a. pc_entry pc = Some a \<longrightarrow> a < length own \<and> own ! a = pc_user pc)"

lemma nth_upd: "j < length xs \<Longrightarrow> xs[i := x] ! j = (if i = j then x else xs ! j)"
  by auto

lemmas pool_defs = alloc_entry_def run_factory_def touch_def newSession_def new_entry_def Let_def

lemmas pool_splits = option.splits once.splits sum.splits if_splits

lemma pool_step_grows:
  "pool_step env pc m = Some (pc', m') \<Longrightarrow> pc_user pc' = pc_user pc \<and>
     length (pm_entries m) \<le> length (pm_entries m') \<and> pm_timeout m' = pm_timeout m"
  by (cases pc) (auto simp: pool_defs split: pool_splits)

lemma pool_step_alloc:
  "pool_step env pc m = Some (pc', m') \<Longrightarrow>
     (length (pm_entries m') = length (pm_entries m) \<and>
        (\<forall>k a. map_of (pm_sessions m') k = Some a \<longrightarrow> map_of (pm_sessions m) k = Some a)) \<or>
     (length (pm_entries m') = Suc (length (pm_entries m)) \<and>
        map_of (pm_sessions m') = (map_of (pm_sessions m))(pc_user pc \<mapsto> length (pm_entries m)))"
  by (cases pc) (auto simp: pool_defs split: pool_splits)

lemma pool_step_refs:
  "pool_step env pc m = Some (pc', m') \<Longrightarrow> pc_entry pc' = Some a \<Longrightarrow>
     pc_entry pc = Some a \<or> map_of (pm_sessions m) (pc_user pc) = Some a \<or>
     (a = length (pm_entries m) \<and> length (pm_entries m') = Suc a)"
  by (cases pc) (auto simp: pool_defs split: pool_splits)

lemma pool_step_owner:
  assumes step: "pool_step env pc m = Some (pc', m')" and own: "owner_ok m own" "call_ok own pc"
    and own': "own' = own @ replicate (length (pm_entries m') - length (pm_entries m)) (pc_user pc)"
  shows "owner_ok m' own' \<and> call_ok own' pc'"
  using pool_step_alloc [OF step]
proof
  assume a: "length (pm_entries m') = length (pm_entries m) \<and>
    (\<forall>k a. map_of (pm_sessions m') k = Some a \<longrightarrow> map_of (pm_sessions m) k = Some a)"
  then have "own' = own" using own' by simp
  moreover have "pc_entry pc = Some x \<or> map_of (pm_sessions m) (pc_user pc) = Some x" if "pc_entry pc' = Some x" for x
    using pool_step_refs [OF step that] a by auto
  ultimately show ?thesis
    using own a pool_step_grows [OF step] unfolding owner_ok_def call_ok_def by metis
next
  assume a: "length (pm_entries m') = Suc (length (pm_entries m)) \<and>
    map_of (pm_sessions m') = (map_of (pm_sessions m))(pc_user pc \<mapsto> length (pm_entries m))"
  then have o: "own' = own @ [pc_user pc]" using own' by simp
  have "x < length own' \<and> own' ! x = pc_user pc" if "pc_entry pc' = Some x" for x
    using pool_step_refs [OF step that] own o unfolding owner_ok_def call_ok_def
    by (elim disjE) (auto simp: nth_append)
  then have "call_ok own' pc'" using pool_step_grows [OF step] by (simp add: call_ok_def)
  moreover have "owner_ok m' own'"
    using own(1) a o unfolding owner_ok_def by (auto simp: nth_append)
  ultimately show ?thesis by simp
qed

section \<open>The function run once\<close>

definition once_ok :: "'e pool_run \<Rightarrow> bool" where
  "once_ok st \<longleftrightarrow>
     (\<forall>e \<in> set (pm_entries (pr_pool st)). et_once e \<noteq> Once_Done \<longrightarrow> et_session e = None \<and> et_err e = None) \<and>
     (\<forall>i < length (pr_calls st). \<forall>a. creates (pr_calls st ! i) = Some a \<longrightarrow>
        et_once (pm_entries (pr_pool st) ! a) = Once_Running \<and>
        (\<forall>j < length (pr_calls st). creates (pr_calls st ! j) = Some a \<longrightarrow> j = i))"

text \<open>What a step does to the entry at an address.\<close>

lemma pool_step_entry:
  assumes "pool_step env pc m = Some (pc', m')" and "a < length (pm_entries m)"
  shows "pm_entries m' ! a = pm_entries m ! a \<or>
    (\<exists>u. pc = SOnce u a \<and> et_once (pm_entries m ! a) = Once_New \<and> pc' = SCreate u a \<and>
       pm_entries m' ! a = (pm_entries m ! a)\<lparr>et_once := Once_Running\<rparr>) \<or>
    (\<exists>u. pc = SCreate u a \<and> et_once (pm_entries m' ! a) = Once_Done)"
  using assms
  by (cases pc) (auto simp: pool_defs nth_append nth_upd split: pool_splits)

lemma pool_step_creates:
  "pool_step env pc m = Some (pc', m') \<Longrightarrow> creates pc' = Some a \<Longrightarrow>
     (\<exists>u. pc = SOnce u a \<and> pc' = SCreate u a \<and> et_once (pm_entries m ! a) = Once_New \<and>
        pm_entries m' = (pm_entries m)[a := (pm_entries m ! a)\<lparr>et_once := Once_Running\<rparr>])"
  by (cases pc) (auto simp: pool_defs split: pool_splits)

lemma pool_step_new_entry:
  "pool_step env pc m = Some (pc', m') \<Longrightarrow> length (pm_entries m) \<le> a \<Longrightarrow> a < length (pm_entries m') \<Longrightarrow>
     pm_entries m' ! a = new_entry"
  by (cases pc) (auto simp: pool_defs nth_append split: pool_splits)

lemma call_stepE:
  assumes "call_step env i st = Some st'"
  obtains pc m where "i < length (pr_calls st)"
    "pool_step env (pr_calls st ! i) (pr_pool st) = Some (pc, m)"
    "st' = \<lparr>pr_pool = m, pr_calls = (pr_calls st)[i := pc], pr_owner = pr_owner st @
       replicate (length (pm_entries m) - length (pm_entries (pr_pool st))) (pc_user (pr_calls st ! i))\<rparr>"
  using assms by (auto simp: call_step_def split: option.splits if_splits)

lemma once_okI:
  assumes "\<And>a. a < length (pm_entries (pr_pool st)) \<Longrightarrow> et_once (pm_entries (pr_pool st) ! a) \<noteq> Once_Done \<Longrightarrow>
      et_session (pm_entries (pr_pool st) ! a) = None \<and> et_err (pm_entries (pr_pool st) ! a) = None"
    and "\<And>i a. i < length (pr_calls st) \<Longrightarrow> creates (pr_calls st ! i) = Some a \<Longrightarrow>
      et_once (pm_entries (pr_pool st) ! a) = Once_Running"
    and "\<And>i j a. i < length (pr_calls st) \<Longrightarrow> j < length (pr_calls st) \<Longrightarrow> creates (pr_calls st ! i) = Some a \<Longrightarrow>
      creates (pr_calls st ! j) = Some a \<Longrightarrow> j = i"
  shows "once_ok st"
  using assms by (auto simp: once_ok_def all_set_conv_all_nth)

lemma creates_entry: "creates pc = Some a \<Longrightarrow> pc_entry pc = Some a"
  by (cases pc) auto

text \<open>The calls refer to allocated entries.\<close>

definition owners_ok :: "'e pool_run \<Rightarrow> bool" where
  "owners_ok st \<longleftrightarrow> owner_ok (pr_pool st) (pr_owner st) \<and> (\<forall>pc \<in> set (pr_calls st). call_ok (pr_owner st) pc)"

lemma call_ok_append: "call_ok own pc \<Longrightarrow> call_ok (own @ xs) pc"
  by (auto simp: call_ok_def nth_append)

lemma call_step_owners:
  assumes "owners_ok st" and "call_step env i st = Some st'"
  shows "owners_ok st'"
  using assms(2)
proof (rule call_stepE)
  fix pc m
  assume i: "i < length (pr_calls st)" and s: "pool_step env (pr_calls st ! i) (pr_pool st) = Some (pc, m)"
    and st': "st' = \<lparr>pr_pool = m, pr_calls = (pr_calls st)[i := pc], pr_owner = pr_owner st @
       replicate (length (pm_entries m) - length (pm_entries (pr_pool st))) (pc_user (pr_calls st ! i))\<rparr>"
  have "owner_ok m (pr_owner st')" "call_ok (pr_owner st') pc"
    using pool_step_owner [OF s, of "pr_owner st"] assms(1) i st' by (auto simp: owners_ok_def)
  then show ?thesis
    using assms(1) st' call_ok_append by (auto simp: owners_ok_def dest!: set_update_cases)
qed

lemma owners_entry:
  "owners_ok st \<Longrightarrow> i < length (pr_calls st) \<Longrightarrow> pc_entry (pr_calls st ! i) = Some a \<Longrightarrow>
     a < length (pm_entries (pr_pool st)) \<and> pr_owner st ! a = pc_user (pr_calls st ! i)"
  using nth_mem [of i "pr_calls st"] unfolding owners_ok_def owner_ok_def call_ok_def by metis

lemma call_step_once:
  assumes own: "owners_ok st" and ok: "once_ok st" and step: "call_step env i st = Some st'"
  shows "once_ok st'"
  using step
proof (rule call_stepE)
  fix pc m
  assume i: "i < length (pr_calls st)" and s: "pool_step env (pr_calls st ! i) (pr_pool st) = Some (pc, m)"
    and st': "st' = \<lparr>pr_pool = m, pr_calls = (pr_calls st)[i := pc], pr_owner = pr_owner st @
       replicate (length (pm_entries m) - length (pm_entries (pr_pool st))) (pc_user (pr_calls st ! i))\<rparr>"
  let ?es = "pm_entries (pr_pool st)"
  have fresh: "a < length ?es \<Longrightarrow> et_once (?es ! a) \<noteq> Once_Done \<Longrightarrow> et_session (?es ! a) = None \<and> et_err (?es ! a) = None"
    for a using ok nth_mem [of a ?es] unfolding once_ok_def by blast
  have run: "et_once (?es ! a) = Once_Running" "\<And>k. k < length (pr_calls st) \<Longrightarrow> creates (pr_calls st ! k) = Some a \<Longrightarrow> k = j"
    if "j < length (pr_calls st)" "creates (pr_calls st ! j) = Some a" for j a
    using ok that unfolding once_ok_def by blast+
  have new: "(\<exists>u. pr_calls st ! i = SOnce u a) \<and> et_once (?es ! a) = Once_New \<and> et_once (pm_entries m ! a) = Once_Running"
    if c: "creates pc = Some a" for a
  proof -
    obtain u where u: "pr_calls st ! i = SOnce u a" "et_once (?es ! a) = Once_New"
      "pm_entries m = ?es[a := (?es ! a)\<lparr>et_once := Once_Running\<rparr>]"
      using pool_step_creates [OF s c] by blast
    moreover have "a < length ?es" using owners_entry [OF own i, of a] u(1) by simp
    ultimately show ?thesis by simp
  qed
  show ?thesis
  proof (rule once_okI)
    fix a assume a: "a < length (pm_entries (pr_pool st'))" "et_once (pm_entries (pr_pool st') ! a) \<noteq> Once_Done"
    show "et_session (pm_entries (pr_pool st') ! a) = None \<and> et_err (pm_entries (pr_pool st') ! a) = None"
    proof (cases "a < length ?es")
      case True
      with pool_step_entry [OF s True] fresh [OF True] a st' show ?thesis by auto
    next
      case False
      with pool_step_new_entry [OF s, of a] a st' show ?thesis by (simp add: new_entry_def)
    qed
  next
    fix j a assume j: "j < length (pr_calls st')" "creates (pr_calls st' ! j) = Some a"
    show "et_once (pm_entries (pr_pool st') ! a) = Once_Running"
    proof (cases "j = i")
      case True
      with j i st' new [of a] show ?thesis by simp
    next
      case False
      with j st' have old: "j < length (pr_calls st)" "creates (pr_calls st ! j) = Some a" by auto
      have a: "a < length ?es" using owners_entry [OF own old(1) creates_entry [OF old(2)]] by simp
      have "\<not> (\<exists>u. pr_calls st ! i = SCreate u a)" using run(2) [OF old i] False by auto
      with pool_step_entry [OF s a] run(1) [OF old] st' show ?thesis by auto
    qed
  next
    fix j k a
    assume jk: "j < length (pr_calls st')" "k < length (pr_calls st')"
      "creates (pr_calls st' ! j) = Some a" "creates (pr_calls st' ! k) = Some a"
    show "k = j"
    proof (cases "j = i \<or> k = i")
      case True
      show ?thesis
      proof (rule ccontr)
        assume "k \<noteq> j"
        with True obtain h where h: "h \<noteq> i" "h < length (pr_calls st)" "creates (pr_calls st ! h) = Some a"
          using jk st' by fastforce
        moreover have "creates pc = Some a" using True jk i st' by auto
        ultimately show False using new [of a] run(1) [of h a] by simp
      qed
    next
      case False
      with jk st' run(2) [of j a k] show ?thesis by simp
    qed
  qed
qed

section \<open>Sessions belong to users\<close>

definition sessions_ok :: "'e pool_run \<Rightarrow> bool" where
  "sessions_ok st \<longleftrightarrow>
     (\<forall>a < length (pm_entries (pr_pool st)). \<forall>s. et_session (pm_entries (pr_pool st) ! a) = Some s \<longrightarrow>
        s < length (pm_store (pr_pool st)) \<and> sn_ID (pm_store (pr_pool st) ! s) = pr_owner st ! a \<and>
        et_err (pm_entries (pr_pool st) ! a) = None) \<and>
     (\<forall>pc \<in> set (pr_calls st). \<forall>s. pc_session pc = Some s \<longrightarrow>
        (\<exists>a < length (pm_entries (pr_pool st)). pr_owner st ! a = pc_user pc \<and>
           et_session (pm_entries (pr_pool st) ! a) = Some s))"

text \<open>A step changes an entry with a session in no way, and keeps the IDs.\<close>

lemma pool_step_store:
  "pool_step env pc m = Some (pc', m') \<Longrightarrow> s < length (pm_store m) \<Longrightarrow>
     s < length (pm_store m') \<and> sn_ID (pm_store m' ! s) = sn_ID (pm_store m ! s)"
  by (cases pc) (auto simp: pool_defs nth_append nth_upd split: pool_splits)

lemma pool_step_creation:
  "pool_step env (SCreate u a) m = Some (pc', m') \<Longrightarrow> a < length (pm_entries m) \<Longrightarrow>
     et_session (pm_entries m' ! a) = Some s \<Longrightarrow>
     s < length (pm_store m') \<and> sn_ID (pm_store m' ! s) = u \<and> et_err (pm_entries m' ! a) = None"
  by (auto simp: pool_defs split: sum.splits)

lemma pool_step_session:
  "pool_step env pc m = Some (pc', m') \<Longrightarrow> pc_session pc' = Some s \<Longrightarrow>
     pc_session pc = Some s \<or>
     (\<exists>u a. pc = SCheck u a \<and> et_session (pm_entries m ! a) = Some s \<and> m' = m)"
  by (cases pc) (auto simp: Let_def split: pool_splits)

lemma call_step_sessions:
  assumes own: "owners_ok st" and once: "once_ok st" and ok: "sessions_ok st" and step: "call_step env i st = Some st'"
  shows "sessions_ok st'"
  using step
proof (rule call_stepE)
  fix pc m
  assume i: "i < length (pr_calls st)" and s: "pool_step env (pr_calls st ! i) (pr_pool st) = Some (pc, m)"
    and st': "st' = \<lparr>pr_pool = m, pr_calls = (pr_calls st)[i := pc], pr_owner = pr_owner st @
       replicate (length (pm_entries m) - length (pm_entries (pr_pool st))) (pc_user (pr_calls st ! i))\<rparr>"
  let ?m = "pr_pool st"
  let ?es = "pm_entries ?m"
  have len: "length (pr_owner st) = length ?es" using own by (simp add: owners_ok_def owner_ok_def)
  have keep: "a < length (pm_entries m) \<and> pm_entries m ! a = ?es ! a \<and> pr_owner st' ! a = pr_owner st ! a"
    if a: "a < length ?es" "et_session (?es ! a) \<noteq> None" for a
  proof -
    have fin: "et_once (?es ! a) = Once_Done" using once a by (force simp: once_ok_def)
    have "\<not> (\<exists>u. pr_calls st ! i = SCreate u a)" using once i fin by (force simp: once_ok_def)
    then show ?thesis
      using pool_step_entry [OF s a(1)] fin pool_step_grows [OF s] a(1) st' len by (auto simp: nth_append)
  qed
  have old: "s < length (pm_store ?m) \<and> sn_ID (pm_store ?m ! s) = pr_owner st ! a \<and> et_err (?es ! a) = None"
    if "a < length ?es" "et_session (?es ! a) = Some s" for a s
    using ok that by (simp add: sessions_ok_def)
  show ?thesis unfolding sessions_ok_def
  proof (intro conjI allI impI ballI)
    fix a s'
    assume a: "a < length (pm_entries (pr_pool st'))" "et_session (pm_entries (pr_pool st') ! a) = Some s'"
    have lt: "a < length ?es" using pool_step_new_entry [OF s, of a] a st' by (fastforce simp: new_entry_def)
    have "s' < length (pm_store m) \<and> sn_ID (pm_store m ! s') = pr_owner st' ! a \<and> et_err (pm_entries m ! a) = None"
    proof (cases "et_session (?es ! a) = None")
      case True
      then obtain u where u: "pr_calls st ! i = SCreate u a" using pool_step_entry [OF s lt] a st' by auto
      have "pr_owner st' ! a = u" using owners_entry [OF own i, of a] u lt len st' by (simp add: nth_append)
      then show ?thesis using pool_step_creation [OF s [unfolded u] lt] a st' by simp
    next
      case False
      then show ?thesis using keep [OF lt False] old [OF lt, of s'] pool_step_store [OF s, of s'] a st' by auto
    qed
    then show "s' < length (pm_store (pr_pool st'))" "sn_ID (pm_store (pr_pool st') ! s') = pr_owner st' ! a"
      "et_err (pm_entries (pr_pool st') ! a) = None" using st' by simp_all
  next
    fix p s' assume p: "p \<in> set (pr_calls st')" "pc_session p = Some s'"
    have "\<exists>a < length ?es. pr_owner st ! a = pc_user p \<and> et_session (?es ! a) = Some s'"
    proof (cases "p \<in> set (pr_calls st)")
      case True
      then show ?thesis using ok p(2) by (simp add: sessions_ok_def)
    next
      case False
      then have pc: "p = pc" using p(1) st' by (auto dest!: set_update_cases)
      have user: "pc_user pc = pc_user (pr_calls st ! i)" using pool_step_grows [OF s] by simp
      show ?thesis
      proof (cases "pc_session (pr_calls st ! i) = Some s'")
        case True
        then show ?thesis using ok i user pc by (simp add: sessions_ok_def)
      next
        case False
        then obtain u a where u: "pr_calls st ! i = SCheck u a" "et_session (?es ! a) = Some s'"
          using pool_step_session [OF s p(2) [unfolded pc]] by auto
        then show ?thesis using owners_entry [OF own i, of a] user pc by auto
      qed
    qed
    then show "\<exists>a < length (pm_entries (pr_pool st')). pr_owner st' ! a = pc_user p \<and>
        et_session (pm_entries (pr_pool st') ! a) = Some s'"
      using keep st' by fastforce
  qed
qed

section \<open>Schedules\<close>

fun pool_exec :: "('e pool_env \<times> nat) list \<Rightarrow> 'e pool_run \<Rightarrow> 'e pool_run option" where
  "pool_exec [] st = Some st"
| "pool_exec ((env, i) # es) st = (case call_step env i st of None \<Rightarrow> None | Some st \<Rightarrow> pool_exec es st)"

lemma pool_exec_reach: "pool_reach timeout st \<Longrightarrow> pool_exec es st = Some st' \<Longrightarrow> pool_reach timeout st'"
  by (induction es st rule: pool_exec.induct) (auto split: option.splits intro: pool_move)

definition three_calls :: "duration \<Rightarrow> string \<Rightarrow> string \<Rightarrow> 'e pool_run" where
  "three_calls timeout u v = \<lparr>pr_pool = NewPool timeout, pr_calls = [SStart u, SStart v, SStart u], pr_owner = []\<rparr>"

lemma three_calls_reach: "pool_reach timeout (three_calls timeout u v)"
  using pool_call [where u = u, OF pool_call [where u = v, OF pool_call [where u = u, OF pool_start]]]
  by (simp add: three_calls_def)

text \<open>The calls one after the other, without a timeout.\<close>

definition pool_schedule :: "(nat pool_env \<times> nat) list" where
  "pool_schedule =
     (let env = \<lparr>pe_now = 100, pe_factory = Inr 7, pe_next = None\<rparr>
      in replicate 7 (env, 0) @ replicate 7 (env, 1) @ replicate 6 (env, 2))"

lemma pool_schedule_runs:
  "\<exists>st. pool_exec pool_schedule (three_calls 0 ''alice'' ''bob'') = Some st \<and>
     pr_calls st = [SDone ''alice'' 0, SDone ''bob'' 1, SDone ''alice'' 0]"
  by (simp add: pool_schedule_def three_calls_def NewPool_def call_step_def numeral_eq_Suc pool_defs)

section \<open>All runs\<close>

lemma creates_append:
  "i < Suc (length cs) \<Longrightarrow> creates ((cs @ [SStart u]) ! i) = Some a \<Longrightarrow> i < length cs \<and> creates (cs ! i) = Some a"
  by (auto simp: nth_append less_Suc_eq split: if_splits)

lemma pool_call_once:
  assumes "once_ok st"
  shows "once_ok (st\<lparr>pr_calls := pr_calls st @ [SStart u]\<rparr>)"
proof (rule once_okI)
  fix a
  assume "a < length (pm_entries (pr_pool (st\<lparr>pr_calls := pr_calls st @ [SStart u]\<rparr>)))"
    "et_once (pm_entries (pr_pool (st\<lparr>pr_calls := pr_calls st @ [SStart u]\<rparr>)) ! a) \<noteq> Once_Done"
  then show "et_session (pm_entries (pr_pool (st\<lparr>pr_calls := pr_calls st @ [SStart u]\<rparr>)) ! a) = None \<and>
      et_err (pm_entries (pr_pool (st\<lparr>pr_calls := pr_calls st @ [SStart u]\<rparr>)) ! a) = None"
    using assms nth_mem [of a "pm_entries (pr_pool st)"] by (simp add: once_ok_def)
next
  fix i a
  assume "i < length (pr_calls (st\<lparr>pr_calls := pr_calls st @ [SStart u]\<rparr>))"
    "creates (pr_calls (st\<lparr>pr_calls := pr_calls st @ [SStart u]\<rparr>) ! i) = Some a"
  then have "i < length (pr_calls st) \<and> creates (pr_calls st ! i) = Some a"
    by (intro creates_append) simp_all
  then have "et_once (pm_entries (pr_pool st) ! a) = Once_Running" using assms unfolding once_ok_def by blast
  then show "et_once (pm_entries (pr_pool (st\<lparr>pr_calls := pr_calls st @ [SStart u]\<rparr>)) ! a) = Once_Running" by simp
next
  fix i j a
  assume "i < length (pr_calls (st\<lparr>pr_calls := pr_calls st @ [SStart u]\<rparr>))"
    "j < length (pr_calls (st\<lparr>pr_calls := pr_calls st @ [SStart u]\<rparr>))"
    "creates (pr_calls (st\<lparr>pr_calls := pr_calls st @ [SStart u]\<rparr>) ! i) = Some a"
    "creates (pr_calls (st\<lparr>pr_calls := pr_calls st @ [SStart u]\<rparr>) ! j) = Some a"
  then have "i < length (pr_calls st) \<and> creates (pr_calls st ! i) = Some a"
    "j < length (pr_calls st) \<and> creates (pr_calls st ! j) = Some a"
    by (intro creates_append, simp_all)+
  then show "j = i" using assms unfolding once_ok_def by blast
qed

lemma pool_call_ok:
  assumes "owners_ok st" "once_ok st" "sessions_ok st"
  shows "owners_ok (st\<lparr>pr_calls := pr_calls st @ [SStart u]\<rparr>) \<and> once_ok (st\<lparr>pr_calls := pr_calls st @ [SStart u]\<rparr>) \<and>
    sessions_ok (st\<lparr>pr_calls := pr_calls st @ [SStart u]\<rparr>)"
  using assms pool_call_once [OF assms(2)] by (auto simp: owners_ok_def call_ok_def sessions_ok_def)

lemma pool_reach_ok: "pool_reach timeout st \<Longrightarrow> owners_ok st \<and> once_ok st \<and> sessions_ok st"
proof (induction rule: pool_reach.induct)
  case pool_start
  show ?case by (auto simp: owners_ok_def owner_ok_def once_ok_def sessions_ok_def NewPool_def)
next
  case (pool_call st u)
  then show ?case using pool_call_ok by blast
next
  case (pool_move st env i st')
  then show ?case using call_step_owners call_step_once call_step_sessions by blast
qed

lemma sessions_ok_user:
  assumes "sessions_ok st" and "pc \<in> set (pr_calls st)" and "pc_session pc = Some s"
  shows "s < length (pm_store (pr_pool st)) \<and> sn_ID (pm_store (pr_pool st) ! s) = pc_user pc"
proof -
  from assms obtain a where "a < length (pm_entries (pr_pool st))" "pr_owner st ! a = pc_user pc"
    "et_session (pm_entries (pr_pool st) ! a) = Some s" unfolding sessions_ok_def by blast
  with assms(1) show ?thesis by (auto simp: sessions_ok_def)
qed

text \<open>C17: Sessions are isolated: whatever calls, expiries and failures interleave, a call for a user returns a
  session with that user's ID, and calls for different users return different sessions.\<close>

theorem pool_isolated:
  assumes "pool_reach timeout st" and "SDone u s \<in> set (pr_calls st)" and "SDone v s' \<in> set (pr_calls st)"
  shows "sn_ID (pm_store (pr_pool st) ! s) = u \<and> (u \<noteq> v \<longrightarrow> s \<noteq> s')"
  using pool_reach_ok [OF assms(1)] sessions_ok_user [OF _ assms(2), of s] sessions_ok_user [OF _ assms(3), of s'] by auto

lemma pool_isolated_witness:
  "\<exists>st :: nat pool_run. pool_reach 0 st \<and> SDone ''alice'' 0 \<in> set (pr_calls st) \<and> SDone ''bob'' 1 \<in> set (pr_calls st) \<and>
     sn_ID (pm_store (pr_pool st) ! 0) = ''alice'' \<and> (''alice'' \<noteq> ''bob'' \<longrightarrow> (0::nat) \<noteq> 1)"
proof -
  obtain st where st: "pool_exec pool_schedule (three_calls 0 ''alice'' ''bob'') = Some st"
    "pr_calls st = [SDone ''alice'' 0, SDone ''bob'' 1, SDone ''alice'' 0]" using pool_schedule_runs by blast
  have "pool_reach 0 st" by (rule pool_exec_reach [OF three_calls_reach st(1)])
  moreover have "SDone ''alice'' 0 \<in> set (pr_calls st)" "SDone ''bob'' 1 \<in> set (pr_calls st)" by (simp_all add: st(2))
  ultimately show ?thesis using pool_isolated [of 0 st "''alice''" 0 "''bob''" 1] by (intro exI [of _ st]) simp
qed

section \<open>Without expiry\<close>

fun cleaning :: "session_pc \<Rightarrow> bool" where
  "cleaning (SSwap u s now prev) = True"
| "cleaning (SRange u s now visited) = True"
| "cleaning (SDelete u s now k visited) = True"
| "cleaning pc = False"

definition shared_ok :: "'e pool_run \<Rightarrow> bool" where
  "shared_ok st \<longleftrightarrow> (\<forall>pc \<in> set (pr_calls st). \<not> cleaning pc) \<and>
     (\<forall>a < length (pm_entries (pr_pool st)). et_err (pm_entries (pr_pool st) ! a) = None \<longrightarrow>
        map_of (pm_sessions (pr_pool st)) (pr_owner st ! a) = Some a)"

lemma pool_step_cleaning:
  "pool_step env pc m = Some (pc', m') \<Longrightarrow> \<not> cleaning pc \<Longrightarrow> pm_timeout m \<le> 0 \<Longrightarrow> \<not> cleaning pc'"
  by (cases pc) (auto simp: Let_def split: pool_splits)

lemma pool_step_map:
  "pool_step env pc m = Some (pc', m') \<Longrightarrow> \<not> cleaning pc \<Longrightarrow>
     (length (pm_entries m') = length (pm_entries m) \<and> pm_sessions m' = pm_sessions m) \<or>
     (pm_entries m' = pm_entries m @ [new_entry] \<and>
        map_of (pm_sessions m') = (map_of (pm_sessions m))(pc_user pc \<mapsto> length (pm_entries m)) \<and>
        (\<forall>a. map_of (pm_sessions m) (pc_user pc) = Some a \<longrightarrow> et_err (pm_entries m ! a) \<noteq> None))"
  by (cases pc) (auto simp: pool_defs split: pool_splits)

lemma call_step_shared:
  assumes own: "owners_ok st" and once: "once_ok st" and ok: "shared_ok st" and t: "pm_timeout (pr_pool st) \<le> 0"
    and step: "call_step env i st = Some st'"
  shows "shared_ok st'"
  using step
proof (rule call_stepE)
  fix pc m
  assume i: "i < length (pr_calls st)" and s: "pool_step env (pr_calls st ! i) (pr_pool st) = Some (pc, m)"
    and st': "st' = \<lparr>pr_pool = m, pr_calls = (pr_calls st)[i := pc], pr_owner = pr_owner st @
       replicate (length (pm_entries m) - length (pm_entries (pr_pool st))) (pc_user (pr_calls st ! i))\<rparr>"
  let ?es = "pm_entries (pr_pool st)"
  have len: "length (pr_owner st) = length ?es" using own by (simp add: owners_ok_def owner_ok_def)
  have quiet: "\<not> cleaning (pr_calls st ! i)" using ok i by (simp add: shared_ok_def)
  have "\<forall>p \<in> set (pr_calls st'). \<not> cleaning p"
    using pool_step_cleaning [OF s quiet t] ok st' unfolding shared_ok_def by (auto dest!: set_update_cases)
  moreover have "map_of (pm_sessions m) (pr_owner st' ! a) = Some a"
    if a: "a < length (pm_entries m)" "et_err (pm_entries m ! a) = None" for a
  proof (cases "a < length ?es")
    case True
    have "et_err (?es ! a) = None"
    proof (cases "\<exists>u. pr_calls st ! i = SCreate u a")
      case True
      then have "et_once (?es ! a) = Once_Running" using once i unfolding once_ok_def by fastforce
      then show ?thesis using once nth_mem [OF \<open>a < length ?es\<close>] by (simp add: once_ok_def)
    next
      case False
      with pool_step_entry [OF s True] a(2) show ?thesis by auto
    qed
    then have "map_of (pm_sessions (pr_pool st)) (pr_owner st ! a) = Some a" "pr_owner st' ! a = pr_owner st ! a"
      using ok True st' len by (simp_all add: shared_ok_def nth_append)
    then show ?thesis using pool_step_map [OF s quiet] \<open>et_err (?es ! a) = None\<close> by auto
  next
    case False
    then show ?thesis using pool_step_map [OF s quiet] a st' len by (auto simp: nth_append)
  qed
  ultimately show ?thesis using st' by (simp add: shared_ok_def)
qed

lemma call_step_timeout: "call_step env i st = Some st' \<Longrightarrow> pm_timeout (pr_pool st') = pm_timeout (pr_pool st)"
  by (erule call_stepE) (simp add: pool_step_grows)

lemma pool_reach_shared: "pool_reach timeout st \<Longrightarrow> timeout \<le> 0 \<Longrightarrow> shared_ok st \<and> pm_timeout (pr_pool st) = timeout"
proof (induction rule: pool_reach.induct)
  case (pool_move st env i st')
  then show ?case
    using call_step_shared [OF _ _ _ _ pool_move(2)] pool_reach_ok [OF pool_move(1)] call_step_timeout [OF pool_move(2)]
    by auto
qed (auto simp: shared_ok_def NewPool_def)

text \<open>Without a session timeout every call for a user returns the same session, also when the factory
  fails for some of them.\<close>

theorem pool_shared:
  assumes "pool_reach timeout st" and "timeout \<le> 0"
    and "SDone u s \<in> set (pr_calls st)" and "SDone u s' \<in> set (pr_calls st)"
  shows "s = s'"
proof -
  have ok: "sessions_ok st" "shared_ok st"
    using pool_reach_ok [OF assms(1)] pool_reach_shared [OF assms(1,2)] by auto
  have "\<exists>a. map_of (pm_sessions (pr_pool st)) u = Some a \<and> et_session (pm_entries (pr_pool st) ! a) = Some x"
    if "SDone u x \<in> set (pr_calls st)" for x
    using ok that unfolding sessions_ok_def shared_ok_def by fastforce
  from this [OF assms(3)] this [OF assms(4)] show ?thesis by auto
qed

lemma pool_shared_witness:
  "\<exists>(st :: nat pool_run) s. pool_reach 0 st \<and> SDone ''alice'' s \<in> set (pr_calls st) \<and>
     (\<forall>s'. SDone ''alice'' s' \<in> set (pr_calls st) \<longrightarrow> s = s')"
proof -
  obtain st where st: "pool_exec pool_schedule (three_calls 0 ''alice'' ''bob'') = Some st"
    "pr_calls st = [SDone ''alice'' 0, SDone ''bob'' 1, SDone ''alice'' 0]" using pool_schedule_runs by blast
  have r: "pool_reach 0 st" by (rule pool_exec_reach [OF three_calls_reach st(1)])
  have "SDone ''alice'' 0 \<in> set (pr_calls st)" by (simp add: st(2))
  with pool_shared [OF r order.refl this] r show ?thesis by (intro exI [of _ st] exI [of _ 0] conjI allI impI)
qed

section \<open>A session that is lost\<close>

text \<open>The schedule: the first call for \<open>u\<close> makes its session; the call for \<open>v\<close> makes its own and cleans up,
  before the session of \<open>u\<close> has its time stamp; the first call for \<open>u\<close> goes on; then the second one runs.\<close>

definition lost_schedule :: "time \<Rightarrow> 'e \<Rightarrow> string \<Rightarrow> ('e pool_env \<times> nat) list" where
  "lost_schedule now eng u =
     (let env = (\<lambda>k. \<lparr>pe_now = now, pe_factory = Inr eng, pe_next = k\<rparr>)
      in replicate 3 (env None, 0) @ replicate 8 (env None, 1) @ [(env (Some u), 1)] @ replicate 2 (env None, 1) @
         replicate 4 (env None, 0) @ replicate 7 (env None, 2))"

text \<open>C18: A session can be lost before it is used: \<open>lastUsed\<close> is zero until the call that makes the session
  stamps it, so the cleanup in a call for another user removes it as expired, and the next call for the user
  at the same time gets another session.\<close>

theorem pool_session_lost:
  assumes "0 < timeout" and "timeout < now" and "u \<noteq> v"
  shows "list_all (\<lambda>(env, i). pe_now env = now) (lost_schedule now eng u) \<and>
    (\<exists>st s s'. pool_exec (lost_schedule now eng u) (three_calls timeout u v) = Some st \<and>
       SDone u s \<in> set (pr_calls st) \<and> SDone u s' \<in> set (pr_calls st) \<and> s \<noteq> s')"
  using assms
  by (simp add: lost_schedule_def three_calls_def NewPool_def call_step_def numeral_eq_Suc pool_defs expired_def
      al_delete_def)
    (rule exI [of _ 0], auto)

lemma pool_session_lost_witness:
  "list_all (\<lambda>(env, i). pe_now env = 100) (lost_schedule 100 () ''alice'') \<and>
    (\<exists>st s s'. pool_exec (lost_schedule 100 () ''alice'') (three_calls 10 ''alice'' ''bob'') = Some st \<and>
       SDone ''alice'' s \<in> set (pr_calls st) \<and> SDone ''alice'' s' \<in> set (pr_calls st) \<and> s \<noteq> s')"
  by (rule pool_session_lost) simp_all

end
