(* ===== verification/Rest.thy ===== *)
theory Rest
  imports Quiescence Assembly "HOL-Library.Product_Lexorder"
begin

text \<open>
  \<open>pkg/rest/helpers.go\<close> and \<open>console.go\<close> with the types of \<open>pkg/api\<close>: what the REST API takes and gives, and its
  conversion from and to the types of the engine. A nil slice and an empty one are both the empty list, except
  where the difference reaches the reader of the JSON.

  Parameters (\<open>rest_env\<close>): the description of a domain, decoding and encoding objects as JSON.
\<close>

section \<open>The types of the API\<close>

record api_StatusCount =
  as_Count :: "int option"
  as_Status :: string

record api_QueryCount =
  aq_Count :: "int option"
  aq_Query :: string
  aq_Statuses :: "api_StatusCount list"

record api_Rule =
  ar_Name :: string
  ar_Queries :: "api_QueryCount list"

record api_Node =
  an_Class :: string
  an_Count :: "int option"
  an_Queries :: "api_QueryCount list"
  an_Result :: "string list"

record api_Edge =
  ae_Goal :: string
  ae_Rules :: "api_Rule list"
  ae_Start :: string

record api_Graph =
  ag_Edges :: "api_Edge list"
  ag_Nodes :: "api_Node list"

record GraphOptions =
  go_Errors :: "bool option"
  go_Results :: "bool option"
  go_Rules :: "bool option"

record api_Constraint =
  ac_End :: "time option"
  ac_Limit :: "int option"
  ac_QueryLimit :: "int option"
  ac_Start :: "time option"

record api_Start =
  at_Class :: string
  at_Constraint :: "api_Constraint option"
  at_Objects :: "string list"
  at_Queries :: "string list"

record api_Goals =
  al_Goals :: "string list"
  al_Start :: api_Start

record api_Neighbors =
  ab_Depth :: int
  ab_Start :: api_Start

record api_Search =
  ah_Goals :: "api_Goals option"
  ah_Neighbors :: "api_Neighbors option"

record api_Console =
  ak_Search :: "api_Search option"
  ak_View :: string

record api_Domain =
  ad_Description :: string
  ad_Name :: string
  ad_Stores :: "config_Store list"

record 'o rest_env =
  re_Description :: "string \<Rightarrow> string"
  re_Unmarshal :: "klass \<Rightarrow> string \<Rightarrow> 'o result"
  re_Marshal :: "'o \<Rightarrow> string result"

section \<open>Result graphs\<close>

text \<open>\<open>slices.SortFunc\<close> sorts by a comparison; the keys that decide it are given. Elements with equal keys, whose
  order it leaves open, stay in order here.\<close>

definition status_list :: "(string \<times> int) list \<Rightarrow> api_StatusCount list" where
  "status_list counts = sort_key as_Status (map (\<lambda>(k, v). \<lparr>as_Count = Some v, as_Status = k\<rparr>) counts)"

definition queryCounts :: "Queries \<Rightarrow> api_QueryCount list" where
  "queryCounts gq =
     sort_key (\<lambda>q. (- ptr_Deref 0 (aq_Count q), aq_Query q))
       (List.map_filter (\<lambda>(q, qc).
          if qc_Count qc \<le> 0 then None
          else Some \<lparr>aq_Count = Some (qc_Count qc), aq_Query = Query_String q,
                     aq_Statuses = status_list (ptr_Deref [] (qc_StatusCounts qc))\<rparr>) gq)"

definition rest_rule :: "'o rule \<Rightarrow> Queries \<Rightarrow> api_Rule" where
  "rest_rule r queries = \<lparr>ar_Name = r_Name r, ar_Queries = queryCounts queries\<rparr>"

text \<open>\<open>node\<close>: the error of encoding an object is ignored and leaves an empty message.\<close>

definition rest_node :: "'o rest_env \<Rightarrow> GraphOptions \<Rightarrow> klass \<Rightarrow> ('i, 'o) node_state \<Rightarrow> api_Node go" where
  "rest_node env opts c n =
     (case ns_Result n of
        None \<Rightarrow> Panics ''nil pointer dereference''
      | Some r \<Rightarrow>
          Returns \<lparr>an_Class = Class_String c, an_Count = Some (int (length (Result_List r))),
                   an_Queries = queryCounts (ns_Queries n),
                   an_Result = (if ptr_Deref False (go_Results opts)
                                then map (\<lambda>x. case re_Marshal env x of Inl _ \<Rightarrow> [] | Inr j \<Rightarrow> j) (Result_List r)
                                else [])\<rparr>)"

text \<open>\<open>EachNode\<close> and \<open>EachEdge\<close> of \<open>pkg/graph/graph.go\<close> visit the nodes and edges of the multigraph.\<close>

definition EachNode :: "'g multigraph \<Rightarrow> ('i, 'o, 'g) Graph \<Rightarrow> nat list" where
  "EachNode mg g = mg_Nodes mg (g_multi g)"

definition EachEdge :: "'g multigraph \<Rightarrow> ('i, 'o, 'g) Graph \<Rightarrow> (nat \<times> nat) list" where
  "EachEdge mg g = concat (map (\<lambda>u. map (Pair u) (remdups (mg_From mg (g_multi g) u))) (mg_Nodes mg (g_multi g)))"

definition rest_nodes :: "'g multigraph \<Rightarrow> 'o rest_env \<Rightarrow> GraphOptions \<Rightarrow> ('i, 'o, 'g) Graph \<Rightarrow> api_Node list go" where
  "rest_nodes mg env opts g =
     go_maps (\<lambda>n. if \<not> Node_Empty (g_node g n)
                  then go_bind (rest_node env opts (class_of (g_Data g) n) (g_node g n)) (\<lambda>x. Returns [x])
                  else Returns []) (EachNode mg g)"

definition rest_edge :: "'g multigraph \<Rightarrow> GraphOptions \<Rightarrow> ('i, 'o, 'g) Graph \<Rightarrow> nat \<times> nat \<Rightarrow> api_Edge" where
  "rest_edge mg opts g e =
     \<lparr>ae_Goal = Class_String (class_of (g_Data g) (snd e)),
      ae_Rules = (if ptr_Deref False (go_Rules opts)
                  then List.map_filter (\<lambda>l.
                         let queries = g_line g (l_UID l)
                         in if Queries_Total queries \<noteq> 0 then Some (rest_rule (l_Rule l) queries) else None)
                         (EachLineBetween mg g (fst e) (snd e))
                  else []),
      ae_Start = Class_String (class_of (g_Data g) (fst e))\<rparr>"

definition rest_edges :: "'g multigraph \<Rightarrow> GraphOptions \<Rightarrow> ('i, 'o, 'g) Graph \<Rightarrow> api_Edge list" where
  "rest_edges mg opts g =
     map (rest_edge mg opts g) (filter (\<lambda>e. \<not> Node_Empty (g_node g (snd e))) (EachEdge mg g))"

definition no_options :: GraphOptions where
  "no_options = \<lparr>go_Errors = None, go_Results = None, go_Rules = None\<rparr>"

definition NewGraph ::
  "'g multigraph \<Rightarrow> 'o rest_env \<Rightarrow> GraphOptions option \<Rightarrow> ('i, 'o, 'g) Graph option \<Rightarrow> api_Graph go" where
  "NewGraph mg env optsPtr g =
     (case g of
        None \<Rightarrow> Returns \<lparr>ag_Edges = [], ag_Nodes = []\<rparr>
      | Some g \<Rightarrow>
          (let opts = ptr_Deref no_options optsPtr
           in go_bind (rest_nodes mg env opts g) (\<lambda>ns. Returns \<lparr>ag_Edges = rest_edges mg opts g, ag_Nodes = ns\<rparr>)))"

text \<open>\<open>Normalize\<close>, by the type it switches on.\<close>

definition Normalize_Queries :: "api_QueryCount list \<Rightarrow> api_QueryCount list" where
  "Normalize_Queries v = map (\<lambda>q. q\<lparr>aq_Statuses := sort_key as_Status (aq_Statuses q)\<rparr>) (sort_key aq_Query v)"

definition Normalize_Node :: "api_Node \<Rightarrow> api_Node" where
  "Normalize_Node n = n\<lparr>an_Queries := Normalize_Queries (an_Queries n)\<rparr>"

definition Normalize_Edge :: "api_Edge \<Rightarrow> api_Edge" where
  "Normalize_Edge e = e\<lparr>ae_Rules := map (\<lambda>r. r\<lparr>ar_Queries := Normalize_Queries (ar_Queries r)\<rparr>) (ae_Rules e)\<rparr>"

definition Normalize_Nodes :: "api_Node list \<Rightarrow> api_Node list" where
  "Normalize_Nodes v = map Normalize_Node (sort_key an_Class v)"

definition Normalize_Edges :: "api_Edge list \<Rightarrow> api_Edge list" where
  "Normalize_Edges v = map Normalize_Edge (sort_key (\<lambda>e. (ae_Start e, ae_Goal e)) v)"

definition Normalize :: "api_Graph \<Rightarrow> api_Graph" where
  "Normalize v = \<lparr>ag_Edges = Normalize_Edges (ag_Edges v), ag_Nodes = Normalize_Nodes (ag_Nodes v)\<rparr>"

section \<open>Parameters\<close>

definition rest_Constraint :: "api_Constraint option \<Rightarrow> Constraint option" where
  "rest_Constraint c =
     (case c of
        None \<Rightarrow> None
      | Some c \<Rightarrow> Some \<lparr>c_Limit = ac_Limit c, c_QueryLimit = ac_QueryLimit c, c_Start = ac_Start c, c_End = ac_End c\<rparr>)"

text \<open>The loop over the queries; a class that is not yet known is that of the first query.\<close>

fun start_queries ::
  "klass option \<Rightarrow> string list \<Rightarrow> 'o engine \<Rightarrow> (klass option \<times> query list) result \<times> 'o engine" where
  "start_queries class [] e = (Inr (class, []), e)"
| "start_queries class (q # qs) e =
     (case engine_Query q e of
        (Inl err, e) \<Rightarrow> (Inl err, e)
      | (Inr query, e) \<Rightarrow>
          (let class = (case class of None \<Rightarrow> q_class query | Some c \<Rightarrow> c)
           in if q_class query \<noteq> class
              then (Inl (ErrorString (''expected class '' @ Class_String class @ '' in query '' @ q)), e)
              else (case start_queries (Some class) qs e of
                      (Inl err, e) \<Rightarrow> (Inl err, e)
                    | (Inr (class, queries), e) \<Rightarrow> (Inr (class, query # queries), e))))"

definition start_class :: "'o engine \<Rightarrow> string \<Rightarrow> klass option result" where
  "start_class e s =
     (if s \<noteq> [] then (case engine_Class e s of Inl err \<Rightarrow> Inl err | Inr c \<Rightarrow> Inr (Some c)) else Inr None)"

definition TraverseStart ::
  "'o rest_env \<Rightarrow> api_Start \<Rightarrow> 'o engine \<Rightarrow> ('o Start \<times> Constraint option) result \<times> 'o engine" where
  "TraverseStart env start e =
     (case start_class e (at_Class start) of
        Inl err \<Rightarrow> (Inl err, e)
      | Inr class \<Rightarrow>
          (case start_queries class (at_Queries start) e of
             (Inl err, e) \<Rightarrow> (Inl err, e)
           | (Inr (None, _), e) \<Rightarrow> (Inl (ErrorString ''no class provided to start graph traversal''), e)
           | (Inr (Some c, queries), e) \<Rightarrow>
               (case collect_results (re_Unmarshal env c) (at_Objects start) of
                  Inl err \<Rightarrow> (Inl err, e)
                | Inr objects \<Rightarrow>
                    (Inr (\<lparr>st_Class = c, st_Objects = objects, st_Queries = queries\<rparr>,
                          rest_Constraint (at_Constraint start)), e))))"

text \<open>\<open>ConsoleOK\<close> changes the console it is given, also when it returns an error.\<close>

definition console_search :: "'o rest_env \<Rightarrow> api_Search \<Rightarrow> 'o engine \<Rightarrow> error option \<times> 'o engine" where
  "console_search env search e =
     (let start_ok = (\<lambda>start e. case TraverseStart env start e of (Inl err, e) \<Rightarrow> (Some err, e) | (Inr _, e) \<Rightarrow> (None, e))
      in case (ah_Goals search, ah_Neighbors search) of
           (Some goals, None) \<Rightarrow>
             (case engine_Classes e (al_Goals goals) of
                Inl err \<Rightarrow> (Some err, e)
              | Inr _ \<Rightarrow> start_ok (al_Start goals) e)
         | (None, Some neighbors) \<Rightarrow> start_ok (ab_Start neighbors) e
         | _ \<Rightarrow> (Some (ErrorString ''search must have exactly one of .goals or .neighbors''), e))"

definition ConsoleOK ::
  "'o rest_env \<Rightarrow> api_Console \<Rightarrow> 'o engine \<Rightarrow> error option \<times> api_Console \<times> 'o engine" where
  "ConsoleOK env c e =
     (let (r, c, e) =
        (if ak_View c \<noteq> []
         then (case engine_Query (ak_View c) e of
                 (Inl err, e) \<Rightarrow> (Some err, c, e)
               | (Inr q, e) \<Rightarrow> (None, c\<lparr>ak_View := Query_String q\<rparr>, e))
         else (None, c, e))
      in if r \<noteq> None then (r, c, e)
         else (case ak_Search c of
                 None \<Rightarrow> (None, c, e)
               | Some search \<Rightarrow> (let (r, e) = console_search env search e in (r, c, e))))"

section \<open>Domains\<close>

fun help_domains :: "'o engine \<Rightarrow> string \<Rightarrow> domain list result" where
  "help_domains e domain =
     (if domain \<noteq> []
      then (case engine_Domain e domain of Inl err \<Rightarrow> Inl err | Inr d \<Rightarrow> Inr [d])
      else Inr (engine_Domains e))"

definition DomainHelp :: "'o rest_env \<Rightarrow> 'o engine \<Rightarrow> string \<Rightarrow> string result" where
  "DomainHelp env e domain =
     (case help_domains e domain of
        Inl err \<Rightarrow> Inl err
      | Inr ds \<Rightarrow> Inr (concat (map (\<lambda>d. re_Description env (dom_Name d) @ [CHR 0x0A, CHR 0x0A]) ds)))"

text \<open>\<open>text.Summary\<close>: the first line.\<close>

definition text_Summary :: "string \<Rightarrow> string" where
  "text_Summary description = fst (strings_Cut description (CHR 0x0A))"

definition list_domain :: "'o rest_env \<Rightarrow> 'o engine \<Rightarrow> domain \<Rightarrow> api_Domain list go" where
  "list_domain env e d =
     go_bind (StoreConfigsFor (dom_Name d) e) (\<lambda>scs.
       Returns [\<lparr>ad_Description = text_Summary (re_Description env (dom_Name d)), ad_Name = dom_Name d,
                 ad_Stores = filter (\<lambda>sc. length sc > 0) (map (ptr_Deref []) scs)\<rparr>])"

definition rest_ListDomains :: "'o rest_env \<Rightarrow> 'o engine \<Rightarrow> api_Domain list go" where
  "rest_ListDomains env e = go_maps (list_domain env e) (engine_Domains e)"

section \<open>Query counts are independent of the map's order\<close>

lemma filter_key:
  assumes "inj_on f (set xs)" and "k \<in> set xs"
  shows "filter (\<lambda>x. f k = f x) xs = replicate (count (mset xs) k) k"
proof -
  have "f k = f x \<longleftrightarrow> x = k" if "x \<in> set xs" for x
    using inj_onD [OF assms(1) _ assms(2) that] by auto
  then have "filter (\<lambda>x. f k = f x) xs = filter (HOL.eq k) xs" by (intro filter_cong [OF refl]) auto
  then show ?thesis by (simp only: replicate_count_mset_eq_filter_eq)
qed

lemma sort_key_order:
  assumes "mset xs = mset ys" and "inj_on f (set xs)"
  shows "sort_key f xs = sort_key f ys"
proof -
  have sets: "set ys = set xs" using assms(1) by (rule mset_eq_setD [symmetric])
  have "sort_key f ys = sort_key f xs"
  proof (rule properties_for_sort_key)
    fix k
    assume "k \<in> set (sort_key f xs)"
    then have "k \<in> set xs" by simp
    then show "filter (\<lambda>x. f k = f x) (sort_key f xs) = filter (\<lambda>x. f k = f x) ys"
      using filter_key [of f "sort_key f xs" k] filter_key [of f ys k] assms sets by simp
  qed (simp_all add: assms(1))
  then show ?thesis by simp
qed

definition query_count :: "query \<times> QueryCount \<Rightarrow> api_QueryCount" where
  "query_count e = \<lparr>aq_Count = Some (qc_Count (snd e)), aq_Query = Query_String (fst e),
     aq_Statuses = status_list (ptr_Deref [] (qc_StatusCounts (snd e)))\<rparr>"

lemma queryCounts_alt:
  "queryCounts gq = sort_key (\<lambda>q. (- ptr_Deref 0 (aq_Count q), aq_Query q))
     (map query_count (filter (\<lambda>e. qc_Count (snd e) > 0) gq))"
proof -
  have "List.map_filter (\<lambda>(q, qc).
          if qc_Count qc \<le> 0 then None
          else Some \<lparr>aq_Count = Some (qc_Count qc), aq_Query = Query_String q,
                     aq_Statuses = status_list (ptr_Deref [] (qc_StatusCounts qc))\<rparr>) gq
      = map query_count (filter (\<lambda>e. qc_Count (snd e) > 0) gq)"
    by (induction gq) (auto simp: List.map_filter_def query_count_def split: prod.splits)
  then show ?thesis by (simp add: queryCounts_def)
qed

text \<open>The query counts of the API are those of the queries with results, the most results first and by the query's
  string when they are equal, and do not depend on the order in which the map is ranged over, as long as
  different queries have different strings.\<close>

theorem queryCounts_spec:
  assumes "inj_on Query_String (fst ` set gq)" and "distinct (map fst gq)"
  shows "mset (queryCounts gq) = mset (map query_count (filter (\<lambda>e. qc_Count (snd e) > 0) gq)) \<and>
    sorted (map (\<lambda>q. (- ptr_Deref 0 (aq_Count q), aq_Query q)) (queryCounts gq)) \<and>
    (mset gq' = mset gq \<longrightarrow> queryCounts gq' = queryCounts gq)"
proof (intro conjI impI)
  assume m: "mset gq' = mset gq"
  let ?f = "\<lambda>q. (- ptr_Deref 0 (aq_Count q), aq_Query q)" and ?c = "filter (\<lambda>e. qc_Count (snd e) > (0::int))"
  have "inj_on ?f (set (map query_count (?c gq)))"
  proof (rule inj_onI)
    fix x y
    assume "x \<in> set (map query_count (?c gq))" "y \<in> set (map query_count (?c gq))" and eq: "?f x = ?f y"
    then obtain e e' where e: "e \<in> set gq" "x = query_count e" "e' \<in> set gq" "y = query_count e'" by auto
    with eq have "Query_String (fst e) = Query_String (fst e')" by (simp add: query_count_def)
    with assms(1) e have "fst e = fst e'" by (auto simp: inj_on_def)
    with assms(2) e(1,3) have "e = e'" by (metis eq_key_imp_eq_value prod.collapse)
    with e show "x = y" by simp
  qed
  moreover have "mset (map query_count (?c gq)) = mset (map query_count (?c gq'))" using m by simp
  ultimately show "queryCounts gq' = queryCounts gq"
    unfolding queryCounts_alt by (rule sort_key_order [symmetric, rotated])
qed (simp_all add: queryCounts_alt)

lemma queryCounts_spec_witness:
  "queryCounts [(\<lparr>q_class = Klass ''a'' ''b'', q_data = ''x'', q_ptr = 0\<rparr>, \<lparr>qc_Count = 1, qc_StatusCounts = None\<rparr>),
       (\<lparr>q_class = Klass ''a'' ''b'', q_data = ''y'', q_ptr = 1\<rparr>, \<lparr>qc_Count = 2, qc_StatusCounts = None\<rparr>)] =
     queryCounts [(\<lparr>q_class = Klass ''a'' ''b'', q_data = ''y'', q_ptr = 1\<rparr>, \<lparr>qc_Count = 2, qc_StatusCounts = None\<rparr>),
       (\<lparr>q_class = Klass ''a'' ''b'', q_data = ''x'', q_ptr = 0\<rparr>, \<lparr>qc_Count = 1, qc_StatusCounts = None\<rparr>)]"
proof -
  let ?p = "(\<lparr>q_class = Klass ''a'' ''b'', q_data = ''x'', q_ptr = 0\<rparr>, \<lparr>qc_Count = 1, qc_StatusCounts = None\<rparr>)"
  let ?q = "(\<lparr>q_class = Klass ''a'' ''b'', q_data = ''y'', q_ptr = 1\<rparr>, \<lparr>qc_Count = 2, qc_StatusCounts = None\<rparr>)"
  have "mset [?p, ?q] = mset [?q, ?p] \<longrightarrow> queryCounts [?p, ?q] = queryCounts [?q, ?p]"
    using queryCounts_spec [of "[?q, ?p]" "[?p, ?q]"] by (simp add: Query_String_def inj_on_def)
  then show ?thesis by simp
qed

section \<open>The start of a traversal\<close>

lemma start_queries_class:
  "start_queries cls qs e = (Inr (cls', queries), e') \<Longrightarrow>
     (\<forall>q \<in> set queries. cls' = Some (q_class q)) \<and> (cls \<noteq> None \<longrightarrow> cls' = cls) \<and> length queries = length qs"
proof (induction qs arbitrary: cls e queries)
  case (Cons s qs)
  obtain r e1 where parsed: "engine_Query s e = (r, e1)" by fastforce
  with Cons.prems obtain query where r: "r = Inr query" by (cases r) auto
  let ?c = "case cls of None \<Rightarrow> q_class query | Some c \<Rightarrow> c"
  obtain rest e2 where others: "start_queries (Some ?c) qs e1 = (rest, e2)" by fastforce
  have c: "q_class query = ?c" using Cons.prems parsed r by (auto simp: Let_def split: if_splits)
  with Cons.prems parsed r others obtain qs' where s: "rest = Inr (cls', qs')" "queries = query # qs'" "e2 = e'"
    by (cases rest) (auto simp: Let_def split: if_splits)
  from Cons.IH [OF others [unfolded s]] c s(2) show ?case by (auto split: option.splits)
qed simp

text \<open>C25: A start that \<open>TraverseStart\<close> accepts is as the traversal demands: its class is the one that is named, if one is, all
  its queries and decoded objects are of that class, and none that was given is missing.\<close>

theorem TraverseStart_spec:
  assumes "TraverseStart env start e = (Inr (st, c), e')"
  shows "(\<forall>q \<in> set (st_Queries st). q_class q = st_Class st) \<and>
    length (st_Queries st) = length (at_Queries start) \<and>
    (at_Class start \<noteq> [] \<longrightarrow> engine_Class e (at_Class start) = Inr (st_Class st)) \<and>
    list_all2 (\<lambda>raw x. re_Unmarshal env (st_Class st) raw = Inr x) (at_Objects start) (st_Objects st) \<and>
    (at_Class start \<noteq> [] \<or> at_Queries start \<noteq> [])"
proof -
  from assms obtain cls where cls: "start_class e (at_Class start) = Inr cls"
    by (auto simp: TraverseStart_def split: sum.splits)
  obtain s e1 where queries: "start_queries cls (at_Queries start) e = (s, e1)" by fastforce
  with assms cls obtain k qs objects where s: "s = Inr (Some k, qs)"
    and objects: "collect_results (re_Unmarshal env k) (at_Objects start) = Inr objects"
    and st: "st = \<lparr>st_Class = k, st_Objects = objects, st_Queries = qs\<rparr>"
    by (auto simp: TraverseStart_def split: sum.splits option.splits)
  note q = start_queries_class [OF queries [unfolded s]]
  have "engine_Class e (at_Class start) = Inr k" if "at_Class start \<noteq> []"
    using that cls q by (auto simp: start_class_def split: sum.splits)
  moreover have "at_Class start \<noteq> [] \<or> at_Queries start \<noteq> []"
    using cls queries s by (auto simp: start_class_def)
  ultimately show ?thesis using q objects by (auto simp: st collect_results_Inr_iff)
qed

definition example_rest_env :: "nat rest_env" where
  "example_rest_env = \<lparr>re_Description = (\<lambda>n. n), re_Unmarshal = (\<lambda>_ s. Inr (length s)), re_Marshal = (\<lambda>n. Inr (show_nat n))\<rparr>"

lemma TraverseStart_spec_witness:
  "\<exists>st c e'. TraverseStart example_rest_env
     \<lparr>at_Class = ''netflow:network'', at_Constraint = None, at_Objects = [''abc''], at_Queries = []\<rparr> example_engine
       = (Inr (st, c), e') \<and> list_all2 (\<lambda>raw x. re_Unmarshal example_rest_env (st_Class st) raw = Inr x) [''abc''] (st_Objects st)"
proof -
  let ?s = "\<lparr>at_Class = ''netflow:network'', at_Constraint = None, at_Objects = [''abc''], at_Queries = []\<rparr>"
  have "case fst (TraverseStart example_rest_env ?s example_engine) of Inl _ \<Rightarrow> False | Inr _ \<Rightarrow> True" by code_simp
  then obtain st c e' where run: "TraverseStart example_rest_env ?s example_engine = (Inr (st, c), e')"
    by (cases "TraverseStart example_rest_env ?s example_engine") (auto split: sum.splits)
  from TraverseStart_spec [OF this] run show ?thesis by auto
qed

section \<open>The graph of a traversal\<close>

text \<open>What holds of every graph that \<open>buildGraph\<close> makes: its nodes have results, its lines join its nodes.\<close>

definition solid :: "'g multigraph \<Rightarrow> ('i, 'o, 'g) Graph \<Rightarrow> bool" where
  "solid mg g \<longleftrightarrow>
     (\<forall>n \<in> set (mg_Nodes mg (g_multi g)). \<exists>r. ns_Result (g_node g n) = Some r \<and> Result_List r \<noteq> []) \<and>
     (\<forall>u v i. mg_has_line mg (g_multi g) (u, v, i) \<longrightarrow>
        u \<in> set (mg_Nodes mg (g_multi g)) \<and> v \<in> set (mg_Nodes mg (g_multi g)))"

lemma build_nodes_results: "(c, dn, n) \<in> set (build_nodes t) \<Longrightarrow> Result_List (tn_result n) \<noteq> []"
  by (auto simp: build_nodes_def List.map_filter_def split: if_splits option.splits)

lemma build_lines_ends:
  assumes "(l, qs) \<in> set (build_lines t)"
  shows "l_F l \<in> (\<lambda>(c, dn, n). n_ID dn) ` set (build_nodes t)" "l_T l \<in> (\<lambda>(c, dn, n). n_ID dn) ` set (build_nodes t)"
proof -
  from assms obtain s f n g to m l' where "map_of (build_nodes t) s = Some (f, n)" "map_of (build_nodes t) g = Some (to, m)"
    "l = l'\<lparr>l_F := n_ID f, l_T := n_ID to\<rparr>"
    by (auto simp: build_lines_def Let_def List.map_filter_def split: if_splits option.splits)
  then have "(s, f, n) \<in> set (build_nodes t)" "(g, to, m) \<in> set (build_nodes t)" "l_F l = n_ID f" "l_T l = n_ID to"
    by (auto dest: map_of_SomeD)
  then show "l_F l \<in> (\<lambda>(c, dn, n). n_ID dn) ` set (build_nodes t)" "l_T l \<in> (\<lambda>(c, dn, n). n_ID dn) ` set (build_nodes t)"
    by (force intro: rev_image_eqI)+
qed

definition build_node ::
  "'g multigraph \<Rightarrow> klass \<times> Node \<times> ('i, 'o) tnode \<Rightarrow> ('i, 'o, 'g) Graph \<Rightarrow> ('i, 'o, 'g) Graph" where
  "build_node mg e g = (case e of (c, dn, n) \<Rightarrow>
     g\<lparr>g_multi := mg_AddNode mg (n_ID dn) (g_multi g),
       g_node := (g_node g)(n_ID dn := \<lparr>ns_Result = Some (tn_result n), ns_Queries = tn_queries n\<rparr>)\<rparr>)"

lemma buildGraph_alt:
  fixes t :: "('i, 'o) traverser"
  shows "buildGraph (mg :: 'g multigraph) t = fold (\<lambda>(l, queries) g. graph_AddLine mg l queries g) (build_lines t)
     (fold (build_node mg) (build_nodes t) (graph_New mg (tv_data t)))"
proof -
  have "(\<lambda>(c :: klass, dn, n :: ('i, 'o) tnode) (g :: ('i, 'o, 'g) Graph). g\<lparr>g_multi := mg_AddNode mg (n_ID dn) (g_multi g),
              g_node := (g_node g)(n_ID dn := \<lparr>ns_Result = Some (tn_result n), ns_Queries = tn_queries n\<rparr>)\<rparr>) = build_node mg"
    by (auto simp: build_node_def fun_eq_iff)
  then show ?thesis by (simp add: buildGraph_def)
qed

lemma build_nodes_fold:
  assumes "multigraph_laws mg" and "\<forall>(c, dn, n) \<in> set ns. Result_List (tn_result n) \<noteq> []" and "solid mg g"
  shows "solid mg (fold (build_node mg) ns g) \<and>
    set (mg_Nodes mg (g_multi (fold (build_node mg) ns g))) = (\<lambda>(c, dn, n). n_ID dn) ` set ns \<union> set (mg_Nodes mg (g_multi g))"
  using assms(2,3)
proof (induction ns arbitrary: g)
  case (Cons e ns)
  obtain c dn n where e: "e = (c, dn, n)" by (cases e)
  have "solid mg (build_node mg e g)" using Cons.prems assms(1) by (auto simp: solid_def build_node_def e)
  moreover have "set (mg_Nodes mg (g_multi (build_node mg e g))) = insert (n_ID dn) (set (mg_Nodes mg (g_multi g)))"
    using assms(1) by (simp add: build_node_def e)
  ultimately show ?case using Cons by (auto simp: e)
qed simp

lemma build_lines_fold:
  assumes "multigraph_laws mg" and "solid mg g"
    and "\<forall>(l, qs) \<in> set ls. l_F l \<in> set (mg_Nodes mg (g_multi g)) \<and> l_T l \<in> set (mg_Nodes mg (g_multi g))"
  shows "solid mg (fold (\<lambda>(l, queries) g. graph_AddLine mg l queries g) ls g)"
  using assms(2,3)
proof (induction ls arbitrary: g)
  case (Cons e ls)
  obtain l qs where e: "e = (l, qs)" by (cases e)
  let ?g = "graph_AddLine mg l qs g"
  have nodes: "set (mg_Nodes mg (g_multi ?g)) = set (mg_Nodes mg (g_multi g))"
    using Cons.prems(2) assms(1) by (auto simp: graph_AddLine_def e)
  have "mg_has_line mg (g_multi ?g) k \<longleftrightarrow> k = l_line l \<or> mg_has_line mg (g_multi g) k" for k
    using assms(1) by (simp add: graph_AddLine_def)
  moreover have "g_node ?g = g_node g" by (simp add: graph_AddLine_def)
  ultimately have "solid mg ?g"
    using Cons.prems unfolding solid_def nodes by (auto simp: e l_line_def)
  moreover have "\<forall>(l, qs) \<in> set ls. l_F l \<in> set (mg_Nodes mg (g_multi ?g)) \<and> l_T l \<in> set (mg_Nodes mg (g_multi ?g))"
    using Cons.prems(2) unfolding nodes by simp
  ultimately have "solid mg (fold (\<lambda>(l, queries) g. graph_AddLine mg l queries g) ls ?g)" by (rule Cons.IH)
  then show ?case by (simp add: e)
qed simp

lemma buildGraph_solid:
  assumes "multigraph_laws mg"
  shows "solid mg (buildGraph mg t)"
proof -
  let ?g = "fold (build_node mg) (build_nodes t) (graph_New mg (tv_data t))"
  have "solid mg (graph_New mg (tv_data t))" using assms by (simp add: solid_def graph_New_def)
  moreover have "\<forall>(c, dn, n) \<in> set (build_nodes t). Result_List (tn_result n) \<noteq> []"
    using build_nodes_results by blast
  moreover have "set (mg_Nodes mg (g_multi (graph_New mg (tv_data t)))) = {}" using assms by (simp add: graph_New_def)
  ultimately have g: "solid mg ?g" "set (mg_Nodes mg (g_multi ?g)) = (\<lambda>(c, dn, n). n_ID dn) ` set (build_nodes t)"
    using build_nodes_fold [OF assms] by (metis, metis Un_empty_right)
  show ?thesis
    unfolding buildGraph_alt
  proof (rule build_lines_fold [OF assms g(1)])
    show "\<forall>(l, qs) \<in> set (build_lines t). l_F l \<in> set (mg_Nodes mg (g_multi ?g)) \<and> l_T l \<in> set (mg_Nodes mg (g_multi ?g))"
      unfolding g(2) using build_lines_ends by blast
  qed
qed

lemma go_maps_all:
  assumes "\<And>x. x \<in> set xs \<Longrightarrow> f x = Returns (h x)"
  shows "go_maps f xs = Returns (concat (map h xs))"
  using assms by (induction xs) simp_all

lemma queryCounts_empty: "queryCounts gq = [] \<longleftrightarrow> Queries_Total gq = 0"
proof -
  have "queryCounts gq = [] \<longleftrightarrow> filter (\<lambda>e. qc_Count (snd e) > 0) gq = []"
    unfolding queryCounts_alt by (simp flip: length_0_conv)
  also have "\<dots> \<longleftrightarrow> Queries_Total gq = 0" by (auto simp: filter_empty_conv Queries_Total_zero_iff not_less)
  finally show ?thesis .
qed

text \<open>C24: The graph that the API gives for a traversal is closed: encoding it does not panic, every node has results and every
  edge starts and ends at nodes that it lists; the rules it lists for an edge are those that gave results.\<close>

theorem NewGraph_closed:
  assumes "multigraph_laws mg"
  shows "\<exists>gr. NewGraph mg env opts (Some (buildGraph mg t)) = Returns gr \<and>
    (\<forall>n \<in> set (ag_Nodes gr). \<exists>k > 0. an_Count n = Some k) \<and>
    (\<forall>e \<in> set (ag_Edges gr). ae_Start e \<in> an_Class ` set (ag_Nodes gr) \<and> ae_Goal e \<in> an_Class ` set (ag_Nodes gr) \<and>
       (\<forall>r \<in> set (ae_Rules e). ar_Queries r \<noteq> []))"
proof -
  let ?g = "buildGraph mg t" and ?o = "ptr_Deref no_options opts"
  define h where "h n = \<lparr>an_Class = Class_String (class_of (g_Data ?g) n),
      an_Count = Some (int (length (node_objects (g_node ?g n)))), an_Queries = queryCounts (ns_Queries (g_node ?g n)),
      an_Result = (if ptr_Deref False (go_Results ?o)
         then map (\<lambda>x. case re_Marshal env x of Inl _ \<Rightarrow> [] | Inr j \<Rightarrow> j) (node_objects (g_node ?g n)) else [])\<rparr>" for n
  have node: "\<exists>r. ns_Result (g_node ?g n) = Some r \<and> Result_List r \<noteq> []" if "n \<in> set (EachNode mg ?g)" for n
    using buildGraph_solid [OF assms, of t] that by (auto simp: solid_def EachNode_def)
  have "go_maps (\<lambda>n. if \<not> Node_Empty (g_node ?g n)
      then go_bind (rest_node env ?o (class_of (g_Data ?g) n) (g_node ?g n)) (\<lambda>x. Returns [x]) else Returns []) (EachNode mg ?g)
    = Returns (concat (map (\<lambda>n. [h n]) (EachNode mg ?g)))"
  proof (rule go_maps_all)
    fix n
    assume "n \<in> set (EachNode mg ?g)"
    then obtain r where "ns_Result (g_node ?g n) = Some r" "Result_List r \<noteq> []" using node by blast
    then show "(if \<not> Node_Empty (g_node ?g n)
        then go_bind (rest_node env ?o (class_of (g_Data ?g) n) (g_node ?g n)) (\<lambda>x. Returns [x]) else Returns []) = Returns [h n]"
      by (simp add: Node_Empty_def rest_node_def h_def node_objects_def)
  qed
  then have nodes: "rest_nodes mg env ?o ?g = Returns (map h (EachNode mg ?g))" by (simp add: rest_nodes_def)
  let ?gr = "\<lparr>ag_Edges = rest_edges mg ?o ?g, ag_Nodes = map h (EachNode mg ?g)\<rparr>"
  have gr: "NewGraph mg env opts (Some ?g) = Returns ?gr" by (simp add: NewGraph_def nodes Let_def)
  have "\<exists>k > 0. an_Count (h n) = Some k" if "n \<in> set (EachNode mg ?g)" for n
    using node [OF that] by (auto simp: h_def node_objects_def)
  moreover have "ae_Start e \<in> an_Class ` set (ag_Nodes ?gr) \<and> ae_Goal e \<in> an_Class ` set (ag_Nodes ?gr) \<and>
      (\<forall>r \<in> set (ae_Rules e). ar_Queries r \<noteq> [])" if e: "e \<in> set (ag_Edges ?gr)" for e
  proof -
    from e obtain u v where uv: "(u, v) \<in> set (EachEdge mg ?g)" "e = rest_edge mg ?o ?g (u, v)" by (auto simp: rest_edges_def)
    then obtain i where "mg_has_line mg (g_multi ?g) (u, v, i)" using assms by (auto simp: EachEdge_def)
    then have "u \<in> set (EachNode mg ?g)" "v \<in> set (EachNode mg ?g)"
      using buildGraph_solid [OF assms, of t] unfolding solid_def EachNode_def by blast+
    then have "ae_Start e \<in> an_Class ` set (ag_Nodes ?gr)" "ae_Goal e \<in> an_Class ` set (ag_Nodes ?gr)"
      by (auto simp: uv(2) rest_edge_def h_def image_image)
    moreover have "\<forall>r \<in> set (ae_Rules e). ar_Queries r \<noteq> []"
      by (auto simp: uv(2) rest_edge_def List.map_filter_def Let_def rest_rule_def queryCounts_empty split: if_splits)
    ultimately show ?thesis by blast
  qed
  ultimately show ?thesis using gr by auto
qed

lemma NewGraph_closed_witness:
  "\<exists>st gr. (run_step example_trav)\<^sup>*\<^sup>* example_init st \<and> ru_executed st = [example_query] \<and>
     NewGraph list_multigraph \<lparr>re_Description = (\<lambda>n. n), re_Unmarshal = (\<lambda>_. Inr), re_Marshal = Inr\<rparr> None
       (Some (buildGraph list_multigraph (ru_t st))) = Returns gr \<and>
     (\<forall>n \<in> set (ag_Nodes gr). \<exists>k > 0. an_Count n = Some k)"
proof -
  obtain st where "(run_step example_trav)\<^sup>*\<^sup>* example_init st" "ru_executed st = [example_query]" by (rule example_run)
  then show ?thesis
    using NewGraph_closed [OF list_multigraph_laws, of "\<lparr>re_Description = (\<lambda>n. n), re_Unmarshal = (\<lambda>_. Inr), re_Marshal = Inr\<rparr>"
        None "ru_t st"] by blast
qed

end
