(* ===== verification/Console.thy ===== *)
theory Console
  imports Prelude
begin

text \<open>
  \<open>pkg/session/console.go\<close>: the console of a session. Listeners (\<open>ConsoleEvents\<close>) are goroutines that take
  the connection with a compare-and-swap, wait in a loop for an update, a tick or the end of the request,
  and on return give the connection back and clear the console's state. \<open>ShowInConsole\<close> hands its update
  to a listener that waits in the loop's \<open>select\<close>, or fails.

  What \<open>ready\<close>, \<open>send\<close> and \<open>tick\<close> return comes from outside. A console state is a value of type \<open>'c\<close>.
\<close>

section \<open>State\<close>

record 'c consoleEvents =
  ce_fromConsole :: "'c option"
  ce_connected :: bool

definition newConsoleEvents :: "'c consoleEvents" where
  "newConsoleEvents = \<lparr>ce_fromConsole = None, ce_connected = False\<rparr>"

definition ErrNoConsole :: error where
  "ErrNoConsole = ErrorString ''no console is connected''"

definition ErrConsoleBusy :: error where
  "ErrConsoleBusy = ErrorString ''another console is already connected to this session''"

text \<open>Where a listener is: before the compare-and-swap, before \<open>ready\<close>, in the \<open>select\<close>, sending an update,
  ticking, in the two steps of the deferred function, returned.\<close>

datatype 'c listener =
    LConnect
  | LReady
  | LSelect
  | LSend 'c
  | LTick
  | LDisconnect "error option"
  | LClear "error option"
  | LDone "error option"

text \<open>The outcome of what a listener calls next, and the event of its \<open>select\<close>.\<close>

datatype listener_event = Tick | Cancelled error

record listener_env =
  li_result :: "error option"
  li_event :: listener_event

fun listener_step ::
  "listener_env \<Rightarrow> 'c listener \<Rightarrow> 'c consoleEvents \<Rightarrow> ('c listener \<times> 'c consoleEvents) option" where
  "listener_step env LConnect c =
     Some (if ce_connected c then (LDone (Some ErrConsoleBusy), c)
           else (LReady, c\<lparr>ce_connected := True\<rparr>))"
| "listener_step env LReady c =
     Some (case li_result env of Some e \<Rightarrow> LDisconnect (Some e) | None \<Rightarrow> LSelect, c)"
| "listener_step env LSelect c =
     Some (case li_event env of Tick \<Rightarrow> LTick | Cancelled e \<Rightarrow> LDisconnect (Some e), c)"
| "listener_step env (LSend update) c =
     Some (case li_result env of Some e \<Rightarrow> LDisconnect (Some e) | None \<Rightarrow> LSelect, c)"
| "listener_step env LTick c =
     Some (case li_result env of Some e \<Rightarrow> LDisconnect (Some e) | None \<Rightarrow> LSelect, c)"
| "listener_step env (LDisconnect e) c = Some (LClear e, c\<lparr>ce_connected := False\<rparr>)"
| "listener_step env (LClear e) c = Some (LDone e, c\<lparr>ce_fromConsole := None\<rparr>)"
| "listener_step env (LDone e) c = None"

definition SetConsoleState :: "'c option \<Rightarrow> 'c consoleEvents \<Rightarrow> 'c consoleEvents" where
  "SetConsoleState state c = c\<lparr>ce_fromConsole := state\<rparr>"

definition ConsoleState :: "'c consoleEvents \<Rightarrow> 'c option" where
  "ConsoleState c = ce_fromConsole c"

record 'c console_run =
  co_console :: "'c consoleEvents"
  co_listeners :: "'c listener list"

text \<open>\<open>ShowInConsole\<close>: the runtime picks a listener that waits, here number \<open>i\<close>; \<open>None\<close> is the default case,
  which is taken when none waits.\<close>

definition ShowInConsole :: "'c \<Rightarrow> nat option \<Rightarrow> 'c console_run \<Rightarrow> (error option \<times> 'c console_run) option" where
  "ShowInConsole update i st =
     (case i of
        None \<Rightarrow> if LSelect \<in> set (co_listeners st) then None else Some (Some ErrNoConsole, st)
      | Some i \<Rightarrow>
          if i < length (co_listeners st) \<and> co_listeners st ! i = LSelect
          then Some (None, st\<lparr>co_listeners := (co_listeners st)[i := LSend update]\<rparr>)
          else None)"

inductive console_step :: "'c console_run \<Rightarrow> 'c console_run \<Rightarrow> bool" where
  console_listen: "console_step st (st\<lparr>co_listeners := co_listeners st @ [LConnect]\<rparr>)"
| console_move: "i < length (co_listeners st) \<Longrightarrow>
    listener_step env (co_listeners st ! i) (co_console st) = Some (l, c) \<Longrightarrow>
    console_step st \<lparr>co_console = c, co_listeners = (co_listeners st)[i := l]\<rparr>"
| console_show: "ShowInConsole update i st = Some (r, st') \<Longrightarrow> console_step st st'"
| console_set: "console_step st (st\<lparr>co_console := SetConsoleState state (co_console st)\<rparr>)"

inductive console_reach :: "'c console_run \<Rightarrow> bool" where
  console_init: "console_reach \<lparr>co_console = newConsoleEvents, co_listeners = []\<rparr>"
| console_next: "console_reach st \<Longrightarrow> console_step st st' \<Longrightarrow> console_reach st'"

section \<open>One listener\<close>

fun holds :: "'c listener \<Rightarrow> bool" where
  "holds LReady = True"
| "holds LSelect = True"
| "holds (LSend u) = True"
| "holds LTick = True"
| "holds (LDisconnect e) = True"
| "holds l = False"

definition holders :: "'c console_run \<Rightarrow> nat" where
  "holders st = length (filter holds (co_listeners st))"

lemma filter_update:
  "i < length xs \<Longrightarrow> length (filter P (xs[i := y])) + (if P (xs ! i) then 1 else 0) =
     length (filter P xs) + (if P y then 1 else 0)"
proof (induction xs arbitrary: i)
  case (Cons x xs)
  then show ?case by (cases i) auto
qed simp

definition console_ok :: "'c console_run \<Rightarrow> bool" where
  "console_ok st \<longleftrightarrow> holders st = (if ce_connected (co_console st) then 1 else 0)"

lemma listener_step_holds:
  assumes "listener_step env l c = Some (l', c')"
  shows "(ce_connected c' \<longleftrightarrow> (ce_connected c \<and> \<not> (holds l \<and> \<not> holds l')) \<or> (\<not> holds l \<and> holds l')) \<and>
    (\<not> holds l \<and> holds l' \<longrightarrow> \<not> ce_connected c)"
  using assms by (cases l) (auto split: option.splits listener_event.splits if_splits)

lemma console_step_ok: "console_step st st' \<Longrightarrow> console_ok st \<Longrightarrow> console_ok st'"
proof (induction rule: console_step.induct)
  case (console_move i st env l c)
  have "holds (co_listeners st ! i) \<Longrightarrow> holders st \<noteq> 0"
    using nth_mem [OF console_move(1)] by (auto simp: holders_def filter_empty_conv)
  then show ?case
    using listener_step_holds [OF console_move(2)] filter_update [OF console_move(1), of holds l] console_move(3)
    by (auto simp: console_ok_def holders_def split: if_splits)
next
  case (console_show update i st r st')
  have "holders st' = holders st \<and> co_console st' = co_console st"
    using console_show(1) filter_update [of "the i" "co_listeners st" holds "LSend update"]
    by (auto simp: ShowInConsole_def holders_def split: option.splits if_splits)
  with console_show(2) show ?case by (simp add: console_ok_def)
qed (auto simp: console_ok_def holders_def SetConsoleState_def)

text \<open>C19: At most one listener is connected to the console of a session, whatever listeners come and go.\<close>

theorem console_one_listener:
  assumes "console_reach st"
  shows "length (filter holds (co_listeners st)) \<le> 1"
proof -
  have "console_ok st" using assms
    by (induction rule: console_reach.induct)
      (auto simp: console_step_ok, simp add: console_ok_def holders_def newConsoleEvents_def)
  then show ?thesis by (simp add: console_ok_def holders_def)
qed

lemma console_one_listener_witness:
  "length (filter holds (co_listeners (\<lparr>co_console = newConsoleEvents, co_listeners = []\<rparr> :: nat console_run))) \<le> 1"
  by (rule console_one_listener [OF console_init])

section \<open>A state that is lost\<close>


end
