(* ===== verification/Handlers.thy ===== *)
theory Handlers
  imports Rest Console
begin

text \<open>
  \<open>pkg/rest/operations.go\<close>: the handlers of the REST API. A handler gets the session of the request or the error of
  finding it and a gin context; it writes a response into the context or aborts it with an error.

  Parameters (\<open>handler_env\<close>): the traversals, what the stores do, and the outcome of handing an update to the
  console (\<open>ShowInConsole\<close> of the theory \<open>Console\<close>). Gin is the documented behaviour of the calls that are used:
  \<open>BindJSON\<close> aborts with status 400, and writes no body, when the request does not decode.
\<close>

section \<open>Requests and responses\<close>

datatype 'o body =
    BError error
  | BGraph api_Graph
  | BNodes "api_Node list"
  | BDomains "api_Domain list"
  | BNames "string list option"
  | BObjects "'o list"
  | BConsole api_Console
  | BHelp string
  | BConfig "int option"
  | BText string
  | BStream string
  | BEmpty

record 'o gin =
  gin_aborted :: bool
  gin_status :: "nat option"
  gin_bodies :: "'o body list"

definition gin_New :: "'o gin" where
  "gin_New = \<lparr>gin_aborted = False, gin_status = None, gin_bodies = []\<rparr>"

text \<open>The status of a response is the first that is written.\<close>

definition gin_Status :: "nat \<Rightarrow> 'o gin \<Rightarrow> 'o gin" where
  "gin_Status code c = c\<lparr>gin_status := (case gin_status c of None \<Rightarrow> Some code | Some s \<Rightarrow> Some s)\<rparr>"

definition gin_JSON :: "nat \<Rightarrow> 'o body \<Rightarrow> 'o gin \<Rightarrow> 'o gin" where
  "gin_JSON code body c = (gin_Status code c)\<lparr>gin_bodies := gin_bodies c @ [body]\<rparr>"

definition gin_BindJSON :: "'r result \<Rightarrow> 'o gin \<Rightarrow> 'o gin" where
  "gin_BindJSON r c = (case r of Inl err \<Rightarrow> (gin_Status 400 c)\<lparr>gin_aborted := True\<rparr> | Inr _ \<Rightarrow> c)"

record 'o rest_session =
  rs_Engine :: "'o engine"
  rs_Console :: "api_Console consoleEvents"

record ('i, 'o, 'g) handler_env =
  he_rest :: "'o rest_env"
  he_mg :: "'g multigraph"
  he_ider :: "klass \<Rightarrow> ('o \<Rightarrow> 'i) option"
  he_Goals :: "'o engine \<Rightarrow> 'o Start \<Rightarrow> Constraint option \<Rightarrow> klass list \<Rightarrow> ('i, 'o, 'g) Graph result"
  he_Neighbors :: "'o engine \<Rightarrow> 'o Start \<Rightarrow> Constraint option \<Rightarrow> int \<Rightarrow> ('i, 'o, 'g) Graph option \<times> error option"
  he_stores :: "'o store_env list"
  he_now :: time
  he_show :: "api_Console \<Rightarrow> error option"
  he_routes :: "string list"

text \<open>\<open>session\<close>: the session a transport has set, or that of the manager.\<close>

definition API_session :: "'s option \<Rightarrow> 's result \<Rightarrow> 's result" where
  "API_session from_context get = (case from_context of Some s \<Rightarrow> Inr s | None \<Rightarrow> get)"

definition check :: "nat \<Rightarrow> error option \<Rightarrow> string option \<Rightarrow> 'o gin \<Rightarrow> bool \<times> 'o gin" where
  "check code err format c =
     (if gin_aborted c then (False, c)
      else (case err of
              None \<Rightarrow> (True, c)
            | Some err \<Rightarrow>
                (let err = (case format of None \<Rightarrow> err | Some msg \<Rightarrow> ErrorWrap (msg @ '': '') err [])
                 in (False, (gin_JSON code (BError err) c)\<lparr>gin_aborted := True\<rparr>))))"

definition okResponse :: "'o body \<Rightarrow> 'o gin \<Rightarrow> 'o gin" where
  "okResponse body c = (if \<not> gin_aborted c then gin_JSON 200 body c else c)"

text \<open>\<open>if !check(c, code, err) { return }\<close> for the error of a result: the handler goes on with its value.\<close>

definition checked :: "nat \<Rightarrow> 'a result \<Rightarrow> string option \<Rightarrow> 'o gin \<Rightarrow> 'a option \<times> 'o gin" where
  "checked code r format c =
     (case r of
        Inl err \<Rightarrow> (None, snd (check code (Some err) format c))
      | Inr v \<Rightarrow> (let (ok, c) = check code None format c in (if ok then Some v else None, c)))"

section \<open>Handlers\<close>

type_synonym ('o, 'a) handling = "'o gin \<Rightarrow> 'o rest_session result \<Rightarrow> ('a \<times> 'o gin \<times> 'o rest_session result) go"

definition API_homePage :: "string \<Rightarrow> string list \<Rightarrow> 'o gin \<Rightarrow> 'o gin" where
  "API_homePage version routes c =
     (let paths = sort (remdups routes)
      in gin_JSON 200 (BText (''Korrel8r '' @ version @ [CHR 0x0A, CHR 0x0A] @ strings_Join [CHR 0x0A] paths)) c)"

definition API_ListDomains :: "('i, 'o, 'g) handler_env \<Rightarrow> ('o, unit) handling" where
  "API_ListDomains env c s =
     (case checked 500 s None c of
        (None, c) \<Rightarrow> Returns ((), c, s)
      | (Some session, c) \<Rightarrow>
          go_bind (rest_ListDomains (he_rest env) (rs_Engine session)) (\<lambda>ds. Returns ((), gin_JSON 200 (BDomains ds) c, s)))"

text \<open>The names of a domain without classes are a nil slice, which is encoded as null.\<close>

definition API_ListDomainClasses :: "('i, 'o, 'g) handler_env \<Rightarrow> string \<Rightarrow> ('o, unit) handling" where
  "API_ListDomainClasses env domain c s =
     (case checked 500 s None c of
        (None, c) \<Rightarrow> Returns ((), c, s)
      | (Some session, c) \<Rightarrow>
          (case checked 404 (engine_Domain (rs_Engine session) domain) (Some (''domain not found: '' @ domain)) c of
             (None, c) \<Rightarrow> Returns ((), c, s)
           | (Some d, c) \<Rightarrow>
               (let names = map k_name (dom_Classes d)
                in Returns ((), gin_JSON 200 (BNames (if names = [] then None else Some names)) c, s))))"

text \<open>\<open>goals\<close> is shared by \<open>GraphGoals\<close> and \<open>ListGoals\<close>.\<close>

definition API_goals ::
  "('i, 'o, 'g) handler_env \<Rightarrow> api_Goals result \<Rightarrow> ('o, ('i, 'o, 'g) Graph option \<times> klass list) handling" where
  "API_goals env request c s =
     (case checked 500 s None c of
        (None, c) \<Rightarrow> Returns ((None, []), c, s)
      | (Some session, c) \<Rightarrow>
          (case checked 400 request None (gin_BindJSON request c) of
             (None, c) \<Rightarrow> Returns ((None, []), c, s)
           | (Some r, c) \<Rightarrow>
               (let (start, e) = TraverseStart (he_rest env) (al_Start r) (rs_Engine session);
                    s = Inr (session\<lparr>rs_Engine := e\<rparr>)
                in case checked 400 start None c of
                     (None, c) \<Rightarrow> Returns ((None, []), c, s)
                   | (Some (start, constraint), c) \<Rightarrow>
                       (case checked 400 (engine_Classes e (al_Goals r)) None c of
                          (None, c) \<Rightarrow> Returns ((None, []), c, s)
                        | (Some goals, c) \<Rightarrow>
                            (let (g, c) = checked 404 (he_Goals env e start constraint goals) None c
                             in Returns ((g, goals), c, s))))))"

definition API_GraphGoals ::
  "('i, 'o, 'g) handler_env \<Rightarrow> api_Goals result \<Rightarrow> GraphOptions option \<Rightarrow> ('o, unit) handling" where
  "API_GraphGoals env request options c s =
     go_bind (API_goals env request c s) (\<lambda>((g, _), c, s).
       go_bind (NewGraph (he_mg env) (he_rest env) options g) (\<lambda>gr. Returns ((), okResponse (BGraph gr) c, s)))"

definition API_ListGoals :: "('i, 'o, 'g) handler_env \<Rightarrow> api_Goals result \<Rightarrow> ('o, unit) handling" where
  "API_ListGoals env request c s =
     go_bind (API_goals env request c s) (\<lambda>((g, goals), c, s).
       if gin_aborted c then Returns ((), c, s)
       else (case g of
               None \<Rightarrow> Panics ''nil pointer dereference''
             | Some g \<Rightarrow>
                 go_bind (go_maps (\<lambda>n. if class_of (g_Data g) n \<in> set goals
                                      then go_bind (rest_node (he_rest env) no_options (class_of (g_Data g) n) (g_node g n))
                                             (\<lambda>x. Returns [x])
                                      else Returns []) (EachNode (he_mg env) g))
                   (\<lambda>nodes. Returns ((), okResponse (BNodes nodes) c, s))))"

definition API_GraphNeighbors ::
  "('i, 'o, 'g) handler_env \<Rightarrow> api_Neighbors result \<Rightarrow> GraphOptions option \<Rightarrow> ('o, unit) handling" where
  "API_GraphNeighbors env request options c s =
     (case checked 500 s None c of
        (None, c) \<Rightarrow> Returns ((), c, s)
      | (Some session, c) \<Rightarrow>
          (case checked 400 request None (gin_BindJSON request c) of
             (None, c) \<Rightarrow> Returns ((), c, s)
           | (Some r, c) \<Rightarrow>
               (let (start, e) = TraverseStart (he_rest env) (ab_Start r) (rs_Engine session);
                    s = Inr (session\<lparr>rs_Engine := e\<rparr>)
                in case checked 400 start None c of
                     (None, c) \<Rightarrow> Returns ((), c, s)
                   | (Some (start, constraint), c) \<Rightarrow>
                       (let (g, err) = he_Neighbors env e start constraint (ab_Depth r)
                        in case check 404 err None c of
                             (False, c) \<Rightarrow> Returns ((), c, s)
                           | (True, c) \<Rightarrow>
                               go_bind (NewGraph (he_mg env) (he_rest env) options g)
                                 (\<lambda>gr. Returns ((), okResponse (BGraph gr) c, s))))))"

definition API_GraphNeighbours ::
  "('i, 'o, 'g) handler_env \<Rightarrow> api_Neighbors result \<Rightarrow> GraphOptions option \<Rightarrow> ('o, unit) handling" where
  "API_GraphNeighbours = API_GraphNeighbors"

definition API_Objects ::
  "('i, 'o, 'g) handler_env \<Rightarrow> string \<Rightarrow> api_Constraint option \<Rightarrow> ('o, unit) handling" where
  "API_Objects env query constraint c s =
     (case checked 500 s None c of
        (None, c) \<Rightarrow> Returns ((), c, s)
      | (Some session, c) \<Rightarrow>
          (let (q, e) = engine_Query query (rs_Engine session)
           in case checked 400 q None c of
                (None, c) \<Rightarrow> Returns ((), c, Inr (session\<lparr>rs_Engine := e\<rparr>))
              | (Some q, c) \<Rightarrow>
                  go_bind (engine_Get (he_stores env) (he_now env) q (rest_Constraint constraint) e) (\<lambda>((objects, err), e).
                    let s = Inr (session\<lparr>rs_Engine := e\<rparr>)
                    in case check 404 err None c of
                         (False, c) \<Rightarrow> Returns ((), c, s)
                       | (True, c) \<Rightarrow>
                           Returns ((), gin_JSON 200 (BObjects (Result_List
                             (Result_Append objects (Result_New (he_ider env (q_class q)))))) c, s))))"

definition API_SetConfig :: "int option \<Rightarrow> 'o gin \<Rightarrow> 'o gin" where
  "API_SetConfig verbose c = gin_JSON 200 (BConfig verbose) c"

section \<open>Help and the console\<close>

definition API_Help :: "('i, 'o, 'g) handler_env \<Rightarrow> ('o, unit) handling" where
  "API_Help env c s =
     (case checked 500 s None c of
        (None, c) \<Rightarrow> Returns ((), c, s)
      | (Some session, c) \<Rightarrow>
          (case checked 500 (DomainHelp (he_rest env) (rs_Engine session) []) None c of
             (None, c) \<Rightarrow> Returns ((), c, s)
           | (Some doc, c) \<Rightarrow> Returns ((), gin_JSON 200 (BHelp doc) c, s)))"

definition API_HelpDomain :: "('i, 'o, 'g) handler_env \<Rightarrow> string \<Rightarrow> ('o, unit) handling" where
  "API_HelpDomain env domain c s =
     (case checked 500 s None c of
        (None, c) \<Rightarrow> Returns ((), c, s)
      | (Some session, c) \<Rightarrow>
          (case checked 404 (DomainHelp (he_rest env) (rs_Engine session) domain) (Some (''domain not found: '' @ domain)) c of
             (None, c) \<Rightarrow> Returns ((), c, s)
           | (Some doc, c) \<Rightarrow> Returns ((), gin_JSON 200 (BHelp doc) c, s)))"

definition API_GetConsole :: "('o, unit) handling" where
  "API_GetConsole c s =
     (case checked 500 s None c of
        (None, c) \<Rightarrow> Returns ((), c, s)
      | (Some session, c) \<Rightarrow>
          (case ConsoleState (rs_Console session) of
             None \<Rightarrow> Returns ((), snd (check 404 (Some ErrNoConsole) None c), s)
           | Some state \<Rightarrow> Returns ((), gin_JSON 200 (BConsole state) c, s)))"

definition API_ShowInConsole :: "('i, 'o, 'g) handler_env \<Rightarrow> api_Console result \<Rightarrow> ('o, unit) handling" where
  "API_ShowInConsole env request c s =
     (case checked 400 request None (gin_BindJSON request c) of
        (None, c) \<Rightarrow> Returns ((), c, s)
      | (Some update, c) \<Rightarrow>
          (case checked 500 s None c of
             (None, c) \<Rightarrow> Returns ((), c, s)
           | (Some session, c) \<Rightarrow>
               (let (err, update, e) = ConsoleOK (he_rest env) update (rs_Engine session);
                    s = Inr (session\<lparr>rs_Engine := e\<rparr>)
                in case check 400 err None c of
                     (False, c) \<Rightarrow> Returns ((), c, s)
                   | (True, c) \<Rightarrow>
                       (case check 404 (he_show env update) None c of
                          (False, c) \<Rightarrow> Returns ((), c, s)
                        | (True, c) \<Rightarrow> Returns ((), gin_JSON 200 BEmpty c, s)))))"

definition API_SetConsole :: "('i, 'o, 'g) handler_env \<Rightarrow> api_Console result \<Rightarrow> ('o, unit) handling" where
  "API_SetConsole env request c s =
     (case checked 400 request None (gin_BindJSON request c) of
        (None, c) \<Rightarrow> Returns ((), c, s)
      | (Some state, c) \<Rightarrow>
          (case checked 500 s None c of
             (None, c) \<Rightarrow> Returns ((), c, s)
           | (Some session, c) \<Rightarrow>
               (let (err, state, e) = ConsoleOK (he_rest env) state (rs_Engine session);
                    session = session\<lparr>rs_Engine := e\<rparr>
                in case check 400 err None c of
                     (False, c) \<Rightarrow> Returns ((), c, Inr session)
                   | (True, c) \<Rightarrow>
                       Returns ((), gin_JSON 200 (BConsole state) c,
                         Inr (session\<lparr>rs_Console := SetConsoleState (Some state) (rs_Console session)\<rparr>)))))"

section \<open>One response\<close>

text \<open>The requests of the API but the stream of console events, which is in the theory \<open>Events\<close>. What a body decodes to comes with the request.\<close>

datatype request =
    RListDomains
  | RListDomainClasses string
  | RGraphGoals "api_Goals result" "GraphOptions option"
  | RListGoals "api_Goals result"
  | RGraphNeighbors "api_Neighbors result" "GraphOptions option"
  | RGraphNeighbours "api_Neighbors result" "GraphOptions option"
  | RObjects string "api_Constraint option"
  | RSetConfig "int option"
  | RHelp
  | RHelpDomain string
  | RGetConsole
  | RShowInConsole "api_Console result"
  | RSetConsole "api_Console result"

fun serve :: "('i, 'o, 'g) handler_env \<Rightarrow> request \<Rightarrow> ('o, unit) handling" where
  "serve env RListDomains = API_ListDomains env"
| "serve env (RListDomainClasses d) = API_ListDomainClasses env d"
| "serve env (RGraphGoals r opts) = API_GraphGoals env r opts"
| "serve env (RListGoals r) = API_ListGoals env r"
| "serve env (RGraphNeighbors r opts) = API_GraphNeighbors env r opts"
| "serve env (RGraphNeighbours r opts) = API_GraphNeighbours env r opts"
| "serve env (RObjects q k) = API_Objects env q k"
| "serve env (RSetConfig v) = (\<lambda>c s. Returns ((), API_SetConfig v c, s))"
| "serve env RHelp = API_Help env"
| "serve env (RHelpDomain d) = API_HelpDomain env d"
| "serve env RGetConsole = API_GetConsole"
| "serve env (RShowInConsole r) = API_ShowInConsole env r"
| "serve env (RSetConsole r) = API_SetConsole env r"

text \<open>A body that does not decode.\<close>

fun malformed :: "request \<Rightarrow> bool" where
  "malformed (RGraphGoals (Inl _) _) = True"
| "malformed (RListGoals (Inl _)) = True"
| "malformed (RGraphNeighbors (Inl _) _) = True"
| "malformed (RGraphNeighbours (Inl _) _) = True"
| "malformed (RShowInConsole (Inl _)) = True"
| "malformed (RSetConsole (Inl _)) = True"
| "malformed _ = False"

text \<open>A complete response: aborted with one error and its status, or 200 with one other body, or status 400 without a
  body.\<close>

fun is_error :: "'o body \<Rightarrow> bool" where
  "is_error (BError _) = True"
| "is_error _ = False"

definition responded :: "'o gin \<Rightarrow> bool" where
  "responded c \<longleftrightarrow>
     (if gin_aborted c
      then gin_status c \<in> {Some 400, Some 404, Some 500} \<and> (\<exists>err. gin_bodies c = [BError err])
      else gin_status c = Some 200 \<and> (\<exists>b. gin_bodies c = [b] \<and> \<not> is_error b))"

definition rejected :: "'o gin \<Rightarrow> bool" where
  "rejected c \<longleftrightarrow> gin_aborted c \<and> gin_status c = Some 400 \<and> gin_bodies c = []"

lemma checked_fresh:
  assumes "checked code r format gin_New = (v, c)" and "code \<in> {400, 404, 500}"
  shows "(\<exists>x. v = Some x \<and> r = Inr x \<and> c = gin_New) \<or> (v = None \<and> responded c \<and> gin_aborted c)"
  using assms
  by (auto simp: checked_def check_def gin_New_def gin_JSON_def gin_Status_def responded_def Let_def split: sum.splits)

lemma check_fresh:
  assumes "check code err format gin_New = (ok, c)" and "code \<in> {400, 404, 500}"
  shows "(ok \<and> err = None \<and> c = gin_New) \<or> (\<not> ok \<and> responded c \<and> gin_aborted c)"
  using assms
  by (auto simp: check_def gin_New_def gin_JSON_def gin_Status_def responded_def Let_def split: option.splits)

lemma JSON_fresh: "\<not> is_error b \<Longrightarrow> responded (gin_JSON 200 b gin_New)"
  by (simp add: responded_def gin_JSON_def gin_Status_def gin_New_def)

lemma okResponse_fresh: "\<not> is_error b \<Longrightarrow> responded (okResponse b gin_New)"
  "responded c \<Longrightarrow> gin_aborted c \<Longrightarrow> okResponse b c = c" "rejected c \<Longrightarrow> okResponse b c = c"
  by (simp_all add: okResponse_def JSON_fresh gin_New_def rejected_def)
    (simp_all add: responded_def gin_JSON_def gin_Status_def)

lemma bind_checked:
  assumes "checked 400 r None (gin_BindJSON r gin_New) = (v, c)"
  shows "case r of Inl _ \<Rightarrow> v = None \<and> rejected c | Inr x \<Rightarrow> v = Some x \<and> c = gin_New"
  using assms
  by (auto simp: checked_def check_def gin_BindJSON_def gin_New_def gin_Status_def rejected_def split: sum.splits)

lemmas response_intros = JSON_fresh okResponse_fresh(1)

lemmas handling_splits = prod.splits option.splits bool.splits sum.splits

lemma ListDomains_responds: "API_ListDomains env gin_New s = Returns ((), c, s') \<Longrightarrow> responded c"
  by (auto simp: API_ListDomains_def go_bind_Returns_iff split: handling_splits dest!: checked_fresh intro!: response_intros)

lemma ListDomainClasses_responds: "API_ListDomainClasses env d gin_New s = Returns ((), c, s') \<Longrightarrow> responded c"
  by (auto simp: API_ListDomainClasses_def Let_def split: handling_splits dest!: checked_fresh intro!: response_intros)

lemma goals_responds:
  assumes "API_goals env r gin_New s = Returns (x, c, s')"
  shows "(c = gin_New \<and> fst x \<noteq> None) \<or> (responded c \<and> gin_aborted c) \<or> ((\<exists>err. r = Inl err) \<and> rejected c)"
  using assms
  by (auto simp: API_goals_def Let_def split: handling_splits dest!: checked_fresh bind_checked)

lemma GraphGoals_responds:
  assumes "API_GraphGoals env r opts gin_New s = Returns ((), c, s')"
  shows "responded c \<or> ((\<exists>err. r = Inl err) \<and> rejected c)"
proof -
  from assms obtain x c1 gr where goals: "API_goals env r gin_New s = Returns (x, c1, s')"
    and c: "c = okResponse (BGraph gr) c1" by (auto simp: API_GraphGoals_def go_bind_Returns_iff)
  have "responded (okResponse (BGraph gr) gin_New)" by (intro response_intros) simp
  with goals_responds [OF goals] show ?thesis unfolding c by (auto simp: okResponse_fresh(2,3))
qed

lemma ListGoals_responds:
  assumes "API_ListGoals env r gin_New s = Returns ((), c, s')"
  shows "responded c \<or> ((\<exists>err. r = Inl err) \<and> rejected c)"
proof -
  obtain g goals c1 s1 where run: "API_goals env r gin_New s = Returns ((g, goals), c1, s1)"
    using assms by (cases "API_goals env r gin_New s") (auto simp: API_ListGoals_def)
  have rest: "gin_aborted c1 \<and> c = c1 \<or> \<not> gin_aborted c1 \<and> (\<exists>nodes. c = okResponse (BNodes nodes) c1)"
    using assms by (auto simp: API_ListGoals_def run go_bind_Returns_iff split: if_splits option.splits)
  have "responded (okResponse (BNodes nodes) gin_New)" for nodes by (intro response_intros) simp
  with goals_responds [OF run] rest show ?thesis by (auto simp: rejected_def gin_New_def)
qed

lemma GraphNeighbors_responds:
  assumes "API_GraphNeighbors env r opts gin_New s = Returns ((), c, s')"
  shows "responded c \<or> ((\<exists>err. r = Inl err) \<and> rejected c)"
  using assms
  by (auto simp: API_GraphNeighbors_def Let_def go_bind_Returns_iff split: handling_splits
      dest!: checked_fresh check_fresh bind_checked intro!: response_intros)

lemma check_New:
  "check code err None gin_New =
     (case err of None \<Rightarrow> (True, gin_New) | Some e \<Rightarrow> (False, (gin_JSON code (BError e) gin_New)\<lparr>gin_aborted := True\<rparr>))"
  by (auto simp: check_def gin_New_def split: option.splits)

lemma failed_responded:
  "code \<in> {400, 404, 500} \<Longrightarrow> responded ((gin_JSON code (BError e) gin_New)\<lparr>gin_aborted := True\<rparr>)"
  by (auto simp: responded_def gin_JSON_def gin_Status_def gin_New_def)

lemma Objects_responds: "API_Objects env q k gin_New s = Returns ((), c, s') \<Longrightarrow> responded c"
  by (auto simp: API_Objects_def Let_def go_bind_Returns_iff check_New split: handling_splits
      dest!: checked_fresh intro!: response_intros failed_responded)

lemma Help_responds: "API_Help env gin_New s = Returns ((), c, s') \<Longrightarrow> responded c"
  "API_HelpDomain env d gin_New s = Returns ((), c, s') \<Longrightarrow> responded c"
  by (auto simp: API_Help_def API_HelpDomain_def split: handling_splits dest!: checked_fresh intro!: response_intros)

lemma GetConsole_responds: "API_GetConsole gin_New s = Returns ((), c, s') \<Longrightarrow> responded c"
proof -
  assume r: "API_GetConsole gin_New s = Returns ((), c, s')"
  have "responded (snd (check 404 (Some e) None (gin_New :: 'a gin)))" for e
    using check_fresh [of 404 "Some e" None] by (cases "check 404 (Some e) None (gin_New :: 'a gin)") auto
  with r show ?thesis
    by (auto simp: API_GetConsole_def split: handling_splits dest!: checked_fresh intro!: response_intros)
qed

lemma console_responds:
  assumes "API_ShowInConsole env r gin_New s = Returns ((), c, s') \<or> API_SetConsole env r gin_New s = Returns ((), c, s')"
  shows "responded c \<or> ((\<exists>err. r = Inl err) \<and> rejected c)"
  using assms
  by (auto simp: API_ShowInConsole_def API_SetConsole_def Let_def split: handling_splits
      dest!: checked_fresh check_fresh bind_checked intro!: response_intros)

lemma SetConfig_responds: "responded (API_SetConfig v gin_New)"
  by (auto simp: API_SetConfig_def intro: response_intros)

text \<open>Every request that is answered gets one complete response: either it is aborted with one error message and status
  400, 404 or 500, or it has status 200 and one body that is no error. The exception are requests whose body does not
  decode: they can be answered with status 400 and no body at all.\<close>

lemma serve_complete:
  assumes "serve env r gin_New s = Returns ((), c, s')"
  shows "responded c \<or> (malformed r \<and> rejected c)"
proof (cases r)
  case (RGraphGoals req opts)
  with assms GraphGoals_responds [of env req opts s c s'] show ?thesis by auto
next
  case (RListGoals req)
  with assms ListGoals_responds [of env req s c s'] show ?thesis by auto
next
  case (RGraphNeighbors req opts)
  with assms GraphNeighbors_responds [of env req opts s c s'] show ?thesis by auto
next
  case (RGraphNeighbours req opts)
  with assms GraphNeighbors_responds [of env req opts s c s'] show ?thesis by (auto simp: API_GraphNeighbours_def)
next
  case (RShowInConsole req)
  with assms console_responds [of env req s c s'] show ?thesis by auto
next
  case (RSetConsole req)
  with assms console_responds [of env req s c s'] show ?thesis by auto
qed (use assms SetConfig_responds in \<open>auto dest: ListDomains_responds ListDomainClasses_responds Objects_responds Help_responds GetConsole_responds\<close>)

definition example_handler_env :: "(nat, nat, nat list \<times> mline list) handler_env" where
  "example_handler_env = \<lparr>he_rest = example_rest_env, he_mg = list_multigraph, he_ider = (\<lambda>_. None),
     he_Goals = (\<lambda>_ _ _ _. Inl (ErrorString ''no'')), he_Neighbors = (\<lambda>_ _ _ _. (None, None)), he_stores = [], he_now = 0,
     he_show = (\<lambda>_. None), he_routes = []\<rparr>"

end
