(* ===== verification/Url.thy ===== *)
theory Url
  imports Wire Rules
begin

text \<open>
  The functions of Go's \<open>net/url\<close> that the REST client and the mock store use, on the bytes of a string: escaping for
  query strings and path segments, and reading a query string. A query that is escaped is read back.
\<close>

section \<open>Escaping\<close>

definition url_unreserved :: "char \<Rightarrow> bool" where
  "url_unreserved c \<longleftrightarrow> is_lower c \<or> is_upper c \<or> is_digit c \<or> c \<in> set ''-_.~''"

definition upper_hex :: "nat \<Rightarrow> char" where
  "upper_hex n = (if n < 10 then digit_char n else char_of (55 + n))"

definition url_percent :: "char \<Rightarrow> string" where
  "url_percent c = [CHR ''%'', upper_hex (of_char c div 16), upper_hex (of_char c mod 16)]"

definition url_QueryEscape :: "string \<Rightarrow> string" where
  "url_QueryEscape s =
     concat (map (\<lambda>c. if c = CHR '' '' then ''+'' else if url_unreserved c then [c] else url_percent c) s)"

definition url_PathEscape :: "string \<Rightarrow> string" where
  "url_PathEscape s =
     concat (map (\<lambda>c. if url_unreserved c \<or> c \<in> set ''$&+=:@'' then [c] else url_percent c) s)"

text \<open>The value of a hexadecimal digit.\<close>

definition unhex :: "char \<Rightarrow> nat option" where
  "unhex c =
     (if is_digit c then Some (of_char c - 48)
      else if CHR ''a'' \<le> c \<and> c \<le> CHR ''f'' then Some (of_char c - 87)
      else if CHR ''A'' \<le> c \<and> c \<le> CHR ''F'' then Some (of_char c - 55)
      else None)"

fun url_QueryUnescape :: "string \<Rightarrow> string option" where
  "url_QueryUnescape [] = Some []"
| "url_QueryUnescape (c # cs) =
     (if c = CHR ''%''
      then (case cs of
              a # b # rest \<Rightarrow>
                (case (unhex a, unhex b) of
                   (Some m, Some n) \<Rightarrow> map_option (Cons (char_of (16 * m + n))) (url_QueryUnescape rest)
                 | _ \<Rightarrow> None)
            | _ \<Rightarrow> None)
      else map_option (Cons (if c = CHR ''+'' then CHR '' '' else c)) (url_QueryUnescape cs))"

text \<open>\<open>URL.Query\<close>: malformed pairs are dropped.\<close>

definition url_pair :: "string \<Rightarrow> (string \<times> string) option" where
  "url_pair key =
     (if CHR '';'' \<in> set key \<or> key = [] then None
      else (let (k, v, _) = strings_Cut key (CHR ''='')
            in case (url_QueryUnescape k, url_QueryUnescape v) of
                 (Some k, Some v) \<Rightarrow> Some (k, v)
               | _ \<Rightarrow> None))"

definition url_ParseQuery :: "string \<Rightarrow> (string \<times> string) list" where
  "url_ParseQuery query = List.map_filter url_pair (strings_Split (CHR ''&'') query)"

section \<open>Reading what was escaped\<close>

lemma of_upper_hex: "n < 16 \<Longrightarrow> (of_char (upper_hex n) :: nat) = (if n < 10 then 48 + n else 55 + n)"
  by (simp add: upper_hex_def digit_char_def)

lemma unhex_upper_hex: "n < 16 \<Longrightarrow> unhex (upper_hex n) = Some n"
  by (auto simp: unhex_def is_digit_def less_eq_char_def of_upper_hex)

lemma upper_hex_unreserved: "n < 16 \<Longrightarrow> url_unreserved (upper_hex n)"
  by (auto simp: url_unreserved_def is_digit_def is_upper_def less_eq_char_def of_upper_hex)

lemma of_char_high: "(of_char c :: nat) div 16 < 16"
proof (rule less_mult_imp_div_less)
  show "(of_char c :: nat) < 16 * 16" using nat_of_char_less_256 [of c] by simp
qed

lemma percent_value: "char_of (16 * (of_char c div 16) + of_char c mod 16 :: nat) = c"
  by simp

lemma unescape_percent: "url_QueryUnescape (url_percent c @ s) = map_option (Cons c) (url_QueryUnescape s)"
proof -
  show ?thesis by (simp add: url_percent_def unhex_upper_hex of_char_high percent_value)
qed

lemma unreserved_plain: "url_unreserved c \<Longrightarrow> c \<notin> set ''%+&=;? ''"
  by (auto simp: url_unreserved_def is_lower_def is_upper_def is_digit_def)

lemma unescape_escape: "url_QueryUnescape (url_QueryEscape s) = Some s"
proof (induction s)
  case (Cons c s)
  show ?case
  proof (cases "url_unreserved c")
    case True
    with unreserved_plain [OF True] Cons show ?thesis by (simp add: url_QueryEscape_def)
  next
    case False
    with Cons unescape_percent [of c] show ?thesis by (simp add: url_QueryEscape_def)
  qed
qed (simp add: url_QueryEscape_def)

lemma escape_plain: "c \<in> set (url_QueryEscape s) \<Longrightarrow> url_unreserved c \<or> c = CHR ''%'' \<or> c = CHR ''+''"
proof -
  assume "c \<in> set (url_QueryEscape s)"
  then obtain d where d: "c \<in> set (if d = CHR '' '' then ''+'' else if url_unreserved d then [d] else url_percent d)"
    unfolding url_QueryEscape_def set_concat set_map by blast
  have "url_unreserved (upper_hex (of_char d div 16))" "url_unreserved (upper_hex (of_char d mod 16))"
    by (simp_all add: upper_hex_unreserved of_char_high)
  with d show ?thesis by (auto simp: url_percent_def split: if_splits)
qed

lemma escape_no_separators: "set (url_QueryEscape s) \<inter> set ''&=;?'' = {}"
proof -
  have "c \<notin> set ''&=;?''" if c: "c \<in> set (url_QueryEscape s)" for c
    using escape_plain [OF c] unreserved_plain [of c] by auto
  then show ?thesis by blast
qed

lemma url_pair_escape:
  assumes "k \<noteq> []" and "list_all url_unreserved k"
  shows "url_pair (k @ CHR ''='' # url_QueryEscape v) = Some (k, v)"
proof -
  have k: "c \<noteq> CHR ''='' \<and> c \<noteq> CHR '';''" if "c \<in> set k" for c
    using assms(2) unreserved_plain [of c] that by (auto simp: list_all_iff)
  have "strings_Cut (k @ CHR ''='' # url_QueryEscape v) (CHR ''='') = (k, url_QueryEscape v, True)"
    using k by (auto simp: strings_Cut_def)
  moreover have "url_QueryEscape k = k"
    using assms(2) unreserved_plain by (induction k) (auto simp: url_QueryEscape_def)
  then have "url_QueryUnescape k = Some k" using unescape_escape [of k] by simp
  moreover have "CHR '';'' \<notin> set (k @ CHR ''='' # url_QueryEscape v)"
    using k escape_no_separators [of v] by auto
  ultimately show ?thesis using assms(1) by (simp add: url_pair_def unescape_escape)
qed

text \<open>A query string of escaped values is read as the pairs it was made of.\<close>

lemma ParseQuery_escape:
  assumes "ps \<noteq> []" and "\<forall>(k, v) \<in> set ps. k \<noteq> [] \<and> list_all url_unreserved k"
  shows "url_ParseQuery (strings_Join ''&'' (map (\<lambda>(k, v). k @ CHR ''='' # url_QueryEscape v) ps)) = ps"
proof -
  let ?f = "\<lambda>(k, v). k @ CHR ''='' # url_QueryEscape v"
  have "CHR ''&'' \<notin> set (?f p)" if p: "p \<in> set ps" for p
  proof -
    obtain k v where kv: "p = (k, v)" by (cases p)
    with assms(2) p have "list_all url_unreserved k" by auto
    then have "CHR ''&'' \<notin> set k" using unreserved_plain by (auto simp: list_all_iff)
    with escape_no_separators [of v] kv show ?thesis by auto
  qed
  then have "strings_Split (CHR ''&'') (strings_Join [CHR ''&''] (map ?f ps)) = map ?f ps"
    using assms(1) by (intro strings_Split_unlines) (simp_all only: list_all_iff set_map ball_simps, blast+)
  moreover have "List.map_filter url_pair (map ?f ps) = ps"
    using assms(2) by (induction ps) (auto simp: List.map_filter_def url_pair_escape)
  ultimately show ?thesis by (simp add: url_ParseQuery_def)
qed

section \<open>Paths\<close>

text \<open>The decoded path of a URL: as \<open>url_QueryUnescape\<close>, but a plus sign stands for itself.\<close>

fun url_PathUnescape :: "string \<Rightarrow> string option" where
  "url_PathUnescape [] = Some []"
| "url_PathUnescape (c # cs) =
     (if c = CHR ''%''
      then (case cs of
              a # b # rest \<Rightarrow>
                (case (unhex a, unhex b) of
                   (Some m, Some n) \<Rightarrow> map_option (Cons (char_of (16 * m + n))) (url_PathUnescape rest)
                 | _ \<Rightarrow> None)
            | _ \<Rightarrow> None)
      else map_option (Cons c) (url_PathUnescape cs))"

lemma path_unescape_plain:
  "CHR ''%'' \<notin> set p \<Longrightarrow> url_PathUnescape s = Some t \<Longrightarrow> url_PathUnescape (p @ s) = Some (p @ t)"
  by (induction p) auto

lemma path_unescape_percent: "url_PathUnescape (url_percent c @ s) = map_option (Cons c) (url_PathUnescape s)"
  by (simp add: url_percent_def unhex_upper_hex of_char_high percent_value)

text \<open>A segment that is escaped is read back, whatever characters it has.\<close>

lemma path_unescape_escape: "url_PathUnescape s = Some t \<Longrightarrow> url_PathUnescape (url_PathEscape d @ s) = Some (d @ t)"
proof (induction d)
  case (Cons c d)
  have plain: "c \<noteq> CHR ''%''" if "url_unreserved c \<or> c \<in> set ''$&+=:@''" using that unreserved_plain [of c] by auto
  let ?e = "if url_unreserved c \<or> c \<in> set ''$&+=:@'' then [c] else url_percent c"
  have "url_PathEscape (c # d) @ s = ?e @ url_PathEscape d @ s" by (simp add: url_PathEscape_def)
  with Cons plain show ?case by (auto simp: path_unescape_percent)
qed (simp add: url_PathEscape_def)

lemma path_escape_plain:
  assumes "c \<in> set (url_PathEscape s)"
  shows "c \<notin> set ''/?#''"
proof -
  obtain d where d: "c \<in> set (if url_unreserved d \<or> d \<in> set ''$&+=:@'' then [d] else url_percent d)"
    using assms unfolding url_PathEscape_def set_concat set_map by blast
  have hex: "url_unreserved (upper_hex (of_char d div 16))" "url_unreserved (upper_hex (of_char d mod 16))"
    by (simp_all add: upper_hex_unreserved of_char_high)
  have "\<not> url_unreserved (CHR ''/'')" "\<not> url_unreserved (CHR ''#'')" "\<not> url_unreserved (CHR ''?'')"
    by (simp_all add: url_unreserved_def is_lower_def is_upper_def is_digit_def)
  with d hex show ?thesis by (auto simp: url_percent_def split: if_splits)
qed

text \<open>What a server reads from an absolute URL with an authority: the decoded path and the query.\<close>

definition request_target :: "string \<Rightarrow> (string \<times> (string \<times> string) list) option" where
  "request_target u =
     (let (u, _, _) = strings_Cut u (CHR ''#'');
          (u, query, _) = strings_Cut u (CHR ''?'');
          (scheme, rest, _) = strings_Cut u (CHR '':'');
          path = dropWhile (\<lambda>c. c \<noteq> CHR ''/'') (drop 2 rest)
      in map_option (\<lambda>p. (p, url_ParseQuery query)) (url_PathUnescape path))"

end
