(* ===== verification/Mcp.thy ===== *)
theory Mcp
  imports Handlers Url Sessions
begin

text \<open>
  \<open>pkg/mcp\<close>: the client of the REST API (\<open>client.go\<close>) and the tools that call it (\<open>mcp.go\<close>). A client sends its
  requests over an \<open>http.Client\<close>, or gives them to the handler of the REST API in the same process
  (\<open>handlerTransport\<close>).

  Parameters (\<open>client_env\<close>): the transport, encoding and decoding JSON, formatting a time to whole seconds, the
  error of \<open>http.NewRequest\<close> for a URL that does not parse, and the path the API is served at. The server of the protocol itself is a library.
\<close>

section \<open>The client\<close>

record http_request =
  hq_Method :: string
  hq_URL :: string
  hq_Header :: smap
  hq_Body :: string
  hq_Context :: ctx

record http_response =
  hr_StatusCode :: nat
  hr_Status :: string
  hr_Path :: string
  hr_Body :: "string result"

record client =
  cl_baseURL :: string
  cl_do :: "http_request \<Rightarrow> http_response result"

record client_env =
  cv_BasePath :: string
  cv_NewRequest :: "string \<Rightarrow> error option"
  cv_default :: "http_request \<Rightarrow> http_response result"
  cv_time :: "time \<Rightarrow> string"
  cv_Domains :: "string \<Rightarrow> api_Domain list result"
  cv_Classes :: "string \<Rightarrow> string list result"
  cv_Help :: "string \<Rightarrow> string result"
  cv_Graph :: "string \<Rightarrow> api_Graph result"
  cv_Objects :: "string \<Rightarrow> string list result"
  cv_Console :: "string \<Rightarrow> api_Console result"
  cv_encode_Neighbors :: "api_Neighbors \<Rightarrow> string result"
  cv_encode_Goals :: "api_Goals \<Rightarrow> string result"
  cv_encode_Console :: "api_Console \<Rightarrow> string result"

definition NewClient :: "client_env \<Rightarrow> string \<Rightarrow> (http_request \<Rightarrow> http_response result) option \<Rightarrow> client" where
  "NewClient env baseURL httpClient =
     \<lparr>cl_baseURL = baseURL, cl_do = (case httpClient of None \<Rightarrow> cv_default env | Some hc \<Rightarrow> hc)\<rparr>"

text \<open>The recorder of \<open>handlerTransport\<close> always has a response.\<close>

definition handlerTransport_RoundTrip :: "(http_request \<Rightarrow> http_response) \<Rightarrow> http_request \<Rightarrow> http_response result" where
  "handlerTransport_RoundTrip handler req = Inr (handler req)"

definition NewClientForHandler :: "client_env \<Rightarrow> (http_request \<Rightarrow> http_response) \<Rightarrow> client" where
  "NewClientForHandler env handler = NewClient env ''http://korrel8r'' (Some (\<lambda>req.
     roundTripper_RoundTrip (\<lambda>(h, c). handlerTransport_RoundTrip handler (req\<lparr>hq_Header := h, hq_Context := c\<rparr>))
       (hq_Header req, hq_Context req)))"

text \<open>\<open>do\<close>: without a body the result keeps its zero value.\<close>

definition client_do :: "client \<Rightarrow> http_request \<Rightarrow> 'a \<Rightarrow> (string \<Rightarrow> 'a result) \<Rightarrow> 'a result" where
  "client_do c req zero decode =
     (case cl_do c req of
        Inl err \<Rightarrow> Inl err
      | Inr resp \<Rightarrow>
          (case hr_Body resp of
             Inl err \<Rightarrow> Inl err
           | Inr body \<Rightarrow>
               if hr_StatusCode resp \<ge> 400
               then Inl (ErrorString (''korrel8r: '' @ hq_Method req @ '' '' @ hr_Path resp @ '': '' @ hr_Status resp @ '': '' @ body))
               else if length body > 0 then decode body else Inr zero))"

definition client_get :: "client_env \<Rightarrow> client \<Rightarrow> ctx \<Rightarrow> string \<Rightarrow> 'a \<Rightarrow> (string \<Rightarrow> 'a result) \<Rightarrow> 'a result" where
  "client_get env c ctx path zero decode =
     (let u = cl_baseURL c @ cv_BasePath env @ path
      in case cv_NewRequest env u of
           Some err \<Rightarrow> Inl err
         | None \<Rightarrow>
             client_do c \<lparr>hq_Method = ''GET'', hq_URL = u, hq_Header = [], hq_Body = [], hq_Context = ctx\<rparr> zero decode)"

definition client_send ::
  "client_env \<Rightarrow> client \<Rightarrow> ctx \<Rightarrow> string \<Rightarrow> string \<Rightarrow> string result \<Rightarrow> 'a \<Rightarrow> (string \<Rightarrow> 'a result) \<Rightarrow> 'a result" where
  "client_send env c ctx method path body zero decode =
     (case body of
        Inl err \<Rightarrow> Inl err
      | Inr b \<Rightarrow>
          (let u = cl_baseURL c @ cv_BasePath env @ path
           in case cv_NewRequest env u of
                Some err \<Rightarrow> Inl err
              | None \<Rightarrow>
                  client_do c \<lparr>hq_Method = method, hq_URL = u, hq_Header = [(''Content-Type'', ''application/json'')],
                               hq_Body = b, hq_Context = ctx\<rparr> zero decode))"

definition client_post ::
  "client_env \<Rightarrow> client \<Rightarrow> ctx \<Rightarrow> string \<Rightarrow> string result \<Rightarrow> 'a \<Rightarrow> (string \<Rightarrow> 'a result) \<Rightarrow> 'a result" where
  "client_post env c ctx = client_send env c ctx ''POST''"

definition client_put ::
  "client_env \<Rightarrow> client \<Rightarrow> ctx \<Rightarrow> string \<Rightarrow> string result \<Rightarrow> 'a \<Rightarrow> (string \<Rightarrow> 'a result) \<Rightarrow> 'a result" where
  "client_put env c ctx = client_send env c ctx ''PUT''"

definition client_ListDomains :: "client_env \<Rightarrow> client \<Rightarrow> ctx \<Rightarrow> api_Domain list result" where
  "client_ListDomains env c ctx = client_get env c ctx ''/domains'' [] (cv_Domains env)"

definition client_ListDomainClasses :: "client_env \<Rightarrow> client \<Rightarrow> ctx \<Rightarrow> string \<Rightarrow> string list result" where
  "client_ListDomainClasses env c ctx domain =
     client_get env c ctx (''/domain/'' @ url_PathEscape domain @ ''/classes'') [] (cv_Classes env)"

definition client_Help :: "client_env \<Rightarrow> client \<Rightarrow> ctx \<Rightarrow> string \<Rightarrow> string result" where
  "client_Help env c ctx domain =
     client_get env c ctx (''/help'' @ (if domain \<noteq> [] then ''/'' @ url_PathEscape domain else [])) [] (cv_Help env)"

definition empty_api_Graph :: api_Graph where
  "empty_api_Graph = \<lparr>ag_Edges = [], ag_Nodes = []\<rparr>"

definition client_GraphNeighbors :: "client_env \<Rightarrow> client \<Rightarrow> ctx \<Rightarrow> api_Neighbors \<Rightarrow> api_Graph result" where
  "client_GraphNeighbors env c ctx params =
     client_post env c ctx ''/graphs/neighbors'' (cv_encode_Neighbors env params) empty_api_Graph (cv_Graph env)"

definition client_GraphGoals :: "client_env \<Rightarrow> client \<Rightarrow> ctx \<Rightarrow> api_Goals \<Rightarrow> api_Graph result" where
  "client_GraphGoals env c ctx params =
     client_post env c ctx ''/graphs/goals'' (cv_encode_Goals env params) empty_api_Graph (cv_Graph env)"

definition GetObjects_path :: "client_env \<Rightarrow> string \<Rightarrow> api_Constraint option \<Rightarrow> string" where
  "GetObjects_path env query constraint =
     ''/objects?query='' @ url_QueryEscape query @
     (case constraint of
        None \<Rightarrow> []
      | Some k \<Rightarrow>
          (case ac_Limit k of None \<Rightarrow> [] | Some n \<Rightarrow> ''&limit='' @ show_int n) @
          (case ac_QueryLimit k of None \<Rightarrow> [] | Some n \<Rightarrow> ''&queryLimit='' @ show_int n) @
          (case ac_Start k of None \<Rightarrow> [] | Some t \<Rightarrow> ''&start='' @ url_QueryEscape (cv_time env t)) @
          (case ac_End k of None \<Rightarrow> [] | Some t \<Rightarrow> ''&end='' @ url_QueryEscape (cv_time env t)))"

definition client_GetObjects :: "client_env \<Rightarrow> client \<Rightarrow> ctx \<Rightarrow> string \<Rightarrow> api_Constraint option \<Rightarrow> string list result" where
  "client_GetObjects env c ctx query constraint = client_get env c ctx (GetObjects_path env query constraint) [] (cv_Objects env)"

definition client_GetConsole :: "client_env \<Rightarrow> client \<Rightarrow> ctx \<Rightarrow> api_Console result" where
  "client_GetConsole env c ctx = client_get env c ctx ''/console'' \<lparr>ak_Search = None, ak_View = []\<rparr> (cv_Console env)"

definition client_ShowInConsole :: "client_env \<Rightarrow> client \<Rightarrow> ctx \<Rightarrow> api_Console \<Rightarrow> unit result" where
  "client_ShowInConsole env c ctx update =
     client_put env c ctx ''/console/events'' (cv_encode_Console env update) () (\<lambda>_. Inr ())"

section \<open>The tools\<close>

text \<open>The input of a call and its output, by the tool's name.\<close>

datatype tool_call =
    ListDomains_call
  | ListDomainClasses_call string
  | Help_call string
  | CreateNeighborsGraph_call api_Neighbors
  | CreateGoalsGraph_call api_Goals
  | GetObjects_call string "api_Constraint option"
  | GetConsole_call
  | ShowInConsole_call api_Console

datatype 'v tool_result =
    ListDomainsResult "api_Domain list"
  | ListDomainClassesResult string "string list"
  | HelpResult string
  | GraphResult api_Graph
  | ObjectsResult "'v list"
  | ConsoleResult api_Console
  | NoResult

fun tool_Name :: "tool_call \<Rightarrow> string" where
  "tool_Name ListDomains_call = ''list_domains''"
| "tool_Name (ListDomainClasses_call d) = ''list_domain_classes''"
| "tool_Name (Help_call d) = ''help''"
| "tool_Name (CreateNeighborsGraph_call p) = ''create_neighbors_graph''"
| "tool_Name (CreateGoalsGraph_call p) = ''create_goals_graph''"
| "tool_Name (GetObjects_call q k) = ''get_objects''"
| "tool_Name GetConsole_call = ''get_console''"
| "tool_Name (ShowInConsole_call u) = ''show_in_console''"

fun call_tool :: "(string \<Rightarrow> 'v result) \<Rightarrow> client_env \<Rightarrow> client \<Rightarrow> ctx \<Rightarrow> tool_call \<Rightarrow> 'v tool_result result" where
  "call_tool unmarshal env c ctx ListDomains_call =
     (case client_ListDomains env c ctx of Inl err \<Rightarrow> Inl err | Inr domains \<Rightarrow> Inr (ListDomainsResult domains))"
| "call_tool unmarshal env c ctx (ListDomainClasses_call d) =
     (case client_ListDomainClasses env c ctx d of Inl err \<Rightarrow> Inl err | Inr classes \<Rightarrow> Inr (ListDomainClassesResult d classes))"
| "call_tool unmarshal env c ctx (Help_call d) =
     (case client_Help env c ctx d of Inl err \<Rightarrow> Inl err | Inr doc \<Rightarrow> Inr (HelpResult doc))"
| "call_tool unmarshal env c ctx (CreateNeighborsGraph_call p) =
     (case client_GraphNeighbors env c ctx p of Inl err \<Rightarrow> Inl err | Inr g \<Rightarrow> Inr (GraphResult g))"
| "call_tool unmarshal env c ctx (CreateGoalsGraph_call p) =
     (case client_GraphGoals env c ctx p of Inl err \<Rightarrow> Inl err | Inr g \<Rightarrow> Inr (GraphResult g))"
| "call_tool unmarshal env c ctx (GetObjects_call q k) =
     (case client_GetObjects env c ctx q k of
        Inl err \<Rightarrow> Inl err
      | Inr raw \<Rightarrow>
          (case collect_results unmarshal raw of Inl err \<Rightarrow> Inl err | Inr objects \<Rightarrow> Inr (ObjectsResult objects)))"
| "call_tool unmarshal env c ctx GetConsole_call =
     (case client_GetConsole env c ctx of Inl err \<Rightarrow> Inl err | Inr console \<Rightarrow> Inr (ConsoleResult console))"
| "call_tool unmarshal env c ctx (ShowInConsole_call u) =
     (case client_ShowInConsole env c ctx u of Inl err \<Rightarrow> Inl err | Inr _ \<Rightarrow> Inr NoResult)"

section \<open>The parameters of get\_objects reach the server\<close>

definition GetObjects_pairs :: "client_env \<Rightarrow> string \<Rightarrow> api_Constraint option \<Rightarrow> (string \<times> string) list" where
  "GetObjects_pairs env query constraint =
     (''query'', query) #
     (case constraint of
        None \<Rightarrow> []
      | Some k \<Rightarrow>
          (case ac_Limit k of None \<Rightarrow> [] | Some n \<Rightarrow> [(''limit'', show_int n)]) @
          (case ac_QueryLimit k of None \<Rightarrow> [] | Some n \<Rightarrow> [(''queryLimit'', show_int n)]) @
          (case ac_Start k of None \<Rightarrow> [] | Some t \<Rightarrow> [(''start'', cv_time env t)]) @
          (case ac_End k of None \<Rightarrow> [] | Some t \<Rightarrow> [(''end'', cv_time env t)]))"

lemma show_int_unreserved: "list_all url_unreserved (show_int i)"
proof -
  have "list_all url_unreserved (show_nat n)" for n
    using show_nat_digits [of n] by (auto simp: list_all_iff url_unreserved_def)
  moreover have "url_unreserved (CHR ''-'')" by (simp add: url_unreserved_def)
  ultimately show ?thesis by (simp add: show_int_def)
qed

lemma escape_unreserved: "list_all url_unreserved s \<Longrightarrow> url_QueryEscape s = s"
proof (induction s)
  case (Cons c s)
  then have "c \<noteq> CHR '' ''" using unreserved_plain [of c] by auto
  with Cons show ?case by (simp add: url_QueryEscape_def)
qed (simp add: url_QueryEscape_def)

lemma escape_show_int: "url_QueryEscape (show_int i) = show_int i"
  by (rule escape_unreserved [OF show_int_unreserved])

lemma GetObjects_path_join:
  "GetObjects_path env query constraint =
     ''/objects?'' @ strings_Join ''&'' (map (\<lambda>(k, v). k @ CHR ''='' # url_QueryEscape v) (GetObjects_pairs env query constraint))"
proof (cases constraint)
  case (Some k)
  show ?thesis
    by (cases "ac_Limit k"; cases "ac_QueryLimit k"; cases "ac_Start k"; cases "ac_End k")
      (simp_all add: GetObjects_path_def GetObjects_pairs_def Some escape_show_int)
qed (simp add: GetObjects_path_def GetObjects_pairs_def)


section \<open>Client and server\<close>

text \<open>A client in the server's process hands on the token of its caller: the session the handler works in is the caller's.\<close>

lemma client_forwards_token:
  assumes "token \<noteq> []" and "hq_Context req = WithToken c token" and "ContextToken c = []"
  shows "\<exists>req'. cl_do (NewClientForHandler env handler) req = Inr (handler req') \<and> HeaderToken (hq_Header req') = token \<and>
    hq_URL req' = hq_URL req \<and> hq_Body req' = hq_Body req"
  using assms
  by (intro exI [of _ "req\<lparr>hq_Header := al_set ''Authorization'' (''Bearer '' @ token) (hq_Header req),
       hq_Context := WithToken c token\<rparr>"])
    (simp add: NewClientForHandler_def NewClient_def roundTripper_RoundTrip_def handlerTransport_RoundTrip_def ContextToken_def
      WithToken_def HeaderToken_def strings_CutPrefix_def smap_get_def ptr_Deref_def)

text \<open>The response a gin context has become, for bodies encoded by \<open>enc\<close>.\<close>

definition response_of :: "('o body \<Rightarrow> string) \<Rightarrow> string \<Rightarrow> string \<Rightarrow> 'o gin \<Rightarrow> http_response" where
  "response_of enc status path c =
     \<lparr>hr_StatusCode = ptr_Deref 200 (gin_status c), hr_Status = status, hr_Path = path,
      hr_Body = Inr (concat (map enc (gin_bodies c)))\<rparr>"

text \<open>A client gets an error exactly when the server aborted the request, and otherwise what it decodes from the one
  body the server wrote; no success is mistaken for a failure and no failure for an empty result.\<close>

lemma client_gets_response:
  assumes "serve env r gin_New s = Returns ((), c, s')" and "cl_do cl req = Inr (response_of enc status path c)"
    and "\<forall>b. enc b \<noteq> []"
  shows "if gin_aborted c then \<exists>msg. client_do cl req zero decode = Inl (ErrorString msg)
    else \<exists>b. gin_bodies c = [b] \<and> \<not> is_error b \<and> client_do cl req zero decode = decode (enc b)"
proof -
  have "responded c \<or> rejected c" using serve_complete [OF assms(1)] by blast
  then show ?thesis
    using assms(2,3) by (auto simp: client_do_def response_of_def responded_def rejected_def ptr_Deref_def split: if_splits)
qed

end
