(* ===== verification/Events.thy ===== *)
theory Events
  imports Handlers
begin

text \<open>
  The stream of console events from its connection to its end: \<open>ConsoleEvents\<close> of \<open>pkg/session/console.go\<close> as one call,
  and the handler of \<open>pkg/rest/operations.go\<close> that writes the stream. The theory \<open>Console\<close> has the steps of the same
  listener between those of others; \<open>ConsoleEvents_steps\<close> relates the two.

  What happens during the call comes from outside as a list of events with their times, and the outcome of each write.
\<close>

section \<open>Contexts\<close>

text \<open>The documented behaviour of \<open>context\<close>: when a context is done and with what error, or that it is never done. The
  context of a request is done when the client disconnects, at the latest when the handler has returned.\<close>

type_synonym lifetime = "time \<times> error"

definition Canceled :: error where
  "Canceled = ErrorString ''context canceled''"

definition DeadlineExceeded :: error where
  "DeadlineExceeded = ErrorString ''context deadline exceeded''"

definition context_WithTimeout :: "time \<Rightarrow> duration option \<Rightarrow> lifetime \<Rightarrow> lifetime" where
  "context_WithTimeout now timeout l =
     (case timeout of None \<Rightarrow> l | Some d \<Rightarrow> if now + d < fst l then (now + d, DeadlineExceeded) else l)"

definition context_WithoutCancel :: "lifetime \<Rightarrow> lifetime option" where
  "context_WithoutCancel l = None"

text \<open>\<open>AfterFunc(parent, cancel)\<close> for the cancel function of a child.\<close>

definition context_AfterFunc :: "lifetime \<Rightarrow> lifetime option \<Rightarrow> lifetime" where
  "context_AfterFunc parent child =
     (case child of
        None \<Rightarrow> (fst parent, Canceled)
      | Some l \<Rightarrow> if fst l \<le> fst parent then l else (fst parent, Canceled))"

text \<open>The context of the stream.\<close>

definition events_lifetime :: "lifetime \<Rightarrow> lifetime" where
  "events_lifetime request = context_AfterFunc request (context_WithoutCancel request)"

text \<open>The stream is done when the context of the request is, so also at the deadline that \<open>UpdateRequest\<close> gives it. The
  comment in the handler says that the timeout is stripped.\<close>

lemma events_end_at_timeout:
  "events_lifetime (context_WithTimeout now (WithTimeout e 0) l) =
     (if tn_RequestTimeout (en_Tuning e) = 0 then fst l else min (now + tn_RequestTimeout (en_Tuning e)) (fst l), Canceled)"
  by (simp add: events_lifetime_def context_AfterFunc_def context_WithoutCancel_def context_WithTimeout_def WithTimeout_def)

section \<open>A listener as one call\<close>

datatype 'c console_event = CUpdate 'c | CTick

fun events_loop ::
  "('c \<Rightarrow> 'w \<Rightarrow> error option \<times> 'w) \<Rightarrow> ('w \<Rightarrow> error option \<times> 'w) \<Rightarrow> lifetime \<Rightarrow> (time \<times> 'c console_event) list \<Rightarrow> 'w \<Rightarrow>
     error \<times> 'w" where
  "events_loop send tick l [] w = (snd l, w)"
| "events_loop send tick l ((t, ev) # evs) w =
     (if fst l \<le> t then (snd l, w)
      else (case (case ev of CUpdate update \<Rightarrow> send update w | CTick \<Rightarrow> tick w) of
              (Some err, w) \<Rightarrow> (err, w)
            | (None, w) \<Rightarrow> events_loop send tick l evs w))"

text \<open>The deferred function gives the connection back and clears the state.\<close>

definition ConsoleEvents ::
  "('w \<Rightarrow> error option \<times> 'w) option \<Rightarrow> ('c \<Rightarrow> 'w \<Rightarrow> error option \<times> 'w) \<Rightarrow> ('w \<Rightarrow> error option \<times> 'w) \<Rightarrow> lifetime \<Rightarrow>
     (time \<times> 'c console_event) list \<Rightarrow> 'c consoleEvents \<Rightarrow> 'w \<Rightarrow> error \<times> 'c consoleEvents \<times> 'w" where
  "ConsoleEvents ready send tick l evs c w =
     (if ce_connected c then (ErrConsoleBusy, c, w)
      else (let (err, w) = (case (case ready of None \<Rightarrow> (None, w) | Some f \<Rightarrow> f w) of
                              (Some err, w) \<Rightarrow> (err, w)
                            | (None, w) \<Rightarrow> events_loop send tick l evs w)
            in (err, c\<lparr>ce_connected := False, ce_fromConsole := None\<rparr>, w)))"

section \<open>The call and its steps\<close>

text \<open>A step of the last of the listeners.\<close>

lemma last_step:
  assumes "listener_step env l c = Some (l', c')"
  shows "console_step \<lparr>co_console = c, co_listeners = ls @ [l]\<rparr> \<lparr>co_console = c', co_listeners = ls @ [l']\<rparr>"
  using console_move [of "length ls" "\<lparr>co_console = c, co_listeners = ls @ [l]\<rparr>" env l' c'] assms by simp

text \<open>Where a listener is in the call for an event: an update has been handed over, or the ticker has fired.\<close>

fun event_pc :: "'c console_event \<Rightarrow> 'c listener" where
  "event_pc (CUpdate update) = LSend update"
| "event_pc CTick = LTick"

lemma last_picks:
  "console_step \<lparr>co_console = c, co_listeners = ls @ [LSelect]\<rparr> \<lparr>co_console = c, co_listeners = ls @ [event_pc ev]\<rparr>"
proof (cases ev)
  case (CUpdate u)
  then show ?thesis
    by (intro console_show [where update = u and i = "Some (length ls)" and r = None]) (simp add: ShowInConsole_def)
next
  case CTick
  then show ?thesis by (intro last_step [where env = "\<lparr>li_result = None, li_event = Tick\<rparr>"]) simp
qed

lemma last_called:
  "console_step \<lparr>co_console = c, co_listeners = ls @ [event_pc ev]\<rparr>
     \<lparr>co_console = c, co_listeners = ls @ [case r of Some e \<Rightarrow> LDisconnect (Some e) | None \<Rightarrow> LSelect]\<rparr>"
  by (rule last_step [where env = "\<lparr>li_result = r, li_event = Tick\<rparr>"]) (cases ev; simp)

lemma last_done:
  "console_step \<lparr>co_console = c, co_listeners = ls @ [LSelect]\<rparr> \<lparr>co_console = c, co_listeners = ls @ [LDisconnect (Some err)]\<rparr>"
  by (rule last_step [where env = "\<lparr>li_result = None, li_event = Cancelled err\<rparr>"]) simp

lemma events_loop_steps:
  fixes c :: "'c consoleEvents" and evs :: "(time \<times> 'c console_event) list"
  shows "events_loop send tick l evs w = (err, w') \<Longrightarrow>
     console_step\<^sup>*\<^sup>* \<lparr>co_console = c, co_listeners = ls @ [LSelect]\<rparr> \<lparr>co_console = c, co_listeners = ls @ [LDisconnect (Some err)]\<rparr>"
proof (induction send tick l evs w rule: events_loop.induct)
  case (1 send tick l w)
  then show ?case using last_done by auto
next
  case (2 send tick l t ev evs w)
  show ?case
  proof (cases "fst l \<le> t")
    case True
    then show ?thesis using 2(2) last_done by auto
  next
    case False
    then obtain r w1 where r: "(case ev of CUpdate update \<Rightarrow> send update w | CTick \<Rightarrow> tick w) = (r, w1)" by fastforce
    have step: "console_step\<^sup>*\<^sup>* \<lparr>co_console = c, co_listeners = ls @ [LSelect]\<rparr>
        \<lparr>co_console = c, co_listeners = ls @ [case r of Some e \<Rightarrow> LDisconnect (Some e) | None \<Rightarrow> LSelect]\<rparr>" 
      using last_picks [of c ls ev] last_called [of c ls ev r] by (rule rtranclp.rtrancl_into_rtrancl [OF r_into_rtranclp])
    show ?thesis
    proof (cases r)
      case None
      with 2 False r step show ?thesis by (auto intro: rtranclp_trans)
    qed (use 2(2) False r step in simp)
  qed
qed

text \<open>The call does what a listener does that takes all its steps while the console is not used by others.\<close>

lemma ConsoleEvents_steps:
  assumes "ConsoleEvents ready send tick l evs c w = (err, c', w')"
  shows "console_step\<^sup>*\<^sup>* \<lparr>co_console = c, co_listeners = ls @ [LConnect]\<rparr> \<lparr>co_console = c', co_listeners = ls @ [LDone (Some err)]\<rparr>"
proof (cases "ce_connected c")
  case True
  then show ?thesis
    using assms last_step [where env = "\<lparr>li_result = None, li_event = Tick\<rparr>" and l = LConnect and c = c and ls = ls]
    by (auto simp: ConsoleEvents_def)
next
  case False
  let ?c = "c\<lparr>ce_connected := True\<rparr>" and ?st = "\<lambda>c l. \<lparr>co_console = c, co_listeners = ls @ [l]\<rparr>"
  obtain r w1 where r: "(case ready of None \<Rightarrow> (None, w) | Some f \<Rightarrow> f w) = (r, w1)" by fastforce
  have "console_step (?st c LConnect) (?st ?c LReady)"
    using False by (intro last_step [where env = "\<lparr>li_result = None, li_event = Tick\<rparr>"]) simp
  moreover have "console_step (?st ?c LReady) (?st ?c (case r of Some e \<Rightarrow> LDisconnect (Some e) | None \<Rightarrow> LSelect))"
    by (intro last_step [where env = "\<lparr>li_result = r, li_event = Tick\<rparr>"]) simp
  moreover have "console_step\<^sup>*\<^sup>* (?st ?c (case r of Some e \<Rightarrow> LDisconnect (Some e) | None \<Rightarrow> LSelect)) (?st ?c (LDisconnect (Some err)))"
    using assms False r by (cases r) (auto simp: ConsoleEvents_def split: prod.splits intro: events_loop_steps)
  moreover have "console_step (?st ?c (LDisconnect (Some err))) (?st (?c\<lparr>ce_connected := False\<rparr>) (LClear (Some err)))"
    by (rule last_step) simp
  moreover have "console_step (?st (?c\<lparr>ce_connected := False\<rparr>) (LClear (Some err))) (?st c' (LDone (Some err)))"
    using assms False by (intro last_step) (auto simp: ConsoleEvents_def split: prod.splits)
  ultimately show ?thesis by (meson converse_rtranclp_into_rtranclp rtranclp.rtrancl_into_rtrancl)
qed

section \<open>What the calls of a listener keep\<close>

text \<open>What the calls of a listener keep: a writer that is fresh before \<open>ready\<close> is open after it, and stays open in all
  calls; they fail with certain errors only.\<close>

locale event_writer =
  fixes ready :: "'w \<Rightarrow> error option \<times> 'w" and send :: "'c \<Rightarrow> 'w \<Rightarrow> error option \<times> 'w"
    and tick :: "'w \<Rightarrow> error option \<times> 'w" and fresh :: "'w \<Rightarrow> bool" and opened :: "'w \<Rightarrow> bool" and fails :: "error \<Rightarrow> bool"
  assumes ready_opens: "fresh w \<Longrightarrow> ready w = (r, w') \<Longrightarrow> opened w' \<and> (\<forall>err. r = Some err \<longrightarrow> fails err)"
    and send_open: "opened w \<Longrightarrow> send u w = (r, w') \<Longrightarrow> opened w' \<and> (\<forall>err. r = Some err \<longrightarrow> fails err)"
    and tick_open: "opened w \<Longrightarrow> tick w = (r, w') \<Longrightarrow> opened w' \<and> (\<forall>err. r = Some err \<longrightarrow> fails err)"
begin

lemma event_open:
  "opened w \<Longrightarrow> (case ev of CUpdate update \<Rightarrow> send update w | CTick \<Rightarrow> tick w) = (r, w') \<Longrightarrow> opened w' \<and> (\<forall>err. r = Some err \<longrightarrow> fails err)"
  by (cases ev) (auto dest: send_open tick_open)

lemma loop_open: "events_loop send tick l evs w = (err, w') \<Longrightarrow> opened w \<Longrightarrow> opened w' \<and> (err = snd l \<or> fails err)"
proof (induction evs arbitrary: w)
  case (Cons p evs)
  obtain t ev where p: "p = (t, ev)" by fastforce
  obtain r w1 where r: "(case ev of CUpdate update \<Rightarrow> send update w | CTick \<Rightarrow> tick w) = (r, w1)" by fastforce
  from event_open [OF Cons.prems(2) r] Cons show ?case by (auto simp: p r split: if_splits option.splits)
qed simp

text \<open>A call ends with a busy console and an untouched writer, or with an open writer, the end of the context or an error
  of a call; then nobody is connected and the console has no state.\<close>

lemma ConsoleEvents_open:
  assumes "ConsoleEvents (Some ready) send tick l evs c w = (err, c', w')" and "fresh w"
  shows "(ce_connected c \<and> err = ErrConsoleBusy \<and> c' = c \<and> w' = w) \<or>
    (\<not> ce_connected c \<and> opened w' \<and> (err = snd l \<or> fails err) \<and> \<not> ce_connected c' \<and> ConsoleState c' = None)"
proof -
  obtain r w1 where r: "ready w = (r, w1)" by fastforce
  from ready_opens [OF assms(2) r] loop_open [of l evs w1] assms(1) show ?thesis
    by (auto simp: ConsoleEvents_def r ConsoleState_def split: if_splits option.splits prod.splits)
qed

end

section \<open>The handler\<close>

text \<open>\<open>errors.Is\<close>: the error or one it wraps.\<close>

fun errors_Is :: "error \<Rightarrow> error \<Rightarrow> bool" where
  "errors_Is (ErrorWrap before err after) target \<longleftrightarrow> ErrorWrap before err after = target \<or> errors_Is err target"
| "errors_Is (AuthError err) target \<longleftrightarrow> AuthError err = target \<or> errors_Is err target"
| "errors_Is (ExecError msg (Some err)) target \<longleftrightarrow> ExecError msg (Some err) = target \<or> errors_Is err target"
| "errors_Is (JoinedErrors errs) target \<longleftrightarrow> JoinedErrors errs = target \<or> list_ex (\<lambda>err. errors_Is err target) errs"
| "errors_Is err target \<longleftrightarrow> err = target"

lemma errors_Is_refl: "errors_Is err err"
  by (cases "(err, err)" rule: errors_Is.cases) simp_all

text \<open>What the handler finds outside: the encoding of an update, the outcome of the write with a number, the context of the
  request and the events.\<close>

record events_env =
  ev_marshal :: "api_Console \<Rightarrow> string"
  ev_write :: "nat \<Rightarrow> error option"
  ev_request :: lifetime
  ev_events :: "(time \<times> api_Console console_event) list"

text \<open>The writer is the gin context with the number of writes. The first flush sends the status; the stream is one body,
  which a write extends.\<close>

fun body_write :: "string \<Rightarrow> 'o body list \<Rightarrow> 'o body list" where
  "body_write b [] = [BStream b]"
| "body_write b [BStream s] = [BStream (s @ b)]"
| "body_write b (x # xs) = x # body_write b xs"

definition gin_Write :: "string \<Rightarrow> 'o gin \<Rightarrow> 'o gin" where
  "gin_Write b c = (gin_Status 200 c)\<lparr>gin_bodies := body_write b (gin_bodies c)\<rparr>"

definition events_ready :: "'o gin \<times> nat \<Rightarrow> error option \<times> 'o gin \<times> nat" where
  "events_ready w = (case w of (c, k) \<Rightarrow> (None, (gin_Status 200 c)\<lparr>gin_bodies := gin_bodies c @ [BStream []]\<rparr>, k))"

definition events_write :: "events_env \<Rightarrow> string \<Rightarrow> 'o gin \<times> nat \<Rightarrow> error option \<times> 'o gin \<times> nat" where
  "events_write env b w =
     (case w of (c, k) \<Rightarrow> (case ev_write env k of Some err \<Rightarrow> (Some err, c, Suc k) | None \<Rightarrow> (None, gin_Write b c, Suc k)))"

definition API_sendEvent :: "events_env \<Rightarrow> api_Console \<Rightarrow> 'o gin \<times> nat \<Rightarrow> error option \<times> 'o gin \<times> nat" where
  "API_sendEvent env update w =
     (let b = ev_marshal env update
      in case events_write env (''event: console-update'' @ [CHR 0x0A] @ ''data: '') w of
           (Some err, w) \<Rightarrow> (Some err, w)
         | (None, w) \<Rightarrow>
             (case events_write env b w of
                (Some err, w) \<Rightarrow> (Some err, w)
              | (None, w) \<Rightarrow> events_write env [CHR 0x0A, CHR 0x0A] w))"

definition events_keepalive :: "events_env \<Rightarrow> 'o gin \<times> nat \<Rightarrow> error option \<times> 'o gin \<times> nat" where
  "events_keepalive env = events_write env ('':keepalive'' @ [CHR 0x0A, CHR 0x0A])"

definition API_ConsoleEvents :: "events_env \<Rightarrow> ('o, unit) handling" where
  "API_ConsoleEvents env c s =
     (case checked 500 s None c of
        (None, c) \<Rightarrow> Returns ((), c, s)
      | (Some session, c) \<Rightarrow>
          (let (err, console, c, _) =
                 ConsoleEvents (Some events_ready) (API_sendEvent env) (events_keepalive env) (events_lifetime (ev_request env))
                   (ev_events env) (rs_Console session) (c, 0);
               s = Inr (session\<lparr>rs_Console := console\<rparr>)
           in if errors_Is err ErrConsoleBusy then Returns ((), snd (check 409 (Some err) None c), s)
              else Returns ((), c, s)))"

section \<open>The response of a stream\<close>

definition streaming :: "'o gin \<Rightarrow> bool" where
  "streaming c \<longleftrightarrow> \<not> gin_aborted c \<and> gin_status c = Some 200 \<and> (\<exists>s. gin_bodies c = [BStream s])"

definition write_fails :: "events_env \<Rightarrow> error \<Rightarrow> bool" where
  "write_fails env err \<longleftrightarrow> (\<exists>k. ev_write env k = Some err)"

lemma events_write_open:
  "streaming (fst w) \<Longrightarrow> events_write env b w = (r, w') \<Longrightarrow> streaming (fst w') \<and> (\<forall>err. r = Some err \<longrightarrow> write_fails env err)"
  by (cases w; cases "ev_write env (snd w)")
    (auto simp: events_write_def streaming_def gin_Write_def gin_Status_def write_fails_def)

lemma sendEvent_open:
  assumes "streaming (fst w)" and "API_sendEvent env u w = (r, w')"
  shows "streaming (fst w') \<and> (\<forall>err. r = Some err \<longrightarrow> write_fails env err)"
proof -
  obtain r1 w1 where w1: "events_write env (''event: console-update'' @ [CHR 0x0A] @ ''data: '') w = (r1, w1)" by (rule prod.exhaust)
  obtain r2 w2 where w2: "events_write env (ev_marshal env u) w1 = (r2, w2)" by (rule prod.exhaust)
  note o1 = events_write_open [OF assms(1) w1]
  note o2 = events_write_open [OF conjunct1 [OF o1] w2]
  from events_write_open [OF conjunct1 [OF o2]] o1 o2 assms(2) show ?thesis
    by (cases r1; cases r2) (simp_all add: API_sendEvent_def Let_def w1 [simplified] w2)
qed

interpretation sse: event_writer events_ready "API_sendEvent env" "events_keepalive env" "\<lambda>w. fst w = gin_New"
  "\<lambda>w. streaming (fst w)" "write_fails env" for env
proof
  show "fst w = gin_New \<Longrightarrow> events_ready w = (r, w') \<Longrightarrow> streaming (fst w') \<and> (\<forall>err. r = Some err \<longrightarrow> write_fails env err)" for w r and w' :: "'a gin \<times> nat"
    by (cases w) (auto simp: events_ready_def streaming_def gin_New_def gin_Status_def)
  show "streaming (fst w) \<Longrightarrow> events_keepalive env w = (r, w') \<Longrightarrow> streaming (fst w') \<and> (\<forall>err. r = Some err \<longrightarrow> write_fails env err)" for w r and w' :: "'a gin \<times> nat"
    unfolding events_keepalive_def by (rule events_write_open)
qed (rule sendEvent_open)

text \<open>The errors of the connection are not the error of a busy console.\<close>

definition writer_ok :: "events_env \<Rightarrow> bool" where
  "writer_ok env \<longleftrightarrow> (\<forall>err. write_fails env err \<longrightarrow> \<not> errors_Is err ErrConsoleBusy)"

text \<open>A stream is answered like another request: with an error when there is no session or the console is busy, and
  otherwise with status 200 and the stream.\<close>

lemma ConsoleEvents_response:
  fixes c :: "'o gin"
  assumes "writer_ok env" and "API_ConsoleEvents env gin_New s = Returns ((), c, s')"
  shows "streaming c \<or> (\<exists>code err. code \<in> {409, 500} \<and> gin_aborted c \<and> gin_status c = Some code \<and> gin_bodies c = [BError err])"
proof (cases s)
  case (Inl err)
  then show ?thesis
    using assms(2) by (auto simp: API_ConsoleEvents_def checked_def check_def gin_New_def gin_JSON_def gin_Status_def)
next
  case (Inr session)
  obtain err console k and c1 :: "'o gin" where run: "ConsoleEvents (Some events_ready) (API_sendEvent env) (events_keepalive env)
      (events_lifetime (ev_request env)) (ev_events env) (rs_Console session) (gin_New, 0) = (err, console, c1, k)"
    using prod_cases4 by blast
  have busy: "snd (check 409 (Some err) None (gin_New :: 'o gin)) =
      \<lparr>gin_aborted = True, gin_status = Some 409, gin_bodies = [BError err]\<rparr>" for err
    by (simp add: check_New) (simp add: gin_JSON_def gin_Status_def gin_New_def)
  have canceled: "\<not> errors_Is (snd (events_lifetime l)) ErrConsoleBusy" for l
    by (simp add: events_lifetime_def context_AfterFunc_def context_WithoutCancel_def Canceled_def ErrConsoleBusy_def)
  have c: "c = (if errors_Is err ErrConsoleBusy then snd (check 409 (Some err) None c1) else c1)"
    using assms(2) by (auto simp: API_ConsoleEvents_def Inr checked_def check_New run split: if_splits)
  from sse.ConsoleEvents_open [OF run] have "(err = ErrConsoleBusy \<and> c1 = gin_New) \<or>
      (streaming c1 \<and> (err = snd (events_lifetime (ev_request env)) \<or> write_fails env err))" by auto
  then show ?thesis
  proof (elim disjE conjE)
    assume "err = ErrConsoleBusy" "c1 = gin_New"
    then have "c = \<lparr>gin_aborted = True, gin_status = Some 409, gin_bodies = [BError ErrConsoleBusy]\<rparr>"
      using c by (simp add: busy errors_Is_refl)
    then show ?thesis by simp
  next
    assume "streaming c1" "err = snd (events_lifetime (ev_request env))"
    then show ?thesis by (simp add: c canceled)
  next
    assume "streaming c1" "write_fails env err"
    then show ?thesis using assms(1) by (simp add: c writer_ok_def)
  qed
qed

section \<open>What the client reads\<close>

definition sse_frame :: "events_env \<Rightarrow> api_Console console_event \<Rightarrow> string" where
  "sse_frame env ev =
     (case ev of
        CUpdate update \<Rightarrow> ''event: console-update'' @ [CHR 0x0A] @ ''data: '' @ ev_marshal env update @ [CHR 0x0A, CHR 0x0A]
      | CTick \<Rightarrow> '':keepalive'' @ [CHR 0x0A, CHR 0x0A])"

definition stream_of :: "string \<Rightarrow> 'o gin" where
  "stream_of s = \<lparr>gin_aborted = False, gin_status = Some 200, gin_bodies = [BStream s]\<rparr>"

lemma gin_Write_stream: "gin_Write b (stream_of s) = stream_of (s @ b)"
  by (simp add: gin_Write_def stream_of_def gin_Status_def)

lemma events_loop_stream:
  assumes "ev_write env = (\<lambda>_. None)"
  shows "\<exists>k'. events_loop (API_sendEvent env) (events_keepalive env) l evs (stream_of s :: 'o gin, k) =
    (snd l, stream_of (s @ concat (map (sse_frame env \<circ> snd) (takeWhile (\<lambda>(t, _). t < fst l) evs))), k')"
proof (induction evs arbitrary: s k)
  case (Cons p evs)
  obtain t ev where p: "p = (t, ev)" by fastforce
  have "\<exists>k'. (case ev of CUpdate update \<Rightarrow> API_sendEvent env update (stream_of s, k) | CTick \<Rightarrow> events_keepalive env (stream_of s, k)) =
      (None, stream_of (s @ sse_frame env ev) :: 'o gin, k')"
    by (cases ev) (simp_all add: API_sendEvent_def events_keepalive_def events_write_def assms sse_frame_def gin_Write_stream)
  then obtain k1 where "(case ev of CUpdate update \<Rightarrow> API_sendEvent env update (stream_of s, k) | CTick \<Rightarrow> events_keepalive env (stream_of s, k)) =
      (None, stream_of (s @ sse_frame env ev) :: 'o gin, k1)" by blast
  then show ?case using Cons.IH [of "s @ sse_frame env ev" k1] by (auto simp: p)
qed simp

text \<open>The stream has a frame for each event before the end of the request's context, in their order.\<close>

lemma ConsoleEvents_stream:
  assumes "ev_write env = (\<lambda>_. None)" and "\<not> ce_connected (rs_Console session)"
  shows "API_ConsoleEvents env gin_New (Inr session) =
    Returns ((), stream_of (concat (map (sse_frame env \<circ> snd) (takeWhile (\<lambda>(t, _). t < fst (ev_request env)) (ev_events env)))),
      Inr (session\<lparr>rs_Console := newConsoleEvents\<rparr>))"
proof -
  let ?l = "(fst (ev_request env), Canceled)"
  have l: "events_lifetime (ev_request env) = ?l"
    by (simp add: events_lifetime_def context_AfterFunc_def context_WithoutCancel_def)
  have ready: "events_ready (gin_New, 0) = (None, stream_of [], 0)"
    by (simp add: events_ready_def gin_New_def gin_Status_def stream_of_def)
  obtain k where "events_loop (API_sendEvent env) (events_keepalive env) ?l (ev_events env) (stream_of [] :: 'a gin, 0) =
      (Canceled, stream_of (concat (map (sse_frame env \<circ> snd) (takeWhile (\<lambda>(t, _). t < fst (ev_request env)) (ev_events env)))), k)"
    using events_loop_stream [OF assms(1), of ?l "ev_events env" "[]" 0] by auto
  then have "ConsoleEvents (Some events_ready) (API_sendEvent env) (events_keepalive env) ?l (ev_events env) (rs_Console session) (gin_New, 0) =
      (Canceled, newConsoleEvents,
       stream_of (concat (map (sse_frame env \<circ> snd) (takeWhile (\<lambda>(t, _). t < fst (ev_request env)) (ev_events env)))) :: 'a gin, k)"
    using assms(2) by (simp add: ConsoleEvents_def ready newConsoleEvents_def)
  then show ?thesis
    by (simp add: API_ConsoleEvents_def checked_def check_New l Canceled_def ErrConsoleBusy_def)
qed

end
