(* ===== verification/Routing.thy ===== *)
theory Routing
  imports Mcp Events
begin

text \<open>
  \<open>pkg/rest/gen-openapi.go\<close> and \<open>rest.New\<close>: the routes of the REST API, and the wrapper of each operation, which
  binds the parameters of the request, runs the middlewares and calls the handler. With the client of \<open>pkg/mcp\<close> in
  the same process this is the way of a tool call: URL, route, parameters, handler, response.

  Parameters (\<open>binders\<close>): the functions of \<open>oapi-codegen/runtime\<close> that bind a parameter, and what the body of a
  request decodes to; what happens during a stream of console events is in \<open>events_env\<close>. The router of gin is its
  documented behaviour: a request goes to the route with its method whose pattern matches the decoded path, where
  \<open>:name\<close> stands for one segment that is not empty, and no route is status 404. The middlewares of \<open>rest.New\<close>
  (metrics and log) do not touch the response.
\<close>

section \<open>The wrapper of the operations\<close>

record binders =
  bi_verbose :: "(string \<times> string) list \<Rightarrow> int option result"
  bi_options :: "(string \<times> string) list \<Rightarrow> GraphOptions option result"
  bi_query :: "(string \<times> string) list \<Rightarrow> string result"
  bi_constraint :: "(string \<times> string) list \<Rightarrow> api_Constraint option result"
  bi_domain :: "string \<Rightarrow> string result"
  bi_Goals :: "string \<Rightarrow> api_Goals result"
  bi_Neighbors :: "string \<Rightarrow> api_Neighbors result"
  bi_Console :: "string \<Rightarrow> api_Console result"

text \<open>What a handler finds in its context: the parameters of the path and of the query, and the body.\<close>

record http_context =
  hc_Param :: smap
  hc_Query :: "(string \<times> string) list"
  hc_Body :: string

record 'o ServerInterfaceWrapper =
  siw_HandlerMiddlewares :: "('o gin \<Rightarrow> 'o gin) list"
  siw_ErrorHandler :: "'o gin \<Rightarrow> error \<Rightarrow> nat \<Rightarrow> 'o gin"

record ('i, 'o, 'g) rest_server =
  sv_env :: "('i, 'o, 'g) handler_env"
  sv_bind :: binders
  sv_events :: events_env

text \<open>The loop over the middlewares: whether it came to the end.\<close>

fun siw_middlewares :: "('o gin \<Rightarrow> 'o gin) list \<Rightarrow> 'o gin \<Rightarrow> bool \<times> 'o gin" where
  "siw_middlewares [] c = (True, c)"
| "siw_middlewares (m # ms) c = (let c = m c in if gin_aborted c then (False, c) else siw_middlewares ms c)"

definition siw_call :: "'o ServerInterfaceWrapper \<Rightarrow> ('o, unit) handling \<Rightarrow> ('o, unit) handling" where
  "siw_call w handler c s =
     (case siw_middlewares (siw_HandlerMiddlewares w) c of
        (False, c) \<Rightarrow> Returns ((), c, s)
      | (True, c) \<Rightarrow> handler c s)"

definition siw_param ::
  "'o ServerInterfaceWrapper \<Rightarrow> string \<Rightarrow> 'p result \<Rightarrow> ('p \<Rightarrow> ('o, unit) handling) \<Rightarrow> ('o, unit) handling" where
  "siw_param w name r next c s =
     (case r of
        Inl err \<Rightarrow>
          Returns ((), siw_ErrorHandler w c (ErrorWrap (''Invalid format for parameter '' @ name @ '': '') err []) 400, s)
      | Inr p \<Rightarrow> next p c s)"

type_synonym ('i, 'o, 'g) operation =
  "('i, 'o, 'g) rest_server \<Rightarrow> 'o ServerInterfaceWrapper \<Rightarrow> http_context \<Rightarrow> ('o, unit) handling"

definition siw_SetConfig :: "('i, 'o, 'g) operation" where
  "siw_SetConfig srv w h =
     siw_param w ''verbose'' (bi_verbose (sv_bind srv) (hc_Query h)) (\<lambda>verbose.
       siw_call w (\<lambda>c s. Returns ((), API_SetConfig verbose c, s)))"

definition siw_GetConsole :: "('i, 'o, 'g) operation" where
  "siw_GetConsole srv w h = siw_call w API_GetConsole"

definition siw_SetConsole :: "('i, 'o, 'g) operation" where
  "siw_SetConsole srv w h = siw_call w (API_SetConsole (sv_env srv) (bi_Console (sv_bind srv) (hc_Body h)))"

definition siw_ConsoleEvents :: "('i, 'o, 'g) operation" where
  "siw_ConsoleEvents srv w h = siw_call w (API_ConsoleEvents (sv_events srv))"

definition siw_ShowInConsole :: "('i, 'o, 'g) operation" where
  "siw_ShowInConsole srv w h = siw_call w (API_ShowInConsole (sv_env srv) (bi_Console (sv_bind srv) (hc_Body h)))"

definition siw_ListDomainClasses :: "('i, 'o, 'g) operation" where
  "siw_ListDomainClasses srv w h =
     siw_param w ''domain'' (bi_domain (sv_bind srv) (smap_get (hc_Param h) ''domain'')) (\<lambda>domain.
       siw_call w (API_ListDomainClasses (sv_env srv) domain))"

definition siw_ListDomains :: "('i, 'o, 'g) operation" where
  "siw_ListDomains srv w h = siw_call w (API_ListDomains (sv_env srv))"

definition siw_GraphGoals :: "('i, 'o, 'g) operation" where
  "siw_GraphGoals srv w h =
     siw_param w ''options'' (bi_options (sv_bind srv) (hc_Query h)) (\<lambda>options.
       siw_call w (API_GraphGoals (sv_env srv) (bi_Goals (sv_bind srv) (hc_Body h)) options))"

definition siw_GraphNeighbors :: "('i, 'o, 'g) operation" where
  "siw_GraphNeighbors srv w h =
     siw_param w ''options'' (bi_options (sv_bind srv) (hc_Query h)) (\<lambda>options.
       siw_call w (API_GraphNeighbors (sv_env srv) (bi_Neighbors (sv_bind srv) (hc_Body h)) options))"

definition siw_GraphNeighbours :: "('i, 'o, 'g) operation" where
  "siw_GraphNeighbours srv w h =
     siw_param w ''options'' (bi_options (sv_bind srv) (hc_Query h)) (\<lambda>options.
       siw_call w (API_GraphNeighbours (sv_env srv) (bi_Neighbors (sv_bind srv) (hc_Body h)) options))"

definition siw_Help :: "('i, 'o, 'g) operation" where
  "siw_Help srv w h = siw_call w (API_Help (sv_env srv))"

definition siw_HelpDomain :: "('i, 'o, 'g) operation" where
  "siw_HelpDomain srv w h =
     siw_param w ''domain'' (bi_domain (sv_bind srv) (smap_get (hc_Param h) ''domain'')) (\<lambda>domain.
       siw_call w (API_HelpDomain (sv_env srv) domain))"

definition siw_ListGoals :: "('i, 'o, 'g) operation" where
  "siw_ListGoals srv w h = siw_call w (API_ListGoals (sv_env srv) (bi_Goals (sv_bind srv) (hc_Body h)))"

definition siw_Objects :: "('i, 'o, 'g) operation" where
  "siw_Objects srv w h =
     siw_param w ''query'' (bi_query (sv_bind srv) (hc_Query h)) (\<lambda>query.
       siw_param w ''constraint'' (bi_constraint (sv_bind srv) (hc_Query h)) (\<lambda>constraint.
         siw_call w (API_Objects (sv_env srv) query constraint)))"

section \<open>The routes\<close>

record ('i, 'o, 'g) route =
  ro_Method :: string
  ro_Path :: string
  ro_Handler :: "('i, 'o, 'g) rest_server \<Rightarrow> http_context \<Rightarrow> ('o, unit) handling"

record 'o GinServerOptions =
  gs_BaseURL :: string
  gs_Middlewares :: "('o gin \<Rightarrow> 'o gin) list"
  gs_ErrorHandler :: "('o gin \<Rightarrow> error \<Rightarrow> nat \<Rightarrow> 'o gin) option"

definition default_ErrorHandler :: "'o gin \<Rightarrow> error \<Rightarrow> nat \<Rightarrow> 'o gin" where
  "default_ErrorHandler c err statusCode = gin_JSON statusCode (BError err) c"

definition RegisterHandlersWithOptions :: "'o GinServerOptions \<Rightarrow> ('i, 'o, 'g) route list" where
  "RegisterHandlersWithOptions options =
     (let w = \<lparr>siw_HandlerMiddlewares = gs_Middlewares options,
               siw_ErrorHandler = (case gs_ErrorHandler options of None \<Rightarrow> default_ErrorHandler | Some f \<Rightarrow> f)\<rparr>;
          route = (\<lambda>verb path operation.
            \<lparr>ro_Method = verb, ro_Path = gs_BaseURL options @ path, ro_Handler = (\<lambda>srv h. operation srv w h)\<rparr>)
      in [route ''PUT'' ''/config'' siw_SetConfig,
          route ''GET'' ''/domains'' siw_ListDomains,
          route ''GET'' ''/domain/:domain/classes'' siw_ListDomainClasses,
          route ''POST'' ''/graphs/goals'' siw_GraphGoals,
          route ''POST'' ''/graphs/neighbors'' siw_GraphNeighbors,
          route ''POST'' ''/graphs/neighbours'' siw_GraphNeighbours,
          route ''POST'' ''/lists/goals'' siw_ListGoals,
          route ''GET'' ''/objects'' siw_Objects,
          route ''GET'' ''/help'' siw_Help,
          route ''GET'' ''/help/:domain'' siw_HelpDomain,
          route ''GET'' ''/console'' siw_GetConsole,
          route ''PUT'' ''/console'' siw_SetConsole,
          route ''GET'' ''/console/events'' siw_ConsoleEvents,
          route ''PUT'' ''/console/events'' siw_ShowInConsole])"

definition RegisterHandlers :: "('i, 'o, 'g) route list" where
  "RegisterHandlers = RegisterHandlersWithOptions \<lparr>gs_BaseURL = [], gs_Middlewares = [], gs_ErrorHandler = None\<rparr>"

text \<open>\<open>New\<close>: the operations under the base path, the specification (a text here) and the home page.\<close>

definition rest_New :: "string \<Rightarrow> string \<Rightarrow> string \<Rightarrow> ('i, 'o, 'g) route list" where
  "rest_New base version spec =
     map (\<lambda>r. r\<lparr>ro_Path := base @ ro_Path r\<rparr>) RegisterHandlers @
     [\<lparr>ro_Method = ''GET'', ro_Path = base, ro_Handler = (\<lambda>srv h c s. Returns ((), gin_JSON 200 (BText spec) c, s))\<rparr>,
      \<lparr>ro_Method = ''GET'', ro_Path = ''/'',
       ro_Handler = (\<lambda>srv h c s. Returns ((), API_homePage version (he_routes (sv_env srv)) c, s))\<rparr>]"

section \<open>Dispatch\<close>

text \<open>The parameters of a path that matches a pattern, both as lists of segments.\<close>

fun path_match :: "string list \<Rightarrow> string list \<Rightarrow> smap option" where
  "path_match [] [] = Some []"
| "path_match (p # ps) (x # xs) =
     (if p \<noteq> [] \<and> hd p = CHR '':''
      then if x = [] then None else map_option (Cons (tl p, x)) (path_match ps xs)
      else if p = x then path_match ps xs else None)"
| "path_match _ _ = None"

definition route_match :: "string \<Rightarrow> string \<Rightarrow> ('i, 'o, 'g) route \<Rightarrow> smap option" where
  "route_match verb path r =
     (if ro_Method r = verb then path_match (strings_Split (CHR ''/'') (ro_Path r)) (strings_Split (CHR ''/'') path)
      else None)"

fun find_route :: "string \<Rightarrow> string \<Rightarrow> ('i, 'o, 'g) route list \<Rightarrow> (('i, 'o, 'g) route \<times> smap) option" where
  "find_route verb path [] = None"
| "find_route verb path (r # rs) =
     (case route_match verb path r of Some params \<Rightarrow> Some (r, params) | None \<Rightarrow> find_route verb path rs)"

definition gin_ServeHTTP ::
  "('i, 'o, 'g) rest_server \<Rightarrow> ('i, 'o, 'g) route list \<Rightarrow> string \<Rightarrow> string \<Rightarrow> (string \<times> string) list \<Rightarrow> string \<Rightarrow>
     'o rest_session result \<Rightarrow> (unit \<times> 'o gin \<times> 'o rest_session result) go" where
  "gin_ServeHTTP srv routes verb path query body s =
     (case find_route verb path routes of
        None \<Rightarrow> Returns ((), gin_JSON 404 (BText ''404 page not found'') gin_New, s)
      | Some (r, params) \<Rightarrow> ro_Handler r srv \<lparr>hc_Param = params, hc_Query = query, hc_Body = body\<rparr> gin_New s)"

section \<open>Matching under the base path\<close>

text \<open>A base path: segments of plain characters, the first of them after a slash.\<close>

definition base_ok :: "string \<Rightarrow> bool" where
  "base_ok base \<longleftrightarrow> (\<exists>b. base = CHR ''/'' # b) \<and> list_all (\<lambda>c. url_unreserved c \<or> c = CHR ''/'') base"

lemma base_segments:
  assumes "base_ok base" and "x \<in> set (strings_Split (CHR ''/'') base)"
  shows "x = [] \<or> hd x \<noteq> CHR '':''"
proof (rule ccontr)
  assume "\<not> (x = [] \<or> hd x \<noteq> CHR '':'')"
  then have "CHR '':'' \<in> set base" using strings_Split_chars [OF assms(2)] by (cases x) auto
  with assms(1) show False by (auto simp: base_ok_def list_all_iff url_unreserved_def is_lower_def is_upper_def is_digit_def)
qed

lemma path_match_prefix:
  "\<forall>x \<in> set base. x = [] \<or> hd x \<noteq> CHR '':'' \<Longrightarrow> path_match (base @ ps) (base @ xs) = path_match ps xs"
  by (induction base) auto

lemma route_match_base:
  assumes "base_ok base"
  shows "route_match verb (base @ CHR ''/'' # x) (r\<lparr>ro_Path := base @ CHR ''/'' # p\<rparr>) =
    route_match verb (CHR ''/'' # x) (r\<lparr>ro_Path := CHR ''/'' # p\<rparr>)"
  using base_segments [OF assms] by (simp add: route_match_def strings_Split_append path_match_prefix)

text \<open>An operation is found under the base path as it is without it.\<close>

lemma find_route_base:
  assumes "base_ok base" and "\<forall>r \<in> set rs. \<exists>p. ro_Path r = CHR ''/'' # p"
    and "find_route verb (CHR ''/'' # x) rs = Some (r, params)"
  shows "find_route verb (base @ CHR ''/'' # x) (map (\<lambda>r. r\<lparr>ro_Path := base @ ro_Path r\<rparr>) rs @ others) =
    Some (r\<lparr>ro_Path := base @ ro_Path r\<rparr>, params)"
  using assms(2,3)
proof (induction rs)
  case (Cons r' rs)
  then obtain p where p: "ro_Path r' = CHR ''/'' # p" by auto
  then have "r'\<lparr>ro_Path := CHR ''/'' # p\<rparr> = r'" by (cases r') simp
  with p route_match_base [OF assms(1), where verb = verb and x = x and r = r' and p = p]
  have "route_match verb (base @ CHR ''/'' # x) (r'\<lparr>ro_Path := base @ ro_Path r'\<rparr>) = route_match verb (CHR ''/'' # x) r'"
    by simp
  with Cons show ?case by (auto split: option.splits)
qed simp

lemma RegisterHandlers_paths: "\<forall>r \<in> set RegisterHandlers. \<exists>p. ro_Path r = CHR ''/'' # p"
  by (simp add: RegisterHandlers_def RegisterHandlersWithOptions_def Let_def)

text \<open>What the server does with a request for an operation.\<close>

lemma ServeHTTP_base:
  assumes "base_ok base" and "find_route verb (CHR ''/'' # x) RegisterHandlers = Some (r, params)"
  shows "gin_ServeHTTP srv (rest_New base version spec) verb (base @ CHR ''/'' # x) query body s =
    ro_Handler r srv \<lparr>hc_Param = params, hc_Query = query, hc_Body = body\<rparr> gin_New s"
  by (simp add: gin_ServeHTTP_def rest_New_def find_route_base [OF assms(1) RegisterHandlers_paths assms(2)])

text \<open>No two routes of the API take the same request, so it does not matter that the first one is taken: patterns that
  match one path overlap, and the routes with one method do not.\<close>

definition is_param :: "string \<Rightarrow> bool" where
  "is_param p \<longleftrightarrow> p \<noteq> [] \<and> hd p = CHR '':''"

definition patterns_overlap :: "string list \<Rightarrow> string list \<Rightarrow> bool" where
  "patterns_overlap = list_all2 (\<lambda>p q. is_param p \<or> is_param q \<or> p = q)"

lemma match_overlap: "path_match ps xs \<noteq> None \<Longrightarrow> path_match qs xs \<noteq> None \<Longrightarrow> patterns_overlap ps qs"
proof (induction ps xs arbitrary: qs rule: path_match.induct)
  case 1
  then show ?case by (cases qs) (auto simp: patterns_overlap_def)
next
  case (2 p ps x xs)
  from "2.prems"(2) obtain q qs' where q: "qs = q # qs'" by (cases qs) auto
  with 2 show ?case by (auto simp: patterns_overlap_def is_param_def split: if_splits)
qed simp_all

definition route_table :: "(string \<times> string) list" where
  "route_table = map (\<lambda>r. (ro_Method r, ro_Path r)) (RegisterHandlers :: (unit, unit, unit) route list)"

lemma table_of_routes: "map (\<lambda>r. (ro_Method r, ro_Path r)) RegisterHandlers = route_table"
  by (simp add: route_table_def RegisterHandlers_def RegisterHandlersWithOptions_def Let_def)

lemma table_disjoint:
  "\<forall>(m, p) \<in> set route_table. \<forall>(m', p') \<in> set route_table.
     m = m' \<and> patterns_overlap (strings_Split (CHR ''/'') p) (strings_Split (CHR ''/'') p') \<longrightarrow> p = p'"
  by (simp add: route_table_def RegisterHandlers_def RegisterHandlersWithOptions_def Let_def patterns_overlap_def is_param_def)

lemma routes_disjoint:
  fixes r r' :: "('i, 'o, 'g) route"
  assumes "r \<in> set RegisterHandlers" and "r' \<in> set RegisterHandlers"
    and "route_match verb path r = Some ps" and "route_match verb path r' = Some ps'"
  shows "ro_Path r = ro_Path r' \<and> ro_Method r = ro_Method r'"
proof -
  have m: "ro_Method r = verb" "ro_Method r' = verb"
    "patterns_overlap (strings_Split (CHR ''/'') (ro_Path r)) (strings_Split (CHR ''/'') (ro_Path r'))"
    using assms(3,4) match_overlap by (fastforce simp: route_match_def split: if_splits)+
  have "(\<lambda>r. (ro_Method r, ro_Path r)) ` set (RegisterHandlers :: ('i, 'o, 'g) route list) = set route_table"
    unfolding set_map [symmetric] table_of_routes by (rule refl)
  then have "(ro_Method r, ro_Path r) \<in> set route_table" "(ro_Method r', ro_Path r') \<in> set route_table"
    using assms(1,2) by (metis (mono_tags, lifting) imageI)+
  with m table_disjoint show ?thesis by fastforce
qed

section \<open>Every request is answered\<close>

text \<open>One body, and status 200 exactly when it is no error.\<close>

definition answered :: "'o gin \<Rightarrow> bool" where
  "answered c \<longleftrightarrow> (\<exists>code b. gin_status c = Some code \<and> gin_bodies c = [b] \<and>
     (code = 200 \<and> \<not> is_error b \<or> code \<in> {400, 404, 409, 500} \<and> is_error b \<or> code = 404 \<and> b = BText ''404 page not found''))"

lemma responded_answered: "responded c \<Longrightarrow> answered c"
  by (auto simp: responded_def answered_def split: if_splits)

lemma serve_answered: "serve env r gin_New s = Returns ((), c, s') \<Longrightarrow> answered c \<or> rejected c"
  using serve_complete responded_answered by blast

text \<open>The wrapper of \<open>RegisterHandlers\<close> runs no middlewares and answers a parameter that does not bind.\<close>

definition plain_wrapper :: "'o ServerInterfaceWrapper" where
  "plain_wrapper = \<lparr>siw_HandlerMiddlewares = [], siw_ErrorHandler = default_ErrorHandler\<rparr>"

lemma plain_call [simp]: "siw_call plain_wrapper handler = handler"
  by (simp add: siw_call_def plain_wrapper_def fun_eq_iff)

definition answers :: "('o, unit) handling \<Rightarrow> bool" where
  "answers h \<longleftrightarrow> (\<forall>s c s'. h gin_New s = Returns ((), c, s') \<longrightarrow> answered c \<or> rejected c)"

lemma answers_param [intro]:
  assumes "\<And>p. answers (next p)"
  shows "answers (siw_param plain_wrapper name r next)"
  using assms
  by (auto simp: answers_def siw_param_def plain_wrapper_def default_ErrorHandler_def answered_def gin_JSON_def gin_Status_def
      gin_New_def split: sum.splits)

lemma answers_serve: "answers (serve env r)"
  unfolding answers_def by (blast dest: serve_answered)

lemma param_bound [simp]: "siw_param w name (Inr p) next = next p"
  by (rule ext, rule ext) (simp add: siw_param_def)

lemmas handlers_answer [intro] =
  answers_serve [where r = RListDomains, unfolded serve.simps]
  answers_serve [where r = "RListDomainClasses d" for d, unfolded serve.simps]
  answers_serve [where r = "RGraphGoals q opts" for q opts, unfolded serve.simps]
  answers_serve [where r = "RListGoals q" for q, unfolded serve.simps]
  answers_serve [where r = "RGraphNeighbors q opts" for q opts, unfolded serve.simps]
  answers_serve [where r = "RGraphNeighbours q opts" for q opts, unfolded serve.simps]
  answers_serve [where r = "RObjects q k" for q k, unfolded serve.simps]
  answers_serve [where r = "RSetConfig v" for v, unfolded serve.simps]
  answers_serve [where r = RHelp, unfolded serve.simps]
  answers_serve [where r = "RHelpDomain d" for d, unfolded serve.simps]
  answers_serve [where r = RGetConsole, unfolded serve.simps]
  answers_serve [where r = "RShowInConsole q" for q, unfolded serve.simps]
  answers_serve [where r = "RSetConsole q" for q, unfolded serve.simps]

lemmas operation_defs = siw_SetConfig_def siw_GetConsole_def siw_SetConsole_def siw_ShowInConsole_def
  siw_ListDomainClasses_def siw_ListDomains_def siw_GraphGoals_def siw_GraphNeighbors_def siw_GraphNeighbours_def
  siw_Help_def siw_HelpDomain_def siw_ListGoals_def siw_Objects_def

lemma operations_answer [intro]:
  "answers (siw_SetConfig srv plain_wrapper h)" "answers (siw_GetConsole srv plain_wrapper h)"
  "answers (siw_SetConsole srv plain_wrapper h)" "answers (siw_ShowInConsole srv plain_wrapper h)"
  "answers (siw_ListDomainClasses srv plain_wrapper h)" "answers (siw_ListDomains srv plain_wrapper h)"
  "answers (siw_GraphGoals srv plain_wrapper h)" "answers (siw_GraphNeighbors srv plain_wrapper h)"
  "answers (siw_GraphNeighbours srv plain_wrapper h)" "answers (siw_Help srv plain_wrapper h)"
  "answers (siw_HelpDomain srv plain_wrapper h)" "answers (siw_ListGoals srv plain_wrapper h)"
  "answers (siw_Objects srv plain_wrapper h)"
  unfolding operation_defs plain_call by (intro answers_param handlers_answer)+

lemma events_answer [intro]:
  assumes "writer_ok (sv_events srv)"
  shows "answers (siw_ConsoleEvents srv plain_wrapper h)"
  unfolding siw_ConsoleEvents_def plain_call answers_def
  using ConsoleEvents_response [OF assms] by (fastforce simp: streaming_def answered_def)

lemma answers_text: "\<not> is_error b \<Longrightarrow> answers (\<lambda>c s. Returns ((), gin_JSON 200 b c, s))"
  by (auto simp: answers_def answered_def gin_JSON_def gin_Status_def gin_New_def)

lemma RegisterHandlers_answer:
  assumes "r \<in> set RegisterHandlers" and "writer_ok (sv_events srv)"
  shows "answers (ro_Handler r srv h)"
  using assms(1) operations_answer [of srv h] events_answer [OF assms(2), of h]
  unfolding RegisterHandlers_def RegisterHandlersWithOptions_def Let_def plain_wrapper_def [symmetric]
  by (auto simp: plain_wrapper_def [symmetric])

lemma find_route_in:
  "find_route verb path rs = Some (r, ps) \<Longrightarrow> r \<in> set rs \<and> route_match verb path r = Some ps"
  by (induction rs) (auto split: option.splits)


definition example_binders :: binders where
  "example_binders = \<lparr>bi_verbose = (\<lambda>_. Inr (Some 2)), bi_options = (\<lambda>_. Inr None), bi_query = (\<lambda>_. Inr []),
     bi_constraint = (\<lambda>_. Inr None), bi_domain = Inr, bi_Goals = (\<lambda>_. Inl (ErrorString ''EOF'')),
     bi_Neighbors = (\<lambda>_. Inl (ErrorString ''EOF'')), bi_Console = (\<lambda>_. Inl (ErrorString ''EOF''))\<rparr>"

definition example_events :: events_env where
  "example_events = \<lparr>ev_marshal = (\<lambda>_. ''{}''), ev_write = (\<lambda>_. None), ev_request = (3, DeadlineExceeded), ev_events = [(2, CTick)]\<rparr>"

definition example_server :: "(nat, nat, nat list \<times> mline list) rest_server" where
  "example_server = \<lparr>sv_env = example_handler_env, sv_bind = example_binders, sv_events = example_events\<rparr>"

lemma example_writer: "writer_ok (sv_events example_server)"
  by (simp add: example_server_def example_events_def writer_ok_def write_fails_def)

lemma base_ok_api: "base_ok ''/api/v1alpha1''"
  by (simp add: base_ok_def url_unreserved_def is_lower_def is_digit_def)

lemma config_route:
  "find_route ''PUT'' ''/config'' RegisterHandlers =
     Some (\<lparr>ro_Method = ''PUT'', ro_Path = ''/config'', ro_Handler = (\<lambda>srv h. siw_SetConfig srv plain_wrapper h)\<rparr>, [])"
  by (simp add: RegisterHandlers_def RegisterHandlersWithOptions_def Let_def route_match_def plain_wrapper_def)


section \<open>A tool call and its operation\<close>

text \<open>The router that serves the tools in the same process: recovery from panics, the session of the request, and the
  routes of the API.\<close>

definition mcp_router ::
  "('i, 'o, 'g) rest_server \<Rightarrow> ('i, 'o, 'g) route list \<Rightarrow> (ctx \<Rightarrow> session_error + 'o rest_session) \<Rightarrow> ('o body \<Rightarrow> string) \<Rightarrow>
     (nat \<Rightarrow> string) \<Rightarrow> http_request \<Rightarrow> http_response" where
  "mcp_router srv routes sessions enc status req =
     (case request_target (hq_URL req) of
        None \<Rightarrow> \<lparr>hr_StatusCode = 400, hr_Status = status 400, hr_Path = [], hr_Body = Inr []\<rparr>
      | Some (path, query) \<Rightarrow>
          (let respond = (\<lambda>c. response_of enc (status (ptr_Deref 200 (gin_status c))) path c);
               (header, c) = auth_UpdateRequest (hq_Header req, hq_Context req)
           in case sessions (WithToken c (HeaderToken header)) of
                Inl e \<Rightarrow>
                  (let (code, err) = (case e of AuthError err \<Rightarrow> (401, err) | OtherError err \<Rightarrow> (500, err))
                   in respond ((gin_JSON code (BError err) gin_New)\<lparr>gin_aborted := True\<rparr>))
              | Inr session \<Rightarrow>
                  (case gin_ServeHTTP srv routes (hq_Method req) path query (hq_Body req)
                          (API_session (Some session) (Inr session)) of
                     Panics _ \<Rightarrow> \<lparr>hr_StatusCode = 500, hr_Status = status 500, hr_Path = path, hr_Body = Inr []\<rparr>
                   | Returns (_, c, _) \<Rightarrow> respond c)))"

text \<open>What a tool stands for: the operation of the API, and how its answer is read.\<close>

fun tool_operation :: "tool_call \<Rightarrow> request" where
  "tool_operation ListDomains_call = RListDomains"
| "tool_operation (ListDomainClasses_call d) = RListDomainClasses d"
| "tool_operation (Help_call d) = (if d = [] then RHelp else RHelpDomain d)"
| "tool_operation (CreateNeighborsGraph_call p) = RGraphNeighbors (Inr p) None"
| "tool_operation (CreateGoalsGraph_call p) = RGraphGoals (Inr p) None"
| "tool_operation (GetObjects_call q k) = RObjects q k"
| "tool_operation GetConsole_call = RGetConsole"
| "tool_operation (ShowInConsole_call u) = RShowInConsole (Inr u)"

fun tool_reads :: "(string \<Rightarrow> 'v result) \<Rightarrow> client_env \<Rightarrow> tool_call \<Rightarrow> string \<Rightarrow> 'v tool_result result" where
  "tool_reads unmarshal env ListDomains_call b = map_sum id ListDomainsResult (cv_Domains env b)"
| "tool_reads unmarshal env (ListDomainClasses_call d) b = map_sum id (ListDomainClassesResult d) (cv_Classes env b)"
| "tool_reads unmarshal env (Help_call d) b = map_sum id HelpResult (cv_Help env b)"
| "tool_reads unmarshal env (CreateNeighborsGraph_call p) b = map_sum id GraphResult (cv_Graph env b)"
| "tool_reads unmarshal env (CreateGoalsGraph_call p) b = map_sum id GraphResult (cv_Graph env b)"
| "tool_reads unmarshal env (GetObjects_call q k) b =
     (case cv_Objects env b of Inl err \<Rightarrow> Inl err | Inr raw \<Rightarrow> map_sum id ObjectsResult (collect_results unmarshal raw))"
| "tool_reads unmarshal env GetConsole_call b = map_sum id ConsoleResult (cv_Console env b)"
| "tool_reads unmarshal env (ShowInConsole_call u) b = Inr NoResult"

text \<open>What the libraries give for one call: the domain is a segment of a path, a body that was encoded is decoded, and the
  parameters of the query are bound.\<close>

fun delivers :: "binders \<Rightarrow> client_env \<Rightarrow> tool_call \<Rightarrow> bool" where
  "delivers b env (ListDomainClasses_call d) \<longleftrightarrow> d \<noteq> [] \<and> CHR ''/'' \<notin> set d \<and> bi_domain b d = Inr d"
| "delivers b env (Help_call d) \<longleftrightarrow> d \<noteq> [] \<longrightarrow> CHR ''/'' \<notin> set d \<and> bi_domain b d = Inr d"
| "delivers b env (CreateNeighborsGraph_call p) \<longleftrightarrow>
     (\<exists>s. cv_encode_Neighbors env p = Inr s \<and> bi_Neighbors b s = Inr p) \<and> bi_options b [] = Inr None"
| "delivers b env (CreateGoalsGraph_call p) \<longleftrightarrow>
     (\<exists>s. cv_encode_Goals env p = Inr s \<and> bi_Goals b s = Inr p) \<and> bi_options b [] = Inr None"
| "delivers b env (GetObjects_call q k) \<longleftrightarrow>
     bi_query b (GetObjects_pairs env q k) = Inr q \<and> bi_constraint b (GetObjects_pairs env q k) = Inr k"
| "delivers b env (ShowInConsole_call u) \<longleftrightarrow> (\<exists>s. cv_encode_Console env u = Inr s \<and> bi_Console b s = Inr u)"
| "delivers b env _ \<longleftrightarrow> True"

text \<open>The target of the URLs of the client.\<close>

lemma unescape_plain_all: "CHR ''%'' \<notin> set s \<Longrightarrow> url_PathUnescape s = Some s"
  using path_unescape_plain [of s "[]" "[]"] by simp

lemma base_chars: "base_ok base \<Longrightarrow> c \<in> set base \<Longrightarrow> c \<noteq> CHR ''%'' \<and> c \<noteq> CHR ''#'' \<and> c \<noteq> CHR ''?''"
  by (auto simp: base_ok_def list_all_iff url_unreserved_def is_lower_def is_upper_def is_digit_def)

lemma target_path:
  assumes "base_ok base" and "set p \<inter> {CHR ''#'', CHR ''?''} = {}" and "url_PathUnescape p = Some p'"
  shows "request_target (''http://korrel8r'' @ base @ p) = Some (base @ p', [])"
    and "CHR ''#'' \<notin> set q \<Longrightarrow> request_target (''http://korrel8r'' @ base @ p @ CHR ''?'' # q) = Some (base @ p', url_ParseQuery q)"
proof -
  obtain b where b: "base = CHR ''/'' # b" using assms(1) by (auto simp: base_ok_def)
  have chars: "set (base @ p) \<inter> {CHR ''#'', CHR ''?''} = {}" using base_chars [OF assms(1)] assms(2) by auto
  have dec: "url_PathUnescape (base @ p) = Some (base @ p')"
    using base_chars [OF assms(1)] assms(3) by (intro path_unescape_plain) auto
  have scheme: "strings_Cut (''http://korrel8r'' @ base @ p) (CHR '':'') = (''http'', ''//korrel8r'' @ base @ p, True)"
    using strings_Cut_found [of "CHR '':''" "''http''" "''//korrel8r'' @ base @ p"] by simp
  have rest: "dropWhile (\<lambda>c. c \<noteq> CHR ''/'') (drop 2 (''//korrel8r'' @ base @ p)) = base @ p" by (simp add: b)
  have path: "(''http://korrel8r'' @ base @ p) = url \<Longrightarrow> c \<in> {CHR ''#'', CHR ''?''} \<Longrightarrow> c \<notin> set url" for url c
    using chars by auto
  show "request_target (''http://korrel8r'' @ base @ p) = Some (base @ p', [])"
    using scheme rest dec path [OF refl] unfolding request_target_def
    by (simp add: strings_Cut_absent url_ParseQuery_def List.map_filter_def url_pair_def del: append_assoc)
  assume q: "CHR ''#'' \<notin> set q"
  then have "CHR ''#'' \<notin> set (''http://korrel8r'' @ base @ p @ CHR ''?'' # q)" using chars by auto
  moreover have "strings_Cut ((''http://korrel8r'' @ base @ p) @ CHR ''?'' # q) (CHR ''?'') = (''http://korrel8r'' @ base @ p, q, True)"
    using path [OF refl, of "CHR ''?''"] by (intro strings_Cut_found) simp
  ultimately show "request_target (''http://korrel8r'' @ base @ p @ CHR ''?'' # q) = Some (base @ p', url_ParseQuery q)"
    using scheme rest dec unfolding request_target_def
    by (simp add: strings_Cut_absent)
qed

text \<open>A caller in the same process is served in the session of its own context.\<close>

lemma HeaderToken_set: "HeaderToken (al_set ''Authorization'' (''Bearer '' @ token) h) = token"
  by (simp add: HeaderToken_def strings_CutPrefix_def smap_get_def ptr_Deref_def)

lemma in_process:
  assumes "request_target (hq_URL req) = Some (path, query)" and "HeaderToken (hq_Header req) = []"
    and "sessions (hq_Context req) = Inr ss"
    and "gin_ServeHTTP srv routes (hq_Method req) path query (hq_Body req) (Inr ss) = Returns ((), c, s')"
  shows "cl_do (NewClientForHandler env (mcp_router srv routes sessions enc status)) req =
    Inr (response_of enc (status (ptr_Deref 200 (gin_status c))) path c)"
proof -
  have "hq_Context req = (hq_Context req)\<lparr>cx_token := cx_token (hq_Context req)\<rparr>" by simp
  then show ?thesis
    using assms
    by (simp add: NewClientForHandler_def NewClient_def roundTripper_RoundTrip_def handlerTransport_RoundTrip_def mcp_router_def
        auth_UpdateRequest_def HeaderToken_set [simplified] WithToken_def ContextToken_def API_session_def Let_def)
qed

text \<open>A result that is an error when the request was aborted, and otherwise what is read from the one body.\<close>

definition gets :: "('o body \<Rightarrow> string) \<Rightarrow> 'o gin \<Rightarrow> 'a result \<Rightarrow> (string \<Rightarrow> 'a result) \<Rightarrow> bool" where
  "gets enc c r reads \<longleftrightarrow>
     (if gin_aborted c then \<exists>msg. r = Inl (ErrorString msg)
      else \<exists>b. gin_bodies c = [b] \<and> \<not> is_error b \<and> r = reads (enc b))"

lemma gets_bind:
  assumes "gets enc c r reads" and "r' = (case r of Inl err \<Rightarrow> Inl err | Inr x \<Rightarrow> f x)"
    and "\<And>b. reads' b = (case reads b of Inl err \<Rightarrow> Inl err | Inr x \<Rightarrow> f x)"
  shows "gets enc c r' reads'"
  using assms by (auto simp: gets_def split: if_splits)

lemma map_sum_case: "map_sum id f r = (case r of Inl err \<Rightarrow> Inl err | Inr x \<Rightarrow> Inr (f x))"
  by (cases r) simp_all

text \<open>The setting of a tool call: the base path, requests that can be made, bodies that are not empty, and the session of the
  caller's context.\<close>

definition deployed ::
  "client_env \<Rightarrow> (ctx \<Rightarrow> session_error + 'o rest_session) \<Rightarrow> ('o body \<Rightarrow> string) \<Rightarrow> ctx \<Rightarrow> 'o rest_session \<Rightarrow> bool" where
  "deployed env sessions enc ctx ss \<longleftrightarrow>
     base_ok (cv_BasePath env) \<and> cv_NewRequest env = (\<lambda>_. None) \<and> (\<forall>b. enc b \<noteq> []) \<and> sessions ctx = Inr ss"

abbreviation tool_client ::
  "('i, 'o, 'g) rest_server \<Rightarrow> string \<Rightarrow> string \<Rightarrow> (ctx \<Rightarrow> session_error + 'o rest_session) \<Rightarrow> ('o body \<Rightarrow> string) \<Rightarrow>
     (nat \<Rightarrow> string) \<Rightarrow> client_env \<Rightarrow> client" where
  "tool_client srv version spec sessions enc status env \<equiv>
     NewClientForHandler env (mcp_router srv (rest_New (cv_BasePath env) version spec) sessions enc status)"

lemma client_do_gets:
  assumes "deployed env sessions enc (hq_Context req) ss"
    and "request_target (hq_URL req) = Some (cv_BasePath env @ CHR ''/'' # x, query)" and "HeaderToken (hq_Header req) = []"
    and "find_route (hq_Method req) (CHR ''/'' # x) RegisterHandlers = Some (r, params)"
    and "ro_Handler r srv \<lparr>hc_Param = params, hc_Query = query, hc_Body = hq_Body req\<rparr> = serve (sv_env srv) q"
    and "serve (sv_env srv) q gin_New (Inr ss) = Returns ((), c, s')"
  shows "gets enc c (client_do (tool_client srv version spec sessions enc status env) req zero decode) decode"
proof -
  have d: "base_ok (cv_BasePath env)" "\<forall>b. enc b \<noteq> []" "sessions (hq_Context req) = Inr ss"
    using assms(1) by (simp_all add: deployed_def)
  have "gin_ServeHTTP srv (rest_New (cv_BasePath env) version spec) (hq_Method req) (cv_BasePath env @ CHR ''/'' # x) query
      (hq_Body req) (Inr ss) = Returns ((), c, s')"
    using ServeHTTP_base [OF d(1) assms(4)] assms(5,6) by simp
  from in_process [where sessions = sessions and enc = enc and status = status and env = env, OF assms(2,3) d(3) this]
  show ?thesis
    unfolding gets_def by (rule client_gets_response [OF assms(6) _ d(2)])
qed

lemmas route_defs = RegisterHandlers_def RegisterHandlersWithOptions_def Let_def route_match_def plain_wrapper_def [symmetric]

lemma base_URL: "cl_baseURL (tool_client srv version spec sessions enc status env) = ''http://korrel8r''"
  by (simp add: NewClientForHandler_def NewClient_def)

lemma client_get_gets:
  assumes "deployed env sessions enc ctx ss"
    and "request_target (''http://korrel8r'' @ cv_BasePath env @ p) = Some (cv_BasePath env @ CHR ''/'' # x, query)"
    and "find_route ''GET'' (CHR ''/'' # x) RegisterHandlers = Some (r, params)"
    and "ro_Handler r srv \<lparr>hc_Param = params, hc_Query = query, hc_Body = []\<rparr> = serve (sv_env srv) q"
    and "serve (sv_env srv) q gin_New (Inr ss) = Returns ((), c, s')"
  shows "gets enc c (client_get env (tool_client srv version spec sessions enc status env) ctx p zero decode) decode"
proof -
  let ?u = "''http://korrel8r'' @ cv_BasePath env @ p"
  let ?req = "\<lparr>hq_Method = ''GET'', hq_URL = ?u, hq_Header = [], hq_Body = [], hq_Context = ctx\<rparr>"
  have "gets enc c (client_do (tool_client srv version spec sessions enc status env) ?req zero decode) decode"
    using assms by (intro client_do_gets [where x = x and r = r and q = q]) (simp_all add: HeaderToken_def smap_get_def strings_CutPrefix_def ptr_Deref_def)
  with assms(1) show ?thesis by (simp add: client_get_def base_URL deployed_def Let_def)
qed

lemma client_send_gets:
  assumes "deployed env sessions enc ctx ss"
    and "request_target (''http://korrel8r'' @ cv_BasePath env @ p) = Some (cv_BasePath env @ CHR ''/'' # x, query)"
    and "find_route verb (CHR ''/'' # x) RegisterHandlers = Some (r, params)"
    and "ro_Handler r srv \<lparr>hc_Param = params, hc_Query = query, hc_Body = body\<rparr> = serve (sv_env srv) q"
    and "serve (sv_env srv) q gin_New (Inr ss) = Returns ((), c, s')"
  shows "gets enc c (client_send env (tool_client srv version spec sessions enc status env) ctx verb p (Inr body) zero decode) decode"
proof -
  let ?u = "''http://korrel8r'' @ cv_BasePath env @ p"
  let ?req = "\<lparr>hq_Method = verb, hq_URL = ?u, hq_Header = [(''Content-Type'', ''application/json'')], hq_Body = body,
    hq_Context = ctx\<rparr>"
  have "gets enc c (client_do (tool_client srv version spec sessions enc status env) ?req zero decode) decode"
    using assms by (intro client_do_gets [where x = x and r = r and q = q]) (simp_all add: HeaderToken_def smap_get_def strings_CutPrefix_def ptr_Deref_def)
  with assms(1) show ?thesis by (simp add: client_send_def base_URL deployed_def Let_def)
qed

text \<open>The routes of the tools.\<close>

lemma target_plain:
  assumes "base_ok base" and "set p \<inter> {CHR ''#'', CHR ''?'', CHR ''%''} = {}"
  shows "request_target (''http://korrel8r'' @ base @ p) = Some (base @ p, [])"
  using assms by (intro target_path unescape_plain_all) auto

lemma find_static:
  "find_route ''GET'' ''/domains'' RegisterHandlers =
     Some (\<lparr>ro_Method = ''GET'', ro_Path = ''/domains'', ro_Handler = (\<lambda>srv h. siw_ListDomains srv plain_wrapper h)\<rparr>, [])"
  "find_route ''GET'' ''/help'' RegisterHandlers =
     Some (\<lparr>ro_Method = ''GET'', ro_Path = ''/help'', ro_Handler = (\<lambda>srv h. siw_Help srv plain_wrapper h)\<rparr>, [])"
  "find_route ''POST'' ''/graphs/neighbors'' RegisterHandlers =
     Some (\<lparr>ro_Method = ''POST'', ro_Path = ''/graphs/neighbors'', ro_Handler = (\<lambda>srv h. siw_GraphNeighbors srv plain_wrapper h)\<rparr>, [])"
  "find_route ''POST'' ''/graphs/goals'' RegisterHandlers =
     Some (\<lparr>ro_Method = ''POST'', ro_Path = ''/graphs/goals'', ro_Handler = (\<lambda>srv h. siw_GraphGoals srv plain_wrapper h)\<rparr>, [])"
  "find_route ''GET'' ''/objects'' RegisterHandlers =
     Some (\<lparr>ro_Method = ''GET'', ro_Path = ''/objects'', ro_Handler = (\<lambda>srv h. siw_Objects srv plain_wrapper h)\<rparr>, [])"
  "find_route ''GET'' ''/console'' RegisterHandlers =
     Some (\<lparr>ro_Method = ''GET'', ro_Path = ''/console'', ro_Handler = (\<lambda>srv h. siw_GetConsole srv plain_wrapper h)\<rparr>, [])"
  "find_route ''PUT'' ''/console/events'' RegisterHandlers =
     Some (\<lparr>ro_Method = ''PUT'', ro_Path = ''/console/events'', ro_Handler = (\<lambda>srv h. siw_ShowInConsole srv plain_wrapper h)\<rparr>, [])"
  by (simp_all add: route_defs)

lemma find_domain:
  assumes "d \<noteq> []" and "CHR ''/'' \<notin> set d"
  shows "find_route ''GET'' (''/domain/'' @ d @ ''/classes'') RegisterHandlers =
      Some (\<lparr>ro_Method = ''GET'', ro_Path = ''/domain/:domain/classes'',
             ro_Handler = (\<lambda>srv h. siw_ListDomainClasses srv plain_wrapper h)\<rparr>, [(''domain'', d)])"
    and "find_route ''GET'' (''/help/'' @ d) RegisterHandlers =
      Some (\<lparr>ro_Method = ''GET'', ro_Path = ''/help/:domain'', ro_Handler = (\<lambda>srv h. siw_HelpDomain srv plain_wrapper h)\<rparr>,
        [(''domain'', d)])"
proof -
  have "strings_Split (CHR ''/'') (d @ ''/classes'') = [d, ''classes'']"
    using strings_Split_append [of "CHR ''/''" d "''classes''"] assms(2) by (simp add: strings_Split_no_sep)
  with assms show "find_route ''GET'' (''/domain/'' @ d @ ''/classes'') RegisterHandlers =
      Some (\<lparr>ro_Method = ''GET'', ro_Path = ''/domain/:domain/classes'',
             ro_Handler = (\<lambda>srv h. siw_ListDomainClasses srv plain_wrapper h)\<rparr>, [(''domain'', d)])"
    "find_route ''GET'' (''/help/'' @ d) RegisterHandlers =
      Some (\<lparr>ro_Method = ''GET'', ro_Path = ''/help/:domain'', ro_Handler = (\<lambda>srv h. siw_HelpDomain srv plain_wrapper h)\<rparr>,
        [(''domain'', d)])"
    by (simp_all add: route_defs strings_Split_no_sep)
qed

lemma target_domain:
  assumes "base_ok base"
  shows "request_target (''http://korrel8r'' @ base @ ''/domain/'' @ url_PathEscape d @ ''/classes'') =
      Some (base @ ''/domain/'' @ d @ ''/classes'', [])"
    and "request_target (''http://korrel8r'' @ base @ ''/help/'' @ url_PathEscape d) = Some (base @ ''/help/'' @ d, [])"
proof -
  have plain: "set (url_PathEscape d) \<inter> {CHR ''#'', CHR ''?''} = {}" using path_escape_plain [of _ d] by auto
  have "url_PathUnescape (url_PathEscape d @ ''/classes'') = Some (d @ ''/classes'')"
    by (intro path_unescape_escape unescape_plain_all) simp
  moreover have "url_PathUnescape (url_PathEscape d @ []) = Some (d @ [])" by (rule path_unescape_escape) simp
  ultimately have "url_PathUnescape (''/domain/'' @ url_PathEscape d @ ''/classes'') = Some (''/domain/'' @ d @ ''/classes'')"
    "url_PathUnescape (''/help/'' @ url_PathEscape d) = Some (''/help/'' @ d)" by simp_all
  with plain show "request_target (''http://korrel8r'' @ base @ ''/domain/'' @ url_PathEscape d @ ''/classes'') =
      Some (base @ ''/domain/'' @ d @ ''/classes'', [])"
    "request_target (''http://korrel8r'' @ base @ ''/help/'' @ url_PathEscape d) = Some (base @ ''/help/'' @ d, [])"
    by (intro target_path [OF assms]; auto)+
qed

lemma Join_chars: "c \<in> set (strings_Join sep ss) \<Longrightarrow> c \<in> set sep \<or> (\<exists>s \<in> set ss. c \<in> set s)"
  by (induction sep ss rule: strings_Join.induct) auto

lemma target_objects:
  assumes "base_ok base"
  shows "request_target (''http://korrel8r'' @ base @ GetObjects_path env query constraint) =
    Some (base @ ''/objects'', GetObjects_pairs env query constraint)"
proof -
  let ?ps = "GetObjects_pairs env query constraint"
  let ?q = "strings_Join ''&'' (map (\<lambda>(k, v). k @ CHR ''='' # url_QueryEscape v) ?ps)"
  have keys: "\<forall>(k, v) \<in> set ?ps. k \<noteq> [] \<and> list_all url_unreserved k"
    by (auto simp: GetObjects_pairs_def url_unreserved_def is_lower_def is_upper_def split: option.splits)
  have hash: "\<not> url_unreserved (CHR ''#'')" by (simp add: url_unreserved_def is_lower_def is_upper_def is_digit_def)
  have "CHR ''#'' \<notin> set (k @ CHR ''='' # url_QueryEscape v)" if "(k, v) \<in> set ?ps" for k v
    using keys that hash escape_plain [of "CHR ''#''" v] by (auto simp: list_all_iff)
  then have "CHR ''#'' \<notin> set ?q" by (fastforce dest: Join_chars)
  from target_path(2) [OF assms _ _ this, of "''/objects''" "''/objects''"]
  have "request_target (''http://korrel8r'' @ base @ ''/objects'' @ CHR ''?'' # ?q) = Some (base @ ''/objects'', url_ParseQuery ?q)"
    by simp
  moreover have "url_ParseQuery ?q = ?ps" using keys by (intro ParseQuery_escape) (simp add: GetObjects_pairs_def)
  ultimately show ?thesis by (simp add: GetObjects_path_join)
qed

text \<open>Each function of the client gets the answer of its operation.\<close>

lemma client_domains_get:
  assumes "deployed env sessions enc ctx ss"
  shows "serve (sv_env srv) RListDomains gin_New (Inr ss) = Returns ((), c, s') \<Longrightarrow>
      gets enc c (client_ListDomains env (tool_client srv version spec sessions enc status env) ctx) (cv_Domains env)"
    and "serve (sv_env srv) (RListDomainClasses d) gin_New (Inr ss) = Returns ((), c, s') \<Longrightarrow>
      delivers (sv_bind srv) env (ListDomainClasses_call d) \<Longrightarrow>
      gets enc c (client_ListDomainClasses env (tool_client srv version spec sessions enc status env) ctx d) (cv_Classes env)"
proof -
  have base: "base_ok (cv_BasePath env)" using assms by (simp add: deployed_def)
  note get = client_get_gets [OF assms, where srv = srv and s' = s' and c = c]
  show "serve (sv_env srv) RListDomains gin_New (Inr ss) = Returns ((), c, s') \<Longrightarrow>
      gets enc c (client_ListDomains env (tool_client srv version spec sessions enc status env) ctx) (cv_Domains env)"
    unfolding client_ListDomains_def
    by (intro get [where q = RListDomains, OF target_plain [OF base] find_static(1)]) (simp_all add: siw_ListDomains_def)
  assume s: "serve (sv_env srv) (RListDomainClasses d) gin_New (Inr ss) = Returns ((), c, s')"
    and "delivers (sv_bind srv) env (ListDomainClasses_call d)"
  then have d: "d \<noteq> []" "CHR ''/'' \<notin> set d" "bi_domain (sv_bind srv) d = Inr d" by simp_all
  show "gets enc c (client_ListDomainClasses env (tool_client srv version spec sessions enc status env) ctx d) (cv_Classes env)"
    unfolding client_ListDomainClasses_def using s d target_domain(1) [OF base, of d] find_domain(1) [OF d(1,2)]
    by (intro get [where q = "RListDomainClasses d" and x = "''domain/'' @ d @ ''/classes''", OF _ _ _ s])
      (auto simp add: siw_ListDomainClasses_def smap_get_def ptr_Deref_def)
qed

lemma client_Help_gets:
  assumes "deployed env sessions enc ctx ss" and "delivers (sv_bind srv) env (Help_call d)"
    and s: "serve (sv_env srv) (tool_operation (Help_call d)) gin_New (Inr ss) = Returns ((), c, s')"
  shows "gets enc c (client_Help env (tool_client srv version spec sessions enc status env) ctx d) (cv_Help env)"
proof -
  have base: "base_ok (cv_BasePath env)" using assms by (simp add: deployed_def)
  note get = client_get_gets [OF assms(1), where srv = srv and s' = s' and c = c]
  show ?thesis
  proof (cases "d = []")
    case True
    then show ?thesis
      unfolding client_Help_def using s
      by (simp, intro get [where q = RHelp, OF target_plain [OF base] find_static(2)]) (simp_all add: siw_Help_def)
  next
    case False
    with assms(2) have d: "CHR ''/'' \<notin> set d" "bi_domain (sv_bind srv) d = Inr d" by simp_all
    show ?thesis
      unfolding client_Help_def using s d False target_domain(2) [OF base, of d] find_domain(2) [OF False d(1)]
      by (simp, intro get [where q = "RHelpDomain d" and x = "''help/'' @ d"])
        (auto simp add: siw_HelpDomain_def smap_get_def ptr_Deref_def)
  qed
qed

lemma client_graphs_get:
  assumes "deployed env sessions enc ctx ss"
  shows "serve (sv_env srv) (RGraphNeighbors (Inr n) None) gin_New (Inr ss) = Returns ((), c, s') \<Longrightarrow>
      delivers (sv_bind srv) env (CreateNeighborsGraph_call n) \<Longrightarrow>
      gets enc c (client_GraphNeighbors env (tool_client srv version spec sessions enc status env) ctx n) (cv_Graph env)"
    and "serve (sv_env srv) (RGraphGoals (Inr g) None) gin_New (Inr ss) = Returns ((), c, s') \<Longrightarrow>
      delivers (sv_bind srv) env (CreateGoalsGraph_call g) \<Longrightarrow>
      gets enc c (client_GraphGoals env (tool_client srv version spec sessions enc status env) ctx g) (cv_Graph env)"
proof -
  have base: "base_ok (cv_BasePath env)" using assms by (simp add: deployed_def)
  note send = client_send_gets [OF assms, where srv = srv and s' = s' and c = c, OF target_plain [OF base]]
  show "serve (sv_env srv) (RGraphNeighbors (Inr n) None) gin_New (Inr ss) = Returns ((), c, s') \<Longrightarrow>
      delivers (sv_bind srv) env (CreateNeighborsGraph_call n) \<Longrightarrow>
      gets enc c (client_GraphNeighbors env (tool_client srv version spec sessions enc status env) ctx n) (cv_Graph env)"
    unfolding client_GraphNeighbors_def client_post_def
    by (auto intro!: send [where q = "RGraphNeighbors (Inr n) None", OF _ find_static(3)]
        simp: siw_GraphNeighbors_def)
  show "serve (sv_env srv) (RGraphGoals (Inr g) None) gin_New (Inr ss) = Returns ((), c, s') \<Longrightarrow>
      delivers (sv_bind srv) env (CreateGoalsGraph_call g) \<Longrightarrow>
      gets enc c (client_GraphGoals env (tool_client srv version spec sessions enc status env) ctx g) (cv_Graph env)"
    unfolding client_GraphGoals_def client_post_def
    by (auto intro!: send [where q = "RGraphGoals (Inr g) None", OF _ find_static(4)]
        simp: siw_GraphGoals_def)
qed

lemma client_GetObjects_gets:
  assumes "deployed env sessions enc ctx ss" and "delivers (sv_bind srv) env (GetObjects_call q k)"
    and "serve (sv_env srv) (RObjects q k) gin_New (Inr ss) = Returns ((), c, s')"
  shows "gets enc c (client_GetObjects env (tool_client srv version spec sessions enc status env) ctx q k) (cv_Objects env)"
proof -
  have base: "base_ok (cv_BasePath env)" using assms by (simp add: deployed_def)
  show ?thesis
    unfolding client_GetObjects_def using assms(2,3) target_objects [OF base]
    by (intro client_get_gets [where q = "RObjects q k" and x = "''objects''" and s' = s', OF assms(1) _ find_static(5)])
      (auto simp add: siw_Objects_def)
qed

lemma client_console_get:
  assumes "deployed env sessions enc ctx ss"
  shows "serve (sv_env srv) RGetConsole gin_New (Inr ss) = Returns ((), c, s') \<Longrightarrow>
      gets enc c (client_GetConsole env (tool_client srv version spec sessions enc status env) ctx) (cv_Console env)"
    and "serve (sv_env srv) (RShowInConsole (Inr u)) gin_New (Inr ss) = Returns ((), c, s') \<Longrightarrow>
      delivers (sv_bind srv) env (ShowInConsole_call u) \<Longrightarrow>
      gets enc c (client_ShowInConsole env (tool_client srv version spec sessions enc status env) ctx u) (\<lambda>_. Inr ())"
proof -
  have base: "base_ok (cv_BasePath env)" using assms by (simp add: deployed_def)
  show "serve (sv_env srv) RGetConsole gin_New (Inr ss) = Returns ((), c, s') \<Longrightarrow>
      gets enc c (client_GetConsole env (tool_client srv version spec sessions enc status env) ctx) (cv_Console env)"
    unfolding client_GetConsole_def
    by (intro client_get_gets [where q = RGetConsole and s' = s', OF assms target_plain [OF base] find_static(6)])
      (simp_all add: siw_GetConsole_def)
  show "serve (sv_env srv) (RShowInConsole (Inr u)) gin_New (Inr ss) = Returns ((), c, s') \<Longrightarrow>
      delivers (sv_bind srv) env (ShowInConsole_call u) \<Longrightarrow>
      gets enc c (client_ShowInConsole env (tool_client srv version spec sessions enc status env) ctx u) (\<lambda>_. Inr ())"
    unfolding client_ShowInConsole_def client_put_def
    by (auto intro!: client_send_gets [where q = "RShowInConsole (Inr u)" and s' = s', OF assms target_plain [OF base] find_static(7)]
        simp: siw_ShowInConsole_def)
qed

text \<open>C22: A tool that is called in the server's process gets the answer of the operation it stands for, in the session of its
  caller: through escaping and parsing of the URL, the routes, the binding of the parameters and the codes of the response. The call
  gives an error exactly when the operation was aborted, and otherwise what the tool reads from the one body of the answer.
  The name of a domain may have any characters but a slash.\<close>

theorem tool_call_refines:
  assumes "deployed env sessions enc ctx ss" and "delivers (sv_bind srv) env call"
    and "serve (sv_env srv) (tool_operation call) gin_New (Inr ss) = Returns ((), c, s')"
  shows "if gin_aborted c
    then \<exists>msg. call_tool unmarshal env (tool_client srv version spec sessions enc status env) ctx call = Inl (ErrorString msg)
    else \<exists>b. gin_bodies c = [b] \<and> \<not> is_error b \<and>
      call_tool unmarshal env (tool_client srv version spec sessions enc status env) ctx call =
        tool_reads unmarshal env call (enc b)"
proof -
  let ?cl = "tool_client srv version spec sessions enc status env"
  note dep = assms(1) and sent = assms(2) and s = assms(3)
  note tool = gets_bind [where r' = "call_tool unmarshal env ?cl ctx call" and reads' = "tool_reads unmarshal env call"]
  have "gets enc c (call_tool unmarshal env ?cl ctx call) (tool_reads unmarshal env call)"
  proof (cases call)
    case ListDomains_call
    with s show ?thesis by (intro tool [OF client_domains_get(1) [OF dep]]) (simp_all add: map_sum_case)
  next
    case (ListDomainClasses_call d)
    with s sent show ?thesis by (intro tool [OF client_domains_get(2) [OF dep]]) (simp_all add: map_sum_case)
  next
    case (Help_call d)
    with s sent show ?thesis by (intro tool [OF client_Help_gets [OF dep]]) (simp_all add: map_sum_case)
  next
    case (CreateNeighborsGraph_call n)
    with s sent show ?thesis by (intro tool [OF client_graphs_get(1) [OF dep]]) (simp_all add: map_sum_case)
  next
    case (CreateGoalsGraph_call g)
    with s sent show ?thesis by (intro tool [OF client_graphs_get(2) [OF dep]]) (simp_all add: map_sum_case)
  next
    case (GetObjects_call q k)
    have "call_tool unmarshal env ?cl ctx call = (case client_GetObjects env ?cl ctx q k of
        Inl err \<Rightarrow> Inl err | Inr raw \<Rightarrow> map_sum id ObjectsResult (collect_results unmarshal raw))"
      by (simp add: GetObjects_call map_sum_case cong: sum.case_cong)
    with s sent GetObjects_call show ?thesis by (intro tool [OF client_GetObjects_gets [OF dep]]) simp_all
  next
    case GetConsole_call
    with s show ?thesis by (intro tool [OF client_console_get(1) [OF dep]]) (simp_all add: map_sum_case)
  next
    case (ShowInConsole_call u)
    with s sent show ?thesis by (intro tool [OF client_console_get(2) [OF dep]]) simp_all
  qed
  then show ?thesis unfolding gets_def .
qed

definition example_client_env :: client_env where
  "example_client_env = \<lparr>cv_BasePath = ''/api/v1alpha1'', cv_NewRequest = (\<lambda>_. None),
     cv_default = (\<lambda>_. Inl (ErrorString ''offline'')), cv_time = show_int, cv_Domains = (\<lambda>_. Inr []),
     cv_Classes = (\<lambda>_. Inr [''network'']), cv_Help = Inr, cv_Graph = (\<lambda>_. Inr empty_api_Graph), cv_Objects = (\<lambda>_. Inr []),
     cv_Console = (\<lambda>_. Inl (ErrorString ''EOF'')), cv_encode_Neighbors = (\<lambda>_. Inr ''{}''), cv_encode_Goals = (\<lambda>_. Inr ''{}''),
     cv_encode_Console = (\<lambda>_. Inr ''{}'')\<rparr>"

lemma tool_call_refines_witness:
  "call_tool Inr example_client_env
     (tool_client example_server ''dev'' [] (\<lambda>_. Inr \<lparr>rs_Engine = example_engine, rs_Console = newConsoleEvents\<rparr>) (\<lambda>_. ''[]'')
        show_nat example_client_env) \<lparr>cx_token = ''secret'', cx_session = None, cx_timeout = None\<rparr>
     (ListDomainClasses_call ''netflow'') = Inr (ListDomainClassesResult ''netflow'' [''network''])"
proof -
  let ?ss = "\<lparr>rs_Engine = example_engine, rs_Console = newConsoleEvents\<rparr> :: nat rest_session"
  let ?ctx = "\<lparr>cx_token = ''secret'', cx_session = None, cx_timeout = None\<rparr>"
  let ?c = "gin_JSON 200 (BNames (Some [''network''])) gin_New :: nat gin"
  have dep: "deployed example_client_env (\<lambda>_. Inr ?ss) (\<lambda>_. ''[]'') ?ctx ?ss"
    using base_ok_api by (simp add: deployed_def example_client_env_def)
  have sent: "delivers (sv_bind example_server) example_client_env (ListDomainClasses_call ''netflow'')"
    by (simp add: example_server_def example_binders_def)
  have "engine_Domain example_engine ''netflow'' = Inr netflow_Domain"
    by (simp add: engine_Domain_def Domains_domain_def example_engine_facts)
  moreover have "map k_name (dom_Classes netflow_Domain) = [''network'']"
    by (simp add: netflow_Domain_def NewDomain_def netflow_class_def)
  ultimately have run: "serve (sv_env example_server) (tool_operation (ListDomainClasses_call ''netflow'')) gin_New (Inr ?ss) =
      Returns ((), ?c, Inr ?ss)"
    by (simp add: API_ListDomainClasses_def checked_def check_def gin_New_def)
  show ?thesis
    using tool_call_refines [OF dep sent run, of Inr "''dev''" "[]" show_nat]
    by (simp add: gin_JSON_def gin_Status_def gin_New_def example_client_env_def)
qed

end
