(* ===== verification/Metrics.thy ===== *)
theory Metrics
  imports Handlers
begin

text \<open>
  The middlewares that count requests: \<open>pkg/rest/metrics.go\<close> for the REST API, and \<open>internal/pkg/mcp/metrics.go\<close> for the
  tools. The instruments of OpenTelemetry add up what they are given; durations are left out.
\<close>

section \<open>REST requests\<close>

text \<open>\<open>requestMetricAttrs.get\<close>: one set of attributes for each method, path and status, made when it is first used.
  The lock makes it atomic.\<close>

type_synonym requestMetricKey = "string \<times> string \<times> string"

definition requestMetricAttrs_get ::
  "string \<Rightarrow> string \<Rightarrow> string \<Rightarrow> (requestMetricKey \<Rightarrow> smap option) \<Rightarrow> smap \<times> (requestMetricKey \<Rightarrow> smap option)" where
  "requestMetricAttrs_get verb path status attrs =
     (let key = (verb, path, status)
      in case attrs key of
           Some a \<Rightarrow> (a, attrs)
         | None \<Rightarrow>
             (let a = [(''method'', verb), (''path'', path), (''status'', status)] in (a, attrs(key \<mapsto> a))))"

record rest_counters =
  rm_requests :: "smap list"
  rm_active :: int
  rm_attrs :: "requestMetricKey \<Rightarrow> smap option"

text \<open>\<open>Metrics\<close> around the handlers of a request, which get a response or panic: the recovery middleware is outside of
  this one, and what comes after \<open>c.Next()\<close> is not deferred.\<close>

definition rest_Metrics ::
  "string \<Rightarrow> string \<Rightarrow> (rest_counters \<Rightarrow> 'o gin go \<times> rest_counters) \<Rightarrow> rest_counters \<Rightarrow> 'o gin go \<times> rest_counters" where
  "rest_Metrics verb path handlers m =
     (let m = m\<lparr>rm_active := rm_active m + 1\<rparr>
      in case handlers m of
           (Panics p, m) \<Rightarrow> (Panics p, m)
         | (Returns c, m) \<Rightarrow>
             (let (a, attrs) = requestMetricAttrs_get verb path (show_nat (ptr_Deref 200 (gin_status c))) (rm_attrs m)
              in (Returns c, m\<lparr>rm_requests := rm_requests m @ [a], rm_active := rm_active m - 1, rm_attrs := attrs\<rparr>)))"

text \<open>The attributes that are kept are those that would be made.\<close>

definition attrs_ok :: "(requestMetricKey \<Rightarrow> smap option) \<Rightarrow> bool" where
  "attrs_ok attrs \<longleftrightarrow> (\<forall>v p s a. attrs (v, p, s) = Some a \<longrightarrow> a = [(''method'', v), (''path'', p), (''status'', s)])"

lemma requestMetricAttrs_get_spec:
  assumes "attrs_ok attrs" and "requestMetricAttrs_get v p s attrs = (a, attrs')"
  shows "a = [(''method'', v), (''path'', p), (''status'', s)] \<and> attrs_ok attrs' \<and> attrs' (v, p, s) = Some a"
  using assms by (auto simp: requestMetricAttrs_get_def attrs_ok_def Let_def split: option.splits if_splits)

text \<open>A request that is answered is counted once, under its method, path and status, and is active no more. A request
  whose handler panics is not counted, and stays active for ever.\<close>

theorem rest_Metrics_spec:
  assumes "attrs_ok (rm_attrs m)" and "\<And>m. snd (handlers m) = m"
  shows "case rest_Metrics v p handlers m of
      (Returns c, m') \<Rightarrow> rm_active m' = rm_active m \<and>
        rm_requests m' = rm_requests m @ [[(''method'', v), (''path'', p), (''status'', show_nat (ptr_Deref 200 (gin_status c)))]]
    | (Panics _, m') \<Rightarrow> rm_active m' = rm_active m + 1 \<and> rm_requests m' = rm_requests m"
proof -
  let ?m = "m\<lparr>rm_active := rm_active m + 1\<rparr>"
  obtain r where r: "handlers ?m = (r, ?m)" using assms(2) [of ?m] by (cases "handlers ?m") auto
  show ?thesis
  proof (cases r)
    case (Returns c)
    obtain a attrs where g: "requestMetricAttrs_get v p (show_nat (ptr_Deref 200 (gin_status c))) (rm_attrs m) = (a, attrs)" by fastforce
    from requestMetricAttrs_get_spec [OF assms(1) this] r Returns g show ?thesis by (simp add: rest_Metrics_def)
  qed (use r in \<open>simp add: rest_Metrics_def\<close>)
qed

lemma rest_Metrics_spec_witness:
  "let m = \<lparr>rm_requests = [], rm_active = 0, rm_attrs = Map.empty\<rparr>
   in rm_active (snd (rest_Metrics ''GET'' ''/objects'' (\<lambda>m. (Panics ''nil pointer dereference'' :: nat gin go, m)) m)) = 1"
proof -
  let ?m = "\<lparr>rm_requests = [], rm_active = 0, rm_attrs = Map.empty\<rparr>" and ?h = "\<lambda>m. (Panics ''nil pointer dereference'' :: nat gin go, m)"
  have "attrs_ok (rm_attrs ?m)" by (simp add: attrs_ok_def)
  from rest_Metrics_spec [OF this, of ?h "''GET''" "''/objects''"] show ?thesis
    by (simp add: Let_def rest_Metrics_def)
qed

section \<open>Tool calls\<close>

text \<open>\<open>Metrics\<close> of the tools: the result and the error are passed on, and a result can be marked as an error.\<close>

definition tool_Metrics ::
  "string \<Rightarrow> ('r \<Rightarrow> bool) \<Rightarrow> 'r option \<times> error option \<Rightarrow> smap list \<Rightarrow> ('r option \<times> error option) \<times> smap list" where
  "tool_Metrics verb isError outcome calls =
     (let (result, err) = outcome;
          status = (if err \<noteq> None then ''error''
                    else (case result of Some r \<Rightarrow> if isError r then ''error'' else ''ok'' | None \<Rightarrow> ''ok''))
      in ((result, err), calls @ [[(''method'', verb), (''status'', status)]]))"

lemma tool_Metrics_transparent: "fst (tool_Metrics verb isError outcome calls) = outcome"
  by (simp add: tool_Metrics_def Let_def split: prod.splits)

end
