(* ===== verification/Mock.thy ===== *)
theory Mock
  imports Registry Url
begin

text \<open>
  \<open>internal/pkg/test/mock\<close>: the mock domain, whose store answers queries from functions, a map or a directory of files.
  Stores of every domain can be replaced by it in a configuration (\<open>pkg/engine/stores.go\<close>).

  Parameters: decoding files and objects, the file system (\<open>open_result\<close> of a name in the directory), the SHA-256
  hash in hexadecimal.
\<close>

section \<open>The domain\<close>

definition mock_Class :: "string \<Rightarrow> string list \<Rightarrow> string \<Rightarrow> klass option" where
  "mock_Class d classes name = (if length classes > 0 \<and> name \<notin> set classes then None else Some (Klass d name))"

definition mock_Query :: "string \<Rightarrow> string list \<Rightarrow> nat \<Rightarrow> string \<Rightarrow> query result" where
  "mock_Query d classes p query =
     (case QuerySplit query of
        Inl err \<Rightarrow> Inl err
      | Inr (domainName, className, selector) \<Rightarrow>
          if domainName \<noteq> d then Inl (ErrorString (''mock domain '' @ d @ '': query mismatch: '' @ query))
          else (case mock_Class d classes className of
                  None \<Rightarrow> Inl (ClassNotFoundError domainName className)
                | Some c \<Rightarrow> Inr \<lparr>q_class = c, q_data = selector, q_ptr = p\<rparr>))"

definition mock_Domain :: "string \<Rightarrow> string list \<Rightarrow> domain" where
  "mock_Domain d classes =
     \<lparr>dom_Name = d, dom_Class = mock_Class d classes, dom_Classes = map (Klass d) classes, dom_Query = mock_Query d classes\<rparr>"

interpretation mock: domain_laws "mock_Domain d classes" for d classes
  by unfold_locales
    (auto simp: mock_Domain_def mock_Class_def mock_Query_def split: sum.splits if_splits)

section \<open>Rules\<close>

datatype 'o mock_apply = ApplyFunc "'o \<Rightarrow> query list result" | ApplyQuery query | ApplyNil

record 'o mock_Rule =
  mr_name :: string
  mr_start :: "klass list"
  mr_goal :: "klass list"
  mr_apply :: "'o mock_apply"

fun mock_Rule_Apply :: "'o mock_Rule \<Rightarrow> 'o \<Rightarrow> query list result" where
  "mock_Rule_Apply r x =
     (case mr_apply r of
        ApplyFunc f \<Rightarrow> f x
      | ApplyQuery q \<Rightarrow> Inr [q]
      | ApplyNil \<Rightarrow> Inl (ErrorString (''mock rule has no result: '' @ mr_name r)))"

text \<open>\<open>RuleLess\<close> compares the first start and goal; a rule without them panics.\<close>

definition rule_key :: "'o mock_Rule \<Rightarrow> (string \<times> string) go" where
  "rule_key r =
     (case (mr_start r, mr_goal r) of
        (s # _, g # _) \<Rightarrow> Returns (k_name s, k_name g)
      | _ \<Rightarrow> Panics ''index out of range'')"

section \<open>The store\<close>

text \<open>A query of the mock domain can carry its result.\<close>

record 'o mock_query =
  mq_query :: query
  mq_result :: "('o list \<times> error option) option"

type_synonym 'o QueryFunc = "'o mock_query \<Rightarrow> 'o list \<times> error option"

datatype 'o query_value = ValueFunc "'o QueryFunc" | ValueNil | ValueObjects "'o list" | ValueError error | ValueObject 'o

fun queryFunc :: "'o query_value \<Rightarrow> 'o QueryFunc" where
  "queryFunc (ValueFunc f) = f"
| "queryFunc ValueNil = (\<lambda>_. ([], None))"
| "queryFunc (ValueObjects v) = (\<lambda>_. (v, None))"
| "queryFunc (ValueError e) = (\<lambda>_. ([], Some e))"
| "queryFunc (ValueObject v) = (\<lambda>_. ([v], None))"

type_synonym 'o QueryMap = "string \<Rightarrow> 'o QueryFunc option"

definition QueryMap_Get :: "'o QueryMap \<Rightarrow> 'o QueryFunc" where
  "QueryMap_Get m q = (case m (Query_String (mq_query q)) of Some f \<Rightarrow> f q | None \<Rightarrow> ([], None))"

definition QueryMap_Put :: "string \<Rightarrow> 'o QueryFunc \<Rightarrow> 'o QueryMap \<Rightarrow> 'o QueryMap" where
  "QueryMap_Put q f m = m(q \<mapsto> f)"

text \<open>The look-ups of a store: the result in the query, the store's map, and functions that were added.\<close>

datatype 'o lookup = Contains_result | Store_map | Added "'o QueryFunc"

record 'o mock_Store =
  ms_ConstraintFunc :: "(Constraint \<Rightarrow> 'o \<Rightarrow> bool) option"
  ms_classes :: "klass set"
  ms_lookup :: "'o lookup list"
  ms_queries :: "'o QueryMap"

definition NewStore_mock :: "klass list \<Rightarrow> 'o mock_Store" where
  "NewStore_mock cs =
     \<lparr>ms_ConstraintFunc = None, ms_classes = set cs, ms_lookup = [Contains_result, Store_map], ms_queries = Map.empty\<rparr>"

fun run_lookup :: "'o mock_Store \<Rightarrow> 'o lookup \<Rightarrow> 'o QueryFunc" where
  "run_lookup s Contains_result q = ptr_Deref ([], None) (mq_result q)"
| "run_lookup s Store_map q = QueryMap_Get (ms_queries s) q"
| "run_lookup s (Added f) q = f q"

definition AddLookup :: "'o QueryFunc \<Rightarrow> 'o mock_Store \<Rightarrow> 'o mock_Store" where
  "AddLookup f s = s\<lparr>ms_lookup := ms_lookup s @ [Added f]\<rparr>"

definition AddQuery :: "string \<Rightarrow> 'o query_value \<Rightarrow> 'o mock_Store \<Rightarrow> 'o mock_Store" where
  "AddQuery q result s = s\<lparr>ms_queries := QueryMap_Put q (queryFunc result) (ms_queries s)\<rparr>"

text \<open>The objects of one look-up: \<open>i\<close> is the index in its result.\<close>

fun take_result :: "'o mock_Store \<Rightarrow> Constraint option \<Rightarrow> int \<Rightarrow> 'o list \<Rightarrow> 'o list" where
  "take_result s c i [] = []"
| "take_result s c i (x # xs) =
     (let limit = Constraint_GetLimit c
      in if limit > 0 \<and> i \<ge> limit then []
         else (if (case (ms_ConstraintFunc s, c) of (Some f, Some k) \<Rightarrow> f k x | _ \<Rightarrow> True) then [x] else []) @
              take_result s c (i + 1) xs)"

fun mock_Get_loop :: "'o mock_Store \<Rightarrow> 'o lookup list \<Rightarrow> 'o mock_query \<Rightarrow> Constraint option \<Rightarrow> 'o list \<times> error option" where
  "mock_Get_loop s [] q c = ([], None)"
| "mock_Get_loop s (f # fs) q c =
     (case run_lookup s f q of
        (_, Some err) \<Rightarrow> ([], Some err)
      | (result, None) \<Rightarrow>
          (let (rest, err) = mock_Get_loop s fs q c in (take_result s c 0 result @ rest, err)))"

definition mock_Get :: "'o mock_Store \<Rightarrow> 'o mock_query \<Rightarrow> Constraint option \<Rightarrow> 'o list \<times> error option" where
  "mock_Get s q c = mock_Get_loop s (ms_lookup s) q c"

text \<open>\<open>LoadData\<close>: queries of other domains are ignored. What was loaded before an error stays.\<close>

fun LoadData_loop ::
  "domain \<Rightarrow> (klass \<Rightarrow> string \<Rightarrow> 'o result) \<Rightarrow> (string \<times> string list) list \<Rightarrow> 'o mock_Store \<Rightarrow> 'o mock_Store \<times> error option"
where
  "LoadData_loop d unmarshal [] s = (s, None)"
| "LoadData_loop d unmarshal ((qs, raw) # loaded) s =
     (case QuerySplit qs of
        Inl err \<Rightarrow> (s, Some err)
      | Inr (domain, _, _) \<Rightarrow>
          if dom_Name d \<noteq> domain then LoadData_loop d unmarshal loaded s
          else (case dom_Query d 0 qs of
                  Inl err \<Rightarrow> (s, Some err)
                | Inr q \<Rightarrow>
                    (let s = s\<lparr>ms_classes := insert (q_class q) (ms_classes s)\<rparr>
                     in case collect_results (unmarshal (q_class q)) raw of
                          Inl err \<Rightarrow> (s, Some err)
                        | Inr result \<Rightarrow>
                            LoadData_loop d unmarshal loaded (AddQuery (Query_String q) (ValueObjects result) s))))"

definition LoadData ::
  "(string \<Rightarrow> (string \<times> string list) list result) \<Rightarrow> domain \<Rightarrow> (klass \<Rightarrow> string \<Rightarrow> 'o result) \<Rightarrow> string \<Rightarrow> 'o mock_Store \<Rightarrow>
     'o mock_Store \<times> error option" where
  "LoadData decode d unmarshal data s =
     (case decode data of Inl err \<Rightarrow> (s, Some err) | Inr loaded \<Rightarrow> LoadData_loop d unmarshal loaded s)"

section \<open>Query files\<close>

datatype 'o open_result = Opened "'o list \<times> error option" | NotExist | OpenError error

record 'o QueryDir =
  qd_files :: "string \<Rightarrow> 'o open_result"
  qd_hash :: "string \<Rightarrow> string"
  qd_cache :: "string \<Rightarrow> ('o list \<times> error option) option"

definition QueryFileName :: "(string \<Rightarrow> string) \<Rightarrow> string \<Rightarrow> string" where
  "QueryFileName hash query =
     (let escaped = url_QueryEscape query in if length escaped \<le> 255 then escaped else hash query)"

text \<open>\<open>readFile\<close>: a decoding error loses the objects before it.\<close>

definition QueryDir_readFile :: "'o QueryDir \<Rightarrow> string \<Rightarrow> 'o list \<times> error option" where
  "QueryDir_readFile d qs =
     (let f = qd_files d qs;
          f = (if f = NotExist then qd_files d (url_QueryEscape qs) else f);
          f = (if f = NotExist then qd_files d (qd_hash d qs) else f)
      in case f of
           NotExist \<Rightarrow> ([], None)
         | OpenError err \<Rightarrow> ([], Some err)
         | Opened (objects, None) \<Rightarrow> (objects, None)
         | Opened (_, Some err) \<Rightarrow> ([], Some err))"

definition QueryDir_Get :: "string \<Rightarrow> 'o QueryDir \<Rightarrow> ('o list \<times> error option) \<times> 'o QueryDir" where
  "QueryDir_Get qs d =
     (case qd_cache d qs of
        Some r \<Rightarrow> (r, d)
      | None \<Rightarrow> (let r = QueryDir_readFile d qs in (r, d\<lparr>qd_cache := (qd_cache d)(qs \<mapsto> r)\<rparr>)))"

section \<open>What the store gives\<close>

lemma take_result_length:
  assumes "Constraint_GetLimit c > 0" and "0 \<le> i"
  shows "int (length (take_result s c i xs)) \<le> max 0 (Constraint_GetLimit c - i)"
  using assms
proof (induction s c i xs rule: take_result.induct)
  case (2 s c i x xs)
  show ?case
  proof (cases "i \<ge> Constraint_GetLimit c")
    case False
    with 2 have "int (length (take_result s c (i + 1) xs)) \<le> max 0 (Constraint_GetLimit c - (i + 1))" by simp
    with False show ?thesis by (simp add: Let_def)
  qed (simp add: 2(2))
qed simp

text \<open>The limit of a mock store is a limit for each of its look-ups: with \<open>n\<close> of them a query gives up to \<open>n\<close> times as many
  objects as the constraint allows.\<close>

theorem mock_Get_limit:
  assumes "Constraint_GetLimit c > 0"
  shows "int (length (fst (mock_Get s q c))) \<le> int (length (ms_lookup s)) * Constraint_GetLimit c"
proof -
  have "int (length (fst (mock_Get_loop s fs q c))) \<le> int (length fs) * Constraint_GetLimit c" for fs
  proof (induction fs)
    case (Cons f fs)
    show ?case
    proof (cases "run_lookup s f q")
      case (Pair result err)
      with Cons take_result_length [OF assms, of 0 s result] assms show ?thesis
        by (cases err) (auto simp: Let_def algebra_simps split: prod.splits)
    qed
  qed simp
  then show ?thesis by (simp add: mock_Get_def)
qed

lemma mock_Get_limit_witness:
  "let c = Some \<lparr>c_Limit = Some 1, c_QueryLimit = None, c_Start = None, c_End = None\<rparr>;
       s = AddLookup (\<lambda>_. ([3, 4], None)) (NewStore_mock [] :: nat mock_Store);
       r = fst (mock_Get s \<lparr>mq_query = \<lparr>q_class = Klass ''mock'' ''a'', q_data = ''x'', q_ptr = 0\<rparr>, mq_result = Some ([1, 2], None)\<rparr> c)
   in r = [1, 3] \<and> int (length r) \<le> int (length (ms_lookup s)) * Constraint_GetLimit c"
proof -
  let ?c = "Some \<lparr>c_Limit = Some 1, c_QueryLimit = None, c_Start = None, c_End = None\<rparr>"
  let ?s = "AddLookup (\<lambda>_. ([3, 4], None)) (NewStore_mock [] :: nat mock_Store)"
  let ?q = "\<lparr>mq_query = \<lparr>q_class = Klass ''mock'' ''a'', q_data = ''x'', q_ptr = 0\<rparr>, mq_result = Some ([1, 2], None)\<rparr>"
  have limit: "Constraint_GetLimit ?c = 1" by (simp add: Constraint_GetLimit_def)
  have "fst (mock_Get ?s ?q ?c) = [1, 3]"
    by (simp add: mock_Get_def AddLookup_def NewStore_mock_def ptr_Deref_def limit QueryMap_Get_def)
  with mock_Get_limit [of ?c ?s ?q] limit show ?thesis by (simp add: Let_def)
qed

text \<open>A file under the name \<open>QueryFileName\<close> gives its query is found if the escaped query fits in 255 bytes. If it does
  not, the hash is the name, but the file is never opened: opening the escaped name fails because it is too long,
  which is not the error that leads to the next name.\<close>

theorem QueryFileName_found:
  assumes "\<forall>name. CHR ''/'' \<notin> set name \<and> length name > 255 \<longrightarrow> qd_files d name = OpenError ENAMETOOLONG"
    and "qd_files d (QueryFileName (qd_hash d) qs) = Opened (objects, None)" and "qd_files d qs = NotExist"
  shows "QueryDir_readFile d qs =
    (if length (url_QueryEscape qs) \<le> 255 then (objects, None) else ([], Some ENAMETOOLONG))"
proof (cases "length (url_QueryEscape qs) \<le> 255")
  case True
  with assms(2,3) show ?thesis by (simp add: QueryDir_readFile_def QueryFileName_def Let_def)
next
  case False
  have "CHR ''/'' \<notin> set (url_QueryEscape qs)"
    using escape_plain [of "CHR ''/''" qs] by (auto simp: url_unreserved_def is_lower_def is_upper_def is_digit_def)
  with False assms(1) have "qd_files d (url_QueryEscape qs) = OpenError ENAMETOOLONG" by simp
  with assms(3) False show ?thesis by (simp add: QueryDir_readFile_def Let_def)
qed

text \<open>A long query with a slash: its file is under the hash.\<close>

definition example_QueryDir :: "nat QueryDir" where
  "example_QueryDir = \<lparr>qd_files = (\<lambda>name. if CHR ''/'' \<notin> set name \<and> length name > 255 then OpenError (ErrorString ''file name too long'')
       else if name = ''hash'' then Opened ([1], None) else NotExist),
     qd_hash = (\<lambda>_. ''hash''), qd_cache = Map.empty\<rparr>"

lemma QueryFileName_found_witness:
  "QueryFileName (qd_hash example_QueryDir) (''x/'' @ replicate 256 (CHR ''a'')) = ''hash'' \<and>
   qd_files example_QueryDir ''hash'' = Opened ([1], None) \<and>
   QueryDir_readFile example_QueryDir (''x/'' @ replicate 256 (CHR ''a'')) = ([], Some (ErrorString ''file name too long''))"
proof -
  let ?qs = "''x/'' @ replicate 256 (CHR ''a'')"
  have a: "url_unreserved (CHR ''a'')" by (simp add: url_unreserved_def is_lower_def)
  then have "length (url_QueryEscape (replicate n (CHR ''a''))) = n" for n
    by (simp add: url_QueryEscape_def sum_list_replicate)
  moreover have "url_QueryEscape (s @ t) = url_QueryEscape s @ url_QueryEscape t" for s t
    by (simp add: url_QueryEscape_def)
  ultimately have long: "\<not> length (url_QueryEscape ?qs) \<le> 255" by (simp only: length_append)
  then have name: "QueryFileName (qd_hash example_QueryDir) ?qs = ''hash''"
    by (simp only: QueryFileName_def Let_def if_False) (simp add: example_QueryDir_def)
  have hashed: "qd_files example_QueryDir ''hash'' = Opened ([1], None)" by (simp add: example_QueryDir_def)
  have literal: "qd_files example_QueryDir ?qs = NotExist" by (simp add: example_QueryDir_def)
  have "QueryDir_readFile example_QueryDir ?qs =
      (if length (url_QueryEscape ?qs) \<le> 255 then ([1], None) else ([], Some (ErrorString ''file name too long'')))"
  proof (rule QueryFileName_found [OF _ _ literal])
    show "\<forall>name. CHR ''/'' \<notin> set name \<and> length name > 255 \<longrightarrow> qd_files example_QueryDir name = OpenError (ErrorString ''file name too long'')"
      by (simp add: example_QueryDir_def)
    show "qd_files example_QueryDir (QueryFileName (qd_hash example_QueryDir) ?qs) = Opened ([1], None)"
      unfolding name by (rule hashed)
  qed
  with long name hashed show ?thesis by simp
qed

end
