(* ===== verification/MockConfig.thy ===== *)
theory MockConfig
  imports Mock Config
begin

text \<open>
  The mock stores of a configuration (\<open>internal/pkg/test/mock/store.go\<close>): a store's configuration can name a file of
  queries with their results, or a directory of query files. And the order of mock rules (\<open>RuleLess\<close>, \<open>SortRules\<close>).

  Parameters (\<open>mock_files\<close>): whether a path is a directory, the contents of a file, the query files of a directory, and
  the decoders.
\<close>

section \<open>Stores from a configuration\<close>

record 'o mock_files =
  mf_Stat :: "string \<Rightarrow> bool result"
  mf_ReadFile :: "string \<Rightarrow> string result"
  mf_QueryDir :: "string \<Rightarrow> 'o QueryDir"
  mf_decode :: "string \<Rightarrow> (string \<times> string list) list result"
  mf_unmarshal :: "klass \<Rightarrow> string \<Rightarrow> 'o result"

text \<open>The configuration of a store: none, a map, or a value of another type.\<close>

datatype store_config = No_config | Store_config smap | Other_config string

text \<open>\<open>AddDir\<close>: the files do not change while the store is used, so the cache of the directory does not show.\<close>

definition AddDir :: "'o mock_files \<Rightarrow> string \<Rightarrow> 'o mock_Store \<Rightarrow> 'o mock_Store" where
  "AddDir fs dir s = AddLookup (\<lambda>q. fst (QueryDir_Get (Query_String (mq_query q)) (mf_QueryDir fs dir))) s"

definition LoadFile :: "'o mock_files \<Rightarrow> domain \<Rightarrow> string \<Rightarrow> 'o mock_Store \<Rightarrow> 'o mock_Store \<times> error option" where
  "LoadFile fs d path s =
     (case mf_ReadFile fs path of
        Inl err \<Rightarrow> (s, Some err)
      | Inr b \<Rightarrow> LoadData (mf_decode fs) d (mf_unmarshal fs) b s)"

definition NewStoreConfig :: "'o mock_files \<Rightarrow> domain \<Rightarrow> store_config \<Rightarrow> 'o mock_Store result" where
  "NewStoreConfig fs d cfg =
     (let s = NewStore_mock [];
          failed = (\<lambda>path err. Inl (ErrorWrap (''failed to load mockData='' @ strconv_Quote path @ '': '') err []))
      in case cfg of
           No_config \<Rightarrow> Inr s
         | Other_config t \<Rightarrow> Inl (ErrorString (''wrong type: want config.Store, got '' @ t))
         | Store_config cs \<Rightarrow>
             (let path = smap_get cs ''mockData''
              in if path = [] then Inr s
                 else (case mf_Stat fs path of
                         Inl err \<Rightarrow> failed path err
                       | Inr True \<Rightarrow> Inr (AddDir fs path s)
                       | Inr False \<Rightarrow>
                           (case LoadFile fs d path s of
                              (_, Some err) \<Rightarrow> failed path err
                            | (s, None) \<Rightarrow> Inr s))))"

text \<open>\<open>Store.NewQuery\<close>: a query whose data is the JSON text of its result.\<close>

definition mock_Store_NewQuery ::
  "('o list \<Rightarrow> string) \<Rightarrow> klass \<Rightarrow> 'o list \<Rightarrow> nat \<Rightarrow> 'o mock_Store \<Rightarrow> query \<times> 'o mock_Store" where
  "mock_Store_NewQuery json c result p s =
     (let q = \<lparr>q_class = c, q_data = json result, q_ptr = p\<rparr> in (q, AddQuery (Query_String q) (ValueObjects result) s))"

text \<open>A query of a store gives the objects it was made for.\<close>

lemma NewQuery_Get:
  assumes "mock_Store_NewQuery json c result p (NewStore_mock cs) = (q, s)"
  shows "mock_Get s \<lparr>mq_query = q, mq_result = None\<rparr> None = (result, None)"
proof -
  have all: "take_result s None i xs = xs" for s :: "'a mock_Store" and i xs
    by (induction xs arbitrary: i) (simp_all add: Constraint_GetLimit_def split: option.splits)
  from assms show ?thesis
    by (auto simp: mock_Store_NewQuery_def mock_Get_def NewStore_mock_def AddQuery_def QueryMap_Put_def QueryMap_Get_def
        ptr_Deref_def all Let_def)
qed

text \<open>Loading a file fills the map of a store and leaves its look-ups; a directory adds one look-up after the others.\<close>

lemma LoadData_loop_keeps:
  assumes "LoadData_loop d unmarshal loaded s = (s', err)"
  shows "ms_lookup s' = ms_lookup s \<and> ms_ConstraintFunc s' = ms_ConstraintFunc s"
  using assms
proof (induction d unmarshal loaded s rule: LoadData_loop.induct)
  case (2 d unmarshal qs raw loaded s)
  then show ?case
    by (auto simp: AddQuery_def Let_def split: sum.splits prod.splits if_splits)
qed simp

lemma NewStoreConfig_lookups:
  assumes "NewStoreConfig fs d cfg = Inr s"
  shows "ms_lookup s = [Contains_result, Store_map] \<or> (\<exists>cs. cfg = Store_config cs \<and> mf_Stat fs (smap_get cs ''mockData'') = Inr True \<and>
    ms_lookup s = [Contains_result, Store_map,
      Added (\<lambda>q. fst (QueryDir_Get (Query_String (mq_query q)) (mf_QueryDir fs (smap_get cs ''mockData''))))])"
  using assms LoadData_loop_keeps
  by (auto simp: NewStoreConfig_def NewStore_mock_def AddDir_def AddLookup_def LoadFile_def LoadData_def Let_def
      split: store_config.splits if_splits sum.splits bool.splits prod.splits option.splits dest!: LoadData_loop_keeps)

section \<open>The order of rules\<close>

text \<open>\<open>RuleLess\<close>: rules are ordered by the names of their first start, and then of their first goal.\<close>

datatype rule_order = Rule_Order (ro_Start: string) (ro_Goal: string)

instantiation rule_order :: linorder
begin

definition less_rule_order :: "rule_order \<Rightarrow> rule_order \<Rightarrow> bool" where
  "less_rule_order a b = (if ro_Start a \<noteq> ro_Start b then ro_Start a < ro_Start b else ro_Goal a < ro_Goal b)"

definition less_eq_rule_order :: "rule_order \<Rightarrow> rule_order \<Rightarrow> bool" where
  "less_eq_rule_order a b = (a < b \<or> a = b)"

instance
proof
  fix a b c :: rule_order
  show "a < b \<longleftrightarrow> a \<le> b \<and> \<not> b \<le> a" by (auto simp: less_eq_rule_order_def less_rule_order_def split: if_splits)
  show "a \<le> a" by (simp add: less_eq_rule_order_def)
  show "a \<le> b \<Longrightarrow> b \<le> c \<Longrightarrow> a \<le> c" by (auto simp: less_eq_rule_order_def less_rule_order_def split: if_splits)
  show "a \<le> b \<Longrightarrow> b \<le> a \<Longrightarrow> a = b" by (auto simp: less_eq_rule_order_def less_rule_order_def split: if_splits)
  show "a \<le> b \<or> b \<le> a"
    by (cases a; cases b) (auto simp: less_eq_rule_order_def less_rule_order_def)
qed

end

definition rule_order :: "'o mock_Rule \<Rightarrow> rule_order go" where
  "rule_order r = go_bind (rule_key r) (\<lambda>(s, g). Returns (Rule_Order s g))"

text \<open>\<open>RuleLess\<close> as Go's three-way comparison.\<close>

definition RuleLess :: "'o mock_Rule \<Rightarrow> 'o mock_Rule \<Rightarrow> int go" where
  "RuleLess a b =
     go_bind (rule_order a) (\<lambda>x. go_bind (rule_order b) (\<lambda>y. Returns (if x < y then -1 else if x = y then 0 else 1)))"

text \<open>\<open>SortRules\<close>, for rules that have a start and a goal; rules with the same names stay in their order here, Go leaves
  their order open.\<close>

definition SortRules :: "'o mock_Rule list \<Rightarrow> 'o mock_Rule list" where
  "SortRules rules = sort_key (\<lambda>r. case rule_order r of Returns k \<Rightarrow> k | Panics _ \<Rightarrow> Rule_Order [] []) rules"

lemma SortRules_sorted:
  assumes "\<forall>r \<in> set rules. mr_start r \<noteq> [] \<and> mr_goal r \<noteq> []"
  shows "mset (SortRules rules) = mset rules \<and>
    sorted_wrt (\<lambda>a b. \<exists>i. RuleLess a b = Returns i \<and> i \<le> 0) (SortRules rules)"
proof -
  let ?key = "\<lambda>r. case rule_order r of Returns k \<Rightarrow> k | Panics _ \<Rightarrow> Rule_Order [] []"
  have key: "rule_order r = Returns (?key r)" if "r \<in> set (SortRules rules)" for r
    using that assms by (auto simp: SortRules_def rule_order_def rule_key_def split: list.splits)
  have "sorted_wrt (\<lambda>a b. ?key a \<le> ?key b) (SortRules rules)"
    using sorted_sort_key [of ?key rules] by (simp add: SortRules_def sorted_map)
  then have "sorted_wrt (\<lambda>a b. \<exists>i. RuleLess a b = Returns i \<and> i \<le> 0) (SortRules rules)"
  proof (rule sorted_wrt_mono_rel [rotated])
    fix a b
    assume ab: "a \<in> set (SortRules rules)" "b \<in> set (SortRules rules)" "?key a \<le> ?key b"
    have "RuleLess a b = Returns (if ?key a < ?key b then -1 else if ?key a = ?key b then 0 else 1)"
      unfolding RuleLess_def by (subst key [OF ab(1)], subst key [OF ab(2)]) simp
    with ab(3) show "\<exists>i. RuleLess a b = Returns i \<and> i \<le> 0" by (auto simp: order.order_iff_strict)
  qed
  then show ?thesis by (simp add: SortRules_def)
qed

end
