(* ===== verification/Docgen.thy ===== *)
theory Docgen
  imports Rules
begin

text \<open>
  \<open>cmd/korrel8r-docgen\<close>: the Markdown text about the tools of the MCP server. The server that lists the tools is
  the library's (\<open>run\<close> starts it in the same process); the list it gives is a parameter, and so is the JSON coding of a
  schema.
\<close>

section \<open>Types of a schema\<close>

text \<open>The \<open>type\<close> of a property is decoded to any value: a string, a list of values (as \<open>fmt.Sprint\<close> shows them), or
  something else.\<close>

datatype schema_type = Type_string string | Type_list "string list" | Type_other

record schema_items =
  si_Type :: string
  si_Ref :: string

record jsonSchemaProperty =
  sp_Type :: schema_type
  sp_Description :: string
  sp_Ref :: string
  sp_Items :: "schema_items option"

record jsonSchema =
  js_Properties :: "(string \<times> jsonSchemaProperty) list"
  js_Required :: "string list"

definition refName :: "string \<Rightarrow> string" where
  "refName ref = last (strings_Split (CHR ''/'') ref)"

text \<open>The type of a property that can be null is a list with \<open>null\<close> and the other type, which the second call shows.\<close>

function schemaType :: "jsonSchemaProperty \<Rightarrow> string" where
  "schemaType p =
     (if sp_Ref p \<noteq> [] then refName (sp_Ref p)
      else (case sp_Type p of
              Type_string t \<Rightarrow>
                (case sp_Items p of
                   Some items \<Rightarrow>
                     if t = ''array'' then (if si_Ref items \<noteq> [] then refName (si_Ref items) else si_Type items) @ ''[]'' else t
                 | None \<Rightarrow> t)
            | Type_list ts \<Rightarrow>
                (let real = filter (\<lambda>s. s \<noteq> ''null'') ts
                 in if length real = 1 then schemaType (p\<lparr>sp_Type := Type_string (real ! 0)\<rparr>)
                    else strings_Join '' | '' real)
            | Type_other \<Rightarrow> ''object''))"
  by pat_completeness auto
termination
  by (relation "measure (\<lambda>p. case sp_Type p of Type_list _ \<Rightarrow> 1 | _ \<Rightarrow> 0)") simp_all

declare schemaType.simps [simp del]

section \<open>The text\<close>

definition text_line :: "string \<Rightarrow> string" where
  "text_line s = s @ [CHR 0x0A]"

definition property_row :: "jsonSchema \<Rightarrow> string \<times> jsonSchemaProperty \<Rightarrow> string" where
  "property_row s = (\<lambda>(name, prop).
     text_line (''| `'' @ name @ ''` | '' @ schemaType prop @ '' | '' @
       (if name \<in> set (js_Required s) then ''yes'' else []) @ '' | '' @ sp_Description prop @ '' |''))"

text \<open>A schema that cannot be coded, or has no properties, has no table.\<close>

definition writeSchemaTable :: "('s \<Rightarrow> jsonSchema result) \<Rightarrow> string \<Rightarrow> 's \<Rightarrow> string" where
  "writeSchemaTable decode label schema =
     (case decode schema of
        Inl _ \<Rightarrow> []
      | Inr s \<Rightarrow>
          if js_Properties s = [] then []
          else text_line (''### '' @ label @ '' parameters'') @ text_line [] @
               text_line ''| Parameter | Type | Required | Description |'' @
               text_line ''|-----------|------|----------|-------------|'' @
               concat (map (property_row s) (sort_key fst (js_Properties s))) @ text_line [])"

record 's doc_tool =
  dt_Name :: string
  dt_Description :: string
  dt_InputSchema :: "'s option"
  dt_OutputSchema :: "'s option"

definition tool_text :: "('s \<Rightarrow> jsonSchema result) \<Rightarrow> 's doc_tool \<Rightarrow> string" where
  "tool_text decode t =
     text_line (''## '' @ dt_Name t) @ text_line [] @ text_line (strings_TrimSpace (dt_Description t)) @ text_line [] @
     (case dt_InputSchema t of Some s \<Rightarrow> writeSchemaTable decode ''Input'' s | None \<Rightarrow> []) @
     (case dt_OutputSchema t of Some s \<Rightarrow> writeSchemaTable decode ''Output'' s | None \<Rightarrow> [])"

text \<open>What \<open>run\<close> writes: the tools in the order of their names, first as a list and then one section each.\<close>

definition docgen_text :: "('s \<Rightarrow> jsonSchema result) \<Rightarrow> 's doc_tool list \<Rightarrow> string" where
  "docgen_text decode tools =
     (let tools = sort_key dt_Name tools
      in text_line ''Korrel8r provides an [MCP](https://modelcontextprotocol.io/) server with the following tools.'' @ text_line [] @
         concat (map (\<lambda>t. text_line (''- ['' @ dt_Name t @ ''](#'' @ dt_Name t @ '')'')) tools) @ text_line [] @
         concat (map (tool_text decode) tools))"

section \<open>What the text shows\<close>

text \<open>A type that can be null is shown as the type.\<close>

lemma schemaType_nullable:
  assumes "t \<noteq> ''null''"
  shows "schemaType (p\<lparr>sp_Type := Type_list [''null'', t]\<rparr>) = schemaType (p\<lparr>sp_Type := Type_string t\<rparr>)"
  using assms by (subst schemaType.simps) (simp add: schemaType.simps [of "p\<lparr>sp_Type := Type_string t\<rparr>"])

lemma refName_last: "CHR ''/'' \<notin> set name \<Longrightarrow> refName (path @ CHR ''/'' # name) = name"
  by (simp add: refName_def strings_Split_append strings_Split_no_sep)

text \<open>The text does not depend on the order in which the server lists the tools, whose names are distinct.\<close>

lemma docgen_text_order:
  assumes "mset tools = mset tools'" and "distinct (map dt_Name tools)"
  shows "docgen_text decode tools = docgen_text decode tools'"
proof -
  have inj: "inj_on dt_Name (set tools)" using assms(2) by (simp add: distinct_map)
  have d: "distinct (map dt_Name tools')"
    using assms arg_cong [OF assms(1), of "image_mset dt_Name"] by (metis mset_eq_imp_distinct_iff mset_map)
  have "sort_key dt_Name tools = sort_key dt_Name tools'"
    using inj assms(2) d mset_eq_setD [OF assms(1)]
    by (intro map_sorted_distinct_set_unique [of dt_Name]) (auto simp: distinct_map)
  then show ?thesis by (simp add: docgen_text_def)
qed

end
