(* ===== verification/Support.thy ===== *)
theory Support
  imports Dynamic Url
begin

text \<open>
  Small packages around the core: \<open>internal/pkg/tlsprofile\<close> (TLS settings by Kubernetes and OpenSSL names),
  \<open>internal/pkg/enumflag\<close>, \<open>pkg/otel/value.go\<close> (attribute values of spans) and the REST helper of
  \<open>pkg/korrel8r/impl/store.go\<close>.

  Parameters: the cipher suites of \<open>crypto/tls\<close> and the HTTP client.
\<close>

section \<open>tlsprofile\<close>

definition tlsVersions :: "(string \<times> nat) list" where
  "tlsVersions = [(''VersionTLS10'', 0x0301), (''VersionTLS11'', 0x0302), (''VersionTLS12'', 0x0303), (''VersionTLS13'', 0x0304)]"

definition curvesByName :: "(string \<times> nat) list" where
  "curvesByName = [(''CurveP256'', 23), (''CurveP384'', 24), (''CurveP521'', 25), (''X25519'', 29),
     (''prime256v1'', 23), (''secp384r1'', 24), (''secp521r1'', 25)]"

definition openSSLCipherSuites :: "(string \<times> string) list" where
  "openSSLCipherSuites = [
     (''AES128-SHA'', ''TLS_RSA_WITH_AES_128_CBC_SHA''),
     (''AES256-SHA'', ''TLS_RSA_WITH_AES_256_CBC_SHA''),
     (''AES128-SHA256'', ''TLS_RSA_WITH_AES_128_CBC_SHA256''),
     (''AES128-GCM-SHA256'', ''TLS_RSA_WITH_AES_128_GCM_SHA256''),
     (''AES256-GCM-SHA384'', ''TLS_RSA_WITH_AES_256_GCM_SHA384''),
     (''DES-CBC3-SHA'', ''TLS_RSA_WITH_3DES_EDE_CBC_SHA''),
     (''RC4-SHA'', ''TLS_RSA_WITH_RC4_128_SHA''),
     (''ECDHE-RSA-AES128-SHA'', ''TLS_ECDHE_RSA_WITH_AES_128_CBC_SHA''),
     (''ECDHE-RSA-AES256-SHA'', ''TLS_ECDHE_RSA_WITH_AES_256_CBC_SHA''),
     (''ECDHE-RSA-AES128-SHA256'', ''TLS_ECDHE_RSA_WITH_AES_128_CBC_SHA256''),
     (''ECDHE-RSA-AES128-GCM-SHA256'', ''TLS_ECDHE_RSA_WITH_AES_128_GCM_SHA256''),
     (''ECDHE-RSA-AES256-GCM-SHA384'', ''TLS_ECDHE_RSA_WITH_AES_256_GCM_SHA384''),
     (''ECDHE-RSA-CHACHA20-POLY1305'', ''TLS_ECDHE_RSA_WITH_CHACHA20_POLY1305_SHA256''),
     (''ECDHE-RSA-DES-CBC3-SHA'', ''TLS_ECDHE_RSA_WITH_3DES_EDE_CBC_SHA''),
     (''ECDHE-RSA-RC4-SHA'', ''TLS_ECDHE_RSA_WITH_RC4_128_SHA''),
     (''ECDHE-ECDSA-AES128-SHA'', ''TLS_ECDHE_ECDSA_WITH_AES_128_CBC_SHA''),
     (''ECDHE-ECDSA-AES256-SHA'', ''TLS_ECDHE_ECDSA_WITH_AES_256_CBC_SHA''),
     (''ECDHE-ECDSA-AES128-SHA256'', ''TLS_ECDHE_ECDSA_WITH_AES_128_CBC_SHA256''),
     (''ECDHE-ECDSA-AES128-GCM-SHA256'', ''TLS_ECDHE_ECDSA_WITH_AES_128_GCM_SHA256''),
     (''ECDHE-ECDSA-AES256-GCM-SHA384'', ''TLS_ECDHE_ECDSA_WITH_AES_256_GCM_SHA384''),
     (''ECDHE-ECDSA-CHACHA20-POLY1305'', ''TLS_ECDHE_ECDSA_WITH_CHACHA20_POLY1305_SHA256''),
     (''ECDHE-ECDSA-RC4-SHA'', ''TLS_ECDHE_ECDSA_WITH_RC4_128_SHA'')]"

text \<open>\<open>init\<close>, with the secure and insecure suites of the library. The order in which the aliases are ranged over does not
  matter, as no alias is the name of another.\<close>

definition cipherSuitesByName :: "(string \<times> nat) list \<Rightarrow> (string \<times> nat) list \<Rightarrow> (string \<times> nat) list" where
  "cipherSuitesByName secure insecure =
     fold (\<lambda>(openSSL, iana) m. case map_of m iana of Some i \<Rightarrow> al_set openSSL i m | None \<Rightarrow> m) openSSLCipherSuites
       (fold (\<lambda>(name, i) m. al_set name i m) insecure (fold (\<lambda>(name, i) m. al_set name i m) secure []))"

definition ParseTLSVersion :: "string \<Rightarrow> nat result" where
  "ParseTLSVersion name =
     (case map_of tlsVersions name of
        None \<Rightarrow> Inl (ErrorString (''unknown TLS version '' @ strconv_Quote name @ '', valid values: '' @
                                  strings_Join '', '' (map fst tlsVersions)))
      | Some v \<Rightarrow> Inr v)"

definition ParseCurves :: "string list \<Rightarrow> nat list result" where
  "ParseCurves names =
     collect_results (\<lambda>name. case map_of curvesByName name of
        None \<Rightarrow> Inl (ErrorString (''unknown curve '' @ strconv_Quote name @ '', valid values: '' @
                                  strings_Join '', '' (map fst curvesByName)))
      | Some i \<Rightarrow> Inr i) names"

definition ParseCipherSuites :: "(string \<times> nat) list \<Rightarrow> string list \<Rightarrow> nat list result" where
  "ParseCipherSuites byName names =
     collect_results (\<lambda>name. case map_of byName name of
        None \<Rightarrow> Inl (ErrorString (''unknown cipher suite '' @ strconv_Quote name))
      | Some i \<Rightarrow> Inr i) names"

record tls_Config =
  tc_MinVersion :: nat
  tc_CipherSuites :: "nat list"
  tc_CurvePreferences :: "nat list"

definition NewTLSConfig :: "(string \<times> nat) list \<Rightarrow> string \<Rightarrow> string list \<Rightarrow> string list \<Rightarrow> tls_Config option result" where
  "NewTLSConfig byName minVersion cipherSuiteNames curveNames =
     (if minVersion = [] \<and> length cipherSuiteNames = 0 \<and> length curveNames = 0 then Inr None
      else (case (if minVersion \<noteq> [] then ParseTLSVersion minVersion else Inr 0) of
              Inl err \<Rightarrow> Inl err
            | Inr v \<Rightarrow>
                (case (if length cipherSuiteNames > 0 then ParseCipherSuites byName cipherSuiteNames else Inr []) of
                   Inl err \<Rightarrow> Inl err
                 | Inr suites \<Rightarrow>
                     (case (if length curveNames > 0 then ParseCurves curveNames else Inr []) of
                        Inl err \<Rightarrow> Inl err
                      | Inr curves \<Rightarrow>
                          Inr (Some \<lparr>tc_MinVersion = v, tc_CipherSuites = suites, tc_CurvePreferences = curves\<rparr>)))))"

section \<open>enumflag\<close>

record enum_Value =
  ev_Value :: string
  ev_Allowed :: "string list"

definition enum_String :: "enum_Value \<Rightarrow> string" where
  "enum_String v = ev_Value v"

definition show_list :: "string list \<Rightarrow> string" where
  "show_list xs = ''['' @ strings_Join '' '' xs @ '']''"

definition enum_Set :: "string \<Rightarrow> enum_Value \<Rightarrow> error option \<times> enum_Value" where
  "enum_Set x v =
     (if x \<notin> set (ev_Allowed v) then (Some (ErrorString (''expected one of: '' @ show_list (ev_Allowed v))), v)
      else (None, v\<lparr>ev_Value := x\<rparr>))"

definition enum_DocString :: "string \<Rightarrow> enum_Value \<Rightarrow> string" where
  "enum_DocString msg v = (if msg \<noteq> [] then msg @ '': '' else []) @ ''One of '' @ show_list (ev_Allowed v)"

definition enum_New :: "string \<Rightarrow> string list \<Rightarrow> enum_Value" where
  "enum_New value allowed = \<lparr>ev_Value = value, ev_Allowed = sort allowed\<rparr>"

section \<open>Attribute values\<close>

text \<open>\<open>AnyValue\<close> of OTLP and the Go values it becomes.\<close>

datatype any_value =
    AnyNil
  | AnyString string
  | AnyBool bool
  | AnyInt int
  | AnyDouble string
  | AnyArray "any_value list"
  | AnyKvlist "(string \<times> any_value option) list"
  | AnyBytes string

datatype otel_value =
    OtelNil
  | OtelString string
  | OtelBool bool
  | OtelInt int
  | OtelDouble string
  | OtelList "otel_value list"
  | OtelKeyValues "(string \<times> otel_value) list"
  | OtelBytes string

text \<open>The value of a pair is a pointer, nil when the message has none; \<open>ValueOf\<close> dereferences it.\<close>

fun ValueOf :: "any_value \<Rightarrow> otel_value go"
  and ValuesOf :: "any_value list \<Rightarrow> otel_value list go"
  and KeyValuesOf :: "(string \<times> any_value option) list \<Rightarrow> (string \<times> otel_value) list go" where
  "ValueOf AnyNil = Returns OtelNil"
| "ValueOf (AnyString s) = Returns (OtelString s)"
| "ValueOf (AnyBool b) = Returns (OtelBool b)"
| "ValueOf (AnyInt i) = Returns (OtelInt i)"
| "ValueOf (AnyDouble d) = Returns (OtelDouble d)"
| "ValueOf (AnyArray vs) = (case ValuesOf vs of Panics msg \<Rightarrow> Panics msg | Returns a \<Rightarrow> Returns (OtelList a))"
| "ValueOf (AnyKvlist kvs) = (case KeyValuesOf kvs of Panics msg \<Rightarrow> Panics msg | Returns a \<Rightarrow> Returns (OtelKeyValues a))"
| "ValueOf (AnyBytes b) = Returns (OtelBytes b)"
| "ValuesOf [] = Returns []"
| "ValuesOf (v # vs) =
     (case ValueOf v of
        Panics msg \<Rightarrow> Panics msg
      | Returns a \<Rightarrow> (case ValuesOf vs of Panics msg \<Rightarrow> Panics msg | Returns as \<Rightarrow> Returns (a # as)))"
| "KeyValuesOf [] = Returns []"
| "KeyValuesOf ((k, None) # kvs) = Panics ''nil pointer dereference''"
| "KeyValuesOf ((k, Some v) # kvs) =
     (case ValueOf v of
        Panics msg \<Rightarrow> Panics msg
      | Returns a \<Rightarrow> (case KeyValuesOf kvs of Panics msg \<Rightarrow> Panics msg | Returns as \<Rightarrow> Returns ((k, a) # as)))"

text \<open>\<open>UnmarshalJSON\<close>: the value is set also when decoding fails, from what was decoded.\<close>

definition Value_UnmarshalJSON :: "(string \<Rightarrow> any_value \<times> error option) \<Rightarrow> string \<Rightarrow> (otel_value \<times> error option) go" where
  "Value_UnmarshalJSON decode data =
     (let (av, err) = decode data in case ValueOf av of Panics msg \<Rightarrow> Panics msg | Returns v \<Rightarrow> Returns (v, err))"

definition Value_MarshalJSON :: "otel_value \<Rightarrow> string go" where
  "Value_MarshalJSON v = Panics ''not implemented''"

text \<open>A value that has every value of a key, and the OTLP value a Go value stands for.\<close>

fun keys_have_values :: "any_value \<Rightarrow> bool" where
  "keys_have_values (AnyArray vs) = (\<forall>v \<in> set vs. keys_have_values v)"
| "keys_have_values (AnyKvlist kvs) = (\<forall>(k, v) \<in> set kvs. case v of None \<Rightarrow> False | Some v \<Rightarrow> keys_have_values v)"
| "keys_have_values _ = True"

fun any_of :: "otel_value \<Rightarrow> any_value" where
  "any_of OtelNil = AnyNil"
| "any_of (OtelString s) = AnyString s"
| "any_of (OtelBool b) = AnyBool b"
| "any_of (OtelInt i) = AnyInt i"
| "any_of (OtelDouble d) = AnyDouble d"
| "any_of (OtelList vs) = AnyArray (map any_of vs)"
| "any_of (OtelKeyValues kvs) = AnyKvlist (map (\<lambda>(k, v). (k, Some (any_of v))) kvs)"
| "any_of (OtelBytes b) = AnyBytes b"

lemma ValueOf_cases:
  "(\<exists>a. ValueOf v = Returns a \<and> any_of a = v) \<or> (\<not> keys_have_values v \<and> ValueOf v = Panics ''nil pointer dereference'')"
  "(\<exists>as. ValuesOf vs = Returns as \<and> map any_of as = vs) \<or>
   (\<not> (\<forall>v \<in> set vs. keys_have_values v) \<and> ValuesOf vs = Panics ''nil pointer dereference'')"
  "(\<exists>as. KeyValuesOf kvs = Returns as \<and> map (\<lambda>(k, v). (k, Some (any_of v))) as = kvs) \<or>
   (\<not> keys_have_values (AnyKvlist kvs) \<and> KeyValuesOf kvs = Panics ''nil pointer dereference'')"
  by (induction v and vs and kvs rule: ValueOf_ValuesOf_KeyValuesOf.induct) auto

lemma any_of_keys: "keys_have_values (any_of a)"
  by (induction a rule: any_of.induct) auto

text \<open>An attribute value becomes a Go value that stands for it, unless some pair in it has no value: then
  \<open>ValueOf\<close> dereferences a nil pointer.\<close>

theorem ValueOf_spec:
  "if keys_have_values v then \<exists>a. ValueOf v = Returns a \<and> any_of a = v else ValueOf v = Panics ''nil pointer dereference''"
  using ValueOf_cases(1) [of v] any_of_keys by auto

section \<open>impl.Get\<close>

text \<open>\<open>Get\<close> decodes the body of a response with a status from 200 to 299. \<open>newRequest\<close> gives the error of a URL that does not
  parse, \<open>simplify\<close> shortens the URL in an error of the client.\<close>

definition impl_Get ::
  "(string \<Rightarrow> error option) \<Rightarrow> (string \<Rightarrow> (nat \<times> string \<times> string result) result) \<Rightarrow> (error \<Rightarrow> error) \<Rightarrow>
     (string \<Rightarrow> 'a result) \<Rightarrow> string \<Rightarrow> 'a result" where
  "impl_Get newRequest hc simplify decode u =
     (case newRequest u of
        Some err \<Rightarrow> Inl err
      | None \<Rightarrow>
          (case hc u of
             Inl err \<Rightarrow> Inl (simplify err)
           | Inr (StatusCode, Status, Body) \<Rightarrow>
               if StatusCode div 100 \<noteq> 2
               then (case Body of
                       Inr b \<Rightarrow> if length b > 0 then Inl (ErrorString (Status @ '': '' @ b)) else Inl (ErrorString Status)
                     | Inl _ \<Rightarrow> Inl (ErrorString Status))
               else (case Body of Inl err \<Rightarrow> Inl err | Inr b \<Rightarrow> decode b)))"

section \<open>Aliases of cipher suites\<close>

lemma alias_names:
  "set (map fst openSSLCipherSuites) \<inter> set (map snd openSSLCipherSuites) = {}" "distinct (map fst openSSLCipherSuites)"
  by (simp_all add: openSSLCipherSuites_def)

lemma fold_aliases:
  assumes "distinct (map fst as)" and "set (map fst as) \<inter> set (map snd as) = {}"
  shows "map_of (fold (\<lambda>(o', i) m. case map_of m i of Some v \<Rightarrow> al_set o' v m | None \<Rightarrow> m) as m) k =
    (case map_of as k of
       None \<Rightarrow> map_of m k
     | Some i \<Rightarrow> (case map_of m i of Some v \<Rightarrow> Some v | None \<Rightarrow> map_of m k))"
  using assms
proof (induction as arbitrary: m)
  case (Cons a as)
  obtain o' i where a: "a = (o', i)" by (cases a)
  let ?m = "case map_of m i of Some v \<Rightarrow> al_set o' v m | None \<Rightarrow> m"
  have m: "map_of ?m x = (if x = o' \<and> map_of m i \<noteq> None then map_of m i else map_of m x)" for x
    by (auto split: option.splits)
  have other: "map_of ?m j = map_of m j" if "(x, j) \<in> set as" for x j
  proof -
    have "j \<noteq> o'" using Cons.prems(2) a that by force
    then show ?thesis by (simp add: m)
  qed
  have fresh: "map_of as o' = None" using Cons.prems(1) a by (simp add: map_of_eq_None_iff)
  have "fst ` set as \<inter> snd ` set as = {}" using Cons.prems(2) by auto
  then have IH: "map_of (fold (\<lambda>(o', i) m. case map_of m i of Some v \<Rightarrow> al_set o' v m | None \<Rightarrow> m) as ?m) k =
    (case map_of as k of
       None \<Rightarrow> map_of ?m k
     | Some i \<Rightarrow> (case map_of ?m i of Some v \<Rightarrow> Some v | None \<Rightarrow> map_of ?m k))"
    using Cons by simp
  show ?case
  proof (cases "k = o'")
    case True
    with IH fresh m [of k] a show ?thesis by (auto split: option.splits)
  next
    case False
    then have k: "map_of ?m k = map_of m k" by (simp add: m)
    show ?thesis
    proof (cases "map_of as k")
      case None
      with IH k False a show ?thesis by simp
    next
      case (Some j)
      then have "map_of ?m j = map_of m j" by (rule other [OF map_of_SomeD])
      with IH k False a Some show ?thesis by (cases "map_of m j") simp_all
    qed
  qed
qed simp

text \<open>The OpenSSL name of a cipher suite is accepted exactly when the library has the suite, and stands for it; other names
  mean what the library says.\<close>

theorem cipherSuitesByName_spec:
  "map_of (cipherSuitesByName secure insecure) name =
     (let lib = fold (\<lambda>(n, i) m. al_set n i m) (secure @ insecure) []
      in case map_of openSSLCipherSuites name of
           None \<Rightarrow> map_of lib name
         | Some iana \<Rightarrow> (case map_of lib iana of Some i \<Rightarrow> Some i | None \<Rightarrow> map_of lib name))"
  using fold_aliases [of openSSLCipherSuites] alias_names unfolding cipherSuitesByName_def Let_def fold_append comp_apply by auto

end
