(* ===== verification/Command.thy ===== *)
theory Command
  imports Handlers Sessions Config QuickRules Mock Support
begin

text \<open>
  \<open>cmd/korrel8r\<close>: the command line. \<open>get.go\<close> (the start and the constraint from flags; objects, neighbours and goals),
  \<open>web.go\<close> (the listener and the sessions of the server), \<open>main.go\<close> (the engine and the exit code), \<open>printer.go\<close>,
  \<open>rules.go\<close>, \<open>stores.go\<close>, \<open>template.go\<close>.

  The code of this package panics with an error to end the command: \<open>PanicError\<close>. A panic with another value, as of
  \<open>GetDomains\<close>, is \<open>PanicValue\<close>. Parameters: parsing of flags, the clock, encoders and regular expressions, and those of
  the components that are called.
\<close>

section \<open>Panics and exits\<close>

datatype 'a cli = Done 'a | PanicError error | PanicValue string

definition cli_bind :: "'a cli \<Rightarrow> ('a \<Rightarrow> 'b cli) \<Rightarrow> 'b cli" where
  "cli_bind x f = (case x of Done v \<Rightarrow> f v | PanicError err \<Rightarrow> PanicError err | PanicValue msg \<Rightarrow> PanicValue msg)"

text \<open>A runtime error of Go is an error.\<close>

definition cli_go :: "'a go \<Rightarrow> 'a cli" where
  "cli_go x = (case x of Returns v \<Rightarrow> Done v | Panics msg \<Rightarrow> PanicError (ErrorString msg))"

definition must_ErrorIf :: "error option \<Rightarrow> string \<Rightarrow> error option" where
  "must_ErrorIf err msg = (if err \<noteq> None then Some (ErrorString msg) else None)"

definition must_Must :: "error option \<Rightarrow> string option \<Rightarrow> unit cli" where
  "must_Must err format =
     (case (case format of Some msg \<Rightarrow> must_ErrorIf err msg | None \<Rightarrow> err) of
        Some err \<Rightarrow> PanicError err
      | None \<Rightarrow> Done ())"

definition must_Must1 :: "'a result \<Rightarrow> 'a cli" where
  "must_Must1 r = (case r of Inl err \<Rightarrow> PanicError err | Inr v \<Rightarrow> Done v)"

text \<open>What \<open>main\<close> ends with: an exit code, with the error on the standard error output if there is one, or the panic
  again.\<close>

datatype 'a main_exit = Exit nat "error option" | Repanic "'a cli"

definition cli_main :: "bool \<Rightarrow> unit cli \<Rightarrow> unit main_exit" where
  "cli_main panicFlag command =
     (case command of
        Done _ \<Rightarrow> Exit 0 None
      | PanicError err \<Rightarrow> if panicFlag then Repanic command else Exit 1 (Some err)
      | PanicValue _ \<Rightarrow> Repanic command)"

definition getConfig :: "(string \<Rightarrow> string) \<Rightarrow> string" where
  "getConfig getenv =
     (let config = getenv ''KORREL8R_CONFIG'' in if config \<noteq> [] then config else ''/etc/korrel8r/korrel8r.yaml'')"

section \<open>The engine\<close>

record command_env =
  co_builder :: "go_object builder_env"
  co_All :: "domain list"
  co_unmarshal :: "string \<Rightarrow> ruleSpec result"
  co_quick :: quick_env
  co_qtpl :: "(string \<times> string) list"
  co_analyze :: "gomap \<Rightarrow> health option"
  co_Apply :: "go_object quickRule \<Rightarrow> go_object \<Rightarrow> query list result"
  co_ptr :: "go_object quickRule \<Rightarrow> nat"

definition compiled_rule :: "command_env \<Rightarrow> go_object quickRule \<Rightarrow> go_object rule" where
  "compiled_rule env r =
     \<lparr>r_ptr = co_ptr env r, r_Name = qr_name r, r_Start = qr_start r, r_Goal = qr_goal r, r_Apply = co_Apply env r\<rparr>"

definition compiled_status :: "compiledStatus \<Rightarrow> go_object status_rule" where
  "compiled_status s = \<lparr>sr_Name = ct_name s, sr_Start = ct_start s, sr_Apply = compiledStatus_Apply s\<rparr>"

text \<open>The calls of the chain in their order; \<open>GetDomains\<close> is called after \<open>Config\<close>. \<open>p\<close> is the address of the next rule.\<close>

definition newEngineWithConfigs :: "command_env \<Rightarrow> nat \<Rightarrow> Config list \<Rightarrow> go_object engine result cli" where
  "newEngineWithConfigs env p c =
     (let be = co_builder env;
          b = builder_Domains be (co_All env @ [mock_Domain ''mock'' []]) Build
      in cli_bind (cli_go (builder_Config be c b)) (\<lambda>b.
         case GetDomains b of
           Panics msg \<Rightarrow> PanicValue msg
         | Returns d \<Rightarrow>
             cli_bind (cli_go (quick_Rules (co_unmarshal env) (co_quick env) d (co_qtpl env))) (\<lambda>rs.
             let b = builder_Rules (map (compiled_rule env) rs) b;
                 b = builder_StatusRules (map compiled_status (StatusRules (co_analyze env) d)) b
             in cli_bind (cli_go (builder_Engine be p b)) (\<lambda>((e, err), _).
                Done (case err of Some err \<Rightarrow> Inl err | None \<Rightarrow> Inr e)))))"

definition newEngine :: "command_env \<Rightarrow> nat \<Rightarrow> Config list result \<Rightarrow> go_object engine cli" where
  "newEngine env p loaded =
     cli_bind (must_Must1 loaded) (\<lambda>c. cli_bind (newEngineWithConfigs env p c) must_Must1)"

section \<open>get.go\<close>

record get_flags =
  fl_class :: string
  fl_queries :: "string list"
  fl_objects :: "string list"
  fl_limit :: int
  fl_since :: duration
  fl_until :: duration
  fl_depth :: int
  fl_options :: GraphOptions

definition cli_constraint :: "time \<Rightarrow> get_flags \<Rightarrow> Constraint" where
  "cli_constraint now fl =
     \<lparr>c_Limit = (if fl_limit fl > 0 then Some (fl_limit fl) else None), c_QueryLimit = None,
      c_Start = (if fl_since fl > 0 then Some (now - fl_since fl) else None),
      c_End = (if fl_until fl > 0 then Some (now - fl_until fl) else None)\<rparr>"

fun cli_queries :: "string list \<Rightarrow> 'o engine \<Rightarrow> (query list \<times> 'o engine) cli" where
  "cli_queries [] e = Done ([], e)"
| "cli_queries (q # qs) e =
     (let (r, e) = engine_Query q e
      in cli_bind (must_Must1 r) (\<lambda>query.
           cli_bind (cli_queries qs e) (\<lambda>(queries, e). Done (query # queries, e))))"

definition cli_class :: "get_flags \<Rightarrow> 'o engine \<Rightarrow> (klass \<times> 'o engine) cli" where
  "cli_class fl e =
     (if fl_class fl \<noteq> [] then cli_bind (must_Must1 (engine_Class e (fl_class fl))) (\<lambda>c. Done (c, e))
      else (case fl_queries fl of
              q # _ \<Rightarrow> (let (r, e) = engine_Query q e in cli_bind (must_Must1 r) (\<lambda>q. Done (q_class q, e)))
            | [] \<Rightarrow> PanicError (ErrorString ''must provide a class or at least one query'')))"

definition cli_start ::
  "'o rest_env \<Rightarrow> time \<Rightarrow> get_flags \<Rightarrow> 'o engine \<Rightarrow> (('o Start \<times> Constraint) \<times> 'o engine) cli" where
  "cli_start env now fl e =
     cli_bind (cli_class fl e) (\<lambda>(c, e).
     cli_bind (cli_queries (fl_queries fl) e) (\<lambda>(queries, e).
     cli_bind (must_Must1 (collect_results (re_Unmarshal env c) (fl_objects fl))) (\<lambda>objects.
       Done ((\<lparr>st_Class = c, st_Objects = objects, st_Queries = queries\<rparr>, cli_constraint now fl), e))))"

section \<open>printer.go\<close>

text \<open>What is printed is a sequence of documents. A slice is nil or has a list; \<open>noNull\<close> replaces nil.\<close>

datatype output_type = Json | JsonPretty | NdJson | Yaml

datatype 'o document = DocSlice "'o list option" | DocObject 'o | DocGraph api_Graph

record 'o printer =
  pr_output :: output_type
  pr_appender :: "'o list option"
  pr_docs :: "'o document list"

fun noNull :: "'o document \<Rightarrow> 'o document" where
  "noNull (DocSlice None) = DocSlice (Some [])"
| "noNull v = v"

definition printer_Print :: "'o document \<Rightarrow> 'o printer \<Rightarrow> 'o printer" where
  "printer_Print v p = p\<lparr>pr_docs := pr_docs p @ [noNull v]\<rparr>"

definition appender_Append :: "'o list \<Rightarrow> 'o list option \<Rightarrow> 'o list option" where
  "appender_Append objects a = (if objects = [] then a else Some (ptr_Deref [] a @ objects))"

definition printer_Append :: "'o list \<Rightarrow> 'o printer \<Rightarrow> 'o printer" where
  "printer_Append objs p =
     (if pr_output p = NdJson then fold (\<lambda>x. printer_Print (DocObject x)) objs p
      else p\<lparr>pr_appender := appender_Append objs (pr_appender p)\<rparr>)"

definition printer_Close :: "'o printer \<Rightarrow> 'o printer" where
  "printer_Close p = (if pr_output p = NdJson then p else printer_Print (DocSlice (pr_appender p)) p)"

definition newPrinter :: "string \<Rightarrow> 'o printer cli" where
  "newPrinter flag =
     (let new = (\<lambda>out. \<lparr>pr_output = out, pr_appender = None, pr_docs = []\<rparr>)
      in if flag = ''json'' then Done (new Json)
         else if flag = ''json-pretty'' then Done (new JsonPretty)
         else if flag = ''ndjson'' then Done (new NdJson)
         else if flag = ''yaml'' then Done (new Yaml)
         else PanicError (ErrorString (''invalid output type: '' @ flag)))"

section \<open>Commands that search\<close>

text \<open>\<open>objects\<close>: the deferred \<open>Close\<close> prints what was appended also when \<open>Get\<close> fails.\<close>

definition objects_cmd ::
  "'o store_env list \<Rightarrow> time \<Rightarrow> string \<Rightarrow> get_flags \<Rightarrow> string \<Rightarrow> 'o engine \<Rightarrow> 'o document list \<times> unit cli" where
  "objects_cmd envs now output fl query e =
     (case engine_Query query e of
        (Inl err, e) \<Rightarrow> ([], PanicError err)
      | (Inr q, e) \<Rightarrow>
          (case newPrinter output of
             PanicError err \<Rightarrow> ([], PanicError err)
           | PanicValue msg \<Rightarrow> ([], PanicValue msg)
           | Done p \<Rightarrow>
               (case engine_Get envs now q (Some (cli_constraint now fl)) e of
                  Panics msg \<Rightarrow> (pr_docs (printer_Close p), PanicError (ErrorString msg))
                | Returns ((objects, err), _) \<Rightarrow>
                    (pr_docs (printer_Close (printer_Append objects p)), must_Must err None))))"

definition print_graph ::
  "('i, 'o, 'g) handler_env \<Rightarrow> string \<Rightarrow> get_flags \<Rightarrow> ('i, 'o, 'g) Graph option \<Rightarrow> 'o document list cli" where
  "print_graph env output fl g =
     cli_bind (newPrinter output) (\<lambda>p.
     cli_bind (cli_go (NewGraph (he_mg env) (he_rest env) (Some (fl_options fl)) g)) (\<lambda>gr.
       Done (pr_docs (printer_Print (DocGraph gr) p))))"

definition neighbors_cmd ::
  "('i, 'o, 'g) handler_env \<Rightarrow> string \<Rightarrow> get_flags \<Rightarrow> 'o engine \<Rightarrow> 'o document list cli" where
  "neighbors_cmd env output fl e =
     cli_bind (cli_start (he_rest env) (he_now env) fl e) (\<lambda>((start, constraint), e).
       let (g, err) = he_Neighbors env e start (Some constraint) (fl_depth fl)
       in cli_bind (must_Must err None) (\<lambda>_. print_graph env output fl g))"

definition goals_cmd ::
  "('i, 'o, 'g) handler_env \<Rightarrow> string \<Rightarrow> get_flags \<Rightarrow> string list \<Rightarrow> 'o engine \<Rightarrow> 'o document list cli" where
  "goals_cmd env output fl args e =
     cli_bind (must_Must1 (collect_results (engine_Class e) args)) (\<lambda>goals.
     cli_bind (cli_start (he_rest env) (he_now env) fl e) (\<lambda>((start, constraint), e).
     cli_bind (must_Must1 (he_Goals env e start (Some constraint) goals)) (\<lambda>g.
       print_graph env output fl (Some g))))"

section \<open>web.go and mcp.go\<close>

record web_flags =
  wf_http :: string
  wf_https :: string
  wf_cert :: string
  wf_key :: string
  wf_tlsMinVersion :: string
  wf_tlsCipherSuites :: "string list"
  wf_tlsCurves :: "string list"

record http_server =
  hs_Addr :: string
  hs_TLSConfig :: "tls_Config option"
  hs_secure :: bool

text \<open>The checks of the flags and the server they make; \<open>hs_secure\<close> is whether it listens with \<open>ListenAndServeTLS\<close>.\<close>

definition web_server :: "(string \<times> nat) list \<Rightarrow> web_flags \<Rightarrow> http_server cli" where
  "web_server byName f =
     (let http = (if wf_http f = [] \<and> wf_https f = [] then '':8080'' else wf_http f);
          https = wf_https f
      in cli_bind
           (if http \<noteq> [] \<and> https \<noteq> [] then PanicError (ErrorString ''only one of --http or --https may be present'')
            else if http \<noteq> []
            then if wf_cert f \<noteq> [] \<or> wf_key f \<noteq> [] then PanicError (ErrorString ''--cert and --key not allowed with --http'')
                 else Done (http, None)
            else if wf_cert f = [] \<or> wf_key f = [] then PanicError (ErrorString ''--cert and --key are required for https'')
            else cli_bind (must_Must1 (NewTLSConfig byName (wf_tlsMinVersion f) (wf_tlsCipherSuites f) (wf_tlsCurves f)))
                   (\<lambda>c. Done (https, c)))
           (\<lambda>(addr, tls).
             if http \<noteq> [] \<and> (length (wf_tlsCipherSuites f) > 0 \<or> wf_tlsMinVersion f \<noteq> [] \<or> length (wf_tlsCurves f) > 0)
             then PanicError (ErrorString
               ''--tls-min-version, --tls-cipher-suites, and --tls-curves are not allowed with --http'')
             else Done \<lparr>hs_Addr = addr, hs_TLSConfig = tls, hs_secure = (http = [])\<rparr>))"

text \<open>The sessions: one that all requests share, or a pool whose factory makes an engine for each user.\<close>

datatype ('e, 'p) session_manager = SingleManager 'e | PoolManager 'p

definition web_sessions ::
  "(Config list \<Rightarrow> 'o engine result cli) \<Rightarrow> error option \<Rightarrow> bool \<Rightarrow> Config list result \<Rightarrow>
     ('o engine, 'o engine poolManager \<times> (unit \<Rightarrow> 'o engine result cli)) session_manager cli" where
  "web_sessions new tokenReview unsafeSharedSession loaded =
     cli_bind (must_Must1 loaded) (\<lambda>configs.
       let tuning = (case configs of [] \<Rightarrow> None | c # _ \<Rightarrow> cf_Tuning c);
           timeout = (case tuning of None \<Rightarrow> 0 | Some t \<Rightarrow> tn_SessionTimeout t);
           unsafe = (unsafeSharedSession \<or> (case tuning of None \<Rightarrow> False | Some t \<Rightarrow> tn_UnsafeSharedSession t))
       in if unsafe then cli_bind (new configs) (\<lambda>r. cli_bind (must_Must1 r) (\<lambda>e. Done (SingleManager e)))
          else (case tokenReview of
                  Some err \<Rightarrow>
                    PanicError (ErrorWrap ''authentication unavailable: '' err
                      ([CHR 0x0A] @ ''Use the --unsafe-shared-session flag if you want an unauthenticated server''))
                | None \<Rightarrow> Done (PoolManager (NewPool timeout, \<lambda>_. new configs))))"

text \<open>The command \<open>mcp\<close> has one user.\<close>

definition mcp_sessions ::
  "(Config list \<Rightarrow> 'o engine result cli) \<Rightarrow> Config list result \<Rightarrow>
     ('o engine, 'o engine poolManager \<times> (unit \<Rightarrow> 'o engine result cli)) session_manager cli" where
  "mcp_sessions new loaded =
     cli_bind (must_Must1 loaded) (\<lambda>configs.
     cli_bind (new configs) (\<lambda>r. cli_bind (must_Must1 r) (\<lambda>e. Done (SingleManager e))))"

section \<open>Commands that list\<close>

record rules_flags =
  rf_start :: string
  rf_goal :: string
  rf_name :: string
  rf_long :: bool

text \<open>\<open>compile\<close> is the test of a name by a regular expression.\<close>

definition flag_class :: "'o engine \<Rightarrow> string \<Rightarrow> klass option cli" where
  "flag_class e s = (if s \<noteq> [] then cli_bind (must_Must1 (engine_Class e s)) (\<lambda>c. Done (Some c)) else Done None)"

definition rules_test ::
  "(string \<Rightarrow> (string \<Rightarrow> bool) result) \<Rightarrow> rules_flags \<Rightarrow> 'o engine \<Rightarrow> ('o rule \<Rightarrow> bool) cli" where
  "rules_test compile f e =
     cli_bind (flag_class e (rf_start f)) (\<lambda>start.
     cli_bind (flag_class e (rf_goal f)) (\<lambda>goal.
     cli_bind (must_Must1 (compile (rf_name f))) (\<lambda>matches.
       Done (\<lambda>r. (case start of None \<Rightarrow> True | Some c \<Rightarrow> c \<in> set (r_Start r)) \<and>
                 (case goal of None \<Rightarrow> True | Some c \<Rightarrow> c \<in> set (r_Goal r)) \<and> matches (r_Name r)))))"

definition rules_graph ::
  "'g multigraph \<Rightarrow> (klass \<Rightarrow> ('o \<Rightarrow> 'i) option) \<Rightarrow> (string \<Rightarrow> (string \<Rightarrow> bool) result) \<Rightarrow> rules_flags \<Rightarrow> 'o engine \<Rightarrow>
     ('i, 'o, 'g) Graph cli" where
  "rules_graph mg ider compile f e =
     cli_bind (rules_test compile f e) (\<lambda>test.
       Done (graph_Select mg ider (\<lambda>l. test (l_Rule l)) (engine_Graph mg e)))"

definition rules_summarize :: "bool \<Rightarrow> klass list \<Rightarrow> string" where
  "rules_summarize long cs =
     (if length cs > 1 \<and> \<not> long then ''['' @ Class_String (hd cs) @ '', ...]'' else show_list (map Class_String cs))"

definition rules_text :: "(string \<Rightarrow> (string \<Rightarrow> bool) result) \<Rightarrow> rules_flags \<Rightarrow> 'o engine \<Rightarrow> string list cli" where
  "rules_text compile f e =
     cli_bind (rules_test compile f e) (\<lambda>test.
       Done (map (\<lambda>r. r_Name r @ '': '' @ rules_summarize (rf_long f) (r_Start r) @ '' -> '' @
                    rules_summarize (rf_long f) (r_Goal r))
              (filter test (engine_Rules e))))"

definition stores_domains :: "string list \<Rightarrow> 'o engine \<Rightarrow> domain list cli" where
  "stores_domains args e =
     cli_bind (must_Must1 (collect_results (engine_Domain e) args)) (\<lambda>ds.
       Done (if length ds = 0 then engine_Domains e else ds))"

fun stores_map :: "domain list \<Rightarrow> 'o engine \<Rightarrow> (string \<times> config_Store option list) list \<Rightarrow>
     (string \<times> config_Store option list) list cli" where
  "stores_map [] e m = Done m"
| "stores_map (d # ds) e m =
     cli_bind (cli_go (StoreConfigsFor (dom_Name d) e)) (\<lambda>configs. stores_map ds e (al_set (dom_Name d) configs m))"

definition stores_cmd :: "string list \<Rightarrow> 'o engine \<Rightarrow> (string \<times> config_Store option list) list cli" where
  "stores_cmd args e = cli_bind (stores_domains args e) (\<lambda>ds. stores_map ds e [])"

text \<open>\<open>internal/pkg/text\<close>: what the commands \<open>list\<close> and \<open>describe\<close> write; the columns of \<open>ListDomains\<close> are left to the
  tab writer.\<close>

definition text_ListDomains :: "(string \<Rightarrow> string) \<Rightarrow> 'o engine \<Rightarrow> (string \<times> string) list" where
  "text_ListDomains description e = map (\<lambda>d. (dom_Name d, text_Summary (description (dom_Name d)))) (engine_Domains e)"

definition text_ListClasses :: "domain \<Rightarrow> string" where
  "text_ListClasses d = concat (map (\<lambda>c. k_name c @ [CHR 0x0A]) (dom_Classes d))"

definition text_DescribeDomain :: "(string \<Rightarrow> string) \<Rightarrow> domain \<Rightarrow> string" where
  "text_DescribeDomain description d =
     [CHR 0x0A] @ ''## '' @ dom_Name d @ [CHR 0x0A, CHR 0x0A] @ description (dom_Name d) @ [CHR 0x0A]"

definition text_DescribeDomains :: "(string \<Rightarrow> string) \<Rightarrow> 'o engine \<Rightarrow> string" where
  "text_DescribeDomains description e = concat (map (text_DescribeDomain description) (engine_Domains e))"

datatype listing = Listed_domains "(string \<times> string) list" | Listed_text string

text \<open>At most one argument is allowed.\<close>

definition list_cmd :: "(string \<Rightarrow> string) \<Rightarrow> string list \<Rightarrow> 'o engine \<Rightarrow> listing cli" where
  "list_cmd description args e =
     (case args of
        [] \<Rightarrow> Done (Listed_domains (text_ListDomains description e))
      | [a] \<Rightarrow> cli_bind (must_Must1 (engine_Domain e a)) (\<lambda>d. Done (Listed_text (text_ListClasses d)))
      | _ \<Rightarrow> Done (Listed_text []))"

definition describe_cmd :: "(string \<Rightarrow> string) \<Rightarrow> string list \<Rightarrow> 'o engine \<Rightarrow> string cli" where
  "describe_cmd description args e =
     (case args of
        [] \<Rightarrow> Done (text_DescribeDomains description e)
      | [a] \<Rightarrow> cli_bind (must_Must1 (engine_Domain e a)) (\<lambda>d. Done (text_DescribeDomain description d))
      | _ \<Rightarrow> Done [])"

text \<open>The template is the flag or the file, standard input for \<open>-\<close>.\<close>

definition template_source :: "(string option \<Rightarrow> string result) \<Rightarrow> string \<Rightarrow> string \<Rightarrow> string cli" where
  "template_source read_all templateString templateFile =
     (if templateString = []
      then must_Must1 (read_all (if templateFile = [] \<or> templateFile = ''-'' then None else Some templateFile))
      else Done templateString)"

section \<open>The start of the command line and of the API\<close>

lemma cli_bind_Done [simp]: "cli_bind (Done v) f = f v" "cli_bind (PanicError err) f = PanicError err"
  "cli_bind (PanicValue msg) f = PanicValue msg"
  by (simp_all add: cli_bind_def)

lemma cli_bind_Done_iff: "cli_bind x f = Done r \<longleftrightarrow> (\<exists>v. x = Done v \<and> f v = Done r)"
  by (cases x) simp_all

lemma must_Done_iff [simp]: "must_Must1 r = Done v \<longleftrightarrow> r = Inr v"
  by (cases r) (simp_all add: must_Must1_def)

lemma must_Must1_simps [simp]: "must_Must1 (Inr v) = Done v" "must_Must1 (Inl err) = PanicError err"
  by (simp_all add: must_Must1_def)

text \<open>A query that has been parsed is found again.\<close>

lemma engine_Query_again:
  assumes "engine_Query q e = (Inr x, e1)"
  shows "engine_Query q e1 = (Inr x, e1)"
proof -
  obtain ds where ds: "Domains_Query q (en_domains e) = (Inr x, ds)" "e1 = e\<lparr>en_domains := ds\<rparr>"
    using assms by (auto simp: engine_Query_def split: prod.splits)
  then show ?thesis
    using Domains_Query_stores [OF ds(1)] by (simp add: engine_Query_def Domains_Query_def Domains_rQuery_def)
qed

lemma start_queries_cli:
  "start_queries (Some c) qs e = (Inr (k, queries), e') \<longleftrightarrow>
     k = Some c \<and> cli_queries qs e = Done (queries, e') \<and> (\<forall>q \<in> set queries. q_class q = c)"
proof (induction qs arbitrary: e queries)
  case (Cons q qs)
  obtain r e1 where r: "engine_Query q e = (r, e1)" by fastforce
  show ?case
  proof (cases r)
    case (Inr x)
    obtain s e2 where s: "start_queries (Some c) qs e1 = (s, e2)" by fastforce
    have "cli_queries (q # qs) e = Done (queries, e') \<longleftrightarrow> (\<exists>rest. queries = x # rest \<and> cli_queries qs e1 = Done (rest, e'))"
      using r Inr by (auto simp: cli_bind_Done_iff)
    moreover have "start_queries (Some c) (q # qs) e = (Inr (k, queries), e') \<longleftrightarrow>
      q_class x = c \<and> (\<exists>rest. queries = x # rest \<and> start_queries (Some c) qs e1 = (Inr (k, rest), e'))"
      using r Inr s by (auto simp: Let_def split: sum.splits)
    ultimately show ?thesis using Cons by auto
  qed (use r in simp)
qed auto

lemma start_queries_first:
  "engine_Query q e = (Inr x, e1) \<Longrightarrow>
     start_queries None (q # qs) e = start_queries (Some (q_class x)) (q # qs) e1"
  by (simp add: engine_Query_again)

lemma start_first_fails:
  "engine_Query q e = (Inl err, e1) \<Longrightarrow> start_queries None (q # qs) e = (Inl err, e1)"
  by simp

lemma TraverseStart_Done_iff:
  assumes cls: "start_class e (fl_class fl) = Inr cls"
    and same: "start_queries cls (fl_queries fl) e = start_queries (Some c) (fl_queries fl) found"
  shows "(\<exists>k. TraverseStart env
         \<lparr>at_Class = fl_class fl, at_Constraint = constraint, at_Objects = fl_objects fl, at_Queries = fl_queries fl\<rparr> e =
       (Inr (st, k), e')) \<longleftrightarrow>
     (\<exists>queries objects. start_queries (Some c) (fl_queries fl) found = (Inr (Some c, queries), e') \<and>
        collect_results (re_Unmarshal env c) (fl_objects fl) = Inr objects \<and>
        st = \<lparr>st_Class = c, st_Objects = objects, st_Queries = queries\<rparr>)"
proof -
  obtain s e2 where s: "start_queries (Some c) (fl_queries fl) found = (s, e2)" by fastforce
  show ?thesis
  proof (cases s)
    case (Inr r)
    then obtain queries where r: "s = Inr (Some c, queries)" using s by (cases r) (simp add: start_queries_cli)
    show ?thesis
      by (cases "collect_results (re_Unmarshal env c) (fl_objects fl)")
        (auto simp: TraverseStart_def cls same s r)
  qed (simp add: TraverseStart_def cls same s)
qed

lemma cli_start_Done_iff:
  assumes "cli_class fl e = Done (c, found)"
  shows "cli_start env now fl e = Done ((st, cli_constraint now fl), e') \<longleftrightarrow>
     (\<exists>queries objects. cli_queries (fl_queries fl) found = Done (queries, e') \<and>
        collect_results (re_Unmarshal env c) (fl_objects fl) = Inr objects \<and>
        st = \<lparr>st_Class = c, st_Objects = objects, st_Queries = queries\<rparr>)"
  using assms by (auto simp: cli_start_def cli_bind_Done_iff)

lemma cli_start_same_class:
  assumes "start_class e (fl_class fl) = Inr cls" "cli_class fl e = Done (c, found)"
    and "start_queries cls (fl_queries fl) e = start_queries (Some c) (fl_queries fl) found"
  shows "(\<exists>k. TraverseStart env
         \<lparr>at_Class = fl_class fl, at_Constraint = constraint, at_Objects = fl_objects fl, at_Queries = fl_queries fl\<rparr> e =
       (Inr (st, k), e')) \<longleftrightarrow>
     cli_start env now fl e = Done ((st, cli_constraint now fl), e') \<and> list_all (\<lambda>q. q_class q = st_Class st) (st_Queries st)"
  unfolding TraverseStart_Done_iff [OF assms(1,3)] cli_start_Done_iff [OF assms(2)]
  by (auto simp: start_queries_cli list_all_iff)

text \<open>C27: The command line and the REST API start a search in the same way: from the same class, queries and objects the API
  makes a start exactly when the command line makes this start and all its queries are of its class. The command
  line itself does not check the classes of the queries.\<close>

theorem cli_start_TraverseStart:
  "(\<exists>k. TraverseStart env
         \<lparr>at_Class = fl_class fl, at_Constraint = constraint, at_Objects = fl_objects fl, at_Queries = fl_queries fl\<rparr> e =
       (Inr (st, k), e')) \<longleftrightarrow>
   cli_start env now fl e = Done ((st, cli_constraint now fl), e') \<and> list_all (\<lambda>q. q_class q = st_Class st) (st_Queries st)"
proof (cases "fl_class fl = []")
  case named: False
  show ?thesis
  proof (cases "engine_Class e (fl_class fl)")
    case (Inl err)
    then show ?thesis using named by (simp add: TraverseStart_def start_class_def cli_start_def cli_class_def)
  next
    case (Inr c)
    then show ?thesis using named by (intro cli_start_same_class [where cls = "Some c" and found = e]) (simp_all add: start_class_def cli_class_def)
  qed
next
  case unnamed: True
  show ?thesis
  proof (cases "fl_queries fl")
    case Nil
    then show ?thesis using unnamed by (simp add: TraverseStart_def start_class_def cli_start_def cli_class_def)
  next
    case (Cons q qs)
    obtain r e1 where r: "engine_Query q e = (r, e1)" by fastforce
    show ?thesis
    proof (cases r)
      case (Inl err)
      then show ?thesis
        using unnamed Cons r by (simp add: TraverseStart_def start_class_def cli_start_def cli_class_def)
    next
      case (Inr x)
      then show ?thesis
        using unnamed Cons r start_queries_first [OF r [unfolded Inr], of qs]
        by (intro cli_start_same_class [where cls = None and c = "q_class x"]) (simp_all add: start_class_def cli_class_def del: start_queries.simps)
    qed
  qed
qed

end
