(* ===== verification/Server.thy ===== *)
theory Server
  imports Command Assembly RuleLines
begin

text \<open>
  What the commands of \<open>cmd/korrel8r\<close> give: the engine of \<open>newEngineWithConfigs\<close> has the domains and the compiled
  rules, and making it does not panic; the web server listens as its flags say and shares a session between users only
  when it was told to.
\<close>

section \<open>Deferred rules\<close>

definition applicable :: "'o rule \<Rightarrow> bool" where
  "applicable r \<longleftrightarrow> r_Start r \<noteq> [] \<and> r_Goal r \<noteq> []"

definition deferred_ok :: "'o deferred \<Rightarrow> bool" where
  "deferred_ok f \<longleftrightarrow> (case f of Add_rules rs \<Rightarrow> list_all applicable rs | _ \<Rightarrow> True)"

text \<open>The domains and rules that stay.\<close>

definition grows :: "'o Builder \<Rightarrow> 'o Builder \<Rightarrow> bool" where
  "grows b b' \<longleftrightarrow>
     (\<forall>n. Domains_Get (en_domains (bu_e b)) n \<noteq> None \<longrightarrow> Domains_Get (en_domains (bu_e b')) n \<noteq> None) \<and>
     set (en_rules (bu_e b)) \<subseteq> set (en_rules (bu_e b'))"

lemma grows_refl: "grows b b"
  by (simp add: grows_def)

lemma grows_same: "bu_e b = bu_e b' \<Longrightarrow> grows b b'"
  by (simp add: grows_def)

lemma grows_trans: "grows a b \<Longrightarrow> grows b c \<Longrightarrow> grows a c"
  unfolding grows_def by blast

lemma builder_Domains_rules: "en_rules (bu_e (builder_Domains env ds b)) = en_rules (bu_e b)"
  by (induction env ds b rule: builder_Domains.induct) (auto simp: Let_def split: option.splits)

lemma grows_Domains: "grows b (builder_Domains env ds b)"
  unfolding grows_def builder_Domains_rules by (intro conjI allI impI builder_Domains_registers subset_refl)

text \<open>Adding rules that have a start and a goal returns; without an error all of them are added.\<close>

lemma builder_rules_returns:
  "list_all applicable rs \<Longrightarrow> \<exists>b'. builder_rules env rs b = Returns b' \<and> grows b b' \<and>
     (bu_err b' = None \<longrightarrow> set rs \<subseteq> set (en_rules (bu_e b'))) \<and> (bu_err b \<noteq> None \<longrightarrow> bu_err b' \<noteq> None)"
proof (induction env rs b rule: builder_rules.induct)
  case (2 env r rs b)
  show ?case
  proof (cases "bu_err b \<noteq> None \<or> map_of (en_rulesByName (bu_e b)) (r_Name r) \<noteq> None")
    case True
    then show ?thesis by (auto simp: grows_def)
  next
    case False
    from 2(2) obtain s ss g gs where sg: "r_Start r = s # ss" "r_Goal r = g # gs"
      by (auto simp: applicable_def neq_Nil_conv)
    let ?d = "builder_Domains env [be_domain env s, be_domain env g] b"
    let ?b = "?d\<lparr>bu_e := (bu_e ?d)\<lparr>en_rulesByName := al_set (r_Name r) r (en_rulesByName (bu_e ?d)),
        en_rules := en_rules (bu_e ?d) @ [r]\<rparr>\<rparr>"
    have "\<exists>b'. builder_rules env rs ?b = Returns b' \<and> grows ?b b' \<and>
        (bu_err b' = None \<longrightarrow> set rs \<subseteq> set (en_rules (bu_e b'))) \<and> (bu_err ?b \<noteq> None \<longrightarrow> bu_err b' \<noteq> None)"
      using 2 False sg by (simp add: Let_def del: builder_Domains.simps)
    then obtain b' where b': "builder_rules env rs ?b = Returns b'" "grows ?b b'"
      "bu_err b' = None \<longrightarrow> set rs \<subseteq> set (en_rules (bu_e b'))" by (elim exE conjE, intro that)
    have step: "grows b ?b" using grows_Domains [of b env "[be_domain env s, be_domain env g]"] by (auto simp: grows_def)
    have "r \<in> set (en_rules (bu_e b'))" using b'(2) by (simp add: grows_def)
    with b' False sg grows_trans [OF step b'(2)] show ?thesis by (simp add: Let_def del: builder_Domains.simps)
  qed
qed (simp add: grows_def)

lemma configRule_returns:
  "\<exists>b'. configRule env p r b = Returns b' \<and> grows b b' \<and> (bu_err b \<noteq> None \<longrightarrow> bu_err b' \<noteq> None)"
proof (cases "bu_err b")
  case None
  obtain start b1 where s: "builder_classes (cr_Name r) (cr_Start r) b = (start, b1)" by fastforce
  obtain goal b2 where g: "builder_classes (cr_Name r) (cr_Goal r) b1 = (goal, b2)" by fastforce
  have e: "bu_e b2 = bu_e b" using builder_classes_e s g by (metis snd_conv)
  show ?thesis
  proof (cases "start = [] \<or> goal = []")
    case True
    then show ?thesis using None s g e by (auto simp: configRule_def grows_def)
  next
    case False
    show ?thesis
    proof (cases "NewTemplateRule start goal (cr_Name r) (be_parse_rule env (cr_Name r)) (cr_Query r)")
      case (Inl err)
      then show ?thesis using None s g e False by (simp add: configRule_def grows_def)
    next
      case (Inr tr)
      then have "applicable (rule_of env p tr)"
        using False by (auto simp: NewTemplateRule_def applicable_def rule_of_def split: sum.splits)
      then obtain b' where "builder_rules env [rule_of env p tr] (b2\<lparr>bu_err := None\<rparr>) = Returns b'"
        "grows (b2\<lparr>bu_err := None\<rparr>) b'"
        using builder_rules_returns [of "[rule_of env p tr]" env "b2\<lparr>bu_err := None\<rparr>"] by auto
      then show ?thesis
        using None s g e False Inr by (simp add: configRule_def grows_def del: builder_rules.simps)
    qed
  qed
qed (simp add: configRule_def grows_def)

lemma add_status_same: "en_rules (bu_e (add_status r c b)) = en_rules (bu_e b)"
  "en_domains (bu_e (add_status r c b)) = en_domains (bu_e b)" "bu_err (add_status r c b) = bu_err b"
  by (simp_all add: add_status_def)

lemma fold_add_status_same: "en_rules (bu_e (fold (add_status r) cs b)) = en_rules (bu_e b)"
  "en_domains (bu_e (fold (add_status r) cs b)) = en_domains (bu_e b)" "bu_err (fold (add_status r) cs b) = bu_err b"
  by (induction cs arbitrary: b) (simp_all add: add_status_same)

lemma add_status_rules_same: "grows b (add_status_rules rs b)" "bu_err (add_status_rules rs b) = bu_err b"
proof -
  have "en_rules (bu_e (fold (\<lambda>r b. fold (add_status r) (sr_Start r) b) rs b)) = en_rules (bu_e b) \<and>
    en_domains (bu_e (fold (\<lambda>r b. fold (add_status r) (sr_Start r) b) rs b)) = en_domains (bu_e b) \<and>
    bu_err (fold (\<lambda>r b. fold (add_status r) (sr_Start r) b) rs b) = bu_err b" for b :: "'a Builder"
    by (induction rs arbitrary: b) (simp_all add: fold_add_status_same)
  then show "grows b (add_status_rules rs b)" "bu_err (add_status_rules rs b) = bu_err b"
    by (simp_all add: add_status_rules_def grows_def)
qed

lemma configStatusRule_same:
  "grows b (configStatusRule env r b) \<and> (bu_err b \<noteq> None \<longrightarrow> bu_err (configStatusRule env r b) \<noteq> None)"
proof (cases "bu_err b")
  case None
  obtain start b1 where s: "builder_classes (csr_Name r) (csr_Start r) b = (start, b1)" by fastforce
  have "bu_e b1 = bu_e b" using builder_classes_e s by (metis snd_conv)
  then show ?thesis using None s by (auto simp: configStatusRule_def grows_def fold_add_status_same split: sum.splits)
qed (simp add: configStatusRule_def grows_def)

lemma run_deferred_returns:
  assumes "deferred_ok f"
  shows "\<exists>b'. run_deferred env p f b = Returns b' \<and> grows b b' \<and> (bu_err b \<noteq> None \<longrightarrow> bu_err b' \<noteq> None) \<and>
    (bu_err b' = None \<longrightarrow> (\<forall>rs. f = Add_rules rs \<longrightarrow> set rs \<subseteq> set (en_rules (bu_e b'))))"
proof (cases f)
  case (Add_rules rs)
  then show ?thesis using builder_rules_returns [of rs env b] assms by (auto simp: run_deferred_def deferred_ok_def)
next
  case (Config_rule r)
  then show ?thesis using configRule_returns [of env p r b] by (auto simp: run_deferred_def)
next
  case (Add_status_rules rs)
  then show ?thesis by (simp add: run_deferred_def add_status_rules_same)
next
  case (Config_status r)
  then show ?thesis using configStatusRule_same [of b env r] by (simp add: run_deferred_def)
qed

text \<open>What is deferred is done or ends with an error.\<close>

lemma run_finally_returns:
  "list_all deferred_ok fs \<Longrightarrow> \<exists>b'. run_finally env p fs b = Returns b' \<and> grows b b' \<and>
     (bu_err b' = None \<longrightarrow> (fs \<noteq> [] \<longrightarrow> bu_err b = None) \<and>
        (\<forall>rs. Add_rules rs \<in> set fs \<longrightarrow> set rs \<subseteq> set (en_rules (bu_e b'))))"
proof (induction env p fs b rule: run_finally.induct)
  case (2 env p f fs b)
  then obtain b1 where b1: "run_deferred env p f b = Returns b1" "grows b b1" "bu_err b \<noteq> None \<longrightarrow> bu_err b1 \<noteq> None"
    "bu_err b1 = None \<longrightarrow> (\<forall>rs. f = Add_rules rs \<longrightarrow> set rs \<subseteq> set (en_rules (bu_e b1)))"
    using run_deferred_returns [of f env p b] by auto
  show ?case
  proof (cases "bu_err b1")
    case None
    with 2 b1(1) obtain b' where b': "run_finally env (Suc p) fs b1 = Returns b'" "grows b1 b'"
      "bu_err b' = None \<longrightarrow> (\<forall>rs. Add_rules rs \<in> set fs \<longrightarrow> set rs \<subseteq> set (en_rules (bu_e b')))" by auto
    have "set (en_rules (bu_e b1)) \<subseteq> set (en_rules (bu_e b'))" using b'(2) by (simp add: grows_def)
    with None b1 b' grows_trans [OF b1(2) b'(2)] show ?thesis by auto
  next
    case (Some err)
    with b1 show ?thesis by simp
  qed
qed (simp add: grows_def)

section \<open>The engine of a command\<close>

lemma builder_store_same:
  "builder_store env sc s b = Returns b' \<Longrightarrow> en_domains (bu_e b') = en_domains (bu_e b) \<and> bu_finally b' = bu_finally b"
  by (auto simp: builder_store_def Let_def split: sum.splits option.splits prod.splits)

lemma builder_StoreConfigs_same:
  "builder_StoreConfigs env scs b = Returns b' \<Longrightarrow>
     en_domains (bu_e b') = en_domains (bu_e b) \<and> bu_finally b' = bu_finally b \<and> (bu_err b \<noteq> None \<longrightarrow> b' = b)"
proof (induction env scs b rule: builder_StoreConfigs.induct)
  case (2 env sc scs b)
  show ?case
  proof (cases "bu_err b")
    case None
    with 2(2) obtain b1 where b1: "builder_store env (Some sc) None b = Returns b1"
      "builder_StoreConfigs env scs b1 = Returns b'"
      by (auto split: go.splits)
    with None 2(1) [OF _ b1] builder_store_same [OF b1(1)] show ?thesis by simp
  qed (use 2(2) in simp)
qed simp

text \<open>A builder whose deferred rules apply, with the domains and the error of another.\<close>

definition configured :: "'o Builder \<Rightarrow> 'o Builder \<Rightarrow> bool" where
  "configured b b' \<longleftrightarrow>
     en_domains (bu_e b') = en_domains (bu_e b) \<and> (list_all deferred_ok (bu_finally b) \<longrightarrow> list_all deferred_ok (bu_finally b')) \<and>
     (bu_err b \<noteq> None \<longrightarrow> bu_err b' \<noteq> None)"

lemma configured_trans: "configured a b \<Longrightarrow> configured b c \<Longrightarrow> configured a c"
  by (simp add: configured_def)

lemma builder_config_configured: "builder_config env c b = Returns b' \<Longrightarrow> configured b b'"
  using builder_StoreConfigs_same [of env "cf_Stores c" b]
  by (auto simp: builder_config_def configured_def deferred_ok_def list_all_iff Let_def split: go.splits if_splits)

lemma builder_Tuning_configured: "configured b (builder_Tuning t b)"
  by (simp add: builder_Tuning_def configured_def split: option.splits)

lemma builder_Configs_configured: "builder_Configs env n cs b = Returns b' \<Longrightarrow> configured b b'"
proof (induction env n cs b rule: builder_Configs.induct)
  case (2 env source c cs b)
  then obtain b1 where b1: "builder_config env c b = Returns b1" by (auto split: go.splits)
  note step = builder_config_configured [OF b1]
  show ?case
  proof (cases "bu_err b1")
    case None
    with 2 b1 have "configured (builder_Tuning (cf_Tuning c) b1) b'" by simp
    then show ?thesis using step builder_Tuning_configured configured_trans by blast
  next
    case (Some err)
    with 2 b1 step show ?thesis by (auto simp: configured_def)
  qed
qed (simp add: configured_def)

lemma builder_Config_configured:
  assumes "builder_Config env cs b = Returns b'"
  shows "configured b b'"
proof (cases "bu_err b")
  case None
  with assms show ?thesis by (auto simp: builder_Config_def intro: builder_Configs_configured)
next
  case (Some err)
  with assms show ?thesis by (simp add: builder_Config_def configured_def)
qed

lemma builder_Domains_first:
  "Domains_Get (en_domains (bu_e (builder_Domains env (d # ds) b))) (dom_Name d) \<noteq> None"
proof -
  have "grows (builder_Domains env [d] b) (builder_Domains env (d # ds) b)"
    using grows_Domains [of "builder_Domains env [d] b" env ds] grows_refl
    by (auto simp: Let_def split: option.splits if_splits)
  then show ?thesis using builder_Domains_one [of env d b] unfolding grows_def by blast
qed

lemma builder_Domains_all:
  "bu_err (builder_Domains env ds b) = None \<Longrightarrow> d \<in> set ds \<Longrightarrow>
     Domains_Get (en_domains (bu_e (builder_Domains env ds b))) (dom_Name d) \<noteq> None"
proof (induction env ds b rule: builder_Domains.induct)
  case (2 env d' ds b)
  show ?case
  proof (cases "d = d'")
    case True
    then show ?thesis using builder_Domains_first [of env d' ds b] by blast
  next
    case False
    with 2 show ?thesis by (auto simp: Let_def split: option.splits if_splits)
  qed
qed simp

lemma builder_Domains_finally: "bu_finally (builder_Domains env ds b) = bu_finally b"
  by (induction env ds b rule: builder_Domains.induct) (auto simp: Let_def split: option.splits)

lemma parse_templates_same:
  "en_domains (bu_e (parse_templates env ts b)) = en_domains (bu_e b) \<and> bu_finally (parse_templates env ts b) = bu_finally b"
  by (induction env ts b rule: parse_templates.induct) (auto split: option.splits)

lemma parse_templates_rules: "en_rules (bu_e (parse_templates env ts b)) = en_rules (bu_e b)"
  by (induction env ts b rule: parse_templates.induct) (auto split: option.splits)

lemma buildTemplateBase_same: "configured b (buildTemplateBase env b)" "bu_finally (buildTemplateBase env b) = bu_finally b"
  by (simp_all add: buildTemplateBase_def parse_templates_same configured_def)

lemma newRule_applicable:
  "newRule env d spec = Inr (Some r) \<Longrightarrow> qr_start r \<noteq> [] \<and> qr_goal r \<noteq> []"
  by (cases "classes d (rs_Start spec)"; cases "classes d (rs_Goal spec)")
    (auto simp: newRule_def NewQuickRule_def split: option.splits if_splits)

lemma quick_Rules_applicable:
  "quick_Rules unmarshal env d entries = Returns rs \<Longrightarrow> r \<in> set rs \<Longrightarrow> qr_start r \<noteq> [] \<and> qr_goal r \<noteq> []"
proof (induction unmarshal env d entries arbitrary: rs rule: quick_Rules.induct)
  case (2 unmarshal env d name qtpl entries)
  from 2(2) obtain specs rest where rest: "parseRuleAnnotations unmarshal qtpl = Inr specs"
    "quick_Rules unmarshal env d entries = Returns rest" "rs = new_rules env d specs @ rest"
    by (auto simp: go_bind_Returns_iff split: sum.splits)
  have "qr_start r \<noteq> [] \<and> qr_goal r \<noteq> []" if "r \<in> set (new_rules env d specs)"
    using that by (auto simp: new_rules_def dest: newRule_applicable [OF sym] split: sum.splits option.splits)
  with 2 rest show ?case by auto
qed simp

lemma quick_Rules_returns:
  "\<forall>(name, qtpl) \<in> set entries. \<exists>specs. parseRuleAnnotations unmarshal qtpl = Inr specs \<Longrightarrow>
     \<exists>rs. quick_Rules unmarshal env d entries = Returns rs"
  by (induction unmarshal env d entries rule: quick_Rules.induct) (auto split: sum.splits)

text \<open>The builder with the compiled rules, and what making its engine gives.\<close>

definition with_compiled ::
  "command_env \<Rightarrow> go_object quickRule list \<Rightarrow> go_object Builder \<Rightarrow> go_object Builder" where
  "with_compiled env rs b =
     builder_StatusRules (map compiled_status (StatusRules (co_analyze env) (en_domains (bu_e b))))
       (builder_Rules (map (compiled_rule env) rs) b)"

lemma with_compiled_simps: "bu_e (with_compiled env rs b) = bu_e b" "bu_err (with_compiled env rs b) = bu_err b"
  "bu_finally (with_compiled env rs b) = bu_finally b @ [Add_rules (map (compiled_rule env) rs),
     Add_status_rules (map compiled_status (StatusRules (co_analyze env) (en_domains (bu_e b))))]"
  by (simp_all add: with_compiled_def builder_StatusRules_def builder_Rules_def)

lemma compiled_Engine:
  assumes "list_all deferred_ok (bu_finally b)" and "\<forall>r \<in> set rs. qr_start r \<noteq> [] \<and> qr_goal r \<noteq> []"
  shows "\<exists>b'. builder_Engine be p (with_compiled env rs b) =
      Returns (((bu_e b')\<lparr>en_data := NewData (en_rules (bu_e b'))\<rparr>, bu_err b'), Build) \<and> grows b b' \<and>
    (bu_err b' = None \<longrightarrow> bu_err b = None \<and> compiled_rule env ` set rs \<subseteq> set (en_rules (bu_e b')))"
proof -
  let ?b = "buildTemplateBase be (with_compiled env rs b)"
  note same = buildTemplateBase_same [where env = be and b = "with_compiled env rs b"]
  have ok: "list_all deferred_ok (bu_finally (with_compiled env rs b))"
    using assms by (simp add: with_compiled_simps deferred_ok_def list_all_iff applicable_def compiled_rule_def)
  have grow: "grows b ?b"
    using same(1) parse_templates_rules [of be]
    by (simp add: grows_def configured_def with_compiled_simps buildTemplateBase_def)
  from run_finally_returns [OF ok, of be p ?b]
  obtain b' where b': "run_finally be p (bu_finally (with_compiled env rs b)) ?b = Returns b'" "grows ?b b'"
    "bu_err b' = None \<longrightarrow> (bu_finally (with_compiled env rs b) \<noteq> [] \<longrightarrow> bu_err ?b = None) \<and>
       (\<forall>rs'. Add_rules rs' \<in> set (bu_finally (with_compiled env rs b)) \<longrightarrow> set rs' \<subseteq> set (en_rules (bu_e b')))"
    by (elim exE conjE, intro that)
  have "bu_err b = None \<and> compiled_rule env ` set rs \<subseteq> set (en_rules (bu_e b'))" if "bu_err b' = None"
    using that b'(3) same(1) unfolding configured_def with_compiled_simps by force
  with b'(1) same(2) grows_trans [OF grow b'(2)] show ?thesis
    by (intro exI [of _ b']) (simp add: builder_Engine_def Let_def)
qed


section \<open>The web server\<close>

text \<open>The server listens as the flags say. With \<open>--https\<close> it listens there with the certificate and the TLS settings of
  the flags, and neither part of them may be missing; otherwise it listens in plain text, on \<open>:8080\<close> if no address is
  given, and then no flag for TLS may be set. Every other combination ends the command.\<close>

theorem web_server_spec:
  "web_server byName f = Done s \<longleftrightarrow>
     (if wf_https f \<noteq> []
      then wf_http f = [] \<and> wf_cert f \<noteq> [] \<and> wf_key f \<noteq> [] \<and>
        (\<exists>c. NewTLSConfig byName (wf_tlsMinVersion f) (wf_tlsCipherSuites f) (wf_tlsCurves f) = Inr c \<and>
           s = \<lparr>hs_Addr = wf_https f, hs_TLSConfig = c, hs_secure = True\<rparr>)
      else wf_cert f = [] \<and> wf_key f = [] \<and> wf_tlsMinVersion f = [] \<and> wf_tlsCipherSuites f = [] \<and> wf_tlsCurves f = [] \<and>
        s = \<lparr>hs_Addr = (if wf_http f = [] then '':8080'' else wf_http f), hs_TLSConfig = None, hs_secure = False\<rparr>)"
proof (cases "wf_https f = []")
  case True
  then show ?thesis by (auto simp: web_server_def Let_def)
next
  case False
  then show ?thesis
    by (cases "NewTLSConfig byName (wf_tlsMinVersion f) (wf_tlsCipherSuites f) (wf_tlsCurves f)")
      (auto simp: web_server_def Let_def)
qed

lemma expand_Tuning: "expand cs = Inr cs' \<Longrightarrow> map cf_Tuning cs' = map cf_Tuning cs"
proof -
  have gather: "gather cs am = Inr (cs', am') \<Longrightarrow> map cf_Tuning cs' = map cf_Tuning cs" for cs am cs' am'
    by (induction cs am arbitrary: cs' am' rule: gather.induct) (auto split: sum.splits)
  have "collect_results (expand_rules am) cs = Inr cs' \<Longrightarrow> map cf_Tuning cs' = map cf_Tuning cs" for am cs cs'
    by (induction cs arbitrary: cs') (auto simp: expand_rules_def split: sum.splits)
  then show "expand cs = Inr cs' \<Longrightarrow> map cf_Tuning cs' = map cf_Tuning cs"
    using gather by (fastforce simp: expand_def split: sum.splits)
qed

text \<open>The first configuration is the one that is asked for.\<close>

lemma config_Load_first:
  assumes "config_Load env fuel file = Some (Inr (c # cs))"
  shows "\<exists>c'. load_one env file = Inr c' \<and> cf_Tuning c = cf_Tuning c'"
proof -
  let ?l = "\<lparr>ld_loaded = {}, ld_configs = []\<rparr>"
  obtain l where l: "loader_load env fuel file ?l = Some (None, l)" "expand (ld_configs l) = Inr (c # cs)"
    using assms by (auto simp: config_Load_def split: option.splits)
  then obtain n c' where n: "fuel = Suc n" "load_one env file = Inr c'"
    "loader_includes env n file (cf_Include c') \<lparr>ld_loaded = {file}, ld_configs = [c']\<rparr> = Some (None, l)"
    by (cases fuel) (auto simp: Set_Has_def Set_Add_def Let_def split: sum.splits if_splits)
  have "loader_ok \<lparr>ld_loaded = {file}, ld_configs = [c']\<rparr>"
    using load_one_Source [OF n(2)] by (simp add: loader_ok_def)
  from loader_loads(2) [OF n(3) this] obtain new where "ld_configs l = c' # new" by (auto simp: loads_def)
  with expand_Tuning [OF l(2)] n(2) show ?thesis by auto
qed

text \<open>C28: Users share a session only when the command line or the top-level configuration says so; an included configuration
  cannot say it. Otherwise each has a session from the pool, or the command ends because tokens cannot be reviewed.\<close>

theorem web_sessions_isolated:
  assumes "config_Load lenv fuel file = Some loaded" and "web_sessions new tokenReview unsafe loaded = Done m"
  shows "(case m of
            SingleManager e \<Rightarrow>
              unsafe \<or> (\<exists>c t. load_one lenv file = Inr c \<and> cf_Tuning c = Some t \<and> tn_UnsafeSharedSession t)
          | PoolManager (pool, factory) \<Rightarrow> tokenReview = None \<and> \<not> unsafe \<and> pm_sessions pool = [])"
proof (cases loaded)
  case (Inr configs)
  show ?thesis
  proof (cases configs)
    case Nil
    with assms Inr show ?thesis
      by (auto simp: web_sessions_def cli_bind_Done_iff NewPool_def Let_def split: if_splits option.splits)
  next
    case (Cons c cs)
    obtain c' where "load_one lenv file = Inr c'" "cf_Tuning c = cf_Tuning c'"
      using config_Load_first assms(1) unfolding Inr Cons by blast
    with assms(2) Inr Cons show ?thesis
      by (auto simp: web_sessions_def cli_bind_Done_iff NewPool_def Let_def split: if_splits option.splits)
  qed
qed (use assms in \<open>simp add: web_sessions_def\<close>)

lemma web_sessions_isolated_witness:
  "let lenv = example_loader\<lparr>le_unmarshal := \<lambda>_. Inr ((example_config [])\<lparr>cf_Tuning := Some (zero_Tuning\<lparr>tn_UnsafeSharedSession := True\<rparr>)\<rparr>)\<rparr>
   in \<exists>loaded. config_Load lenv 1 ''/a'' = Some loaded \<and>
        web_sessions (\<lambda>_. Done (Inr example_engine)) None False loaded = Done (SingleManager example_engine) \<and>
        (\<exists>c t. load_one lenv ''/a'' = Inr c \<and> cf_Tuning c = Some t \<and> tn_UnsafeSharedSession t)"
proof -
  let ?lenv = "example_loader\<lparr>le_unmarshal := \<lambda>_. Inr ((example_config [])\<lparr>cf_Tuning := Some (zero_Tuning\<lparr>tn_UnsafeSharedSession := True\<rparr>)\<rparr>)\<rparr>"
  have load: "\<exists>c cs. config_Load ?lenv 1 ''/a'' = Some (Inr (c # cs)) \<and> cf_Tuning c = Some (zero_Tuning\<lparr>tn_UnsafeSharedSession := True\<rparr>)"
    by (simp add: config_Load_def load_one_def example_loader_def example_config_def Set_Has_def Set_Add_def expand_def
        expand_rules_def)
  then obtain loaded where l: "config_Load ?lenv 1 ''/a'' = Some loaded"
    "web_sessions (\<lambda>_. Done (Inr example_engine)) None False loaded = Done (SingleManager example_engine)"
    by (auto simp: web_sessions_def)
  from web_sessions_isolated [OF this]
  have "\<exists>c t. load_one ?lenv ''/a'' = Inr c \<and> cf_Tuning c = Some t \<and> tn_UnsafeSharedSession t" by simp
  with l show ?thesis by (simp add: Let_def)
qed

text \<open>A command with the network flow domain and one annotated rule.\<close>

definition example_qtpl :: string where
  "example_qtpl = ''name: NetflowToSrcK8s'' @ [CHR 0x0A] @ ''{% func NetflowToSrcK8s(o interface{}) %}'' @ [CHR 0x0A] @ ''{% endfunc %}''"

definition example_command_env :: command_env where
  "example_command_env = \<lparr>co_builder = \<lparr>be_same = (\<lambda>d e. dom_Name d = dom_Name e), be_domain = (\<lambda>c. netflow_Domain),
       be_store = (\<lambda>h. \<lparr>se_now = 0, se_later = 0, se_interval = second, se_expand = (\<lambda>_ s. Inr s),
         se_create = (\<lambda>_. Inl (ErrorString ''no store'')), se_mock = (\<lambda>_. Inl (ErrorString ''no store'')),
         se_get = (\<lambda>k q c. ([], None))\<rparr>),
       be_parse_base = (\<lambda>n t. None), be_parse_rule = (\<lambda>n t. Inr (\<lambda>x. Returns (Inr t))), be_apply_rule = (\<lambda>r x. Inr []),
       be_parse_status = (\<lambda>n t. Inr (\<lambda>x. Inr []))\<rparr>,
     co_All = [netflow_Domain],
     co_unmarshal = (\<lambda>_. Inr \<lparr>rs_Name = ''NetflowToSrcK8s'', rs_Start = \<lparr>qs_Domain = ''netflow'', qs_Classes = []\<rparr>,
       rs_Goal = \<lparr>qs_Domain = ''netflow'', qs_Classes = []\<rparr>\<rparr>),
     co_quick = example_quick_env, co_qtpl = [(''netflow.qtpl'', example_qtpl)], co_analyze = (\<lambda>_. None),
     co_Apply = (\<lambda>r x. Inr []), co_ptr = (\<lambda>r. 0)\<rparr>"


end
