(* ===== verification/Factories.thy ===== *)
theory Factories
  imports LogDomain Metric Incident Alert Sessions
begin

text \<open>
  How stores come to their clients: \<open>pkg/domains/k8s/client.go\<close> and the stores of \<open>k8s.go\<close>, and the \<open>Store\<close> factories of
  the domains metric, incident and alert; also the times and the preview of a log record (\<open>log.go\<close>).

  Parameters (\<open>cluster\<close>): the configuration of the cluster, clients made from it, discovery, and parsing and joining URLs.
\<close>

section \<open>client.go\<close>

text \<open>\<open>rc_wrapped\<close> is whether requests go through the round tripper of \<open>pkg/api/auth\<close>.\<close>

record rest_Config =
  rc_Host :: string
  rc_APIPath :: string
  rc_CAFile :: string
  rc_QPS :: nat
  rc_Burst :: nat
  rc_wrapped :: bool

record parsed_url =
  pu_Scheme :: string
  pu_Host :: string
  pu_Path :: string

record ('c, 'h) cluster =
  cl_config :: "rest_Config result"
  cl_NewWithWatch :: "rest_Config \<Rightarrow> 'c result"
  cl_HTTPClientFor :: "rest_Config \<Rightarrow> 'h result"
  cl_discovery :: "rest_Config \<Rightarrow> error option"
  cl_DefaultServerURL :: "string \<Rightarrow> string \<Rightarrow> string result"
  cl_ServerGroupsAndResources :: "APIGroup list \<times> (string \<times> APIResource list) list \<times> error option"
  cl_Parse :: "string \<Rightarrow> parsed_url result"
  cl_JoinPath :: "string \<Rightarrow> string \<Rightarrow> string result"
  cl_prometheus :: "parsed_url \<Rightarrow> 'h \<Rightarrow> error option"

definition kubeFlowLimit :: nat where "kubeFlowLimit = 1000"

definition k8s_GetConfig :: "('c, 'h) cluster \<Rightarrow> rest_Config result" where
  "k8s_GetConfig cl =
     (case cl_config cl of
        Inl err \<Rightarrow> Inl err
      | Inr cfg \<Rightarrow> Inr (cfg\<lparr>rc_QPS := kubeFlowLimit, rc_Burst := kubeFlowLimit, rc_wrapped := True\<rparr>))"

definition k8s_NewClient :: "('c, 'h) cluster \<Rightarrow> rest_Config option \<Rightarrow> 'c result" where
  "k8s_NewClient cl cfg =
     (case (case cfg of None \<Rightarrow> k8s_GetConfig cl | Some cfg \<Rightarrow> Inr cfg) of
        Inl err \<Rightarrow> Inl err
      | Inr cfg \<Rightarrow> cl_NewWithWatch cl cfg)"

definition k8s_NewHTTPClient :: "('c, 'h) cluster \<Rightarrow> smap \<Rightarrow> 'h result" where
  "k8s_NewHTTPClient cl s =
     (case k8s_GetConfig cl of
        Inl err \<Rightarrow> Inl err
      | Inr cfg \<Rightarrow>
          (let ca = smap_get s ''certificateAuthority''; cfg = (if ca \<noteq> [] then cfg\<lparr>rc_CAFile := ca\<rparr> else cfg)
           in cl_HTTPClientFor cl cfg))"

section \<open>The Kubernetes store\<close>

record 'c k8s_Store =
  ks_cfg :: rest_Config
  ks_c :: 'c
  ks_base :: string

text \<open>An error of discovery is only logged; the classes that were found are added. The domain is returned with them.\<close>

definition k8s_NewStoreWithDiscovery ::
  "('c, 'h) cluster \<Rightarrow> k8s_api \<Rightarrow> 'c \<Rightarrow> rest_Config \<Rightarrow> k8s_domain \<Rightarrow> 'c k8s_Store result \<times> k8s_domain" where
  "k8s_NewStoreWithDiscovery cl api c cfg d =
     (let host = (if rc_Host cfg = [] then ''localhost'' else rc_Host cfg)
      in case cl_DefaultServerURL cl host (rc_APIPath cfg) of
           Inl err \<Rightarrow> (Inl err, d)
         | Inr base \<Rightarrow>
             (let (groups, resources, err) = cl_ServerGroupsAndResources cl
              in (Inr \<lparr>ks_cfg = cfg, ks_c = c, ks_base = base\<rparr>, addClasses api groups resources d)))"

definition k8s_NewStore ::
  "('c, 'h) cluster \<Rightarrow> k8s_api \<Rightarrow> 'c option \<Rightarrow> rest_Config option \<Rightarrow> k8s_domain \<Rightarrow> 'c k8s_Store result \<times> k8s_domain" where
  "k8s_NewStore cl api c cfg d =
     (case (case cfg of None \<Rightarrow> k8s_GetConfig cl | Some cfg \<Rightarrow> Inr cfg) of
        Inl err \<Rightarrow> (Inl err, d)
      | Inr cfg \<Rightarrow>
          (case (case c of None \<Rightarrow> k8s_NewClient cl (Some cfg) | Some c \<Rightarrow> Inr c) of
             Inl err \<Rightarrow> (Inl err, d)
           | Inr c \<Rightarrow>
               (case cl_discovery cl cfg of
                  Some err \<Rightarrow> (Inl err, d)
                | None \<Rightarrow> k8s_NewStoreWithDiscovery cl api c cfg d)))"

definition k8s_domain_Store :: "('c, 'h) cluster \<Rightarrow> k8s_api \<Rightarrow> k8s_domain \<Rightarrow> 'c k8s_Store result \<times> k8s_domain" where
  "k8s_domain_Store cl api d = k8s_NewStore cl api None None d"

section \<open>Stores of Prometheus and Alertmanager\<close>

record ('c, 'h) metric_Store =
  mt_Client :: 'h
  mt_baseURL :: parsed_url
  mt_k8sClient :: 'c

definition metric_NewStore :: "('c, 'h) cluster \<Rightarrow> string \<Rightarrow> 'h \<Rightarrow> ('c, 'h) metric_Store result" where
  "metric_NewStore cl baseURL hc =
     (case cl_Parse cl baseURL of
        Inl err \<Rightarrow> Inl err
      | Inr u \<Rightarrow>
          (case k8s_NewClient cl None of
             Inl err \<Rightarrow> Inl (ErrorWrap ''failed to get k8s client: '' err [])
           | Inr c \<Rightarrow> Inr \<lparr>mt_Client = hc, mt_baseURL = u, mt_k8sClient = c\<rparr>))"

definition metric_domain_Store :: "('c, 'h) cluster \<Rightarrow> smap \<Rightarrow> ('c, 'h) metric_Store result" where
  "metric_domain_Store cl cs =
     (case k8s_NewHTTPClient cl cs of Inl err \<Rightarrow> Inl err | Inr hc \<Rightarrow> metric_NewStore cl (smap_get cs ''metric'') hc)"

definition newPrometheusClient :: "('c, 'h) cluster \<Rightarrow> parsed_url \<Rightarrow> 'h \<Rightarrow> (parsed_url \<times> 'h) result" where
  "newPrometheusClient cl u hc = (case cl_prometheus cl u hc of Some err \<Rightarrow> Inl err | None \<Rightarrow> Inr (u, hc))"

definition incident_NewStore :: "('c, 'h) cluster \<Rightarrow> parsed_url \<Rightarrow> 'h \<Rightarrow> (parsed_url \<times> 'h) result" where
  "incident_NewStore cl prometheusURL hc = newPrometheusClient cl prometheusURL hc"

definition incident_domain_Store :: "('c, 'h) cluster \<Rightarrow> smap \<Rightarrow> (parsed_url \<times> 'h) result" where
  "incident_domain_Store cl cs =
     (case cl_Parse cl (smap_get cs ''metrics'') of
        Inl err \<Rightarrow> Inl err
      | Inr metricsURL \<Rightarrow>
          (case k8s_NewHTTPClient cl cs of Inl err \<Rightarrow> Inl err | Inr hc \<Rightarrow> incident_NewStore cl metricsURL hc))"

text \<open>A client of Alertmanager sends its requests below \<open>ac_BasePath\<close>, which is fixed before the path is joined. The path of
  the URL is changed.\<close>

record 'h alertmanager_client =
  ac_Host :: string
  ac_BasePath :: string
  ac_Schemes :: "string list"
  ac_http :: 'h

definition DefaultBasePath :: string where "DefaultBasePath = ''/api/v2''"

definition strings_TrimSuffix :: "string \<Rightarrow> string \<Rightarrow> string" where
  "strings_TrimSuffix s suffix = (if strings_HasSuffix s suffix then take (length s - length suffix) s else s)"

definition newAlertmanagerClient ::
  "('c, 'h) cluster \<Rightarrow> parsed_url \<Rightarrow> 'h \<Rightarrow> 'h alertmanager_client result \<times> parsed_url" where
  "newAlertmanagerClient cl u hc =
     (let transport = \<lparr>ac_Host = pu_Host u, ac_BasePath = DefaultBasePath, ac_Schemes = [pu_Scheme u], ac_http = hc\<rparr>
      in case cl_JoinPath cl (strings_TrimSuffix (pu_Path u) DefaultBasePath) DefaultBasePath of
           Inl err \<Rightarrow> (Inl err, u)
         | Inr path \<Rightarrow> (Inr transport, u\<lparr>pu_Path := path\<rparr>))"

record ('c, 'h) alert_clients =
  at_alertmanagerAPI :: "'h alertmanager_client"
  at_prometheusAPI :: "parsed_url \<times> 'h"
  at_alertmanagerURL :: parsed_url
  at_lokiRulerURL :: parsed_url
  at_httpClient :: 'h
  at_k8sClient :: 'c

definition alert_NewStore ::
  "('c, 'h) cluster \<Rightarrow> parsed_url \<Rightarrow> parsed_url \<Rightarrow> parsed_url \<Rightarrow> 'h \<Rightarrow> ('c, 'h) alert_clients result" where
  "alert_NewStore cl alertmanagerURL prometheusURL lokiRulerURL hc =
     (case newAlertmanagerClient cl alertmanagerURL hc of
        (Inl err, _) \<Rightarrow> Inl err
      | (Inr am, alertmanagerURL) \<Rightarrow>
          (case newPrometheusClient cl prometheusURL hc of
             Inl err \<Rightarrow> Inl err
           | Inr prom \<Rightarrow>
               (case k8s_NewClient cl None of
                  Inl err \<Rightarrow> Inl (ErrorWrap ''failed to get k8s client: '' err [])
                | Inr c \<Rightarrow>
                    Inr \<lparr>at_alertmanagerAPI = am, at_prometheusAPI = prom, at_alertmanagerURL = alertmanagerURL,
                         at_lokiRulerURL = lokiRulerURL, at_httpClient = hc, at_k8sClient = c\<rparr>)))"

definition alert_domain_Store :: "('c, 'h) cluster \<Rightarrow> smap \<Rightarrow> ('c, 'h) alert_clients result" where
  "alert_domain_Store cl cs =
     (case cl_Parse cl (smap_get cs ''metrics'') of
        Inl err \<Rightarrow> Inl err
      | Inr metricsURL \<Rightarrow>
          (case cl_Parse cl (smap_get cs ''alertmanager'') of
             Inl err \<Rightarrow> Inl err
           | Inr alertmanagerURL \<Rightarrow>
               (case cl_Parse cl (smap_get cs ''lokiRuler'') of
                  Inl err \<Rightarrow> Inl err
                | Inr lokiRulerURL \<Rightarrow>
                    (case k8s_NewHTTPClient cl cs of
                       Inl err \<Rightarrow> Inl err
                     | Inr hc \<Rightarrow> alert_NewStore cl alertmanagerURL metricsURL lokiRulerURL hc))))"

text \<open>The log domain: the direct store reads from the cluster with a client set for its configuration.\<close>

definition newDirectStore :: "(rest_Config \<Rightarrow> error option) \<Rightarrow> 'c k8s_Store \<Rightarrow> error option" where
  "newDirectStore clientset ks = clientset (ks_cfg ks)"

definition log_domain_Store ::
  "('c, 'h) cluster \<Rightarrow> k8s_api \<Rightarrow> (rest_Config \<Rightarrow> error option) \<Rightarrow> smap \<Rightarrow> k8s_domain \<Rightarrow> log_store list result \<times> k8s_domain" where
  "log_domain_Store cl api clientset cs d =
     (case k8s_NewStore cl api None None d of
        (Inl err, d) \<Rightarrow> (Inl err, d)
      | (Inr ks, d) \<Rightarrow>
          (log_NewStore (\<lambda>u. case cl_Parse cl u of Inl err \<Rightarrow> Some err | Inr _ \<Rightarrow> None)
             (case k8s_NewHTTPClient cl cs of Inl err \<Rightarrow> Some err | Inr _ \<Rightarrow> None) (newDirectStore clientset ks) cs, d))"

section \<open>Times of log records\<close>

definition log_ParseTime :: "(string \<Rightarrow> time result) \<Rightarrow> string \<Rightarrow> time result" where
  "log_ParseTime rfc3339Nano ts =
     (case rfc3339Nano ts of
        Inr tt \<Rightarrow> Inr tt
      | Inl err \<Rightarrow> (let (n, ok) = ParseInt ts in if ok then Inr (time_Unix (word_of_int n)) else Inl err))"

definition log_Body :: "smap \<Rightarrow> string" where
  "log_Body x = smap_get x ''body''"

definition log_ObservedTimestamp :: "(string \<Rightarrow> time result) \<Rightarrow> smap \<Rightarrow> time result" where
  "log_ObservedTimestamp rfc3339Nano x = log_ParseTime rfc3339Nano (smap_get x ''observed_timestamp'')"

definition log_Timestamp :: "(string \<Rightarrow> time result) \<Rightarrow> smap \<Rightarrow> time result" where
  "log_Timestamp rfc3339Nano x = log_ParseTime rfc3339Nano (smap_get x ''timestamp'')"

definition log_SortTime :: "(string \<Rightarrow> time result) \<Rightarrow> smap \<Rightarrow> time result" where
  "log_SortTime rfc3339Nano x =
     (case log_ParseTime rfc3339Nano (smap_get x ''timestamp'') of
        Inr ts \<Rightarrow> Inr ts
      | Inl _ \<Rightarrow> log_ParseTime rfc3339Nano (smap_get x ''observed_timestamp''))"

definition log_Preview :: "smap option \<Rightarrow> string" where
  "log_Preview x = (case x of Some x \<Rightarrow> smap_get x ''body'' | None \<Rightarrow> [])"

section \<open>What the clients do\<close>

text \<open>Every client that a store gets by default hands on the token of the request it works for.\<close>

lemma GetConfig_wrapped: "k8s_GetConfig cl = Inr cfg \<Longrightarrow> rc_wrapped cfg"
  by (auto simp: k8s_GetConfig_def split: sum.splits)

lemma NewHTTPClient_wrapped:
  assumes "k8s_NewHTTPClient cl s = Inr hc"
  shows "\<exists>cfg. rc_wrapped cfg \<and> cl_HTTPClientFor cl cfg = Inr hc"
proof -
  obtain cfg where cfg: "k8s_GetConfig cl = Inr cfg" "rc_wrapped cfg"
    using assms GetConfig_wrapped by (cases "k8s_GetConfig cl") (auto simp: k8s_NewHTTPClient_def)
  let ?ca = "smap_get s ''certificateAuthority''"
  from cfg assms show ?thesis
    by (intro exI [of _ "if ?ca \<noteq> [] then cfg\<lparr>rc_CAFile := ?ca\<rparr> else cfg"]) (simp add: k8s_NewHTTPClient_def Let_def)
qed

lemma NewStore_wrapped:
  assumes "k8s_domain_Store cl api d = (Inr s, d')"
  shows "rc_wrapped (ks_cfg s) \<and> cl_NewWithWatch cl (ks_cfg s) = Inr (ks_c s)"
  using assms
  by (auto simp: k8s_domain_Store_def k8s_NewStore_def k8s_NewClient_def k8s_NewStoreWithDiscovery_def Let_def
      dest: GetConfig_wrapped split: sum.splits option.splits prod.splits)

text \<open>The path of the URL of Alertmanager is joined too late: its client never uses it.\<close>

lemma newAlertmanagerClient_ignores_path:
  "newAlertmanagerClient cl u hc = (Inr am, u') \<Longrightarrow> ac_BasePath am = ''/api/v2''"
  by (auto simp: newAlertmanagerClient_def DefaultBasePath_def Let_def split: sum.splits)

text \<open>A time in nanoseconds is read back.\<close>

lemma log_ParseTime_nanoseconds:
  "rfc3339Nano (show_int (sint i)) = Inl err \<Longrightarrow> log_ParseTime rfc3339Nano (show_int (sint i)) = Inr (time_Unix i)"
  by (simp add: log_ParseTime_def ParseInt_int64)

text \<open>A record without a time of its own is sorted by when it was seen.\<close>

lemma log_SortTime_observed:
  assumes "log_Timestamp rfc3339Nano x = Inl err"
  shows "log_SortTime rfc3339Nano x = log_ObservedTimestamp rfc3339Nano x"
  using assms by (simp add: log_SortTime_def log_Timestamp_def log_ObservedTimestamp_def)

end
