(* ===== verification/Spec2Isabelle.thy ===== *)
theory Spec2Isabelle
  imports Limits RuleLines RuleTexts Assembly Nearby Pool Routing Metrics MockConfig Docgen Server Factories
begin

text \<open>
  Korrel8r finds signals and resources of a cluster that belong together. \<^bold>\<open>Domains\<close> (logs, metrics, alerts, Kubernetes
  resources, traces, network flows, incidents) have classes of objects, a syntax of queries, and stores that answer
  them. \<^bold>\<open>Rules\<close> give queries of goal classes for an object of a start class. The classes and rules are the graph that an
  \<^bold>\<open>engine\<close> searches: a \<^bold>\<open>traversal\<close> starts with objects and queries, runs the queries on the stores, applies rules to
  what is found, and so on, with several workers at once, to the neighbours of the start up to a depth or to goal
  classes. The REST API, the MCP tools and the command line take a start and give the graph that was found. A web server
  keeps an engine for each user in a \<^bold>\<open>session\<close>.

  This library models the Go implementation under \<open>src/\<close> function by function, and proves what makes its parts correct.
  All definitions that model code are executable; what is proved rests on no axiom and no assumption other than
  those in the statements.

  \<^bold>\<open>How the code is modelled.\<close> The conventions are in \<open>Prelude\<close>: a result \<open>(T, error)\<close> is \<open>error + 'a\<close>, a function that may
  panic gives a value of \<open>'a go\<close> (and a command that may exit one of \<open>cli\<close>), nil-able values are options, strings are
  lists of bytes, a Go map is a partial function or, where the code ranges over it, an association list in the order of
  that run. Times and durations are integers in nanoseconds; 64-bit arithmetic that can wrap is on words (\<open>Wire\<close>).
  Structs are records and keep their names, methods are named after their type. State is passed and
  returned; goroutines are interleaved steps, one for each critical section of the code.

  \<^bold>\<open>Theories and sources\<close>, from the bottom up:

  \<^item> \<open>Prelude\<close>: Go values, strings and maps, and lemmas on them. \<open>Containers\<close> (\<open>pkg/unique\<close>, \<open>pkg/ptr\<close>, \<open>pkg/slices\<close>,
    \<open>internal/pkg/cache\<close>); its locale \<open>expiring_cache\<close> is the contract of a cache with a time to live. \<open>Results\<close>
    (\<open>pkg/result\<close>): the locales \<open>result_store\<close> and \<open>dedup_store\<close> are what every collector of objects promises, and the list, the
    set, the result of a class and the shared result with its waiting readers are interpretations.
  \<^item> \<open>Names\<close>, \<open>Constraints\<close>, \<open>Domains\<close>, \<open>Registry\<close> (\<open>pkg/korrel8r\<close>, \<open>pkg/korrel8r/impl\<close>): names of classes and queries and
    their parsing, limits and intervals, the interface of a domain with its laws (locale \<open>domain_laws\<close>, interpreted for
    every domain of the program), and the registry that interns queries under concurrent calls.
  \<^item> \<open>Rules\<close> (\<open>pkg/rules\<close>, \<open>pkg/status\<close>), \<open>Stores\<close> (\<open>pkg/engine/stores.go\<close>): stores that reconnect on demand, with errors
    counted and a time to wait after each. \<open>Config\<close> (\<open>pkg/config\<close>): aliases and the loader of included files.
    \<open>Graph\<close> (\<open>pkg/graph\<close>): nodes, lines and sub-graphs.
  \<^item> \<open>Traverse\<close> (\<open>pkg/engine/traverse\<close>): the queue, the workers, the main goroutine and their sections as the step relation
    \<open>run_step\<close>. \<open>Quiescence\<close>: the wait group. \<open>Closure\<close> and \<open>Complete\<close>: no query is executed twice, no object claimed twice,
    and a finished traversal has exactly what can be derived. \<open>Liveness\<close>: it ends. \<open>Limits\<close>: the bound on queries.
    \<open>Scope\<close> and \<open>Nearby\<close>: the lines that \<open>Goals\<close> and \<open>Neighbors\<close> follow, and what a search finds with a depth.
  \<^item> \<open>Dynamic\<close> (values of unknown type, helpers of the rules), \<open>Wire\<close> (\<open>internal/pkg/types\<close>), \<open>Loki\<close>
    (\<open>internal/pkg/loki\<close>), and the domains \<open>K8s\<close>, \<open>LogDomain\<close>, \<open>Netflow\<close>, \<open>Metric\<close> (with \<open>internal/pkg/prometheus\<close>), \<open>Trace\<close>,
    \<open>Incident\<close>, \<open>Alert\<close> (\<open>pkg/domains\<close>). \<open>Factories\<close>: how their clients and stores are made from a configuration.
    \<open>Mock\<close> and \<open>MockConfig\<close> (\<open>internal/pkg/test/mock\<close>): the mock domain that can stand for any store.
  \<^item> \<open>QuickObjects\<close>, \<open>RulesK8s\<close>, \<open>RulesKubevirt\<close>, \<open>RulesSignals\<close> (\<open>pkg/rules/quickrules/*.qtpl.go\<close>): one definition for each
    compiled rule. \<open>RuleTexts\<close>: their text functions. \<open>QuickRules\<close>: annotations, the registry and the status rules.
    \<open>RuleLines\<close>: the classes of the queries they write.
  \<^item> \<open>Engine\<close> and \<open>Assembly\<close> (\<open>pkg/engine\<close>): the builder with its sticky error and deferred rules, the engine and its template
    functions, and what the builder promises.
  \<^item> \<open>Sessions\<close>, \<open>Pool\<close> (\<open>pkg/api/auth\<close>, \<open>pkg/tokenreview\<close>, \<open>pkg/session/session.go\<close>): tokens, users, and the sessions of
    concurrent calls. \<open>Console\<close> (\<open>pkg/session/console.go\<close>): the console of a session and its listeners.
  \<^item> \<open>Rest\<close>, \<open>Handlers\<close> (\<open>pkg/rest\<close>, \<open>pkg/api\<close>): conversions and handlers. \<open>Events\<close>: the stream of console events, whose
    listener is one of \<open>Console\<close> (\<open>ConsoleEvents_steps\<close>), with the locale \<open>event_writer\<close> for what its calls keep. \<open>Url\<close>: \<open>net/url\<close> as far as it is used. \<open>Mcp\<close>
    (\<open>pkg/mcp\<close>): the client of the API and the tools. \<open>Routing\<close> (\<open>pkg/rest/gen-openapi.go\<close>): parameters, routes and the router.
    \<open>Metrics\<close> (\<open>pkg/rest/metrics.go\<close>, \<open>internal/pkg/mcp/metrics.go\<close>): the middlewares that count.
  \<^item> \<open>Support\<close> (\<open>internal/pkg/tlsprofile\<close>, \<open>internal/pkg/enumflag\<close>, \<open>pkg/otel/value.go\<close>), \<open>Command\<close> and \<open>Server\<close>
    (\<open>cmd/korrel8r\<close>), \<open>Docgen\<close> (\<open>cmd/korrel8r-docgen\<close>).

  \<^bold>\<open>How the parts interact.\<close> A command or the web server makes an engine (\<open>newEngineWithConfigs\<close>): the builder takes the
  domains, the configurations the loader read, and the compiled rules. A request is routed (\<open>rest_New\<close>), its
  parameters are bound (\<open>siw_Objects\<close> and the other operations), its session is that of its token (\<open>poolManager\<close>), and the handler calls
  \<open>TraverseStart\<close> and the traversal, which calls the engine's stores (\<open>engine_Get\<close>, \<open>storeHolder_Get\<close>) and its rules
  (\<open>applyFuncs\<close> among them), and is shown as \<open>NewGraph\<close>. A tool is a client of the same router.

  \<^bold>\<open>What the properties show\<close>, by the number in front of their text:

  \<^item> The traversal, in every interleaving of its goroutines: when the main goroutine stops waiting nothing is left to do (C1);
    queries are executed and objects claimed once (C2, C3); it finds only and all that can be derived (C4, C5); it terminates, cannot
    deadlock and keeps to the limit of queries up to the number of workers (C6 to C8); neighbourhood searches stay within
    their depth but depend on the schedule (C9, C10); the scopes are as specified (C11, C12).
  \<^item> Every query of a compiled rule is of its goal (C13). The builder and the engine keep their invariants and do not panic (C14 to
    C16), also for the commands (C26).
  \<^item> Sessions belong to one user, and what can be lost (C17 to C20, C28).
  \<^item> The API: every HTTP request has one complete response (C21), a tool gets the answer of its operation through URL, routes
    and codes (C22), parameters survive the URL (C23), graphs are closed and starts checked (C24, C25, C27).
  \<^item> Results, names, the registry, stores, configuration, graphs and domains: C29 to C40.

  Two kinds of termination are proved. The traversal has no fuel: its runs are sequences of steps, and it is proved that
  there is no infinite run and that a run can always go on until it is finished. The loader of configurations has fuel, since
  files can include each other: \<open>config_Load_terminates\<close> shows that one more than the number of sources is enough.
  All other loops are structural recursions, or have a measure (\<open>schemaType\<close>).

  \<^bold>\<open>Parameters.\<close> Code that is not under \<open>src/\<close> is an argument of the definitions that use it, in a record for each part
  (\<open>trav_env\<close>, \<open>store_env\<close>, \<open>builder_env\<close>, \<open>handler_env\<close>, \<open>client_env\<close>, \<open>cluster\<close> and others): the Kubernetes, Prometheus, Alertmanager
  and HTTP clients, JSON and YAML, \<open>text/template\<close>, the PromQL parser, the clock, the binding of parameters
  (\<open>binders\<close>), and gonum's multigraphs, breadth-first walks and shortest paths (\<open>multigraph_laws\<close>, with an instance on
  lists). Gin, quicktemplate's writer, \<open>net/url\<close> and \<open>strings\<close> are their documented behaviour.

  \<^bold>\<open>Not modelled\<close>, and why: log output, profiling and the instruments of OpenTelemetry, which the program does not
  read back; declarations of command-line flags, shutdown and the alignment of text columns, which are calls of libraries; the
  OpenAPI document and the JSON decoder generated for it in \<open>pkg/api/gen-openapi.go\<close>; the server of the MCP protocol, a
  library; GraphViz attributes and the iterators of gonum; garbage collection of weak references; one-line wrappers of
  the JSON and YAML libraries; and the fixtures, benchmarks and builders of tests.
\<close>

end
